(* ===== verification/Prelude.thy ===== *)
theory Prelude
  imports Main "HOL-Library.Signed_Division"
begin

text \<open>
  Shared layer of the development.

  \<^item> \<open>js_error\<close> and \<open>'a result\<close>: everything in the TypeScript code that throws (a method
    call on \<open>undefined\<close>, a division by zero inside \<open>BigNumber\<close>, a failed chai assertion, a
    \<open>throw\<close>, a reverted transaction, \<open>process.exit\<close>) is a value of the error side of a sum.
  \<^item> \<open>rbind\<close>: sequencing; the first error ends the computation, as an exception does.
  \<^item> \<open>getf\<close>: reading a property of an object whose fields may still be \<open>undefined\<close>.
  \<^item> JavaScript objects used as dictionaries are association lists in insertion order
    (\<open>obj_get\<close>, \<open>obj_set\<close>, \<open>obj_keys\<close>), because the code iterates \<open>Object.keys\<close> and
    \<open>Object.entries\<close> and depends on that order.
\<close>

section \<open>Errors as values\<close>

datatype js_error =
    TypeError
  | DivisionByZero
  | AssertionError string
  | Thrown string
  | Reverted string
  | ProcessExit int

type_synonym 'a result = "js_error + 'a"

named_theorems result_simps \<open>rewriting of the error monad\<close>

definition rbind :: "'a result \<Rightarrow> ('a \<Rightarrow> 'b result) \<Rightarrow> 'b result" where
  "rbind m f = (case m of Inl e \<Rightarrow> Inl e | Inr x \<Rightarrow> f x)"

lemma rbind_Inr [simp, result_simps]: "rbind (Inr x) f = f x"
  by (simp add: rbind_def)

lemma rbind_Inl [simp, result_simps]: "rbind (Inl e) f = Inl e"
  by (simp add: rbind_def)

lemma rbind_return [simp]: "rbind m Inr = m"
  by (cases m) simp_all

lemma rbind_assoc: "rbind (rbind m f) g = rbind m (\<lambda>x. rbind (f x) g)"
  by (cases m) simp_all

lemma rbind_eq_Inr: "rbind m f = Inr y \<longleftrightarrow> (\<exists>x. m = Inr x \<and> f x = Inr y)"
  by (cases m) simp_all

lemma rbind_eq_Inl: "rbind m f = Inl e \<longleftrightarrow> m = Inl e \<or> (\<exists>x. m = Inr x \<and> f x = Inl e)"
  by (cases m) simp_all

lemma rbind_cong [fundef_cong]:
  "m = m' \<Longrightarrow> (\<And>x. m' = Inr x \<Longrightarrow> f x = f' x) \<Longrightarrow> rbind m f = rbind m' f'"
  by (cases m') simp_all

definition ok :: "'a result \<Rightarrow> bool" where
  "ok m \<longleftrightarrow> (case m of Inl _ \<Rightarrow> False | Inr _ \<Rightarrow> True)"

lemma ok_Inr [simp]: "ok (Inr x)"
  and ok_Inl [simp]: "\<not> ok (Inl e)"
  by (simp_all add: ok_def)

lemma ok_iff: "ok m \<longleftrightarrow> (\<exists>x. m = Inr x)"
  by (cases m) simp_all

lemma ok_rbind: "ok (rbind m f) \<longleftrightarrow> (\<exists>x. m = Inr x \<and> ok (f x))"
  by (cases m) simp_all

text \<open>A check that throws when its condition fails (\<open>if (!c) throw e\<close>).\<close>

definition ensure :: "bool \<Rightarrow> js_error \<Rightarrow> unit result" where
  "ensure c e = (if c then Inr () else Inl e)"

lemma ensure_True [simp]: "ensure True e = Inr ()"
  and ensure_False [simp]: "ensure False e = Inl e"
  by (simp_all add: ensure_def)

lemma ensure_eq_Inr [simp]: "ensure c e = Inr u \<longleftrightarrow> c"
  by (simp add: ensure_def)

lemma ensure_eq_Inl [simp]: "ensure c e = Inl e' \<longleftrightarrow> \<not> c \<and> e' = e"
  by (auto simp: ensure_def)

text \<open>Reading a property: a method call on an undefined value is a \<open>TypeError\<close>.\<close>

fun getf :: "'a option \<Rightarrow> 'a result" where
  "getf None = Inl TypeError"
| "getf (Some x) = Inr x"

lemma getf_eq_Inr [simp]: "getf v = Inr x \<longleftrightarrow> v = Some x"
  by (cases v) simp_all

lemma getf_eq_Inl [simp]: "getf v = Inl e \<longleftrightarrow> v = None \<and> e = TypeError"
  by (cases v) auto

lemma ok_getf [simp]: "ok (getf v) \<longleftrightarrow> v \<noteq> None"
  by (cases v) simp_all

lemmas result_inv = rbind_eq_Inr getf_eq_Inr ensure_eq_Inr

text \<open>A missing string and an empty string are both falsy.\<close>

definition truthy :: "string option \<Rightarrow> bool" where
  "truthy v \<longleftrightarrow> (case v of None \<Rightarrow> False | Some s \<Rightarrow> s \<noteq> [])"

section \<open>Loops that may throw\<close>

text \<open>
  \<open>mapM\<close> is \<open>xs.map(f)\<close> for an \<open>f\<close> that may throw; \<open>foldM\<close> is a \<open>for\<close> loop whose body
  updates a state and may throw.
\<close>

fun mapM :: "('a \<Rightarrow> 'b result) \<Rightarrow> 'a list \<Rightarrow> 'b list result" where
  "mapM f [] = Inr []"
| "mapM f (x # xs) = rbind (f x) (\<lambda>y. rbind (mapM f xs) (\<lambda>ys. Inr (y # ys)))"

fun foldM :: "('s \<Rightarrow> 'a \<Rightarrow> 's result) \<Rightarrow> 's \<Rightarrow> 'a list \<Rightarrow> 's result" where
  "foldM f s [] = Inr s"
| "foldM f s (x # xs) = rbind (f s x) (\<lambda>s'. foldM f s' xs)"

lemma mapM_eq_Inr_iff:
  "mapM f xs = Inr ys \<longleftrightarrow> list_all2 (\<lambda>x y. f x = Inr y) xs ys"
proof (induction xs arbitrary: ys)
  case Nil
  then show ?case by auto
next
  case (Cons x xs)
  show ?case
    by (cases ys) (auto simp: rbind_eq_Inr Cons.IH)
qed

lemma mapM_length: "mapM f xs = Inr ys \<Longrightarrow> length ys = length xs"
  by (auto simp: mapM_eq_Inr_iff dest: list_all2_lengthD)

lemma foldM_append: "foldM f s (xs @ ys) = rbind (foldM f s xs) (\<lambda>s'. foldM f s' ys)"
  by (induction xs arbitrary: s) (simp_all add: rbind_assoc)

lemma foldM_invariant:
  assumes "P s" and "\<And>s x s'. P s \<Longrightarrow> x \<in> set xs \<Longrightarrow> f s x = Inr s' \<Longrightarrow> P s'"
    and "foldM f s xs = Inr s'"
  shows "P s'"
  using assms
proof (induction xs arbitrary: s)
  case Nil
  then show ?case by simp
next
  case (Cons x xs)
  from Cons.prems(3) obtain t where t: "f s x = Inr t" "foldM f t xs = Inr s'"
    by (auto simp: rbind_eq_Inr)
  have "P t" using Cons.prems(1) Cons.prems(2)[OF Cons.prems(1) _ t(1)] by simp
  moreover have "\<And>s x s'. P s \<Longrightarrow> x \<in> set xs \<Longrightarrow> f s x = Inr s' \<Longrightarrow> P s'"
    using Cons.prems(2) by (metis list.set_intros(2))
  ultimately show ?case using Cons.IH t(2) by blast
qed

section \<open>JavaScript objects as dictionaries\<close>

text \<open>
  Insertion-ordered association lists. \<open>obj_set\<close> keeps the place of an existing key and
  appends a new one, as assignment to a property does (the keys here are symbols and names,
  never the integer-like strings that JavaScript would order numerically).
\<close>

type_synonym 'v obj = "(string \<times> 'v) list"

definition obj_get :: "'v obj \<Rightarrow> string \<Rightarrow> 'v option" where
  "obj_get ob k = map_of ob k"

fun obj_set :: "'v obj \<Rightarrow> string \<Rightarrow> 'v \<Rightarrow> 'v obj" where
  "obj_set [] k v = [(k, v)]"
| "obj_set ((k', v') # ob) k v = (if k' = k then (k, v) # ob else (k', v') # obj_set ob k v)"

definition obj_keys :: "'v obj \<Rightarrow> string list" where
  "obj_keys ob = map fst ob"

lemma obj_keys_Nil [simp]: "obj_keys [] = []"
  and obj_keys_Cons [simp]: "obj_keys (p # ob) = fst p # obj_keys ob"
  by (simp_all add: obj_keys_def)

lemma obj_get_Nil [simp]: "obj_get [] k = None"
  by (simp add: obj_get_def)

lemma obj_get_Cons [simp]: "obj_get ((k', v) # ob) k = (if k' = k then Some v else obj_get ob k)"
  by (simp add: obj_get_def)

lemma obj_get_set [simp]: "obj_get (obj_set ob k v) k' = (if k' = k then Some v else obj_get ob k')"
  by (induction ob k v rule: obj_set.induct) auto

lemma obj_keys_set [simp]: "set (obj_keys (obj_set ob k v)) = insert k (set (obj_keys ob))"
  by (induction ob k v rule: obj_set.induct) auto

lemma obj_keys_set_mem: "k \<in> set (obj_keys ob) \<Longrightarrow> obj_keys (obj_set ob k v) = obj_keys ob"
  by (induction ob k v rule: obj_set.induct) auto

lemma obj_keys_set_fresh: "k \<notin> set (obj_keys ob) \<Longrightarrow> obj_keys (obj_set ob k v) = obj_keys ob @ [k]"
  by (induction ob k v rule: obj_set.induct) auto

lemma distinct_obj_set: "distinct (obj_keys ob) \<Longrightarrow> distinct (obj_keys (obj_set ob k v))"
  by (cases "k \<in> set (obj_keys ob)") (auto simp: obj_keys_set_mem obj_keys_set_fresh)

lemma obj_get_None_iff: "obj_get ob k = None \<longleftrightarrow> k \<notin> set (obj_keys ob)"
  by (simp add: obj_get_def obj_keys_def map_of_eq_None_iff)

lemma obj_get_Some_mem: "obj_get ob k = Some v \<Longrightarrow> (k, v) \<in> set ob"
  by (auto simp: obj_get_def dest: map_of_SomeD)

text \<open>
  \<open>entry_of ob k\<close> is the idiom
  \<open>const [, v] = Object.entries(ob)[Object.keys(ob).findIndex((x) => x === k)]\<close>: the index is
  -1 for a missing key, and destructuring the undefined entry is a \<open>TypeError\<close>.
\<close>

fun find_index :: "('a \<Rightarrow> bool) \<Rightarrow> 'a list \<Rightarrow> int" where
  "find_index p [] = -1"
| "find_index p (x # xs) = (if p x then 0
     else (let i = find_index p xs in if i = -1 then -1 else i + 1))"

definition at_index :: "'a list \<Rightarrow> int \<Rightarrow> 'a option" where
  "at_index xs i = (if 0 \<le> i \<and> i < int (length xs) then Some (xs ! nat i) else None)"

definition entry_of :: "'v obj \<Rightarrow> string \<Rightarrow> 'v result" where
  "entry_of ob k = rbind (getf (at_index ob (find_index (\<lambda>value. value = k) (obj_keys ob))))
     (\<lambda>entry. Inr (snd entry))"

lemma find_index_ge: "-1 \<le> find_index p xs"
  by (induction xs) (auto simp: Let_def)

lemma at_index_Cons: "0 \<le> i \<Longrightarrow> at_index (x # xs) (i + 1) = at_index xs i"
  by (auto simp: at_index_def nat_add_distrib)

lemma at_index_Cons_0 [simp]: "at_index (x # xs) 0 = Some x"
  and at_index_neg [simp]: "at_index xs (- 1) = None"
  by (simp_all add: at_index_def)

lemma entry_of_get: "entry_of ob k = getf (obj_get ob k)"
proof (induction ob)
  case Nil
  then show ?case by (simp add: entry_of_def obj_keys_def)
next
  case (Cons p ob)
  obtain k' v where p: "p = (k', v)" by (cases p)
  let ?i = "find_index (\<lambda>value. value = k) (map fst ob)"
  show ?case
  proof (cases "k' = k \<or> ?i = -1")
    case True
    with Cons.IH show ?thesis by (auto simp: entry_of_def p Let_def obj_keys_def)
  next
    case False
    with find_index_ge[of "\<lambda>value. value = k" "map fst ob"] have "0 \<le> ?i" by linarith
    with False Cons.IH show ?thesis
      by (simp add: entry_of_def obj_keys_def p Let_def at_index_Cons)
  qed
qed

end
