(* ===== verification/Constants.thy ===== *)
theory Constants
  imports Prelude
begin

text \<open>
  The numeric and address constants of \<open>helpers/constants.ts\<close>. The TypeScript code keeps them
  as decimal strings and hands them to \<open>BigNumber.from\<close>; here they are the integers those
  strings denote. Each is a definition with an unfolding rule in \<open>const_simps\<close>, so that
  algebraic proofs see the names and evaluation sees the numbers.
\<close>

named_theorems const_simps \<open>numeric values of the protocol constants\<close>

definition PERCENTAGE_FACTOR :: int where "PERCENTAGE_FACTOR = 10000"

definition HALF_PERCENTAGE :: int where "HALF_PERCENTAGE = 5000"

definition MAX_UINT_AMOUNT :: int where
  "MAX_UINT_AMOUNT = 115792089237316195423570985008687907853269984665640564039457584007913129639935"

definition ZERO_ADDRESS :: string where
  "ZERO_ADDRESS = ''0x0000000000000000000000000000000000000000''"

definition ONE_ADDRESS :: string where
  "ONE_ADDRESS = ''0x0000000000000000000000000000000000000001''"

definition WAD :: int where "WAD = 10 ^ 18"

definition HALF_WAD :: int where "HALF_WAD = WAD sdiv 2"

definition RAY :: int where "RAY = 10 ^ 27"

definition HALF_RAY :: int where "HALF_RAY = RAY sdiv 2"

definition WAD_RAY_RATIO :: int where "WAD_RAY_RATIO = 10 ^ 9"

definition MAX_BORROW_CAP :: int where "MAX_BORROW_CAP = 68719476735"

definition MAX_SUPPLY_CAP :: int where "MAX_SUPPLY_CAP = 68719476735"

definition MAX_UNBACKED_MINT_CAP :: int where "MAX_UNBACKED_MINT_CAP = 68719476735"

definition ONE_YEAR :: int where "ONE_YEAR = 31536000"

lemma const_values [const_simps]:
  "PERCENTAGE_FACTOR = 10000" "HALF_PERCENTAGE = 5000"
  "WAD = 1000000000000000000" "HALF_WAD = 500000000000000000"
  "RAY = 1000000000000000000000000000" "HALF_RAY = 500000000000000000000000000"
  "WAD_RAY_RATIO = 1000000000" "ONE_YEAR = 31536000"
  by (simp_all add: PERCENTAGE_FACTOR_def HALF_PERCENTAGE_def WAD_def HALF_WAD_def RAY_def
      HALF_RAY_def WAD_RAY_RATIO_def ONE_YEAR_def signed_divide_int_def)

lemma RAY_pos [simp]: "0 < RAY" and RAY_nz [simp]: "RAY \<noteq> 0"
  and ONE_YEAR_pos [simp]: "0 < ONE_YEAR" and ONE_YEAR_nz [simp]: "ONE_YEAR \<noteq> 0"
  and WAD_RAY_RATIO_pos [simp]: "0 < WAD_RAY_RATIO"
  and WAD_RAY_RATIO_nz [simp]: "WAD_RAY_RATIO \<noteq> 0"
  by (simp_all add: const_simps)

lemma RAY_nonneg [simp]: "0 \<le> RAY"
  by (simp add: const_simps)

text \<open>The largest \<open>uint256\<close>, and the widest cap a reserve configuration bitmap can hold.\<close>

lemma MAX_UINT_AMOUNT_eq: "MAX_UINT_AMOUNT = 2 ^ 256 - 1"
  by (simp add: MAX_UINT_AMOUNT_def)

lemma MAX_caps_eq: "MAX_BORROW_CAP = 2 ^ 36 - 1" "MAX_SUPPLY_CAP = 2 ^ 36 - 1"
    "MAX_UNBACKED_MINT_CAP = 2 ^ 36 - 1"
  by (simp_all add: MAX_BORROW_CAP_def MAX_SUPPLY_CAP_def MAX_UNBACKED_MINT_CAP_def)

end
