(* ===== verification/WadRayMath.thy ===== *)
theory WadRayMath
  imports Constants
begin

text \<open>
  The fixed-point arithmetic of \<open>test-suites/helpers/utils/wadraymath.ts\<close>: the methods that
  file adds to \<open>BigNumber.prototype\<close>.

  A \<open>BigNumber\<close> is an unbounded integer (\<open>int\<close>); its \<open>add\<close>, \<open>sub\<close>, \<open>mul\<close> are the integer
  operations and its \<open>div\<close> truncates towards zero and throws on a zero divisor, as the ethers
  documentation says. \<open>bn_div\<close> is that division; for a divisor that is a non-zero constant of
  the source the plain quotient \<open>sdiv\<close> is used.

  The locale \<open>truncating_division\<close> states the contract of the division, \<open>fixed_point\<close> that of a
  half-up rounding multiplication and division with a given unit; the ray, the wad and the
  basis-point arithmetic are its three interpretations.
\<close>

section \<open>The operations\<close>

definition bn_div :: "int \<Rightarrow> int \<Rightarrow> int result" where
  "bn_div a b = (if b = 0 then Inl DivisionByZero else Inr (a sdiv b))"

definition wadMul :: "int \<Rightarrow> int \<Rightarrow> int" where
  "wadMul this other = (HALF_WAD + this * other) sdiv WAD"

definition wadDiv :: "int \<Rightarrow> int \<Rightarrow> int result" where
  "wadDiv this other = (let halfOther = other sdiv 2 in bn_div (halfOther + this * WAD) other)"

definition rayMul :: "int \<Rightarrow> int \<Rightarrow> int" where
  "rayMul this other = (HALF_RAY + this * other) sdiv RAY"

definition rayDiv :: "int \<Rightarrow> int \<Rightarrow> int result" where
  "rayDiv this other = (let halfOther = other sdiv 2 in bn_div (halfOther + this * RAY) other)"

definition percentMul :: "int \<Rightarrow> int \<Rightarrow> int" where
  "percentMul this bps = (HALF_PERCENTAGE + this * bps) sdiv PERCENTAGE_FACTOR"

definition percentDiv :: "int \<Rightarrow> int \<Rightarrow> int result" where
  "percentDiv this bps =
     (let halfBps = bps sdiv 2 in bn_div (halfBps + this * PERCENTAGE_FACTOR) bps)"

definition rayToWad :: "int \<Rightarrow> int" where
  "rayToWad this = (let halfRatio = WAD_RAY_RATIO sdiv 2 in (halfRatio + this) sdiv WAD_RAY_RATIO)"

definition wadToRay :: "int \<Rightarrow> int" where
  "wadToRay this = this * WAD_RAY_RATIO"

definition negated :: "int \<Rightarrow> int" where
  "negated this = this * (-1)"

lemma negated_eq [simp]: "negated a = - a"
  by (simp add: negated_def)

section \<open>Contract of the division\<close>

locale truncating_division =
  fixes quot :: "int \<Rightarrow> int \<Rightarrow> int"
  assumes quot_mult_le: "0 < b \<Longrightarrow> 0 \<le> a \<Longrightarrow> quot a b * b \<le> a"
    and quot_mult_gt: "0 < b \<Longrightarrow> 0 \<le> a \<Longrightarrow> a < quot a b * b + b"
    and quot_minus: "quot (- a) b = - quot a b"
begin

lemma quot_eq_div: "0 \<le> a \<Longrightarrow> 0 < b \<Longrightarrow> quot a b = a div b"
proof -
  assume a: "0 \<le> a" "0 < b"
  have "b * quot a b \<le> a" "a < b * quot a b + b"
    using quot_mult_le[OF a(2,1)] quot_mult_gt[OF a(2,1)] by (simp_all add: mult.commute)
  then have "a = b * quot a b + (a - b * quot a b)" "0 \<le> a - b * quot a b" "a - b * quot a b < b"
    by simp_all
  then show ?thesis using a(2) by (metis int_div_pos_eq)
qed

lemma quot_nonneg: "0 \<le> a \<Longrightarrow> 0 < b \<Longrightarrow> 0 \<le> quot a b"
  by (simp add: quot_eq_div pos_imp_zdiv_nonneg_iff)

lemma quot_mono: "0 \<le> a \<Longrightarrow> a \<le> a' \<Longrightarrow> 0 < b \<Longrightarrow> quot a b \<le> quot a' b"
  by (simp add: quot_eq_div zdiv_mono1)

end

interpretation bn: truncating_division "(sdiv)"
proof unfold_locales
  fix a b :: int
  assume b: "0 < b" and a: "0 \<le> a"
  have eq: "a sdiv b = a div b"
    using a b by (cases "a = 0") (simp_all add: signed_divide_int_def)
  show "a sdiv b * b \<le> a"
    unfolding eq using pos_mod_sign[OF b, of a] by (simp add: minus_mod_eq_div_mult [symmetric])
  show "a < a sdiv b * b + b"
    unfolding eq using pos_mod_bound[OF b, of a] by (simp add: minus_mod_eq_div_mult [symmetric])
next
  fix a b :: int
  show "(- a) sdiv b = - (a sdiv b)"
    by (simp add: signed_divide_int_def)
qed

lemma three_roundings:
  fixes p q :: int
  assumes "\<bar>p - q\<bar> \<le> h" "\<bar>p' - q'\<bar> \<le> h" "2 * \<bar>w - v\<bar> \<le> i" "q' = q + w"
  shows "2 * \<bar>p' - (p + v)\<bar> \<le> 4 * h + i"
proof -
  have "p' - (p + v) = (p' - q') + ((w - v) - (p - q))" by (simp add: assms(4))
  then have "\<bar>p' - (p + v)\<bar> \<le> \<bar>p' - q'\<bar> + (\<bar>w - v\<bar> + \<bar>p - q\<bar>)"
    using abs_triangle_ineq[of "p' - q'" "(w - v) - (p - q)"] abs_triangle_ineq4[of "w - v" "p - q"]
    by linarith
  moreover have "x \<le> a + (b + c) \<Longrightarrow> c \<le> h \<Longrightarrow> a \<le> h \<Longrightarrow> 2 * b \<le> i \<Longrightarrow> 2 * x \<le> 4 * h + i" for x a b c
    by linarith
  ultimately show ?thesis using assms(1-3) by blast
qed

section \<open>Contract of a half-up rounding fixed-point arithmetic\<close>

locale fixed_point = truncating_division quot
  for quot :: "int \<Rightarrow> int \<Rightarrow> int" +
  fixes unit half :: int
    and mul :: "int \<Rightarrow> int \<Rightarrow> int"
    and dv :: "int \<Rightarrow> int \<Rightarrow> int result"
  assumes half_pos: "0 < half"
    and unit_half: "unit = 2 * half"
    and mul_quot: "mul a b = quot (half + a * b) unit"
    and dv_zero: "dv a 0 = Inl DivisionByZero"
    and dv_quot: "b \<noteq> 0 \<Longrightarrow> dv a b = Inr (quot (quot b 2 + a * unit) b)"
begin

lemma unit_pos: "0 < unit"
  using half_pos by (simp add: unit_half)

lemma mul_div: "0 \<le> a * b \<Longrightarrow> mul a b = (half + a * b) div unit"
  using half_pos unit_pos by (simp add: mul_quot quot_eq_div)

lemma mul_nonneg: "0 \<le> a \<Longrightarrow> 0 \<le> b \<Longrightarrow> 0 \<le> mul a b"
  using half_pos unit_pos by (simp add: mul_quot quot_nonneg)

lemma mul_upper: "0 \<le> a * b \<Longrightarrow> mul a b * unit \<le> a * b + half"
  using half_pos unit_pos quot_mult_le[of unit "half + a * b"] by (simp add: mul_quot add.commute)

lemma mul_lower: "0 \<le> a * b \<Longrightarrow> a * b - half < mul a b * unit"
  using half_pos unit_pos quot_mult_gt[of unit "half + a * b"] by (simp add: mul_quot unit_half)

text \<open>Half-up rounding: the result is within half a unit of the exact product.\<close>

lemma mul_rounds: "0 \<le> a * b \<Longrightarrow> \<bar>mul a b * unit - a * b\<bar> \<le> half"
  using mul_upper[of a b] mul_lower[of a b] by linarith

lemma mul_mono: "0 \<le> a * b \<Longrightarrow> a * b \<le> a' * b' \<Longrightarrow> mul a b \<le> mul a' b'"
  using half_pos unit_pos by (simp add: mul_quot quot_mono)

lemma mul_commute: "mul a b = mul b a"
  by (simp add: mul_quot mult.commute)

lemma mul_0 [simp]: "mul 0 b = 0" and mul_0_right [simp]: "mul a 0 = 0"
  using half_pos unit_pos by (simp_all add: mul_div unit_half)

lemma mul_unit: "0 \<le> a \<Longrightarrow> mul a unit = a"
  using half_pos unit_pos by (simp add: mul_div unit_half)

lemma mul_ge: "0 \<le> a \<Longrightarrow> unit \<le> b \<Longrightarrow> a \<le> mul a b"
  using mul_mono[of a unit a b] unit_pos by (simp add: mul_unit mult_left_mono)

lemma mul_ge': "0 \<le> b \<Longrightarrow> unit \<le> a \<Longrightarrow> b \<le> mul a b"
  using mul_ge[of b a] by (simp add: mul_commute)

lemma mul_le: "0 \<le> a \<Longrightarrow> 0 \<le> b \<Longrightarrow> b \<le> unit \<Longrightarrow> mul a b \<le> a"
  using mul_mono[of a b a unit] by (simp add: mul_unit mult_left_mono)

lemma quot_2: "0 \<le> b \<Longrightarrow> quot b 2 = b div 2"
  by (simp add: quot_eq_div)

lemma dv_div: "0 \<le> a \<Longrightarrow> 0 < b \<Longrightarrow> dv a b = Inr ((b div 2 + a * unit) div b)"
  using unit_pos by (simp add: dv_quot quot_2 quot_eq_div)

lemma dv_error_iff: "dv a b = Inl e \<longleftrightarrow> b = 0 \<and> e = DivisionByZero"
  by (cases "b = 0") (auto simp: dv_zero dv_quot)

lemma dv_ok: "b \<noteq> 0 \<Longrightarrow> \<exists>q. dv a b = Inr q"
  by (simp add: dv_quot)

lemma dv_bounds:
  assumes "0 \<le> a" "0 < b" "dv a b = Inr q"
  shows "0 \<le> q" "q * b \<le> a * unit + b div 2" "a * unit + b div 2 < q * b + b"
proof -
  have n: "0 \<le> b div 2 + a * unit" using assms(1,2) unit_pos by simp
  have q: "q = quot (b div 2 + a * unit) b"
    using assms by (simp add: dv_quot quot_2)
  show "0 \<le> q" using n assms(2) by (simp add: q quot_nonneg)
  show "q * b \<le> a * unit + b div 2"
    using quot_mult_le[OF assms(2) n] by (simp add: q add.commute)
  show "a * unit + b div 2 < q * b + b"
    using quot_mult_gt[OF assms(2) n] by (simp add: q add.commute)
qed

lemma dv_rounds:
  assumes "0 \<le> a" "0 < b" "dv a b = Inr q"
  shows "2 * \<bar>q * b - a * unit\<bar> \<le> b"
proof -
  define x y where xy: "x = q * b" "y = a * unit"
  have "x \<le> y + b div 2" "y + b div 2 < x + b" using dv_bounds(2,3)[OF assms] by (simp_all add: xy)
  then have "2 * (x - y) \<le> b" "2 * (y - x) \<le> b" by presburger+
  then have "2 * \<bar>x - y\<bar> \<le> b" by (simp add: abs_if)
  then show ?thesis by (simp add: xy)
qed

lemma dv_0: "0 < b \<Longrightarrow> dv 0 b = Inr 0"
  by (simp add: dv_div div_pos_pos_trivial)

lemma dv_unique:
  assumes "0 \<le> a" "0 < b" "q * b \<le> a * unit + b div 2" "a * unit + b div 2 < q * b + b"
  shows "dv a b = Inr q"
proof -
  have "(b div 2 + a * unit) div b = q"
    using assms by (intro int_div_pos_eq[where r = "a * unit + b div 2 - q * b"]) (auto simp: mult.commute)
  then show ?thesis using assms by (simp add: dv_div)
qed

lemma dv_self: "0 < a \<Longrightarrow> dv a a = Inr unit"
  using dv_unique[of a a unit] by (simp add: mult.commute)

lemma dv_mono: "0 \<le> a \<Longrightarrow> a \<le> a' \<Longrightarrow> 0 < b \<Longrightarrow> dv a b = Inr q \<Longrightarrow> dv a' b = Inr q' \<Longrightarrow> q \<le> q'"
  using unit_pos by (auto simp: dv_div intro!: zdiv_mono1 mult_right_mono)

lemma dv_le_unit: "0 \<le> a \<Longrightarrow> a \<le> b \<Longrightarrow> 0 < b \<Longrightarrow> dv a b = Inr q \<Longrightarrow> q \<le> unit"
  using dv_mono[of a b b q unit] by (simp add: dv_self)

text \<open>A larger divisor never gives a larger quotient, rounding included.\<close>

lemma dv_antimono:
  assumes "0 \<le> a" "0 < b" "b \<le> b'" "dv a b = Inr q" "dv a b' = Inr q'"
  shows "q' \<le> q"
proof (rule ccontr)
  assume "\<not> q' \<le> q"
  then have q': "q + 1 \<le> q'" by simp
  note lo = dv_bounds[OF assms(1,2,4)]
  have b': "0 < b'" using assms(2,3) by simp
  note hi = dv_bounds[OF assms(1) b' assms(5)]
  have "1 * (b' - b) \<le> q' * (b' - b)"
    using lo(1) q' assms(3) by (intro mult_right_mono) auto
  moreover have "(q + 1) * b \<le> q' * b"
    using q' assms(2) by (intro mult_right_mono) auto
  moreover have "b' div 2 - b div 2 \<le> b' - b" using assms(3) by linarith
  ultimately show False using lo(3) hi(2) by (simp add: algebra_simps)
qed

text \<open>
  Scaling and unscaling. A scaled amount survives a multiplication by an index of at least one
  unit followed by the division; the other order loses at most half an index step and half a unit.
\<close>

lemma dv_mul_roundtrip:
  assumes "0 \<le> s" "unit \<le> i"
  shows "dv (mul s i) i = Inr s"
proof (cases "i = unit")
  case True
  have "dv s unit = Inr s"
    using assms(1) unit_pos by (intro dv_unique) (auto simp: unit_half)
  then show ?thesis using True assms(1) by (simp add: mul_unit)
next
  case False
  have i: "0 < i" "unit < i" using assms(2) False unit_pos by auto
  have nn: "0 \<le> s * i" using assms(1) i by simp
  have "half \<le> i div 2" "half + i div 2 < i" using i(2) by (auto simp: unit_half)
  then show ?thesis
    using mul_upper[OF nn] mul_lower[OF nn] assms(1) i
    by (intro dv_unique) (auto intro: mul_nonneg)
qed

lemma mul_dv_error:
  assumes "0 \<le> a" "0 < i" "dv a i = Inr q"
  shows "2 * unit * \<bar>mul q i - a\<bar> \<le> i + unit"
proof -
  note d = dv_bounds[OF assms]
  have nn: "0 \<le> q * i" using d(1) assms(2) by simp
  have "2 * (mul q i * unit - a * unit) \<le> i + unit" "- (i + unit) \<le> 2 * (mul q i * unit - a * unit)"
    using mul_upper[OF nn] mul_lower[OF nn] d(2,3) by (auto simp: unit_half)
  then have "\<bar>2 * unit * (mul q i - a)\<bar> \<le> i + unit" by (simp add: algebra_simps abs_le_iff)
  then show ?thesis using unit_pos by (simp add: abs_mult)
qed

text \<open>Adding or removing the scaled form of an amount moves the unscaled value by that amount.\<close>

lemma scaled_move:
  assumes "0 \<le> s" "0 \<le> s'" "0 \<le> a" "0 < i" "dv a i = Inr x" "s' = s + x"
  shows "2 * unit * \<bar>mul s' i - (mul s i + a)\<bar> \<le> 2 * unit + i"
proof -
  define m m' where m: "m = mul s i" "m' = mul s' i"
  have "0 \<le> s * i" "0 \<le> s' * i" using assms by simp_all
  note r = mul_rounds[OF this(1), folded m] mul_rounds[OF this(2), folded m]
  have "s' * i = s * i + x * i" by (simp add: assms(6) distrib_right)
  with r dv_rounds[OF assms(3-5)]
  have "2 * \<bar>m' * unit - (m * unit + a * unit)\<bar> \<le> 4 * half + i" by (rule three_roundings)
  moreover have "m' * unit - (m * unit + a * unit) = unit * (m' - (m + a))" by (simp add: algebra_simps)
  ultimately show ?thesis using unit_pos by (simp add: m abs_mult unit_half)
qed

end

section \<open>The three instances\<close>

interpretation ray: fixed_point "(sdiv)" RAY HALF_RAY rayMul rayDiv
  by unfold_locales (auto simp: const_simps rayMul_def rayDiv_def bn_div_def Let_def)

interpretation wad: fixed_point "(sdiv)" WAD HALF_WAD wadMul wadDiv
  by unfold_locales (auto simp: const_simps wadMul_def wadDiv_def bn_div_def Let_def)

interpretation pct: fixed_point "(sdiv)" PERCENTAGE_FACTOR HALF_PERCENTAGE percentMul percentDiv
  by unfold_locales (auto simp: const_simps percentMul_def percentDiv_def bn_div_def Let_def)

lemma rayToWad_wadToRay_nonneg: "0 \<le> a \<Longrightarrow> rayToWad (wadToRay a) = a"
  by (simp add: rayToWad_def wadToRay_def const_simps bn.quot_eq_div Let_def)

lemma rayToWad_div: "0 \<le> a \<Longrightarrow> rayToWad a = (500000000 + a) div 1000000000"
  by (simp add: rayToWad_def const_simps bn.quot_eq_div Let_def)

lemma wadToRay_simps [simp]:
  "wadToRay 0 = 0" "wadToRay a = 0 \<longleftrightarrow> a = 0" "wadToRay a + wadToRay b = wadToRay (a + b)"
  "0 < wadToRay a \<longleftrightarrow> 0 < a" "0 \<le> wadToRay a \<longleftrightarrow> 0 \<le> a"
  by (simp_all add: wadToRay_def distrib_right zero_less_mult_iff zero_le_mult_iff const_simps)

end
