(* ===== verification/ReserveTypes.thy ===== *)
theory ReserveTypes
  imports WadRayMath
begin

text \<open>
  The data the calculations work on, from \<open>helpers/types.ts\<close> and
  \<open>test-suites/helpers/utils/interfaces/index.ts\<close>.

  A \<open>ReserveData\<close> or \<open>UserReserveData\<close> object starts as \<open><ReserveData>{}\<close> and gets its
  properties one by one, so each field is optional: \<open>None\<close> is \<open>undefined\<close>. The two records
  carry the properties of the interfaces; \<open>UserReserveData\<close> also has the two properties the
  calculations write through its index signature (\<open>variableBorrowIndex\<close>,
  \<open>principalVariableDebt\<close>). Amounts, rates, indexes and timestamps are \<open>BigNumber\<close>s (\<open>int\<close>).
\<close>

section \<open>Rate modes and reserve parameters\<close>

text \<open>\<open>RateMode\<close> is a string enum, and the code compares the strings.\<close>

definition RateMode_None :: string where "RateMode_None = ''0''"

definition RateMode_Stable :: string where "RateMode_Stable = ''1''"

definition RateMode_Variable :: string where "RateMode_Variable = ''2''"

lemma RateMode_distinct [simp]:
  "RateMode_Variable \<noteq> RateMode_Stable" "RateMode_Stable \<noteq> RateMode_Variable"
  "RateMode_None \<noteq> RateMode_Stable" "RateMode_None \<noteq> RateMode_Variable"
  by (simp_all add: RateMode_None_def RateMode_Stable_def RateMode_Variable_def)

record interest_rate_strategy_params =
  strategy_name :: string
  optimalUsageRatio :: int
  baseVariableBorrowRate :: int
  variableRateSlope1 :: int
  variableRateSlope2 :: int
  stableRateSlope1 :: int
  stableRateSlope2 :: int
  baseStableRateOffset :: int
  stableRateExcessOffset :: int
  optimalStableToTotalDebtRatio :: int

text \<open>
  \<open>IReserveParams\<close> with its two parents \<open>IReserveBorrowParams\<close> and \<open>IReserveCollateralParams\<close>.
  The decimal strings of the market files are the integers they denote; \<open>baseLTVAsCollateral\<close>
  may be \<open>-1\<close>, which switches the collateral configuration off.
\<close>

record reserve_params =
  borrowingEnabled :: bool
  stableBorrowRateEnabled :: bool
  reserveDecimals :: int
  borrowCap :: int
  debtCeiling :: int
  borrowableIsolation :: bool
  flashLoanEnabled :: bool
  baseLTVAsCollateral :: int
  liquidationThreshold :: int
  liquidationBonus :: int
  liquidationProtocolFee :: "int option"
  RSTokenImpl :: string
  reserveFactor :: int
  supplyCap :: int
  strategy :: interest_rate_strategy_params

section \<open>Reserve and user data\<close>

record reserve_data =
  r_address :: "string option"
  r_symbol :: "string option"
  r_decimals :: "int option"
  r_reserveFactor :: "int option"
  r_availableLiquidity :: "int option"
  r_totalLiquidity :: "int option"
  r_totalStableDebt :: "int option"
  r_totalVariableDebt :: "int option"
  r_principalStableDebt :: "int option"
  r_scaledVariableDebt :: "int option"
  r_averageStableBorrowRate :: "int option"
  r_variableBorrowRate :: "int option"
  r_stableBorrowRate :: "int option"
  r_supplyUsageRatio :: "int option"
  r_borrowUsageRatio :: "int option"
  r_liquidityIndex :: "int option"
  r_variableBorrowIndex :: "int option"
  r_RSTokenAddress :: "string option"
  r_marketStableRate :: "int option"
  r_lastUpdateTimestamp :: "int option"
  r_totalStableDebtLastUpdated :: "int option"
  r_liquidityRate :: "int option"
  r_unbacked :: "int option"
  r_accruedToTreasuryScaled :: "int option"

record user_reserve_data =
  u_scaledRSTokenBalance :: "int option"
  u_currentRSTokenBalance :: "int option"
  u_currentStableDebt :: "int option"
  u_currentVariableDebt :: "int option"
  u_principalStableDebt :: "int option"
  u_scaledVariableDebt :: "int option"
  u_liquidityRate :: "int option"
  u_stableBorrowRate :: "int option"
  u_stableRateLastUpdated :: "int option"
  u_usageAsCollateralEnabled :: "bool option"
  u_walletBalance :: "int option"
  u_variableBorrowIndex :: "int option"
  u_principalVariableDebt :: "int option"

text \<open>The empty objects \<open><ReserveData>{}\<close> and \<open><UserReserveData>{}\<close>.\<close>

definition empty_reserve :: reserve_data where
  "empty_reserve = \<lparr>r_address = None, r_symbol = None, r_decimals = None, r_reserveFactor = None,
     r_availableLiquidity = None, r_totalLiquidity = None, r_totalStableDebt = None,
     r_totalVariableDebt = None, r_principalStableDebt = None, r_scaledVariableDebt = None,
     r_averageStableBorrowRate = None, r_variableBorrowRate = None, r_stableBorrowRate = None,
     r_supplyUsageRatio = None, r_borrowUsageRatio = None, r_liquidityIndex = None,
     r_variableBorrowIndex = None, r_RSTokenAddress = None, r_marketStableRate = None,
     r_lastUpdateTimestamp = None, r_totalStableDebtLastUpdated = None, r_liquidityRate = None,
     r_unbacked = None, r_accruedToTreasuryScaled = None\<rparr>"

definition empty_user :: user_reserve_data where
  "empty_user = \<lparr>u_scaledRSTokenBalance = None, u_currentRSTokenBalance = None,
     u_currentStableDebt = None, u_currentVariableDebt = None, u_principalStableDebt = None,
     u_scaledVariableDebt = None, u_liquidityRate = None, u_stableBorrowRate = None,
     u_stableRateLastUpdated = None, u_usageAsCollateralEnabled = None, u_walletBalance = None,
     u_variableBorrowIndex = None, u_principalVariableDebt = None\<rparr>"

section \<open>Fully read objects\<close>

text \<open>
  What \<open>getReserveData\<close> and \<open>getUserData\<close> return: every property of the interface is there. The
  two predicates list the properties; the comparison of the actions walks over the same ones.
\<close>

definition complete_reserve :: "reserve_data \<Rightarrow> bool" where
  "complete_reserve r \<longleftrightarrow>
     r_address r \<noteq> None \<and> r_symbol r \<noteq> None \<and> r_decimals r \<noteq> None \<and> r_reserveFactor r \<noteq> None \<and>
     r_availableLiquidity r \<noteq> None \<and> r_totalLiquidity r \<noteq> None \<and> r_totalStableDebt r \<noteq> None \<and>
     r_totalVariableDebt r \<noteq> None \<and> r_principalStableDebt r \<noteq> None \<and> r_scaledVariableDebt r \<noteq> None \<and>
     r_averageStableBorrowRate r \<noteq> None \<and> r_variableBorrowRate r \<noteq> None \<and>
     r_stableBorrowRate r \<noteq> None \<and> r_supplyUsageRatio r \<noteq> None \<and> r_borrowUsageRatio r \<noteq> None \<and>
     r_liquidityIndex r \<noteq> None \<and> r_variableBorrowIndex r \<noteq> None \<and> r_RSTokenAddress r \<noteq> None \<and>
     r_marketStableRate r \<noteq> None \<and> r_lastUpdateTimestamp r \<noteq> None \<and>
     r_totalStableDebtLastUpdated r \<noteq> None \<and> r_liquidityRate r \<noteq> None \<and> r_unbacked r \<noteq> None \<and>
     r_accruedToTreasuryScaled r \<noteq> None"

definition complete_user :: "user_reserve_data \<Rightarrow> bool" where
  "complete_user u \<longleftrightarrow>
     u_scaledRSTokenBalance u \<noteq> None \<and> u_currentRSTokenBalance u \<noteq> None \<and>
     u_currentStableDebt u \<noteq> None \<and> u_currentVariableDebt u \<noteq> None \<and> u_principalStableDebt u \<noteq> None \<and>
     u_scaledVariableDebt u \<noteq> None \<and> u_liquidityRate u \<noteq> None \<and> u_stableBorrowRate u \<noteq> None \<and>
     u_stableRateLastUpdated u \<noteq> None \<and> u_usageAsCollateralEnabled u \<noteq> None \<and>
     u_walletBalance u \<noteq> None"

lemma complete_reserveD:
  assumes "complete_reserve r"
  shows "\<exists>v. r_address r = Some v" "\<exists>v. r_symbol r = Some v" "\<exists>v. r_reserveFactor r = Some v"
    "\<exists>v. r_availableLiquidity r = Some v" "\<exists>v. r_totalLiquidity r = Some v"
    "\<exists>v. r_totalStableDebt r = Some v" "\<exists>v. r_totalVariableDebt r = Some v"
    "\<exists>v. r_principalStableDebt r = Some v" "\<exists>v. r_scaledVariableDebt r = Some v"
    "\<exists>v. r_averageStableBorrowRate r = Some v" "\<exists>v. r_variableBorrowRate r = Some v"
    "\<exists>v. r_stableBorrowRate r = Some v" "\<exists>v. r_supplyUsageRatio r = Some v"
    "\<exists>v. r_borrowUsageRatio r = Some v" "\<exists>v. r_liquidityIndex r = Some v"
    "\<exists>v. r_variableBorrowIndex r = Some v" "\<exists>v. r_marketStableRate r = Some v"
    "\<exists>v. r_lastUpdateTimestamp r = Some v" "\<exists>v. r_totalStableDebtLastUpdated r = Some v"
    "\<exists>v. r_liquidityRate r = Some v" "\<exists>v. r_unbacked r = Some v"
    "\<exists>v. r_accruedToTreasuryScaled r = Some v"
  using assms by (simp_all add: complete_reserve_def)

lemma complete_userD:
  assumes "complete_user u"
  shows "\<exists>v. u_scaledRSTokenBalance u = Some v" "\<exists>v. u_currentRSTokenBalance u = Some v"
    "\<exists>v. u_currentStableDebt u = Some v" "\<exists>v. u_currentVariableDebt u = Some v"
    "\<exists>v. u_principalStableDebt u = Some v" "\<exists>v. u_scaledVariableDebt u = Some v"
    "\<exists>v. u_liquidityRate u = Some v" "\<exists>v. u_stableBorrowRate u = Some v"
    "\<exists>v. u_stableRateLastUpdated u = Some v" "\<exists>v. u_usageAsCollateralEnabled u = Some v"
    "\<exists>v. u_walletBalance u = Some v"
  using assms by (simp_all add: complete_user_def)

text \<open>
  The properties of a reserve that the comparison does not skip: the ones an expected reserve
  must define to be comparable.
\<close>

definition compared_reserve :: "reserve_data \<Rightarrow> bool" where
  "compared_reserve r \<longleftrightarrow>
     r_address r \<noteq> None \<and> r_reserveFactor r \<noteq> None \<and>
     r_availableLiquidity r \<noteq> None \<and> r_totalLiquidity r \<noteq> None \<and> r_totalStableDebt r \<noteq> None \<and>
     r_totalVariableDebt r \<noteq> None \<and> r_principalStableDebt r \<noteq> None \<and> r_scaledVariableDebt r \<noteq> None \<and>
     r_averageStableBorrowRate r \<noteq> None \<and> r_variableBorrowRate r \<noteq> None \<and>
     r_stableBorrowRate r \<noteq> None \<and> r_supplyUsageRatio r \<noteq> None \<and> r_borrowUsageRatio r \<noteq> None \<and>
     r_liquidityIndex r \<noteq> None \<and> r_variableBorrowIndex r \<noteq> None \<and> r_liquidityRate r \<noteq> None \<and>
     r_unbacked r \<noteq> None \<and> r_accruedToTreasuryScaled r \<noteq> None"

end
