(* ===== verification/Interest.thy ===== *)
theory Interest
  imports ReserveTypes
begin

text \<open>
  Interest accrual of \<open>test-suites/helpers/utils/calculations.ts\<close>: linear and compounded
  interest, the normalized income and debt of a reserve, and the token balances derived from them.
\<close>

section \<open>Interest factors\<close>

definition calcLinearInterest :: "int \<Rightarrow> int \<Rightarrow> int \<Rightarrow> int" where
  "calcLinearInterest rate currentTimestamp lastUpdateTimestamp =
     (let timeDifference = currentTimestamp - lastUpdateTimestamp;
          cumulatedInterest = (rate * timeDifference) sdiv ONE_YEAR + RAY
      in cumulatedInterest)"

definition calcCompoundedInterest :: "int \<Rightarrow> int \<Rightarrow> int \<Rightarrow> int" where
  "calcCompoundedInterest rate currentTimestamp lastUpdateTimestamp =
     (let timeDifference = currentTimestamp - lastUpdateTimestamp;
          SECONDS_PER_YEAR = ONE_YEAR
      in if timeDifference = 0 then RAY
         else
           let expMinusOne = timeDifference - 1;
               expMinusTwo = (if 2 < timeDifference then timeDifference - 2 else 0);
               basePowerTwo = rayMul rate rate sdiv (SECONDS_PER_YEAR * SECONDS_PER_YEAR);
               basePowerThree = rayMul basePowerTwo rate sdiv SECONDS_PER_YEAR;
               secondTerm = (timeDifference * expMinusOne * basePowerTwo) sdiv 2;
               thirdTerm = (timeDifference * expMinusOne * expMinusTwo * basePowerThree) sdiv 6
           in RAY + (rate * timeDifference) sdiv SECONDS_PER_YEAR + secondTerm + thirdTerm)"

section \<open>Normalized income and debt\<close>

definition calcExpectedReserveNormalizedIncome :: "reserve_data \<Rightarrow> int \<Rightarrow> int result" where
  "calcExpectedReserveNormalizedIncome reserveData currentTimestamp =
     rbind (getf (r_liquidityRate reserveData)) (\<lambda>liquidityRate.
     rbind (getf (r_liquidityIndex reserveData)) (\<lambda>liquidityIndex.
     if liquidityRate = 0 then Inr liquidityIndex
     else rbind (getf (r_lastUpdateTimestamp reserveData)) (\<lambda>lastUpdateTimestamp.
       let cumulatedInterest =
             calcLinearInterest liquidityRate currentTimestamp lastUpdateTimestamp;
           income = rayMul cumulatedInterest liquidityIndex
       in Inr income)))"

definition calcExpectedReserveNormalizedDebt :: "int \<Rightarrow> int \<Rightarrow> int \<Rightarrow> int \<Rightarrow> int" where
  "calcExpectedReserveNormalizedDebt variableBorrowRate variableBorrowIndex
       lastUpdateTimestamp currentTimestamp =
     (if variableBorrowRate = 0 then variableBorrowIndex
      else let cumulatedInterest =
                 calcCompoundedInterest variableBorrowRate currentTimestamp lastUpdateTimestamp;
               debt = rayMul cumulatedInterest variableBorrowIndex
           in debt)"

section \<open>Token balances\<close>

definition calcExpectedRSTokenBalance ::
    "reserve_data \<Rightarrow> user_reserve_data \<Rightarrow> int \<Rightarrow> int result" where
  "calcExpectedRSTokenBalance reserveData userData currentTimestamp =
     rbind (calcExpectedReserveNormalizedIncome reserveData currentTimestamp) (\<lambda>index.
     rbind (getf (u_scaledRSTokenBalance userData)) (\<lambda>scaledBalanceBeforeAction.
     Inr (rayMul scaledBalanceBeforeAction index)))"

definition calcExpectedVariableDebtTokenBalance ::
    "reserve_data \<Rightarrow> user_reserve_data \<Rightarrow> int \<Rightarrow> int result" where
  "calcExpectedVariableDebtTokenBalance reserveData userData currentTimestamp =
     rbind (getf (r_variableBorrowRate reserveData)) (\<lambda>variableBorrowRate.
     rbind (getf (r_variableBorrowIndex reserveData)) (\<lambda>variableBorrowIndex.
     rbind (getf (r_lastUpdateTimestamp reserveData)) (\<lambda>lastUpdateTimestamp.
     let normalizedDebt = calcExpectedReserveNormalizedDebt variableBorrowRate
           variableBorrowIndex lastUpdateTimestamp currentTimestamp
     in rbind (getf (u_scaledVariableDebt userData)) (\<lambda>scaledVariableDebt.
        Inr (rayMul scaledVariableDebt normalizedDebt)))))"

definition calcExpectedStableDebtTokenBalance :: "int \<Rightarrow> int \<Rightarrow> int \<Rightarrow> int \<Rightarrow> int" where
  "calcExpectedStableDebtTokenBalance principalStableDebt stableBorrowRate
       stableRateLastUpdated currentTimestamp =
     (if stableBorrowRate = 0 \<or> currentTimestamp = stableRateLastUpdated \<or>
         stableRateLastUpdated = 0
      then principalStableDebt
      else let cumulatedInterest =
                 calcCompoundedInterest stableBorrowRate currentTimestamp stableRateLastUpdated
           in rayMul principalStableDebt cumulatedInterest)"

definition calcExpectedTotalStableDebt :: "int \<Rightarrow> int \<Rightarrow> int \<Rightarrow> int \<Rightarrow> int" where
  "calcExpectedTotalStableDebt principalStableDebt averageStableBorrowRate
       lastUpdateTimestamp currentTimestamp =
     (let cumulatedInterest =
            calcCompoundedInterest averageStableBorrowRate currentTimestamp lastUpdateTimestamp
      in rayMul cumulatedInterest principalStableDebt)"

text \<open>
  \<open>calcExpectedStableDebtTokenBalance\<close> is called with the user's stored principal, rate and last
  update; the reads are bundled here because every user calculation makes them.
\<close>

definition userStableDebt :: "user_reserve_data \<Rightarrow> int \<Rightarrow> int result" where
  "userStableDebt userData currentTimestamp =
     rbind (getf (u_principalStableDebt userData)) (\<lambda>principalStableDebt.
     rbind (getf (u_stableBorrowRate userData)) (\<lambda>stableBorrowRate.
     rbind (getf (u_stableRateLastUpdated userData)) (\<lambda>stableRateLastUpdated.
     Inr (calcExpectedStableDebtTokenBalance principalStableDebt stableBorrowRate
            stableRateLastUpdated currentTimestamp))))"

section \<open>Interest never shrinks a balance\<close>

lemma calcLinearInterest_ge_RAY:
  "0 \<le> rate \<Longrightarrow> t0 \<le> t \<Longrightarrow> RAY \<le> calcLinearInterest rate t t0"
  by (simp add: calcLinearInterest_def bn.quot_nonneg)

lemma calcLinearInterest_mono:
  "0 \<le> rate \<Longrightarrow> rate \<le> rate' \<Longrightarrow> t0 \<le> t \<Longrightarrow> t \<le> t' \<Longrightarrow>
     calcLinearInterest rate t t0 \<le> calcLinearInterest rate' t' t0"
  by (simp add: calcLinearInterest_def bn.quot_mono mult_mono)

lemma calcCompoundedInterest_same [simp]: "calcCompoundedInterest rate t t = RAY"
  by (simp add: calcCompoundedInterest_def)

text \<open>The two base powers of the binomial approximation.\<close>

definition base_two :: "int \<Rightarrow> int" where
  "base_two rate = rayMul rate rate sdiv (ONE_YEAR * ONE_YEAR)"

definition base_three :: "int \<Rightarrow> int" where
  "base_three rate = rayMul (base_two rate) rate sdiv ONE_YEAR"

lemma base_nonneg [simp]: "0 \<le> rate \<Longrightarrow> 0 \<le> base_two rate" "0 \<le> rate \<Longrightarrow> 0 \<le> base_three rate"
  by (simp_all add: base_two_def base_three_def bn.quot_nonneg ray.mul_nonneg)

lemma base_mono:
  assumes "0 \<le> rate" "rate \<le> rate'"
  shows "base_two rate \<le> base_two rate'" "base_three rate \<le> base_three rate'"
proof -
  show two: "base_two rate \<le> base_two rate'"
    unfolding base_two_def
    by (intro bn.quot_mono ray.mul_mono ray.mul_nonneg) (use assms in \<open>auto intro: mult_mono\<close>)
  show "base_three rate \<le> base_three rate'"
    unfolding base_three_def
    by (intro bn.quot_mono ray.mul_mono ray.mul_nonneg)
       (use assms two base_nonneg(1)[of rate] in \<open>auto intro: mult_mono\<close>)
qed

lemma calcCompoundedInterest_terms:
  "calcCompoundedInterest rate t t0 =
     (let d = t - t0 in
      if d = 0 then RAY
      else RAY + (rate * d) sdiv ONE_YEAR + (d * (d - 1) * base_two rate) sdiv 2 +
           (d * (d - 1) * (if 2 < d then d - 2 else 0) * base_three rate) sdiv 6)"
  by (simp add: calcCompoundedInterest_def base_two_def base_three_def Let_def)

text \<open>Compounding never pays less than simple interest over the same time.\<close>

lemma calcCompoundedInterest_ge_linear:
  assumes "0 \<le> rate" "t0 \<le> t"
  shows "calcLinearInterest rate t t0 \<le> calcCompoundedInterest rate t t0"
proof (cases "t = t0")
  case True
  then show ?thesis by (simp add: calcLinearInterest_def)
next
  case False
  let ?d = "t - t0"
  have d: "1 \<le> ?d" using assms False by simp
  then have "0 \<le> (?d * (?d - 1) * base_two rate) sdiv 2"
    using assms by (intro bn.quot_nonneg mult_nonneg_nonneg) auto
  moreover have "0 \<le> (?d * (?d - 1) * (if 2 < ?d then ?d - 2 else 0) * base_three rate) sdiv 6"
    using assms d by (intro bn.quot_nonneg mult_nonneg_nonneg) auto
  ultimately show ?thesis
    using False by (simp add: calcCompoundedInterest_terms calcLinearInterest_def Let_def)
qed

lemma calcCompoundedInterest_ge_RAY:
  "0 \<le> rate \<Longrightarrow> t0 \<le> t \<Longrightarrow> RAY \<le> calcCompoundedInterest rate t t0"
  using calcCompoundedInterest_ge_linear calcLinearInterest_ge_RAY order_trans by blast

lemma calcCompoundedInterest_mono:
  assumes "0 \<le> rate" "rate \<le> rate'" "t0 \<le> t" "t \<le> t'"
  shows "calcCompoundedInterest rate t t0 \<le> calcCompoundedInterest rate' t' t0"
proof (cases "t = t0")
  case True
  then show ?thesis using assms by (simp add: calcCompoundedInterest_ge_RAY)
next
  case False
  let ?d = "t - t0" and ?e = "t' - t0"
  have d: "1 \<le> ?d" "?d \<le> ?e" using assms False by auto
  have "(rate * ?d) sdiv ONE_YEAR \<le> (rate' * ?e) sdiv ONE_YEAR"
    using assms d by (intro bn.quot_mono mult_mono mult_nonneg_nonneg) auto
  moreover have "(?d * (?d - 1) * base_two rate) sdiv 2 \<le> (?e * (?e - 1) * base_two rate') sdiv 2"
    using assms d base_mono(1)[OF assms(1,2)]
    by (intro bn.quot_mono mult_mono mult_nonneg_nonneg) auto
  moreover have "(?d * (?d - 1) * (if 2 < ?d then ?d - 2 else 0) * base_three rate) sdiv 6 \<le>
      (?e * (?e - 1) * (if 2 < ?e then ?e - 2 else 0) * base_three rate') sdiv 6"
    using assms d base_mono(2)[OF assms(1,2)]
    by (intro bn.quot_mono mult_mono mult_nonneg_nonneg) auto
  ultimately show ?thesis
    using d by (simp add: calcCompoundedInterest_terms Let_def)
qed

lemma normalizedDebt_ge_index:
  assumes "0 \<le> rate" "0 \<le> index" "t0 \<le> t"
  shows "index \<le> calcExpectedReserveNormalizedDebt rate index t0 t"
  using assms
  by (simp add: calcExpectedReserveNormalizedDebt_def Let_def calcCompoundedInterest_ge_RAY
      ray.mul_ge')

lemma stableDebt_ge_principal:
  assumes "0 \<le> p" "0 \<le> rate" "t0 \<le> t"
  shows "p \<le> calcExpectedStableDebtTokenBalance p rate t0 t"
  using assms
  by (simp add: calcExpectedStableDebtTokenBalance_def Let_def calcCompoundedInterest_ge_RAY
      ray.mul_ge)

lemma totalStableDebt_ge_principal:
  assumes "0 \<le> p" "0 \<le> rate" "t0 \<le> t"
  shows "p \<le> calcExpectedTotalStableDebt p rate t0 t"
  using assms
  by (simp add: calcExpectedTotalStableDebt_def Let_def calcCompoundedInterest_ge_RAY ray.mul_ge')

lemma normalizedIncome_inv:
  "calcExpectedReserveNormalizedIncome r t = Inr i \<longleftrightarrow>
     (\<exists>rate index. r_liquidityRate r = Some rate \<and> r_liquidityIndex r = Some index \<and>
        (rate = 0 \<and> i = index \<or>
         rate \<noteq> 0 \<and> (\<exists>t0. r_lastUpdateTimestamp r = Some t0 \<and>
           i = rayMul (calcLinearInterest rate t t0) index)))"
  by (auto simp: calcExpectedReserveNormalizedIncome_def result_inv Let_def)

end
