(* ===== verification/Rates.thy ===== *)
theory Rates
  imports Interest
begin

text \<open>
  Usage ratios and interest rates of \<open>test-suites/helpers/utils/calculations.ts\<close>. The module-level
  \<open>configuration.reservesParams\<close> object is the explicit argument \<open>reservesParams\<close>; a symbol that
  it does not hold makes the destructuring of the missing entry throw.
\<close>

section \<open>The calculations\<close>

definition calcExpectedUsageRatios :: "int \<Rightarrow> int \<Rightarrow> int \<Rightarrow> int \<Rightarrow> (int \<times> int) result" where
  "calcExpectedUsageRatios totalStableDebt totalVariableDebt availableLiquidity totalLiquidity =
     (let totalDebt = totalStableDebt + totalVariableDebt in
      rbind (if totalDebt = 0 then Inr 0 else rayDiv totalDebt (availableLiquidity + totalDebt))
        (\<lambda>borrowUsageRatio.
      rbind (if totalDebt = 0 then Inr 0 else rayDiv totalDebt (totalLiquidity + totalDebt))
        (\<lambda>supplyUsageRatio.
      rbind (ensure (supplyUsageRatio \<le> borrowUsageRatio)
               (AssertionError ''Supply usage ratio > borrow usage ratio''))
        (\<lambda>_. Inr (borrowUsageRatio, supplyUsageRatio)))))"

definition calcExpectedOverallBorrowRate :: "int \<Rightarrow> int \<Rightarrow> int \<Rightarrow> int \<Rightarrow> int result" where
  "calcExpectedOverallBorrowRate totalStableDebt totalVariableDebt
       currentVariableBorrowRate currentAverageStableBorrowRate =
     (let totalBorrows = totalStableDebt + totalVariableDebt in
      if totalBorrows = 0 then Inr 0
      else
        let weightedVariableRate = rayMul (wadToRay totalVariableDebt) currentVariableBorrowRate;
            weightedStableRate = rayMul (wadToRay totalStableDebt) currentAverageStableBorrowRate
        in rayDiv (weightedVariableRate + weightedStableRate) (wadToRay totalBorrows))"

text \<open>The two slopes: stable and variable rate at a given usage of the liquidity.\<close>

definition usageRates ::
    "interest_rate_strategy_params \<Rightarrow> int \<Rightarrow> int \<Rightarrow> int \<Rightarrow> (int \<times> int) result" where
  "usageRates strat stableBorrowRate variableBorrowRate borrowUsageRatio =
     (let OPTIMAL_USAGE_RATIO = optimalUsageRatio strat;
          MAX_EXCESS_USAGE_RATIO = RAY - OPTIMAL_USAGE_RATIO
      in if OPTIMAL_USAGE_RATIO < borrowUsageRatio then
           rbind (rayDiv (borrowUsageRatio - optimalUsageRatio strat) MAX_EXCESS_USAGE_RATIO)
             (\<lambda>excessBorrowUsageRatio.
           Inr (stableBorrowRate + stableRateSlope1 strat +
                  rayMul (stableRateSlope2 strat) excessBorrowUsageRatio,
                variableBorrowRate + variableRateSlope1 strat +
                  rayMul (variableRateSlope2 strat) excessBorrowUsageRatio))
         else
           rbind (rayDiv (rayMul (stableRateSlope1 strat) borrowUsageRatio) OPTIMAL_USAGE_RATIO)
             (\<lambda>stablePart.
           rbind (rayDiv (rayMul (variableRateSlope1 strat) borrowUsageRatio) OPTIMAL_USAGE_RATIO)
             (\<lambda>variablePart.
           Inr (stableBorrowRate + stablePart, variableBorrowRate + variablePart))))"

text \<open>The surcharge on the stable rate when stable debt is too large a share of the debt.\<close>

definition excessStableRate ::
    "interest_rate_strategy_params \<Rightarrow> int \<Rightarrow> int \<Rightarrow> int result" where
  "excessStableRate strat stableBorrowRate stableToTotalDebtRatio =
     (let OPTIMAL_STABLE_TO_TOTAL_DEBT_RATIO = optimalStableToTotalDebtRatio strat;
          MAX_EXCESS_STABLE_TO_TOTAL_DEBT_RATIO = RAY - OPTIMAL_STABLE_TO_TOTAL_DEBT_RATIO
      in if OPTIMAL_STABLE_TO_TOTAL_DEBT_RATIO < stableToTotalDebtRatio then
           rbind (rayDiv (stableToTotalDebtRatio - OPTIMAL_STABLE_TO_TOTAL_DEBT_RATIO)
                    MAX_EXCESS_STABLE_TO_TOTAL_DEBT_RATIO)
             (\<lambda>excessStableDebtRatio.
           Inr (stableBorrowRate + rayMul (stableRateExcessOffset strat) excessStableDebtRatio))
         else Inr stableBorrowRate)"

text \<open>\<open>calcExpectedInterestRates\<close> once the configuration of the reserve has been found.\<close>

definition interestRatesFor ::
    "reserve_params \<Rightarrow> int \<Rightarrow> int \<Rightarrow> int \<Rightarrow> int \<Rightarrow> int \<Rightarrow> int \<Rightarrow> (int \<times> int \<times> int) result" where
  "interestRatesFor reserveConfiguration marketStableRate totalStableDebt totalVariableDebt
       averageStableBorrowRate availableLiquidity totalLiquidity =
     rbind (calcExpectedUsageRatios totalStableDebt totalVariableDebt availableLiquidity
              totalLiquidity) (\<lambda>(borrowUsageRatio, supplyUsageRatio).
     let strat = strategy reserveConfiguration;
         totalDebt = totalStableDebt + totalVariableDebt
     in rbind (if 0 < totalStableDebt then rayDiv totalStableDebt totalDebt else Inr 0)
          (\<lambda>stableToTotalDebtRatio.
        rbind (usageRates strat marketStableRate (baseVariableBorrowRate strat) borrowUsageRatio)
          (\<lambda>(stableBorrowRate, variableBorrowRate).
        rbind (excessStableRate strat stableBorrowRate stableToTotalDebtRatio)
          (\<lambda>stableBorrowRate.
        rbind (calcExpectedOverallBorrowRate totalStableDebt totalVariableDebt variableBorrowRate
                 averageStableBorrowRate) (\<lambda>expectedOverallRate.
        let liquidityRate = percentMul (rayMul expectedOverallRate supplyUsageRatio)
              (PERCENTAGE_FACTOR - reserveFactor reserveConfiguration)
        in Inr (liquidityRate, stableBorrowRate, variableBorrowRate))))))"

definition calcExpectedInterestRates ::
    "reserve_params obj \<Rightarrow> string \<Rightarrow> int \<Rightarrow> int \<Rightarrow> int \<Rightarrow> int \<Rightarrow> int \<Rightarrow> int \<Rightarrow>
       (int \<times> int \<times> int) result" where
  "calcExpectedInterestRates reservesParams reserveSymbol marketStableRate totalStableDebt
       totalVariableDebt averageStableBorrowRate availableLiquidity totalLiquidity =
     rbind (entry_of reservesParams reserveSymbol) (\<lambda>reserveConfiguration.
       interestRatesFor reserveConfiguration marketStableRate totalStableDebt totalVariableDebt
         averageStableBorrowRate availableLiquidity totalLiquidity)"

section \<open>Usage ratios\<close>

lemma usageRatios_no_debt:
  "calcExpectedUsageRatios ts tv av tq = Inr (0, 0)" if "ts + tv = 0"
  using that by (simp add: calcExpectedUsageRatios_def)

lemma usageRatios_ok:
  assumes "0 \<le> ts" "0 \<le> tv" "0 \<le> av" "av \<le> tq"
  obtains b s where "calcExpectedUsageRatios ts tv av tq = Inr (b, s)"
    "0 \<le> s" "s \<le> b" "b \<le> RAY"
proof (cases "ts + tv = 0")
  case True
  then show ?thesis using that[of 0 0] by (simp add: usageRatios_no_debt)
next
  case False
  define d where "d = ts + tv"
  have d: "0 < d" using assms False by (simp add: d_def)
  have pos: "0 < av + d" "0 < tq + d" "d \<le> av + d" "av + d \<le> tq + d" using assms d by simp_all
  obtain b where b: "rayDiv d (av + d) = Inr b" using pos(1) ray.dv_ok[of "av + d" d] by auto
  obtain s where s: "rayDiv d (tq + d) = Inr s" using pos(2) ray.dv_ok[of "tq + d" d] by auto
  have "0 \<le> s" using ray.dv_bounds(1)[OF _ pos(2) s] d by simp
  moreover have "s \<le> b" using ray.dv_antimono[OF _ pos(1,4) b s] d by simp
  moreover have "b \<le> RAY" using ray.dv_le_unit[OF _ pos(3,1) b] d by simp
  ultimately show ?thesis
    using that[of b s] False b s by (simp add: calcExpectedUsageRatios_def d_def)
qed

text \<open>The debt a usage ratio of zero hides: the ratio of a positive debt is the rounded share.\<close>

lemma usageRatios_inv:
  "calcExpectedUsageRatios ts tv av tq = Inr (b, s) \<longleftrightarrow>
     (if ts + tv = 0 then b = 0 \<and> s = 0
      else rayDiv (ts + tv) (av + (ts + tv)) = Inr b \<and> rayDiv (ts + tv) (tq + (ts + tv)) = Inr s \<and>
           s \<le> b)"
  by (auto simp: calcExpectedUsageRatios_def result_inv Let_def)

section \<open>Rates of a well-formed strategy\<close>

text \<open>
  What the constructor of \<open>DefaultReserveInterestRateStrategy\<close> checks and what unsigned storage
  gives; an optimal usage of zero would divide by zero in both implementations.
\<close>

definition wf_strategy :: "interest_rate_strategy_params \<Rightarrow> bool" where
  "wf_strategy st \<longleftrightarrow>
     0 < optimalUsageRatio st \<and> optimalUsageRatio st \<le> RAY \<and>
     0 \<le> optimalStableToTotalDebtRatio st \<and> optimalStableToTotalDebtRatio st \<le> RAY \<and>
     0 \<le> baseVariableBorrowRate st \<and> 0 \<le> variableRateSlope1 st \<and> 0 \<le> variableRateSlope2 st \<and>
     0 \<le> stableRateSlope1 st \<and> 0 \<le> stableRateSlope2 st \<and> 0 \<le> stableRateExcessOffset st"

definition wf_params :: "reserve_params \<Rightarrow> bool" where
  "wf_params p \<longleftrightarrow> wf_strategy (strategy p) \<and> 0 \<le> reserveFactor p \<and>
     reserveFactor p \<le> PERCENTAGE_FACTOR"

lemma below_kink:
  assumes "0 \<le> slope" "0 \<le> b" "b \<le> opt" "0 < opt" "rayDiv (rayMul slope b) opt = Inr q"
  shows "0 \<le> q" "2 * opt * (q - slope) \<le> RAY + opt"
proof -
  have m: "0 \<le> rayMul slope b" using assms by (simp add: ray.mul_nonneg)
  note q = ray.dv_bounds[OF m assms(4,5)]
  show "0 \<le> q" by (rule q(1))
  have "rayMul slope b * RAY \<le> slope * b + HALF_RAY" using assms by (intro ray.mul_upper) simp
  moreover have "slope * b \<le> slope * opt" using assms by (intro mult_left_mono) auto
  ultimately have "q * opt \<le> slope * opt + HALF_RAY + opt div 2" using q(2) by linarith
  moreover have "2 * HALF_RAY = RAY" "2 * (opt div 2) \<le> opt" by (simp_all add: const_simps)
  ultimately show "2 * opt * (q - slope) \<le> RAY + opt" by (simp add: algebra_simps)
qed

lemma usageRates_ok:
  assumes "wf_strategy st" "0 \<le> b" "b \<le> RAY"
  obtains sr vr where "usageRates st sr0 vr0 b = Inr (sr, vr)" "sr0 \<le> sr" "vr0 \<le> vr"
    "2 * optimalUsageRatio st * (vr - (vr0 + variableRateSlope1 st + variableRateSlope2 st))
       \<le> RAY + optimalUsageRatio st"
proof (cases "optimalUsageRatio st < b")
  case True
  let ?x = "RAY - optimalUsageRatio st"
  have x: "0 < ?x" "0 \<le> b - optimalUsageRatio st" "b - optimalUsageRatio st \<le> ?x"
    using True assms by (auto simp: wf_strategy_def)
  obtain e where e: "rayDiv (b - optimalUsageRatio st) ?x = Inr e"
    using x(1) ray.dv_ok[of ?x] by auto
  have e0: "0 \<le> e" "e \<le> RAY"
    using ray.dv_bounds(1)[OF x(2,1) e] ray.dv_le_unit[OF x(2,3,1) e] by auto
  have vm: "0 \<le> rayMul (variableRateSlope2 st) e"
      "rayMul (variableRateSlope2 st) e \<le> variableRateSlope2 st"
      "0 \<le> rayMul (stableRateSlope2 st) e"
    using assms(1) e0 by (auto simp: wf_strategy_def intro: ray.mul_nonneg ray.mul_le)
  have "2 * optimalUsageRatio st *
      (rayMul (variableRateSlope2 st) e - variableRateSlope2 st) \<le> 0"
    using vm(2) assms(1) by (intro mult_nonneg_nonpos) (auto simp: wf_strategy_def)
  then show ?thesis
    using that[of "sr0 + stableRateSlope1 st + rayMul (stableRateSlope2 st) e"
        "vr0 + variableRateSlope1 st + rayMul (variableRateSlope2 st) e"]
      True e vm assms(1) RAY_nonneg
    by (simp add: usageRates_def Let_def wf_strategy_def)
next
  case False
  let ?o = "optimalUsageRatio st"
  have o: "0 < ?o" "b \<le> ?o" using False assms(1) by (auto simp: wf_strategy_def)
  obtain s where s: "rayDiv (rayMul (stableRateSlope1 st) b) ?o = Inr s"
    using o ray.dv_ok[of ?o] by auto
  obtain v where v: "rayDiv (rayMul (variableRateSlope1 st) b) ?o = Inr v"
    using o ray.dv_ok[of ?o] by auto
  have sl: "0 \<le> stableRateSlope1 st" "0 \<le> variableRateSlope1 st" "0 \<le> variableRateSlope2 st"
    using assms(1) by (auto simp: wf_strategy_def)
  have "0 \<le> 2 * ?o * variableRateSlope2 st" using sl o by simp
  then have "2 * ?o * (v - (variableRateSlope1 st + variableRateSlope2 st)) \<le> RAY + ?o"
    using below_kink(2)[OF sl(2) assms(2) o(2,1) v] by (simp add: algebra_simps)
  then show ?thesis
    using that[of "sr0 + s" "vr0 + v"] False s v
      below_kink(1)[OF sl(1) assms(2) o(2,1) s] below_kink(1)[OF sl(2) assms(2) o(2,1) v]
    by (simp add: usageRates_def Let_def algebra_simps)
qed

lemma excessStableRate_ok:
  assumes "wf_strategy st" "0 \<le> ratio" "ratio \<le> RAY"
  obtains sr where "excessStableRate st sr0 ratio = Inr sr" "sr0 \<le> sr"
    "sr \<le> sr0 + stableRateExcessOffset st"
proof (cases "optimalStableToTotalDebtRatio st < ratio")
  case True
  let ?o = "optimalStableToTotalDebtRatio st"
  have x: "0 < RAY - ?o" "0 \<le> ratio - ?o" "ratio - ?o \<le> RAY - ?o"
    using True assms by auto
  obtain e where e: "rayDiv (ratio - ?o) (RAY - ?o) = Inr e"
    using x(1) ray.dv_ok[of "RAY - ?o"] by auto
  have "0 \<le> e" "e \<le> RAY"
    using ray.dv_bounds(1)[OF x(2,1) e] ray.dv_le_unit[OF x(2,3,1) e] by auto
  then have "0 \<le> rayMul (stableRateExcessOffset st) e"
      "rayMul (stableRateExcessOffset st) e \<le> stableRateExcessOffset st"
    using assms(1) by (auto simp: wf_strategy_def intro: ray.mul_nonneg ray.mul_le)
  then show ?thesis
    using that[of "sr0 + rayMul (stableRateExcessOffset st) e"] True e
    by (simp add: excessStableRate_def Let_def)
next
  case False
  then show ?thesis
    using that[of sr0] assms(1) by (simp add: excessStableRate_def Let_def wf_strategy_def)
qed

section \<open>The overall borrow rate is a rounded weighted average\<close>

lemma overallRate_ok:
  assumes "0 \<le> ts" "0 \<le> tv" "0 \<le> vr" "0 \<le> sr"
  obtains q where "calcExpectedOverallBorrowRate ts tv vr sr = Inr q" "0 \<le> q"
proof (cases "ts + tv = 0")
  case True
  then show ?thesis using that[of 0] by (simp add: calcExpectedOverallBorrowRate_def)
next
  case False
  then have t: "0 < wadToRay (ts + tv)" using assms by simp
  have w: "0 \<le> rayMul (wadToRay tv) vr + rayMul (wadToRay ts) sr"
    using assms by (simp add: ray.mul_nonneg)
  obtain q where q: "rayDiv (rayMul (wadToRay tv) vr + rayMul (wadToRay ts) sr)
      (wadToRay (ts + tv)) = Inr q"
    using t ray.dv_ok[of "wadToRay (ts + tv)"] by auto
  show ?thesis
    using that[OF _ ray.dv_bounds(1)[OF w t q]] False q
    by (simp add: calcExpectedOverallBorrowRate_def Let_def)
qed

lemma overallRate_average:
  assumes nn: "0 \<le> ts" "0 \<le> tv" "0 < ts + tv"
    and lo: "0 \<le> lo" "lo \<le> vr" "lo \<le> sr" and hi: "vr \<le> hi" "sr \<le> hi"
    and q: "calcExpectedOverallBorrowRate ts tv vr sr = Inr q"
  shows "2 * wadToRay (ts + tv) * (q - hi) \<le> 2 * RAY + wadToRay (ts + tv)"
    "2 * wadToRay (ts + tv) * (lo - q) \<le> 2 * RAY + wadToRay (ts + tv)"
proof -
  define T V S where TVS: "T = wadToRay (ts + tv)" "V = wadToRay tv" "S = wadToRay ts"
  have T: "0 < T" "0 \<le> V" "0 \<le> S" "T = V + S" using nn by (simp_all add: TVS add.commute)
  have vs: "0 \<le> V * vr" "0 \<le> S * sr" using T lo by simp_all
  define m where "m = rayMul V vr + rayMul S sr"
  have qd: "rayDiv m T = Inr q"
    using q nn by (simp add: calcExpectedOverallBorrowRate_def Let_def TVS m_def)
  have m: "0 \<le> m" using T lo by (simp add: m_def ray.mul_nonneg)
  note b = ray.dv_bounds(2,3)[OF m T(1) qd]
  have mu: "m * RAY \<le> V * vr + S * sr + RAY" "V * vr + S * sr - RAY \<le> m * RAY"
    using ray.mul_upper[OF vs(1)] ray.mul_upper[OF vs(2)] ray.mul_lower[OF vs(1)]
      ray.mul_lower[OF vs(2)] by (auto simp: m_def distrib_right const_simps)
  have "V * vr \<le> V * hi" "S * sr \<le> S * hi" "V * lo \<le> V * vr" "S * lo \<le> S * sr"
    using T lo hi by (auto intro: mult_left_mono)
  then have lh: "V * vr + S * sr \<le> T * hi" "T * lo \<le> V * vr + S * sr"
    by (simp_all add: T(4) distrib_right)
  have "2 * (T div 2) \<le> T" "T \<le> 2 * (T div 2) + 1" by simp_all
  then have "2 * (q * T) \<le> 2 * (T * hi) + 2 * RAY + T" "2 * (T * lo) - 2 * RAY \<le> 2 * (q * T) + T"
    using b mu lh by linarith+
  then show "2 * wadToRay (ts + tv) * (q - hi) \<le> 2 * RAY + wadToRay (ts + tv)"
    "2 * wadToRay (ts + tv) * (lo - q) \<le> 2 * RAY + wadToRay (ts + tv)"
    by (simp_all add: TVS(1) [symmetric] algebra_simps)
qed

section \<open>The interest rates exist and are ordered\<close>

definition stableShare :: "int \<Rightarrow> int \<Rightarrow> int result" where
  "stableShare ts tv = (if 0 < ts then rayDiv ts (ts + tv) else Inr 0)"

lemma stableShare_ok:
  assumes "0 \<le> ts" "0 \<le> tv"
  obtains r where "stableShare ts tv = Inr r" "0 \<le> r" "r \<le> RAY"
proof (cases "0 < ts")
  case True
  with assms have p: "0 < ts + tv" "ts \<le> ts + tv" by simp_all
  obtain r where r: "rayDiv ts (ts + tv) = Inr r" using p(1) ray.dv_ok[of "ts + tv"] by auto
  show ?thesis
    using that[of r] r True ray.dv_bounds(1)[OF assms(1) p(1) r]
      ray.dv_le_unit[OF assms(1) p(2,1) r] by (simp add: stableShare_def)
next
  case False
  then show ?thesis using that[of 0] by (simp add: stableShare_def)
qed

lemma interestRatesFor_ok:
  assumes "wf_params p" "0 \<le> msr" "0 \<le> ts" "0 \<le> tv" "0 \<le> asr" "0 \<le> av" "av \<le> tq"
  obtains lr sr vr where "interestRatesFor p msr ts tv asr av tq = Inr (lr, sr, vr)"
    "0 \<le> lr" "msr \<le> sr" "baseVariableBorrowRate (strategy p) \<le> vr"
    "2 * optimalUsageRatio (strategy p) * (vr - (baseVariableBorrowRate (strategy p) +
       variableRateSlope1 (strategy p) + variableRateSlope2 (strategy p)))
       \<le> RAY + optimalUsageRatio (strategy p)"
proof -
  let ?st = "strategy p"
  have st: "wf_strategy ?st" "0 \<le> baseVariableBorrowRate ?st"
    using assms(1) by (auto simp: wf_params_def wf_strategy_def)
  obtain b s where bs: "calcExpectedUsageRatios ts tv av tq = Inr (b, s)" "0 \<le> s" "s \<le> b" "b \<le> RAY"
    using usageRatios_ok[OF assms(3,4,6,7)] by blast
  obtain r where r: "stableShare ts tv = Inr r" "0 \<le> r" "r \<le> RAY"
    using stableShare_ok[OF assms(3,4)] by blast
  have b0: "0 \<le> b" using bs by simp
  obtain s1 vr where u: "usageRates ?st msr (baseVariableBorrowRate ?st) b = Inr (s1, vr)"
      "msr \<le> s1" "baseVariableBorrowRate ?st \<le> vr"
      "2 * optimalUsageRatio ?st * (vr - (baseVariableBorrowRate ?st + variableRateSlope1 ?st +
         variableRateSlope2 ?st)) \<le> RAY + optimalUsageRatio ?st"
    using usageRates_ok[OF st(1) b0 bs(4)] by blast
  obtain sr where sr: "excessStableRate ?st s1 r = Inr sr" "s1 \<le> sr"
    using excessStableRate_ok[OF st(1) r(2,3)] by blast
  have v0: "0 \<le> vr" using u(3) st(2) by simp
  obtain q where q: "calcExpectedOverallBorrowRate ts tv vr asr = Inr q" "0 \<le> q"
    using overallRate_ok[OF assms(3,4) v0 assms(5)] by blast
  let ?lr = "percentMul (rayMul q s) (PERCENTAGE_FACTOR - reserveFactor p)"
  have "0 \<le> ?lr" using q(2) bs(2) assms(1) by (simp add: wf_params_def pct.mul_nonneg ray.mul_nonneg)
  moreover have "interestRatesFor p msr ts tv asr av tq = Inr (?lr, sr, vr)"
    using bs(1) r(1) u(1) sr(1) q(1) by (simp add: interestRatesFor_def stableShare_def Let_def)
  ultimately show ?thesis using that u(2,3,4) sr(2) by auto
qed

lemma interestRates_ok:
  assumes "obj_get cfg symb = Some p" "wf_params p" "0 \<le> msr" "0 \<le> ts" "0 \<le> tv" "0 \<le> asr"
    "0 \<le> av" "av \<le> tq"
  obtains lr sr vr where
    "calcExpectedInterestRates cfg symb msr ts tv asr av tq = Inr (lr, sr, vr)"
    "0 \<le> lr" "msr \<le> sr" "baseVariableBorrowRate (strategy p) \<le> vr"
proof -
  obtain lr sr vr where r: "interestRatesFor p msr ts tv asr av tq = Inr (lr, sr, vr)"
      "0 \<le> lr" "msr \<le> sr" "baseVariableBorrowRate (strategy p) \<le> vr"
    using interestRatesFor_ok[OF assms(2-8)] by blast
  then show ?thesis
    using that assms(1) by (simp add: calcExpectedInterestRates_def entry_of_get)
qed

end
