(* ===== verification/ReserveUpdate.thy ===== *)
theory ReserveUpdate
  imports Rates
begin

text \<open>
  The shared steps of the reserve calculations of \<open>test-suites/helpers/utils/calculations.ts\<close>:
  index and debt accrual (\<open>updateState\<close>), the liquidity and usage-ratio updates, and the weighted
  stable rates. A TypeScript function that writes into \<open>expectedReserveData\<close> is a function that
  returns the record with those fields written.
\<close>

section \<open>Indexes, debts and the treasury\<close>

definition calcExpectedLiquidityIndex :: "reserve_data \<Rightarrow> int \<Rightarrow> int result" where
  "calcExpectedLiquidityIndex reserveData timestamp =
     rbind (getf (r_supplyUsageRatio reserveData)) (\<lambda>supplyUsageRatio.
     if supplyUsageRatio = 0 then getf (r_liquidityIndex reserveData)
     else
       rbind (getf (r_liquidityRate reserveData)) (\<lambda>liquidityRate.
       rbind (getf (r_lastUpdateTimestamp reserveData)) (\<lambda>lastUpdateTimestamp.
       let cumulatedInterest = calcLinearInterest liquidityRate timestamp lastUpdateTimestamp
       in rbind (getf (r_liquidityIndex reserveData)) (\<lambda>liquidityIndex.
          Inr (rayMul cumulatedInterest liquidityIndex)))))"

definition calcExpectedVariableBorrowIndex :: "reserve_data \<Rightarrow> int \<Rightarrow> int result" where
  "calcExpectedVariableBorrowIndex reserveData timestamp =
     rbind (getf (r_totalVariableDebt reserveData)) (\<lambda>totalVariableDebt.
     if totalVariableDebt = 0 then getf (r_variableBorrowIndex reserveData)
     else
       rbind (getf (r_variableBorrowRate reserveData)) (\<lambda>variableBorrowRate.
       rbind (getf (r_lastUpdateTimestamp reserveData)) (\<lambda>lastUpdateTimestamp.
       let cumulatedInterest =
             calcCompoundedInterest variableBorrowRate timestamp lastUpdateTimestamp
       in rbind (getf (r_variableBorrowIndex reserveData)) (\<lambda>variableBorrowIndex.
          Inr (rayMul cumulatedInterest variableBorrowIndex)))))"

definition calcExpectedTotalVariableDebt :: "reserve_data \<Rightarrow> int \<Rightarrow> int result" where
  "calcExpectedTotalVariableDebt reserveData expectedVariableDebtIndex =
     rbind (getf (r_scaledVariableDebt reserveData)) (\<lambda>scaledVariableDebt.
     Inr (rayMul scaledVariableDebt expectedVariableDebtIndex))"

text \<open>
  \<open>calcExpectedTotalStableDebt\<close> applied to a reserve's stored principal, average rate and last
  stable update, as five of the calculations call it.
\<close>

definition reserveStableDebt :: "reserve_data \<Rightarrow> int \<Rightarrow> int result" where
  "reserveStableDebt reserveData timestamp =
     rbind (getf (r_principalStableDebt reserveData)) (\<lambda>principalStableDebt.
     rbind (getf (r_averageStableBorrowRate reserveData)) (\<lambda>averageStableBorrowRate.
     rbind (getf (r_totalStableDebtLastUpdated reserveData)) (\<lambda>lastUpdated.
     Inr (calcExpectedTotalStableDebt principalStableDebt averageStableBorrowRate
            lastUpdated timestamp))))"

definition calcExpectedAccrueToTreasury :: "reserve_data \<Rightarrow> reserve_data \<Rightarrow> int result" where
  "calcExpectedAccrueToTreasury reserveData nextReserveData =
     rbind (getf (r_reserveFactor reserveData)) (\<lambda>reserveFactor.
     if reserveFactor = 0 then getf (r_accruedToTreasuryScaled reserveData)
     else
       rbind (getf (r_scaledVariableDebt reserveData)) (\<lambda>prevScaledVariableDebt.
       rbind (getf (r_variableBorrowIndex reserveData)) (\<lambda>prevVariableBorrowIndex.
       let prevTotalVariableDebt = rayMul prevScaledVariableDebt prevVariableBorrowIndex in
       rbind (getf (r_scaledVariableDebt nextReserveData)) (\<lambda>nextScaledVariableDebt.
       rbind (getf (r_variableBorrowIndex nextReserveData)) (\<lambda>nextVariableBorrowIndex.
       let currTotalVariableDebt = rayMul nextScaledVariableDebt nextVariableBorrowIndex in
       rbind (getf (r_averageStableBorrowRate reserveData)) (\<lambda>averageStableBorrowRate.
       rbind (getf (r_lastUpdateTimestamp reserveData)) (\<lambda>lastUpdateTimestamp.
       rbind (getf (r_totalStableDebtLastUpdated reserveData)) (\<lambda>totalStableDebtLastUpdated.
       let cumulatedStableInterest = calcCompoundedInterest averageStableBorrowRate
             lastUpdateTimestamp totalStableDebtLastUpdated in
       rbind (getf (r_principalStableDebt reserveData)) (\<lambda>principalStableDebt.
       let prevTotalStableDebt = rayMul principalStableDebt cumulatedStableInterest in
       rbind (getf (r_totalStableDebt nextReserveData)) (\<lambda>nextTotalStableDebt.
       let totalDebtAccrued = currTotalVariableDebt + nextTotalStableDebt -
             prevTotalVariableDebt - prevTotalStableDebt;
           amountToMint = percentMul totalDebtAccrued reserveFactor
       in rbind (getf (r_accruedToTreasuryScaled reserveData)) (\<lambda>accruedToTreasuryScaled.
          if 0 < amountToMint then
            rbind (getf (r_liquidityIndex nextReserveData)) (\<lambda>nextLiquidityIndex.
            rbind (rayDiv amountToMint nextLiquidityIndex) (\<lambda>minted.
            Inr (accruedToTreasuryScaled + minted)))
          else Inr accruedToTreasuryScaled)))))))))))"

definition updateState :: "reserve_data \<Rightarrow> reserve_data \<Rightarrow> int \<Rightarrow> reserve_data result" where
  "updateState reserveDataBeforeAction expectedReserveData txTimestamp =
     rbind (calcExpectedLiquidityIndex reserveDataBeforeAction txTimestamp) (\<lambda>liquidityIndex.
     let e = expectedReserveData\<lparr>r_liquidityIndex := Some liquidityIndex\<rparr> in
     rbind (calcExpectedVariableBorrowIndex reserveDataBeforeAction txTimestamp)
       (\<lambda>variableBorrowIndex.
     let e = e\<lparr>r_variableBorrowIndex := Some variableBorrowIndex\<rparr> in
     rbind (reserveStableDebt reserveDataBeforeAction txTimestamp) (\<lambda>totalStableDebt.
     let e = e\<lparr>r_totalStableDebt := Some totalStableDebt\<rparr> in
     rbind (calcExpectedTotalVariableDebt reserveDataBeforeAction variableBorrowIndex)
       (\<lambda>totalVariableDebt.
     let e = e\<lparr>r_totalVariableDebt := Some totalVariableDebt,
               r_scaledVariableDebt := r_scaledVariableDebt reserveDataBeforeAction,
               r_principalStableDebt := r_principalStableDebt reserveDataBeforeAction\<rparr> in
     rbind (calcExpectedAccrueToTreasury reserveDataBeforeAction e) (\<lambda>accruedToTreasuryScaled.
     Inr (e\<lparr>r_accruedToTreasuryScaled := Some accruedToTreasuryScaled\<rparr>))))))"

section \<open>Liquidity and usage ratios\<close>

text \<open>
  \<open>[e.borrowUsageRatio, e.supplyUsageRatio] = calcExpectedUsageRatios(e.totalStableDebt, ...)\<close>:
  the assignment that closes \<open>updateTotalLiquidityAndUsageRatio\<close> and occurs in the calculations.
\<close>

definition assignUsageRatios :: "reserve_data \<Rightarrow> reserve_data result" where
  "assignUsageRatios e =
     rbind (getf (r_totalStableDebt e)) (\<lambda>totalStableDebt.
     rbind (getf (r_totalVariableDebt e)) (\<lambda>totalVariableDebt.
     rbind (getf (r_availableLiquidity e)) (\<lambda>availableLiquidity.
     rbind (getf (r_totalLiquidity e)) (\<lambda>totalLiquidity.
     rbind (calcExpectedUsageRatios totalStableDebt totalVariableDebt availableLiquidity
              totalLiquidity) (\<lambda>(borrowUsageRatio, supplyUsageRatio).
     Inr (e\<lparr>r_borrowUsageRatio := Some borrowUsageRatio,
            r_supplyUsageRatio := Some supplyUsageRatio\<rparr>))))))"

definition updateTotalLiquidityAndUsageRatio :: "reserve_data \<Rightarrow> reserve_data result" where
  "updateTotalLiquidityAndUsageRatio expectedReserveData =
     rbind (getf (r_availableLiquidity expectedReserveData)) (\<lambda>availableLiquidity.
     rbind (getf (r_unbacked expectedReserveData)) (\<lambda>unbacked.
     assignUsageRatios (expectedReserveData\<lparr>r_totalLiquidity := Some (availableLiquidity + unbacked)\<rparr>)))"

definition updateLiquidityAndUsageRatios ::
    "reserve_data \<Rightarrow> reserve_data \<Rightarrow> int \<Rightarrow> int \<Rightarrow> reserve_data result" where
  "updateLiquidityAndUsageRatios reserveDataBeforeAction expectedReserveData
       liquidityAdded liquidityTaken =
     rbind (getf (r_availableLiquidity reserveDataBeforeAction)) (\<lambda>availableLiquidity.
     let available = availableLiquidity + liquidityAdded - liquidityTaken;
         e = expectedReserveData\<lparr>r_availableLiquidity := Some available\<rparr>
     in rbind (getf (r_unbacked e)) (\<lambda>unbacked.
        assignUsageRatios (e\<lparr>r_totalLiquidity := Some (available + unbacked)\<rparr>)))"

text \<open>
  \<open>const rates = calcExpectedInterestRates(before.symbol, before.marketStableRate, ...)\<close> and the
  three assignments of \<open>rates[0..2]\<close> that follow it in every reserve calculation.
\<close>

definition assignRates ::
    "reserve_params obj \<Rightarrow> reserve_data \<Rightarrow> reserve_data \<Rightarrow> int option \<Rightarrow> int option \<Rightarrow>
       reserve_data result" where
  "assignRates reservesParams reserveDataBeforeAction e totalStableDebt totalVariableDebt =
     rbind (getf (r_symbol reserveDataBeforeAction)) (\<lambda>symb.
     rbind (getf (r_marketStableRate reserveDataBeforeAction)) (\<lambda>marketStableRate.
     rbind (getf totalStableDebt) (\<lambda>stableDebt.
     rbind (getf totalVariableDebt) (\<lambda>variableDebt.
     rbind (getf (r_averageStableBorrowRate e)) (\<lambda>averageStableBorrowRate.
     rbind (getf (r_availableLiquidity e)) (\<lambda>availableLiquidity.
     rbind (getf (r_totalLiquidity e)) (\<lambda>totalLiquidity.
     rbind (calcExpectedInterestRates reservesParams symb marketStableRate stableDebt variableDebt
              averageStableBorrowRate availableLiquidity totalLiquidity)
       (\<lambda>(liquidityRate, stableBorrowRate, variableBorrowRate).
     Inr (e\<lparr>r_liquidityRate := Some liquidityRate, r_stableBorrowRate := Some stableBorrowRate,
            r_variableBorrowRate := Some variableBorrowRate\<rparr>)))))))))"

section \<open>Weighted stable rates\<close>

definition calcExpectedAverageStableBorrowRate :: "int \<Rightarrow> int \<Rightarrow> int \<Rightarrow> int \<Rightarrow> int" where
  "calcExpectedAverageStableBorrowRate avgStableRateBefore totalStableDebtBefore
       amountChanged rate =
     (let weightedTotalBorrows = avgStableRateBefore * totalStableDebtBefore;
          weightedAmountBorrowed = rate * amountChanged;
          totalBorrowedStable = totalStableDebtBefore + amountChanged
      in if totalBorrowedStable = 0 then 0
         else (weightedTotalBorrows + weightedAmountBorrowed) sdiv totalBorrowedStable)"

definition calcExpectedAverageStableBorrowRateRebalance ::
    "int \<Rightarrow> int \<Rightarrow> int \<Rightarrow> int \<Rightarrow> int result" where
  "calcExpectedAverageStableBorrowRateRebalance avgStableRateBefore totalStableDebtBefore
       amountChanged rate =
     (let weightedTotalBorrows = rayMul avgStableRateBefore totalStableDebtBefore;
          weightedAmountBorrowed = rayMul rate (wadToRay amountChanged);
          totalBorrowedStable = totalStableDebtBefore + wadToRay amountChanged
      in if totalBorrowedStable = 0 then Inr 0
         else rayDiv (weightedTotalBorrows + weightedAmountBorrowed) totalBorrowedStable)"

definition calcExpectedUserStableRate :: "int \<Rightarrow> int \<Rightarrow> int \<Rightarrow> int \<Rightarrow> int result" where
  "calcExpectedUserStableRate balanceBefore rateBefore amount rateNew =
     bn_div (balanceBefore * rateBefore + amount * rateNew) (balanceBefore + amount)"

section \<open>What the steps write\<close>

lemma assignUsageRatios_inv:
  "assignUsageRatios e = Inr e' \<longleftrightarrow>
     (\<exists>ts tv av tq b s. r_totalStableDebt e = Some ts \<and> r_totalVariableDebt e = Some tv \<and>
        r_availableLiquidity e = Some av \<and> r_totalLiquidity e = Some tq \<and>
        calcExpectedUsageRatios ts tv av tq = Inr (b, s) \<and>
        e' = e\<lparr>r_borrowUsageRatio := Some b, r_supplyUsageRatio := Some s\<rparr>)"
  by (auto simp: assignUsageRatios_def result_inv)

lemma updateTotal_inv:
  "updateTotalLiquidityAndUsageRatio e = Inr e' \<longleftrightarrow>
     (\<exists>ts tv av ub b s. r_totalStableDebt e = Some ts \<and> r_totalVariableDebt e = Some tv \<and>
        r_availableLiquidity e = Some av \<and> r_unbacked e = Some ub \<and>
        calcExpectedUsageRatios ts tv av (av + ub) = Inr (b, s) \<and>
        e' = e\<lparr>r_totalLiquidity := Some (av + ub), r_borrowUsageRatio := Some b,
               r_supplyUsageRatio := Some s\<rparr>)"
  by (auto simp: updateTotalLiquidityAndUsageRatio_def assignUsageRatios_inv result_inv)

lemma updateLiquidity_inv:
  "updateLiquidityAndUsageRatios bf e added taken = Inr e' \<longleftrightarrow>
     (\<exists>av0 ts tv ub b s. r_availableLiquidity bf = Some av0 \<and> r_totalStableDebt e = Some ts \<and>
        r_totalVariableDebt e = Some tv \<and> r_unbacked e = Some ub \<and>
        calcExpectedUsageRatios ts tv (av0 + added - taken) (av0 + added - taken + ub)
          = Inr (b, s) \<and>
        e' = e\<lparr>r_availableLiquidity := Some (av0 + added - taken),
               r_totalLiquidity := Some (av0 + added - taken + ub),
               r_borrowUsageRatio := Some b, r_supplyUsageRatio := Some s\<rparr>)"
  by (auto simp: updateLiquidityAndUsageRatios_def assignUsageRatios_inv result_inv Let_def)

lemma assignRates_inv:
  "assignRates cfg bf e ts tv = Inr e' \<longleftrightarrow>
     (\<exists>symb msr st vt asr av tq lr sr vr. r_symbol bf = Some symb \<and> r_marketStableRate bf = Some msr \<and>
        ts = Some st \<and> tv = Some vt \<and> r_averageStableBorrowRate e = Some asr \<and>
        r_availableLiquidity e = Some av \<and> r_totalLiquidity e = Some tq \<and>
        calcExpectedInterestRates cfg symb msr st vt asr av tq = Inr (lr, sr, vr) \<and>
        e' = e\<lparr>r_liquidityRate := Some lr, r_stableBorrowRate := Some sr,
               r_variableBorrowRate := Some vr\<rparr>)"
  by (auto simp: assignRates_def result_inv)

lemma updateState_inv:
  "updateState bf e t = Inr e' \<Longrightarrow>
     \<exists>li vi ts tv acc. calcExpectedLiquidityIndex bf t = Inr li \<and>
       calcExpectedVariableBorrowIndex bf t = Inr vi \<and> reserveStableDebt bf t = Inr ts \<and>
       calcExpectedTotalVariableDebt bf vi = Inr tv \<and>
       e' = e\<lparr>r_liquidityIndex := Some li, r_variableBorrowIndex := Some vi,
              r_totalStableDebt := Some ts, r_totalVariableDebt := Some tv,
              r_scaledVariableDebt := r_scaledVariableDebt bf,
              r_principalStableDebt := r_principalStableDebt bf,
              r_accruedToTreasuryScaled := Some acc\<rparr> \<and>
       calcExpectedAccrueToTreasury bf (e'\<lparr>r_accruedToTreasuryScaled := r_accruedToTreasuryScaled e\<rparr>)
         = Inr acc"
  by (auto simp: updateState_def result_inv Let_def)

end
