(* ===== verification/ReserveCalc.thy ===== *)
theory ReserveCalc
  imports ReserveUpdate
begin

text \<open>
  The expected reserve after each action, from \<open>test-suites/helpers/utils/calculations.ts\<close>: one
  definition per \<open>calcExpectedReserveDataAfter...\<close> function, in the order of the source, each
  writing the fields the TypeScript function writes and in its order.

  Amounts arrive as decimal or hexadecimal strings and are used through \<open>BigNumber.from\<close>; they
  are the integers those strings denote, so \<open>amount == MAX_UINT_AMOUNT\<close> is equality of integers.
  \<open>reservesParams\<close> is the \<open>configuration\<close> object of the module.
\<close>

section \<open>Operations\<close>

definition startReserve :: "reserve_data \<Rightarrow> reserve_data" where
  "startReserve reserveDataBeforeAction =
     empty_reserve\<lparr>r_unbacked := r_unbacked reserveDataBeforeAction,
                   r_address := r_address reserveDataBeforeAction,
                   r_reserveFactor := r_reserveFactor reserveDataBeforeAction\<rparr>"

definition calcExpectedReserveDataAfterDeposit ::
    "reserve_params obj \<Rightarrow> int \<Rightarrow> reserve_data \<Rightarrow> int \<Rightarrow> reserve_data result" where
  "calcExpectedReserveDataAfterDeposit reservesParams amountDeposited reserveDataBeforeAction
       txTimestamp =
     rbind (updateState reserveDataBeforeAction (startReserve reserveDataBeforeAction) txTimestamp)
       (\<lambda>e.
     rbind (updateLiquidityAndUsageRatios reserveDataBeforeAction e amountDeposited 0) (\<lambda>e.
     let e = e\<lparr>r_averageStableBorrowRate := r_averageStableBorrowRate reserveDataBeforeAction\<rparr> in
     rbind (assignRates reservesParams reserveDataBeforeAction e (r_totalStableDebt e)
              (r_totalVariableDebt e)) (\<lambda>e.
     updateTotalLiquidityAndUsageRatio e)))"

text \<open>
  The average stable rate with nothing added, as the two bridge calculations recompute it.
\<close>

definition unchangedAverageRate :: "reserve_data \<Rightarrow> int result" where
  "unchangedAverageRate reserveDataBeforeAction =
     rbind (getf (r_averageStableBorrowRate reserveDataBeforeAction)) (\<lambda>averageStableBorrowRate.
     rbind (getf (r_totalStableDebt reserveDataBeforeAction)) (\<lambda>totalStableDebt.
     rbind (getf (r_stableBorrowRate reserveDataBeforeAction)) (\<lambda>stableBorrowRate.
     Inr (calcExpectedAverageStableBorrowRate averageStableBorrowRate totalStableDebt 0
            stableBorrowRate))))"

definition calcExpectedReserveDataAfterMintUnbacked ::
    "reserve_params obj \<Rightarrow> int \<Rightarrow> reserve_data \<Rightarrow> int \<Rightarrow> reserve_data result" where
  "calcExpectedReserveDataAfterMintUnbacked reservesParams amountMinted reserveDataBeforeAction
       txTimestamp =
     (let e = empty_reserve\<lparr>r_address := r_address reserveDataBeforeAction,
                r_reserveFactor := r_reserveFactor reserveDataBeforeAction\<rparr> in
     rbind (updateState reserveDataBeforeAction e txTimestamp) (\<lambda>e.
     rbind (getf (r_unbacked reserveDataBeforeAction)) (\<lambda>unbacked.
     let e = e\<lparr>r_unbacked := Some (unbacked + amountMinted)\<rparr> in
     rbind (updateLiquidityAndUsageRatios reserveDataBeforeAction e 0 0) (\<lambda>e.
     rbind (unchangedAverageRate reserveDataBeforeAction) (\<lambda>averageStableBorrowRate.
     let e = e\<lparr>r_averageStableBorrowRate := Some averageStableBorrowRate\<rparr> in
     rbind (assignRates reservesParams reserveDataBeforeAction e (r_totalStableDebt e)
              (r_totalVariableDebt e)) (\<lambda>e.
     updateTotalLiquidityAndUsageRatio e))))))"

definition cumulateToLiquidityIndex :: "int \<Rightarrow> int \<Rightarrow> int \<Rightarrow> int result" where
  "cumulateToLiquidityIndex liquidityIndex totalLiquidity amount =
     rbind (rayDiv (wadToRay amount) (wadToRay totalLiquidity)) (\<lambda>amountToLiquidityRatio.
     Inr (rayMul (amountToLiquidityRatio + RAY) liquidityIndex))"

definition calcExpectedReserveDataAfterBackUnbacked ::
    "reserve_params obj \<Rightarrow> int \<Rightarrow> int \<Rightarrow> int \<Rightarrow> int \<Rightarrow> reserve_data \<Rightarrow> int \<Rightarrow> reserve_data result" where
  "calcExpectedReserveDataAfterBackUnbacked reservesParams scaledRSTokenSupply amount fee
       bridgeProtocolFee reserveDataBeforeAction txTimestamp =
     (let e = empty_reserve\<lparr>r_address := r_address reserveDataBeforeAction,
                r_reserveFactor := r_reserveFactor reserveDataBeforeAction\<rparr> in
     rbind (updateState reserveDataBeforeAction e txTimestamp) (\<lambda>e.
     rbind (getf (r_unbacked reserveDataBeforeAction)) (\<lambda>unbacked.
     let backingAmount = (if amount < unbacked then amount else unbacked);
         premiumToProtocol = percentMul fee bridgeProtocolFee;
         premiumToLP = fee - premiumToProtocol in
     rbind (getf (r_liquidityIndex e)) (\<lambda>liquidityIndex.
     let totalSupply = rayMul scaledRSTokenSupply liquidityIndex in
     rbind (getf (r_accruedToTreasuryScaled e)) (\<lambda>accruedToTreasuryScaled.
     rbind (cumulateToLiquidityIndex liquidityIndex
              (totalSupply + rayMul accruedToTreasuryScaled liquidityIndex) premiumToLP)
       (\<lambda>cumulatedIndex.
     let e = e\<lparr>r_liquidityIndex := Some cumulatedIndex\<rparr> in
     rbind (rayDiv premiumToProtocol cumulatedIndex) (\<lambda>protocolShare.
     let e = e\<lparr>r_accruedToTreasuryScaled := Some (accruedToTreasuryScaled + protocolShare),
               r_unbacked := Some (unbacked - backingAmount)\<rparr> in
     rbind (updateLiquidityAndUsageRatios reserveDataBeforeAction e (backingAmount + fee) 0) (\<lambda>e.
     rbind (unchangedAverageRate reserveDataBeforeAction) (\<lambda>averageStableBorrowRate.
     let e = e\<lparr>r_averageStableBorrowRate := Some averageStableBorrowRate\<rparr> in
     rbind (assignRates reservesParams reserveDataBeforeAction e (r_totalStableDebt e)
              (r_totalVariableDebt e)) (\<lambda>e.
     updateTotalLiquidityAndUsageRatio e))))))))))"

definition calcExpectedReserveDataAfterWithdraw ::
    "reserve_params obj \<Rightarrow> int \<Rightarrow> reserve_data \<Rightarrow> user_reserve_data \<Rightarrow> int \<Rightarrow> reserve_data result" where
  "calcExpectedReserveDataAfterWithdraw reservesParams amountWithdrawn reserveDataBeforeAction
       userDataBeforeAction txTimestamp =
     rbind (if amountWithdrawn = MAX_UINT_AMOUNT
            then calcExpectedRSTokenBalance reserveDataBeforeAction userDataBeforeAction txTimestamp
            else Inr amountWithdrawn) (\<lambda>amountWithdrawn.
     rbind (updateState reserveDataBeforeAction (startReserve reserveDataBeforeAction) txTimestamp)
       (\<lambda>e.
     rbind (updateLiquidityAndUsageRatios reserveDataBeforeAction e 0 amountWithdrawn) (\<lambda>e.
     let e = e\<lparr>r_averageStableBorrowRate := r_averageStableBorrowRate reserveDataBeforeAction\<rparr> in
     rbind (assignRates reservesParams reserveDataBeforeAction e (r_totalStableDebt e)
              (r_totalVariableDebt e)) (\<lambda>e.
     updateTotalLiquidityAndUsageRatio e))))"

text \<open>The two branches of a borrow, after the common update of the reserve.\<close>

definition borrowStable ::
    "reserve_params obj \<Rightarrow> int \<Rightarrow> reserve_data \<Rightarrow> reserve_data \<Rightarrow> int \<Rightarrow> int \<Rightarrow> reserve_data result" where
  "borrowStable reservesParams amountBorrowed reserveDataBeforeAction e txTimestamp
       currentTimestamp =
     rbind (reserveStableDebt reserveDataBeforeAction txTimestamp) (\<lambda>expectedStableDebtUntilTx.
     rbind (getf (r_averageStableBorrowRate reserveDataBeforeAction)) (\<lambda>averageBefore.
     rbind (getf (r_stableBorrowRate reserveDataBeforeAction)) (\<lambda>stableBorrowRate.
     let averageStableBorrowRate = calcExpectedAverageStableBorrowRate averageBefore
           expectedStableDebtUntilTx amountBorrowed stableBorrowRate;
         principalStableDebt = expectedStableDebtUntilTx + amountBorrowed;
         e = e\<lparr>r_averageStableBorrowRate := Some averageStableBorrowRate,
               r_principalStableDebt := Some principalStableDebt\<rparr> in
     rbind (assignRates reservesParams reserveDataBeforeAction e (r_principalStableDebt e)
              (r_totalVariableDebt e)) (\<lambda>e.
     let e = e\<lparr>r_totalStableDebt := Some (calcExpectedTotalStableDebt principalStableDebt
                 averageStableBorrowRate txTimestamp currentTimestamp)\<rparr> in
     rbind (getf (r_scaledVariableDebt reserveDataBeforeAction)) (\<lambda>scaledVariableDebt.
     rbind (getf (r_variableBorrowRate e)) (\<lambda>variableBorrowRate.
     rbind (getf (r_variableBorrowIndex e)) (\<lambda>variableBorrowIndex.
     assignUsageRatios (e\<lparr>r_totalVariableDebt := Some (rayMul scaledVariableDebt
       (calcExpectedReserveNormalizedDebt variableBorrowRate variableBorrowIndex txTimestamp
          currentTimestamp))\<rparr>))))))))"

definition borrowVariable ::
    "reserve_params obj \<Rightarrow> int \<Rightarrow> reserve_data \<Rightarrow> reserve_data \<Rightarrow> int \<Rightarrow> int \<Rightarrow> reserve_data result" where
  "borrowVariable reservesParams amountBorrowed reserveDataBeforeAction e txTimestamp
       currentTimestamp =
     (let e = e\<lparr>r_principalStableDebt := r_principalStableDebt reserveDataBeforeAction\<rparr> in
     rbind (getf (r_principalStableDebt reserveDataBeforeAction)) (\<lambda>principalStableDebt.
     rbind (getf (r_averageStableBorrowRate reserveDataBeforeAction)) (\<lambda>averageStableBorrowRate.
     rbind (getf (r_totalStableDebtLastUpdated reserveDataBeforeAction)) (\<lambda>lastUpdated.
     let totalStableDebtAfterTx = calcExpectedStableDebtTokenBalance principalStableDebt
           averageStableBorrowRate lastUpdated txTimestamp in
     rbind (reserveStableDebt reserveDataBeforeAction currentTimestamp) (\<lambda>totalStableDebt.
     let e = e\<lparr>r_totalStableDebt := Some totalStableDebt,
               r_averageStableBorrowRate := Some averageStableBorrowRate\<rparr> in
     rbind (getf (r_scaledVariableDebt reserveDataBeforeAction)) (\<lambda>scaledBefore.
     rbind (getf (r_variableBorrowIndex e)) (\<lambda>variableBorrowIndex.
     rbind (rayDiv amountBorrowed variableBorrowIndex) (\<lambda>scaledAmount.
     let scaledVariableDebt = scaledBefore + scaledAmount;
         e = e\<lparr>r_scaledVariableDebt := Some scaledVariableDebt\<rparr>;
         totalVariableDebtAfterTx = rayMul scaledVariableDebt variableBorrowIndex in
     rbind (assignUsageRatios e) (\<lambda>e.
     rbind (assignRates reservesParams reserveDataBeforeAction e (Some totalStableDebtAfterTx)
              (Some totalVariableDebtAfterTx)) (\<lambda>e.
     rbind (getf (r_variableBorrowRate e)) (\<lambda>variableBorrowRate.
     assignUsageRatios (e\<lparr>r_totalVariableDebt := Some (rayMul scaledVariableDebt
       (calcExpectedReserveNormalizedDebt variableBorrowRate variableBorrowIndex txTimestamp
          currentTimestamp))\<rparr>))))))))))))"

definition calcExpectedReserveDataAfterBorrow ::
    "reserve_params obj \<Rightarrow> int \<Rightarrow> string \<Rightarrow> reserve_data \<Rightarrow> int \<Rightarrow> int \<Rightarrow> reserve_data result" where
  "calcExpectedReserveDataAfterBorrow reservesParams amountBorrowed borrowRateMode
       reserveDataBeforeAction txTimestamp currentTimestamp =
     (let e = (startReserve reserveDataBeforeAction)\<lparr>r_lastUpdateTimestamp := Some txTimestamp\<rparr> in
     rbind (updateState reserveDataBeforeAction e txTimestamp) (\<lambda>e.
     rbind (updateLiquidityAndUsageRatios reserveDataBeforeAction e 0 amountBorrowed) (\<lambda>e.
     if borrowRateMode = RateMode_Stable
     then borrowStable reservesParams amountBorrowed reserveDataBeforeAction e txTimestamp
            currentTimestamp
     else borrowVariable reservesParams amountBorrowed reserveDataBeforeAction e txTimestamp
            currentTimestamp)))"

text \<open>
  The debt bookkeeping of a stable repayment: rounding may leave less total debt than the user
  repays, or a negative average rate; both reset the stable side to zero.
\<close>

definition repayStable ::
    "reserve_data \<Rightarrow> user_reserve_data \<Rightarrow> int \<Rightarrow> reserve_data \<Rightarrow> int \<Rightarrow> reserve_data result" where
  "repayStable reserveDataBeforeAction userDataBeforeAction amountRepaidBN e txTimestamp =
     rbind (reserveStableDebt reserveDataBeforeAction txTimestamp) (\<lambda>expectedDebt.
     let totalStableDebt = expectedDebt - amountRepaidBN;
         e = e\<lparr>r_principalStableDebt := Some totalStableDebt,
               r_totalStableDebt := Some totalStableDebt\<rparr>;
         cleared = e\<lparr>r_principalStableDebt := Some 0, r_totalStableDebt := Some 0,
                     r_averageStableBorrowRate := Some 0\<rparr>
     in if totalStableDebt < 0 then Inr cleared
        else
          rbind (getf (r_averageStableBorrowRate reserveDataBeforeAction)) (\<lambda>averageBefore.
          rbind (getf (u_stableBorrowRate userDataBeforeAction)) (\<lambda>userRate.
          let averageStableBorrowRate = calcExpectedAverageStableBorrowRate averageBefore
                expectedDebt (negated amountRepaidBN) userRate
          in if averageStableBorrowRate < 0 then Inr cleared
             else Inr (e\<lparr>r_averageStableBorrowRate := Some averageStableBorrowRate\<rparr>))))"

definition repayVariable ::
    "reserve_data \<Rightarrow> int \<Rightarrow> reserve_data \<Rightarrow> reserve_data result" where
  "repayVariable reserveDataBeforeAction amountRepaidBN e =
     rbind (getf (r_scaledVariableDebt reserveDataBeforeAction)) (\<lambda>scaledBefore.
     rbind (getf (r_variableBorrowIndex e)) (\<lambda>variableBorrowIndex.
     rbind (rayDiv amountRepaidBN variableBorrowIndex) (\<lambda>scaledAmount.
     let scaledVariableDebt = scaledBefore - scaledAmount
     in Inr (e\<lparr>r_scaledVariableDebt := Some scaledVariableDebt,
               r_totalVariableDebt := Some (rayMul scaledVariableDebt variableBorrowIndex),
               r_averageStableBorrowRate := r_averageStableBorrowRate reserveDataBeforeAction\<rparr>))))"

definition calcExpectedReserveDataAfterRepay ::
    "reserve_params obj \<Rightarrow> int \<Rightarrow> string \<Rightarrow> reserve_data \<Rightarrow> user_reserve_data \<Rightarrow> int \<Rightarrow>
       reserve_data result" where
  "calcExpectedReserveDataAfterRepay reservesParams amountRepaid borrowRateMode
       reserveDataBeforeAction userDataBeforeAction txTimestamp =
     rbind (userStableDebt userDataBeforeAction txTimestamp) (\<lambda>userStableDebt.
     rbind (calcExpectedVariableDebtTokenBalance reserveDataBeforeAction userDataBeforeAction
              txTimestamp) (\<lambda>userVariableDebt.
     let amountRepaidBN =
           (if \<bar>amountRepaid\<bar> = MAX_UINT_AMOUNT
            then (if borrowRateMode = RateMode_Stable then userStableDebt else userVariableDebt)
            else amountRepaid) in
     rbind (updateState reserveDataBeforeAction (startReserve reserveDataBeforeAction) txTimestamp)
       (\<lambda>e.
     rbind (updateLiquidityAndUsageRatios reserveDataBeforeAction e amountRepaidBN 0) (\<lambda>e.
     rbind (if borrowRateMode = RateMode_Stable
            then repayStable reserveDataBeforeAction userDataBeforeAction amountRepaidBN e txTimestamp
            else repayVariable reserveDataBeforeAction amountRepaidBN e) (\<lambda>e.
     rbind (assignUsageRatios e) (\<lambda>e.
     rbind (assignRates reservesParams reserveDataBeforeAction e (r_totalStableDebt e)
              (r_totalVariableDebt e)) (\<lambda>e.
     updateTotalLiquidityAndUsageRatio (e\<lparr>r_lastUpdateTimestamp := Some txTimestamp\<rparr>))))))))"

text \<open>The two directions of a rate swap, after the common update of the reserve.\<close>

definition swapToVariable ::
    "reserve_data \<Rightarrow> user_reserve_data \<Rightarrow> int \<Rightarrow> reserve_data \<Rightarrow> reserve_data result" where
  "swapToVariable reserveDataBeforeAction userDataBeforeAction stableDebt e =
     rbind (getf (r_totalStableDebt e)) (\<lambda>totalStableDebtUntilTx.
     rbind (getf (r_scaledVariableDebt reserveDataBeforeAction)) (\<lambda>scaledBefore.
     rbind (getf (r_variableBorrowIndex e)) (\<lambda>variableBorrowIndex.
     rbind (rayDiv stableDebt variableBorrowIndex) (\<lambda>scaledAmount.
     let scaledVariableDebt = scaledBefore + scaledAmount;
         principalStableDebt = totalStableDebtUntilTx - stableDebt in
     rbind (getf (r_averageStableBorrowRate reserveDataBeforeAction)) (\<lambda>averageBefore.
     rbind (getf (u_stableBorrowRate userDataBeforeAction)) (\<lambda>userRate.
     Inr (e\<lparr>r_scaledVariableDebt := Some scaledVariableDebt,
            r_totalVariableDebt := Some (rayMul scaledVariableDebt variableBorrowIndex),
            r_principalStableDebt := Some principalStableDebt,
            r_totalStableDebt := Some principalStableDebt,
            r_averageStableBorrowRate := Some (calcExpectedAverageStableBorrowRate averageBefore
              (principalStableDebt + stableDebt) (negated stableDebt) userRate)\<rparr>)))))))"

definition swapToStable ::
    "reserve_data \<Rightarrow> int \<Rightarrow> reserve_data \<Rightarrow> reserve_data result" where
  "swapToStable reserveDataBeforeAction variableDebt e =
     rbind (getf (r_totalStableDebt e)) (\<lambda>totalStableDebtUntilTx.
     let principalStableDebt = totalStableDebtUntilTx + variableDebt in
     rbind (getf (r_scaledVariableDebt reserveDataBeforeAction)) (\<lambda>scaledBefore.
     rbind (getf (r_variableBorrowIndex e)) (\<lambda>variableBorrowIndex.
     rbind (rayDiv variableDebt variableBorrowIndex) (\<lambda>scaledAmount.
     let scaledVariableDebt = scaledBefore - scaledAmount in
     rbind (getf (r_averageStableBorrowRate reserveDataBeforeAction)) (\<lambda>averageBefore.
     rbind (getf (r_totalStableDebt reserveDataBeforeAction)) (\<lambda>totalStableDebtBefore.
     rbind (getf (r_stableBorrowRate reserveDataBeforeAction)) (\<lambda>stableBorrowRate.
     Inr (e\<lparr>r_principalStableDebt := Some principalStableDebt,
            r_totalStableDebt := Some principalStableDebt,
            r_scaledVariableDebt := Some scaledVariableDebt,
            r_totalVariableDebt := Some (rayMul scaledVariableDebt variableBorrowIndex),
            r_averageStableBorrowRate := Some (calcExpectedAverageStableBorrowRate averageBefore
              totalStableDebtBefore variableDebt stableBorrowRate)\<rparr>))))))))"

definition calcExpectedReserveDataAfterSwapRateMode ::
    "reserve_params obj \<Rightarrow> reserve_data \<Rightarrow> user_reserve_data \<Rightarrow> string \<Rightarrow> int \<Rightarrow> reserve_data result" where
  "calcExpectedReserveDataAfterSwapRateMode reservesParams reserveDataBeforeAction
       userDataBeforeAction rateMode txTimestamp =
     rbind (updateState reserveDataBeforeAction (startReserve reserveDataBeforeAction) txTimestamp)
       (\<lambda>e.
     rbind (updateLiquidityAndUsageRatios reserveDataBeforeAction e 0 0) (\<lambda>e.
     rbind (calcExpectedVariableDebtTokenBalance reserveDataBeforeAction userDataBeforeAction
              txTimestamp) (\<lambda>variableDebt.
     rbind (userStableDebt userDataBeforeAction txTimestamp) (\<lambda>stableDebt.
     rbind (if rateMode = RateMode_Stable
            then swapToVariable reserveDataBeforeAction userDataBeforeAction stableDebt e
            else swapToStable reserveDataBeforeAction variableDebt e) (\<lambda>e.
     rbind (assignUsageRatios e) (\<lambda>e.
     rbind (assignRates reservesParams reserveDataBeforeAction e (r_totalStableDebt e)
              (r_totalVariableDebt e)) (\<lambda>e.
     updateTotalLiquidityAndUsageRatio e)))))))"

definition calcExpectedReserveDataAfterStableRateRebalance ::
    "reserve_params obj \<Rightarrow> reserve_data \<Rightarrow> user_reserve_data \<Rightarrow> int \<Rightarrow> reserve_data result" where
  "calcExpectedReserveDataAfterStableRateRebalance reservesParams reserveDataBeforeAction
       userDataBeforeAction txTimestamp =
     rbind (updateState reserveDataBeforeAction (startReserve reserveDataBeforeAction) txTimestamp)
       (\<lambda>e.
     rbind (updateLiquidityAndUsageRatios reserveDataBeforeAction e 0 0) (\<lambda>e.
     rbind (userStableDebt userDataBeforeAction txTimestamp) (\<lambda>userStableDebt.
     rbind (reserveStableDebt reserveDataBeforeAction txTimestamp) (\<lambda>totalStableDebt.
     let e = e\<lparr>r_principalStableDebt := Some totalStableDebt,
               r_totalStableDebt := Some totalStableDebt\<rparr> in
     rbind (getf (r_averageStableBorrowRate reserveDataBeforeAction)) (\<lambda>averageBefore.
     rbind (getf (u_stableBorrowRate userDataBeforeAction)) (\<lambda>userRate.
     rbind (calcExpectedAverageStableBorrowRateRebalance averageBefore totalStableDebt
              (negated userStableDebt) userRate) (\<lambda>avgRateBefore.
     rbind (getf (r_stableBorrowRate reserveDataBeforeAction)) (\<lambda>stableBorrowRate.
     rbind (calcExpectedAverageStableBorrowRateRebalance avgRateBefore
              (totalStableDebt - userStableDebt) userStableDebt stableBorrowRate)
       (\<lambda>averageStableBorrowRate.
     let e = e\<lparr>r_averageStableBorrowRate := Some averageStableBorrowRate\<rparr> in
     rbind (assignUsageRatios e) (\<lambda>e.
     rbind (assignRates reservesParams reserveDataBeforeAction e (r_totalStableDebt e)
              (r_totalVariableDebt e)) (\<lambda>e.
     updateTotalLiquidityAndUsageRatio e)))))))))))"

end
