(* ===== verification/ReserveFacts.thy ===== *)
theory ReserveFacts
  imports ReserveCalc
begin

text \<open>
  What every reserve calculation has in common: the accrual of the indexes and the treasury by
  \<open>updateState\<close>, the frame, and the consistency of the totals and usage ratios it ends with.
  The calculations are gathered behind one dispatcher so that each fact is stated once.
\<close>

section \<open>One dispatcher for the eight calculations\<close>

datatype reserve_op =
    Deposit int
  | MintUnbacked int
  | BackUnbacked int int int int
  | Withdraw int user_reserve_data
  | Borrow int string int
  | Repay int string user_reserve_data
  | SwapRateMode user_reserve_data string
  | RebalanceStableRate user_reserve_data

fun expectedAfter ::
    "reserve_params obj \<Rightarrow> reserve_op \<Rightarrow> reserve_data \<Rightarrow> int \<Rightarrow> reserve_data result" where
  "expectedAfter cfg (Deposit amount) r t = calcExpectedReserveDataAfterDeposit cfg amount r t"
| "expectedAfter cfg (MintUnbacked amount) r t =
     calcExpectedReserveDataAfterMintUnbacked cfg amount r t"
| "expectedAfter cfg (BackUnbacked supply amount fee protocolFee) r t =
     calcExpectedReserveDataAfterBackUnbacked cfg supply amount fee protocolFee r t"
| "expectedAfter cfg (Withdraw amount u) r t = calcExpectedReserveDataAfterWithdraw cfg amount r u t"
| "expectedAfter cfg (Borrow amount mode now) r t =
     calcExpectedReserveDataAfterBorrow cfg amount mode r t now"
| "expectedAfter cfg (Repay amount mode u) r t =
     calcExpectedReserveDataAfterRepay cfg amount mode r u t"
| "expectedAfter cfg (SwapRateMode u mode) r t =
     calcExpectedReserveDataAfterSwapRateMode cfg r u mode t"
| "expectedAfter cfg (RebalanceStableRate u) r t =
     calcExpectedReserveDataAfterStableRateRebalance cfg r u t"

section \<open>The shape of a result\<close>

lemmas update_inv = assignUsageRatios_inv updateTotal_inv updateLiquidity_inv assignRates_inv

text \<open>Totals and usage ratios agree with the debts and the liquidity of the same object.\<close>

definition settled :: "reserve_data \<Rightarrow> bool" where
  "settled e \<longleftrightarrow> (\<exists>ts tv av ub b s. r_totalStableDebt e = Some ts \<and> r_totalVariableDebt e = Some tv \<and>
     r_availableLiquidity e = Some av \<and> r_unbacked e = Some ub \<and>
     r_totalLiquidity e = Some (av + ub) \<and> r_borrowUsageRatio e = Some b \<and>
     r_supplyUsageRatio e = Some s \<and> calcExpectedUsageRatios ts tv av (av + ub) = Inr (b, s))"

text \<open>The accrual of \<open>e1\<close> is that of \<open>e\<close>: indexes, treasury and frame; \<open>e\<close> has its rates.\<close>

definition accrual_kept :: "reserve_data \<Rightarrow> reserve_data \<Rightarrow> bool" where
  "accrual_kept e1 e \<longleftrightarrow> r_variableBorrowIndex e = r_variableBorrowIndex e1 \<and>
     r_address e = r_address e1 \<and> r_reserveFactor e = r_reserveFactor e1 \<and>
     r_liquidityRate e \<noteq> None \<and> r_stableBorrowRate e \<noteq> None \<and> r_variableBorrowRate e \<noteq> None \<and>
     r_averageStableBorrowRate e \<noteq> None"

definition index_kept :: "reserve_data \<Rightarrow> reserve_data \<Rightarrow> bool" where
  "index_kept e1 e \<longleftrightarrow> r_liquidityIndex e = r_liquidityIndex e1 \<and>
     r_accruedToTreasuryScaled e = r_accruedToTreasuryScaled e1 \<and> r_unbacked e = r_unbacked e1"

lemmas shape_defs = settled_def accrual_kept_def index_kept_def

lemma accrual_keptI:
  "assignRates cfg bf e0 ts tv = Inr e \<Longrightarrow> r_variableBorrowIndex e0 = r_variableBorrowIndex e1 \<Longrightarrow>
   r_address e0 = r_address e1 \<Longrightarrow> r_reserveFactor e0 = r_reserveFactor e1 \<Longrightarrow> accrual_kept e1 e"
  by (auto simp: assignRates_inv accrual_kept_def)

lemma deposit_inv:
  assumes "calcExpectedReserveDataAfterDeposit cfg amt bf t = Inr e"
  obtains e1 where "updateState bf (startReserve bf) t = Inr e1" "accrual_kept e1 e"
    "index_kept e1 e" "settled e"
    "\<exists>av. r_availableLiquidity bf = Some av \<and> r_availableLiquidity e = Some (av + amt)"
    "r_principalStableDebt e = r_principalStableDebt e1"
    "r_scaledVariableDebt e = r_scaledVariableDebt e1"
  using assms unfolding calcExpectedReserveDataAfterDeposit_def
  by (fastforce simp: result_inv Let_def update_inv shape_defs)

lemma mintUnbacked_inv:
  assumes "calcExpectedReserveDataAfterMintUnbacked cfg amt bf t = Inr e"
  obtains e1 e2 where
    "updateState bf (empty_reserve\<lparr>r_address := r_address bf, r_reserveFactor := r_reserveFactor bf\<rparr>) t
       = Inr e1" "accrual_kept e1 e" "index_kept (e1\<lparr>r_unbacked := r_unbacked e\<rparr>) e" "settled e"
    "\<exists>ub. r_unbacked bf = Some ub \<and> r_unbacked e = Some (ub + amt)"
    "r_availableLiquidity e = r_availableLiquidity bf"
    "r_principalStableDebt e = r_principalStableDebt e1"
    "r_scaledVariableDebt e = r_scaledVariableDebt e1"
  using assms unfolding calcExpectedReserveDataAfterMintUnbacked_def
  by (fastforce simp: result_inv Let_def update_inv shape_defs)

lemma withdraw_inv:
  assumes "calcExpectedReserveDataAfterWithdraw cfg amt bf u t = Inr e"
  obtains e1 w where "updateState bf (startReserve bf) t = Inr e1" "accrual_kept e1 e"
    "index_kept e1 e" "settled e"
    "if amt = MAX_UINT_AMOUNT then calcExpectedRSTokenBalance bf u t = Inr w else w = amt"
    "\<exists>av. r_availableLiquidity bf = Some av \<and> r_availableLiquidity e = Some (av - w)"
    "r_principalStableDebt e = r_principalStableDebt e1"
    "r_scaledVariableDebt e = r_scaledVariableDebt e1"
  using assms unfolding calcExpectedReserveDataAfterWithdraw_def
  by (fastforce simp: result_inv Let_def update_inv shape_defs split: if_splits)

lemma backUnbacked_inv:
  assumes "calcExpectedReserveDataAfterBackUnbacked cfg supply amt fee pf bf t = Inr e"
  obtains e1 li acc li' share av ub where
    "updateState bf (empty_reserve\<lparr>r_address := r_address bf, r_reserveFactor := r_reserveFactor bf\<rparr>) t
       = Inr e1" "accrual_kept e1 e" "settled e"
    "r_liquidityIndex e1 = Some li" "r_accruedToTreasuryScaled e1 = Some acc"
    "cumulateToLiquidityIndex li (rayMul supply li + rayMul acc li) (fee - percentMul fee pf) = Inr li'"
    "rayDiv (percentMul fee pf) li' = Inr share"
    "r_liquidityIndex e = Some li'" "r_accruedToTreasuryScaled e = Some (acc + share)"
    "r_unbacked bf = Some ub" "r_unbacked e = Some (ub - min amt ub)"
    "r_availableLiquidity bf = Some av" "r_availableLiquidity e = Some (av + (min amt ub + fee))"
    "r_principalStableDebt e = r_principalStableDebt e1"
    "r_scaledVariableDebt e = r_scaledVariableDebt e1"
proof -
  have m: "(if amt < ub then amt else ub) = min amt ub" for ub by auto
  show thesis
    using assms that unfolding calcExpectedReserveDataAfterBackUnbacked_def m Let_def
    by (clarsimp simp: result_inv update_inv) (fastforce simp: shape_defs)
qed

lemma borrowStable_inv:
  assumes "borrowStable cfg amt bf e1 t now = Inr e"
  shows "accrual_kept e1 e" "index_kept e1 e"
    "r_availableLiquidity e = r_availableLiquidity e1" "r_totalLiquidity e = r_totalLiquidity e1"
    "\<exists>ts tv av tq b s. r_totalStableDebt e = Some ts \<and> r_totalVariableDebt e = Some tv \<and>
       r_availableLiquidity e = Some av \<and> r_totalLiquidity e = Some tq \<and>
       r_borrowUsageRatio e = Some b \<and> r_supplyUsageRatio e = Some s \<and>
       calcExpectedUsageRatios ts tv av tq = Inr (b, s)"
    "\<exists>debt. reserveStableDebt bf t = Inr debt \<and> r_principalStableDebt e = Some (debt + amt)"
    "r_scaledVariableDebt e = r_scaledVariableDebt e1"
  using assms unfolding borrowStable_def
  by (auto simp: result_inv Let_def update_inv accrual_kept_def index_kept_def)

lemma borrowVariable_inv:
  assumes "borrowVariable cfg amt bf e1 t now = Inr e"
  shows "accrual_kept e1 e" "index_kept e1 e"
    "r_availableLiquidity e = r_availableLiquidity e1" "r_totalLiquidity e = r_totalLiquidity e1"
    "\<exists>ts tv av tq b s. r_totalStableDebt e = Some ts \<and> r_totalVariableDebt e = Some tv \<and>
       r_availableLiquidity e = Some av \<and> r_totalLiquidity e = Some tq \<and>
       r_borrowUsageRatio e = Some b \<and> r_supplyUsageRatio e = Some s \<and>
       calcExpectedUsageRatios ts tv av tq = Inr (b, s)"
    "r_principalStableDebt e = r_principalStableDebt bf"
    "\<exists>s0 vi x. r_scaledVariableDebt bf = Some s0 \<and> r_variableBorrowIndex e1 = Some vi \<and>
       rayDiv amt vi = Inr x \<and> r_scaledVariableDebt e = Some (s0 + x)"
  using assms unfolding borrowVariable_def
  by (auto simp: result_inv Let_def update_inv accrual_kept_def index_kept_def)

lemma borrowStable_debts:
  "borrowStable cfg amt bf e1 t now = Inr e \<Longrightarrow>
     (\<exists>p. r_principalStableDebt e = Some p) \<and> r_scaledVariableDebt e = r_scaledVariableDebt e1"
  using borrowStable_inv(6,7)[of cfg amt bf e1 t now e] by blast

lemma borrowVariable_debts:
  "borrowVariable cfg amt bf e1 t now = Inr e \<Longrightarrow>
     r_principalStableDebt e = r_principalStableDebt bf \<and> (\<exists>s. r_scaledVariableDebt e = Some s)"
  using borrowVariable_inv(6,7)[of cfg amt bf e1 t now e] by blast

lemma borrow_inv:
  assumes "calcExpectedReserveDataAfterBorrow cfg amt mode bf t now = Inr e"
  obtains e1 e2 where
    "updateState bf ((startReserve bf)\<lparr>r_lastUpdateTimestamp := Some t\<rparr>) t = Inr e1"
    "updateLiquidityAndUsageRatios bf e1 0 amt = Inr e2"
    "if mode = RateMode_Stable then borrowStable cfg amt bf e2 t now = Inr e
     else borrowVariable cfg amt bf e2 t now = Inr e"
    "accrual_kept e1 e" "index_kept e1 e" "settled e"
    "\<exists>av. r_availableLiquidity bf = Some av \<and> r_availableLiquidity e = Some (av - amt)"
proof -
  obtain e1 e2 where e: "updateState bf ((startReserve bf)\<lparr>r_lastUpdateTimestamp := Some t\<rparr>) t = Inr e1"
    "updateLiquidityAndUsageRatios bf e1 0 amt = Inr e2"
    and b: "if mode = RateMode_Stable then borrowStable cfg amt bf e2 t now = Inr e
     else borrowVariable cfg amt bf e2 t now = Inr e"
    using assms by (auto simp: calcExpectedReserveDataAfterBorrow_def result_inv Let_def split: if_splits)
  have k: "accrual_kept e2 e" "index_kept e2 e"
    "r_availableLiquidity e = r_availableLiquidity e2" "r_totalLiquidity e = r_totalLiquidity e2"
    "\<exists>ts tv av tq b s. r_totalStableDebt e = Some ts \<and> r_totalVariableDebt e = Some tv \<and>
       r_availableLiquidity e = Some av \<and> r_totalLiquidity e = Some tq \<and>
       r_borrowUsageRatio e = Some b \<and> r_supplyUsageRatio e = Some s \<and>
       calcExpectedUsageRatios ts tv av tq = Inr (b, s)"
    using b borrowStable_inv[of cfg amt bf e2 t now e] borrowVariable_inv[of cfg amt bf e2 t now e]
    by (auto split: if_splits)
  have "accrual_kept e1 e" "index_kept e1 e"
    "\<exists>av. r_availableLiquidity bf = Some av \<and> r_availableLiquidity e = Some (av - amt)"
    using k(1-3) e(2) by (auto simp: updateLiquidity_inv accrual_kept_def index_kept_def)
  moreover have "settled e" using k e(2) by (auto simp: updateLiquidity_inv shape_defs)
  ultimately show thesis using that e b by blast
qed

text \<open>The tail shared by repayments, swaps and rebalances: the debt is set, rates follow.\<close>

lemma closing_inv:
  assumes "assignUsageRatios e2 = Inr e3" "assignRates cfg bf e3 ts tv = Inr e4"
    "updateTotalLiquidityAndUsageRatio (e4\<lparr>r_lastUpdateTimestamp := lu\<rparr>) = Inr e"
  shows "accrual_kept e2 e" "index_kept e2 e" "settled e"
    "r_availableLiquidity e = r_availableLiquidity e2"
    "r_principalStableDebt e = r_principalStableDebt e2"
    "r_totalStableDebt e = r_totalStableDebt e2"
    "r_scaledVariableDebt e = r_scaledVariableDebt e2"
    "r_totalVariableDebt e = r_totalVariableDebt e2"
    "r_averageStableBorrowRate e = r_averageStableBorrowRate e2"
proof -
  obtain b s where 1: "e3 = e2\<lparr>r_borrowUsageRatio := Some b, r_supplyUsageRatio := Some s\<rparr>"
    using assms(1) by (auto simp: assignUsageRatios_inv)
  obtain lr sr vr asr where 2: "e4 = e3\<lparr>r_liquidityRate := Some lr, r_stableBorrowRate := Some sr,
      r_variableBorrowRate := Some vr\<rparr>" and a: "r_averageStableBorrowRate e3 = Some asr"
    using assms(2) unfolding assignRates_inv by blast
  obtain ts tv av ub b' s' where 3: "r_totalStableDebt e4 = Some ts" "r_totalVariableDebt e4 = Some tv"
      "r_availableLiquidity e4 = Some av" "r_unbacked e4 = Some ub"
      "calcExpectedUsageRatios ts tv av (av + ub) = Inr (b', s')"
      "e = e4\<lparr>r_lastUpdateTimestamp := lu, r_totalLiquidity := Some (av + ub),
        r_borrowUsageRatio := Some b', r_supplyUsageRatio := Some s'\<rparr>"
    using assms(3) by (auto simp: updateTotal_inv)
  show "accrual_kept e2 e" "index_kept e2 e" "r_availableLiquidity e = r_availableLiquidity e2"
    "r_principalStableDebt e = r_principalStableDebt e2"
    "r_totalStableDebt e = r_totalStableDebt e2"
    "r_scaledVariableDebt e = r_scaledVariableDebt e2"
    "r_totalVariableDebt e = r_totalVariableDebt e2"
    "r_averageStableBorrowRate e = r_averageStableBorrowRate e2"
    using a by (simp_all add: 1 2 3(6) accrual_kept_def index_kept_def)
  show "settled e" using 3(1-5) by (simp add: 3(6) settled_def)
qed

lemma repayStable_inv:
  assumes "repayStable bf u amt e1 t = Inr e"
  obtains debt d a where "reserveStableDebt bf t = Inr debt" "d = max 0 (debt - amt) \<or> d = 0"
    "0 \<le> a" "e = e1\<lparr>r_principalStableDebt := Some d, r_totalStableDebt := Some d,
      r_averageStableBorrowRate := Some a\<rparr>"
proof -
  obtain debt where debt: "reserveStableDebt bf t = Inr debt"
    using assms by (auto simp: repayStable_def result_inv)
  note e = assms[unfolded repayStable_def debt rbind_Inr Let_def]
  show thesis
  proof (cases "debt - amt < 0")
    case True
    then show ?thesis using e that[OF debt, of 0 0] by simp
  next
    case False
    then obtain ab ur where r: "r_averageStableBorrowRate bf = Some ab" "u_stableBorrowRate u = Some ur"
      using e by (auto simp: result_inv)
    let ?a = "calcExpectedAverageStableBorrowRate ab debt (negated amt) ur"
    show ?thesis
    proof (cases "?a < 0")
      case True
      then show ?thesis using e False r that[OF debt, of 0 0] by simp
    next
      case nn: False
      then show ?thesis using e False r that[OF debt, of "debt - amt" ?a] by simp
    qed
  qed
qed

lemma repayVariable_inv:
  assumes "repayVariable bf amt e1 = Inr e"
  obtains s0 vi x where "r_scaledVariableDebt bf = Some s0" "r_variableBorrowIndex e1 = Some vi"
    "rayDiv amt vi = Inr x"
    "e = e1\<lparr>r_scaledVariableDebt := Some (s0 - x), r_totalVariableDebt := Some (rayMul (s0 - x) vi),
       r_averageStableBorrowRate := r_averageStableBorrowRate bf\<rparr>"
  using assms unfolding repayVariable_def by (auto simp: result_inv Let_def)

lemma swapToVariable_inv:
  assumes "swapToVariable bf u debt e1 = Inr e"
  obtains ts s0 vi x a where "r_totalStableDebt e1 = Some ts" "r_scaledVariableDebt bf = Some s0"
    "r_variableBorrowIndex e1 = Some vi" "rayDiv debt vi = Inr x"
    "e = e1\<lparr>r_scaledVariableDebt := Some (s0 + x), r_totalVariableDebt := Some (rayMul (s0 + x) vi),
       r_principalStableDebt := Some (ts - debt), r_totalStableDebt := Some (ts - debt),
       r_averageStableBorrowRate := Some a\<rparr>"
  using assms unfolding swapToVariable_def by (auto simp: result_inv Let_def)

lemma swapToStable_inv:
  assumes "swapToStable bf debt e1 = Inr e"
  obtains ts s0 vi x a where "r_totalStableDebt e1 = Some ts" "r_scaledVariableDebt bf = Some s0"
    "r_variableBorrowIndex e1 = Some vi" "rayDiv debt vi = Inr x"
    "e = e1\<lparr>r_principalStableDebt := Some (ts + debt), r_totalStableDebt := Some (ts + debt),
       r_scaledVariableDebt := Some (s0 - x), r_totalVariableDebt := Some (rayMul (s0 - x) vi),
       r_averageStableBorrowRate := Some a\<rparr>"
  using assms unfolding swapToStable_def by (auto simp: result_inv Let_def)


definition repaidAmount ::
    "int \<Rightarrow> string \<Rightarrow> reserve_data \<Rightarrow> user_reserve_data \<Rightarrow> int \<Rightarrow> int \<Rightarrow> bool" where
  "repaidAmount amt mode bf u t w \<longleftrightarrow>
     (if \<bar>amt\<bar> \<noteq> MAX_UINT_AMOUNT then w = amt
      else if mode = RateMode_Stable then userStableDebt u t = Inr w
      else calcExpectedVariableDebtTokenBalance bf u t = Inr w)"

lemma repay_inv:
  assumes "calcExpectedReserveDataAfterRepay cfg amt mode bf u t = Inr e"
  obtains e1 e2 e3 w where "updateState bf (startReserve bf) t = Inr e1"
    "repaidAmount amt mode bf u t w" "updateLiquidityAndUsageRatios bf e1 w 0 = Inr e2"
    "if mode = RateMode_Stable then repayStable bf u w e2 t = Inr e3
     else repayVariable bf w e2 = Inr e3"
    "r_availableLiquidity e3 = r_availableLiquidity e2"
    "accrual_kept e1 e" "index_kept e1 e" "settled e"
    "r_availableLiquidity e = r_availableLiquidity e3"
    "r_principalStableDebt e = r_principalStableDebt e3"
    "r_totalStableDebt e = r_totalStableDebt e3"
    "r_scaledVariableDebt e = r_scaledVariableDebt e3"
    "r_totalVariableDebt e = r_totalVariableDebt e3"
    "r_averageStableBorrowRate e = r_averageStableBorrowRate e3"
proof -
  obtain us uv where u: "userStableDebt u t = Inr us" "calcExpectedVariableDebtTokenBalance bf u t = Inr uv"
    using assms by (auto simp: calcExpectedReserveDataAfterRepay_def rbind_eq_Inr)
  define w where "w = (if \<bar>amt\<bar> = MAX_UINT_AMOUNT
            then (if mode = RateMode_Stable then us else uv) else amt)"
  obtain e1 e2 e3 e4 e5 where s: "updateState bf (startReserve bf) t = Inr e1"
    "updateLiquidityAndUsageRatios bf e1 w 0 = Inr e2"
    "(if mode = RateMode_Stable then repayStable bf u w e2 t else repayVariable bf w e2) = Inr e3"
    "assignUsageRatios e3 = Inr e4"
    "assignRates cfg bf e4 (r_totalStableDebt e4) (r_totalVariableDebt e4) = Inr e5"
    "updateTotalLiquidityAndUsageRatio (e5\<lparr>r_lastUpdateTimestamp := Some t\<rparr>) = Inr e"
    using assms unfolding calcExpectedReserveDataAfterRepay_def u rbind_Inr Let_def w_def [symmetric]
    by (auto simp: rbind_eq_Inr)
  have k: "repaidAmount amt mode bf u t w" by (simp add: repaidAmount_def w_def u)
  have b: "if mode = RateMode_Stable then repayStable bf u w e2 t = Inr e3
     else repayVariable bf w e2 = Inr e3" using s(3) by (simp split: if_splits)
  have m: "r_availableLiquidity e3 = r_availableLiquidity e2" "index_kept e2 e3"
      "r_address e3 = r_address e2" "r_reserveFactor e3 = r_reserveFactor e2"
      "r_variableBorrowIndex e3 = r_variableBorrowIndex e2"
    using b by (auto split: if_splits elim!: repayStable_inv repayVariable_inv simp: index_kept_def)
  note c = closing_inv[OF s(4,5,6)]
  have "accrual_kept e1 e" "index_kept e1 e"
    using c(1,2) m s(2) by (auto simp: updateLiquidity_inv accrual_kept_def index_kept_def)
  then show thesis using that[OF s(1) k s(2) b m(1)] c by blast
qed

lemma swap_inv:
  assumes "calcExpectedReserveDataAfterSwapRateMode cfg bf u mode t = Inr e"
  obtains e1 e2 e3 vd sd where "updateState bf (startReserve bf) t = Inr e1"
    "updateLiquidityAndUsageRatios bf e1 0 0 = Inr e2"
    "calcExpectedVariableDebtTokenBalance bf u t = Inr vd" "userStableDebt u t = Inr sd"
    "if mode = RateMode_Stable then swapToVariable bf u sd e2 = Inr e3
     else swapToStable bf vd e2 = Inr e3"
    "r_availableLiquidity e = r_availableLiquidity bf"
    "accrual_kept e1 e" "index_kept e1 e" "settled e"
    "r_principalStableDebt e = r_principalStableDebt e3"
    "r_totalStableDebt e = r_totalStableDebt e3"
    "r_scaledVariableDebt e = r_scaledVariableDebt e3"
    "r_totalVariableDebt e = r_totalVariableDebt e3"
    "r_averageStableBorrowRate e = r_averageStableBorrowRate e3"
proof -
  obtain e1 e2 e3 e4 e5 vd sd where s: "updateState bf (startReserve bf) t = Inr e1"
    "updateLiquidityAndUsageRatios bf e1 0 0 = Inr e2"
    "calcExpectedVariableDebtTokenBalance bf u t = Inr vd" "userStableDebt u t = Inr sd"
    "(if mode = RateMode_Stable then swapToVariable bf u sd e2 else swapToStable bf vd e2) = Inr e3"
    "assignUsageRatios e3 = Inr e4"
    "assignRates cfg bf e4 (r_totalStableDebt e4) (r_totalVariableDebt e4) = Inr e5"
    "updateTotalLiquidityAndUsageRatio e5 = Inr e"
    using assms unfolding calcExpectedReserveDataAfterSwapRateMode_def
    by (auto simp: rbind_eq_Inr)
  have b: "if mode = RateMode_Stable then swapToVariable bf u sd e2 = Inr e3
     else swapToStable bf vd e2 = Inr e3" using s(5) by (simp split: if_splits)
  have m: "r_availableLiquidity e3 = r_availableLiquidity e2" "index_kept e2 e3"
      "r_address e3 = r_address e2" "r_reserveFactor e3 = r_reserveFactor e2"
      "r_variableBorrowIndex e3 = r_variableBorrowIndex e2"
    using b by (auto split: if_splits elim!: swapToVariable_inv swapToStable_inv simp: index_kept_def)
  note c = closing_inv[OF s(6,7), of "r_lastUpdateTimestamp e5" e, simplified, OF s(8)]
  have "accrual_kept e1 e" "index_kept e1 e" "r_availableLiquidity e = r_availableLiquidity bf"
    using c m s(2) by (auto simp: updateLiquidity_inv accrual_kept_def index_kept_def)
  then show thesis using that[OF s(1-4) b] c by blast
qed

lemma rebalance_inv:
  assumes "calcExpectedReserveDataAfterStableRateRebalance cfg bf u t = Inr e"
  obtains e1 us ts ab ur a1 sr a2 where "updateState bf (startReserve bf) t = Inr e1"
    "userStableDebt u t = Inr us" "reserveStableDebt bf t = Inr ts"
    "r_averageStableBorrowRate bf = Some ab" "u_stableBorrowRate u = Some ur"
    "calcExpectedAverageStableBorrowRateRebalance ab ts (negated us) ur = Inr a1"
    "r_stableBorrowRate bf = Some sr"
    "calcExpectedAverageStableBorrowRateRebalance a1 (ts - us) us sr = Inr a2"
    "r_averageStableBorrowRate e = Some a2"
    "r_availableLiquidity e = r_availableLiquidity bf"
    "accrual_kept e1 e" "index_kept e1 e" "settled e"
    "r_principalStableDebt e = Some ts" "r_totalStableDebt e = Some ts"
    "r_scaledVariableDebt e = r_scaledVariableDebt e1"
    "r_totalVariableDebt e = r_totalVariableDebt e1"
proof -
  obtain e1 e2 us ts ab ur a1 sr a2 e4 e5 where s: "updateState bf (startReserve bf) t = Inr e1"
    "updateLiquidityAndUsageRatios bf e1 0 0 = Inr e2"
    "userStableDebt u t = Inr us" "reserveStableDebt bf t = Inr ts"
    "r_averageStableBorrowRate bf = Some ab" "u_stableBorrowRate u = Some ur"
    "calcExpectedAverageStableBorrowRateRebalance ab ts (negated us) ur = Inr a1"
    "r_stableBorrowRate bf = Some sr"
    "calcExpectedAverageStableBorrowRateRebalance a1 (ts - us) us sr = Inr a2"
    "assignUsageRatios (e2\<lparr>r_principalStableDebt := Some ts, r_totalStableDebt := Some ts,
       r_averageStableBorrowRate := Some a2\<rparr>) = Inr e4"
    "assignRates cfg bf e4 (r_totalStableDebt e4) (r_totalVariableDebt e4) = Inr e5"
    "updateTotalLiquidityAndUsageRatio e5 = Inr e"
    using assms unfolding calcExpectedReserveDataAfterStableRateRebalance_def Let_def
    by (auto simp: rbind_eq_Inr)
  note c = closing_inv[OF s(10,11), of "r_lastUpdateTimestamp e5" e, simplified, OF s(12)]
  have "accrual_kept e1 e" "index_kept e1 e" "r_availableLiquidity e = r_availableLiquidity bf"
      "r_scaledVariableDebt e = r_scaledVariableDebt e1"
      "r_totalVariableDebt e = r_totalVariableDebt e1"
    using c s(2) by (auto simp: updateLiquidity_inv accrual_kept_def index_kept_def)
  then show thesis using that[OF s(1,3-9)] c by blast
qed


lemma updateState_kept:
  assumes "updateState bf e t = Inr e'"
  shows "r_scaledVariableDebt e' = r_scaledVariableDebt bf"
    "r_principalStableDebt e' = r_principalStableDebt bf"
    "r_address e' = r_address e" "r_reserveFactor e' = r_reserveFactor e"
    "r_unbacked e' = r_unbacked e"
    "r_liquidityIndex e' \<noteq> None" "r_variableBorrowIndex e' \<noteq> None"
    "r_accruedToTreasuryScaled e' \<noteq> None" "r_totalStableDebt e' \<noteq> None"
    "r_totalVariableDebt e' \<noteq> None"
  using updateState_inv[OF assms] by auto

section \<open>Accrual\<close>

text \<open>
  A reserve as the chain can report it at time \<open>t\<close> or earlier: amounts and rates are unsigned,
  indexes start at one ray, and the timestamps are in the past.
\<close>

definition sane_reserve :: "reserve_data \<Rightarrow> int \<Rightarrow> bool" where
  "sane_reserve r t \<longleftrightarrow> complete_reserve r \<and>
     RAY \<le> the (r_liquidityIndex r) \<and> RAY \<le> the (r_variableBorrowIndex r) \<and>
     0 \<le> the (r_availableLiquidity r) \<and> 0 \<le> the (r_unbacked r) \<and>
     0 \<le> the (r_liquidityRate r) \<and> 0 \<le> the (r_variableBorrowRate r) \<and>
     0 \<le> the (r_stableBorrowRate r) \<and> 0 \<le> the (r_averageStableBorrowRate r) \<and>
     0 \<le> the (r_marketStableRate r) \<and>
     0 \<le> the (r_scaledVariableDebt r) \<and> 0 \<le> the (r_principalStableDebt r) \<and>
     0 \<le> the (r_totalStableDebt r) \<and>
     0 \<le> the (r_accruedToTreasuryScaled r) \<and> 0 \<le> the (r_reserveFactor r) \<and>
     the (r_lastUpdateTimestamp r) \<le> t \<and> the (r_totalStableDebtLastUpdated r) \<le> t"

lemma sane_complete: "sane_reserve r t \<Longrightarrow> complete_reserve r"
  by (simp add: sane_reserve_def)

lemma liquidityIndex_ok:
  assumes "sane_reserve r t" "r_liquidityIndex r = Some li"
  obtains li' where "calcExpectedLiquidityIndex r t = Inr li'" "li \<le> li'"
proof -
  obtain su lr lu where f: "r_supplyUsageRatio r = Some su" "r_liquidityRate r = Some lr"
      "r_lastUpdateTimestamp r = Some lu"
    using complete_reserveD[OF sane_complete[OF assms(1)]] by blast
  have b: "0 \<le> lr" "lu \<le> t" "0 \<le> li"
    using assms f by (auto simp: sane_reserve_def const_simps)
  have "li \<le> rayMul (calcLinearInterest lr t lu) li"
    using b by (simp add: ray.mul_ge' calcLinearInterest_ge_RAY)
  then show thesis
    using that[of "if su = 0 then li else rayMul (calcLinearInterest lr t lu) li"] f assms(2)
    by (simp add: calcExpectedLiquidityIndex_def)
qed

lemma variableBorrowIndex_ok:
  assumes "sane_reserve r t" "r_variableBorrowIndex r = Some vi"
  obtains vi' where "calcExpectedVariableBorrowIndex r t = Inr vi'" "vi \<le> vi'"
proof -
  obtain tv vr lu where f: "r_totalVariableDebt r = Some tv" "r_variableBorrowRate r = Some vr"
      "r_lastUpdateTimestamp r = Some lu"
    using complete_reserveD[OF sane_complete[OF assms(1)]] by blast
  have b: "0 \<le> vr" "lu \<le> t" "0 \<le> vi"
    using assms f by (auto simp: sane_reserve_def const_simps)
  have "vi \<le> rayMul (calcCompoundedInterest vr t lu) vi"
    using b by (simp add: ray.mul_ge' calcCompoundedInterest_ge_RAY)
  then show thesis
    using that[of "if tv = 0 then vi else rayMul (calcCompoundedInterest vr t lu) vi"] f assms(2)
    by (simp add: calcExpectedVariableBorrowIndex_def)
qed

lemma reserveStableDebt_ok:
  assumes "sane_reserve r t" "r_principalStableDebt r = Some p"
  obtains d where "reserveStableDebt r t = Inr d" "p \<le> d"
proof -
  obtain a lu where f: "r_averageStableBorrowRate r = Some a" "r_totalStableDebtLastUpdated r = Some lu"
    using complete_reserveD[OF sane_complete[OF assms(1)]] by blast
  have "0 \<le> p" "0 \<le> a" "lu \<le> t" using assms f by (auto simp: sane_reserve_def)
  then show thesis
    using that[of "calcExpectedTotalStableDebt p a lu t"] f assms(2)
    by (simp add: reserveStableDebt_def totalStableDebt_ge_principal)
qed

text \<open>The treasury's share only ever grows, whatever sign the accrued debt has.\<close>

lemma accrueToTreasury_ok:
  assumes "sane_reserve r t" "r_accruedToTreasuryScaled r = Some acc"
    "r_scaledVariableDebt nx = Some s" "r_variableBorrowIndex nx = Some vi"
    "r_totalStableDebt nx = Some ts" "r_liquidityIndex nx = Some li" "0 < li"
  obtains acc' where "calcExpectedAccrueToTreasury r nx = Inr acc'" "acc \<le> acc'"
proof -
  obtain rf s0 vi0 a lu ls p where f: "r_reserveFactor r = Some rf" "r_scaledVariableDebt r = Some s0"
      "r_variableBorrowIndex r = Some vi0" "r_averageStableBorrowRate r = Some a"
      "r_lastUpdateTimestamp r = Some lu" "r_totalStableDebtLastUpdated r = Some ls"
      "r_principalStableDebt r = Some p"
    using complete_reserveD[OF sane_complete[OF assms(1)]] by blast
  let ?m = "percentMul (rayMul s vi + ts - rayMul s0 vi0 -
      rayMul p (calcCompoundedInterest a lu ls)) rf"
  show thesis
  proof (cases "rf \<noteq> 0 \<and> 0 < ?m")
    case True
    obtain q where q: "rayDiv ?m li = Inr q" using assms(7) ray.dv_ok[of li] by auto
    have "0 \<le> q" using ray.dv_bounds(1)[OF _ assms(7) q] True by simp
    then show ?thesis
      using that[of "acc + q"] True q f assms(2-6)
      by (simp add: calcExpectedAccrueToTreasury_def Let_def)
  next
    case False
    then show ?thesis
      using that[of acc] f assms(2-6) by (auto simp: calcExpectedAccrueToTreasury_def Let_def)
  qed
qed

lemma updateState_ok:
  assumes "sane_reserve r t" "r_liquidityIndex r = Some li" "r_variableBorrowIndex r = Some vi"
    "r_accruedToTreasuryScaled r = Some acc" "r_principalStableDebt r = Some p"
  obtains li' vi' ts tv acc' where
    "updateState r e t = Inr (e\<lparr>r_liquidityIndex := Some li', r_variableBorrowIndex := Some vi',
       r_totalStableDebt := Some ts, r_totalVariableDebt := Some tv,
       r_scaledVariableDebt := r_scaledVariableDebt r,
       r_principalStableDebt := r_principalStableDebt r,
       r_accruedToTreasuryScaled := Some acc'\<rparr>)"
    "li \<le> li'" "vi \<le> vi'" "p \<le> ts" "0 \<le> tv" "acc \<le> acc'" "reserveStableDebt r t = Inr ts"
proof -
  obtain li' where li: "calcExpectedLiquidityIndex r t = Inr li'" "li \<le> li'"
    using liquidityIndex_ok[OF assms(1,2)] by blast
  obtain vi' where vi: "calcExpectedVariableBorrowIndex r t = Inr vi'" "vi \<le> vi'"
    using variableBorrowIndex_ok[OF assms(1,3)] by blast
  obtain ts where ts: "reserveStableDebt r t = Inr ts" "p \<le> ts"
    using reserveStableDebt_ok[OF assms(1,5)] by blast
  obtain s where s: "r_scaledVariableDebt r = Some s"
    using complete_reserveD[OF sane_complete[OF assms(1)]] by blast
  have pos: "0 < li'" "0 \<le> vi'" "0 \<le> s"
    using assms(1-3) li(2) vi(2) s by (auto simp: sane_reserve_def const_simps)
  define e0 where "e0 = e\<lparr>r_liquidityIndex := Some li', r_variableBorrowIndex := Some vi',
       r_totalStableDebt := Some ts, r_totalVariableDebt := Some (rayMul s vi'),
       r_scaledVariableDebt := Some s, r_principalStableDebt := r_principalStableDebt r\<rparr>"
  obtain acc' where acc: "calcExpectedAccrueToTreasury r e0 = Inr acc'" "acc \<le> acc'"
    using accrueToTreasury_ok[OF assms(1,4), of e0 s vi' ts li'] pos(1) by (auto simp: e0_def)
  show thesis
    using that[where li' = li' and vi' = vi' and ts = ts and tv = "rayMul s vi'" and acc' = acc'] li vi ts acc s pos
    by (simp add: updateState_def Let_def calcExpectedTotalVariableDebt_def e0_def ray.mul_nonneg)
qed

end
