(* ===== verification/ReserveTotal.thy ===== *)
theory ReserveTotal
  imports ReserveFacts
begin

text \<open>
  The reserve calculations return a value on every reserve the chain can report, for every
  feasible action: no division by zero, no undefined property, and the assertion on the two usage
  ratios never fires.
\<close>

section \<open>The closing steps succeed\<close>

definition quoted :: "reserve_params obj \<Rightarrow> reserve_data \<Rightarrow> bool" where
  "quoted cfg r \<longleftrightarrow> (case r_symbol r of None \<Rightarrow> False
     | Some symb \<Rightarrow> (case obj_get cfg symb of None \<Rightarrow> False | Some p \<Rightarrow> wf_params p))"

text \<open>An object under construction whose debts and backing are known and not negative.\<close>

definition priced :: "reserve_data \<Rightarrow> bool" where
  "priced e \<longleftrightarrow> (\<exists>ts tv ub. r_totalStableDebt e = Some ts \<and> r_totalVariableDebt e = Some tv \<and>
     r_unbacked e = Some ub \<and> 0 \<le> ts \<and> 0 \<le> tv \<and> 0 \<le> ub)"

lemma usageRatios_exists:
  assumes "0 \<le> ts" "0 \<le> tv" "0 \<le> av" "av \<le> tq"
  shows "\<exists>b s. calcExpectedUsageRatios ts tv av tq = Inr (b, s)"
  using usageRatios_ok[OF assms] by metis

lemma updateLiquidity_ok:
  assumes "priced e" "r_availableLiquidity bf = Some av" "0 \<le> av + added - taken"
  obtains b s ub where "updateLiquidityAndUsageRatios bf e added taken =
      Inr (e\<lparr>r_availableLiquidity := Some (av + added - taken),
             r_totalLiquidity := Some (av + added - taken + ub),
             r_borrowUsageRatio := Some b, r_supplyUsageRatio := Some s\<rparr>)"
    "r_unbacked e = Some ub" "0 \<le> ub"
proof -
  obtain ts tv ub where e: "r_totalStableDebt e = Some ts" "r_totalVariableDebt e = Some tv"
      "r_unbacked e = Some ub" "0 \<le> ts" "0 \<le> tv" "0 \<le> ub"
    using assms(1) by (auto simp: priced_def)
  then obtain b s where "calcExpectedUsageRatios ts tv (av + added - taken)
      (av + added - taken + ub) = Inr (b, s)"
    using usageRatios_exists[OF e(4,5) assms(3), of "av + added - taken + ub"] by auto
  with e assms(2) show thesis
    using that[where b = b and s = s and ub = ub] by (auto simp: updateLiquidity_inv)
qed

lemma assignUsageRatios_ok:
  assumes "priced e" "r_availableLiquidity e = Some av" "r_totalLiquidity e = Some tq"
    "0 \<le> av" "av \<le> tq"
  shows "\<exists>b s. assignUsageRatios e =
    Inr (e\<lparr>r_borrowUsageRatio := Some b, r_supplyUsageRatio := Some s\<rparr>)"
proof -
  obtain ts tv where e: "r_totalStableDebt e = Some ts" "r_totalVariableDebt e = Some tv"
      "0 \<le> ts" "0 \<le> tv"
    using assms(1) by (auto simp: priced_def)
  then obtain b s where "calcExpectedUsageRatios ts tv av tq = Inr (b, s)"
    using usageRatios_exists[OF e(3,4) assms(4,5)] by auto
  with e assms(2,3) show ?thesis by (auto simp: assignUsageRatios_inv)
qed

lemma updateTotal_ok:
  assumes "priced e" "r_availableLiquidity e = Some av" "0 \<le> av"
  shows "\<exists>b s ub. updateTotalLiquidityAndUsageRatio e =
    Inr (e\<lparr>r_totalLiquidity := Some (av + ub), r_borrowUsageRatio := Some b,
           r_supplyUsageRatio := Some s\<rparr>)"
proof -
  obtain ts tv ub where e: "r_totalStableDebt e = Some ts" "r_totalVariableDebt e = Some tv"
      "r_unbacked e = Some ub" "0 \<le> ts" "0 \<le> tv" "0 \<le> ub"
    using assms(1) by (auto simp: priced_def)
  then obtain b s where "calcExpectedUsageRatios ts tv av (av + ub) = Inr (b, s)"
    using usageRatios_exists[OF e(4,5) assms(3), of "av + ub"] by auto
  with e assms(2) show ?thesis by (auto simp: updateTotal_inv)
qed

lemma assignRates_ok:
  assumes "quoted cfg r" "sane_reserve r t" "0 \<le> ts" "0 \<le> tv"
    "r_averageStableBorrowRate e = Some asr" "0 \<le> asr"
    "r_availableLiquidity e = Some av" "r_totalLiquidity e = Some tq" "0 \<le> av" "av \<le> tq"
  obtains lr sr vr where "assignRates cfg r e (Some ts) (Some tv) =
      Inr (e\<lparr>r_liquidityRate := Some lr, r_stableBorrowRate := Some sr,
             r_variableBorrowRate := Some vr\<rparr>)" "0 \<le> lr" "0 \<le> sr" "0 \<le> vr"
proof -
  obtain symb p msr where p: "r_symbol r = Some symb" "obj_get cfg symb = Some p" "wf_params p"
      "r_marketStableRate r = Some msr" "0 \<le> msr"
    using assms(1) complete_reserveD(17)[OF sane_complete[OF assms(2)]] assms(2)
    by (auto simp: quoted_def sane_reserve_def split: option.splits)
  obtain lr sr vr where q: "calcExpectedInterestRates cfg symb msr ts tv asr av tq = Inr (lr, sr, vr)"
      "0 \<le> lr" "msr \<le> sr" "baseVariableBorrowRate (strategy p) \<le> vr"
    using interestRates_ok[OF p(2,3,5) assms(3,4,6,9,10)] by blast
  have "0 \<le> baseVariableBorrowRate (strategy p)"
    using p(3) by (simp add: wf_params_def wf_strategy_def)
  with q p assms(5,7,8) show thesis
    using that[where lr = lr and sr = sr and vr = vr] by (auto simp: assignRates_inv)
qed

text \<open>The tail of every calculation: rates, then the final totals and usage ratios.\<close>

lemma rates_and_totals_ok:
  assumes "quoted cfg r" "sane_reserve r t" "priced e"
    "r_averageStableBorrowRate e = Some asr" "0 \<le> asr"
    "r_availableLiquidity e = Some av" "r_totalLiquidity e = Some tq" "0 \<le> av" "av \<le> tq"
  shows "\<exists>e'. assignRates cfg r e (r_totalStableDebt e) (r_totalVariableDebt e) = Inr e' \<and>
     (\<exists>e''. updateTotalLiquidityAndUsageRatio e' = Inr e'') \<and>
     (\<exists>e''. updateTotalLiquidityAndUsageRatio (e'\<lparr>r_lastUpdateTimestamp := lu\<rparr>) = Inr e'')"
proof -
  obtain ts tv where d: "r_totalStableDebt e = Some ts" "r_totalVariableDebt e = Some tv"
      "0 \<le> ts" "0 \<le> tv"
    using assms(3) by (auto simp: priced_def)
  obtain lr sr vr where a: "assignRates cfg r e (Some ts) (Some tv) =
      Inr (e\<lparr>r_liquidityRate := Some lr, r_stableBorrowRate := Some sr,
             r_variableBorrowRate := Some vr\<rparr>)"
    using assignRates_ok[OF assms(1,2) d(3,4) assms(4-9)] by blast
  let ?e = "e\<lparr>r_liquidityRate := Some lr, r_stableBorrowRate := Some sr,
              r_variableBorrowRate := Some vr\<rparr>"
  have p: "priced ?e" "priced (?e\<lparr>r_lastUpdateTimestamp := lu\<rparr>)"
    using assms(3) by (simp_all add: priced_def)
  from updateTotal_ok[OF p(1), of av] updateTotal_ok[OF p(2), of av] assms(6,8) show ?thesis
    by (auto simp: d(1,2) a)
qed

lemma average_nonneg:
  assumes "0 \<le> a" "0 \<le> d" "0 \<le> amt" "0 \<le> rate"
  shows "0 \<le> calcExpectedAverageStableBorrowRate a d amt rate"
  using assms by (auto simp: calcExpectedAverageStableBorrowRate_def Let_def intro!: bn.quot_nonneg)

section \<open>The calculations succeed\<close>

text \<open>
  \<open>updateState\<close> and the liquidity update, which open every calculation. \<open>accrued\<close> says that the
  object they leave is priced and carries positive indexes.
\<close>

definition accrued :: "reserve_data \<Rightarrow> int \<Rightarrow> reserve_data \<Rightarrow> bool" where
  "accrued r t e \<longleftrightarrow> (\<exists>li vi ts tv acc. r_liquidityIndex e = Some li \<and> RAY \<le> li \<and>
     r_variableBorrowIndex e = Some vi \<and> RAY \<le> vi \<and> r_totalStableDebt e = Some ts \<and> 0 \<le> ts \<and>
     reserveStableDebt r t = Inr ts \<and> r_totalVariableDebt e = Some tv \<and> 0 \<le> tv \<and>
     r_accruedToTreasuryScaled e = Some acc \<and> 0 \<le> acc)"

lemma updateState_accrued:
  assumes "sane_reserve r t"
  obtains e1 where "updateState r e t = Inr e1" "accrued r t e1" "r_unbacked e1 = r_unbacked e"
proof -
  obtain li vi acc p where f: "r_liquidityIndex r = Some li" "r_variableBorrowIndex r = Some vi"
      "r_accruedToTreasuryScaled r = Some acc" "r_principalStableDebt r = Some p"
    using complete_reserveD[OF sane_complete[OF assms]] by blast
  have b: "RAY \<le> li" "RAY \<le> vi" "0 \<le> acc" "0 \<le> p" using assms f by (auto simp: sane_reserve_def)
  obtain li' vi' ts tv acc' where u: "updateState r e t = Inr (e\<lparr>r_liquidityIndex := Some li',
       r_variableBorrowIndex := Some vi', r_totalStableDebt := Some ts,
       r_totalVariableDebt := Some tv, r_scaledVariableDebt := r_scaledVariableDebt r,
       r_principalStableDebt := r_principalStableDebt r, r_accruedToTreasuryScaled := Some acc'\<rparr>)"
    "li \<le> li'" "vi \<le> vi'" "p \<le> ts" "0 \<le> tv" "acc \<le> acc'" "reserveStableDebt r t = Inr ts"
    using updateState_ok[OF assms f] by metis
  show thesis by (rule that[OF u(1)]) (use u b in \<open>auto simp: accrued_def\<close>)
qed

lemma sane_fields:
  assumes "sane_reserve r t"
  obtains av ub asr sr s0 p ls where "r_availableLiquidity r = Some av" "0 \<le> av"
    "r_unbacked r = Some ub" "0 \<le> ub" "r_averageStableBorrowRate r = Some asr" "0 \<le> asr"
    "r_stableBorrowRate r = Some sr" "0 \<le> sr" "r_scaledVariableDebt r = Some s0" "0 \<le> s0"
    "r_principalStableDebt r = Some p" "0 \<le> p" "r_totalStableDebtLastUpdated r = Some ls" "ls \<le> t"
proof -
  obtain av ub asr sr s0 p ls where "r_availableLiquidity r = Some av"
    "r_unbacked r = Some ub" "r_averageStableBorrowRate r = Some asr"
    "r_stableBorrowRate r = Some sr" "r_scaledVariableDebt r = Some s0"
    "r_principalStableDebt r = Some p" "r_totalStableDebtLastUpdated r = Some ls"
    using complete_reserveD[OF sane_complete[OF assms]] by blast
  then show thesis using that assms by (auto simp: sane_reserve_def)
qed

lemma sane_debts:
  assumes "sane_reserve r t"
  obtains a s0 p ls where "r_averageStableBorrowRate r = Some a" "0 \<le> a"
    "r_scaledVariableDebt r = Some s0" "0 \<le> s0" "r_principalStableDebt r = Some p" "0 \<le> p"
    "r_totalStableDebtLastUpdated r = Some ls" "ls \<le> t"
proof -
  obtain a s0 p ls where "r_averageStableBorrowRate r = Some a" "r_scaledVariableDebt r = Some s0"
    "r_principalStableDebt r = Some p" "r_totalStableDebtLastUpdated r = Some ls"
    using complete_reserveD[OF sane_complete[OF assms]] by blast
  then show thesis using that assms by (auto simp: sane_reserve_def)
qed

lemma accrued_priced: "accrued r t e \<Longrightarrow> r_unbacked e = Some ub \<Longrightarrow> 0 \<le> ub \<Longrightarrow> priced e"
  by (auto simp: accrued_def priced_def)

text \<open>Cash moves, the average stable rate is what it was, then the closing steps.\<close>

lemma cash_flow_ok:
  assumes "quoted cfg r" "sane_reserve r t" "priced e" "r_availableLiquidity r = Some av"
    "0 \<le> av + added - taken" "0 \<le> asr"
  shows "\<exists>e1 e2 e3. updateLiquidityAndUsageRatios r e added taken = Inr e1 \<and>
    assignRates cfg r (e1\<lparr>r_averageStableBorrowRate := Some asr\<rparr>)
      (r_totalStableDebt e1) (r_totalVariableDebt e1) = Inr e2 \<and>
    updateTotalLiquidityAndUsageRatio e2 = Inr e3"
proof -
  obtain b s ub where l: "updateLiquidityAndUsageRatios r e added taken =
      Inr (e\<lparr>r_availableLiquidity := Some (av + added - taken),
             r_totalLiquidity := Some (av + added - taken + ub),
             r_borrowUsageRatio := Some b, r_supplyUsageRatio := Some s\<rparr>)" "0 \<le> ub"
    using updateLiquidity_ok[OF assms(3,4,5)] by metis
  let ?e1 = "e\<lparr>r_availableLiquidity := Some (av + added - taken),
             r_totalLiquidity := Some (av + added - taken + ub),
             r_borrowUsageRatio := Some b, r_supplyUsageRatio := Some s\<rparr>"
  let ?e = "?e1\<lparr>r_averageStableBorrowRate := Some asr\<rparr>"
  have p: "priced ?e" using assms(3) by (simp add: priced_def)
  have "\<exists>e2 e3. assignRates cfg r ?e (r_totalStableDebt ?e) (r_totalVariableDebt ?e) = Inr e2 \<and>
      updateTotalLiquidityAndUsageRatio e2 = Inr e3"
    using rates_and_totals_ok[OF assms(1,2) p, of asr "av + added - taken" "av + added - taken + ub"]
      assms(5,6) l(2) by fastforce
  then show ?thesis using l(1) by auto
qed

lemma deposit_ok:
  assumes "quoted cfg r" "sane_reserve r t" "0 \<le> amt"
  shows "ok (calcExpectedReserveDataAfterDeposit cfg amt r t)"
proof -
  obtain av ub asr where f: "r_availableLiquidity r = Some av" "0 \<le> av" "r_unbacked r = Some ub"
      "0 \<le> ub" "r_averageStableBorrowRate r = Some asr" "0 \<le> asr"
    using sane_fields[OF assms(2)] by blast
  obtain e where e: "updateState r (startReserve r) t = Inr e" "accrued r t e" "r_unbacked e = Some ub"
    using updateState_accrued[OF assms(2), of "startReserve r"] f(3) by (auto simp: startReserve_def)
  have "0 \<le> av + amt - 0" using f assms(3) by simp
  from cash_flow_ok[OF assms(1,2) accrued_priced[OF e(2,3) f(4)] f(1) this f(6)]
  show ?thesis by (auto simp: calcExpectedReserveDataAfterDeposit_def e(1) f(5))
qed

text \<open>The amount a withdrawal stands for: the whole accrued balance for the largest integer.\<close>

definition withdrawnAmount :: "int \<Rightarrow> reserve_data \<Rightarrow> user_reserve_data \<Rightarrow> int \<Rightarrow> int \<Rightarrow> bool" where
  "withdrawnAmount amt r u t w \<longleftrightarrow>
     (if amt = MAX_UINT_AMOUNT then calcExpectedRSTokenBalance r u t = Inr w else w = amt)"

lemma rsTokenBalance_ok:
  assumes "sane_reserve r t" "u_scaledRSTokenBalance u \<noteq> None"
  obtains bal where "calcExpectedRSTokenBalance r u t = Inr bal"
proof -
  obtain lr li lu where f: "r_liquidityRate r = Some lr" "r_liquidityIndex r = Some li"
      "r_lastUpdateTimestamp r = Some lu"
    using complete_reserveD[OF sane_complete[OF assms(1)]] by blast
  then obtain i where "calcExpectedReserveNormalizedIncome r t = Inr i"
    by (cases "lr = 0") (simp_all add: calcExpectedReserveNormalizedIncome_def)
  then show thesis using that assms(2) by (auto simp: calcExpectedRSTokenBalance_def)
qed

lemma withdraw_ok:
  assumes "quoted cfg r" "sane_reserve r t" "u_scaledRSTokenBalance u \<noteq> None"
    "\<And>w. withdrawnAmount amt r u t w \<Longrightarrow> w \<le> the (r_availableLiquidity r)"
  shows "ok (calcExpectedReserveDataAfterWithdraw cfg amt r u t)"
proof -
  obtain w where w: "withdrawnAmount amt r u t w"
    using rsTokenBalance_ok[OF assms(2,3)] unfolding withdrawnAmount_def by metis
  obtain av ub asr where f: "r_availableLiquidity r = Some av" "0 \<le> av" "r_unbacked r = Some ub"
      "0 \<le> ub" "r_averageStableBorrowRate r = Some asr" "0 \<le> asr"
    using sane_fields[OF assms(2)] by blast
  obtain e where e: "updateState r (startReserve r) t = Inr e" "accrued r t e" "r_unbacked e = Some ub"
    using updateState_accrued[OF assms(2), of "startReserve r"] f(3) by (auto simp: startReserve_def)
  have "0 \<le> av + 0 - w" using f assms(4)[OF w] by simp
  from cash_flow_ok[OF assms(1,2) accrued_priced[OF e(2,3) f(4)] f(1) this f(6)]
  show ?thesis
    using w by (auto simp: calcExpectedReserveDataAfterWithdraw_def withdrawnAmount_def e(1) f(5))
qed

lemma sdiv_mult_cancel: "d \<noteq> 0 \<Longrightarrow> (a * d) sdiv d = a" for a d :: int
  by (cases d "0 :: int" rule: linorder_cases)
     (simp_all add: signed_divide_int_def abs_mult sgn_mult mult_sgn_abs sgn_mult_abs)

lemma unchangedAverageRate_eq:
  assumes "r_averageStableBorrowRate r = Some a" "r_totalStableDebt r = Some d"
    "r_stableBorrowRate r = Some sr"
  shows "unchangedAverageRate r = Inr (if d = 0 then 0 else a)"
  using assms
  by (auto simp: unchangedAverageRate_def calcExpectedAverageStableBorrowRate_def sdiv_mult_cancel)

lemma unchangedAverageRate_ok:
  assumes "sane_reserve r t"
  obtains a where "unchangedAverageRate r = Inr a" "0 \<le> a"
proof -
  obtain asr sr d where f: "r_averageStableBorrowRate r = Some asr" "r_stableBorrowRate r = Some sr"
      "r_totalStableDebt r = Some d"
    using complete_reserveD[OF sane_complete[OF assms]] by blast
  have "0 \<le> asr" using assms f(1) by (simp add: sane_reserve_def)
  then show thesis
    using that[of "if d = 0 then 0 else asr"] unchangedAverageRate_eq[OF f(1,3,2)] by simp
qed

lemma mintUnbacked_ok:
  assumes "quoted cfg r" "sane_reserve r t" "0 \<le> amt"
  shows "ok (calcExpectedReserveDataAfterMintUnbacked cfg amt r t)"
proof -
  obtain av ub where f: "r_availableLiquidity r = Some av" "0 \<le> av" "r_unbacked r = Some ub" "0 \<le> ub"
    using sane_fields[OF assms(2)] by blast
  obtain a where a: "unchangedAverageRate r = Inr a" "0 \<le> a"
    using unchangedAverageRate_ok[OF assms(2)] by blast
  obtain e where e: "updateState r (empty_reserve\<lparr>r_address := r_address r,
      r_reserveFactor := r_reserveFactor r\<rparr>) t = Inr e" "accrued r t e"
    using updateState_accrued[OF assms(2)] by metis
  have p: "priced (e\<lparr>r_unbacked := Some (ub + amt)\<rparr>)"
    using e(2) f(4) assms(3) by (auto simp: accrued_def priced_def)
  have "0 \<le> av + 0 - 0" using f by simp
  from cash_flow_ok[OF assms(1,2) p f(1) this a(2)]
  show ?thesis by (auto simp: calcExpectedReserveDataAfterMintUnbacked_def e(1) f(3) a(1))
qed

text \<open>The premium of a backed bridge transfer makes the liquidity index grow.\<close>

lemma cumulate_ok:
  assumes "0 \<le> li" "0 < tot" "0 \<le> amt"
  obtains li' where "cumulateToLiquidityIndex li tot amt = Inr li'" "li \<le> li'"
proof -
  have w: "0 < wadToRay tot" "0 \<le> wadToRay amt" using assms by simp_all
  obtain q where q: "rayDiv (wadToRay amt) (wadToRay tot) = Inr q"
    using w(1) ray.dv_ok[of "wadToRay tot"] by auto
  have "0 \<le> q" using ray.dv_bounds(1)[OF w(2,1) q] .
  then have "li \<le> rayMul (q + RAY) li" using assms(1) by (intro ray.mul_ge') auto
  then show thesis using that[of "rayMul (q + RAY) li"] q
    by (simp add: cumulateToLiquidityIndex_def)
qed

lemma backUnbacked_ok:
  assumes "quoted cfg r" "sane_reserve r t" "0 \<le> amt" "0 \<le> fee" "0 \<le> pf" "pf \<le> PERCENTAGE_FACTOR"
    "0 < supply"
  shows "ok (calcExpectedReserveDataAfterBackUnbacked cfg supply amt fee pf r t)"
proof -
  obtain av ub where f: "r_availableLiquidity r = Some av" "0 \<le> av" "r_unbacked r = Some ub" "0 \<le> ub"
    using sane_fields[OF assms(2)] by blast
  obtain a where a: "unchangedAverageRate r = Inr a" "0 \<le> a"
    using unchangedAverageRate_ok[OF assms(2)] by blast
  obtain e where e: "updateState r (empty_reserve\<lparr>r_address := r_address r,
      r_reserveFactor := r_reserveFactor r\<rparr>) t = Inr e" "accrued r t e"
    using updateState_accrued[OF assms(2)] by metis
  obtain li acc where i: "r_liquidityIndex e = Some li" "RAY \<le> li"
      "r_accruedToTreasuryScaled e = Some acc" "0 \<le> acc"
    using e(2) by (auto simp: accrued_def)
  have li0: "0 \<le> li" "0 < li" using i(2) by (simp_all add: const_simps)
  have "supply \<le> rayMul supply li" using assms(7) i(2) by (simp add: ray.mul_ge)
  then have tot: "0 < rayMul supply li + rayMul acc li"
    using assms(7) ray.mul_nonneg[OF i(4) li0(1)] by linarith
  have prem: "0 \<le> percentMul fee pf" "percentMul fee pf \<le> fee"
    using assms(4-6) by (simp_all add: pct.mul_nonneg pct.mul_le)
  then have lp: "0 \<le> fee - percentMul fee pf" by simp
  obtain li' where li': "cumulateToLiquidityIndex li (rayMul supply li + rayMul acc li)
      (fee - percentMul fee pf) = Inr li'" "li \<le> li'"
    using cumulate_ok[OF li0(1) tot lp] by blast
  obtain share where sh: "rayDiv (percentMul fee pf) li' = Inr share"
    using li'(2) li0(2) ray.dv_ok[of li'] by force
  let ?backing = "if amt < ub then amt else ub"
  have p: "priced (e\<lparr>r_liquidityIndex := Some li', r_accruedToTreasuryScaled := Some (acc + share),
      r_unbacked := Some (ub - ?backing)\<rparr>)"
    using e(2) by (auto simp: accrued_def priced_def)
  have nn: "0 \<le> av + (?backing + fee) - 0" using f assms(3,4) by simp
  from cash_flow_ok[OF assms(1,2) p f(1) nn a(2)]
  show ?thesis
    by (auto simp: calcExpectedReserveDataAfterBackUnbacked_def e(1) f(3) a(1) i(1,3) li'(1) sh Let_def
        simp del: wadToRay_simps)
qed


lemma borrowStable_ok:
  assumes "quoted cfg r" "sane_reserve r t" "accrued r t e" "t \<le> now" "0 \<le> amt"
    "r_availableLiquidity e = Some av" "0 \<le> av" "r_totalLiquidity e = Some tq" "av \<le> tq"
  shows "ok (borrowStable cfg amt r e t now)"
proof -
  obtain li vi d tv where i: "r_variableBorrowIndex e = Some vi" "RAY \<le> vi"
      "reserveStableDebt r t = Inr d" "0 \<le> d" "r_totalVariableDebt e = Some tv" "0 \<le> tv"
    using assms(3) by (auto simp: accrued_def)
  obtain a sr s0 where f: "r_averageStableBorrowRate r = Some a" "0 \<le> a"
      "r_stableBorrowRate r = Some sr" "0 \<le> sr" "r_scaledVariableDebt r = Some s0" "0 \<le> s0"
    using sane_fields[OF assms(2)] by blast
  define avg where "avg = calcExpectedAverageStableBorrowRate a d amt sr"
  have avg: "0 \<le> avg" using f i assms(5) by (simp add: avg_def average_nonneg)
  define e1 where "e1 = e\<lparr>r_averageStableBorrowRate := Some avg,
    r_principalStableDebt := Some (d + amt)\<rparr>"
  have e1: "r_averageStableBorrowRate e1 = Some avg" "r_availableLiquidity e1 = Some av"
      "r_totalLiquidity e1 = Some tq"
    using assms(6,8) by (simp_all add: e1_def)
  have d: "0 \<le> d + amt" using i(4) assms(5) by simp
  obtain lr sr' vr where r: "assignRates cfg r e1 (Some (d + amt)) (Some tv) =
      Inr (e1\<lparr>r_liquidityRate := Some lr, r_stableBorrowRate := Some sr',
             r_variableBorrowRate := Some vr\<rparr>)" "0 \<le> vr"
    using assignRates_ok[OF assms(1,2) d i(6) e1(1) avg e1(2,3) assms(7,9)] by metis
  define ts where "ts = calcExpectedTotalStableDebt (d + amt) avg t now"
  define nd where "nd = calcExpectedReserveNormalizedDebt vr vi t now"
  have vi0: "0 \<le> vi" using i(2) by (simp add: const_simps)
  have ts: "0 \<le> ts" using totalStableDebt_ge_principal[OF d avg assms(4)] d by (simp add: ts_def)
  have nd: "0 \<le> nd" using normalizedDebt_ge_index[OF r(2) vi0 assms(4)] vi0 by (simp add: nd_def)
  define e2 where "e2 = e1\<lparr>r_liquidityRate := Some lr, r_stableBorrowRate := Some sr',
    r_variableBorrowRate := Some vr, r_totalStableDebt := Some ts,
    r_totalVariableDebt := Some (rayMul s0 nd)\<rparr>"
  obtain b s where "calcExpectedUsageRatios ts (rayMul s0 nd) av tq = Inr (b, s)"
    using usageRatios_exists[OF ts ray.mul_nonneg[OF f(6) nd] assms(7,9)] by blast
  then have "ok (assignUsageRatios e2)"
    using assms(6,8) by (auto simp: ok_iff assignUsageRatios_inv e2_def e1_def)
  then show ?thesis
    using r(1) by (simp add: borrowStable_def i f avg_def [symmetric] Let_def e1_def [symmetric]
        ts_def [symmetric]) (simp add: e1_def e2_def i nd_def)
qed

lemma sane_reserve_mono: "sane_reserve r t \<Longrightarrow> t \<le> now \<Longrightarrow> sane_reserve r now"
  by (auto simp: sane_reserve_def)

lemma borrowVariable_ok:
  assumes "quoted cfg r" "sane_reserve r t" "accrued r t e" "t \<le> now" "0 \<le> amt"
    "r_availableLiquidity e = Some av" "0 \<le> av" "r_totalLiquidity e = Some tq" "av \<le> tq"
  shows "ok (borrowVariable cfg amt r e t now)"
proof -
  obtain vi tv where i: "r_variableBorrowIndex e = Some vi" "RAY \<le> vi"
      "r_totalVariableDebt e = Some tv" "0 \<le> tv"
    using assms(3) by (auto simp: accrued_def)
  obtain a s0 p ls where f: "r_averageStableBorrowRate r = Some a" "0 \<le> a"
      "r_scaledVariableDebt r = Some s0" "0 \<le> s0" "r_principalStableDebt r = Some p" "0 \<le> p"
      "r_totalStableDebtLastUpdated r = Some ls" "ls \<le> t"
    by (rule sane_debts[OF assms(2)])
  define sd where "sd = calcExpectedStableDebtTokenBalance p a ls t"
  have sd: "0 \<le> sd" using stableDebt_ge_principal[OF f(6,2,8)] f(6) by (simp add: sd_def)
  obtain ts where ts: "reserveStableDebt r now = Inr ts" "0 \<le> ts"
    using reserveStableDebt_ok[OF sane_reserve_mono[OF assms(2,4)] f(5)] f(6) order_trans by metis
  have vi0: "0 \<le> vi" "0 < vi" using i(2) by (simp_all add: const_simps)
  obtain x where x: "rayDiv amt vi = Inr x" using vi0(2) ray.dv_ok[of vi] by force
  have x0: "0 \<le> s0 + x" using ray.dv_bounds(1)[OF assms(5) vi0(2) x] f(4) by simp
  define e1 where "e1 = e\<lparr>r_principalStableDebt := Some p, r_totalStableDebt := Some ts,
    r_averageStableBorrowRate := Some a, r_scaledVariableDebt := Some (s0 + x)\<rparr>"
  obtain b s where bs: "calcExpectedUsageRatios ts tv av tq = Inr (b, s)"
    using usageRatios_exists[OF ts(2) i(4) assms(7,9)] by blast
  define e2 where "e2 = e1\<lparr>r_borrowUsageRatio := Some b, r_supplyUsageRatio := Some s\<rparr>"
  have u: "assignUsageRatios e1 = Inr e2"
    using assms(6,8) bs i by (auto simp: assignUsageRatios_inv e1_def e2_def)
  have e2: "r_averageStableBorrowRate e2 = Some a" "r_availableLiquidity e2 = Some av"
      "r_totalLiquidity e2 = Some tq"
    using assms(6,8) by (simp_all add: e1_def e2_def)
  obtain lr sr vr where r: "assignRates cfg r e2 (Some sd) (Some (rayMul (s0 + x) vi)) =
      Inr (e2\<lparr>r_liquidityRate := Some lr, r_stableBorrowRate := Some sr,
             r_variableBorrowRate := Some vr\<rparr>)" "0 \<le> vr"
    using assignRates_ok[OF assms(1,2) sd ray.mul_nonneg[OF x0 vi0(1)] e2(1) f(2) e2(2,3)
        assms(7,9)] by metis
  define nd where "nd = calcExpectedReserveNormalizedDebt vr vi t now"
  have nd: "0 \<le> nd" using normalizedDebt_ge_index[OF r(2) vi0(1) assms(4)] vi0 by (simp add: nd_def)
  define e3 where "e3 = e2\<lparr>r_liquidityRate := Some lr, r_stableBorrowRate := Some sr,
    r_variableBorrowRate := Some vr, r_totalVariableDebt := Some (rayMul (s0 + x) nd)\<rparr>"
  obtain b' s' where "calcExpectedUsageRatios ts (rayMul (s0 + x) nd) av tq = Inr (b', s')"
    using usageRatios_exists[OF ts(2) ray.mul_nonneg[OF x0 nd] assms(7,9)] by blast
  then have "ok (assignUsageRatios e3)"
    using assms(6,8) by (auto simp: ok_iff assignUsageRatios_inv e3_def e2_def e1_def)
  then show ?thesis
    using u r(1)
    by (simp add: borrowVariable_def i f ts x sd_def [symmetric] Let_def e1_def [symmetric])
       (simp add: e3_def nd_def)
qed

lemma borrow_ok:
  assumes "quoted cfg r" "sane_reserve r t" "0 \<le> amt" "amt \<le> the (r_availableLiquidity r)" "t \<le> now"
  shows "ok (calcExpectedReserveDataAfterBorrow cfg amt mode r t now)"
proof -
  obtain av ub where f: "r_availableLiquidity r = Some av" "0 \<le> av" "r_unbacked r = Some ub" "0 \<le> ub"
    using sane_fields[OF assms(2)] by blast
  let ?e = "(startReserve r)\<lparr>r_lastUpdateTimestamp := Some t\<rparr>"
  obtain e where e: "updateState r ?e t = Inr e" "accrued r t e" "r_unbacked e = Some ub"
    using updateState_accrued[OF assms(2), of ?e] f(3) by (auto simp: startReserve_def)
  have av: "0 \<le> av + 0 - amt" using f assms(4) by simp
  obtain b s ub' where l: "updateLiquidityAndUsageRatios r e 0 amt =
      Inr (e\<lparr>r_availableLiquidity := Some (av + 0 - amt),
             r_totalLiquidity := Some (av + 0 - amt + ub'),
             r_borrowUsageRatio := Some b, r_supplyUsageRatio := Some s\<rparr>)" "0 \<le> ub'"
    using updateLiquidity_ok[OF accrued_priced[OF e(2,3) f(4)] f(1) av] by metis
  let ?e1 = "e\<lparr>r_availableLiquidity := Some (av + 0 - amt),
             r_totalLiquidity := Some (av + 0 - amt + ub'),
             r_borrowUsageRatio := Some b, r_supplyUsageRatio := Some s\<rparr>"
  have "accrued r t ?e1" using e(2) by (simp add: accrued_def)
  from borrowStable_ok[OF assms(1,2) this assms(5,3), of "av - amt" "av - amt + ub'"]
    borrowVariable_ok[OF assms(1,2) this assms(5,3), of "av - amt" "av - amt + ub'"] av l(2)
  show ?thesis
    by (simp add: calcExpectedReserveDataAfterBorrow_def e(1) l(1) del: add_diff_eq)
qed

section \<open>Repayments\<close>

definition sane_user :: "user_reserve_data \<Rightarrow> int \<Rightarrow> bool" where
  "sane_user u t \<longleftrightarrow> complete_user u \<and>
     0 \<le> the (u_scaledRSTokenBalance u) \<and> 0 \<le> the (u_currentRSTokenBalance u) \<and>
     0 \<le> the (u_currentStableDebt u) \<and> 0 \<le> the (u_currentVariableDebt u) \<and>
     0 \<le> the (u_principalStableDebt u) \<and> 0 \<le> the (u_scaledVariableDebt u) \<and>
     0 \<le> the (u_stableBorrowRate u) \<and> 0 \<le> the (u_walletBalance u) \<and>
     the (u_stableRateLastUpdated u) \<le> t"

lemma userStableDebt_ok:
  assumes "sane_user u t"
  obtains d where "userStableDebt u t = Inr d" "the (u_principalStableDebt u) \<le> d"
proof -
  obtain p rate lu where f: "u_principalStableDebt u = Some p" "u_stableBorrowRate u = Some rate"
      "u_stableRateLastUpdated u = Some lu"
    using assms by (auto simp: sane_user_def complete_user_def)
  then have "p \<le> calcExpectedStableDebtTokenBalance p rate lu t"
    using assms by (intro stableDebt_ge_principal) (auto simp: sane_user_def)
  then show thesis using that[of "calcExpectedStableDebtTokenBalance p rate lu t"] f
    by (simp add: userStableDebt_def)
qed

lemma userVariableDebt_ok:
  assumes "sane_reserve r t" "sane_user u t"
  obtains d where "calcExpectedVariableDebtTokenBalance r u t = Inr d"
    "the (u_scaledVariableDebt u) \<le> d"
proof -
  obtain vr vi lu where f: "r_variableBorrowRate r = Some vr" "r_variableBorrowIndex r = Some vi"
      "r_lastUpdateTimestamp r = Some lu"
    using complete_reserveD[OF sane_complete[OF assms(1)]] by blast
  obtain s where s: "u_scaledVariableDebt u = Some s" "0 \<le> s"
    using assms(2) by (auto simp: sane_user_def complete_user_def)
  have b: "0 \<le> vr" "RAY \<le> vi" "lu \<le> t" using assms(1) f by (auto simp: sane_reserve_def)
  then have "RAY \<le> calcExpectedReserveNormalizedDebt vr vi lu t"
    using normalizedDebt_ge_index[of vr vi lu t] by (simp add: const_simps)
  then have "s \<le> rayMul s (calcExpectedReserveNormalizedDebt vr vi lu t)"
    using s(2) by (simp add: ray.mul_ge)
  then show thesis
    using that[of "rayMul s (calcExpectedReserveNormalizedDebt vr vi lu t)"] f s
    by (simp add: calcExpectedVariableDebtTokenBalance_def Let_def)
qed

lemma repayStable_ok:
  assumes "sane_reserve r t" "sane_user u t" "accrued r t e"
  obtains d a where "repayStable r u amt e t = Inr (e\<lparr>r_principalStableDebt := Some d,
    r_totalStableDebt := Some d, r_averageStableBorrowRate := Some a\<rparr>)" "0 \<le> d" "0 \<le> a"
proof -
  obtain a0 where a0: "r_averageStableBorrowRate r = Some a0"
    using complete_reserveD[OF sane_complete[OF assms(1)]] by blast
  obtain ur where ur: "u_stableBorrowRate u = Some ur"
    using assms(2) by (auto simp: sane_user_def complete_user_def)
  obtain d0 where d0: "reserveStableDebt r t = Inr d0" using assms(3) by (auto simp: accrued_def)
  show thesis
  proof (cases "d0 - amt < 0 \<or> calcExpectedAverageStableBorrowRate a0 d0 (negated amt) ur < 0")
    case True
    then show ?thesis
      using that[where d = 0 and a = 0] by (auto simp: repayStable_def d0 a0 ur Let_def)
  next
    case False
    then show ?thesis
      using that[where d = "d0 - amt" and a = "calcExpectedAverageStableBorrowRate a0 d0 (negated amt) ur"]
      by (auto simp: repayStable_def d0 a0 ur Let_def)
  qed
qed

text \<open>
  An amount of at most the accrued variable debt of the reserve leaves a debt that is not negative:
  the whole debt scales back to the scaled debt, a smaller amount to less.
\<close>

lemma repayVariable_ok:
  assumes "sane_reserve r t" "accrued r t e" "0 \<le> amt" "r_variableBorrowIndex e = Some vi"
    "amt \<le> rayMul (the (r_scaledVariableDebt r)) vi"
  obtains s tv a where "repayVariable r amt e = Inr (e\<lparr>r_scaledVariableDebt := Some s,
    r_totalVariableDebt := Some tv, r_averageStableBorrowRate := Some a\<rparr>)" "0 \<le> s" "0 \<le> tv" "0 \<le> a"
proof -
  obtain a s0 p ls where f: "r_averageStableBorrowRate r = Some a" "0 \<le> a"
      "r_scaledVariableDebt r = Some s0" "0 \<le> s0" "r_principalStableDebt r = Some p" "0 \<le> p"
      "r_totalStableDebtLastUpdated r = Some ls" "ls \<le> t"
    by (rule sane_debts[OF assms(1)])
  have vi: "RAY \<le> vi" using assms(2,4) by (auto simp: accrued_def)
  have pos: "0 < vi" "0 \<le> vi" using vi by (simp_all add: const_simps)
  obtain x where x: "rayDiv amt vi = Inr x" using pos(1) ray.dv_ok[of vi] by force
  have "x \<le> s0"
    using ray.dv_mono[OF assms(3) _ pos(1) x ray.dv_mul_roundtrip[OF f(4) vi]] assms(5) f(3) by simp
  then show thesis
    using that[where s = "s0 - x" and tv = "rayMul (s0 - x) vi" and a = a] f pos
    by (simp add: repayVariable_def assms(4) x Let_def ray.mul_nonneg)
qed

text \<open>
  With a variable debt outstanding the stored index after the update is the normalized debt the
  user's balance is computed with; so a user's whole debt is at most the reserve's.
\<close>

lemma index_is_normalizedDebt:
  assumes "calcExpectedVariableBorrowIndex r t = Inr vi" "r_totalVariableDebt r \<noteq> Some 0"
    "r_variableBorrowRate r = Some rate" "r_variableBorrowIndex r = Some vi0" "0 \<le> vi0"
    "r_lastUpdateTimestamp r = Some t0"
  shows "vi = calcExpectedReserveNormalizedDebt rate vi0 t0 t"
proof -
  have vi: "vi = rayMul (calcCompoundedInterest rate t t0) vi0"
    using assms by (auto simp: calcExpectedVariableBorrowIndex_def result_inv Let_def split: if_splits)
  have zero: "calcCompoundedInterest 0 t t0 = RAY"
    by (simp add: calcCompoundedInterest_terms base_two_def base_three_def Let_def)
  have "rayMul RAY vi0 = vi0" using assms(5) ray.mul_unit[of vi0] by (simp add: ray.mul_commute)
  then show ?thesis
    by (simp add: vi calcExpectedReserveNormalizedDebt_def zero Let_def)
qed

lemma whole_debt_within_reserve:
  assumes "sane_reserve r t" "u_scaledVariableDebt u = Some z" "0 \<le> z"
    "z \<le> the (r_scaledVariableDebt r)" "r_totalVariableDebt r = Some 0 \<Longrightarrow> z = 0"
    "calcExpectedVariableBorrowIndex r t = Inr vi" "calcExpectedVariableDebtTokenBalance r u t = Inr vd"
  shows "vd \<le> rayMul (the (r_scaledVariableDebt r)) vi"
proof -
  obtain rate vi0 t0 where f: "r_variableBorrowRate r = Some rate" "r_variableBorrowIndex r = Some vi0"
      "r_lastUpdateTimestamp r = Some t0"
    using complete_reserveD[OF sane_complete[OF assms(1)]] by blast
  have vi0: "0 \<le> vi0" using assms(1) f(2) by (auto simp: sane_reserve_def const_simps)
  have vi: "0 \<le> vi" using variableBorrowIndex_ok[OF assms(1) f(2)] assms(6) vi0 by fastforce
  have vd: "vd = rayMul z (calcExpectedReserveNormalizedDebt rate vi0 t0 t)"
    using assms(2,7) f by (simp add: calcExpectedVariableDebtTokenBalance_def Let_def)
  show ?thesis
  proof (cases "r_totalVariableDebt r = Some 0")
    case True
    then show ?thesis using vd assms(3,4,5) vi by (simp add: ray.mul_nonneg)
  next
    case False
    then have "vd = rayMul z vi"
      using vd index_is_normalizedDebt[OF assms(6) False f(1,2) vi0 f(3)] by simp
    then show ?thesis using assms(3,4) vi by (simp add: ray.mul_mono mult_right_mono)
  qed
qed

lemma debt_set_ok:
  assumes "quoted cfg r" "sane_reserve r t" "priced e"
    "r_averageStableBorrowRate e = Some asr" "0 \<le> asr"
    "r_availableLiquidity e = Some av" "r_totalLiquidity e = Some tq" "0 \<le> av" "av \<le> tq"
  shows "\<exists>e1 e2 e3. assignUsageRatios e = Inr e1 \<and>
    assignRates cfg r e1 (r_totalStableDebt e1) (r_totalVariableDebt e1) = Inr e2 \<and>
    updateTotalLiquidityAndUsageRatio (e2\<lparr>r_lastUpdateTimestamp := lu\<rparr>) = Inr e3"
proof -
  obtain b s where a: "assignUsageRatios e =
      Inr (e\<lparr>r_borrowUsageRatio := Some b, r_supplyUsageRatio := Some s\<rparr>)"
    using assignUsageRatios_ok[OF assms(3,6-9)] by blast
  let ?e = "e\<lparr>r_borrowUsageRatio := Some b, r_supplyUsageRatio := Some s\<rparr>"
  have "priced ?e" using assms(3) by (simp add: priced_def)
  from rates_and_totals_ok[OF assms(1,2) this, of asr av tq lu] assms(4-9) a show ?thesis
    by fastforce
qed

lemma repaidAmount_ok:
  assumes "sane_reserve r t" "sane_user u t" "0 \<le> amt"
  obtains w where "repaidAmount amt mode r u t w" "0 \<le> w"
proof -
  obtain us where us: "userStableDebt u t = Inr us" "the (u_principalStableDebt u) \<le> us"
    using userStableDebt_ok[OF assms(2)] by blast
  obtain uv where uv: "calcExpectedVariableDebtTokenBalance r u t = Inr uv"
      "the (u_scaledVariableDebt u) \<le> uv"
    using userVariableDebt_ok[OF assms(1,2)] by blast
  have "0 \<le> us" "0 \<le> uv" using us(2) uv(2) assms(2) by (auto simp: sane_user_def)
  then show thesis
    using that us(1) uv(1) assms(3)
    by (cases "\<bar>amt\<bar> = MAX_UINT_AMOUNT"; cases "mode = RateMode_Stable") (auto simp: repaidAmount_def)
qed

lemma repay_ok:
  assumes "quoted cfg r" "sane_reserve r t" "sane_user u t" "0 \<le> amt0"
    "\<And>w vi. mode \<noteq> RateMode_Stable \<Longrightarrow> repaidAmount amt0 mode r u t w \<Longrightarrow>
       calcExpectedVariableBorrowIndex r t = Inr vi \<Longrightarrow> w \<le> rayMul (the (r_scaledVariableDebt r)) vi"
  shows "ok (calcExpectedReserveDataAfterRepay cfg amt0 mode r u t)"
proof -
  obtain amt where amt: "repaidAmount amt0 mode r u t amt" "0 \<le> amt"
    using repaidAmount_ok[OF assms(2-4)] by blast
  obtain us where us: "userStableDebt u t = Inr us" using userStableDebt_ok[OF assms(3)] by blast
  obtain uv where uv: "calcExpectedVariableDebtTokenBalance r u t = Inr uv"
    using userVariableDebt_ok[OF assms(2,3)] by blast
  obtain av ub where f: "r_availableLiquidity r = Some av" "0 \<le> av" "r_unbacked r = Some ub" "0 \<le> ub"
    using sane_fields[OF assms(2)] by blast
  obtain e where e: "updateState r (startReserve r) t = Inr e" "accrued r t e" "r_unbacked e = Some ub"
    using updateState_accrued[OF assms(2), of "startReserve r"] f(3) by (auto simp: startReserve_def)
  have av: "0 \<le> av + amt - 0" using f amt(2) by simp
  obtain b s ub' where l: "updateLiquidityAndUsageRatios r e amt 0 =
      Inr (e\<lparr>r_availableLiquidity := Some (av + amt - 0),
             r_totalLiquidity := Some (av + amt - 0 + ub'),
             r_borrowUsageRatio := Some b, r_supplyUsageRatio := Some s\<rparr>)" "0 \<le> ub'"
    using updateLiquidity_ok[OF accrued_priced[OF e(2,3) f(4)] f(1) av] by metis
  define e1 where "e1 = e\<lparr>r_availableLiquidity := Some (av + amt - 0),
             r_totalLiquidity := Some (av + amt - 0 + ub'),
             r_borrowUsageRatio := Some b, r_supplyUsageRatio := Some s\<rparr>"
  have a1: "accrued r t e1" "r_unbacked e1 = Some ub" "r_availableLiquidity e1 = Some (av + amt)"
      "r_totalLiquidity e1 = Some (av + amt + ub')"
    using e(2,3) by (simp_all add: accrued_def e1_def)
  have "\<exists>e2 asr. (if mode = RateMode_Stable then repayStable r u amt e1 t
      else repayVariable r amt e1) = Inr e2 \<and> priced e2 \<and> r_averageStableBorrowRate e2 = Some asr \<and>
      0 \<le> asr \<and> r_availableLiquidity e2 = Some (av + amt) \<and>
      r_totalLiquidity e2 = Some (av + amt + ub')"
  proof (cases "mode = RateMode_Stable")
    case True
    obtain d a where "repayStable r u amt e1 t = Inr (e1\<lparr>r_principalStableDebt := Some d,
        r_totalStableDebt := Some d, r_averageStableBorrowRate := Some a\<rparr>)" "0 \<le> d" "0 \<le> a"
      using repayStable_ok[OF assms(2,3) a1(1)] by metis
    then show ?thesis using True a1 f(4) by (auto simp: accrued_def priced_def)
  next
    case False
    obtain vi where vi: "r_variableBorrowIndex e1 = Some vi" using a1(1) by (auto simp: accrued_def)
    then have ix: "calcExpectedVariableBorrowIndex r t = Inr vi"
      using updateState_inv[OF e(1)] by (auto simp: e1_def)
    obtain s tv a where "repayVariable r amt e1 = Inr (e1\<lparr>r_scaledVariableDebt := Some s,
        r_totalVariableDebt := Some tv, r_averageStableBorrowRate := Some a\<rparr>)" "0 \<le> tv" "0 \<le> a"
      using repayVariable_ok[OF assms(2) a1(1) amt(2) vi assms(5)[OF False amt(1) ix]] by metis
    then show ?thesis using False a1 f(4) by (auto simp: accrued_def priced_def)
  qed
  then obtain e2 asr where e2: "(if mode = RateMode_Stable then repayStable r u amt e1 t
      else repayVariable r amt e1) = Inr e2" "priced e2" "r_averageStableBorrowRate e2 = Some asr"
      "0 \<le> asr" "r_availableLiquidity e2 = Some (av + amt)"
      "r_totalLiquidity e2 = Some (av + amt + ub')" by blast
  have "0 \<le> av + amt" "av + amt \<le> av + amt + ub'" using av l(2) by simp_all
  from debt_set_ok[OF assms(1,2) e2(2-6) this, of "Some t"]
  obtain e3 e4 e5 where c: "assignUsageRatios e2 = Inr e3"
    "assignRates cfg r e3 (r_totalStableDebt e3) (r_totalVariableDebt e3) = Inr e4"
    "updateTotalLiquidityAndUsageRatio (e4\<lparr>r_lastUpdateTimestamp := Some t\<rparr>) = Inr e5" by blast
  have "(if \<bar>amt0\<bar> = MAX_UINT_AMOUNT then (if mode = RateMode_Stable then us else uv) else amt0) = amt"
    using amt(1) us uv by (auto simp: repaidAmount_def split: if_splits)
  then show ?thesis
    using c by (simp add: calcExpectedReserveDataAfterRepay_def us uv e(1) l(1)[folded e1_def] e2(1))
qed

end
