(* ===== verification/UserCalc.thy ===== *)
theory UserCalc
  imports ReserveUpdate
begin

text \<open>
  The expected user data after each action, from \<open>test-suites/helpers/utils/calculations.ts\<close>: one
  definition per \<open>calcExpectedUserDataAfter...\<close> function. The assignments are kept in the order of
  the source, also where a later one overwrites an earlier one. Parameters that a function never
  reads (\<open>currentTimestamp\<close>, \<open>txCost\<close>) are left out.
\<close>

definition calcExpectedScaledRSTokenBalance ::
    "user_reserve_data \<Rightarrow> int \<Rightarrow> int \<Rightarrow> int \<Rightarrow> int result" where
  "calcExpectedScaledRSTokenBalance userDataBeforeAction index amountAdded amountTaken =
     rbind (getf (u_scaledRSTokenBalance userDataBeforeAction)) (\<lambda>scaledRSTokenBalance.
     rbind (rayDiv amountAdded index) (\<lambda>scaledAdded.
     rbind (rayDiv amountTaken index) (\<lambda>scaledTaken.
     Inr (scaledRSTokenBalance + scaledAdded - scaledTaken))))"

definition calcExpectedUserDataAfterDeposit ::
    "int \<Rightarrow> reserve_data \<Rightarrow> reserve_data \<Rightarrow> user_reserve_data \<Rightarrow> int \<Rightarrow> user_reserve_data result" where
  "calcExpectedUserDataAfterDeposit amountDeposited reserveDataBeforeAction
       reserveDataAfterAction userDataBeforeAction txTimestamp =
     rbind (userStableDebt userDataBeforeAction txTimestamp) (\<lambda>stableDebt.
     let e = empty_user\<lparr>u_currentStableDebt := Some stableDebt\<rparr> in
     rbind (calcExpectedVariableDebtTokenBalance reserveDataBeforeAction userDataBeforeAction
              txTimestamp) (\<lambda>variableDebt.
     let e = e\<lparr>u_currentVariableDebt := Some variableDebt,
               u_principalStableDebt := u_principalStableDebt userDataBeforeAction,
               u_scaledVariableDebt := u_scaledVariableDebt userDataBeforeAction,
               u_variableBorrowIndex := u_variableBorrowIndex userDataBeforeAction,
               u_stableBorrowRate := u_stableBorrowRate userDataBeforeAction,
               u_stableRateLastUpdated := u_stableRateLastUpdated userDataBeforeAction,
               u_liquidityRate := r_liquidityRate reserveDataAfterAction\<rparr> in
     rbind (getf (r_liquidityIndex reserveDataAfterAction)) (\<lambda>liquidityIndex.
     rbind (calcExpectedScaledRSTokenBalance userDataBeforeAction liquidityIndex amountDeposited 0)
       (\<lambda>scaledRSTokenBalance.
     rbind (calcExpectedRSTokenBalance reserveDataBeforeAction userDataBeforeAction txTimestamp)
       (\<lambda>rsTokenBalance.
     let e = e\<lparr>u_scaledRSTokenBalance := Some scaledRSTokenBalance,
               u_currentRSTokenBalance := Some (rsTokenBalance + amountDeposited)\<rparr> in
     rbind (getf (u_currentRSTokenBalance userDataBeforeAction)) (\<lambda>currentRSTokenBalance.
     let e = e\<lparr>u_usageAsCollateralEnabled :=
                 (if currentRSTokenBalance = 0 then Some True
                  else u_usageAsCollateralEnabled userDataBeforeAction),
               u_variableBorrowIndex := u_variableBorrowIndex userDataBeforeAction\<rparr> in
     rbind (getf (u_walletBalance userDataBeforeAction)) (\<lambda>walletBalance.
     Inr (e\<lparr>u_walletBalance := Some (walletBalance - amountDeposited),
            u_principalStableDebt := Some stableDebt,
            u_currentStableDebt := Some stableDebt\<rparr>
           \<lparr>u_principalStableDebt := Some variableDebt,
            u_currentVariableDebt := Some variableDebt\<rparr>))))))))"

definition calcExpectedUserDataAfterWithdraw ::
    "int \<Rightarrow> reserve_data \<Rightarrow> reserve_data \<Rightarrow> user_reserve_data \<Rightarrow> int \<Rightarrow> user_reserve_data result" where
  "calcExpectedUserDataAfterWithdraw amountWithdrawn reserveDataBeforeAction
       reserveDataAfterAction userDataBeforeAction txTimestamp =
     rbind (calcExpectedRSTokenBalance reserveDataBeforeAction userDataBeforeAction txTimestamp)
       (\<lambda>rsTokenBalance.
     let amountWithdrawn =
           (if amountWithdrawn = MAX_UINT_AMOUNT then rsTokenBalance else amountWithdrawn) in
     rbind (getf (r_liquidityIndex reserveDataAfterAction)) (\<lambda>liquidityIndex.
     rbind (calcExpectedScaledRSTokenBalance userDataBeforeAction liquidityIndex 0 amountWithdrawn)
       (\<lambda>scaledRSTokenBalance.
     let currentRSTokenBalance = rsTokenBalance - amountWithdrawn;
         e = empty_user\<lparr>u_scaledRSTokenBalance := Some scaledRSTokenBalance,
               u_currentRSTokenBalance := Some currentRSTokenBalance,
               u_principalStableDebt := u_principalStableDebt userDataBeforeAction,
               u_scaledVariableDebt := u_scaledVariableDebt userDataBeforeAction\<rparr> in
     rbind (userStableDebt userDataBeforeAction txTimestamp) (\<lambda>stableDebt.
     rbind (calcExpectedVariableDebtTokenBalance reserveDataBeforeAction userDataBeforeAction
              txTimestamp) (\<lambda>variableDebt.
     let e = e\<lparr>u_currentStableDebt := Some stableDebt,
               u_currentVariableDebt := Some variableDebt,
               u_variableBorrowIndex := u_variableBorrowIndex userDataBeforeAction,
               u_stableBorrowRate := u_stableBorrowRate userDataBeforeAction,
               u_stableRateLastUpdated := u_stableRateLastUpdated userDataBeforeAction,
               u_liquidityRate := r_liquidityRate reserveDataAfterAction\<rparr> in
     rbind (getf (u_currentRSTokenBalance userDataBeforeAction)) (\<lambda>balanceBefore.
     let e = e\<lparr>u_usageAsCollateralEnabled :=
                 (if balanceBefore = 0 then Some True
                  else if currentRSTokenBalance = 0 then Some False
                  else u_usageAsCollateralEnabled userDataBeforeAction)\<rparr> in
     rbind (getf (u_walletBalance userDataBeforeAction)) (\<lambda>walletBalance.
     Inr (e\<lparr>u_walletBalance := Some (walletBalance + amountWithdrawn)\<rparr>))))))))"

text \<open>
  In the variable branch of a borrow the scaled debt of the \<^emph>\<open>reserve\<close> is the base of the user's
  new scaled debt, as the source has it.
\<close>

definition calcExpectedUserDataAfterBorrow ::
    "int \<Rightarrow> string \<Rightarrow> reserve_data \<Rightarrow> reserve_data \<Rightarrow> user_reserve_data \<Rightarrow> int \<Rightarrow> int \<Rightarrow>
       user_reserve_data result" where
  "calcExpectedUserDataAfterBorrow amountBorrowed interestRateMode reserveDataBeforeAction
       expectedDataAfterAction userDataBeforeAction txTimestamp currentTimestamp =
     rbind (if interestRateMode = RateMode_Stable then
              rbind (userStableDebt userDataBeforeAction txTimestamp) (\<lambda>stableDebtUntilTx.
              let principalStableDebt = stableDebtUntilTx + amountBorrowed in
              rbind (getf (u_stableBorrowRate userDataBeforeAction)) (\<lambda>userRate.
              rbind (getf (r_stableBorrowRate reserveDataBeforeAction)) (\<lambda>reserveRate.
              rbind (calcExpectedUserStableRate stableDebtUntilTx userRate amountBorrowed
                       reserveRate) (\<lambda>stableBorrowRate.
              Inr (empty_user\<lparr>u_principalStableDebt := Some principalStableDebt,
                     u_stableRateLastUpdated := Some txTimestamp,
                     u_stableBorrowRate := Some stableBorrowRate,
                     u_currentStableDebt := Some (calcExpectedStableDebtTokenBalance
                       principalStableDebt stableBorrowRate txTimestamp currentTimestamp),
                     u_scaledVariableDebt := u_scaledVariableDebt userDataBeforeAction\<rparr>)))))
            else
              rbind (getf (r_scaledVariableDebt reserveDataBeforeAction)) (\<lambda>scaledVariableDebt.
              rbind (getf (r_variableBorrowIndex expectedDataAfterAction)) (\<lambda>variableBorrowIndex.
              rbind (rayDiv amountBorrowed variableBorrowIndex) (\<lambda>scaledAmount.
              rbind (userStableDebt userDataBeforeAction currentTimestamp) (\<lambda>currentStableDebt.
              Inr (empty_user\<lparr>u_scaledVariableDebt := Some (scaledVariableDebt + scaledAmount),
                     u_principalStableDebt := u_principalStableDebt userDataBeforeAction,
                     u_stableBorrowRate := u_stableBorrowRate userDataBeforeAction,
                     u_stableRateLastUpdated := u_stableRateLastUpdated userDataBeforeAction,
                     u_currentStableDebt := Some currentStableDebt\<rparr>))))))
       (\<lambda>e.
     rbind (calcExpectedVariableDebtTokenBalance expectedDataAfterAction e currentTimestamp)
       (\<lambda>currentVariableDebt.
     let e = e\<lparr>u_currentVariableDebt := Some currentVariableDebt,
               u_liquidityRate := r_liquidityRate expectedDataAfterAction,
               u_usageAsCollateralEnabled := u_usageAsCollateralEnabled userDataBeforeAction\<rparr> in
     rbind (calcExpectedRSTokenBalance expectedDataAfterAction userDataBeforeAction
              currentTimestamp) (\<lambda>currentRSTokenBalance.
     rbind (getf (u_walletBalance userDataBeforeAction)) (\<lambda>walletBalance.
     Inr (e\<lparr>u_currentRSTokenBalance := Some currentRSTokenBalance,
            u_scaledRSTokenBalance := u_scaledRSTokenBalance userDataBeforeAction,
            u_walletBalance := Some (walletBalance + amountBorrowed)\<rparr>)))))"

definition calcExpectedUserDataAfterRepay ::
    "int \<Rightarrow> string \<Rightarrow> reserve_data \<Rightarrow> reserve_data \<Rightarrow> user_reserve_data \<Rightarrow> string \<Rightarrow> string \<Rightarrow> int \<Rightarrow>
       int \<Rightarrow> user_reserve_data result" where
  "calcExpectedUserDataAfterRepay totalRepaid rateMode reserveDataBeforeAction
       expectedDataAfterAction userDataBeforeAction user onBehalfOf txTimestamp currentTimestamp =
     rbind (calcExpectedVariableDebtTokenBalance reserveDataBeforeAction userDataBeforeAction
              currentTimestamp) (\<lambda>variableDebt.
     rbind (userStableDebt userDataBeforeAction currentTimestamp) (\<lambda>stableDebt.
     let totalRepaidBN =
           (if \<bar>totalRepaid\<bar> = MAX_UINT_AMOUNT
            then (if rateMode = RateMode_Stable then stableDebt else variableDebt)
            else totalRepaid) in
     rbind (if rateMode = RateMode_Stable then
              let currentStableDebt = stableDebt - totalRepaidBN;
                  e = empty_user\<lparr>u_scaledVariableDebt := u_scaledVariableDebt userDataBeforeAction,
                        u_currentVariableDebt := Some variableDebt,
                        u_principalStableDebt := Some currentStableDebt,
                        u_currentStableDebt := Some currentStableDebt\<rparr>
              in if currentStableDebt = 0
                 then Inr (e\<lparr>u_stableBorrowRate := Some 0, u_stableRateLastUpdated := Some 0\<rparr>)
                 else Inr (e\<lparr>u_stableBorrowRate := u_stableBorrowRate userDataBeforeAction,
                             u_stableRateLastUpdated := Some txTimestamp\<rparr>)
            else
              rbind (getf (u_scaledVariableDebt userDataBeforeAction)) (\<lambda>scaledBefore.
              rbind (getf (r_variableBorrowIndex expectedDataAfterAction)) (\<lambda>variableBorrowIndex.
              rbind (rayDiv totalRepaidBN variableBorrowIndex) (\<lambda>scaledAmount.
              let scaledVariableDebt = scaledBefore - scaledAmount in
              Inr (empty_user\<lparr>u_currentStableDebt := u_principalStableDebt userDataBeforeAction,
                     u_principalStableDebt := Some stableDebt,
                     u_stableBorrowRate := u_stableBorrowRate userDataBeforeAction,
                     u_stableRateLastUpdated := u_stableRateLastUpdated userDataBeforeAction,
                     u_scaledVariableDebt := Some scaledVariableDebt,
                     u_currentVariableDebt := Some (rayMul scaledVariableDebt
                       variableBorrowIndex)\<rparr>)))))
       (\<lambda>e.
     let e = e\<lparr>u_liquidityRate := r_liquidityRate expectedDataAfterAction,
               u_usageAsCollateralEnabled := u_usageAsCollateralEnabled userDataBeforeAction\<rparr> in
     rbind (calcExpectedRSTokenBalance reserveDataBeforeAction userDataBeforeAction txTimestamp)
       (\<lambda>currentRSTokenBalance.
     let e = e\<lparr>u_currentRSTokenBalance := Some currentRSTokenBalance,
               u_scaledRSTokenBalance := u_scaledRSTokenBalance userDataBeforeAction\<rparr> in
     if user = onBehalfOf then
       rbind (getf (u_walletBalance userDataBeforeAction)) (\<lambda>walletBalance.
       Inr (e\<lparr>u_walletBalance := Some (walletBalance - totalRepaidBN)\<rparr>))
     else Inr (e\<lparr>u_walletBalance := u_walletBalance userDataBeforeAction\<rparr>)))))"

definition calcExpectedUserDataAfterSetUseAsCollateral ::
    "bool \<Rightarrow> user_reserve_data \<Rightarrow> user_reserve_data" where
  "calcExpectedUserDataAfterSetUseAsCollateral useAsCollateral userDataBeforeAction =
     userDataBeforeAction\<lparr>u_usageAsCollateralEnabled := Some useAsCollateral\<rparr>"

definition calcExpectedUserDataAfterSwapRateMode ::
    "reserve_data \<Rightarrow> reserve_data \<Rightarrow> user_reserve_data \<Rightarrow> string \<Rightarrow> int \<Rightarrow> user_reserve_data result" where
  "calcExpectedUserDataAfterSwapRateMode reserveDataBeforeAction expectedDataAfterAction
       userDataBeforeAction rateMode txTimestamp =
     rbind (userStableDebt userDataBeforeAction txTimestamp) (\<lambda>stableDebtBalance.
     rbind (calcExpectedVariableDebtTokenBalance reserveDataBeforeAction userDataBeforeAction
              txTimestamp) (\<lambda>variableDebtBalance.
     rbind (calcExpectedRSTokenBalance reserveDataBeforeAction userDataBeforeAction txTimestamp)
       (\<lambda>currentRSTokenBalance.
     let e = userDataBeforeAction\<lparr>u_currentRSTokenBalance := Some currentRSTokenBalance\<rparr> in
     rbind (if rateMode = RateMode_Stable then
              let e = e\<lparr>u_principalStableDebt := Some 0, u_currentStableDebt := Some 0,
                        u_stableBorrowRate := Some 0\<rparr> in
              rbind (getf (u_scaledVariableDebt userDataBeforeAction)) (\<lambda>scaledBefore.
              rbind (getf (r_variableBorrowIndex expectedDataAfterAction)) (\<lambda>variableBorrowIndex.
              rbind (rayDiv stableDebtBalance variableBorrowIndex) (\<lambda>scaledAmount.
              let scaledVariableDebt = scaledBefore + scaledAmount in
              Inr (e\<lparr>u_scaledVariableDebt := Some scaledVariableDebt,
                     u_currentVariableDebt := Some (rayMul scaledVariableDebt variableBorrowIndex),
                     u_stableRateLastUpdated := Some 0\<rparr>))))
            else
              rbind (getf (u_currentStableDebt userDataBeforeAction)) (\<lambda>currentStableDebt.
              let e = e\<lparr>u_principalStableDebt := Some (currentStableDebt + variableDebtBalance),
                        u_currentStableDebt := Some (currentStableDebt + variableDebtBalance)\<rparr> in
              rbind (getf (u_stableBorrowRate userDataBeforeAction)) (\<lambda>userRate.
              rbind (getf (r_stableBorrowRate reserveDataBeforeAction)) (\<lambda>reserveRate.
              rbind (calcExpectedUserStableRate stableDebtBalance userRate variableDebtBalance
                       reserveRate) (\<lambda>stableBorrowRate.
              Inr (e\<lparr>u_stableBorrowRate := Some stableBorrowRate,
                     u_stableRateLastUpdated := Some txTimestamp,
                     u_scaledVariableDebt := Some 0, u_currentVariableDebt := Some 0\<rparr>))))))
       (\<lambda>e.
     Inr (e\<lparr>u_liquidityRate := r_liquidityRate expectedDataAfterAction\<rparr>)))))"

definition calcExpectedUserDataAfterStableRateRebalance ::
    "reserve_data \<Rightarrow> reserve_data \<Rightarrow> user_reserve_data \<Rightarrow> int \<Rightarrow> user_reserve_data result" where
  "calcExpectedUserDataAfterStableRateRebalance reserveDataBeforeAction expectedDataAfterAction
       userDataBeforeAction txTimestamp =
     rbind (calcExpectedVariableDebtTokenBalance reserveDataBeforeAction userDataBeforeAction
              txTimestamp) (\<lambda>variableDebt.
     let e = userDataBeforeAction\<lparr>u_principalStableDebt := u_principalStableDebt userDataBeforeAction,
               u_principalVariableDebt := Some variableDebt\<rparr> in
     rbind (userStableDebt userDataBeforeAction txTimestamp) (\<lambda>stableDebt.
     let e = e\<lparr>u_principalStableDebt := Some stableDebt, u_currentStableDebt := Some stableDebt,
               u_currentVariableDebt := Some variableDebt,
               u_stableRateLastUpdated := Some txTimestamp,
               u_principalVariableDebt := u_principalVariableDebt userDataBeforeAction,
               u_stableBorrowRate := r_averageStableBorrowRate expectedDataAfterAction,
               u_liquidityRate := r_liquidityRate expectedDataAfterAction\<rparr> in
     rbind (calcExpectedRSTokenBalance reserveDataBeforeAction userDataBeforeAction txTimestamp)
       (\<lambda>currentRSTokenBalance.
     Inr (e\<lparr>u_currentRSTokenBalance := Some currentRSTokenBalance\<rparr>))))"

end
