(* ===== verification/Demo.thy ===== *)
theory Demo
  imports ReserveTotal UserCalc
begin

text \<open>
  One reserve, one user and one configuration with realistic numbers, on which the witnesses of the
  properties are evaluated, and the rewriting they use. The simplifier normalises the argument of a
  \<open>rbind\<close> before it enters the continuation (\<open>step_congs\<close>), so that every arithmetic step is
  done on numerals.
\<close>

section \<open>Concrete data for the witnesses\<close>

definition demo_strategy :: interest_rate_strategy_params where
  "demo_strategy = \<lparr>strategy_name = ''rateStrategyStableOne'', optimalUsageRatio = 900000000000000000000000000,
     baseVariableBorrowRate = 0, variableRateSlope1 = 40000000000000000000000000,
     variableRateSlope2 = 600000000000000000000000000, stableRateSlope1 = 20000000000000000000000000,
     stableRateSlope2 = 600000000000000000000000000, baseStableRateOffset = 20000000000000000000000000,
     stableRateExcessOffset = 50000000000000000000000000,
     optimalStableToTotalDebtRatio = 200000000000000000000000000\<rparr>"

definition demo_params :: reserve_params where
  "demo_params = \<lparr>borrowingEnabled = True, stableBorrowRateEnabled = True, reserveDecimals = 18,
     borrowCap = 0, debtCeiling = 0, borrowableIsolation = True, flashLoanEnabled = True,
     baseLTVAsCollateral = 7500, liquidationThreshold = 8000, liquidationBonus = 10500,
     liquidationProtocolFee = Some 1000, RSTokenImpl = ''RSToken'', reserveFactor = 1000,
     supplyCap = 0, strategy = demo_strategy\<rparr>"

definition demo_config :: "reserve_params obj" where
  "demo_config = [(''DAI'', demo_params)]"

definition demo_reserve :: reserve_data where
  "demo_reserve = \<lparr>r_address = Some ''0xda1'', r_symbol = Some ''DAI'', r_decimals = Some 18,
     r_reserveFactor = Some 1000, r_availableLiquidity = Some 600000, r_totalLiquidity = Some 605000,
     r_totalStableDebt = Some 100000, r_totalVariableDebt = Some 300000,
     r_principalStableDebt = Some 100000, r_scaledVariableDebt = Some 300000,
     r_averageStableBorrowRate = Some 50000000000000000000000000,
     r_variableBorrowRate = Some 30000000000000000000000000,
     r_stableBorrowRate = Some 60000000000000000000000000,
     r_supplyUsageRatio = Some 398009950248756218905472637,
     r_borrowUsageRatio = Some 400000000000000000000000000,
     r_liquidityIndex = Some RAY, r_variableBorrowIndex = Some RAY,
     r_RSTokenAddress = Some ''0x57'', r_marketStableRate = Some 50000000000000000000000000,
     r_lastUpdateTimestamp = Some 1000, r_totalStableDebtLastUpdated = Some 1000,
     r_liquidityRate = Some 10000000000000000000000000, r_unbacked = Some 5000,
     r_accruedToTreasuryScaled = Some 7\<rparr>"

definition demo_user :: user_reserve_data where
  "demo_user = \<lparr>u_scaledRSTokenBalance = Some 20000, u_currentRSTokenBalance = Some 20000,
     u_currentStableDebt = Some 1000, u_currentVariableDebt = Some 3000,
     u_principalStableDebt = Some 1000, u_scaledVariableDebt = Some 3000,
     u_liquidityRate = Some 10000000000000000000000000,
     u_stableBorrowRate = Some 50000000000000000000000000, u_stableRateLastUpdated = Some 1000,
     u_usageAsCollateralEnabled = Some True, u_walletBalance = Some 500000,
     u_variableBorrowIndex = None, u_principalVariableDebt = None\<rparr>"

lemma demo_complete: "complete_reserve demo_reserve"
  by (simp add: complete_reserve_def demo_reserve_def)

lemma demo_sane: "sane_reserve demo_reserve 5000"
  by (simp add: sane_reserve_def demo_complete) (simp add: demo_reserve_def const_simps)

lemma demo_sane_user: "sane_user demo_user 5000"
  by (simp add: sane_user_def complete_user_def demo_user_def)

lemma demo_quoted: "quoted demo_config demo_reserve"
  by (simp add: quoted_def demo_config_def demo_reserve_def wf_params_def wf_strategy_def
      demo_params_def demo_strategy_def const_simps)

lemma demo_values:
  "sane_user demo_user 5000" "the (r_availableLiquidity demo_reserve) = 600000"
  "the (r_scaledVariableDebt demo_reserve) = 300000" "MAX_UINT_AMOUNT \<noteq> 400" "400 \<noteq> MAX_UINT_AMOUNT"
  "2000 \<le> PERCENTAGE_FACTOR"
  by (simp_all add: demo_sane_user) (simp_all add: demo_reserve_def const_simps MAX_UINT_AMOUNT_eq)

lemmas demo_facts = demo_quoted demo_sane demo_sane_user

section \<open>Evaluation\<close>

lemma rbind_weak_cong: "m = m' \<Longrightarrow> rbind m f = rbind m' f" by simp
definition rbind2 where "rbind2 m f = rbind m (\<lambda>(a, b). f a b)"
definition rbind3 where "rbind3 m f = rbind m (\<lambda>(a, b, c). f a b c)"
lemma rbind23: "rbind2 (Inr (a,b)) f = Let a (\<lambda>x. Let b (\<lambda>y. f x y))" "rbind3 (Inr (a,b,c)) g = Let a (\<lambda>x. Let b (\<lambda>y. Let c (\<lambda>z. g x y z)))" "rbind2 (Inl e) f = Inl e" "rbind3 (Inl e) g = Inl e"
  by (simp_all add: rbind2_def rbind3_def)
lemma rbind2_cong: "m = m' \<Longrightarrow> rbind2 m f = rbind2 m' f" by simp
lemma rbind3_cong: "m = m' \<Longrightarrow> rbind3 m f = rbind3 m' f" by simp
lemmas step_congs = rbind_weak_cong rbind2_cong rbind3_cong let_weak_cong
named_theorems eval_defs \<open>definitions a witness unfolds\<close>
lemmas [eval_defs] = const_simps rayMul_def rayDiv_def bn_div_def percentMul_def wadToRay_def startReserve_def
  calcCompoundedInterest_def calcLinearInterest_def calcExpectedTotalStableDebt_def reserveStableDebt_def
  calcExpectedLiquidityIndex_def calcExpectedVariableBorrowIndex_def calcExpectedTotalVariableDebt_def
  calcExpectedAccrueToTreasury_def updateLiquidityAndUsageRatios_def
  updateTotalLiquidityAndUsageRatio_def calcExpectedUsageRatios_def
  calcExpectedInterestRates_def usageRates_def excessStableRate_def calcExpectedOverallBorrowRate_def
  entry_of_get demo_config_def demo_params_def demo_strategy_def
  signed_divide_int_def Let_def expectedAfter.simps 
  RateMode_Stable_def RateMode_Variable_def RateMode_None_def repayStable_def repayVariable_def userStableDebt_def
  calcExpectedReserveDataAfterDeposit_def calcExpectedReserveDataAfterRepay_def
  calcExpectedReserveDataAfterBorrow_def borrowStable_def borrowVariable_def
  calcExpectedVariableDebtTokenBalance_def calcExpectedReserveNormalizedDebt_def calcExpectedStableDebtTokenBalance_def
  calcExpectedAverageStableBorrowRate_def
  calcExpectedReserveDataAfterSwapRateMode_def swapToVariable_def swapToStable_def
  calcExpectedRSTokenBalance_def calcExpectedReserveNormalizedIncome_def
  calcExpectedScaledRSTokenBalance_def calcExpectedUserStableRate_def
  calcExpectedUserDataAfterDeposit_def calcExpectedUserDataAfterWithdraw_def
  calcExpectedUserDataAfterBorrow_def calcExpectedUserDataAfterRepay_def
  calcExpectedUserDataAfterSwapRateMode_def empty_user_def
  assignUsageRatios_def[folded rbind2_def]
  assignRates_def[folded rbind3_def] interestRatesFor_def[folded rbind2_def] rbind23

lemma demo_fields [eval_defs]:
  "r_symbol demo_reserve = Some ''DAI''" "r_availableLiquidity demo_reserve = Some 600000"
  "r_unbacked demo_reserve = Some 5000" "r_address demo_reserve = Some ''0xda1''"
  "r_reserveFactor demo_reserve = Some 1000" "r_totalStableDebt demo_reserve = Some 100000"
  "r_totalVariableDebt demo_reserve = Some 300000" "r_principalStableDebt demo_reserve = Some 100000"
  "r_scaledVariableDebt demo_reserve = Some 300000"
  "r_averageStableBorrowRate demo_reserve = Some 50000000000000000000000000"
  "r_variableBorrowRate demo_reserve = Some 30000000000000000000000000"
  "r_stableBorrowRate demo_reserve = Some 60000000000000000000000000"
  "r_supplyUsageRatio demo_reserve = Some 398009950248756218905472637"
  "r_liquidityIndex demo_reserve = Some RAY" "r_variableBorrowIndex demo_reserve = Some RAY"
  "r_marketStableRate demo_reserve = Some 50000000000000000000000000"
  "r_lastUpdateTimestamp demo_reserve = Some 1000" "r_totalStableDebtLastUpdated demo_reserve = Some 1000"
  "r_liquidityRate demo_reserve = Some 10000000000000000000000000"
  "r_accruedToTreasuryScaled demo_reserve = Some 7"
  "u_principalStableDebt demo_user = Some 1000" "u_stableBorrowRate demo_user = Some 50000000000000000000000000"
  "u_stableRateLastUpdated demo_user = Some 1000" "u_scaledVariableDebt demo_user = Some 3000"
  "u_scaledRSTokenBalance demo_user = Some 20000" "u_currentRSTokenBalance demo_user = Some 20000"
  "u_currentStableDebt demo_user = Some 1000" "u_walletBalance demo_user = Some 500000"
  by (simp_all add: demo_reserve_def demo_user_def)

lemma startReserve_fields [eval_defs]: 
  "r_unbacked (startReserve r) = r_unbacked r" by (simp add: startReserve_def)

lemma demo_update [eval_defs]: "updateState demo_reserve e 5000 = Inr (e\<lparr>r_liquidityIndex := Some 1000001268391679350583460172,
   r_variableBorrowIndex := Some 1000003805182275920358748517, r_totalStableDebt := Some 100001,
   r_totalVariableDebt := Some 300001, r_scaledVariableDebt := Some 300000, r_principalStableDebt := Some 100000,
   r_accruedToTreasuryScaled := Some 7\<rparr>)"
  unfolding updateState_def
  by (simp add: eval_defs cong: step_congs)
lemma demo_debts [eval_defs]: "userStableDebt demo_user 5000 = Inr 1000"
  "calcExpectedVariableDebtTokenBalance demo_reserve demo_user 5000 = Inr 3000"
  by (simp_all add: eval_defs cong: step_congs)

end
