(* ===== verification/ReserveProps.thy ===== *)
theory ReserveProps
  imports Demo
begin

text \<open>
  Properties of the reserve calculations, all over the dispatcher \<open>expectedAfter\<close>: the expected
  object is comparable and settled, indexes and treasury only grow, cash moves as the action says,
  and the calculations return a value on every reserve the chain can report.
\<close>

section \<open>Every feasible action has an expected reserve\<close>

text \<open>
  Feasible actions: amounts that are not negative (\<open>MAX_UINT_AMOUNT\<close> stands for the whole balance
  or the whole debt), a withdrawal or a borrow covered by the cash of the reserve, a variable
  repayment of at most the accrued variable debt of the reserve, a backed transfer into a reserve
  with some supply. Swaps and rebalances are not in this list: their average rate may be negative by
  rounding.
\<close>

fun feasible :: "reserve_op \<Rightarrow> reserve_data \<Rightarrow> int \<Rightarrow> bool" where
  "feasible (Deposit amount) r t \<longleftrightarrow> 0 \<le> amount"
| "feasible (MintUnbacked amount) r t \<longleftrightarrow> 0 \<le> amount"
| "feasible (BackUnbacked supply amount fee protocolFee) r t \<longleftrightarrow> 0 < supply \<and> 0 \<le> amount \<and>
     0 \<le> fee \<and> 0 \<le> protocolFee \<and> protocolFee \<le> PERCENTAGE_FACTOR"
| "feasible (Withdraw amount u) r t \<longleftrightarrow> 0 \<le> amount \<and> u_scaledRSTokenBalance u \<noteq> None \<and>
     (\<forall>w. withdrawnAmount amount r u t w \<longrightarrow> w \<le> the (r_availableLiquidity r))"
| "feasible (Borrow amount mode now) r t \<longleftrightarrow> 0 \<le> amount \<and> t \<le> now \<and>
     amount \<le> the (r_availableLiquidity r)"
| "feasible (Repay amount mode u) r t \<longleftrightarrow> 0 \<le> amount \<and> sane_user u t \<and>
     (mode = RateMode_Stable \<or> (\<forall>w vi. repaidAmount amount mode r u t w \<and>
        calcExpectedVariableBorrowIndex r t = Inr vi \<longrightarrow> w \<le> rayMul (the (r_scaledVariableDebt r)) vi))"
| "feasible (SwapRateMode u mode) r t \<longleftrightarrow> False"
| "feasible (RebalanceStableRate u) r t \<longleftrightarrow> False"

lemma feasible_ok:
  assumes "quoted cfg r" "sane_reserve r t" "feasible op r t"
  shows "ok (expectedAfter cfg op r t)"
  using assms(3)
  by (cases op) (auto intro: deposit_ok[OF assms(1,2)] mintUnbacked_ok[OF assms(1,2)]
      backUnbacked_ok[OF assms(1,2)] withdraw_ok[OF assms(1,2)] borrow_ok[OF assms(1,2)]
      repay_ok[OF assms(1,2)])

text \<open>
  Repaying one's whole debt is feasible: in stable mode always, in variable mode when the user's
  scaled debt is part of the reserve's.
\<close>

lemma whole_repayment_feasible:
  assumes "sane_reserve r t" "sane_user u t"
    "mode \<noteq> RateMode_Stable \<Longrightarrow> the (u_scaledVariableDebt u) \<le> the (r_scaledVariableDebt r)"
    "mode \<noteq> RateMode_Stable \<Longrightarrow> r_totalVariableDebt r = Some 0 \<Longrightarrow> u_scaledVariableDebt u = Some 0"
  shows "feasible (Repay MAX_UINT_AMOUNT mode u) r t"
proof -
  obtain z where z: "u_scaledVariableDebt u = Some z" "0 \<le> z"
    using assms(2) by (auto simp: sane_user_def complete_user_def)
  have "w \<le> rayMul (the (r_scaledVariableDebt r)) vi"
    if "mode \<noteq> RateMode_Stable" "repaidAmount MAX_UINT_AMOUNT mode r u t w"
      "calcExpectedVariableBorrowIndex r t = Inr vi" for w vi
    using whole_debt_within_reserve[OF assms(1) z _ _ that(3)] assms(3,4) that z
    by (simp add: repaidAmount_def MAX_UINT_AMOUNT_eq)
  then show ?thesis using assms(2) by (auto simp: MAX_UINT_AMOUNT_eq)
qed

text \<open>
  C1: On every sane reserve (all properties defined, no negative figure, indexes of at least one
  ray) whose asset has a well-formed configuration, the reserve calculation of a feasible deposit,
  mint, backing, withdrawal, borrow or repayment returns an expected reserve: no undefined property
  is read, nothing is divided by zero and the usage-ratio assertion does not fire. Feasible means an
  amount that is not negative and, for a withdrawal or a borrow, covered by the available liquidity;
  a variable repayment is at most the accrued variable debt of the reserve, a backed transfer meets a
  positive supply and a protocol share of at most the whole fee. Whole-balance withdrawals and
  whole-debt repayments are included. Rate swaps and rebalances are not covered: rounding may make
  their average rate negative.
\<close>

theorem expected_reserve_total:
  assumes "quoted cfg r" "sane_reserve r t" "feasible op r t"
  shows "\<exists>e. expectedAfter cfg op r t = Inr e"
  using feasible_ok[OF assms] by (simp add: ok_iff)

lemma demo_balance: "calcExpectedRSTokenBalance demo_reserve demo_user 5000 = Inr 20000"
  and demo_variableIndex: "calcExpectedVariableBorrowIndex demo_reserve 5000 = Inr 1000003805182275920358748517"
  by (simp_all add: eval_defs cong: step_congs)

lemma demo_feasible:
  "feasible (Withdraw MAX_UINT_AMOUNT demo_user) demo_reserve 5000"
  "feasible (Repay MAX_UINT_AMOUNT RateMode_Variable demo_user) demo_reserve 5000"
  "feasible (Repay 400 RateMode_Variable demo_user) demo_reserve 5000"
proof -
  show "feasible (Withdraw MAX_UINT_AMOUNT demo_user) demo_reserve 5000"
    by (simp add: withdrawnAmount_def demo_balance demo_fields MAX_UINT_AMOUNT_eq)
  show "feasible (Repay MAX_UINT_AMOUNT RateMode_Variable demo_user) demo_reserve 5000"
    by (rule whole_repayment_feasible[OF demo_sane demo_sane_user]) (simp_all add: demo_fields)
  show "feasible (Repay 400 RateMode_Variable demo_user) demo_reserve 5000"
    by (simp add: repaidAmount_def demo_variableIndex demo_values)
       (simp add: eval_defs MAX_UINT_AMOUNT_eq)
qed

theorem expected_reserve_total_witness:
  "(\<exists>e. expectedAfter demo_config (Borrow 4000 RateMode_Variable 6000) demo_reserve 5000 = Inr e) \<and>
   (\<exists>e. expectedAfter demo_config (Withdraw MAX_UINT_AMOUNT demo_user) demo_reserve 5000 = Inr e) \<and>
   (\<exists>e. expectedAfter demo_config (Repay MAX_UINT_AMOUNT RateMode_Variable demo_user) demo_reserve 5000 = Inr e)"
  using expected_reserve_total[OF demo_quoted demo_sane, of "Borrow 4000 RateMode_Variable 6000"]
    expected_reserve_total[OF demo_quoted demo_sane demo_feasible(1)]
    expected_reserve_total[OF demo_quoted demo_sane demo_feasible(2)]
  by (simp add: demo_values)

lemma demo_deposit: "\<exists>e. expectedAfter demo_config (Deposit 40000) demo_reserve 5000 = Inr e"
  and demo_borrow: "\<exists>e. expectedAfter demo_config (Borrow 4000 RateMode_Stable 6000) demo_reserve 5000 = Inr e"
  and demo_repay: "\<exists>e. expectedAfter demo_config (Repay 400 RateMode_Stable demo_user) demo_reserve 5000 = Inr e"
  and demo_repayVariable:
    "\<exists>e. expectedAfter demo_config (Repay 400 RateMode_Variable demo_user) demo_reserve 5000 = Inr e"
  and demo_back: "\<exists>e. expectedAfter demo_config (BackUnbacked 600000 4000 50 2000) demo_reserve 5000 = Inr e"
  using feasible_ok[OF demo_quoted demo_sane, of "Deposit 40000"]
    feasible_ok[OF demo_quoted demo_sane, of "Borrow 4000 RateMode_Stable 6000"]
    feasible_ok[OF demo_quoted demo_sane, of "Repay 400 RateMode_Stable demo_user"]
    feasible_ok[OF demo_quoted demo_sane demo_feasible(3)]
    feasible_ok[OF demo_quoted demo_sane, of "BackUnbacked 600000 4000 50 2000"]
  by (simp_all add: demo_values ok_iff)

section \<open>Accrual, frame and shape\<close>

text \<open>
  Every calculation starts with \<open>updateState\<close> from an object with the address and the reserve
  factor of the reserve, and keeps what it wrote, but for the premium of a backed transfer.
\<close>

lemma started:
  assumes "expectedAfter cfg op r t = Inr e"
  obtains e0 e1 where "updateState r e0 t = Inr e1" "accrual_kept e1 e" "settled e"
    "r_address e0 = r_address r" "r_reserveFactor e0 = r_reserveFactor r"
    "(\<exists>s a f p. op = BackUnbacked s a f p) \<or> (r_liquidityIndex e = r_liquidityIndex e1 \<and>
       r_accruedToTreasuryScaled e = r_accruedToTreasuryScaled e1)"
proof (cases op)
  case (Deposit x)
  with assms show ?thesis
    by (auto elim!: deposit_inv intro!: that simp: startReserve_def index_kept_def)
next
  case (MintUnbacked x)
  with assms show ?thesis
    by (auto elim!: mintUnbacked_inv intro!: that simp: index_kept_def)
next
  case (BackUnbacked s a f p)
  with assms show ?thesis
    by (auto elim!: backUnbacked_inv intro!: that)
next
  case (Withdraw a u)
  with assms show ?thesis
    by (auto elim!: withdraw_inv intro!: that simp: startReserve_def index_kept_def)
next
  case (Borrow a m n)
  with assms show ?thesis
    by (auto elim!: borrow_inv intro!: that simp: startReserve_def index_kept_def)
next
  case (Repay a m u)
  with assms show ?thesis
    by (auto elim!: repay_inv intro!: that simp: startReserve_def index_kept_def)
next
  case (SwapRateMode u m)
  with assms show ?thesis
    by (auto elim!: swap_inv intro!: that simp: startReserve_def index_kept_def)
next
  case (RebalanceStableRate u)
  with assms show ?thesis
    by (auto elim!: rebalance_inv intro!: that simp: startReserve_def index_kept_def)
qed

lemma debts_defined:
  assumes "complete_reserve r" "expectedAfter cfg op r t = Inr e"
  shows "r_principalStableDebt e \<noteq> None" "r_scaledVariableDebt e \<noteq> None"
proof -
  note r = complete_reserveD(8,9)[OF assms(1)]
  have "r_principalStableDebt e \<noteq> None \<and> r_scaledVariableDebt e \<noteq> None"
  proof (cases op)
    case (Deposit x)
    with assms(2) r show ?thesis by (auto elim!: deposit_inv simp: updateState_kept)
  next
    case (MintUnbacked x)
    with assms(2) r show ?thesis by (auto elim!: mintUnbacked_inv simp: updateState_kept)
  next
    case (BackUnbacked s a f p)
    with assms(2) r show ?thesis by (auto elim!: backUnbacked_inv simp: updateState_kept)
  next
    case (Withdraw a u)
    with assms(2) r show ?thesis by (auto elim!: withdraw_inv simp: updateState_kept)
  next
    case (Borrow a m n)
    with assms(2) r show ?thesis
      by (auto elim!: borrow_inv simp: updateState_kept updateLiquidity_inv split: if_splits
          dest!: borrowStable_debts borrowVariable_debts)
  next
    case (Repay a m u)
    with assms(2) r show ?thesis
      by (auto elim!: repay_inv repayStable_inv repayVariable_inv
          simp: updateState_kept updateLiquidity_inv split: if_splits)
  next
    case (SwapRateMode u m)
    with assms(2) r show ?thesis
      by (auto elim!: swap_inv swapToVariable_inv swapToStable_inv split: if_splits)
  next
    case (RebalanceStableRate u)
    with assms(2) r show ?thesis by (auto elim!: rebalance_inv simp: updateState_kept)
  qed
  then show "r_principalStableDebt e \<noteq> None" "r_scaledVariableDebt e \<noteq> None" by auto
qed

text \<open>
  Whenever a reserve calculation returns, for any of the eight actions, the object it returns
  defines every property that the comparison with the chain reads (all but the skipped ones).
\<close>

theorem expected_reserve_comparable:
  assumes "complete_reserve r" "expectedAfter cfg op r t = Inr e"
  shows "compared_reserve e"
proof -
  obtain e0 e1 where s: "updateState r e0 t = Inr e1" "accrual_kept e1 e" "settled e"
    "r_address e0 = r_address r" "r_reserveFactor e0 = r_reserveFactor r"
    "(\<exists>s a f p. op = BackUnbacked s a f p) \<or> (r_liquidityIndex e = r_liquidityIndex e1 \<and>
       r_accruedToTreasuryScaled e = r_accruedToTreasuryScaled e1)"
    by (rule started[OF assms(2)])
  have "r_liquidityIndex e \<noteq> None \<and> r_accruedToTreasuryScaled e \<noteq> None"
    using s(6) updateState_kept(6,8)[OF s(1)] assms(2) by (auto elim!: backUnbacked_inv)
  then show ?thesis
    using s(2-5) updateState_kept[OF s(1)] debts_defined[OF assms] complete_reserveD(1,3)[OF assms(1)]
    by (auto simp: compared_reserve_def accrual_kept_def settled_def)
qed

theorem expected_reserve_comparable_witness:
  "\<exists>e. expectedAfter demo_config (Borrow 4000 RateMode_Stable 6000) demo_reserve 5000 = Inr e \<and>
     compared_reserve e"
  using demo_borrow expected_reserve_comparable[OF demo_complete] by blast

text \<open>
  C3: In every expected reserve the total liquidity is the available liquidity plus the unbacked
  amount, the two usage ratios are those of its own debts and liquidity, and the supply usage ratio
  does not exceed the borrow usage ratio.
\<close>

theorem expected_reserve_settled:
  assumes "expectedAfter cfg op r t = Inr e"
  shows "\<exists>ts tv av ub b s. r_totalStableDebt e = Some ts \<and> r_totalVariableDebt e = Some tv \<and>
     r_availableLiquidity e = Some av \<and> r_unbacked e = Some ub \<and>
     r_totalLiquidity e = Some (av + ub) \<and> r_borrowUsageRatio e = Some b \<and>
     r_supplyUsageRatio e = Some s \<and> calcExpectedUsageRatios ts tv av (av + ub) = Inr (b, s) \<and> s \<le> b"
proof -
  have "settled e" by (rule started[OF assms])
  then show ?thesis by (fastforce simp: settled_def usageRatios_inv split: if_splits)
qed

theorem expected_reserve_settled_witness:
  "\<exists>e av ub. expectedAfter demo_config (BackUnbacked 600000 4000 50 2000) demo_reserve 5000 = Inr e \<and>
     r_availableLiquidity e = Some av \<and> r_unbacked e = Some ub \<and> r_totalLiquidity e = Some (av + ub)"
  using demo_back expected_reserve_settled by blast

lemma updateState_grows:
  assumes "sane_reserve r t" "updateState r e0 t = Inr e1" "r_liquidityIndex r = Some li"
    "r_variableBorrowIndex r = Some vi" "r_accruedToTreasuryScaled r = Some acc"
  obtains li' vi' acc' where "r_liquidityIndex e1 = Some li'" "r_variableBorrowIndex e1 = Some vi'"
    "r_accruedToTreasuryScaled e1 = Some acc'" "li \<le> li'" "vi \<le> vi'" "acc \<le> acc'"
proof -
  obtain p where p: "r_principalStableDebt r = Some p"
    using complete_reserveD(8)[OF sane_complete[OF assms(1)]] by blast
  obtain li' vi' ts tv acc' where "updateState r e0 t = Inr (e0\<lparr>r_liquidityIndex := Some li',
       r_variableBorrowIndex := Some vi', r_totalStableDebt := Some ts,
       r_totalVariableDebt := Some tv, r_scaledVariableDebt := r_scaledVariableDebt r,
       r_principalStableDebt := r_principalStableDebt r, r_accruedToTreasuryScaled := Some acc'\<rparr>)"
    "li \<le> li'" "vi \<le> vi'" "acc \<le> acc'"
    using updateState_ok[OF assms(1,3,4,5) p] by metis
  then show thesis using that[of li' vi' acc'] assms(2) by auto
qed

lemma backUnbacked_grows:
  assumes "calcExpectedReserveDataAfterBackUnbacked cfg supply amt fee pf r t = Inr e"
    "sane_reserve r t" "0 < supply" "0 \<le> fee" "0 \<le> pf" "pf \<le> PERCENTAGE_FACTOR"
    "r_liquidityIndex r = Some li" "r_variableBorrowIndex r = Some vi"
    "r_accruedToTreasuryScaled r = Some acc"
  shows "\<exists>li' vi' acc'. r_liquidityIndex e = Some li' \<and> r_variableBorrowIndex e = Some vi' \<and>
    r_accruedToTreasuryScaled e = Some acc' \<and> li \<le> li' \<and> vi \<le> vi' \<and> acc \<le> acc'"
proof -
  obtain e1 l1 a1 l2 share where b:
    "updateState r (empty_reserve\<lparr>r_address := r_address r, r_reserveFactor := r_reserveFactor r\<rparr>) t
       = Inr e1" "accrual_kept e1 e" "r_liquidityIndex e1 = Some l1"
    "r_accruedToTreasuryScaled e1 = Some a1"
    "cumulateToLiquidityIndex l1 (rayMul supply l1 + rayMul a1 l1) (fee - percentMul fee pf) = Inr l2"
    "rayDiv (percentMul fee pf) l2 = Inr share" "r_liquidityIndex e = Some l2"
    "r_accruedToTreasuryScaled e = Some (a1 + share)"
    using assms(1) by (rule backUnbacked_inv)
  obtain li' vi' acc' where g: "r_liquidityIndex e1 = Some li'" "r_variableBorrowIndex e1 = Some vi'"
    "r_accruedToTreasuryScaled e1 = Some acc'" "li \<le> li'" "vi \<le> vi'" "acc \<le> acc'"
    using updateState_grows[OF assms(2) b(1) assms(7-9)] by blast
  have base: "RAY \<le> li" "0 \<le> acc" using assms(2,7,9) by (auto simp: sane_reserve_def)
  have l1: "0 \<le> l1" "RAY \<le> l1" "0 \<le> a1" using b(3,4) g base by (auto simp: const_simps)
  have "supply \<le> rayMul supply l1" using assms(3) l1(2) by (simp add: ray.mul_ge)
  then have tot: "0 < rayMul supply l1 + rayMul a1 l1"
    using assms(3) ray.mul_nonneg[OF l1(3,1)] by linarith
  have pm: "0 \<le> percentMul fee pf" "percentMul fee pf \<le> fee"
    using assms(4-6) by (simp_all add: pct.mul_nonneg pct.mul_le)
  have "l1 \<le> l2"
    using cumulate_ok[OF l1(1) tot, of "fee - percentMul fee pf"] pm(2) b(5) by force
  then have l2: "l1 \<le> l2" "0 < l2" using l1(2) RAY_pos by linarith+
  have "0 \<le> share" using ray.dv_bounds(1)[OF pm(1) l2(2) b(6)] .
  then show ?thesis using b(2,3,4,7,8) g l2(1) by (auto simp: accrual_kept_def)
qed

fun fair_fee :: "reserve_op \<Rightarrow> bool" where
  "fair_fee (BackUnbacked supply amount fee protocolFee) \<longleftrightarrow>
     0 < supply \<and> 0 \<le> fee \<and> 0 \<le> protocolFee \<and> protocolFee \<le> PERCENTAGE_FACTOR"
| "fair_fee _ \<longleftrightarrow> True"

text \<open>
  C5: The two indexes and the amount accrued to the treasury never shrink: in every expected
  reserve they are at least those of the reserve before the action (for a backed transfer, with a
  fee that is not negative and a protocol share of at most the whole fee).
\<close>

theorem indexes_and_treasury_grow:
  assumes "sane_reserve r t" "expectedAfter cfg op r t = Inr e"
    "fair_fee op"
    "r_liquidityIndex r = Some li" "r_variableBorrowIndex r = Some vi"
    "r_accruedToTreasuryScaled r = Some acc"
  shows "\<exists>li' vi' acc'. r_liquidityIndex e = Some li' \<and> r_variableBorrowIndex e = Some vi' \<and>
    r_accruedToTreasuryScaled e = Some acc' \<and> li \<le> li' \<and> vi \<le> vi' \<and> acc \<le> acc'"
proof (cases "\<exists>s a f p. op = BackUnbacked s a f p")
  case True
  then obtain s a f p where op: "op = BackUnbacked s a f p" by blast
  have "calcExpectedReserveDataAfterBackUnbacked cfg s a f p r t = Inr e"
    using assms(2) by (simp add: op)
  then show ?thesis
    using assms(3) unfolding op by (auto dest!: backUnbacked_grows[OF _ assms(1) _ _ _ _ assms(4-6)])
next
  case False
  obtain e0 e1 where s: "updateState r e0 t = Inr e1" "accrual_kept e1 e"
    "r_liquidityIndex e = r_liquidityIndex e1"
    "r_accruedToTreasuryScaled e = r_accruedToTreasuryScaled e1"
    using started[OF assms(2)] False by metis
  show ?thesis
    by (rule updateState_grows[OF assms(1) s(1) assms(4-6)])
       (use s(2-4) in \<open>auto simp: accrual_kept_def\<close>)
qed

theorem indexes_and_treasury_grow_witness:
  "\<exists>e li' vi' acc'. expectedAfter demo_config (BackUnbacked 600000 4000 50 2000) demo_reserve 5000 = Inr e \<and>
     r_liquidityIndex e = Some li' \<and> r_variableBorrowIndex e = Some vi' \<and>
     r_accruedToTreasuryScaled e = Some acc' \<and> RAY \<le> li' \<and> RAY \<le> vi' \<and> 7 \<le> acc'"
proof -
  obtain e where e: "expectedAfter demo_config (BackUnbacked 600000 4000 50 2000) demo_reserve 5000 = Inr e"
    using demo_back by blast
  have "r_liquidityIndex demo_reserve = Some RAY" "r_variableBorrowIndex demo_reserve = Some RAY"
      "r_accruedToTreasuryScaled demo_reserve = Some 7"
    by (simp_all add: demo_reserve_def)
  from indexes_and_treasury_grow[OF demo_sane e _ this] e show ?thesis by (simp add: demo_values)
qed

section \<open>Where the cash goes\<close>

text \<open>
  The abstract account of an action: what it adds to the available liquidity and to the unbacked
  amount. The amounts \<open>MAX_UINT_AMOUNT\<close> stand for the whole balance or the whole debt.
\<close>

fun moves :: "reserve_op \<Rightarrow> reserve_data \<Rightarrow> int \<Rightarrow> int \<Rightarrow> int \<Rightarrow> bool" where
  "moves (Deposit amount) r t cash backing \<longleftrightarrow> cash = amount \<and> backing = 0"
| "moves (MintUnbacked amount) r t cash backing \<longleftrightarrow> cash = 0 \<and> backing = amount"
| "moves (BackUnbacked supply amount fee protocolFee) r t cash backing \<longleftrightarrow>
     cash = min amount (the (r_unbacked r)) + fee \<and> backing = - min amount (the (r_unbacked r))"
| "moves (Withdraw amount u) r t cash backing \<longleftrightarrow> backing = 0 \<and>
     (if amount = MAX_UINT_AMOUNT then calcExpectedRSTokenBalance r u t = Inr (- cash)
      else cash = - amount)"
| "moves (Borrow amount mode now) r t cash backing \<longleftrightarrow> cash = - amount \<and> backing = 0"
| "moves (Repay amount mode u) r t cash backing \<longleftrightarrow> backing = 0 \<and>
     repaidAmount amount mode r u t cash"
| "moves (SwapRateMode u mode) r t cash backing \<longleftrightarrow> cash = 0 \<and> backing = 0"
| "moves (RebalanceStableRate u) r t cash backing \<longleftrightarrow> cash = 0 \<and> backing = 0"

lemma moves_reserve:
  assumes "expectedAfter cfg op r t = Inr e"
  shows "\<exists>av ub cash backing. r_availableLiquidity r = Some av \<and> r_unbacked r = Some ub \<and>
       moves op r t cash backing \<and> r_availableLiquidity e = Some (av + cash) \<and>
       r_unbacked e = Some (ub + backing)"
proof -
  have "settled e" by (rule started[OF assms])
  then obtain ub' where ub': "r_unbacked e = Some ub'" by (auto simp: settled_def)
  show ?thesis
  proof (cases op)
    case (Deposit x)
    with assms ub' show ?thesis
      by (auto elim!: deposit_inv simp: index_kept_def updateState_kept startReserve_def)
  next
    case (MintUnbacked x)
    have "r_availableLiquidity r \<noteq> None"
      using assms MintUnbacked by (auto elim!: mintUnbacked_inv simp: settled_def)
    with assms MintUnbacked ub' show ?thesis
      by (auto elim!: mintUnbacked_inv)
  next
    case (BackUnbacked s a f p)
    with assms ub' show ?thesis by (auto elim!: backUnbacked_inv)
  next
    case (Withdraw a u)
    then have "calcExpectedReserveDataAfterWithdraw cfg a r u t = Inr e" using assms by simp
    then obtain e1 w av where w: "updateState r (startReserve r) t = Inr e1" "index_kept e1 e"
        "if a = MAX_UINT_AMOUNT then calcExpectedRSTokenBalance r u t = Inr w else w = a"
        "r_availableLiquidity r = Some av" "r_availableLiquidity e = Some (av - w)"
      by (elim withdraw_inv) blast
    then have "r_unbacked r = Some ub'"
      using ub' by (simp add: index_kept_def updateState_kept startReserve_def)
    with w ub' Withdraw show ?thesis
      by (intro exI[of _ av] exI[of _ ub'] exI[of _ "- w"] exI[of _ 0]) (simp split: if_splits)
  next
    case (Borrow a m n)
    then have "calcExpectedReserveDataAfterBorrow cfg a m r t n = Inr e" using assms by simp
    then obtain e1 av where w: "updateState r ((startReserve r)\<lparr>r_lastUpdateTimestamp := Some t\<rparr>) t = Inr e1"
        "index_kept e1 e" "r_availableLiquidity r = Some av" "r_availableLiquidity e = Some (av - a)"
      by (elim borrow_inv) blast
    then have "r_unbacked r = Some ub'"
      using ub' by (simp add: index_kept_def updateState_kept startReserve_def)
    with w ub' Borrow show ?thesis
      by (intro exI[of _ av] exI[of _ ub'] exI[of _ "- a"] exI[of _ 0]) simp
  next
    case (Repay a m u)
    with assms ub' show ?thesis
      by (auto elim!: repay_inv simp: index_kept_def updateState_kept startReserve_def
          updateLiquidity_inv)
  next
    case (SwapRateMode u m)
    with assms ub' show ?thesis
      by (auto elim!: swap_inv simp: index_kept_def updateState_kept startReserve_def
          updateLiquidity_inv)
  next
    case (RebalanceStableRate u)
    with assms ub' \<open>settled e\<close> show ?thesis
      by (auto elim!: rebalance_inv simp: index_kept_def updateState_kept startReserve_def settled_def)
  qed
qed

text \<open>
  C6: Refinement of the account: an expected reserve keeps the address and the reserve factor, and
  its available liquidity and unbacked amount are those before the action plus what the action
  moves; a bridge action is the only one that touches the unbacked amount.
\<close>

theorem expected_reserve_refines_account:
  assumes "expectedAfter cfg op r t = Inr e"
  shows "r_address e = r_address r \<and> r_reserveFactor e = r_reserveFactor r \<and>
    (\<exists>av ub cash backing. r_availableLiquidity r = Some av \<and> r_unbacked r = Some ub \<and>
       moves op r t cash backing \<and> r_availableLiquidity e = Some (av + cash) \<and>
       r_unbacked e = Some (ub + backing))"
proof -
  obtain e0 e1 where s: "updateState r e0 t = Inr e1" "accrual_kept e1 e"
    "r_address e0 = r_address r" "r_reserveFactor e0 = r_reserveFactor r"
    by (rule started[OF assms])
  have frame: "r_address e = r_address r" "r_reserveFactor e = r_reserveFactor r"
    using s(2-4) updateState_kept(3,4)[OF s(1)] by (simp_all add: accrual_kept_def)
  with moves_reserve[OF assms] show ?thesis by blast
qed

theorem expected_reserve_refines_account_witness:
  "\<exists>e. expectedAfter demo_config (BackUnbacked 600000 4000 50 2000) demo_reserve 5000 = Inr e \<and>
     r_address e = Some ''0xda1'' \<and> r_availableLiquidity e = Some 604050 \<and> r_unbacked e = Some 1000"
proof -
  obtain e where e: "expectedAfter demo_config (BackUnbacked 600000 4000 50 2000) demo_reserve 5000 = Inr e"
    using demo_back by blast
  have "r_address demo_reserve = Some ''0xda1''" "r_availableLiquidity demo_reserve = Some 600000"
      "r_unbacked demo_reserve = Some 5000"
    by (simp_all add: demo_reserve_def)
  with expected_reserve_refines_account[OF e] e show ?thesis by auto
qed

section \<open>Debts\<close>

text \<open>
  A backed transfer never backs more than what is unbacked: the unbacked amount stays
  non-negative and shrinks by the smaller of the amount and the old unbacked amount.
\<close>

theorem backing_is_capped:
  assumes "calcExpectedReserveDataAfterBackUnbacked cfg supply amount fee pf r t = Inr e"
    "r_unbacked r = Some ub" "0 \<le> ub" "0 \<le> amount"
  shows "\<exists>ub'. r_unbacked e = Some ub' \<and> 0 \<le> ub' \<and> ub' \<le> ub \<and>
    (ub \<le> amount \<longrightarrow> ub' = 0) \<and> (amount \<le> ub \<longrightarrow> ub' = ub - amount)"
  using assms by (auto elim!: backUnbacked_inv)

theorem backing_is_capped_witness:
  "\<exists>e. calcExpectedReserveDataAfterBackUnbacked demo_config 600000 4000 50 2000 demo_reserve 5000 = Inr e \<and>
     r_unbacked e = Some 1000"
proof -
  obtain e where e: "calcExpectedReserveDataAfterBackUnbacked demo_config 600000 4000 50 2000
      demo_reserve 5000 = Inr e"
    using demo_back by auto
  have "r_unbacked demo_reserve = Some 5000" by (simp add: demo_reserve_def)
  from backing_is_capped[OF e this] e show ?thesis by auto
qed

text \<open>
  A stable repayment leaves a stable side that is never negative: principal and total stable
  debt are equal, they are the accrued stable debt minus the repayment or zero, and the average
  stable rate is not negative; the scaled variable debt is untouched.
\<close>

theorem stable_repayment_never_negative:
  assumes "calcExpectedReserveDataAfterRepay cfg amount RateMode_Stable r u t = Inr e"
    "\<bar>amount\<bar> \<noteq> MAX_UINT_AMOUNT"
  shows "\<exists>debt d a. reserveStableDebt r t = Inr debt \<and> r_principalStableDebt e = Some d \<and>
    r_totalStableDebt e = Some d \<and> r_averageStableBorrowRate e = Some a \<and> 0 \<le> d \<and> 0 \<le> a \<and>
    (d = debt - amount \<or> d = 0) \<and> r_scaledVariableDebt e = r_scaledVariableDebt r"
  using assms
  by (auto elim!: repay_inv repayStable_inv simp: repaidAmount_def updateLiquidity_inv updateState_kept)

theorem stable_repayment_never_negative_witness:
  "\<exists>e d a. calcExpectedReserveDataAfterRepay demo_config 400 RateMode_Stable demo_reserve demo_user 5000
     = Inr e \<and> r_totalStableDebt e = Some d \<and> r_averageStableBorrowRate e = Some a \<and> 0 \<le> d \<and> 0 \<le> a"
proof -
  obtain e where e: "calcExpectedReserveDataAfterRepay demo_config 400 RateMode_Stable demo_reserve
      demo_user 5000 = Inr e"
    using demo_repay by auto
  from stable_repayment_never_negative[OF e] e show ?thesis by (auto simp: demo_values)
qed

text \<open>
  Swapping a user's stable debt to variable moves exactly that debt out of the stable side,
  principal included, and into the variable side up to one unit of rounding and half an index step.
\<close>

theorem swap_to_variable_moves_debt:
  assumes "calcExpectedReserveDataAfterSwapRateMode cfg r u RateMode_Stable t = Inr e"
    "sane_reserve r t" "sane_user u t"
  shows "\<exists>sd ts vi s0 tv'. userStableDebt u t = Inr sd \<and> reserveStableDebt r t = Inr ts \<and>
    r_variableBorrowIndex e = Some vi \<and> r_scaledVariableDebt r = Some s0 \<and>
    r_principalStableDebt e = Some (ts - sd) \<and> r_totalStableDebt e = Some (ts - sd) \<and>
    r_totalVariableDebt e = Some tv' \<and>
    2 * RAY * \<bar>tv' - (rayMul s0 vi + sd)\<bar> \<le> 2 * RAY + vi"
proof -
  obtain e1 e2 e3 sd where s: "updateState r (startReserve r) t = Inr e1"
    "updateLiquidityAndUsageRatios r e1 0 0 = Inr e2" "userStableDebt u t = Inr sd"
    "swapToVariable r u sd e2 = Inr e3" "accrual_kept e1 e"
    "r_principalStableDebt e = r_principalStableDebt e3"
    "r_totalStableDebt e = r_totalStableDebt e3"
    "r_totalVariableDebt e = r_totalVariableDebt e3"
    using assms(1) by (rule swap_inv) simp
  obtain ts s0 vi x a where w: "r_totalStableDebt e2 = Some ts" "r_scaledVariableDebt r = Some s0"
    "r_variableBorrowIndex e2 = Some vi" "rayDiv sd vi = Inr x"
    "e3 = e2\<lparr>r_scaledVariableDebt := Some (s0 + x), r_totalVariableDebt := Some (rayMul (s0 + x) vi),
       r_principalStableDebt := Some (ts - sd), r_totalStableDebt := Some (ts - sd),
       r_averageStableBorrowRate := Some a\<rparr>"
    using s(4) by (rule swapToVariable_inv)
  have a1: "accrued r t e1"
    using updateState_accrued[OF assms(2), of "startReserve r"] s(1) by auto
  then have v: "r_variableBorrowIndex e1 = Some vi" "0 < vi" "reserveStableDebt r t = Inr ts"
    using w(1,3) s(2) by (auto simp: accrued_def updateLiquidity_inv const_simps)
  have sd: "0 \<le> sd"
    using userStableDebt_ok[OF assms(3)] s(3) assms(3) by (force simp: sane_user_def)
  have s0: "0 \<le> s0" using assms(2) w(2) by (simp add: sane_reserve_def)
  have x: "0 \<le> s0 + x" using ray.dv_bounds(1)[OF sd v(2) w(4)] s0 by simp
  from ray.scaled_move[OF s0 x sd v(2) w(4) refl] show ?thesis
    using s v w by (auto simp: accrual_kept_def)
qed

lemma demo_swap:
  "\<exists>e. calcExpectedReserveDataAfterSwapRateMode demo_config demo_reserve demo_user RateMode_Stable 5000 = Inr e"
  by (simp add: eval_defs cong: step_congs)

theorem swap_to_variable_moves_debt_witness:
  "\<exists>e tv'. calcExpectedReserveDataAfterSwapRateMode demo_config demo_reserve demo_user RateMode_Stable 5000
     = Inr e \<and> r_totalStableDebt e = Some 99001 \<and> r_totalVariableDebt e = Some tv'"
proof -
  obtain e where e: "calcExpectedReserveDataAfterSwapRateMode demo_config demo_reserve demo_user
      RateMode_Stable 5000 = Inr e" using demo_swap by blast
  have "reserveStableDebt demo_reserve 5000 = Inr 100001" by (simp add: eval_defs cong: step_congs)
  with swap_to_variable_moves_debt[OF e demo_sane demo_sane_user] e demo_debts show ?thesis by auto
qed

end
