(* ===== verification/UserProps.thy ===== *)
theory UserProps
  imports ReserveProps
begin

text \<open>
  Properties of the user calculations, and of user and reserve calculations together: what leaves
  the wallet enters the reserve.
\<close>

section \<open>What each calculation writes\<close>

lemma userDeposit_inv:
  assumes "calcExpectedUserDataAfterDeposit amt r e u t = Inr v"
  obtains sd vd li s0 x y bal cur w where "userStableDebt u t = Inr sd"
    "calcExpectedVariableDebtTokenBalance r u t = Inr vd" "r_liquidityIndex e = Some li"
    "u_scaledRSTokenBalance u = Some s0" "rayDiv amt li = Inr x" "rayDiv 0 li = Inr y"
    "calcExpectedRSTokenBalance r u t = Inr bal" "u_currentRSTokenBalance u = Some cur"
    "u_walletBalance u = Some w"
    "u_scaledRSTokenBalance v = Some (s0 + x - y)" "u_currentRSTokenBalance v = Some (bal + amt)"
    "u_walletBalance v = Some (w - amt)" "u_currentStableDebt v = Some sd"
    "u_currentVariableDebt v = Some vd" "u_principalStableDebt v = Some vd"
    "u_scaledVariableDebt v = u_scaledVariableDebt u"
    "u_usageAsCollateralEnabled v = (if cur = 0 then Some True else u_usageAsCollateralEnabled u)"
  using assms unfolding calcExpectedUserDataAfterDeposit_def calcExpectedScaledRSTokenBalance_def
  by (auto simp: result_inv Let_def)

lemma userWithdraw_inv:
  assumes "calcExpectedUserDataAfterWithdraw amt r e u t = Inr v"
  obtains bal a cur w where "calcExpectedRSTokenBalance r u t = Inr bal"
    "a = (if amt = MAX_UINT_AMOUNT then bal else amt)" "u_currentRSTokenBalance u = Some cur"
    "u_walletBalance u = Some w" "u_currentRSTokenBalance v = Some (bal - a)"
    "u_walletBalance v = Some (w + a)"
    "u_scaledVariableDebt v = u_scaledVariableDebt u"
    "u_principalStableDebt v = u_principalStableDebt u"
    "u_usageAsCollateralEnabled v = (if cur = 0 then Some True else if bal - a = 0 then Some False
       else u_usageAsCollateralEnabled u)"
  using assms unfolding calcExpectedUserDataAfterWithdraw_def
  by (auto simp: result_inv Let_def)

lemma userBorrow_inv:
  assumes "calcExpectedUserDataAfterBorrow amt mode r e u t now = Inr v"
  obtains w where "u_walletBalance u = Some w" "u_walletBalance v = Some (w + amt)"
    "u_scaledRSTokenBalance v = u_scaledRSTokenBalance u"
    "if mode = RateMode_Stable
     then (\<exists>d. userStableDebt u t = Inr d \<and> u_principalStableDebt v = Some (d + amt)) \<and>
       u_scaledVariableDebt v = u_scaledVariableDebt u
     else (\<exists>s vi x. r_scaledVariableDebt r = Some s \<and> r_variableBorrowIndex e = Some vi \<and>
       rayDiv amt vi = Inr x \<and> u_scaledVariableDebt v = Some (s + x)) \<and>
       u_principalStableDebt v = u_principalStableDebt u"
  using assms unfolding calcExpectedUserDataAfterBorrow_def
  by (auto simp: result_inv Let_def split: if_splits)

lemma userRepay_inv:
  assumes "calcExpectedUserDataAfterRepay amt mode r e u me other t now = Inr v"
  obtains a w where "repaidAmount amt mode r u now a"
    "u_walletBalance v = (if me = other then Some (w - a) else u_walletBalance u)"
    "me = other \<Longrightarrow> u_walletBalance u = Some w"
    "u_scaledRSTokenBalance v = u_scaledRSTokenBalance u"
    "if mode = RateMode_Stable
     then \<exists>d. userStableDebt u now = Inr d \<and> u_principalStableDebt v = Some (d - a) \<and>
       u_currentStableDebt v = Some (d - a) \<and> u_scaledVariableDebt v = u_scaledVariableDebt u \<and>
       u_stableBorrowRate v = (if d - a = 0 then Some 0 else u_stableBorrowRate u) \<and>
       u_stableRateLastUpdated v = Some (if d - a = 0 then 0 else t)
     else \<exists>d s vi x. userStableDebt u now = Inr d \<and> u_scaledVariableDebt u = Some s \<and>
       r_variableBorrowIndex e = Some vi \<and> rayDiv a vi = Inr x \<and>
       u_scaledVariableDebt v = Some (s - x) \<and> u_currentVariableDebt v = Some (rayMul (s - x) vi) \<and>
       u_principalStableDebt v = Some d \<and> u_currentStableDebt v = u_principalStableDebt u"
proof -
  obtain vd sd where d: "calcExpectedVariableDebtTokenBalance r u now = Inr vd"
      "userStableDebt u now = Inr sd"
    using assms by (auto simp: calcExpectedUserDataAfterRepay_def rbind_eq_Inr)
  define a where "a = (if \<bar>amt\<bar> = MAX_UINT_AMOUNT then (if mode = RateMode_Stable then sd else vd) else amt)"
  have ra: "repaidAmount amt mode r u now a" by (simp add: repaidAmount_def a_def d)
  note e = assms[unfolded calcExpectedUserDataAfterRepay_def d rbind_Inr Let_def a_def [symmetric]]
  show thesis
  proof (cases "mode = RateMode_Stable")
    case True
    with e ra d show ?thesis
      by (cases "me = other"; cases "sd - a = 0") (auto simp: result_inv intro!: that)
  next
    case False
    with e ra d show ?thesis
      by (cases "me = other") (auto simp: result_inv intro!: that)
  qed
qed

section \<open>Wallet and reserve\<close>

text \<open>
  The user's side of an action of the dispatcher, acting for himself. \<open>t\<close> is the time of the
  transaction, \<open>now\<close> the time the user's data are read (a borrow carries its own).
\<close>

fun userAfter ::
    "reserve_op \<Rightarrow> reserve_data \<Rightarrow> reserve_data \<Rightarrow> user_reserve_data \<Rightarrow> int \<Rightarrow> int \<Rightarrow>
       user_reserve_data result" where
  "userAfter (Deposit amount) r e u t now = calcExpectedUserDataAfterDeposit amount r e u t"
| "userAfter (Withdraw amount _) r e u t now = calcExpectedUserDataAfterWithdraw amount r e u t"
| "userAfter (Borrow amount mode at) r e u t now =
     calcExpectedUserDataAfterBorrow amount mode r e u t at"
| "userAfter (Repay amount mode _) r e u t now =
     calcExpectedUserDataAfterRepay amount mode r e u ''user'' ''user'' t now"
| "userAfter (SwapRateMode _ mode) r e u t now = calcExpectedUserDataAfterSwapRateMode r e u mode t"
| "userAfter (RebalanceStableRate _) r e u t now =
     calcExpectedUserDataAfterStableRateRebalance r e u t"
| "userAfter _ r e u t now = Inr u"

text \<open>
  The reserve calculation takes a whole debt at the time of the transaction, the user calculation at
  the time of reading; the two agree on the amount when these are the same.
\<close>

fun whole_debt_read_at :: "reserve_op \<Rightarrow> int \<Rightarrow> int \<Rightarrow> bool" where
  "whole_debt_read_at (Repay amount _ _) t now \<longleftrightarrow> (\<bar>amount\<bar> = MAX_UINT_AMOUNT \<longrightarrow> now = t)"
| "whole_debt_read_at _ t now \<longleftrightarrow> True"

fun actor :: "reserve_op \<Rightarrow> user_reserve_data \<Rightarrow> bool" where
  "actor (Withdraw _ u') u \<longleftrightarrow> u' = u"
| "actor (Repay _ _ u') u \<longleftrightarrow> u' = u"
| "actor (SwapRateMode u' _) u \<longleftrightarrow> u' = u"
| "actor (RebalanceStableRate u') u \<longleftrightarrow> u' = u"
| "actor (Deposit _) u \<longleftrightarrow> True"
| "actor (Borrow _ _ _) u \<longleftrightarrow> True"
| "actor (MintUnbacked _) u \<longleftrightarrow> False"
| "actor (BackUnbacked _ _ _ _) u \<longleftrightarrow> False"

lemma repaidAmount_unique:
  "repaidAmount amt mode r u t a \<Longrightarrow> repaidAmount amt mode r u now b \<Longrightarrow>
     (\<bar>amt\<bar> = MAX_UINT_AMOUNT \<Longrightarrow> now = t) \<Longrightarrow> a = b"
  by (auto simp: repaidAmount_def split: if_splits)

lemma moves_wallet:
  assumes "userAfter op r e u t now = Inr v" "actor op u" "moves op r t cash backing"
    "whole_debt_read_at op t now"
  shows "\<exists>w. u_walletBalance u = w \<and> u_walletBalance v = map_option (\<lambda>w. w - cash) w"
  using assms
proof (cases op)
  case (Repay a m u')
  then show ?thesis
    using assms by (auto elim!: userRepay_inv dest: repaidAmount_unique)
next
  case (Withdraw a u')
  then show ?thesis
    using assms by (auto elim!: userWithdraw_inv split: if_splits)
next
  case (SwapRateMode u' m)
  then show ?thesis using assms
    by (auto simp: calcExpectedUserDataAfterSwapRateMode_def result_inv Let_def option.map_ident
        split: if_splits)
next
  case (RebalanceStableRate u')
  then show ?thesis using assms
    by (auto simp: calcExpectedUserDataAfterStableRateRebalance_def result_inv Let_def option.map_ident)
qed (auto elim!: userDeposit_inv userBorrow_inv)

text \<open>
  C2: Conservation of cash: when the reserve and the user calculations of an action of the user for
  himself both return, what the user's wallet loses is exactly what the available liquidity of the
  reserve gains, for whole-balance withdrawals and whole-debt repayments too. The user's data may be
  read at any time after the transaction, but for a whole-debt repayment, where the two
  calculations take the debt at their own timestamps: it is conserved when these are equal.
\<close>

theorem cash_is_conserved:
  assumes "expectedAfter cfg op r t = Inr e" "userAfter op r e u t now = Inr v" "actor op u"
    "u_walletBalance u = Some w" "whole_debt_read_at op t now"
  shows "\<exists>av av' w'. r_availableLiquidity r = Some av \<and> r_availableLiquidity e = Some av' \<and>
    u_walletBalance v = Some w' \<and> av + w = av' + w'"
proof -
  obtain av cash backing where m: "r_availableLiquidity r = Some av" "moves op r t cash backing"
      "r_availableLiquidity e = Some (av + cash)"
    using moves_reserve[OF assms(1)] by blast
  then show ?thesis using moves_wallet[OF assms(2,3) m(2) assms(5)] assms(4) by auto
qed

lemma demo_deposit_index:
  "expectedAfter demo_config (Deposit 40000) demo_reserve 5000 = Inr e \<Longrightarrow>
     r_liquidityIndex e = Some 1000001268391679350583460172"
  by (auto elim!: deposit_inv simp: demo_update index_kept_def)

lemma demo_repay_index:
  "expectedAfter demo_config (Repay amount RateMode_Variable demo_user) demo_reserve 5000 = Inr e \<Longrightarrow>
     r_variableBorrowIndex e = Some 1000003805182275920358748517"
  by (auto elim!: repay_inv simp: demo_update accrual_kept_def)

lemma demo_userDeposit:
  assumes "r_liquidityIndex e = Some 1000001268391679350583460172"
  shows "\<exists>v. userAfter (Deposit 40000) demo_reserve e demo_user 5000 6000 = Inr v"
  using assms by (simp add: eval_defs cong: step_congs)

lemma demo_userRepay:
  assumes "r_variableBorrowIndex e = Some 1000003805182275920358748517"
  shows "\<exists>v. userAfter (Repay 400 RateMode_Variable demo_user) demo_reserve e demo_user 5000 6000 = Inr v"
    "\<exists>v. userAfter (Repay MAX_UINT_AMOUNT RateMode_Variable demo_user) demo_reserve e demo_user 5000 5000
       = Inr v"
proof -
  show "\<exists>v. userAfter (Repay 400 RateMode_Variable demo_user) demo_reserve e demo_user 5000 6000 = Inr v"
    using assms by (simp add: eval_defs MAX_UINT_AMOUNT_eq cong: step_congs)
  show "\<exists>v. userAfter (Repay MAX_UINT_AMOUNT RateMode_Variable demo_user) demo_reserve e demo_user 5000 5000
       = Inr v"
    using assms by (simp add: eval_defs MAX_UINT_AMOUNT_eq cong: step_congs)
qed

lemma demo_wholeRepay:
  "\<exists>e. expectedAfter demo_config (Repay MAX_UINT_AMOUNT RateMode_Variable demo_user) demo_reserve 5000 = Inr e"
  using feasible_ok[OF demo_quoted demo_sane demo_feasible(2)] by (simp add: ok_iff)

theorem cash_is_conserved_witness:
  "(\<exists>e v av' w'. expectedAfter demo_config (Deposit 40000) demo_reserve 5000 = Inr e \<and>
     userAfter (Deposit 40000) demo_reserve e demo_user 5000 6000 = Inr v \<and>
     r_availableLiquidity e = Some av' \<and> u_walletBalance v = Some w' \<and> av' + w' = 1100000) \<and>
   (\<exists>e v av' w'. expectedAfter demo_config (Repay MAX_UINT_AMOUNT RateMode_Variable demo_user) demo_reserve 5000 = Inr e \<and>
     userAfter (Repay MAX_UINT_AMOUNT RateMode_Variable demo_user) demo_reserve e demo_user 5000 5000 = Inr v \<and>
     r_availableLiquidity e = Some av' \<and> u_walletBalance v = Some w' \<and> av' + w' = 1100000)"
proof (intro conjI)
  have d: "u_walletBalance demo_user = Some 500000" "r_availableLiquidity demo_reserve = Some 600000"
    by (simp_all add: demo_user_def demo_reserve_def)
  obtain e where e: "expectedAfter demo_config (Deposit 40000) demo_reserve 5000 = Inr e"
    using demo_deposit by blast
  obtain v where v: "userAfter (Deposit 40000) demo_reserve e demo_user 5000 6000 = Inr v"
    using demo_userDeposit[OF demo_deposit_index[OF e]] by blast
  from cash_is_conserved[OF e v _ d(1)] e v d
  show "\<exists>e v av' w'. expectedAfter demo_config (Deposit 40000) demo_reserve 5000 = Inr e \<and>
     userAfter (Deposit 40000) demo_reserve e demo_user 5000 6000 = Inr v \<and>
     r_availableLiquidity e = Some av' \<and> u_walletBalance v = Some w' \<and> av' + w' = 1100000" by auto
  let ?op = "Repay MAX_UINT_AMOUNT RateMode_Variable demo_user"
  obtain e' where e': "expectedAfter demo_config ?op demo_reserve 5000 = Inr e'"
    using demo_wholeRepay by blast
  obtain v' where v': "userAfter ?op demo_reserve e' demo_user 5000 5000 = Inr v'"
    using demo_userRepay(2)[OF demo_repay_index[OF e']] by blast
  have w: "actor ?op demo_user" "whole_debt_read_at ?op 5000 5000" by simp_all
  obtain av' w' where r: "r_availableLiquidity e' = Some av'" "u_walletBalance v' = Some w'"
      "600000 + 500000 = av' + w'"
    using cash_is_conserved[OF e' v' w(1) d(1) w(2)] d(2) by auto
  show "\<exists>e v av' w'. expectedAfter demo_config ?op demo_reserve 5000 = Inr e \<and>
     userAfter ?op demo_reserve e demo_user 5000 5000 = Inr v \<and>
     r_availableLiquidity e = Some av' \<and> u_walletBalance v = Some w' \<and> av' + w' = 1100000"
    using e' v' r by (intro exI[of _ e'] exI[of _ v'] exI[of _ av'] exI[of _ w']) simp
qed

section \<open>Scaled debts move in step\<close>

text \<open>A user's whole variable balance scales back to his scaled debt.\<close>

lemma whole_debt_scales_back:
  assumes "sane_reserve r t" "sane_user u t" "r_totalVariableDebt r = Some 0 \<Longrightarrow> u_scaledVariableDebt u = Some 0"
    "updateState r e0 t = Inr e1" "r_variableBorrowIndex e1 = Some vi"
    "calcExpectedVariableDebtTokenBalance r u t = Inr vd" "u_scaledVariableDebt u = Some z"
  shows "rayDiv vd vi = Inr z"
proof -
  obtain rate vi0 t0 where f: "r_variableBorrowRate r = Some rate" "r_variableBorrowIndex r = Some vi0"
      "r_lastUpdateTimestamp r = Some t0"
    using complete_reserveD[OF sane_complete[OF assms(1)]] by blast
  have vi0: "RAY \<le> vi0" "0 \<le> vi0" using assms(1) f(2) by (auto simp: sane_reserve_def const_simps)
  have z: "0 \<le> z" using assms(2,7) by (simp add: sane_user_def)
  have ix: "calcExpectedVariableBorrowIndex r t = Inr vi"
    using updateState_inv[OF assms(4)] assms(5) by auto
  have vi: "vi0 \<le> vi" using variableBorrowIndex_ok[OF assms(1) f(2)] ix by auto
  have vd: "vd = rayMul z (calcExpectedReserveNormalizedDebt rate vi0 t0 t)"
    using assms(6,7) f by (simp add: calcExpectedVariableDebtTokenBalance_def Let_def)
  show ?thesis
  proof (cases "r_totalVariableDebt r = Some 0")
    case True
    moreover have "0 < vi" using vi vi0(1) RAY_pos by linarith
    ultimately show ?thesis using vd assms(3,7) by (simp add: ray.dv_0)
  next
    case False
    have "vd = rayMul z vi"
      using vd index_is_normalizedDebt[OF ix False f(1,2) vi0(2) f(3)] by simp
    then show ?thesis using ray.dv_mul_roundtrip[OF z, of vi] vi0(1) vi by simp
  qed
qed

lemma userSwap_inv:
  assumes "calcExpectedUserDataAfterSwapRateMode r e u mode t = Inr v"
  obtains sd vd where "userStableDebt u t = Inr sd" "calcExpectedVariableDebtTokenBalance r u t = Inr vd"
    "u_walletBalance v = u_walletBalance u"
    "u_scaledRSTokenBalance v = u_scaledRSTokenBalance u"
    "if mode = RateMode_Stable
     then \<exists>s vi x. u_scaledVariableDebt u = Some s \<and> r_variableBorrowIndex e = Some vi \<and>
       rayDiv sd vi = Inr x \<and> u_scaledVariableDebt v = Some (s + x) \<and>
       u_currentVariableDebt v = Some (rayMul (s + x) vi) \<and> u_principalStableDebt v = Some 0 \<and>
       u_currentStableDebt v = Some 0 \<and> u_stableBorrowRate v = Some 0 \<and>
       u_stableRateLastUpdated v = Some 0
     else \<exists>c ur rr q. u_currentStableDebt u = Some c \<and> u_principalStableDebt v = Some (c + vd) \<and>
       u_currentStableDebt v = Some (c + vd) \<and> u_stableBorrowRate u = Some ur \<and>
       r_stableBorrowRate r = Some rr \<and> calcExpectedUserStableRate sd ur vd rr = Inr q \<and>
       u_stableBorrowRate v = Some q \<and> u_scaledVariableDebt v = Some 0 \<and>
       u_currentVariableDebt v = Some 0 \<and> u_stableRateLastUpdated v = Some t"
  using assms unfolding calcExpectedUserDataAfterSwapRateMode_def
  by (cases "mode = RateMode_Stable") (auto simp: result_inv Let_def)

definition in_step :: "int option \<Rightarrow> int option \<Rightarrow> int option \<Rightarrow> int option \<Rightarrow> bool" where
  "in_step s s' z z' \<longleftrightarrow> (\<exists>a b c d. s = Some a \<and> s' = Some b \<and> z = Some c \<and> z' = Some d \<and> b - a = d - c)"

lemma in_step_refl: "s \<noteq> None \<Longrightarrow> z \<noteq> None \<Longrightarrow> in_step s s z z"
  by (auto simp: in_step_def)

lemma swap_in_step:
  assumes "calcExpectedReserveDataAfterSwapRateMode cfg r u mode t = Inr e"
    "calcExpectedUserDataAfterSwapRateMode r e u mode t = Inr v" "sane_reserve r t" "sane_user u t"
    "r_totalVariableDebt r = Some 0 \<Longrightarrow> u_scaledVariableDebt u = Some 0"
  shows "in_step (r_scaledVariableDebt r) (r_scaledVariableDebt e)
    (u_scaledVariableDebt u) (u_scaledVariableDebt v) \<and>
    (mode \<noteq> RateMode_Stable \<longrightarrow> u_scaledVariableDebt v = Some 0)"
proof -
  obtain e1 e2 e3 vd sd where s: "updateState r (startReserve r) t = Inr e1"
    "updateLiquidityAndUsageRatios r e1 0 0 = Inr e2"
    "calcExpectedVariableDebtTokenBalance r u t = Inr vd" "userStableDebt u t = Inr sd"
    "if mode = RateMode_Stable then swapToVariable r u sd e2 = Inr e3 else swapToStable r vd e2 = Inr e3"
    "accrual_kept e1 e" "r_scaledVariableDebt e = r_scaledVariableDebt e3"
    using assms(1) by (rule swap_inv)
  have v: "r_variableBorrowIndex e2 = r_variableBorrowIndex e1"
      "r_variableBorrowIndex e = r_variableBorrowIndex e1"
    using s(2,6) by (auto simp: updateLiquidity_inv accrual_kept_def)
  obtain z where z: "u_scaledVariableDebt u = Some z"
    using assms(4) by (auto simp: sane_user_def complete_user_def)
  show ?thesis
  proof (cases "mode = RateMode_Stable")
    case True
    then show ?thesis using s v assms(2)
      by (auto elim!: swapToVariable_inv userSwap_inv simp: in_step_def)
  next
    case False
    then have "swapToStable r vd e2 = Inr e3" using s(5) by simp
    then obtain s0 vi x where w: "r_scaledVariableDebt r = Some s0" "r_variableBorrowIndex e2 = Some vi"
        "rayDiv vd vi = Inr x" "r_scaledVariableDebt e3 = Some (s0 - x)"
      by (rule swapToStable_inv) auto
    have "x = z"
      using whole_debt_scales_back[OF assms(3-5) s(1) _ s(3) z, of vi] v w(2,3) by simp
    then show ?thesis using False assms(2) s(7) w z
      by (auto elim!: userSwap_inv simp: in_step_def)
  qed
qed

lemma repay_in_step:
  assumes "calcExpectedReserveDataAfterRepay cfg amt mode r u t = Inr e"
    "calcExpectedUserDataAfterRepay amt mode r e u me other t now = Inr v" "sane_reserve r t" "sane_user u t"
    "\<bar>amt\<bar> = MAX_UINT_AMOUNT \<longrightarrow> now = t"
  shows "in_step (r_scaledVariableDebt r) (r_scaledVariableDebt e)
    (u_scaledVariableDebt u) (u_scaledVariableDebt v)"
proof -
  have some: "r_scaledVariableDebt r \<noteq> None" "u_scaledVariableDebt u \<noteq> None"
    using assms(3,4) by (auto simp: sane_reserve_def complete_reserve_def sane_user_def complete_user_def)
  obtain e1 e2 e3 w where s: "updateState r (startReserve r) t = Inr e1"
    "repaidAmount amt mode r u t w" "updateLiquidityAndUsageRatios r e1 w 0 = Inr e2"
    "if mode = RateMode_Stable then repayStable r u w e2 t = Inr e3 else repayVariable r w e2 = Inr e3"
    "accrual_kept e1 e" "r_scaledVariableDebt e = r_scaledVariableDebt e3"
    using assms(1) by (rule repay_inv)
  have v: "r_variableBorrowIndex e2 = r_variableBorrowIndex e1"
      "r_variableBorrowIndex e = r_variableBorrowIndex e1"
      "r_scaledVariableDebt e2 = r_scaledVariableDebt r"
    using s(3,5) updateState_kept(1)[OF s(1)] by (auto simp: updateLiquidity_inv accrual_kept_def)
  show ?thesis
  proof (cases "mode = RateMode_Stable")
    case True
    have "r_scaledVariableDebt e = r_scaledVariableDebt r"
      using True s(4,6) v(3) by (auto elim!: repayStable_inv)
    moreover have "u_scaledVariableDebt v = u_scaledVariableDebt u"
      using True assms(2) by (auto elim!: userRepay_inv)
    ultimately show ?thesis using some by (simp add: in_step_refl)
  next
    case False
    obtain a z vi x where y: "repaidAmount amt mode r u now a" "u_scaledVariableDebt u = Some z"
        "r_variableBorrowIndex e = Some vi" "rayDiv a vi = Inr x" "u_scaledVariableDebt v = Some (z - x)"
      using assms(2) False by (elim userRepay_inv) auto
    have "w = a" by (rule repaidAmount_unique[OF s(2) y(1)]) (use assms(5) in blast)
    have "r_variableBorrowIndex e2 = Some vi" using v(1,2) y(3) by simp
    then show ?thesis using False s(4,6) y \<open>w = a\<close>
      by (auto elim!: repayVariable_inv simp: in_step_def)
  qed
qed

text \<open>
  C4: For repayments of one's own debt and for rate swaps in either direction, on a sane reserve
  and user, the scaled variable debt of the reserve and that of the user change by the same number
  of scaled units, so that a sum of users stays the reserve's total; a whole variable balance
  swapped to stable takes exactly the user's scaled debt away and leaves him none. A whole-debt
  repayment is read at its transaction, and in a reserve without variable debt the user has none
  (without it the reserve's index would not accrue, while the user's balance would).
\<close>

theorem scaled_debts_move_in_step:
  assumes "expectedAfter cfg op r t = Inr e" "userAfter op r e u t now = Inr v"
    "op = Repay amount mode u \<or> op = SwapRateMode u mode" "whole_debt_read_at op t now"
    "sane_reserve r t" "sane_user u t"
    "r_totalVariableDebt r = Some 0 \<longrightarrow> u_scaledVariableDebt u = Some 0"
  shows "\<exists>s s' z z'. r_scaledVariableDebt r = Some s \<and> r_scaledVariableDebt e = Some s' \<and>
    u_scaledVariableDebt u = Some z \<and> u_scaledVariableDebt v = Some z' \<and> s' - s = z' - z \<and>
    (op = SwapRateMode u mode \<and> mode \<noteq> RateMode_Stable \<longrightarrow> z' = 0)"
proof -
  have "in_step (r_scaledVariableDebt r) (r_scaledVariableDebt e)
      (u_scaledVariableDebt u) (u_scaledVariableDebt v) \<and>
    (op = SwapRateMode u mode \<and> mode \<noteq> RateMode_Stable \<longrightarrow> u_scaledVariableDebt v = Some 0)"
    using assms(3)
  proof
    assume op: "op = Repay amount mode u"
    with repay_in_step[OF _ _ assms(5,6)] assms(1,2,4) show ?thesis by auto
  next
    assume op: "op = SwapRateMode u mode"
    with swap_in_step[OF _ _ assms(5,6)] assms(1,2,7) show ?thesis by auto
  qed
  then show ?thesis by (auto simp: in_step_def)
qed

lemma demo_swapToStable:
  "\<exists>e. expectedAfter demo_config (SwapRateMode demo_user RateMode_Variable) demo_reserve 5000 = Inr e"
  "\<exists>v. userAfter (SwapRateMode demo_user RateMode_Variable) demo_reserve e demo_user 5000 6000 = Inr v"
proof -
  show "\<exists>e. expectedAfter demo_config (SwapRateMode demo_user RateMode_Variable) demo_reserve 5000 = Inr e"
    by (simp add: eval_defs cong: step_congs)
  show "\<exists>v. userAfter (SwapRateMode demo_user RateMode_Variable) demo_reserve e demo_user 5000 6000 = Inr v"
    by (simp add: eval_defs cong: step_congs)
qed

theorem scaled_debts_move_in_step_witness:
  "(\<exists>e v s' z'. expectedAfter demo_config (Repay 400 RateMode_Variable demo_user) demo_reserve 5000 = Inr e \<and>
     userAfter (Repay 400 RateMode_Variable demo_user) demo_reserve e demo_user 5000 6000 = Inr v \<and>
     r_scaledVariableDebt e = Some s' \<and> u_scaledVariableDebt v = Some z' \<and> s' - 300000 = z' - 3000) \<and>
   (\<exists>e. expectedAfter demo_config (SwapRateMode demo_user RateMode_Variable) demo_reserve 5000 = Inr e \<and>
     r_scaledVariableDebt e = Some 297000)"
proof -
  obtain e where e: "expectedAfter demo_config (Repay 400 RateMode_Variable demo_user) demo_reserve 5000 = Inr e"
    using demo_repayVariable by blast
  obtain v where v: "userAfter (Repay 400 RateMode_Variable demo_user) demo_reserve e demo_user 5000 6000 = Inr v"
    using demo_userRepay(1)[OF demo_repay_index[OF e]] by blast
  obtain e' where e': "expectedAfter demo_config (SwapRateMode demo_user RateMode_Variable) demo_reserve 5000 = Inr e'"
    using demo_swapToStable(1) by blast
  obtain v' where v': "userAfter (SwapRateMode demo_user RateMode_Variable) demo_reserve e' demo_user 5000 6000 = Inr v'"
    using demo_swapToStable(2) by blast
  have n: "RateMode_Variable \<noteq> RateMode_Stable" "\<bar>400 :: int\<bar> \<noteq> MAX_UINT_AMOUNT"
    by (simp_all add: RateMode_Variable_def RateMode_Stable_def MAX_UINT_AMOUNT_eq)
  from scaled_debts_move_in_step[OF e v _ _ demo_sane demo_sane_user] e v n
    scaled_debts_move_in_step[OF e' v' _ _ demo_sane demo_sane_user] e' v'
  show ?thesis by (simp add: demo_fields)
qed

section \<open>Leaving a position\<close>

text \<open>
  Withdrawing everything: the expected RSToken balance is zero, the wallet holds the whole
  accrued balance, and the position no longer counts as collateral if there was one before.
\<close>

theorem full_withdrawal_empties_position:
  assumes "calcExpectedUserDataAfterWithdraw MAX_UINT_AMOUNT r e u t = Inr v"
    "u_walletBalance u = Some w" "u_currentRSTokenBalance u = Some cur" "cur \<noteq> 0"
  shows "\<exists>bal. calcExpectedRSTokenBalance r u t = Inr bal \<and> u_currentRSTokenBalance v = Some 0 \<and>
    u_walletBalance v = Some (w + bal) \<and> u_usageAsCollateralEnabled v = Some False"
  using assms by (auto elim!: userWithdraw_inv)

theorem full_withdrawal_empties_position_witness:
  "\<exists>v. calcExpectedUserDataAfterWithdraw MAX_UINT_AMOUNT demo_reserve
      (demo_reserve\<lparr>r_liquidityIndex := Some 1000001268391679350583460172\<rparr>) demo_user 5000 = Inr v \<and>
     u_currentRSTokenBalance v = Some 0 \<and> u_usageAsCollateralEnabled v = Some False"
proof -
  obtain v where v: "calcExpectedUserDataAfterWithdraw MAX_UINT_AMOUNT demo_reserve
      (demo_reserve\<lparr>r_liquidityIndex := Some 1000001268391679350583460172\<rparr>) demo_user 5000 = Inr v"
    by (simp add: eval_defs cong: step_congs)
  from full_withdrawal_empties_position[OF v] v show ?thesis by (auto simp: demo_fields)
qed

text \<open>
  Repaying the whole stable debt (at the time it is read) leaves no stable debt, no stable rate
  and no rate timestamp, and touches neither the scaled variable debt nor the scaled deposit; the
  wallet pays only when the repayment is for oneself.
\<close>

theorem full_stable_repayment_clears_debt:
  assumes "calcExpectedUserDataAfterRepay MAX_UINT_AMOUNT RateMode_Stable r e u me other t now = Inr v"
  shows "u_principalStableDebt v = Some 0 \<and> u_currentStableDebt v = Some 0 \<and>
    u_stableBorrowRate v = Some 0 \<and> u_stableRateLastUpdated v = Some 0 \<and>
    u_scaledVariableDebt v = u_scaledVariableDebt u \<and>
    u_scaledRSTokenBalance v = u_scaledRSTokenBalance u \<and>
    (me \<noteq> other \<longrightarrow> u_walletBalance v = u_walletBalance u)"
proof -
  have "\<bar>MAX_UINT_AMOUNT\<bar> = MAX_UINT_AMOUNT" by (simp add: MAX_UINT_AMOUNT_eq)
  then show ?thesis using assms by (auto elim!: userRepay_inv simp: repaidAmount_def)
qed

theorem full_stable_repayment_clears_debt_witness:
  "\<exists>v. calcExpectedUserDataAfterRepay MAX_UINT_AMOUNT RateMode_Stable demo_reserve demo_reserve demo_user
      ''0xa'' ''0xb'' 5000 5000 = Inr v \<and> u_principalStableDebt v = Some 0 \<and>
     u_stableRateLastUpdated v = Some 0"
proof -
  obtain v where v: "calcExpectedUserDataAfterRepay MAX_UINT_AMOUNT RateMode_Stable demo_reserve
      demo_reserve demo_user ''0xa'' ''0xb'' 5000 5000 = Inr v"
    by (simp add: eval_defs MAX_UINT_AMOUNT_eq cong: step_congs)
  from full_stable_repayment_clears_debt[OF v] v show ?thesis by auto
qed

end
