(* ===== verification/BookkeepingSlips.thy ===== *)
theory BookkeepingSlips
  imports UserProps
begin

text \<open>
  Three places where the expected user data departs from the balances they stand for. A story does
  not notice them as long as both values coincide, for instance for the only borrower of a reserve.
  The theorems state what the code computes.
\<close>

text \<open>
  After a deposit the expected principal of the stable debt is the accrued variable debt, not the
  stable one: the last chained assignment of \<open>calcExpectedUserDataAfterDeposit\<close> writes it a second
  time. A user with a stable debt and no variable debt is expected to have a principal of zero.
\<close>

theorem deposit_overwrites_stable_principal:
  assumes "calcExpectedUserDataAfterDeposit amt r e u t = Inr v"
  shows "u_principalStableDebt v = u_currentVariableDebt v \<and>
    (\<exists>sd. userStableDebt u t = Inr sd \<and> u_currentStableDebt v = Some sd) \<and>
    (u_scaledVariableDebt u = Some 0 \<longrightarrow> u_principalStableDebt v = Some 0)"
  using assms
  by (auto elim!: userDeposit_inv simp: calcExpectedVariableDebtTokenBalance_def result_inv Let_def
      rayMul_def signed_divide_int_def const_simps)

definition demo_stable_only :: user_reserve_data where
  "demo_stable_only = demo_user\<lparr>u_scaledVariableDebt := Some 0, u_currentVariableDebt := Some 0\<rparr>"

theorem deposit_overwrites_stable_principal_witness:
  "\<exists>v sd. calcExpectedUserDataAfterDeposit 40000 demo_reserve
      (demo_reserve\<lparr>r_liquidityIndex := Some 1000001268391679350583460172\<rparr>) demo_stable_only 5000 = Inr v \<and>
     u_principalStableDebt v = Some 0 \<and> u_currentStableDebt v = Some sd"
proof -
  obtain v where v: "calcExpectedUserDataAfterDeposit 40000 demo_reserve
      (demo_reserve\<lparr>r_liquidityIndex := Some 1000001268391679350583460172\<rparr>) demo_stable_only 5000 = Inr v"
    by (simp add: eval_defs demo_stable_only_def cong: step_congs)
  from deposit_overwrites_stable_principal[OF v] v show ?thesis by (auto simp: demo_stable_only_def)
qed

text \<open>
  After a variable borrow the user's expected scaled debt is the expected scaled debt of the whole
  reserve, whatever the user owed before.
\<close>

theorem variable_borrow_expects_reserve_debt:
  assumes "mode \<noteq> RateMode_Stable"
    "calcExpectedReserveDataAfterBorrow cfg amt mode r t now = Inr e"
    "calcExpectedUserDataAfterBorrow amt mode r e u t now = Inr v"
  shows "u_scaledVariableDebt v = r_scaledVariableDebt e"
proof -
  obtain s vi x where v: "r_scaledVariableDebt r = Some s" "r_variableBorrowIndex e = Some vi"
      "rayDiv amt vi = Inr x" "u_scaledVariableDebt v = Some (s + x)"
    using assms(1,3) by (auto elim!: userBorrow_inv)
  obtain e1 where "borrowVariable cfg amt r e1 t now = Inr e" "accrual_kept e1 e"
    using assms(1,2) borrowVariable_inv(1) by (auto elim!: borrow_inv)
  then show ?thesis using v borrowVariable_inv(7)[of cfg amt r e1 t now e]
    by (auto simp: accrual_kept_def)
qed

theorem variable_borrow_expects_reserve_debt_witness:
  "\<exists>e v. calcExpectedReserveDataAfterBorrow demo_config 4000 RateMode_Variable demo_reserve 5000 5000 = Inr e \<and>
     calcExpectedUserDataAfterBorrow 4000 RateMode_Variable demo_reserve e demo_user 5000 5000 = Inr v \<and>
     u_scaledVariableDebt v = r_scaledVariableDebt e"
proof -
  obtain e v where "calcExpectedReserveDataAfterBorrow demo_config 4000 RateMode_Variable demo_reserve 5000 5000 = Inr e"
      "calcExpectedUserDataAfterBorrow 4000 RateMode_Variable demo_reserve e demo_user 5000 5000 = Inr v"
    by (simp add: eval_defs empty_reserve_def cong: step_congs)
  moreover have "RateMode_Variable \<noteq> RateMode_Stable" by (simp add: const_simps)
  ultimately show ?thesis using variable_borrow_expects_reserve_debt by blast
qed

text \<open>
  After a variable repayment the two stable balances are exchanged: the expected current stable
  debt is the principal before, without the interest since, and the expected principal is the debt
  with interest.
\<close>

theorem variable_repay_exchanges_stable_balances:
  assumes "mode \<noteq> RateMode_Stable"
    "calcExpectedUserDataAfterRepay amt mode r e u me other t now = Inr v"
  shows "u_currentStableDebt v = u_principalStableDebt u \<and>
    (\<exists>d. userStableDebt u now = Inr d \<and> u_principalStableDebt v = Some d)"
  using assms by (auto elim!: userRepay_inv)

theorem variable_repay_exchanges_stable_balances_witness:
  "\<exists>v d. calcExpectedUserDataAfterRepay 400 RateMode_Variable demo_reserve
      (demo_reserve\<lparr>r_variableBorrowIndex := Some 1000003805182275920358748517\<rparr>) demo_user
      ''0xa'' ''0xa'' 5000 5000 = Inr v \<and>
     u_currentStableDebt v = u_principalStableDebt demo_user \<and> u_principalStableDebt v = Some d"
proof -
  obtain v where v: "calcExpectedUserDataAfterRepay 400 RateMode_Variable demo_reserve
      (demo_reserve\<lparr>r_variableBorrowIndex := Some 1000003805182275920358748517\<rparr>) demo_user
      ''0xa'' ''0xa'' 5000 5000 = Inr v"
    by (simp add: eval_defs MAX_UINT_AMOUNT_eq cong: step_congs)
  moreover have "RateMode_Variable \<noteq> RateMode_Stable" by (simp add: const_simps)
  ultimately show ?thesis using variable_repay_exchanges_stable_balances[OF _ v] by blast
qed

end
