(* ===== verification/RateProps.thy ===== *)
theory RateProps
  imports Demo
begin

text \<open>
  Properties of the fixed-point arithmetic, the interest factors and the interest-rate calculation.
  The arithmetic ones rest on the interpretations of the locale \<open>fixed_point\<close>.
\<close>

section \<open>Fixed-point arithmetic\<close>

text \<open>
  C12: Ray multiplication and division of amounts that are not negative round half up: the product
  is the exact one divided by a ray, plus one half, rounded down, and the quotient the exact one
  plus one half, rounded down (so a tie goes up, never down). The division fails exactly on a zero
  divisor.
\<close>

theorem ray_arithmetic_rounds_half_up:
  assumes "0 \<le> a" "0 \<le> b"
  shows "2 * (rayMul a b * RAY) \<le> 2 * (a * b) + RAY \<and> 2 * (a * b) + RAY < 2 * (rayMul a b * RAY) + 2 * RAY \<and>
    (rayDiv a b = Inl DivisionByZero \<longleftrightarrow> b = 0) \<and>
    (\<forall>q. rayDiv a b = Inr q \<longrightarrow> 2 * (q * b) \<le> 2 * (a * RAY) + b \<and> 2 * (a * RAY) + b < 2 * (q * b) + 2 * b)"
proof -
  have "0 \<le> a * b" using assms by simp
  then have "2 * (rayMul a b * RAY) \<le> 2 * (a * b) + RAY"
      "2 * (a * b) + RAY < 2 * (rayMul a b * RAY) + 2 * RAY"
    using ray.mul_upper[of a b] ray.mul_lower[of a b] by (simp_all add: ray.unit_half)
  moreover have "2 * (q * b) \<le> 2 * (a * RAY) + b \<and> 2 * (a * RAY) + b < 2 * (q * b) + 2 * b"
    if "rayDiv a b = Inr q" for q
  proof -
    have "b \<noteq> 0" using that ray.dv_error_iff[of a b DivisionByZero] by auto
    then have "0 < b" using assms(2) by simp
    then show ?thesis using ray.dv_bounds(2,3)[OF assms(1) _ that] by linarith
  qed
  ultimately show ?thesis by (simp add: ray.dv_error_iff)
qed

theorem ray_arithmetic_rounds_half_up_witness:
  "2 * (rayMul 5 HALF_RAY * RAY) \<le> 2 * (5 * HALF_RAY) + RAY \<and>
   2 * (5 * HALF_RAY) + RAY < 2 * (rayMul 5 HALF_RAY * RAY) + 2 * RAY \<and>
   rayMul 5 HALF_RAY = 3 \<and> rayDiv 10 3 = Inr (3333333333333333333333333333)"
  using ray_arithmetic_rounds_half_up[of 5 HALF_RAY]
  by (simp add: rayMul_def rayDiv_def bn_div_def const_simps signed_divide_int_def)

text \<open>
  C13: Scaling is lossless and unscaling is nearly so: a scaled balance multiplied by an index of at
  least one ray divides back to exactly itself, and an amount divided by an index multiplies back to
  itself up to half a unit and half an index step; a wad amount survives the trip through rays.
\<close>

theorem scaling_roundtrip:
  assumes "0 \<le> s" "RAY \<le> i"
  shows "rayDiv (rayMul s i) i = Inr s \<and> rayToWad (wadToRay s) = s \<and>
    (\<exists>q. rayDiv s i = Inr q \<and> 2 * RAY * \<bar>rayMul q i - s\<bar> \<le> i + RAY)"
proof -
  have i: "0 < i" using assms(2) RAY_pos by linarith
  then obtain q where q: "rayDiv s i = Inr q" using ray.dv_ok[of i s] by auto
  show ?thesis
    using ray.dv_mul_roundtrip[OF assms] rayToWad_wadToRay_nonneg[OF assms(1)] q
      ray.mul_dv_error[OF assms(1) i q] by auto
qed

theorem scaling_roundtrip_witness:
  "rayDiv (rayMul 12345 1000003805182275920358748517) 1000003805182275920358748517 = Inr 12345"
  using scaling_roundtrip[of 12345 1000003805182275920358748517] by (simp add: const_simps)

section \<open>Interest\<close>

text \<open>
  Over any elapsed time and any rate the compounded factor is at least the linear one, which is
  at least one ray; both grow with the rate and with the time.
\<close>

theorem interest_factors_ordered:
  assumes "0 \<le> rate" "rate \<le> rate'" "t0 \<le> t" "t \<le> t'"
  shows "RAY \<le> calcLinearInterest rate t t0 \<and>
    calcLinearInterest rate t t0 \<le> calcCompoundedInterest rate t t0 \<and>
    calcLinearInterest rate t t0 \<le> calcLinearInterest rate' t' t0 \<and>
    calcCompoundedInterest rate t t0 \<le> calcCompoundedInterest rate' t' t0"
  using assms
  by (simp add: calcLinearInterest_ge_RAY calcCompoundedInterest_ge_linear calcLinearInterest_mono
      calcCompoundedInterest_mono)

theorem interest_factors_ordered_witness:
  "calcLinearInterest 50000000000000000000000000 31536000 0 \<le>
     calcCompoundedInterest 50000000000000000000000000 31536000 0 \<and>
   calcLinearInterest 50000000000000000000000000 31536000 0 = 1050000000000000000000000000"
  using interest_factors_ordered[of 50000000000000000000000000 50000000000000000000000000 0 31536000 31536000]
  by (simp add: calcLinearInterest_def const_simps signed_divide_int_def)

section \<open>Usage ratios and rates\<close>

text \<open>
  For debts and liquidity that are not negative and a total of at least the available liquidity
  the usage ratios exist, lie between zero and one ray and are ordered; the assertion of the code
  cannot fire.
\<close>

theorem usage_ratios_bounded:
  assumes "0 \<le> ts" "0 \<le> tv" "0 \<le> av" "av \<le> tq"
  shows "\<exists>b s. calcExpectedUsageRatios ts tv av tq = Inr (b, s) \<and> 0 \<le> s \<and> s \<le> b \<and> b \<le> RAY \<and>
    (ts + tv = 0 \<longrightarrow> b = 0)"
proof -
  obtain b s where r: "calcExpectedUsageRatios ts tv av tq = Inr (b, s)" "0 \<le> s" "s \<le> b" "b \<le> RAY"
    by (rule usageRatios_ok[OF assms])
  then have "ts + tv = 0 \<longrightarrow> b = 0" by (auto simp: usageRatios_inv)
  with r show ?thesis by blast
qed

theorem usage_ratios_bounded_witness:
  "\<exists>b s. calcExpectedUsageRatios 1000 3000 6000 8000 = Inr (b, s) \<and> 0 \<le> s \<and> s \<le> b \<and> b \<le> RAY"
  using usage_ratios_bounded[of 1000 3000 6000 8000] by auto

text \<open>
  C11: For a configured reserve with a well-formed strategy the three interest rates exist; the
  liquidity rate is not negative, the stable rate is at least the market rate, the variable rate at
  least the base rate and, up to rounding, at most base plus both slopes.
\<close>

theorem interest_rates_bounded:
  assumes "obj_get cfg symb = Some p" "wf_params p" "0 \<le> msr" "0 \<le> ts" "0 \<le> tv" "0 \<le> asr"
    "0 \<le> av" "av \<le> tq"
  shows "\<exists>lr sr vr. calcExpectedInterestRates cfg symb msr ts tv asr av tq = Inr (lr, sr, vr) \<and>
    0 \<le> lr \<and> msr \<le> sr \<and> baseVariableBorrowRate (strategy p) \<le> vr \<and>
    2 * optimalUsageRatio (strategy p) * (vr - (baseVariableBorrowRate (strategy p) +
       variableRateSlope1 (strategy p) + variableRateSlope2 (strategy p)))
       \<le> RAY + optimalUsageRatio (strategy p)"
proof -
  obtain lr sr vr where "interestRatesFor p msr ts tv asr av tq = Inr (lr, sr, vr)"
      "0 \<le> lr" "msr \<le> sr" "baseVariableBorrowRate (strategy p) \<le> vr"
      "2 * optimalUsageRatio (strategy p) * (vr - (baseVariableBorrowRate (strategy p) +
       variableRateSlope1 (strategy p) + variableRateSlope2 (strategy p)))
       \<le> RAY + optimalUsageRatio (strategy p)"
    by (rule interestRatesFor_ok[OF assms(2-8)])
  then show ?thesis using assms(1) by (simp add: calcExpectedInterestRates_def entry_of_get)
qed

theorem interest_rates_bounded_witness:
  "\<exists>lr sr vr. calcExpectedInterestRates demo_config ''DAI'' 50 1000 3000 60 6000 8000 = Inr (lr, sr, vr) \<and>
     0 \<le> lr \<and> 50 \<le> sr \<and> 0 \<le> vr"
proof -
  have p: "obj_get demo_config ''DAI'' = Some demo_params" "wf_params demo_params"
      "baseVariableBorrowRate (strategy demo_params) = 0"
    by (simp_all add: demo_config_def wf_params_def wf_strategy_def demo_params_def
        demo_strategy_def const_simps)
  from interest_rates_bounded[OF p(1,2), of 50 1000 3000 60 6000 8000] p(3) show ?thesis by auto
qed

text \<open>
  A symbol that the configuration does not hold makes the interest-rate calculation throw a
  \<open>TypeError\<close>, whatever the amounts.
\<close>

theorem unknown_reserve_throws:
  "calcExpectedInterestRates cfg symb msr ts tv asr av tq = Inl TypeError" if "obj_get cfg symb = None"
  using that by (simp add: calcExpectedInterestRates_def entry_of_get)

theorem unknown_reserve_throws_witness:
  "calcExpectedInterestRates demo_config ''WETH'' 1 2 3 4 5 6 = Inl TypeError"
  using unknown_reserve_throws[of demo_config "''WETH''"] by (simp add: demo_config_def)

text \<open>
  The overall borrow rate is the average of the variable and the average stable rate weighted by
  the debts: it lies between any bounds of the two rates, up to the rounding of its three steps.
\<close>

theorem overall_rate_is_average:
  assumes "0 \<le> ts" "0 \<le> tv" "0 < ts + tv" "0 \<le> lo" "lo \<le> vr" "lo \<le> sr" "vr \<le> hi" "sr \<le> hi"
  shows "\<exists>q. calcExpectedOverallBorrowRate ts tv vr sr = Inr q \<and>
    2 * wadToRay (ts + tv) * (q - hi) \<le> 2 * RAY + wadToRay (ts + tv) \<and>
    2 * wadToRay (ts + tv) * (lo - q) \<le> 2 * RAY + wadToRay (ts + tv)"
proof -
  have nn: "0 \<le> vr" "0 \<le> sr" using assms by linarith+
  obtain q where q: "calcExpectedOverallBorrowRate ts tv vr sr = Inr q"
    by (rule overallRate_ok[OF assms(1,2) nn])
  show ?thesis using q overallRate_average[OF assms q] by blast
qed

theorem overall_rate_is_average_witness:
  "\<exists>q. calcExpectedOverallBorrowRate 1000 3000 30 50 = Inr q \<and>
     2 * wadToRay 4000 * (q - 50) \<le> 2 * RAY + wadToRay 4000"
  using overall_rate_is_average[of 1000 3000 30 30 50 50] by auto

section \<open>The weighted stable rates\<close>

lemma weighted_average_between:
  fixes w a :: int
  assumes "0 \<le> w" "0 \<le> a" "0 < w + a" "0 \<le> lo" "lo \<le> x" "lo \<le> y" "x \<le> hi" "y \<le> hi"
  shows "lo \<le> (w * x + a * y) sdiv (w + a)" "(w * x + a * y) sdiv (w + a) \<le> hi"
proof -
  have b: "w * lo \<le> w * x" "a * lo \<le> a * y" "w * x \<le> w * hi" "a * y \<le> a * hi"
    using assms by (auto intro: mult_left_mono)
  have nn: "0 \<le> w * x + a * y" using assms by simp
  have "(w + a) * lo \<le> w * x + a * y" "w * x + a * y \<le> (w + a) * hi"
    using b by (simp_all add: distrib_right)
  then have "lo \<le> (w * x + a * y) div (w + a)" "(w * x + a * y) div (w + a) \<le> hi"
    using assms(3) zdiv_mono1[of "(w + a) * lo" "w * x + a * y" "w + a"]
      zdiv_mono1[of "w * x + a * y" "(w + a) * hi" "w + a"] by simp_all
  then show "lo \<le> (w * x + a * y) sdiv (w + a)" "(w * x + a * y) sdiv (w + a) \<le> hi"
    using bn.quot_eq_div[OF nn assms(3)] by simp_all
qed

text \<open>
  Adding stable debt at a rate moves the average stable rate of the reserve to a value between
  the old average and that rate, and the same for the stable rate of a user; neither needs rounding
  slack.
\<close>

theorem stable_rates_are_averages:
  assumes "0 \<le> debt" "0 \<le> amount" "0 < debt + amount" "0 \<le> lo" "lo \<le> before" "lo \<le> rate"
    "before \<le> hi" "rate \<le> hi"
  shows "lo \<le> calcExpectedAverageStableBorrowRate before debt amount rate \<and>
    calcExpectedAverageStableBorrowRate before debt amount rate \<le> hi \<and>
    (\<exists>q. calcExpectedUserStableRate debt before amount rate = Inr q \<and> lo \<le> q \<and> q \<le> hi)"
  using weighted_average_between[OF assms] assms(3)
  by (simp add: calcExpectedAverageStableBorrowRate_def calcExpectedUserStableRate_def bn_div_def
      Let_def mult.commute)

theorem stable_rates_are_averages_witness:
  "3 \<le> calcExpectedAverageStableBorrowRate 3 1000 500 9 \<and>
   calcExpectedAverageStableBorrowRate 3 1000 500 9 \<le> 9"
  using stable_rates_are_averages[of 1000 500 3 3 9 9] by simp

text \<open>
  The rebalancing average weighs the old average with the unscaled debt and the change with the
  debt in rays, so removing one percent of the debt at six percent from a reserve at five percent
  yields six percent and not a rate just below five: the total debt is ignored.
\<close>

theorem rebalance_average_ignores_total:
  "\<exists>q. calcExpectedAverageStableBorrowRateRebalance (50 * 10 ^ 24) 100000 (- 1000) (60 * 10 ^ 24) = Inr q \<and>
     59 * 10 ^ 24 < q \<and>
   calcExpectedAverageStableBorrowRate (50 * 10 ^ 24) 100000 (- 1000) (60 * 10 ^ 24) < 50 * 10 ^ 24"
  by (simp add: calcExpectedAverageStableBorrowRateRebalance_def calcExpectedAverageStableBorrowRate_def
      rayMul_def rayDiv_def wadToRay_def bn_div_def const_simps signed_divide_int_def Let_def)

end
