(* ===== verification/Chain.thy ===== *)
theory Chain
  imports ReserveTypes Rates
begin

text \<open>
  What the test actions see of the blockchain: \<open>test-suites/helpers/utils/helpers.ts\<close>,
  \<open>helpers/contracts-helpers.ts\<close> and the block functions of \<open>helpers/utilities/tx.ts\<close> and
  \<open>helpers/misc-utils.ts\<close>.

  The node, the contracts and the ethers library are not modelled: they are the record
  \<open>'w chain\<close>, a parameter of every definition, over an abstract world \<open>'w\<close>. Reading is a function
  of the world, sending a transaction and mining return a new one. Nothing is assumed about the
  record here; a theorem that relies on the behaviour of a node says so in its hypotheses.
\<close>

section \<open>Views and transactions\<close>

text \<open>The values \<open>getReserveData\<close> reads from the data provider, the tokens and the strategy.\<close>

record raw_reserve =
  raw_reserveFactor :: int
  raw_unbacked :: int
  raw_accruedToTreasuryScaled :: int
  raw_balanceOfRSToken :: int
  raw_totalStableDebt :: int
  raw_totalVariableDebt :: int
  raw_liquidityRate :: int
  raw_variableBorrowRate :: int
  raw_stableBorrowRate :: int
  raw_averageStableBorrowRate :: int
  raw_liquidityIndex :: int
  raw_variableBorrowIndex :: int
  raw_lastUpdateTimestamp :: int
  raw_totalSupplyLastUpdated :: int
  raw_principalStableDebt :: int
  raw_scaledTotalSupply :: int
  raw_RSTokenAddress :: string
  raw_stableDebtTokenAddress :: string
  raw_variableDebtTokenAddress :: string
  raw_symbol :: string
  raw_decimals :: int
  raw_baseStableBorrowRate :: int

record raw_user =
  raw_scaledBalanceOf :: int
  raw_currentRSTokenBalance :: int
  raw_currentStableDebt :: int
  raw_currentVariableDebt :: int
  raw_principalDebt :: int
  raw_scaledDebt :: int
  raw_userStableBorrowRate :: int
  raw_userLiquidityRate :: int
  raw_usageAsCollateralEnabled :: bool
  raw_stableRateLastUpdated :: int

record permit_params =
  domain_name :: string
  domain_version :: string
  domain_chainId :: int
  domain_verifyingContract :: string
  message_owner :: string
  message_spender :: string
  message_value :: int
  message_nonce :: int
  message_deadline :: int

record signature =
  sig_v :: int
  sig_r :: string
  sig_s :: string

datatype contract_call =
    MintToken string int
  | ApproveToken string string int
  | PoolDeposit string int string "int option"
  | PoolSupplyWithPermit string int string int signature "int option"
  | PoolWithdraw string int string
  | PoolBorrow string int string string
  | PoolRepay string int string string "int option"
  | PoolRepayWithPermit string int string string int signature "int option"
  | PoolSetUseAsCollateral string bool
  | PoolSwapBorrowRateMode string string
  | PoolRebalanceStableBorrowRate string string
  | ApproveDelegation string string int

record receipt =
  rc_blockNumber :: "int option"
  rc_transactionHash :: "string option"
  rc_cumulativeGasUsed :: "int option"

record 'w chain =
  reserveAddress :: "'w \<Rightarrow> string \<Rightarrow> string result"
  poolAddress :: string
  tokenDecimals :: "'w \<Rightarrow> string \<Rightarrow> int result"
  parseUnits :: "string \<Rightarrow> int \<Rightarrow> int result"
  reserveView :: "'w \<Rightarrow> string \<Rightarrow> raw_reserve result"
  userView :: "'w \<Rightarrow> string \<Rightarrow> string \<Rightarrow> raw_user result"
  balanceOf :: "'w \<Rightarrow> string \<Rightarrow> string \<Rightarrow> int result"
  borrowAllowance :: "'w \<Rightarrow> string \<Rightarrow> string \<Rightarrow> string \<Rightarrow> int result"
  nonces :: "'w \<Rightarrow> string \<Rightarrow> string \<Rightarrow> int result"
  chainId :: "'w \<Rightarrow> int"
  signTypedData :: "string \<Rightarrow> permit_params \<Rightarrow> signature"
  latestTimestamp :: "'w \<Rightarrow> int"
  blockTimestamp :: "'w \<Rightarrow> int \<Rightarrow> int option"
  currentBlockNumber :: "'w \<Rightarrow> int"
  evm_increaseTime :: "'w \<Rightarrow> int \<Rightarrow> 'w"
  evm_mine :: "'w \<Rightarrow> 'w"
  evm_setNextBlockTimestamp :: "'w \<Rightarrow> int \<Rightarrow> 'w result"
  send :: "'w \<Rightarrow> string \<Rightarrow> contract_call \<Rightarrow> (receipt \<times> 'w) result"

section \<open>Reading a reserve and a user\<close>

definition getReserveData :: "('w, 'x) chain_scheme \<Rightarrow> 'w \<Rightarrow> string \<Rightarrow> reserve_data result" where
  "getReserveData ch w reserve =
     rbind (reserveView ch w reserve) (\<lambda>v.
     let availableLiquidity = raw_balanceOfRSToken v;
         totalLiquidity = availableLiquidity + raw_unbacked v;
         totalDebt = raw_totalStableDebt v + raw_totalVariableDebt v in
     rbind (if totalDebt = 0 then Inr 0 else rayDiv totalDebt (availableLiquidity + totalDebt))
       (\<lambda>borrowUsageRatio.
     rbind (if totalDebt = 0 then Inr 0 else rayDiv totalDebt (totalLiquidity + totalDebt))
       (\<lambda>supplyUsageRatio.
     rbind (ensure (supplyUsageRatio \<le> borrowUsageRatio)
              (AssertionError ''Supply usage ratio > borrow usage ratio'')) (\<lambda>_.
     Inr \<lparr>r_address = Some reserve, r_symbol = Some (raw_symbol v),
       r_decimals = Some (raw_decimals v), r_reserveFactor = Some (raw_reserveFactor v),
       r_availableLiquidity = Some availableLiquidity, r_totalLiquidity = Some totalLiquidity,
       r_totalStableDebt = Some (raw_totalStableDebt v),
       r_totalVariableDebt = Some (raw_totalVariableDebt v),
       r_principalStableDebt = Some (raw_principalStableDebt v),
       r_scaledVariableDebt = Some (raw_scaledTotalSupply v),
       r_averageStableBorrowRate = Some (raw_averageStableBorrowRate v),
       r_variableBorrowRate = Some (raw_variableBorrowRate v),
       r_stableBorrowRate = Some (raw_stableBorrowRate v),
       r_supplyUsageRatio = Some supplyUsageRatio, r_borrowUsageRatio = Some borrowUsageRatio,
       r_liquidityIndex = Some (raw_liquidityIndex v),
       r_variableBorrowIndex = Some (raw_variableBorrowIndex v),
       r_RSTokenAddress = Some (raw_RSTokenAddress v),
       r_marketStableRate = Some (raw_baseStableBorrowRate v),
       r_lastUpdateTimestamp = Some (raw_lastUpdateTimestamp v),
       r_totalStableDebtLastUpdated = Some (raw_totalSupplyLastUpdated v),
       r_liquidityRate = Some (raw_liquidityRate v), r_unbacked = Some (raw_unbacked v),
       r_accruedToTreasuryScaled = Some (raw_accruedToTreasuryScaled v)\<rparr>))))"

text \<open>\<open>sender || user\<close>: an absent or empty sender falls back to the user.\<close>

definition or_else :: "string option \<Rightarrow> string \<Rightarrow> string" where
  "or_else s d = (case s of None \<Rightarrow> d | Some x \<Rightarrow> if x = [] then d else x)"

definition getUserData ::
    "('w, 'x) chain_scheme \<Rightarrow> 'w \<Rightarrow> string \<Rightarrow> string \<Rightarrow> string option \<Rightarrow> user_reserve_data result" where
  "getUserData ch w reserve user sender =
     rbind (userView ch w reserve user) (\<lambda>v.
     rbind (balanceOf ch w reserve (or_else sender user)) (\<lambda>walletBalance.
     Inr \<lparr>u_scaledRSTokenBalance = Some (raw_scaledBalanceOf v),
       u_currentRSTokenBalance = Some (raw_currentRSTokenBalance v),
       u_currentStableDebt = Some (raw_currentStableDebt v),
       u_currentVariableDebt = Some (raw_currentVariableDebt v),
       u_principalStableDebt = Some (raw_principalDebt v),
       u_scaledVariableDebt = Some (raw_scaledDebt v),
       u_liquidityRate = Some (raw_userLiquidityRate v),
       u_stableBorrowRate = Some (raw_userStableBorrowRate v),
       u_stableRateLastUpdated = Some (raw_stableRateLastUpdated v),
       u_usageAsCollateralEnabled = Some (raw_usageAsCollateralEnabled v),
       u_walletBalance = Some walletBalance,
       u_variableBorrowIndex = None, u_principalVariableDebt = None\<rparr>))"

section \<open>Amounts, permits and time\<close>

definition convertToCurrencyDecimals ::
    "('w, 'x) chain_scheme \<Rightarrow> 'w \<Rightarrow> string \<Rightarrow> string \<Rightarrow> int result" where
  "convertToCurrencyDecimals ch w tokenAddress amount =
     rbind (tokenDecimals ch w tokenAddress) (\<lambda>decimals. parseUnits ch amount decimals)"

definition buildPermitParams ::
    "int \<Rightarrow> string \<Rightarrow> string \<Rightarrow> string \<Rightarrow> string \<Rightarrow> string \<Rightarrow> int \<Rightarrow> int \<Rightarrow> int \<Rightarrow> permit_params" where
  "buildPermitParams chain token revision tokenName owner spender nonce deadline val =
     \<lparr>domain_name = tokenName, domain_version = revision, domain_chainId = chain,
      domain_verifyingContract = token, message_owner = owner, message_spender = spender,
      message_value = val, message_nonce = nonce, message_deadline = deadline\<rparr>"

definition advanceTimeAndBlock :: "('w, 'x) chain_scheme \<Rightarrow> int \<Rightarrow> 'w \<Rightarrow> 'w result" where
  "advanceTimeAndBlock ch forwardTime w =
     (case blockTimestamp ch w (currentBlockNumber ch w) of
        None \<Rightarrow>
          let w = evm_increaseTime ch w forwardTime;
              w = evm_mine ch w
          in Inr (evm_increaseTime ch w 15)
      | Some currentTime \<Rightarrow>
          let futureTime = currentTime + forwardTime in
          rbind (evm_setNextBlockTimestamp ch w futureTime) (\<lambda>w. Inr (evm_mine ch w)))"

text \<open>
  \<open>getTxCostAndTimestamp\<close>, of which only the timestamp is used: the receipt must have a block
  number, a hash and a gas amount (a block number of 0 is falsy).
\<close>

definition getTxTimestamp :: "('w, 'x) chain_scheme \<Rightarrow> receipt \<Rightarrow> 'w \<Rightarrow> int result" where
  "getTxTimestamp ch tx w =
     (case (rc_blockNumber tx, rc_transactionHash tx, rc_cumulativeGasUsed tx) of
        (Some n, Some h, Some g) \<Rightarrow>
          rbind (ensure (n \<noteq> 0 \<and> h \<noteq> []) (Thrown ''No tx blocknumber'')) (\<lambda>_.
          getf (blockTimestamp ch w n))
      | _ \<Rightarrow> Inl (Thrown ''No tx blocknumber''))"

definition getContractsData ::
    "('w, 'x) chain_scheme \<Rightarrow> 'w \<Rightarrow> string \<Rightarrow> string \<Rightarrow> string option \<Rightarrow>
       (reserve_data \<times> user_reserve_data \<times> int) result" where
  "getContractsData ch w reserve user sender =
     rbind (getUserData ch w reserve user (Some (or_else sender user))) (\<lambda>userData.
     rbind (getReserveData ch w reserve) (\<lambda>reserveData.
     Inr (reserveData, userData, latestTimestamp ch w)))"

section \<open>What the readers return\<close>

lemma getReserveData_inv:
  assumes "getReserveData ch w reserve = Inr r"
  obtains v b s where "reserveView ch w reserve = Inr v"
    "calcExpectedUsageRatios (raw_totalStableDebt v) (raw_totalVariableDebt v)
       (raw_balanceOfRSToken v) (raw_balanceOfRSToken v + raw_unbacked v) = Inr (b, s)"
    "r_borrowUsageRatio r = Some b" "r_supplyUsageRatio r = Some s"
    "r_totalStableDebt r = Some (raw_totalStableDebt v)"
    "r_totalVariableDebt r = Some (raw_totalVariableDebt v)"
    "r_availableLiquidity r = Some (raw_balanceOfRSToken v)"
    "r_totalLiquidity r = Some (raw_balanceOfRSToken v + raw_unbacked v)"
    "r_unbacked r = Some (raw_unbacked v)" "r_address r = Some reserve" "complete_reserve r"
proof -
  obtain v b s where e: "reserveView ch w reserve = Inr v"
    "(if raw_totalStableDebt v + raw_totalVariableDebt v = 0 then Inr 0
      else rayDiv (raw_totalStableDebt v + raw_totalVariableDebt v)
        (raw_balanceOfRSToken v + (raw_totalStableDebt v + raw_totalVariableDebt v))) = Inr b"
    "(if raw_totalStableDebt v + raw_totalVariableDebt v = 0 then Inr 0
      else rayDiv (raw_totalStableDebt v + raw_totalVariableDebt v)
        (raw_balanceOfRSToken v + raw_unbacked v +
          (raw_totalStableDebt v + raw_totalVariableDebt v))) = Inr s"
    "s \<le> b" and
    r: "r = \<lparr>r_address = Some reserve, r_symbol = Some (raw_symbol v),
       r_decimals = Some (raw_decimals v), r_reserveFactor = Some (raw_reserveFactor v),
       r_availableLiquidity = Some (raw_balanceOfRSToken v),
       r_totalLiquidity = Some (raw_balanceOfRSToken v + raw_unbacked v),
       r_totalStableDebt = Some (raw_totalStableDebt v),
       r_totalVariableDebt = Some (raw_totalVariableDebt v),
       r_principalStableDebt = Some (raw_principalStableDebt v),
       r_scaledVariableDebt = Some (raw_scaledTotalSupply v),
       r_averageStableBorrowRate = Some (raw_averageStableBorrowRate v),
       r_variableBorrowRate = Some (raw_variableBorrowRate v),
       r_stableBorrowRate = Some (raw_stableBorrowRate v),
       r_supplyUsageRatio = Some s, r_borrowUsageRatio = Some b,
       r_liquidityIndex = Some (raw_liquidityIndex v),
       r_variableBorrowIndex = Some (raw_variableBorrowIndex v),
       r_RSTokenAddress = Some (raw_RSTokenAddress v),
       r_marketStableRate = Some (raw_baseStableBorrowRate v),
       r_lastUpdateTimestamp = Some (raw_lastUpdateTimestamp v),
       r_totalStableDebtLastUpdated = Some (raw_totalSupplyLastUpdated v),
       r_liquidityRate = Some (raw_liquidityRate v), r_unbacked = Some (raw_unbacked v),
       r_accruedToTreasuryScaled = Some (raw_accruedToTreasuryScaled v)\<rparr>"
    using assms unfolding getReserveData_def Let_def by (auto simp: rbind_eq_Inr)
  have "calcExpectedUsageRatios (raw_totalStableDebt v) (raw_totalVariableDebt v)
       (raw_balanceOfRSToken v) (raw_balanceOfRSToken v + raw_unbacked v) = Inr (b, s)"
    using e(2-4) by (auto simp: usageRatios_inv split: if_splits)
  then show thesis by (rule that[OF e(1)]) (simp_all add: r complete_reserve_def)
qed

lemma getUserData_complete: "getUserData ch w reserve user sender = Inr u \<Longrightarrow> complete_user u"
  by (auto simp: getUserData_def result_inv complete_user_def)

lemma getContractsData_inv:
  assumes "getContractsData ch w reserve user sender = Inr (r, u, now)"
  shows "getReserveData ch w reserve = Inr r" "complete_user u" "now = latestTimestamp ch w"
    "getUserData ch w reserve user (Some (or_else sender user)) = Inr u"
  using assms getUserData_complete by (auto simp: getContractsData_def result_inv)

end
