(* ===== verification/Compare.thy ===== *)
theory Compare
  imports ReserveTypes
begin

text \<open>
  The comparison of \<open>test-suites/helpers/actions.ts\<close>: \<open>almostEqualOrEqual\<close> walks over the keys of
  the object read from the chain, skips the accessory ones, and accepts a \<open>BigNumber\<close> that is off
  by at most 3. The check that the expected property is defined is an \<open>expect(c, message)\<close> without
  an assertion: it does nothing, and an undefined expected value is only met by the comparison
  itself, which throws.
\<close>

section \<open>One property\<close>

definition almostEqual :: "int \<Rightarrow> int \<Rightarrow> bool" where
  "almostEqual actualValue expectedValue \<longleftrightarrow>
     actualValue = expectedValue \<or> actualValue + 1 = expectedValue \<or>
     actualValue = expectedValue + 1 \<or> actualValue + 2 = expectedValue \<or>
     actualValue = expectedValue + 2 \<or> actualValue + 3 = expectedValue \<or>
     actualValue = expectedValue + 3"

lemma almostEqual_iff: "almostEqual a b \<longleftrightarrow> \<bar>a - b\<bar> \<le> 3"
  by (auto simp: almostEqual_def)

definition checkBigNumber :: "string \<Rightarrow> int option \<Rightarrow> int option \<Rightarrow> unit result" where
  "checkBigNumber key actual expected =
     (case actual of
        None \<Rightarrow> Inl (AssertionError (''Property '' @ key @ '' is undefined in the actual data''))
      | Some actualValue \<Rightarrow>
          (case expected of
             None \<Rightarrow> Inl (Thrown ''invalid BigNumber value'')
           | Some expectedValue \<Rightarrow>
               ensure (almostEqual actualValue expectedValue)
                 (AssertionError (''almost equal or equal for property '' @ key))))"

text \<open>Strings and booleans are compared through \<open>toString\<close>.\<close>

definition checkOther :: "string \<Rightarrow> 'a option \<Rightarrow> 'a option \<Rightarrow> unit result" where
  "checkOther key actual expected =
     (case actual of
        None \<Rightarrow> Inl (AssertionError (''Property '' @ key @ '' is undefined in the actual data''))
      | Some actualValue \<Rightarrow>
          (case expected of
             None \<Rightarrow> Inl TypeError
           | Some expectedValue \<Rightarrow>
               ensure (actualValue = expectedValue)
                 (AssertionError (''equal for property '' @ key))))"

fun runChecks :: "unit result list \<Rightarrow> unit result" where
  "runChecks [] = Inr ()"
| "runChecks (c # cs) = rbind c (\<lambda>_. runChecks cs)"

section \<open>Whole objects\<close>

text \<open>The keys of \<open>getReserveData\<close>'s result in their order, without the six that are skipped.\<close>

definition almostEqualOrEqualReserve :: "reserve_data \<Rightarrow> reserve_data \<Rightarrow> unit result" where
  "almostEqualOrEqualReserve expected actual = runChecks
     [checkBigNumber ''reserveFactor'' (r_reserveFactor actual) (r_reserveFactor expected),
      checkBigNumber ''unbacked'' (r_unbacked actual) (r_unbacked expected),
      checkBigNumber ''accruedToTreasuryScaled'' (r_accruedToTreasuryScaled actual)
        (r_accruedToTreasuryScaled expected),
      checkBigNumber ''availableLiquidity'' (r_availableLiquidity actual)
        (r_availableLiquidity expected),
      checkBigNumber ''totalLiquidity'' (r_totalLiquidity actual) (r_totalLiquidity expected),
      checkBigNumber ''borrowUsageRatio'' (r_borrowUsageRatio actual) (r_borrowUsageRatio expected),
      checkBigNumber ''supplyUsageRatio'' (r_supplyUsageRatio actual) (r_supplyUsageRatio expected),
      checkBigNumber ''totalStableDebt'' (r_totalStableDebt actual) (r_totalStableDebt expected),
      checkBigNumber ''totalVariableDebt'' (r_totalVariableDebt actual)
        (r_totalVariableDebt expected),
      checkBigNumber ''liquidityRate'' (r_liquidityRate actual) (r_liquidityRate expected),
      checkBigNumber ''variableBorrowRate'' (r_variableBorrowRate actual)
        (r_variableBorrowRate expected),
      checkBigNumber ''stableBorrowRate'' (r_stableBorrowRate actual) (r_stableBorrowRate expected),
      checkBigNumber ''averageStableBorrowRate'' (r_averageStableBorrowRate actual)
        (r_averageStableBorrowRate expected),
      checkBigNumber ''liquidityIndex'' (r_liquidityIndex actual) (r_liquidityIndex expected),
      checkBigNumber ''variableBorrowIndex'' (r_variableBorrowIndex actual)
        (r_variableBorrowIndex expected),
      checkBigNumber ''principalStableDebt'' (r_principalStableDebt actual)
        (r_principalStableDebt expected),
      checkBigNumber ''scaledVariableDebt'' (r_scaledVariableDebt actual)
        (r_scaledVariableDebt expected),
      checkOther ''address'' (r_address actual) (r_address expected)]"

definition almostEqualOrEqualUser :: "user_reserve_data \<Rightarrow> user_reserve_data \<Rightarrow> unit result" where
  "almostEqualOrEqualUser expected actual = runChecks
     [checkBigNumber ''scaledRSTokenBalance'' (u_scaledRSTokenBalance actual)
        (u_scaledRSTokenBalance expected),
      checkBigNumber ''currentRSTokenBalance'' (u_currentRSTokenBalance actual)
        (u_currentRSTokenBalance expected),
      checkBigNumber ''currentStableDebt'' (u_currentStableDebt actual)
        (u_currentStableDebt expected),
      checkBigNumber ''currentVariableDebt'' (u_currentVariableDebt actual)
        (u_currentVariableDebt expected),
      checkBigNumber ''principalStableDebt'' (u_principalStableDebt actual)
        (u_principalStableDebt expected),
      checkBigNumber ''scaledVariableDebt'' (u_scaledVariableDebt actual)
        (u_scaledVariableDebt expected),
      checkBigNumber ''stableBorrowRate'' (u_stableBorrowRate actual) (u_stableBorrowRate expected),
      checkBigNumber ''liquidityRate'' (u_liquidityRate actual) (u_liquidityRate expected),
      checkOther ''usageAsCollateralEnabled'' (u_usageAsCollateralEnabled actual)
        (u_usageAsCollateralEnabled expected),
      checkBigNumber ''stableRateLastUpdated'' (u_stableRateLastUpdated actual)
        (u_stableRateLastUpdated expected),
      checkBigNumber ''walletBalance'' (u_walletBalance actual) (u_walletBalance expected)]"

text \<open>
  \<open>expectEqual(actual, expected)\<close>, with \<open>configuration.skipIntegrityCheck\<close> and the comparison
  that fits the type of the two objects as arguments.
\<close>

definition expectEqual ::
    "bool \<Rightarrow> ('a \<Rightarrow> 'a \<Rightarrow> unit result) \<Rightarrow> 'a \<Rightarrow> 'a \<Rightarrow> unit result" where
  "expectEqual skipIntegrityCheck almostEqualOrEqual actual expected =
     (if \<not> skipIntegrityCheck then almostEqualOrEqual expected actual else Inr ())"

section \<open>What a passed comparison means\<close>

definition near :: "int option \<Rightarrow> int option \<Rightarrow> bool" where
  "near a e \<longleftrightarrow> (case a of None \<Rightarrow> False | Some x \<Rightarrow>
     (case e of None \<Rightarrow> False | Some y \<Rightarrow> \<bar>x - y\<bar> \<le> 3))"

definition same :: "'a option \<Rightarrow> 'a option \<Rightarrow> bool" where
  "same a e \<longleftrightarrow> a \<noteq> None \<and> a = e"

definition agrees_reserve :: "reserve_data \<Rightarrow> reserve_data \<Rightarrow> bool" where
  "agrees_reserve e a \<longleftrightarrow>
     near (r_reserveFactor a) (r_reserveFactor e) \<and> near (r_unbacked a) (r_unbacked e) \<and>
     near (r_accruedToTreasuryScaled a) (r_accruedToTreasuryScaled e) \<and>
     near (r_availableLiquidity a) (r_availableLiquidity e) \<and>
     near (r_totalLiquidity a) (r_totalLiquidity e) \<and>
     near (r_borrowUsageRatio a) (r_borrowUsageRatio e) \<and>
     near (r_supplyUsageRatio a) (r_supplyUsageRatio e) \<and>
     near (r_totalStableDebt a) (r_totalStableDebt e) \<and>
     near (r_totalVariableDebt a) (r_totalVariableDebt e) \<and>
     near (r_liquidityRate a) (r_liquidityRate e) \<and>
     near (r_variableBorrowRate a) (r_variableBorrowRate e) \<and>
     near (r_stableBorrowRate a) (r_stableBorrowRate e) \<and>
     near (r_averageStableBorrowRate a) (r_averageStableBorrowRate e) \<and>
     near (r_liquidityIndex a) (r_liquidityIndex e) \<and>
     near (r_variableBorrowIndex a) (r_variableBorrowIndex e) \<and>
     near (r_principalStableDebt a) (r_principalStableDebt e) \<and>
     near (r_scaledVariableDebt a) (r_scaledVariableDebt e) \<and> same (r_address a) (r_address e)"

definition agrees_user :: "user_reserve_data \<Rightarrow> user_reserve_data \<Rightarrow> bool" where
  "agrees_user e a \<longleftrightarrow>
     near (u_scaledRSTokenBalance a) (u_scaledRSTokenBalance e) \<and>
     near (u_currentRSTokenBalance a) (u_currentRSTokenBalance e) \<and>
     near (u_currentStableDebt a) (u_currentStableDebt e) \<and>
     near (u_currentVariableDebt a) (u_currentVariableDebt e) \<and>
     near (u_principalStableDebt a) (u_principalStableDebt e) \<and>
     near (u_scaledVariableDebt a) (u_scaledVariableDebt e) \<and>
     near (u_stableBorrowRate a) (u_stableBorrowRate e) \<and>
     near (u_liquidityRate a) (u_liquidityRate e) \<and>
     same (u_usageAsCollateralEnabled a) (u_usageAsCollateralEnabled e) \<and>
     near (u_stableRateLastUpdated a) (u_stableRateLastUpdated e) \<and>
     near (u_walletBalance a) (u_walletBalance e)"

lemma checkBigNumber_iff: "checkBigNumber key a e = Inr u \<longleftrightarrow> near a e"
  by (auto simp: checkBigNumber_def near_def almostEqual_iff split: option.splits)

lemma checkOther_iff: "checkOther key a e = Inr u \<longleftrightarrow> same a e"
  by (auto simp: checkOther_def same_def split: option.splits)

lemma runChecks_iff: "runChecks cs = Inr u \<longleftrightarrow> (\<forall>c\<in>set cs. c = Inr ())"
  by (induction cs) (auto simp: rbind_eq_Inr)

lemma near_refl: "a \<noteq> None \<Longrightarrow> near a a"
  and near_defined: "near a e \<Longrightarrow> e \<noteq> None"
  by (auto simp: near_def split: option.splits)

lemma same_refl: "a \<noteq> None \<Longrightarrow> same a a"
  and same_defined: "same a e \<Longrightarrow> e \<noteq> None"
  by (auto simp: same_def)

text \<open>
  The contract of a comparison: it accepts exactly the agreeing pairs, accepts every complete
  object against itself, and accepts only an expected object that is fully defined.
\<close>

locale comparison =
  fixes check :: "'a \<Rightarrow> 'a \<Rightarrow> unit result"
    and agrees :: "'a \<Rightarrow> 'a \<Rightarrow> bool"
    and complete defined :: "'a \<Rightarrow> bool"
  assumes check_iff: "check e a = Inr () \<longleftrightarrow> agrees e a"
    and agrees_refl: "complete a \<Longrightarrow> agrees a a"
    and agrees_defined: "agrees e a \<Longrightarrow> defined e"
begin

lemma expectEqual_iff: "expectEqual skip check a e = Inr u \<longleftrightarrow> skip \<or> agrees e a"
  by (simp add: expectEqual_def check_iff)

lemma expectEqual_self: "complete a \<Longrightarrow> expectEqual skip check a a = Inr ()"
  by (simp add: expectEqual_iff agrees_refl)

lemma expectEqual_undefined: "\<not> defined e \<Longrightarrow> expectEqual False check a e \<noteq> Inr u"
  using agrees_defined by (auto simp: expectEqual_iff)

end

text \<open>
  The properties an expected user object must define to be comparable.
\<close>

definition compared_user :: "user_reserve_data \<Rightarrow> bool" where
  "compared_user e \<longleftrightarrow> u_scaledRSTokenBalance e \<noteq> None \<and> u_currentRSTokenBalance e \<noteq> None \<and>
     u_currentStableDebt e \<noteq> None \<and> u_currentVariableDebt e \<noteq> None \<and>
     u_principalStableDebt e \<noteq> None \<and> u_scaledVariableDebt e \<noteq> None \<and>
     u_stableBorrowRate e \<noteq> None \<and> u_liquidityRate e \<noteq> None \<and>
     u_usageAsCollateralEnabled e \<noteq> None \<and> u_stableRateLastUpdated e \<noteq> None \<and>
     u_walletBalance e \<noteq> None"

interpretation reserve_cmp: comparison almostEqualOrEqualReserve agrees_reserve complete_reserve
  compared_reserve
proof unfold_locales
  fix e a :: reserve_data
  show "almostEqualOrEqualReserve e a = Inr () \<longleftrightarrow> agrees_reserve e a"
    by (simp add: almostEqualOrEqualReserve_def runChecks_iff checkBigNumber_iff checkOther_iff
        agrees_reserve_def del: runChecks.simps)
  show "complete_reserve a \<Longrightarrow> agrees_reserve a a"
    unfolding complete_reserve_def agrees_reserve_def by (intro conjI near_refl same_refl) simp_all
  assume ag: "agrees_reserve e a"
  show "compared_reserve e"
    unfolding compared_reserve_def
    using ag unfolding agrees_reserve_def
    by (elim conjE, intro conjI) (auto dest: near_defined same_defined)
qed

interpretation user_cmp: comparison almostEqualOrEqualUser agrees_user complete_user compared_user
proof unfold_locales
  fix e a :: user_reserve_data
  show "almostEqualOrEqualUser e a = Inr () \<longleftrightarrow> agrees_user e a"
    by (simp add: almostEqualOrEqualUser_def runChecks_iff checkBigNumber_iff checkOther_iff
        agrees_user_def del: runChecks.simps)
  show "complete_user a \<Longrightarrow> agrees_user a a"
    unfolding complete_user_def agrees_user_def by (intro conjI near_refl same_refl) simp_all
  assume ag: "agrees_user e a"
  show "compared_user e"
    unfolding compared_user_def
    using ag unfolding agrees_user_def
    by (elim conjE, intro conjI) (auto dest: near_defined same_defined)
qed

end
