(* ===== verification/Actions.thy ===== *)
theory Actions
  imports Chain Compare ReserveCalc UserCalc
begin

text \<open>
  The actions of \<open>test-suites/helpers/actions.ts\<close>: each reads the state before, submits one
  transaction, reads the state after, computes the expected state and compares. An action is a
  function of the world that returns the world it leaves or the exception it throws. The environment
  \<open>'w test_env\<close> is the chain, the configuration of the calculations, and the behaviour of three
  library functions (\<open>BigNumber.from\<close> on a string, the matcher behind \<open>revertedWith\<close>).

  An expected result other than \<open>success\<close> and \<open>revert\<close> makes most actions do nothing, and the
  message passed beside \<open>expect(...)\<close> in the revert branches is only the text of a failure.
\<close>

section \<open>Environment\<close>

record 'w test_env = "'w chain" +
  reservesParams :: "reserve_params obj"
  skipIntegrityCheck :: bool
  bigNumberFrom :: "string \<Rightarrow> int result"
  revertReasonMatches :: "string \<Rightarrow> string \<Rightarrow> bool"

definition toLowerCase :: "string \<Rightarrow> string" where
  "toLowerCase s = map (\<lambda>c. if 65 \<le> (of_char c :: nat) \<and> (of_char c :: nat) \<le> 90
     then char_of ((of_char c :: nat) + 32) else c) s"

text \<open>\<open>await expect(promise, message).to.be.reverted\<close>\<close>

definition expectReverted :: "(receipt \<times> 'w) result \<Rightarrow> 'w \<Rightarrow> 'w result" where
  "expectReverted tx w =
     (case tx of
        Inl (Reverted reason) \<Rightarrow> Inr w
      | _ \<Rightarrow> Inl (AssertionError ''Expected transaction to be reverted''))"

definition timeTravelSeconds :: "'w test_env \<Rightarrow> string \<Rightarrow> int result" where
  "timeTravelSeconds env timeTravel =
     rbind (bigNumberFrom env timeTravel) (\<lambda>days.
     let secondsToTravel = (days * ONE_YEAR) sdiv 365 in
     rbind (ensure (\<bar>secondsToTravel\<bar> \<le> 9007199254740991) (Thrown ''overflow'')) (\<lambda>_.
     Inr secondsToTravel))"

definition travel :: "'w test_env \<Rightarrow> string option \<Rightarrow> 'w \<Rightarrow> 'w result" where
  "travel env timeTravel w =
     (if truthy timeTravel
      then rbind (timeTravelSeconds env (the timeTravel)) (\<lambda>s. advanceTimeAndBlock env s w)
      else Inr w)"

text \<open>\<open>txOptions.value\<close>, set when a value to send is given.\<close>

definition valueToSend :: "'w test_env \<Rightarrow> 'w \<Rightarrow> string \<Rightarrow> string option \<Rightarrow> int option result" where
  "valueToSend env w reserve sendValue =
     (if truthy sendValue
      then rbind (convertToCurrencyDecimals env w reserve (the sendValue)) (\<lambda>v. Inr (Some v))
      else Inr None)"

text \<open>The amount string \<open>-1\<close> stands for the whole balance or debt.\<close>

definition amountOrMax :: "'w test_env \<Rightarrow> 'w \<Rightarrow> string \<Rightarrow> string \<Rightarrow> int result" where
  "amountOrMax env w reserve amount =
     (if amount \<noteq> ''-1'' then convertToCurrencyDecimals env w reserve amount
      else Inr MAX_UINT_AMOUNT)"

text \<open>
  The end of a successful action: the two expected objects are computed, then compared with what
  was read after the transaction.
\<close>

definition compareAfter ::
    "'w test_env \<Rightarrow> reserve_data \<Rightarrow> user_reserve_data \<Rightarrow> reserve_data result \<Rightarrow>
       (reserve_data \<Rightarrow> user_reserve_data result) \<Rightarrow> 'w \<Rightarrow> 'w result" where
  "compareAfter env reserveDataAfter userDataAfter expectedReserve expectedUser w =
     rbind expectedReserve (\<lambda>expectedReserveData.
     rbind (expectedUser expectedReserveData) (\<lambda>expectedUserData.
     rbind (expectEqual (skipIntegrityCheck env) almostEqualOrEqualReserve reserveDataAfter
              expectedReserveData) (\<lambda>_.
     rbind (expectEqual (skipIntegrityCheck env) almostEqualOrEqualUser userDataAfter
              expectedUserData) (\<lambda>_.
     Inr w))))"

section \<open>Tokens\<close>

definition mint :: "'w test_env \<Rightarrow> string \<Rightarrow> string \<Rightarrow> string \<Rightarrow> 'w \<Rightarrow> 'w result" where
  "mint env reserveSymbol amount user w =
     rbind (reserveAddress env w reserveSymbol) (\<lambda>reserve.
     rbind (convertToCurrencyDecimals env w reserve amount) (\<lambda>amountToMint.
     rbind (send env w user (MintToken reserve amountToMint)) (\<lambda>(tx, w). Inr w)))"

definition approve :: "'w test_env \<Rightarrow> string \<Rightarrow> string \<Rightarrow> 'w \<Rightarrow> 'w result" where
  "approve env reserveSymbol user w =
     rbind (reserveAddress env w reserveSymbol) (\<lambda>reserve.
     rbind (send env w user (ApproveToken reserve (poolAddress env) 100000000000000000000000000000))
       (\<lambda>(tx, w). Inr w))"

section \<open>Deposits and withdrawals\<close>

definition deposit ::
    "'w test_env \<Rightarrow> string \<Rightarrow> string \<Rightarrow> string \<Rightarrow> string \<Rightarrow> string option \<Rightarrow> string \<Rightarrow> 'w \<Rightarrow> 'w result" where
  "deposit env reserveSymbol amount sender onBehalfOf sendValue expectedResult w =
     rbind (reserveAddress env w reserveSymbol) (\<lambda>reserve.
     rbind (convertToCurrencyDecimals env w reserve amount) (\<lambda>amountToDeposit.
     rbind (getContractsData env w reserve onBehalfOf (Some sender))
       (\<lambda>(reserveDataBefore, userDataBefore, _).
     rbind (valueToSend env w reserve sendValue) (\<lambda>txValue.
     let tx = send env w sender (PoolDeposit reserve amountToDeposit onBehalfOf txValue) in
     if expectedResult = ''success'' then
       rbind tx (\<lambda>(txResult, w).
       rbind (getContractsData env w reserve onBehalfOf (Some sender))
         (\<lambda>(reserveDataAfter, userDataAfter, timestamp).
       rbind (getTxTimestamp env txResult w) (\<lambda>txTimestamp.
       compareAfter env reserveDataAfter userDataAfter
         (calcExpectedReserveDataAfterDeposit (reservesParams env) amountToDeposit
            reserveDataBefore txTimestamp)
         (\<lambda>expectedReserveData. calcExpectedUserDataAfterDeposit amountToDeposit reserveDataBefore
            expectedReserveData userDataBefore txTimestamp) w)))
     else if expectedResult = ''revert'' then expectReverted tx w
     else Inr w))))"

definition supplyWithPermit ::
    "'w test_env \<Rightarrow> string \<Rightarrow> string \<Rightarrow> string \<Rightarrow> string \<Rightarrow> string \<Rightarrow> string option \<Rightarrow> string \<Rightarrow> 'w \<Rightarrow>
       'w result" where
  "supplyWithPermit env reserveSymbol amount sender senderPk onBehalfOf sendValue expectedResult w =
     rbind (reserveAddress env w reserveSymbol) (\<lambda>reserve.
     rbind (convertToCurrencyDecimals env w reserve amount) (\<lambda>amountToDeposit.
     let highDeadline = 100000000000000000000000000 in
     rbind (nonces env w reserve sender) (\<lambda>nonce.
     let msgParams = buildPermitParams (chainId env w) reserve ''1'' reserveSymbol sender
           (poolAddress env) nonce highDeadline amountToDeposit;
         sig = signTypedData env senderPk msgParams in
     rbind (getContractsData env w reserve onBehalfOf (Some sender))
       (\<lambda>(reserveDataBefore, userDataBefore, _).
     rbind (valueToSend env w reserve sendValue) (\<lambda>txValue.
     let tx = send env w sender
           (PoolSupplyWithPermit reserve amountToDeposit onBehalfOf highDeadline sig txValue) in
     if expectedResult = ''success'' then
       rbind tx (\<lambda>(txResult, w).
       rbind (getContractsData env w reserve onBehalfOf (Some sender))
         (\<lambda>(reserveDataAfter, userDataAfter, timestamp).
       rbind (getTxTimestamp env txResult w) (\<lambda>txTimestamp.
       compareAfter env reserveDataAfter userDataAfter
         (calcExpectedReserveDataAfterDeposit (reservesParams env) amountToDeposit
            reserveDataBefore txTimestamp)
         (\<lambda>expectedReserveData. calcExpectedUserDataAfterDeposit amountToDeposit reserveDataBefore
            expectedReserveData userDataBefore txTimestamp) w)))
     else if expectedResult = ''revert'' then expectReverted tx w
     else Inr w)))))"

text \<open>
  \<open>getDataBeforeAction\<close> also builds a handle of the RSToken contract, which nothing reads.
\<close>

definition getDataBeforeAction ::
    "'w test_env \<Rightarrow> string \<Rightarrow> string \<Rightarrow> 'w \<Rightarrow> (string \<times> reserve_data \<times> user_reserve_data) result" where
  "getDataBeforeAction env reserveSymbol user w =
     rbind (reserveAddress env w reserveSymbol) (\<lambda>reserve.
     rbind (getContractsData env w reserve user None) (\<lambda>(reserveData, userData, _).
     Inr (reserve, reserveData, userData)))"

definition withdraw ::
    "'w test_env \<Rightarrow> string \<Rightarrow> string \<Rightarrow> string \<Rightarrow> string \<Rightarrow> 'w \<Rightarrow> 'w result" where
  "withdraw env reserveSymbol amount user expectedResult w =
     rbind (getDataBeforeAction env reserveSymbol user w)
       (\<lambda>(reserve, reserveDataBefore, userDataBefore).
     rbind (amountOrMax env w reserve amount) (\<lambda>amountToWithdraw.
     let tx = send env w user (PoolWithdraw reserve amountToWithdraw user) in
     if expectedResult = ''success'' then
       rbind tx (\<lambda>(txResult, w).
       rbind (getContractsData env w reserve user None)
         (\<lambda>(reserveDataAfter, userDataAfter, timestamp).
       rbind (getTxTimestamp env txResult w) (\<lambda>txTimestamp.
       compareAfter env reserveDataAfter userDataAfter
         (calcExpectedReserveDataAfterWithdraw (reservesParams env) amountToWithdraw
            reserveDataBefore userDataBefore txTimestamp)
         (\<lambda>expectedReserveData. calcExpectedUserDataAfterWithdraw amountToWithdraw
            reserveDataBefore expectedReserveData userDataBefore txTimestamp) w)))
     else if expectedResult = ''revert'' then expectReverted tx w
     else Inr w))"

section \<open>Borrowing\<close>

text \<open>
  \<open>interestRateMode === '1'\<close> picks the stable debt token, anything else the variable one.
\<close>

definition debtTokenOf :: "string \<Rightarrow> raw_reserve \<Rightarrow> string" where
  "debtTokenOf interestRateMode v =
     (if interestRateMode = ''1'' then raw_stableDebtTokenAddress v
      else raw_variableDebtTokenAddress v)"

definition delegateBorrowAllowance ::
    "'w test_env \<Rightarrow> string \<Rightarrow> string \<Rightarrow> string \<Rightarrow> string \<Rightarrow> string \<Rightarrow> string \<Rightarrow> string option \<Rightarrow> 'w \<Rightarrow>
       'w result" where
  "delegateBorrowAllowance env reserve amount interestRateMode user receiver expectedResult
       revertMessage w =
     rbind (reserveAddress env w reserve) (\<lambda>reserveAddr.
     rbind (convertToCurrencyDecimals env w reserveAddr amount) (\<lambda>amountToDelegate.
     rbind (reserveView env w reserveAddr) (\<lambda>reserveData.
     let debtToken = debtTokenOf interestRateMode reserveData;
         tx = send env w user (ApproveDelegation debtToken receiver amountToDelegate) in
     if expectedResult = ''revert'' \<and> truthy revertMessage then
       (case tx of
          Inl (Reverted reason) \<Rightarrow>
            rbind (ensure (revertReasonMatches env (the revertMessage) reason)
                     (AssertionError ''Expected transaction to be reverted with another message''))
              (\<lambda>_. Inr w)
        | _ \<Rightarrow> Inl (AssertionError ''Expected transaction to be reverted''))
     else
       rbind tx (\<lambda>(txResult, w).
       rbind (borrowAllowance env w debtToken user receiver) (\<lambda>allowance.
       rbind (ensure (allowance = amountToDelegate)
                (AssertionError ''borrowAllowance is set incorrectly'')) (\<lambda>_.
       Inr w))))))"

text \<open>
  The transaction of a borrow is sent before the expected result is looked at; with an expected
  result that is neither of the two it is left pending, and a rejection of it is not observed.
\<close>

definition borrow ::
    "'w test_env \<Rightarrow> string \<Rightarrow> string \<Rightarrow> string \<Rightarrow> string \<Rightarrow> string \<Rightarrow> string option \<Rightarrow> string \<Rightarrow> 'w \<Rightarrow>
       'w result" where
  "borrow env reserveSymbol amount interestRateMode user onBehalfOf timeTravel expectedResult w =
     rbind (reserveAddress env w reserveSymbol) (\<lambda>reserve.
     rbind (getContractsData env w reserve onBehalfOf (Some user))
       (\<lambda>(reserveDataBefore, userDataBefore, _).
     rbind (reserveView env w reserve) (\<lambda>reserveTokens.
     let debtToken = debtTokenOf interestRateMode reserveTokens in
     rbind (borrowAllowance env w debtToken onBehalfOf user) (\<lambda>borrowAllowanceBefore.
     rbind (convertToCurrencyDecimals env w reserve amount) (\<lambda>amountToBorrow.
     let tx = send env w user (PoolBorrow reserve amountToBorrow interestRateMode onBehalfOf) in
     if expectedResult = ''success'' then
       rbind tx (\<lambda>(txResult, w).
       rbind (getTxTimestamp env txResult w) (\<lambda>txTimestamp.
       rbind (travel env timeTravel w) (\<lambda>w.
       rbind (getContractsData env w reserve onBehalfOf (Some user))
         (\<lambda>(reserveDataAfter, userDataAfter, timestamp).
       rbind (compareAfter env reserveDataAfter userDataAfter
                (calcExpectedReserveDataAfterBorrow (reservesParams env) amountToBorrow
                   interestRateMode reserveDataBefore txTimestamp timestamp)
                (\<lambda>expectedReserveData. calcExpectedUserDataAfterBorrow amountToBorrow
                   interestRateMode reserveDataBefore expectedReserveData userDataBefore
                   txTimestamp timestamp) w) (\<lambda>w.
       if user \<noteq> onBehalfOf then
         rbind (borrowAllowance env w debtToken onBehalfOf user) (\<lambda>borrowAllowanceAfter.
         rbind (ensure (borrowAllowanceAfter = borrowAllowanceBefore - amountToBorrow)
                  (AssertionError ''borrowAllowance is updated incorrectly'')) (\<lambda>_.
         Inr w))
       else Inr w)))))
     else if expectedResult = ''revert'' then expectReverted tx w
     else Inr (case tx of Inl _ \<Rightarrow> w | Inr (_, w') \<Rightarrow> w'))))))"

section \<open>Repayments\<close>

text \<open>
  The data before a repayment are read before the time travel, and the transaction is timed before
  the data after it are read.
\<close>

definition repay ::
    "'w test_env \<Rightarrow> string \<Rightarrow> string \<Rightarrow> string \<Rightarrow> string \<Rightarrow> string \<Rightarrow> string option \<Rightarrow> string \<Rightarrow>
       string option \<Rightarrow> 'w \<Rightarrow> 'w result" where
  "repay env reserveSymbol amount rateMode user onBehalfOf sendValue expectedResult timeTravel w =
     rbind (reserveAddress env w reserveSymbol) (\<lambda>reserve.
     rbind (getContractsData env w reserve onBehalfOf None)
       (\<lambda>(reserveDataBefore, userDataBefore, _).
     rbind (amountOrMax env w reserve amount) (\<lambda>amountToRepay.
     rbind (valueToSend env w reserve sendValue) (\<lambda>txValue.
     rbind (travel env timeTravel w) (\<lambda>w.
     let tx = send env w user (PoolRepay reserve amountToRepay rateMode onBehalfOf txValue) in
     if expectedResult = ''success'' then
       rbind tx (\<lambda>(txResult, w).
       rbind (getTxTimestamp env txResult w) (\<lambda>txTimestamp.
       rbind (getContractsData env w reserve onBehalfOf None)
         (\<lambda>(reserveDataAfter, userDataAfter, timestamp).
       compareAfter env reserveDataAfter userDataAfter
         (calcExpectedReserveDataAfterRepay (reservesParams env) amountToRepay rateMode
            reserveDataBefore userDataBefore txTimestamp)
         (\<lambda>expectedReserveData. calcExpectedUserDataAfterRepay amountToRepay rateMode
            reserveDataBefore expectedReserveData userDataBefore user onBehalfOf txTimestamp
            timestamp) w)))
     else if expectedResult = ''revert'' then expectReverted tx w
     else Inr w)))))"

definition repayWithPermit ::
    "'w test_env \<Rightarrow> string \<Rightarrow> string \<Rightarrow> string \<Rightarrow> string \<Rightarrow> string \<Rightarrow> string \<Rightarrow> string option \<Rightarrow> string \<Rightarrow>
       'w \<Rightarrow> 'w result" where
  "repayWithPermit env reserveSymbol amount rateMode user userPk onBehalfOf sendValue
       expectedResult w =
     rbind (reserveAddress env w reserveSymbol) (\<lambda>reserve.
     let highDeadline = 100000000000000000000000000 in
     rbind (getContractsData env w reserve onBehalfOf None)
       (\<lambda>(reserveDataBefore, userDataBefore, _).
     rbind (amountOrMax env w reserve amount) (\<lambda>amountToRepay.
     rbind (nonces env w reserve user) (\<lambda>nonce.
     let msgParams = buildPermitParams (chainId env w) reserve ''1'' reserveSymbol user
           (poolAddress env) nonce highDeadline amountToRepay;
         sig = signTypedData env userPk msgParams in
     rbind (valueToSend env w reserve sendValue) (\<lambda>txValue.
     let tx = send env w user
           (PoolRepayWithPermit reserve amountToRepay rateMode onBehalfOf highDeadline sig txValue) in
     if expectedResult = ''success'' then
       rbind tx (\<lambda>(txResult, w).
       rbind (getTxTimestamp env txResult w) (\<lambda>txTimestamp.
       rbind (getContractsData env w reserve onBehalfOf None)
         (\<lambda>(reserveDataAfter, userDataAfter, timestamp).
       compareAfter env reserveDataAfter userDataAfter
         (calcExpectedReserveDataAfterRepay (reservesParams env) amountToRepay rateMode
            reserveDataBefore userDataBefore txTimestamp)
         (\<lambda>expectedReserveData. calcExpectedUserDataAfterRepay amountToRepay rateMode
            reserveDataBefore expectedReserveData userDataBefore user onBehalfOf txTimestamp
            timestamp) w)))
     else if expectedResult = ''revert'' then expectReverted tx w
     else Inr w)))))"

section \<open>Collateral, swaps and rebalances\<close>

definition setUseAsCollateral ::
    "'w test_env \<Rightarrow> string \<Rightarrow> string \<Rightarrow> string \<Rightarrow> string \<Rightarrow> 'w \<Rightarrow> 'w result" where
  "setUseAsCollateral env reserveSymbol user useAsCollateral expectedResult w =
     rbind (reserveAddress env w reserveSymbol) (\<lambda>reserve.
     rbind (getContractsData env w reserve user None) (\<lambda>(reserveDataBefore, userDataBefore, _).
     let useAsCollateralBool = (toLowerCase useAsCollateral = ''true'');
         tx = send env w user (PoolSetUseAsCollateral reserve useAsCollateralBool) in
     if expectedResult = ''success'' then
       rbind tx (\<lambda>(txResult, w).
       rbind (getTxTimestamp env txResult w) (\<lambda>_.
       rbind (getContractsData env w reserve user None) (\<lambda>(_, userDataAfter, _).
       let expectedUserData =
             calcExpectedUserDataAfterSetUseAsCollateral useAsCollateralBool userDataBefore in
       rbind (expectEqual (skipIntegrityCheck env) almostEqualOrEqualUser userDataAfter
                expectedUserData) (\<lambda>_.
       Inr w))))
     else if expectedResult = ''revert'' then expectReverted tx w
     else Inr w))"

definition swapBorrowRateMode ::
    "'w test_env \<Rightarrow> string \<Rightarrow> string \<Rightarrow> string \<Rightarrow> string \<Rightarrow> 'w \<Rightarrow> 'w result" where
  "swapBorrowRateMode env reserveSymbol user rateMode expectedResult w =
     rbind (reserveAddress env w reserveSymbol) (\<lambda>reserve.
     rbind (getContractsData env w reserve user None) (\<lambda>(reserveDataBefore, userDataBefore, _).
     let tx = send env w user (PoolSwapBorrowRateMode reserve rateMode) in
     if expectedResult = ''success'' then
       rbind tx (\<lambda>(txResult, w).
       rbind (getTxTimestamp env txResult w) (\<lambda>txTimestamp.
       rbind (getContractsData env w reserve user None) (\<lambda>(reserveDataAfter, userDataAfter, _).
       compareAfter env reserveDataAfter userDataAfter
         (calcExpectedReserveDataAfterSwapRateMode (reservesParams env) reserveDataBefore
            userDataBefore rateMode txTimestamp)
         (\<lambda>expectedReserveData. calcExpectedUserDataAfterSwapRateMode reserveDataBefore
            expectedReserveData userDataBefore rateMode txTimestamp) w)))
     else if expectedResult = ''revert'' then expectReverted tx w
     else Inr w))"

definition rebalanceStableBorrowRate ::
    "'w test_env \<Rightarrow> string \<Rightarrow> string \<Rightarrow> string \<Rightarrow> string \<Rightarrow> 'w \<Rightarrow> 'w result" where
  "rebalanceStableBorrowRate env reserveSymbol user target expectedResult w =
     rbind (reserveAddress env w reserveSymbol) (\<lambda>reserve.
     rbind (getContractsData env w reserve target None) (\<lambda>(reserveDataBefore, userDataBefore, _).
     let tx = send env w user (PoolRebalanceStableBorrowRate reserve target) in
     if expectedResult = ''success'' then
       rbind tx (\<lambda>(txResult, w).
       rbind (getTxTimestamp env txResult w) (\<lambda>txTimestamp.
       rbind (getContractsData env w reserve target None) (\<lambda>(reserveDataAfter, userDataAfter, _).
       compareAfter env reserveDataAfter userDataAfter
         (calcExpectedReserveDataAfterStableRateRebalance (reservesParams env) reserveDataBefore
            userDataBefore txTimestamp)
         (\<lambda>expectedReserveData. calcExpectedUserDataAfterStableRateRebalance reserveDataBefore
            expectedReserveData userDataBefore txTimestamp) w)))
     else if expectedResult = ''revert'' then expectReverted tx w
     else Inr w))"

end
