(* ===== verification/ScenarioEngine.thy ===== *)
theory ScenarioEngine
  imports Actions
begin

text \<open>
  The interpreter of the JSON scenarios, \<open>test-suites/helpers/scenario-engine.ts\<close>: a story is a list
  of actions run in order, an action is validated, its borrow mode and its users are resolved, and
  it is dispatched by name to \<open>Actions\<close>. Every \<open>throw\<close> of the source is an error value with its
  message.

  The arguments of an action are the string properties of its \<open>args\<close> object. Indexing the user list
  out of range yields \<open>undefined\<close>; reading the address of such a user throws, here at the place where
  the user is handed to the action.
\<close>

section \<open>Scenarios\<close>

record action =
  action_name :: "string option"
  action_args :: "string obj option"
  action_expected :: "string option"
  action_revertMessage :: "string option"

record story =
  story_description :: string
  story_actions :: "action list"

record scenario =
  scenario_title :: string
  scenario_description :: string
  scenario_stories :: "story list"

section \<open>Indexes written as strings\<close>

text \<open>
  \<open>parseInt\<close>: leading white space and a sign, then the longest run of digits; without a radix a
  leading \<open>0x\<close> selects base 16. \<open>None\<close> is \<open>NaN\<close>.
\<close>

definition digit_value :: "char \<Rightarrow> nat option" where
  "digit_value c = (let n = (of_char c :: nat) in
     if 48 \<le> n \<and> n \<le> 57 then Some (n - 48)
     else if 97 \<le> n \<and> n \<le> 122 then Some (n - 87)
     else if 65 \<le> n \<and> n \<le> 90 then Some (n - 55) else None)"

fun digits :: "nat \<Rightarrow> int option \<Rightarrow> string \<Rightarrow> int option" where
  "digits base acc [] = acc"
| "digits base acc (c # cs) =
     (case digit_value c of
        None \<Rightarrow> acc
      | Some d \<Rightarrow> if d < base
          then digits base (Some ((case acc of None \<Rightarrow> 0 | Some a \<Rightarrow> a) * int base + int d)) cs
          else acc)"

fun skip_blanks :: "string \<Rightarrow> string" where
  "skip_blanks [] = []"
| "skip_blanks (c # cs) =
     (if (of_char c :: nat) \<in> {9, 10, 11, 12, 13, 32, 160} then skip_blanks cs else c # cs)"

definition sign_of :: "string \<Rightarrow> int \<times> string" where
  "sign_of s = (case s of
     [] \<Rightarrow> (1, [])
   | c # cs \<Rightarrow> if c = CHR ''-'' then (-1, cs) else if c = CHR ''+'' then (1, cs) else (1, c # cs))"

definition parseInt10 :: "string \<Rightarrow> int option" where
  "parseInt10 s = (let (sgn, r) = sign_of (skip_blanks s) in
     map_option (\<lambda>n. sgn * n) (digits 10 None r))"

definition parseInt :: "string \<Rightarrow> int option" where
  "parseInt s = (let (sgn, r) = sign_of (skip_blanks s) in
     map_option (\<lambda>n. sgn * n)
       (if take 2 r = ''0x'' \<or> take 2 r = ''0X'' then digits 16 None (drop 2 r)
        else digits 10 None r))"

definition at_parsed :: "'a list \<Rightarrow> int option \<Rightarrow> 'a option" where
  "at_parsed xs i = (case i of None \<Rightarrow> None | Some n \<Rightarrow> at_index xs n)"

section \<open>One action\<close>

definition rateModeOf :: "string option \<Rightarrow> string" where
  "rateModeOf borrowRateMode =
     (if \<not> truthy borrowRateMode then RateMode_None
      else if borrowRateMode = Some ''none'' then RateMode_None
      else if borrowRateMode = Some ''stable'' then RateMode_Stable
      else if borrowRateMode = Some ''variable'' then RateMode_Variable
      else ''4'')"

definition required :: "string option \<Rightarrow> string \<Rightarrow> string result" where
  "required arg msg = (if truthy arg then Inr (the arg) else Inl (Thrown msg))"

text \<open>\<open>onBehalfOfIndex ? users[parseInt(onBehalfOfIndex)].address : user.address\<close>\<close>

definition onBehalf :: "string list \<Rightarrow> string option \<Rightarrow> string option \<Rightarrow> string result" where
  "onBehalf users onBehalfOfIndex user =
     (if truthy onBehalfOfIndex then getf (at_parsed users (parseInt (the onBehalfOfIndex)))
      else getf user)"

text \<open>The test wallets: their secret keys, all of which must be there.\<close>

definition getTestWallets :: "string list \<Rightarrow> string list result" where
  "getTestWallets accounts =
     (if \<not> list_all (\<lambda>k. k \<noteq> []) accounts \<or> accounts = [] then Inl (Thrown ''INVALID_TEST_WALLETS'')
      else Inr accounts)"

definition dispatch ::
    "'w test_env \<Rightarrow> string list \<Rightarrow> string obj \<Rightarrow> string \<Rightarrow> string \<Rightarrow> string \<Rightarrow> string option \<Rightarrow> string \<Rightarrow>
       string \<Rightarrow> string option \<Rightarrow> 'w \<Rightarrow> 'w result" where
  "dispatch env users arguments nam reserve rateMode user userPrivateKey expected revertMessage w =
     (let arg = obj_get arguments; amount = arg ''amount'' in
      if nam = ''mint'' then
        rbind (required amount (''Invalid amount of '' @ reserve @ '' to mint'')) (\<lambda>amount.
        rbind (getf user) (\<lambda>user. mint env reserve amount user w))
      else if nam = ''approve'' then
        rbind (getf user) (\<lambda>user. approve env reserve user w)
      else if nam = ''deposit'' then
        rbind (onBehalf users (arg ''onBehalfOf'') user) (\<lambda>onBehalfOf.
        rbind (required amount (''Invalid amount to deposit into the '' @ reserve @ '' reserve''))
          (\<lambda>amount.
        rbind (getf user) (\<lambda>user.
        deposit env reserve amount user onBehalfOf (arg ''sendValue'') expected w)))
      else if nam = ''supplyWithPermit'' then
        rbind (onBehalf users (arg ''onBehalfOf'') user) (\<lambda>onBehalfOf.
        rbind (required amount (''Invalid amount to deposit into the '' @ reserve @ '' reserve''))
          (\<lambda>amount.
        rbind (getf user) (\<lambda>user.
        supplyWithPermit env reserve amount user userPrivateKey onBehalfOf (arg ''sendValue'')
          expected w)))
      else if nam = ''delegateBorrowAllowance'' then
        rbind (getf (at_parsed users (Option.bind (arg ''toUser'') parseInt10))) (\<lambda>toUser.
        rbind (required amount (''Invalid amount to deposit into the '' @ reserve @ '' reserve''))
          (\<lambda>amount.
        rbind (getf user) (\<lambda>user.
        delegateBorrowAllowance env reserve amount rateMode user toUser expected revertMessage w)))
      else if nam = ''withdraw'' then
        rbind (required amount (''Invalid amount to withdraw from the '' @ reserve @ '' reserve''))
          (\<lambda>amount.
        rbind (getf user) (\<lambda>user. withdraw env reserve amount user expected w))
      else if nam = ''borrow'' then
        rbind (onBehalf users (arg ''onBehalfOf'') user) (\<lambda>onBehalfOf.
        rbind (required amount (''Invalid amount to borrow from the '' @ reserve @ '' reserve''))
          (\<lambda>amount.
        rbind (getf user) (\<lambda>user.
        borrow env reserve amount rateMode user onBehalfOf (arg ''timeTravel'') expected w)))
      else if nam = ''repay'' then
        rbind (required amount (''Invalid amount to repay into the '' @ reserve @ '' reserve''))
          (\<lambda>amount.
        rbind (onBehalf users (arg ''onBehalfOf'') user) (\<lambda>userToRepayOnBehalf.
        rbind (getf user) (\<lambda>user.
        repay env reserve amount rateMode user userToRepayOnBehalf (arg ''sendValue'') expected
          (arg ''timeTravel'') w)))
      else if nam = ''repayWithPermit'' then
        rbind (required amount (''Invalid amount to repay into the '' @ reserve @ '' reserve''))
          (\<lambda>amount.
        rbind (onBehalf users (arg ''onBehalfOf'') user) (\<lambda>userToRepayOnBehalf.
        rbind (getf user) (\<lambda>user.
        repayWithPermit env reserve amount rateMode user userPrivateKey userToRepayOnBehalf
          (arg ''sendValue'') expected w)))
      else if nam = ''setUseAsCollateral'' then
        rbind (required (arg ''useAsCollateral'')
          (''A valid value for useAsCollateral needs to be set when calling setUseReserveAsCollateral on reserve ''
             @ reserve)) (\<lambda>useAsCollateral.
        rbind (getf user) (\<lambda>user. setUseAsCollateral env reserve user useAsCollateral expected w))
      else if nam = ''swapBorrowRateMode'' then
        rbind (getf user) (\<lambda>user. swapBorrowRateMode env reserve user rateMode expected w)
      else if nam = ''rebalanceStableBorrowRate'' then
        rbind (required (arg ''target'')
          ''A target must be selected when trying to rebalance a stable rate'') (\<lambda>targetIndex.
        rbind (getf (at_parsed users (parseInt targetIndex))) (\<lambda>target.
        rbind (getf user) (\<lambda>user.
        rebalanceStableBorrowRate env reserve user target expected w)))
      else Inl (Thrown (''Invalid action requested: '' @ nam)))"

definition executeAction ::
    "'w test_env \<Rightarrow> string list \<Rightarrow> string list \<Rightarrow> action \<Rightarrow> 'w \<Rightarrow> 'w result" where
  "executeAction env accounts users action w =
     rbind (getf (action_args action)) (\<lambda>arguments.
     let arg = obj_get arguments in
     rbind (required (action_name action) ''Action name is missing'') (\<lambda>nam.
     rbind (required (arg ''reserve'') ''Invalid reserve selected for deposit'') (\<lambda>reserve.
     rbind (required (arg ''user'')
              (''Invalid user selected to deposit into the '' @ reserve @ '' reserve''))
       (\<lambda>userIndex.
     rbind (required (action_expected action)
              (''An expected result for action '' @ nam @ '' is required'')) (\<lambda>expected.
     let rateMode = rateModeOf (arg ''borrowRateMode'');
         index = parseInt userIndex;
         user = at_parsed users index in
     rbind (getTestWallets accounts) (\<lambda>wallets.
     rbind (getf (at_parsed wallets (map_option (\<lambda>i. i + 1) index))) (\<lambda>userPrivateKey.
     dispatch env users arguments nam reserve rateMode user userPrivateKey expected
       (action_revertMessage action) w)))))))"

section \<open>Stories\<close>

definition executeStory ::
    "'w test_env \<Rightarrow> string list \<Rightarrow> string list \<Rightarrow> story \<Rightarrow> 'w \<Rightarrow> 'w result" where
  "executeStory env accounts users story w =
     foldM (\<lambda>w action. executeAction env accounts users action w) w (story_actions story)"

end
