(* ===== verification/ActionProps.thy ===== *)
theory ActionProps
  imports Actions Demo
begin

text \<open>
  What a passed action says about the chain, and what it does not. The positive facts rest on the
  two interpretations of the locale \<open>comparison\<close>.
\<close>

section \<open>Inversion\<close>

lemma compareAfter_iff:
  "compareAfter env r1 u1 er eu w = Inr w' \<longleftrightarrow> w' = w \<and>
     (\<exists>e v. er = Inr e \<and> eu e = Inr v \<and>
        (skipIntegrityCheck env \<or> agrees_reserve e r1 \<and> agrees_user v u1))"
  by (auto simp: compareAfter_def rbind_eq_Inr reserve_cmp.expectEqual_iff user_cmp.expectEqual_iff)

lemma expectReverted_iff: "expectReverted tx w = Inr w' \<longleftrightarrow> w' = w \<and> (\<exists>m. tx = Inl (Reverted m))"
  by (auto simp: expectReverted_def split: sum.splits js_error.splits)

lemmas action_inv = rbind_eq_Inr compareAfter_iff expectReverted_iff

section \<open>A concrete chain\<close>

text \<open>
  Two worlds, before and after a deposit of 40000 by a user without debts; the view after it is the
  one a pool computes. Only the calls the deposit makes are answered.
\<close>

definition demo_saver :: user_reserve_data where
  "demo_saver = \<lparr>u_scaledRSTokenBalance = Some 20000, u_currentRSTokenBalance = Some 20000,
     u_currentStableDebt = Some 0, u_currentVariableDebt = Some 0, u_principalStableDebt = Some 0,
     u_scaledVariableDebt = Some 0, u_liquidityRate = Some 10000000000000000000000000,
     u_stableBorrowRate = Some 0, u_stableRateLastUpdated = Some 0,
     u_usageAsCollateralEnabled = Some True, u_walletBalance = Some 500000,
     u_variableBorrowIndex = None, u_principalVariableDebt = None\<rparr>"

definition demo_raw_before :: raw_reserve where
  "demo_raw_before = \<lparr>raw_reserveFactor = 1000, raw_unbacked = 5000, raw_accruedToTreasuryScaled = 7,
     raw_balanceOfRSToken = 600000, raw_totalStableDebt = 100000, raw_totalVariableDebt = 300000,
     raw_liquidityRate = 10000000000000000000000000,
     raw_variableBorrowRate = 30000000000000000000000000,
     raw_stableBorrowRate = 60000000000000000000000000,
     raw_averageStableBorrowRate = 50000000000000000000000000,
     raw_liquidityIndex = RAY, raw_variableBorrowIndex = RAY, raw_lastUpdateTimestamp = 1000,
     raw_totalSupplyLastUpdated = 1000, raw_principalStableDebt = 100000,
     raw_scaledTotalSupply = 300000, raw_RSTokenAddress = ''0x57'',
     raw_stableDebtTokenAddress = ''0x58'', raw_variableDebtTokenAddress = ''0x59'',
     raw_symbol = ''DAI'', raw_decimals = 18,
     raw_baseStableBorrowRate = 50000000000000000000000000\<rparr>"

definition demo_raw_after :: raw_reserve where
  "demo_raw_after = demo_raw_before\<lparr>raw_balanceOfRSToken := 640000, raw_totalStableDebt := 100001,
     raw_totalVariableDebt := 300001, raw_liquidityRate := 8722910770700247463641218,
     raw_variableBorrowRate := 17094069690891620080217794,
     raw_stableBorrowRate := 61672112970055186993224132,
     raw_liquidityIndex := 1000001268391679350583460172,
     raw_variableBorrowIndex := 1000003805182275920358748517, raw_lastUpdateTimestamp := 5000\<rparr>"

definition demo_raw_user :: "nat \<Rightarrow> raw_user" where
  "demo_raw_user w = \<lparr>raw_scaledBalanceOf = (if w = 0 then 20000 else 60000),
     raw_currentRSTokenBalance = (if w = 0 then 20000 else 60000), raw_currentStableDebt = 0,
     raw_currentVariableDebt = 0, raw_principalDebt = 0, raw_scaledDebt = 0,
     raw_userStableBorrowRate = 0,
     raw_userLiquidityRate = (if w = 0 then 10000000000000000000000000 else 8722910770700247463641218),
     raw_usageAsCollateralEnabled = True, raw_stableRateLastUpdated = 0\<rparr>"

definition demo_env :: "nat test_env" where
  "demo_env = \<lparr>reserveAddress = (\<lambda>w s. if s = ''DAI'' then Inr ''0xda1'' else Inl TypeError),
     poolAddress = ''0x900'', tokenDecimals = (\<lambda>w a. Inr 0), parseUnits = (\<lambda>s d. Inr 40000),
     reserveView = (\<lambda>w a. Inr (if w = 0 then demo_raw_before else demo_raw_after)),
     userView = (\<lambda>w a u. Inr (demo_raw_user w)),
     balanceOf = (\<lambda>w a u. Inr (if w = 0 then 500000 else 460000)),
     borrowAllowance = (\<lambda>w a o1 u. Inr 0), nonces = (\<lambda>w a u. Inr 0), chainId = (\<lambda>w. 31337),
     signTypedData = (\<lambda>k p. \<lparr>sig_v = 27, sig_r = [], sig_s = []\<rparr>),
     latestTimestamp = (\<lambda>w. 5000), blockTimestamp = (\<lambda>w n. if n = 2 then Some 5000 else None),
     currentBlockNumber = (\<lambda>w. 2), evm_increaseTime = (\<lambda>w s. w), evm_mine = (\<lambda>w. w),
     evm_setNextBlockTimestamp = (\<lambda>w t. Inr w),
     send = (\<lambda>w u c. if w = 0 \<and> c = PoolDeposit ''0xda1'' 40000 u None
        then Inr (\<lparr>rc_blockNumber = Some 2, rc_transactionHash = Some ''0xab'',
                   rc_cumulativeGasUsed = Some 21000\<rparr>, 1)
        else Inl (Reverted ''26'')),
     reservesParams = demo_config, skipIntegrityCheck = False,
     bigNumberFrom = (\<lambda>s. Inr 1), revertReasonMatches = (\<lambda>a b. a = b)\<rparr>"

lemmas demo_env_defs = demo_env_def demo_raw_before_def demo_raw_after_def demo_raw_user_def

lemma demo_read_before:
  "getContractsData demo_env 0 ''0xda1'' u (Some u) = Inr (demo_reserve, demo_saver, 5000)"
  by (simp add: getContractsData_def getReserveData_def getUserData_def demo_env_def
      demo_raw_before_def demo_raw_user_def demo_reserve_def demo_saver_def const_simps rayDiv_def
      bn_div_def signed_divide_int_def)

lemma demo_deposit_value:
  "calcExpectedReserveDataAfterDeposit demo_config 40000 demo_reserve 5000 =
     Inr (empty_reserve\<lparr>r_address := Some ''0xda1'', r_reserveFactor := Some 1000,
       r_availableLiquidity := Some 640000, r_totalLiquidity := Some 645000,
       r_totalStableDebt := Some 100001, r_totalVariableDebt := Some 300001,
       r_principalStableDebt := Some 100000, r_scaledVariableDebt := Some 300000,
       r_averageStableBorrowRate := Some 50000000000000000000000000,
       r_variableBorrowRate := Some 17094069690891620080217794,
       r_stableBorrowRate := Some 61672112970055186993224132,
       r_supplyUsageRatio := Some 382776300906601135691606332,
       r_borrowUsageRatio := Some 384616568045061451804900375,
       r_liquidityIndex := Some 1000001268391679350583460172,
       r_variableBorrowIndex := Some 1000003805182275920358748517,
       r_liquidityRate := Some 8722910770700247463641218,
       r_unbacked := Some 5000, r_accruedToTreasuryScaled := Some 7\<rparr>)"
  by (simp add: eval_defs empty_reserve_def cong: step_congs)

lemma demo_saver_value:
  assumes "r_liquidityIndex e = Some 1000001268391679350583460172"
    "r_liquidityRate e = Some 8722910770700247463641218"
  shows "calcExpectedUserDataAfterDeposit 40000 demo_reserve e demo_saver 5000 =
    Inr (demo_saver\<lparr>u_scaledRSTokenBalance := Some 60000, u_currentRSTokenBalance := Some 60000,
      u_walletBalance := Some 460000, u_liquidityRate := Some 8722910770700247463641218\<rparr>)"
  using assms by (simp add: demo_saver_def) (simp add: eval_defs cong: step_congs)

definition demo_reserve_after :: reserve_data where
  "demo_reserve_after = demo_reserve\<lparr>r_availableLiquidity := Some 640000,
     r_totalLiquidity := Some 645000, r_totalStableDebt := Some 100001,
     r_totalVariableDebt := Some 300001, r_variableBorrowRate := Some 17094069690891620080217794,
     r_stableBorrowRate := Some 61672112970055186993224132,
     r_supplyUsageRatio := Some 382776300906601135691606332,
     r_borrowUsageRatio := Some 384616568045061451804900375,
     r_liquidityIndex := Some 1000001268391679350583460172,
     r_variableBorrowIndex := Some 1000003805182275920358748517,
     r_liquidityRate := Some 8722910770700247463641218, r_lastUpdateTimestamp := Some 5000\<rparr>"

definition demo_saver_after :: user_reserve_data where
  "demo_saver_after = demo_saver\<lparr>u_scaledRSTokenBalance := Some 60000,
     u_currentRSTokenBalance := Some 60000, u_walletBalance := Some 460000,
     u_liquidityRate := Some 8722910770700247463641218\<rparr>"

lemma demo_read_after:
  "getContractsData demo_env 1 ''0xda1'' u (Some u) = Inr (demo_reserve_after, demo_saver_after, 5000)"
  by (simp add: getContractsData_def getReserveData_def getUserData_def demo_env_def
      demo_raw_after_def demo_raw_before_def demo_raw_user_def demo_reserve_after_def
      demo_saver_after_def demo_reserve_def demo_saver_def const_simps rayDiv_def
      bn_div_def signed_divide_int_def)

lemma demo_agrees:
  "agrees_reserve (empty_reserve\<lparr>r_address := Some ''0xda1'', r_reserveFactor := Some 1000,
       r_availableLiquidity := Some 640000, r_totalLiquidity := Some 645000,
       r_totalStableDebt := Some 100001, r_totalVariableDebt := Some 300001,
       r_principalStableDebt := Some 100000, r_scaledVariableDebt := Some 300000,
       r_averageStableBorrowRate := Some 50000000000000000000000000,
       r_variableBorrowRate := Some 17094069690891620080217794,
       r_stableBorrowRate := Some 61672112970055186993224132,
       r_supplyUsageRatio := Some 382776300906601135691606332,
       r_borrowUsageRatio := Some 384616568045061451804900375,
       r_liquidityIndex := Some 1000001268391679350583460172,
       r_variableBorrowIndex := Some 1000003805182275920358748517,
       r_liquidityRate := Some 8722910770700247463641218,
       r_unbacked := Some 5000, r_accruedToTreasuryScaled := Some 7\<rparr>) demo_reserve_after"
  "agrees_user demo_saver_after demo_saver_after"
  by (simp_all add: agrees_reserve_def agrees_user_def near_def same_def demo_reserve_after_def
      demo_saver_after_def demo_reserve_def demo_saver_def)

lemma demo_compare:
  "compareAfter demo_env demo_reserve_after demo_saver_after
     (calcExpectedReserveDataAfterDeposit demo_config 40000 demo_reserve 5000)
     (\<lambda>e. calcExpectedUserDataAfterDeposit 40000 demo_reserve e demo_saver 5000) 1 = Inr 1"
  unfolding compareAfter_iff demo_deposit_value
  by (simp add: demo_saver_value demo_agrees demo_saver_after_def [symmetric])

lemma demo_deposit_action:
  "deposit demo_env ''DAI'' ''40000'' ''0xa'' ''0xa'' None ''success'' 0 = Inr 1"
proof -
  have "reserveAddress demo_env 0 ''DAI'' = Inr ''0xda1''"
      "convertToCurrencyDecimals demo_env 0 ''0xda1'' ''40000'' = Inr 40000"
      "valueToSend demo_env 0 ''0xda1'' None = Inr None"
      "send demo_env 0 ''0xa'' (PoolDeposit ''0xda1'' 40000 ''0xa'' None) =
         Inr (\<lparr>rc_blockNumber = Some 2, rc_transactionHash = Some ''0xab'',
               rc_cumulativeGasUsed = Some 21000\<rparr>, 1)"
      "getTxTimestamp demo_env \<lparr>rc_blockNumber = Some 2, rc_transactionHash = Some ''0xab'',
               rc_cumulativeGasUsed = Some 21000\<rparr> 1 = Inr 5000"
      "reservesParams demo_env = demo_config"
    by (simp_all add: demo_env_def convertToCurrencyDecimals_def valueToSend_def truthy_def
        getTxTimestamp_def)
  then show ?thesis
    using demo_compare
    by (simp add: deposit_def demo_read_before demo_read_after del: One_nat_def)
qed

section \<open>What a passed action proves\<close>

text \<open>
  C8: A deposit action expected to succeed, with the integrity checks on, passes exactly when: the
  amount converts to the decimals of the reserve, the deposit of that amount for the beneficiary was
  mined, and the reserve and the beneficiary's data read after it agree, property by property and
  up to 3 units, with the expected objects computed from the reserve and the beneficiary's data read
  before it at the timestamp of its block (the wallet balance being the sender's in both reads).
\<close>

theorem passed_deposit_agrees:
  assumes "\<not> skipIntegrityCheck env"
  shows "deposit env symb amount sender onBehalfOf sendValue ''success'' w = Inr w' \<longleftrightarrow>
    (\<exists>reserve amt r0 u0 txv rc r1 u1 t e v.
      reserveAddress env w symb = Inr reserve \<and>
      convertToCurrencyDecimals env w reserve amount = Inr amt \<and>
      getReserveData env w reserve = Inr r0 \<and>
      getUserData env w reserve onBehalfOf (Some (or_else (Some sender) onBehalfOf)) = Inr u0 \<and>
      valueToSend env w reserve sendValue = Inr txv \<and>
      send env w sender (PoolDeposit reserve amt onBehalfOf txv) = Inr (rc, w') \<and>
      getReserveData env w' reserve = Inr r1 \<and>
      getUserData env w' reserve onBehalfOf (Some (or_else (Some sender) onBehalfOf)) = Inr u1 \<and>
      getTxTimestamp env rc w' = Inr t \<and>
      calcExpectedReserveDataAfterDeposit (reservesParams env) amt r0 t = Inr e \<and>
      calcExpectedUserDataAfterDeposit amt r0 e u0 t = Inr v \<and>
      agrees_reserve e r1 \<and> agrees_user v u1)" (is "?run \<longleftrightarrow> ?agreed")
proof
  assume ?run
  then obtain reserve amt r0 u0 n0 txv rc r1 u1 n1 t e v where p:
    "reserveAddress env w symb = Inr reserve"
    "getContractsData env w reserve onBehalfOf (Some sender) = Inr (r0, u0, n0)"
    "send env w sender (PoolDeposit reserve amt onBehalfOf txv) = Inr (rc, w')"
    "getContractsData env w' reserve onBehalfOf (Some sender) = Inr (r1, u1, n1)"
    "convertToCurrencyDecimals env w reserve amount = Inr amt"
    "valueToSend env w reserve sendValue = Inr txv" "getTxTimestamp env rc w' = Inr t"
    "calcExpectedReserveDataAfterDeposit (reservesParams env) amt r0 t = Inr e"
    "calcExpectedUserDataAfterDeposit amt r0 e u0 t = Inr v" "agrees_reserve e r1" "agrees_user v u1"
    using assms by (auto simp: deposit_def action_inv)
  note c0 = getContractsData_inv(1,4)[OF p(2)] and c1 = getContractsData_inv(1,4)[OF p(4)]
  show ?agreed
    by (intro exI[of _ reserve] exI[of _ amt] exI[of _ r0] exI[of _ u0] exI[of _ txv] exI[of _ rc]
        exI[of _ r1] exI[of _ u1] exI[of _ t] exI[of _ e] exI[of _ v] conjI)
       (rule p c0 c1)+
next
  assume ?agreed
  then obtain reserve amt r0 u0 txv rc r1 u1 t e v where p:
    "reserveAddress env w symb = Inr reserve"
    "convertToCurrencyDecimals env w reserve amount = Inr amt"
    "getReserveData env w reserve = Inr r0"
    "getUserData env w reserve onBehalfOf (Some (or_else (Some sender) onBehalfOf)) = Inr u0"
    "valueToSend env w reserve sendValue = Inr txv"
    "send env w sender (PoolDeposit reserve amt onBehalfOf txv) = Inr (rc, w')"
    "getReserveData env w' reserve = Inr r1"
    "getUserData env w' reserve onBehalfOf (Some (or_else (Some sender) onBehalfOf)) = Inr u1"
    "getTxTimestamp env rc w' = Inr t"
    "calcExpectedReserveDataAfterDeposit (reservesParams env) amt r0 t = Inr e"
    "calcExpectedUserDataAfterDeposit amt r0 e u0 t = Inr v" "agrees_reserve e r1" "agrees_user v u1"
    by blast
  from p(10-13) have "compareAfter env r1 u1 (calcExpectedReserveDataAfterDeposit (reservesParams env) amt r0 t)
      (\<lambda>e. calcExpectedUserDataAfterDeposit amt r0 e u0 t) w' = Inr w'"
    unfolding compareAfter_iff by blast
  then show ?run by (simp add: deposit_def getContractsData_def p(1-9))
qed

theorem passed_deposit_agrees_witness:
  "\<exists>u0 u1 t e v. getUserData demo_env 0 ''0xda1'' ''0xa'' (Some ''0xa'') = Inr u0 \<and>
     getUserData demo_env 1 ''0xda1'' ''0xa'' (Some ''0xa'') = Inr u1 \<and>
     calcExpectedReserveDataAfterDeposit demo_config 40000 demo_reserve t = Inr e \<and>
     calcExpectedUserDataAfterDeposit 40000 demo_reserve e u0 t = Inr v \<and> agrees_user v u1"
proof -
  have d: "reservesParams demo_env = demo_config" "\<not> skipIntegrityCheck demo_env"
      "reserveAddress demo_env 0 ''DAI'' = Inr ''0xda1''"
      "convertToCurrencyDecimals demo_env 0 ''0xda1'' ''40000'' = Inr 40000"
    by (simp_all add: demo_env_def convertToCurrencyDecimals_def)
  have r0: "getReserveData demo_env 0 ''0xda1'' = Inr demo_reserve"
    using getContractsData_inv(1)[OF demo_read_before] .
  have o: "or_else (Some ''0xa'') ''0xa'' = ''0xa''" by (simp add: or_else_def)
  obtain u0 u1 t e v where "getUserData demo_env 0 ''0xda1'' ''0xa'' (Some ''0xa'') = Inr u0"
    "getUserData demo_env 1 ''0xda1'' ''0xa'' (Some ''0xa'') = Inr u1"
    "calcExpectedReserveDataAfterDeposit demo_config 40000 demo_reserve t = Inr e"
    "calcExpectedUserDataAfterDeposit 40000 demo_reserve e u0 t = Inr v" "agrees_user v u1"
    using iffD1[OF passed_deposit_agrees[OF d(2)] demo_deposit_action] d r0 o by auto
  then show ?thesis by blast
qed

text \<open>
  The revert branch of a deposit passes exactly when the reads before it succeed and the node
  rejects the transaction with some revert reason; the world is then unchanged, and no reason is
  distinguished from another.
\<close>

theorem revert_branch_ignores_reason:
  assumes "reserveAddress env w symb = Inr reserve"
    "convertToCurrencyDecimals env w reserve amount = Inr amt"
    "getContractsData env w reserve onBehalfOf (Some sender) = Inr (r0, u0, n0)"
    "valueToSend env w reserve sendValue = Inr txv"
  shows "deposit env symb amount sender onBehalfOf sendValue ''revert'' w = Inr w' \<longleftrightarrow>
    w' = w \<and> (\<exists>reason. send env w sender (PoolDeposit reserve amt onBehalfOf txv) = Inl (Reverted reason))"
  using assms by (simp add: deposit_def expectReverted_iff)

theorem revert_branch_ignores_reason_witness:
  "deposit demo_env ''DAI'' ''40000'' ''0xa'' ''0xb'' None ''revert'' 0 = Inr 0"
  using revert_branch_ignores_reason[of demo_env 0 "''DAI''" "''0xda1''" "''40000''" 40000 "''0xb''"
      "''0xa''" demo_reserve demo_saver 5000 None None 0]
  by (simp add: demo_env_def convertToCurrencyDecimals_def valueToSend_def truthy_def
      getContractsData_def getReserveData_def getUserData_def demo_raw_before_def demo_raw_user_def
      demo_reserve_def demo_saver_def const_simps rayDiv_def bn_div_def signed_divide_int_def)

text \<open>
  A borrow on behalf of another user that is expected to succeed passes only if the credit
  delegation afterwards is the one before minus the borrowed amount.
\<close>

theorem passed_borrow_consumes_allowance:
  assumes "borrow env symb amount mode user onBehalfOf timeTravel ''success'' w = Inr w'"
    "user \<noteq> onBehalfOf"
  shows "\<exists>token a amt. borrowAllowance env w token onBehalfOf user = Inr a \<and>
    borrowAllowance env w' token onBehalfOf user = Inr (a - amt) \<and>
    (\<exists>reserve. convertToCurrencyDecimals env w reserve amount = Inr amt)"
  using assms by (auto simp: borrow_def action_inv Let_def)

text \<open>The same chain answering a borrow on behalf of another user, with the comparison off.\<close>

definition demo_borrow_env :: "nat test_env" where
  "demo_borrow_env = demo_env\<lparr>skipIntegrityCheck := True,
     borrowAllowance := (\<lambda>w a o1 u. Inr (if w = 0 then 50000 else 10000)),
     send := (\<lambda>w u c. if w = 0 \<and> c = PoolBorrow ''0xda1'' 40000 ''1'' ''0xb''
        then Inr (\<lparr>rc_blockNumber = Some 2, rc_transactionHash = Some ''0xab'',
                   rc_cumulativeGasUsed = Some 21000\<rparr>, 1)
        else Inl (Reverted ''26''))\<rparr>"

lemma demo_borrow_values:
  "\<exists>e v. calcExpectedReserveDataAfterBorrow demo_config 40000 ''1'' demo_reserve 5000 5000 = Inr e \<and>
     calcExpectedUserDataAfterBorrow 40000 ''1'' demo_reserve e demo_saver 5000 5000 = Inr v"
  by (simp add: eval_defs empty_reserve_def demo_saver_def cong: step_congs)

lemma demo_borrow_action:
  "borrow demo_borrow_env ''DAI'' ''40000'' ''1'' ''0xa'' ''0xb'' None ''success'' 0 = Inr 1"
proof -
  have c: "getContractsData demo_borrow_env w r o1 s = getContractsData demo_env w r o1 s"
    for w r o1 s by (simp add: getContractsData_def getReserveData_def getUserData_def demo_borrow_env_def)
  have r: "getContractsData demo_env 0 ''0xda1'' ''0xb'' (Some ''0xa'') = Inr (demo_reserve, demo_saver, 5000)"
      "getContractsData demo_env 1 ''0xda1'' ''0xb'' (Some ''0xa'') =
         Inr (demo_reserve_after, demo_saver_after, 5000)"
    using demo_read_before[of "''0xa''"] demo_read_after[of "''0xa''"]
    by (simp_all add: getContractsData_def getUserData_def demo_env_def)
  obtain e v where ev: "calcExpectedReserveDataAfterBorrow demo_config 40000 ''1'' demo_reserve 5000 5000 = Inr e"
      "calcExpectedUserDataAfterBorrow 40000 ''1'' demo_reserve e demo_saver 5000 5000 = Inr v"
    using demo_borrow_values by blast
  then have cmp: "compareAfter demo_borrow_env demo_reserve_after demo_saver_after
      (calcExpectedReserveDataAfterBorrow demo_config 40000 ''1'' demo_reserve 5000 5000)
      (\<lambda>e. calcExpectedUserDataAfterBorrow 40000 ''1'' demo_reserve e demo_saver 5000 5000) 1 = Inr 1"
    by (simp add: compareAfter_iff demo_borrow_env_def)
  have "reserveAddress demo_borrow_env 0 ''DAI'' = Inr ''0xda1''"
      "convertToCurrencyDecimals demo_borrow_env 0 ''0xda1'' ''40000'' = Inr 40000"
      "reserveView demo_borrow_env 0 ''0xda1'' = Inr demo_raw_before"
      "borrowAllowance demo_borrow_env 0 (debtTokenOf ''1'' demo_raw_before) ''0xb'' ''0xa'' = Inr 50000"
      "borrowAllowance demo_borrow_env 1 (debtTokenOf ''1'' demo_raw_before) ''0xb'' ''0xa'' = Inr 10000"
      "send demo_borrow_env 0 ''0xa'' (PoolBorrow ''0xda1'' 40000 ''1'' ''0xb'') =
         Inr (\<lparr>rc_blockNumber = Some 2, rc_transactionHash = Some ''0xab'',
               rc_cumulativeGasUsed = Some 21000\<rparr>, 1)"
      "getTxTimestamp demo_borrow_env \<lparr>rc_blockNumber = Some 2, rc_transactionHash = Some ''0xab'',
               rc_cumulativeGasUsed = Some 21000\<rparr> 1 = Inr 5000"
      "reservesParams demo_borrow_env = demo_config" "travel demo_borrow_env None 1 = Inr 1"
    by (simp_all add: demo_borrow_env_def demo_env_def convertToCurrencyDecimals_def truthy_def
        getTxTimestamp_def travel_def)
  then show ?thesis
    using cmp by (simp add: borrow_def c r Let_def del: One_nat_def)
qed

theorem passed_borrow_consumes_allowance_witness:
  "\<exists>token a amt. borrowAllowance demo_borrow_env 0 token ''0xb'' ''0xa'' = Inr a \<and>
    borrowAllowance demo_borrow_env 1 token ''0xb'' ''0xa'' = Inr (a - amt) \<and> amt = 40000"
proof -
  have "''0xa'' \<noteq> ''0xb''" by simp
  from passed_borrow_consumes_allowance[OF demo_borrow_action this] show ?thesis
    by (simp add: demo_borrow_env_def demo_env_def convertToCurrencyDecimals_def)
qed

end
