(* ===== verification/ScenarioProps.thy ===== *)
theory ScenarioProps
  imports ScenarioEngine ActionProps
begin

text \<open>
  The scenario interpreter: a big-step relation for stories that the loop of \<open>executeStory\<close>
  implements, the validation of an action, and what a story can do to the chain.
\<close>

section \<open>A relational account of stories\<close>

text \<open>
  \<open>runs env accounts users as w r\<close>: running the actions \<open>as\<close> from the world \<open>w\<close> ends with \<open>r\<close>,
  the last world or the first exception.
\<close>

inductive runs ::
    "'w test_env \<Rightarrow> string list \<Rightarrow> string list \<Rightarrow> action list \<Rightarrow> 'w \<Rightarrow> 'w result \<Rightarrow> bool"
  for env accounts users where
  runs_done: "runs env accounts users [] w (Inr w)"
| runs_step: "executeAction env accounts users a w = Inr w1 \<Longrightarrow> runs env accounts users as w1 r \<Longrightarrow>
    runs env accounts users (a # as) w r"
| runs_fail: "executeAction env accounts users a w = Inl e \<Longrightarrow>
    runs env accounts users (a # as) w (Inl e)"

inductive_cases runs_NilE: "runs env accounts users [] w r"
inductive_cases runs_ConsE: "runs env accounts users (a # as) w r"

lemma runs_foldM:
  "runs env accounts users as w (foldM (\<lambda>w a. executeAction env accounts users a w) w as)"
proof (induction as arbitrary: w)
  case Nil
  show ?case by (simp add: runs_done)
next
  case (Cons a as)
  show ?case
    by (cases "executeAction env accounts users a w") (auto intro: runs_step runs_fail Cons.IH)
qed

lemma runs_det: "runs env accounts users as w r \<Longrightarrow> runs env accounts users as w r' \<Longrightarrow> r = r'"
proof (induction arbitrary: r' rule: runs.induct)
  case (runs_done w)
  then show ?case by (auto elim: runs_NilE)
next
  case (runs_step a w w1 as r)
  from runs_step.prems runs_step.hyps(1) have "runs env accounts users as w1 r'"
    by (auto elim: runs_ConsE)
  then show ?case by (rule runs_step.IH)
next
  case (runs_fail a w e as)
  then show ?case by (auto elim: runs_ConsE)
qed

lemma runs_Inl_split:
  "runs env accounts users as w r \<Longrightarrow> r = Inl e \<Longrightarrow>
     \<exists>pre a post w1. as = pre @ a # post \<and> runs env accounts users pre w (Inr w1) \<and>
       executeAction env accounts users a w1 = Inl e"
proof (induction rule: runs.induct)
  case (runs_step a w w1 as r)
  then obtain pre b post w2 where "as = pre @ b # post" "runs env accounts users pre w1 (Inr w2)"
      "executeAction env accounts users b w2 = Inl e" by blast
  then show ?case
    using runs.runs_step[OF runs_step.hyps(1)] by (metis append_Cons)
next
  case (runs_fail a w e' as)
  then have "runs env accounts users [] w (Inr w)" "executeAction env accounts users a w = Inl e"
    by (simp_all add: runs.runs_done)
  then show ?case by (metis append_Nil)
qed simp

section \<open>What an action does to the chain\<close>

text \<open>
  \<open>evolves env n w w'\<close>: the world \<open>w'\<close> is reached from \<open>w\<close> by \<open>n\<close> mined transactions and any number
  of calls that move the clock of the node.
\<close>

inductive evolves :: "'w test_env \<Rightarrow> nat \<Rightarrow> 'w \<Rightarrow> 'w \<Rightarrow> bool" for env where
  evolves_refl: "evolves env 0 w w"
| evolves_send: "evolves env n w w1 \<Longrightarrow> send env w1 u c = Inr (rc, w2) \<Longrightarrow> evolves env (Suc n) w w2"
| evolves_time: "evolves env n w w1 \<Longrightarrow> evolves env n w (evm_increaseTime env w1 s)"
| evolves_mine: "evolves env n w w1 \<Longrightarrow> evolves env n w (evm_mine env w1)"
| evolves_next: "evolves env n w w1 \<Longrightarrow> evm_setNextBlockTimestamp env w1 t = Inr w2 \<Longrightarrow>
    evolves env n w w2"

lemma evolves_trans: "evolves env m w1 w2 \<Longrightarrow> evolves env n w0 w1 \<Longrightarrow> evolves env (n + m) w0 w2"
  by (induction rule: evolves.induct) (auto intro: evolves.intros)

lemma advance_evolves:
  "evolves env n w w1 \<Longrightarrow> advanceTimeAndBlock env s w1 = Inr w2 \<Longrightarrow> evolves env n w w2"
  by (auto simp: advanceTimeAndBlock_def Let_def rbind_eq_Inr split: option.splits
      intro: evolves_time evolves_mine evolves_next)

lemma travel_evolves: "evolves env n w w1 \<Longrightarrow> travel env tt w1 = Inr w2 \<Longrightarrow> evolves env n w w2"
  by (auto simp: travel_def rbind_eq_Inr split: if_splits intro: advance_evolves)

definition one_transaction :: "'w test_env \<Rightarrow> 'w \<Rightarrow> 'w \<Rightarrow> bool" where
  "one_transaction env w w' \<longleftrightarrow> (\<exists>n \<le> 1. evolves env n w w')"

lemma one_transaction_refl [intro]: "one_transaction env w w"
  by (auto simp: one_transaction_def intro: evolves_refl)

lemma one_transaction_send [intro]: "send env w u c = Inr (rc, w') \<Longrightarrow> one_transaction env w w'"
  using evolves_send[OF evolves_refl, of env w u c rc w'] by (auto simp: one_transaction_def)

lemma one_transaction_travel:
  "one_transaction env w w1 \<Longrightarrow> travel env tt w1 = Inr w2 \<Longrightarrow> one_transaction env w w2"
  by (auto simp: one_transaction_def intro: travel_evolves)

lemma one_transaction_after_travel:
  assumes "travel env tt w = Inr w1" "one_transaction env w1 w2"
  shows "one_transaction env w w2"
proof -
  obtain n where "n \<le> 1" "evolves env n w1 w2" using assms(2) by (auto simp: one_transaction_def)
  moreover have "evolves env 0 w w1" using travel_evolves[OF evolves_refl assms(1)] .
  ultimately show ?thesis using evolves_trans by (fastforce simp: one_transaction_def)
qed

lemma mint_one: "mint env r a u w = Inr w' \<Longrightarrow> one_transaction env w w'"
  and approve_one: "approve env r u w = Inr w' \<Longrightarrow> one_transaction env w w'"
  by (auto simp: mint_def approve_def rbind_eq_Inr)

lemma deposit_one: "deposit env r a u o1 v e w = Inr w' \<Longrightarrow> one_transaction env w w'"
  by (auto simp: deposit_def Let_def action_inv split: if_splits)

lemma supply_one: "supplyWithPermit env r a u k o1 v e w = Inr w' \<Longrightarrow> one_transaction env w w'"
  by (auto simp: supplyWithPermit_def Let_def action_inv split: if_splits)

lemma withdraw_one: "withdraw env r a u e w = Inr w' \<Longrightarrow> one_transaction env w w'"
  by (auto simp: withdraw_def Let_def action_inv split: if_splits)

lemma delegate_one: "delegateBorrowAllowance env r a m u t e rm w = Inr w' \<Longrightarrow> one_transaction env w w'"
  by (auto simp: delegateBorrowAllowance_def Let_def action_inv
      split: if_splits sum.splits js_error.splits)

lemma borrow_one: "borrow env r a m u o1 tt e w = Inr w' \<Longrightarrow> one_transaction env w w'"
  by (auto simp: borrow_def Let_def action_inv split: if_splits sum.splits
      intro: one_transaction_travel[OF one_transaction_send])

lemma repay_one: "repay env r a m u o1 v e tt w = Inr w' \<Longrightarrow> one_transaction env w w'"
  by (auto simp: repay_def Let_def action_inv split: if_splits
      intro: one_transaction_after_travel[OF _ one_transaction_send]
        one_transaction_travel[OF one_transaction_refl])

lemma repayPermit_one: "repayWithPermit env r a m u k o1 v e w = Inr w' \<Longrightarrow> one_transaction env w w'"
  by (auto simp: repayWithPermit_def Let_def action_inv split: if_splits)

lemma collateral_one: "setUseAsCollateral env r u c e w = Inr w' \<Longrightarrow> one_transaction env w w'"
  by (auto simp: setUseAsCollateral_def Let_def action_inv split: if_splits)

lemma swap_one: "swapBorrowRateMode env r u m e w = Inr w' \<Longrightarrow> one_transaction env w w'"
  by (auto simp: swapBorrowRateMode_def Let_def action_inv split: if_splits)

lemma rebalance_one: "rebalanceStableBorrowRate env r u t e w = Inr w' \<Longrightarrow> one_transaction env w w'"
  by (auto simp: rebalanceStableBorrowRate_def Let_def action_inv split: if_splits)

lemmas action_one = mint_one approve_one deposit_one supply_one withdraw_one delegate_one borrow_one
  repay_one repayPermit_one collateral_one swap_one rebalance_one

lemma dispatch_one:
  assumes "dispatch env users args nam reserve mode user pk ex rm w = Inr w'"
  shows "one_transaction env w w'"
  using assms unfolding dispatch_def Let_def
  by (auto simp: rbind_eq_Inr split: if_splits intro: action_one)

lemma executeAction_one:
  "executeAction env accounts users a w = Inr w' \<Longrightarrow> one_transaction env w w'"
  by (auto simp: executeAction_def Let_def rbind_eq_Inr intro: dispatch_one)

section \<open>Validation\<close>

definition action_names :: "string list" where
  "action_names = [''mint'', ''approve'', ''deposit'', ''supplyWithPermit'', ''delegateBorrowAllowance'',
     ''withdraw'', ''borrow'', ''repay'', ''repayWithPermit'', ''setUseAsCollateral'',
     ''swapBorrowRateMode'', ''rebalanceStableBorrowRate'']"

lemma dispatch_known:
  "dispatch env users args nam reserve mode user pk ex rm w = Inr w' \<Longrightarrow> nam \<in> set action_names"
  by (auto simp: dispatch_def Let_def action_names_def split: if_splits)

lemma required_eq_Inr [simp]: "required s msg = Inr x \<longleftrightarrow> s = Some x \<and> x \<noteq> []"
  by (cases s) (auto simp: required_def truthy_def)

lemma required_eq_Inl [simp]: "required s msg = Inl e \<longleftrightarrow> \<not> truthy s \<and> e = Thrown msg"
  by (auto simp: required_def)

text \<open>The actions that consult the expected result, and do nothing when it is none of the two.\<close>

definition guarded_names :: "string list" where
  "guarded_names = [''deposit'', ''supplyWithPermit'', ''withdraw'', ''repayWithPermit'',
     ''setUseAsCollateral'', ''swapBorrowRateMode'', ''rebalanceStableBorrowRate'']"

lemma dispatch_unexpected:
  assumes "dispatch env users args nam reserve mode user pk ex rm w = Inr w'"
    "nam \<in> set guarded_names" "ex \<noteq> ''success''" "ex \<noteq> ''revert''"
  shows "w' = w"
  using assms
  by (auto simp: dispatch_def Let_def guarded_names_def deposit_def supplyWithPermit_def withdraw_def
      repayWithPermit_def setUseAsCollateral_def swapBorrowRateMode_def rebalanceStableBorrowRate_def
      rbind_eq_Inr)

section \<open>Properties\<close>

text \<open>A story on the chain of the deposit example, and one with an unknown second action.\<close>

definition demo_action :: action where
  "demo_action = \<lparr>action_name = Some ''deposit'',
     action_args = Some [(''reserve'', ''DAI''), (''amount'', ''40000''), (''user'', ''0'')],
     action_expected = Some ''success'', action_revertMessage = None\<rparr>"

definition demo_story :: story where
  "demo_story = \<lparr>story_description = ''User 0 deposits'', story_actions = [demo_action]\<rparr>"

definition demo_bad_story :: story where
  "demo_bad_story = demo_story\<lparr>story_actions := [demo_action,
     demo_action\<lparr>action_name := Some ''flashLoan''\<rparr>, demo_action]\<rparr>"

lemma parse_demo: "parseInt ''0'' = Some 0"
  by (simp add: parseInt_def sign_of_def digit_value_def)

lemma demo_executeAction: "executeAction demo_env [''k0'', ''k1''] [''0xa''] demo_action 0 = Inr 1"
  using demo_deposit_action
  by (simp add: executeAction_def demo_action_def required_def truthy_def parse_demo getTestWallets_def
      at_parsed_def at_index_def dispatch_def onBehalf_def del: One_nat_def)

lemma demo_executeStory: "executeStory demo_env [''k0'', ''k1''] [''0xa''] demo_story 0 = Inr 1"
  by (simp add: executeStory_def demo_story_def demo_executeAction del: One_nat_def)

lemma demo_bad_action:
  "executeAction demo_env [''k0'', ''k1''] [''0xa''] (demo_action\<lparr>action_name := Some ''flashLoan''\<rparr>) w =
     Inl (Thrown ''Invalid action requested: flashLoan'')"
  by (simp add: executeAction_def demo_action_def required_def truthy_def parse_demo getTestWallets_def
      at_parsed_def at_index_def dispatch_def onBehalf_def)

lemma demo_bad_executeStory:
  "executeStory demo_env [''k0'', ''k1''] [''0xa''] demo_bad_story 0 =
     Inl (Thrown ''Invalid action requested: flashLoan'')"
proof -
  have "story_actions demo_bad_story =
      [demo_action, demo_action\<lparr>action_name := Some ''flashLoan''\<rparr>, demo_action]"
    by (simp add: demo_bad_story_def)
  then show ?thesis unfolding executeStory_def
    by (simp only: foldM.simps demo_executeAction demo_bad_action rbind_Inr rbind_Inl)
qed

text \<open>
  A story throws only the exception of its first failing action: the actions before it all passed,
  and the ones after it did not run.
\<close>

theorem story_stops_at_first_failure:
  assumes "executeStory env accounts users s w = Inl e"
  shows "\<exists>pre a post w1. story_actions s = pre @ a # post \<and>
    executeStory env accounts users (s\<lparr>story_actions := pre\<rparr>) w = Inr w1 \<and>
    executeAction env accounts users a w1 = Inl e"
proof -
  have "runs env accounts users (story_actions s) w (Inl e)"
    using runs_foldM[of env accounts users "story_actions s" w] assms by (simp add: executeStory_def)
  from runs_Inl_split[OF this refl] obtain pre a post w1 where p: "story_actions s = pre @ a # post"
      "runs env accounts users pre w (Inr w1)" "executeAction env accounts users a w1 = Inl e"
    by auto
  have "foldM (\<lambda>w a. executeAction env accounts users a w) w pre = Inr w1"
    using runs_det[OF runs_foldM p(2)] .
  with p(1,3) show ?thesis by (auto simp: executeStory_def)
qed

theorem story_stops_at_first_failure_witness:
  "\<exists>pre a post w1. story_actions demo_bad_story = pre @ a # post \<and>
    executeStory demo_env [''k0'', ''k1''] [''0xa''] (demo_bad_story\<lparr>story_actions := pre\<rparr>) 0 = Inr w1 \<and>
    executeAction demo_env [''k0'', ''k1''] [''0xa''] a w1 =
      Inl (Thrown ''Invalid action requested: flashLoan'')"
  by (rule story_stops_at_first_failure[OF demo_bad_executeStory])

text \<open>
  C7: A passed story changes the chain only through mined transactions and calls that move its clock,
  and it mines at most one transaction for each of its actions.
\<close>

theorem story_mines_one_transaction_per_action:
  assumes "executeStory env accounts users s w = Inr w'"
  shows "\<exists>n \<le> length (story_actions s). evolves env n w w'"
proof -
  have "runs env accounts users as w (Inr w') \<Longrightarrow> \<exists>n \<le> length as. evolves env n w w'" for as
  proof (induction as arbitrary: w)
    case Nil
    then show ?case by (auto elim: runs_NilE intro: evolves_refl)
  next
    case (Cons a as)
    then obtain w1 where w1: "executeAction env accounts users a w = Inr w1"
        "runs env accounts users as w1 (Inr w')" by (auto elim: runs_ConsE)
    obtain m where "m \<le> 1" "evolves env m w w1"
      using executeAction_one[OF w1(1)] by (auto simp: one_transaction_def)
    moreover obtain n where "n \<le> length as" "evolves env n w1 w'" using Cons.IH[OF w1(2)] by blast
    ultimately show ?case using evolves_trans by (metis add_mono length_Cons plus_1_eq_Suc add.commute)
  qed
  then show ?thesis
    using runs_foldM[of env accounts users "story_actions s" w] assms by (simp add: executeStory_def)
qed

theorem story_mines_one_transaction_per_action_witness:
  "\<exists>n \<le> 1. evolves demo_env n 0 (1::nat)"
proof -
  have "length (story_actions demo_story) = 1" by (simp add: demo_story_def)
  with story_mines_one_transaction_per_action[OF demo_executeStory] show ?thesis by simp
qed

text \<open>
  An action runs only when it has a name of the twelve known ones, a reserve, a user that indexes a
  test wallet, and an expected result; anything else throws before the chain is touched.
\<close>

theorem executed_action_is_valid:
  assumes "executeAction env accounts users a w = Inr w'"
  shows "\<exists>arguments nam reserve i idx. action_args a = Some arguments \<and> action_name a = Some nam \<and>
    nam \<in> set action_names \<and> obj_get arguments ''reserve'' = Some reserve \<and> reserve \<noteq> [] \<and>
    obj_get arguments ''user'' = Some i \<and> parseInt i = Some idx \<and>
    0 \<le> idx + 1 \<and> idx + 1 < int (length accounts) \<and> truthy (action_expected a)"
proof -
  obtain arguments nam reserve i expct wallets pk where p: "action_args a = Some arguments"
    "action_name a = Some nam" "obj_get arguments ''reserve'' = Some reserve" "reserve \<noteq> []"
    "obj_get arguments ''user'' = Some i" "action_expected a = Some expct" "expct \<noteq> []"
    "getTestWallets accounts = Inr wallets"
    "at_parsed wallets (map_option (\<lambda>i. i + 1) (parseInt i)) = Some pk"
    "dispatch env users arguments nam reserve (rateModeOf (obj_get arguments ''borrowRateMode''))
       (at_parsed users (parseInt i)) pk expct (action_revertMessage a) w = Inr w'"
    using assms by (auto simp: executeAction_def Let_def rbind_eq_Inr)
  have "wallets = accounts" using p(8) by (auto simp: getTestWallets_def split: if_splits)
  then obtain idx where "parseInt i = Some idx" "0 \<le> idx + 1" "idx + 1 < int (length accounts)"
    using p(9) by (auto simp: at_parsed_def at_index_def split: option.splits if_splits)
  with p dispatch_known[OF p(10)] show ?thesis by (auto simp: truthy_def)
qed

theorem executed_action_is_valid_witness:
  "\<exists>arguments nam. action_args demo_action = Some arguments \<and> action_name demo_action = Some nam \<and>
    nam \<in> set action_names"
  using executed_action_is_valid[OF demo_executeAction] by blast

text \<open>
  For the actions that compare reserves, an expected result other than the two known ones passes
  without any effect: the transaction is never sent and nothing is checked.
\<close>

theorem unknown_expectation_is_vacuous:
  assumes "executeAction env accounts users a w = Inr w'" "action_name a = Some nam"
    "nam \<in> set guarded_names" "action_expected a \<notin> {Some ''success'', Some ''revert''}"
  shows "w' = w"
  using assms by (auto simp: executeAction_def Let_def rbind_eq_Inr intro: dispatch_unexpected)

theorem unknown_expectation_is_vacuous_witness:
  "\<exists>w'. executeAction demo_env [''k0'', ''k1''] [''0xa'']
      (demo_action\<lparr>action_expected := Some ''succes''\<rparr>) 0 = Inr w' \<and> w' = 0"
proof -
  have x: "executeAction demo_env [''k0'', ''k1''] [''0xa'']
      (demo_action\<lparr>action_expected := Some ''succes''\<rparr>) 0 = Inr 0"
    using demo_read_before[of "''0xa''"]
    by (simp add: executeAction_def demo_action_def required_def truthy_def parse_demo getTestWallets_def
        at_parsed_def at_index_def dispatch_def onBehalf_def deposit_def valueToSend_def
        convertToCurrencyDecimals_def demo_env_def)
  show ?thesis
    using unknown_expectation_is_vacuous[OF x, of "''deposit''"] x
    by (simp add: demo_action_def guarded_names_def)
qed

end
