(* ===== verification/Events.thy ===== *)
theory Events
  imports Actions
begin

text \<open>
  The events of the tokens: \<open>matchEvent\<close> of \<open>test-suites/helpers/utils/helpers.ts\<close> and the checked
  transactions of \<open>test-suites/helpers/utils/tokenization-events.ts\<close>. Each of these sends one
  transaction, reads indexes and balances, computes the list of the events it expects and looks each
  of them up in the logs of the receipt.

  The hash, the decoding of logs and \<open>BigNumber.from\<close> are the record \<open>ethers\<close>; the tokens and the
  pool are fields of \<open>'w token_env\<close>, beside the chain.
\<close>

section \<open>Event arguments\<close>

text \<open>
  The arguments of the events: integers (\<open>BigNumber\<close>), addresses and other strings, arrays.
\<close>

datatype ev_val = EvNum int | EvStr string | EvArr "ev_val list"

fun decimal :: "nat \<Rightarrow> string" where
  "decimal n = (if n < 10 then [char_of (48 + n)] else decimal (n div 10) @ [char_of (48 + n mod 10)])"

declare decimal.simps [simp del]

definition join_comma :: "string list \<Rightarrow> string" where
  "join_comma ss = concat (case ss of [] \<Rightarrow> [] | s # ss \<Rightarrow> s # map (\<lambda>s. CHR '','' # s) ss)"

text \<open>The string a value is converted to when it is compared with a string.\<close>

fun js_string :: "ev_val \<Rightarrow> string" where
  "js_string (EvNum n) = (if n < 0 then CHR ''-'' # decimal (nat (- n)) else decimal (nat n))"
| "js_string (EvStr s) = s"
| "js_string (EvArr vs) = join_comma (map js_string vs)"

text \<open>\<open>expected[j]\<close>; a \<open>BigNumber\<close> has no property of that name.\<close>

fun element :: "ev_val \<Rightarrow> nat \<Rightarrow> ev_val option" where
  "element (EvArr vs) j = (if j < length vs then Some (vs ! j) else None)"
| "element (EvStr s) j = (if j < length s then Some (EvStr [s ! j]) else None)"
| "element (EvNum _) j = None"

text \<open>The operator \<open>!=\<close> between an event argument that is not a number and an expected value.\<close>

fun differs :: "ev_val \<Rightarrow> ev_val option \<Rightarrow> bool" where
  "differs _ None \<longleftrightarrow> True"
| "differs (EvStr s) (Some x) \<longleftrightarrow> s \<noteq> js_string x"
| "differs (EvArr vs) (Some (EvStr s)) \<longleftrightarrow> js_string (EvArr vs) \<noteq> s"
| "differs _ (Some _) \<longleftrightarrow> True"

section \<open>Looking an event up\<close>

record log_entry =
  log_address :: string
  log_topics :: "string list"
  log_data :: string

record event_interface =
  iface_events :: "string list"
  iface_parseLog :: "log_entry \<Rightarrow> ev_val list result"

record ethers =
  keccak256 :: "string \<Rightarrow> string"
  toBigNumber :: "ev_val \<Rightarrow> int result"

definition topic0 :: "log_entry \<Rightarrow> string option" where
  "topic0 l = (case log_topics l of [] \<Rightarrow> None | t # _ \<Rightarrow> Some t)"

text \<open>The first signature of the contract that starts with the name and a parenthesis.\<close>

definition names_event :: "string \<Rightarrow> string \<Rightarrow> bool" where
  "names_event nam contractEvent \<longleftrightarrow> take (length nam) contractEvent = nam \<and>
     length nam < length contractEvent \<and> contractEvent ! length nam = CHR ''(''"

definition sigHashOf :: "ethers \<Rightarrow> event_interface \<Rightarrow> string \<Rightarrow> string option" where
  "sigHashOf eth eventContract nam =
     map_option (keccak256 eth) (List.find (names_event nam) (iface_events eventContract))"

text \<open>An expected empty array stands for empty bytes.\<close>

fun normalise :: "ev_val \<Rightarrow> ev_val" where
  "normalise (EvArr []) = EvStr ''0x''"
| "normalise v = v"

fun elements_agree :: "ethers \<Rightarrow> ev_val list \<Rightarrow> ev_val \<Rightarrow> nat \<Rightarrow> bool result" where
  "elements_agree eth [] expected j = Inr True"
| "elements_agree eth (EvNum n # params) expected j =
     (case element expected j of
        None \<Rightarrow> Inl (Thrown ''invalid BigNumber value'')
      | Some x \<Rightarrow> rbind (toBigNumber eth x) (\<lambda>m.
          if n \<noteq> m then Inr False else elements_agree eth params expected (Suc j)))"
| "elements_agree eth (p # params) expected j =
     (if differs p (element expected j) then Inr False
      else elements_agree eth params expected (Suc j))"

fun arg_agrees :: "ethers \<Rightarrow> ev_val \<Rightarrow> ev_val \<Rightarrow> bool result" where
  "arg_agrees eth (EvNum n) expected = rbind (toBigNumber eth expected) (\<lambda>m. Inr (n = m))"
| "arg_agrees eth (EvArr params) expected = elements_agree eth params expected 0"
| "arg_agrees eth (EvStr s) expected = Inr (\<not> differs (EvStr s) (Some expected))"

fun args_agree :: "ethers \<Rightarrow> ev_val list \<Rightarrow> ev_val list \<Rightarrow> bool result" where
  "args_agree eth (a # as) (x # xs) =
     rbind (arg_agrees eth a (normalise x)) (\<lambda>same.
       if same then args_agree eth as xs else Inr False)"
| "args_agree eth _ _ = Inr True"

text \<open>
  The loop over the logs. The flag is \<open>invalidParamsButExists\<close>: an event of the right signature and
  emitter was seen with other arguments.
\<close>

fun scanEvents ::
    "ethers \<Rightarrow> event_interface \<Rightarrow> string \<Rightarrow> string option \<Rightarrow> ev_val list option \<Rightarrow> string \<Rightarrow> bool \<Rightarrow>
       log_entry list \<Rightarrow> unit result" where
  "scanEvents eth eventContract nam emitterAddress expectedArgs sigHash invalidParamsButExists [] =
     Inl (Thrown (if invalidParamsButExists
       then ''Event \"'' @ nam @ ''\" found in logs but with unexpected args''
       else ''Event \"'' @ nam @ ''\" not found emitted by \"'' @ (case emitterAddress of None \<Rightarrow> ''undefined'' | Some a \<Rightarrow> a)
         @ ''\" in given transaction log''))"
| "scanEvents eth eventContract nam emitterAddress expectedArgs sigHash invalidParamsButExists
       (emittedEvent # events) =
     (if topic0 emittedEvent \<noteq> Some sigHash
         \<or> truthy emitterAddress \<and> log_address emittedEvent \<noteq> the emitterAddress
      then scanEvents eth eventContract nam emitterAddress expectedArgs sigHash
             invalidParamsButExists events
      else rbind (iface_parseLog eventContract emittedEvent) (\<lambda>args.
        case expectedArgs of
          None \<Rightarrow> Inr ()
        | Some expected \<Rightarrow>
            rbind (ensure (length expected = length args)
                     (Thrown (''Event \"'' @ nam @ ''\" emitted with correct signature, but expected args are of invalid length'')))
              (\<lambda>_.
            rbind (args_agree eth args expected) (\<lambda>same.
            if same then Inr ()
            else scanEvents eth eventContract nam emitterAddress expectedArgs sigHash True events))))"

definition matchEvent ::
    "ethers \<Rightarrow> log_entry list option \<Rightarrow> string \<Rightarrow> event_interface \<Rightarrow> string option \<Rightarrow>
       ev_val list option \<Rightarrow> unit result" where
  "matchEvent eth logs nam eventContract emitterAddress expectedArgs =
     (case logs of
        None \<Rightarrow> Inl (Thrown ''No events were emitted'')
      | Some events \<Rightarrow>
          (case sigHashOf eth eventContract nam of
             None \<Rightarrow> Inl (Thrown (''Event \"'' @ nam @ ''\" not found in provided contract. '' @ [CHR 0x0A]
               @ ''Are you sure you'' @ [CHR 0x27] @ ''re using the right contract?''))
           | Some sigHash \<Rightarrow> scanEvents eth eventContract nam emitterAddress expectedArgs sigHash
               False events))"

end
