(* ===== verification/TokenEvents.thy ===== *)
theory TokenEvents
  imports Events
begin

text \<open>
  The checked transactions of \<open>test-suites/helpers/utils/tokenization-events.ts\<close>. Every function
  sends one transaction, reads the world after it, builds the events it expects and matches them one
  after the other. The printing of events (\<open>debug\<close>) only writes to the console and is left out.
\<close>

section \<open>The events of the tokens\<close>

record event_sig =
  ev_sig :: string
  ev_args :: "string list"

definition RSTOKEN_EVENTS :: "event_sig list" where
  "RSTOKEN_EVENTS =
     [\<lparr>ev_sig = ''Transfer(address,address,uint256)'', ev_args = [''from'', ''to'', ''value'']\<rparr>,
      \<lparr>ev_sig = ''Mint(address,address,uint256,uint256,uint256)'',
       ev_args = [''caller'', ''onBehalfOf'', ''value'', ''balanceIncrease'', ''index'']\<rparr>,
      \<lparr>ev_sig = ''Burn(address,address,uint256,uint256,uint256)'',
       ev_args = [''from'', ''target'', ''value'', ''balanceIncrease'', ''index'']\<rparr>,
      \<lparr>ev_sig = ''BalanceTransfer(address,address,uint256,uint256)'',
       ev_args = [''from'', ''to'', ''value'', ''index'']\<rparr>]"

definition VARIABLE_DEBT_TOKEN_EVENTS :: "event_sig list" where
  "VARIABLE_DEBT_TOKEN_EVENTS =
     [\<lparr>ev_sig = ''Transfer(address,address,uint256)'', ev_args = [''from'', ''to'', ''value'']\<rparr>,
      \<lparr>ev_sig = ''Mint(address,address,uint256,uint256,uint256)'',
       ev_args = [''caller'', ''onBehalfOf'', ''value'', ''balanceIncrease'', ''index'']\<rparr>,
      \<lparr>ev_sig = ''Burn(address,address,uint256,uint256,uint256)'',
       ev_args = [''from'', ''target'', ''value'', ''balanceIncrease'', ''index'']\<rparr>]"

definition STABLE_DEBT_TOKEN_EVENTS :: "event_sig list" where
  "STABLE_DEBT_TOKEN_EVENTS =
     [\<lparr>ev_sig = ''Transfer(address,address,uint256)'', ev_args = [''from'', ''to'', ''value'']\<rparr>,
      \<lparr>ev_sig = ''Mint(address,address,uint256,uint256,uint256,uint256,uint256,uint256)'',
       ev_args = [''user'', ''onBehalfOf'', ''amount'', ''currentBalance'', ''balanceIncrease'',
         ''newRate'', ''avgStableRate'', ''newTotalSupply'']\<rparr>,
      \<lparr>ev_sig = ''Burn(address,uint256,uint256,uint256,uint256,uint256)'',
       ev_args = [''from'', ''amount'', ''currentBalance'', ''balanceIncrease'', ''avgStableRate'',
         ''newTotalSupply'']\<rparr>]"

text \<open>\<open>sig.split('(')[0]\<close>\<close>

definition eventName :: "event_sig \<Rightarrow> string" where
  "eventName s = takeWhile (\<lambda>c. c \<noteq> CHR ''('') (ev_sig s)"

text \<open>\<open>interface.decodeEventLog(eventName, data, topics)\<close> of the token\<close>

type_synonym event_decoder = "string \<Rightarrow> string \<Rightarrow> string list \<Rightarrow> ev_val list result"

definition eventsOf ::
    "ethers \<Rightarrow> event_sig list \<Rightarrow> event_decoder \<Rightarrow> string \<Rightarrow> log_entry list \<Rightarrow> string \<Rightarrow>
       ev_val list list result" where
  "eventsOf eth sigs decodeEventLog tokenAddress logs nam =
     (case List.find (\<lambda>item. eventName item = nam) sigs of
        None \<Rightarrow> Inr []
      | Some eventSig \<Rightarrow>
          let encodedSig = keccak256 eth (ev_sig eventSig);
              rawEvents = filter (\<lambda>log. topic0 log = Some encodedSig \<and> log_address log = tokenAddress)
                logs
          in mapM (\<lambda>rawEvent. decodeEventLog nam (log_data rawEvent) (log_topics rawEvent)) rawEvents)"

definition getRSTokenEvent where
  "getRSTokenEvent eth = eventsOf eth RSTOKEN_EVENTS"

definition getVariableDebtTokenEvent where
  "getVariableDebtTokenEvent eth = eventsOf eth VARIABLE_DEBT_TOKEN_EVENTS"

definition getStableDebtTokenEvent where
  "getStableDebtTokenEvent eth = eventsOf eth STABLE_DEBT_TOKEN_EVENTS"

section \<open>The tokens and the pool\<close>

datatype token_call =
    SupplyCall string int string
  | WithdrawCall string int string
  | TransferCall string string int
  | TransferFromCall string string string int
  | BorrowCall string int string string
  | RepayCall string int string string

record 'w token_env = "'w chain" +
  ethersOf :: ethers
  erc20Interface :: event_interface
  rsTokenInterface :: event_interface
  variableDebtInterface :: event_interface
  stableDebtInterface :: event_interface
  getPreviousIndex :: "'w \<Rightarrow> string \<Rightarrow> string \<Rightarrow> int result"
  scaledBalanceOf :: "'w \<Rightarrow> string \<Rightarrow> string \<Rightarrow> int result"
  getReserveNormalizedIncome :: "'w \<Rightarrow> string \<Rightarrow> int result"
  getReserveNormalizedVariableDebt :: "'w \<Rightarrow> string \<Rightarrow> int result"
  getUserStableRate :: "'w \<Rightarrow> string \<Rightarrow> string \<Rightarrow> int result"
  principalBalanceOf :: "'w \<Rightarrow> string \<Rightarrow> string \<Rightarrow> int result"
  getUserLastUpdated :: "'w \<Rightarrow> string \<Rightarrow> string \<Rightarrow> int result"
  getAverageStableRate :: "'w \<Rightarrow> string \<Rightarrow> int result"
  getSupplyTotal :: "'w \<Rightarrow> string \<Rightarrow> int result"
  submit :: "'w \<Rightarrow> string \<Rightarrow> token_call \<Rightarrow> (receipt \<times> log_entry list option \<times> 'w) result"
  emitsMockRepayment :: "string \<Rightarrow> receipt \<Rightarrow> ev_val list \<Rightarrow> bool"

record expected_event =
  xe_name :: string
  xe_contract :: event_interface
  xe_emitter :: string
  xe_args :: "ev_val list"

text \<open>The calls of \<open>matchEvent\<close> one after the other.\<close>

definition matchEvents :: "ethers \<Rightarrow> log_entry list option \<Rightarrow> expected_event list \<Rightarrow> unit result" where
  "matchEvents eth logs evs =
     foldM (\<lambda>_ e. matchEvent eth logs (xe_name e) (xe_contract e) (Some (xe_emitter e))
       (Some (xe_args e))) () evs"

definition transferEvent :: "event_interface \<Rightarrow> string \<Rightarrow> string \<Rightarrow> string \<Rightarrow> int \<Rightarrow> expected_event" where
  "transferEvent contract token sender receiver v =
     \<lparr>xe_name = ''Transfer'', xe_contract = contract, xe_emitter = token,
      xe_args = [EvStr sender, EvStr receiver, EvNum v]\<rparr>"

definition mintEvent ::
    "event_interface \<Rightarrow> string \<Rightarrow> string \<Rightarrow> string \<Rightarrow> int list \<Rightarrow> expected_event" where
  "mintEvent contract token caller onBehalfOf vs =
     \<lparr>xe_name = ''Mint'', xe_contract = contract, xe_emitter = token,
      xe_args = EvStr caller # EvStr onBehalfOf # map EvNum vs\<rparr>"

definition burnEvent :: "event_interface \<Rightarrow> string \<Rightarrow> ev_val list \<Rightarrow> expected_event" where
  "burnEvent contract token args =
     \<lparr>xe_name = ''Burn'', xe_contract = contract, xe_emitter = token, xe_args = args\<rparr>"

definition getBalanceIncrease :: "int \<Rightarrow> int \<Rightarrow> int \<Rightarrow> int" where
  "getBalanceIncrease scaledBalance indexBeforeAction indexAfterAction =
     rayMul scaledBalance indexAfterAction - rayMul scaledBalance indexBeforeAction"

section \<open>Supply and withdraw\<close>

definition supplyEvents ::
    "'w token_env \<Rightarrow> string \<Rightarrow> string \<Rightarrow> string \<Rightarrow> int \<Rightarrow> string \<Rightarrow> int \<Rightarrow> int \<Rightarrow> expected_event list" where
  "supplyEvents env user underlying rsToken amount onBehalfOf balanceIncrease indexAfter =
     [transferEvent (erc20Interface env) underlying user rsToken amount,
      transferEvent (rsTokenInterface env) rsToken ZERO_ADDRESS onBehalfOf (amount + balanceIncrease),
      mintEvent (rsTokenInterface env) rsToken user onBehalfOf
        [amount + balanceIncrease, balanceIncrease, indexAfter]]"

definition supplyTokens ::
    "'w token_env \<Rightarrow> string \<Rightarrow> string \<Rightarrow> string \<Rightarrow> string \<Rightarrow> 'w \<Rightarrow>
       (receipt \<times> log_entry list option \<times> 'w) result" where
  "supplyTokens env user underlying amountToConvert onBehalfOf w =
     rbind (convertToCurrencyDecimals env w underlying amountToConvert) (\<lambda>amount.
     rbind (reserveView env w underlying) (\<lambda>v.
     let rsToken = raw_RSTokenAddress v in
     rbind (getPreviousIndex env w rsToken onBehalfOf) (\<lambda>previousIndex.
     rbind (submit env w user (SupplyCall underlying amount onBehalfOf)) (\<lambda>(rcpt, logs, w).
     rbind (getReserveNormalizedIncome env w underlying) (\<lambda>indexAfter.
     rbind (rayDiv amount indexAfter) (\<lambda>addedScaledBalance.
     rbind (scaledBalanceOf env w rsToken onBehalfOf) (\<lambda>scaledAfter.
     let scaledBalance = scaledAfter - addedScaledBalance;
         balanceIncrease = getBalanceIncrease scaledBalance previousIndex indexAfter in
     rbind (matchEvents (ethersOf env) logs
              (supplyEvents env user underlying rsToken amount onBehalfOf balanceIncrease indexAfter))
       (\<lambda>_. Inr (rcpt, logs, w)))))))))"

definition withdrawEvents ::
    "'w token_env \<Rightarrow> string \<Rightarrow> string \<Rightarrow> string \<Rightarrow> int \<Rightarrow> string \<Rightarrow> int \<Rightarrow> int \<Rightarrow> expected_event list" where
  "withdrawEvents env user underlying rsToken amount to balanceIncrease indexAfter =
     transferEvent (erc20Interface env) underlying rsToken to amount #
     (if balanceIncrease > amount then
        [transferEvent (rsTokenInterface env) rsToken ZERO_ADDRESS user (balanceIncrease - amount),
         mintEvent (rsTokenInterface env) rsToken user user
           [balanceIncrease - amount, balanceIncrease, indexAfter]]
      else
        [transferEvent (rsTokenInterface env) rsToken user ZERO_ADDRESS (amount - balanceIncrease),
         burnEvent (rsTokenInterface env) rsToken
           [EvStr user, EvStr to, EvNum (amount - balanceIncrease), EvNum balanceIncrease,
            EvNum indexAfter]])"

definition withdrawTokens ::
    "'w token_env \<Rightarrow> string \<Rightarrow> string \<Rightarrow> string \<Rightarrow> string \<Rightarrow> 'w \<Rightarrow>
       (receipt \<times> log_entry list option \<times> 'w) result" where
  "withdrawTokens env user underlying amountToConvert to w =
     rbind (convertToCurrencyDecimals env w underlying amountToConvert) (\<lambda>amount.
     rbind (reserveView env w underlying) (\<lambda>v.
     let rsToken = raw_RSTokenAddress v in
     rbind (getPreviousIndex env w rsToken user) (\<lambda>previousIndex.
     rbind (submit env w user (WithdrawCall underlying amount to)) (\<lambda>(rcpt, logs, w).
     rbind (getReserveNormalizedIncome env w underlying) (\<lambda>indexAfter.
     rbind (rayDiv amount indexAfter) (\<lambda>addedScaledBalance.
     rbind (scaledBalanceOf env w rsToken user) (\<lambda>scaledAfter.
     let scaledBalance = scaledAfter + addedScaledBalance;
         balanceIncrease = getBalanceIncrease scaledBalance previousIndex indexAfter in
     rbind (matchEvents (ethersOf env) logs
              (withdrawEvents env user underlying rsToken amount to balanceIncrease indexAfter))
       (\<lambda>_. Inr (rcpt, logs, w)))))))))"

section \<open>Transfers\<close>

definition transferEvents ::
    "'w token_env \<Rightarrow> string \<Rightarrow> string \<Rightarrow> string \<Rightarrow> int \<Rightarrow> int \<Rightarrow> string \<Rightarrow> int \<Rightarrow> int \<Rightarrow> int \<Rightarrow>
       expected_event list" where
  "transferEvents env user origin rsToken amount addedScaledBalance to fromBalanceIncrease
       toBalanceIncrease indexAfter =
     [transferEvent (rsTokenInterface env) rsToken origin to amount,
      \<lparr>xe_name = ''BalanceTransfer'', xe_contract = rsTokenInterface env, xe_emitter = rsToken,
       xe_args = [EvStr origin, EvStr to, EvNum addedScaledBalance, EvNum indexAfter]\<rparr>] @
     (if fromBalanceIncrease > 0 then
        [transferEvent (rsTokenInterface env) rsToken ZERO_ADDRESS origin fromBalanceIncrease,
         mintEvent (rsTokenInterface env) rsToken user origin
           [fromBalanceIncrease, fromBalanceIncrease, indexAfter]]
      else []) @
     (if origin \<noteq> to \<and> toBalanceIncrease > 0 then
        [transferEvent (rsTokenInterface env) rsToken ZERO_ADDRESS to toBalanceIncrease,
         mintEvent (rsTokenInterface env) rsToken user to
           [toBalanceIncrease, toBalanceIncrease, indexAfter]]
      else [])"

text \<open>
  \<open>transfer\<close> and \<open>transferFrom\<close> differ in the transaction and in whose tokens move: the caller's own,
  or those of \<open>origin\<close>.
\<close>

definition checkedTransfer ::
    "'w token_env \<Rightarrow> string \<Rightarrow> string \<Rightarrow> (string \<Rightarrow> int \<Rightarrow> token_call) \<Rightarrow> string \<Rightarrow> string \<Rightarrow> string \<Rightarrow> 'w \<Rightarrow>
       (receipt \<times> log_entry list option \<times> 'w) result" where
  "checkedTransfer env user origin call underlying amountToConvert to w =
     rbind (convertToCurrencyDecimals env w underlying amountToConvert) (\<lambda>amount.
     rbind (reserveView env w underlying) (\<lambda>v.
     let rsToken = raw_RSTokenAddress v in
     rbind (getPreviousIndex env w rsToken origin) (\<lambda>fromPreviousIndex.
     rbind (getPreviousIndex env w rsToken to) (\<lambda>toPreviousIndex.
     rbind (submit env w user (call rsToken amount)) (\<lambda>(rcpt, logs, w).
     rbind (getReserveNormalizedIncome env w underlying) (\<lambda>indexAfter.
     rbind (rayDiv amount indexAfter) (\<lambda>addedScaledBalance.
     let deltaScaledBalance = (if origin = to then 0 else addedScaledBalance) in
     rbind (scaledBalanceOf env w rsToken origin) (\<lambda>fromAfter.
     rbind (scaledBalanceOf env w rsToken to) (\<lambda>toAfter.
     let fromScaledBalance = fromAfter + deltaScaledBalance;
         toScaledBalance = toAfter - deltaScaledBalance;
         fromBalanceIncrease = getBalanceIncrease fromScaledBalance fromPreviousIndex indexAfter;
         toBalanceIncrease = getBalanceIncrease toScaledBalance toPreviousIndex indexAfter in
     rbind (matchEvents (ethersOf env) logs
              (transferEvents env user origin rsToken amount addedScaledBalance to
                 fromBalanceIncrease toBalanceIncrease indexAfter))
       (\<lambda>_. Inr (rcpt, logs, w)))))))))))"

definition transfer where
  "transfer env user underlying amountToConvert to w =
     checkedTransfer env user user (\<lambda>token amount. TransferCall token to amount) underlying
       amountToConvert to w"

definition transferFrom where
  "transferFrom env user origin underlying amountToConvert to w =
     checkedTransfer env user origin (\<lambda>token amount. TransferFromCall token origin to amount)
       underlying amountToConvert to w"

section \<open>Variable debt\<close>

definition variableBorrowEvents ::
    "'w token_env \<Rightarrow> string \<Rightarrow> string \<Rightarrow> string \<Rightarrow> string \<Rightarrow> int \<Rightarrow> string \<Rightarrow> int \<Rightarrow> int \<Rightarrow>
       expected_event list" where
  "variableBorrowEvents env user underlying rsToken debtToken amount onBehalfOf balanceIncrease
       indexAfter =
     [transferEvent (erc20Interface env) underlying rsToken user amount,
      transferEvent (variableDebtInterface env) debtToken ZERO_ADDRESS onBehalfOf
        (amount + balanceIncrease),
      mintEvent (variableDebtInterface env) debtToken user onBehalfOf
        [amount + balanceIncrease, balanceIncrease, indexAfter]]"

definition variableBorrow ::
    "'w token_env \<Rightarrow> string \<Rightarrow> string \<Rightarrow> string \<Rightarrow> string \<Rightarrow> 'w \<Rightarrow>
       (receipt \<times> log_entry list option \<times> 'w) result" where
  "variableBorrow env user underlying amountToConvert onBehalfOf w =
     rbind (convertToCurrencyDecimals env w underlying amountToConvert) (\<lambda>amount.
     rbind (reserveView env w underlying) (\<lambda>v.
     let rsToken = raw_RSTokenAddress v; debtToken = raw_variableDebtTokenAddress v in
     rbind (getPreviousIndex env w debtToken onBehalfOf) (\<lambda>previousIndex.
     rbind (submit env w user (BorrowCall underlying amount RateMode_Variable onBehalfOf))
       (\<lambda>(rcpt, logs, w).
     rbind (getReserveNormalizedVariableDebt env w underlying) (\<lambda>indexAfter.
     rbind (rayDiv amount indexAfter) (\<lambda>addedScaledBalance.
     rbind (scaledBalanceOf env w debtToken onBehalfOf) (\<lambda>scaledAfter.
     let scaledBalance = scaledAfter - addedScaledBalance;
         balanceIncrease = getBalanceIncrease scaledBalance previousIndex indexAfter in
     rbind (matchEvents (ethersOf env) logs
              (variableBorrowEvents env user underlying rsToken debtToken amount onBehalfOf
                 balanceIncrease indexAfter))
       (\<lambda>_. Inr (rcpt, logs, w)))))))))"

definition repayVariableEvents ::
    "'w token_env \<Rightarrow> string \<Rightarrow> string \<Rightarrow> string \<Rightarrow> string \<Rightarrow> int \<Rightarrow> string \<Rightarrow> int \<Rightarrow> int \<Rightarrow>
       expected_event list" where
  "repayVariableEvents env user underlying rsToken debtToken amount onBehalfOf balanceIncrease
       indexAfter =
     transferEvent (erc20Interface env) underlying user rsToken amount #
     (if balanceIncrease > amount then
        [transferEvent (variableDebtInterface env) debtToken ZERO_ADDRESS onBehalfOf
           (balanceIncrease - amount),
         mintEvent (variableDebtInterface env) debtToken onBehalfOf onBehalfOf
           [balanceIncrease - amount, balanceIncrease, indexAfter]]
      else
        [transferEvent (variableDebtInterface env) debtToken onBehalfOf ZERO_ADDRESS
           (amount - balanceIncrease),
         burnEvent (variableDebtInterface env) debtToken
           [EvStr onBehalfOf, EvStr ZERO_ADDRESS, EvNum (amount - balanceIncrease),
            EvNum balanceIncrease, EvNum indexAfter]])"

definition repayVariableBorrow ::
    "'w token_env \<Rightarrow> string \<Rightarrow> string \<Rightarrow> string \<Rightarrow> string \<Rightarrow> 'w \<Rightarrow>
       (receipt \<times> log_entry list option \<times> 'w) result" where
  "repayVariableBorrow env user underlying amountToConvert onBehalfOf w =
     rbind (convertToCurrencyDecimals env w underlying amountToConvert) (\<lambda>amount.
     rbind (reserveView env w underlying) (\<lambda>v.
     let rsToken = raw_RSTokenAddress v; debtToken = raw_variableDebtTokenAddress v in
     rbind (getPreviousIndex env w debtToken onBehalfOf) (\<lambda>previousIndex.
     rbind (submit env w user (RepayCall underlying amount RateMode_Variable onBehalfOf))
       (\<lambda>(rcpt, logs, w).
     rbind (ensure (emitsMockRepayment env rsToken rcpt [EvStr user, EvStr onBehalfOf, EvNum amount])
              (AssertionError ''MockRepayment'')) (\<lambda>_.
     rbind (getReserveNormalizedVariableDebt env w underlying) (\<lambda>indexAfter.
     rbind (rayDiv amount indexAfter) (\<lambda>addedScaledBalance.
     rbind (scaledBalanceOf env w debtToken onBehalfOf) (\<lambda>scaledAfter.
     let scaledBalance = scaledAfter + addedScaledBalance;
         balanceIncrease = getBalanceIncrease scaledBalance previousIndex indexAfter in
     rbind (matchEvents (ethersOf env) logs
              (repayVariableEvents env user underlying rsToken debtToken amount onBehalfOf
                 balanceIncrease indexAfter))
       (\<lambda>_. Inr (rcpt, logs, w))))))))))"

section \<open>Stable debt\<close>

definition stableBorrowEvents ::
    "'w token_env \<Rightarrow> string \<Rightarrow> string \<Rightarrow> string \<Rightarrow> string \<Rightarrow> int \<Rightarrow> string \<Rightarrow> int \<Rightarrow> int \<Rightarrow> int \<Rightarrow> int \<Rightarrow>
       int \<Rightarrow> expected_event list" where
  "stableBorrowEvents env user underlying rsToken debtToken amount onBehalfOf balanceIncrease
       newPrincipalBalance stableRateAfter currentAvgStableRate totalSupply =
     [transferEvent (erc20Interface env) underlying rsToken user amount,
      transferEvent (stableDebtInterface env) debtToken ZERO_ADDRESS onBehalfOf
        (amount + balanceIncrease),
      mintEvent (stableDebtInterface env) debtToken user onBehalfOf
        [amount + balanceIncrease, newPrincipalBalance, balanceIncrease, stableRateAfter,
         currentAvgStableRate, totalSupply]]"

definition stableBorrow ::
    "'w token_env \<Rightarrow> string \<Rightarrow> string \<Rightarrow> string \<Rightarrow> string \<Rightarrow> 'w \<Rightarrow>
       (receipt \<times> log_entry list option \<times> 'w) result" where
  "stableBorrow env user underlying amountToConvert onBehalfOf w =
     rbind (convertToCurrencyDecimals env w underlying amountToConvert) (\<lambda>amount.
     rbind (reserveView env w underlying) (\<lambda>v.
     let rsToken = raw_RSTokenAddress v; debtToken = raw_stableDebtTokenAddress v in
     rbind (getUserStableRate env w debtToken onBehalfOf) (\<lambda>previousIndex.
     rbind (principalBalanceOf env w debtToken onBehalfOf) (\<lambda>principalBalance.
     rbind (getUserLastUpdated env w debtToken onBehalfOf) (\<lambda>lastTimestamp.
     rbind (submit env w user (BorrowCall underlying amount RateMode_Stable onBehalfOf))
       (\<lambda>(rcpt, logs, w).
     rbind (getTxTimestamp env rcpt w) (\<lambda>txTimestamp.
     let newPrincipalBalance = calcExpectedStableDebtTokenBalance principalBalance previousIndex
           lastTimestamp txTimestamp;
         balanceIncrease = newPrincipalBalance - principalBalance in
     rbind (getAverageStableRate env w debtToken) (\<lambda>currentAvgStableRate.
     rbind (getUserStableRate env w debtToken onBehalfOf) (\<lambda>stableRateAfter.
     rbind (getSupplyTotal env w debtToken) (\<lambda>totalSupply.
     rbind (matchEvents (ethersOf env) logs
              (stableBorrowEvents env user underlying rsToken debtToken amount onBehalfOf
                 balanceIncrease newPrincipalBalance stableRateAfter currentAvgStableRate totalSupply))
       (\<lambda>_. Inr (rcpt, logs, w))))))))))))"

definition repayStableEvents ::
    "'w token_env \<Rightarrow> string \<Rightarrow> string \<Rightarrow> string \<Rightarrow> string \<Rightarrow> int \<Rightarrow> string \<Rightarrow> int \<Rightarrow> int \<Rightarrow> int \<Rightarrow> int \<Rightarrow>
       int \<Rightarrow> expected_event list" where
  "repayStableEvents env user underlying rsToken debtToken amount onBehalfOf balanceIncrease
       newPrincipalBalance stableRateAfter currentAvgStableRate totalSupply =
     transferEvent (erc20Interface env) underlying user rsToken amount #
     (if balanceIncrease > amount then
        [transferEvent (stableDebtInterface env) debtToken ZERO_ADDRESS onBehalfOf
           (balanceIncrease - amount),
         mintEvent (stableDebtInterface env) debtToken onBehalfOf onBehalfOf
           [balanceIncrease - amount, newPrincipalBalance, balanceIncrease, stableRateAfter,
            currentAvgStableRate, totalSupply]]
      else
        [transferEvent (stableDebtInterface env) debtToken onBehalfOf ZERO_ADDRESS
           (amount - balanceIncrease),
         burnEvent (stableDebtInterface env) debtToken
           [EvStr onBehalfOf, EvNum (amount - balanceIncrease), EvNum newPrincipalBalance,
            EvNum balanceIncrease, EvNum currentAvgStableRate, EvNum totalSupply]])"

definition repayStableBorrow ::
    "'w token_env \<Rightarrow> string \<Rightarrow> string \<Rightarrow> string \<Rightarrow> string \<Rightarrow> 'w \<Rightarrow>
       (receipt \<times> log_entry list option \<times> 'w) result" where
  "repayStableBorrow env user underlying amountToConvert onBehalfOf w =
     rbind (convertToCurrencyDecimals env w underlying amountToConvert) (\<lambda>amount.
     rbind (reserveView env w underlying) (\<lambda>v.
     let rsToken = raw_RSTokenAddress v; debtToken = raw_stableDebtTokenAddress v in
     rbind (principalBalanceOf env w debtToken onBehalfOf) (\<lambda>principalBalance.
     rbind (getUserStableRate env w debtToken onBehalfOf) (\<lambda>previousIndex.
     rbind (getUserLastUpdated env w debtToken onBehalfOf) (\<lambda>lastTimestamp.
     rbind (submit env w user (RepayCall underlying amount RateMode_Stable onBehalfOf))
       (\<lambda>(rcpt, logs, w).
     rbind (getTxTimestamp env rcpt w) (\<lambda>txTimestamp.
     let newPrincipalBalance = calcExpectedStableDebtTokenBalance principalBalance previousIndex
           lastTimestamp txTimestamp;
         balanceIncrease = newPrincipalBalance - principalBalance in
     rbind (getAverageStableRate env w debtToken) (\<lambda>currentAvgStableRate.
     rbind (getUserStableRate env w debtToken onBehalfOf) (\<lambda>stableRateAfter.
     rbind (getSupplyTotal env w debtToken) (\<lambda>totalSupply.
     rbind (matchEvents (ethersOf env) logs
              (repayStableEvents env user underlying rsToken debtToken amount onBehalfOf
                 balanceIncrease newPrincipalBalance stableRateAfter currentAvgStableRate totalSupply))
       (\<lambda>_. Inr (rcpt, logs, w))))))))))))"

end
