(* ===== verification/EventProps.thy ===== *)
theory EventProps
  imports TokenEvents
begin

text \<open>
  What a passed event check says: the lookup finds a log that agrees with the expectation or throws,
  and the transfers a checked transaction expects add up to the change of the holder's balance.
\<close>

section \<open>The lookup\<close>

text \<open>A log of the event and emitter that is looked for.\<close>

definition hit :: "string \<Rightarrow> string \<Rightarrow> log_entry \<Rightarrow> bool" where
  "hit sigHash emitter l \<longleftrightarrow> topic0 l = Some sigHash \<and> log_address l = emitter"

definition agrees_log :: "ethers \<Rightarrow> event_interface \<Rightarrow> ev_val list \<Rightarrow> log_entry \<Rightarrow> bool" where
  "agrees_log lib contract expected l \<longleftrightarrow>
     (\<exists>args. iface_parseLog contract l = Inr args \<and> args_agree lib args expected = Inr True)"

text \<open>The log decodes to as many arguments as expected, and none of the comparisons throws.\<close>

definition decodes :: "ethers \<Rightarrow> event_interface \<Rightarrow> ev_val list \<Rightarrow> log_entry \<Rightarrow> bool" where
  "decodes lib contract expected l \<longleftrightarrow>
     (\<exists>args. iface_parseLog contract l = Inr args \<and> length args = length expected \<and>
        ok (args_agree lib args expected))"

lemma scanEvents_passes:
  assumes "em \<noteq> []" "\<forall>l\<in>set logs. hit h em l \<longrightarrow> decodes lib c xs l"
  shows "scanEvents lib c nam (Some em) (Some xs) h flag logs = Inr () \<longleftrightarrow>
    (\<exists>l\<in>set logs. hit h em l \<and> agrees_log lib c xs l)"
  using assms(2)
proof (induction logs arbitrary: flag)
  case Nil
  then show ?case by simp
next
  case (Cons l logs)
  have IH: "scanEvents lib c nam (Some em) (Some xs) h f logs = Inr () \<longleftrightarrow>
      (\<exists>l\<in>set logs. hit h em l \<and> agrees_log lib c xs l)" for f
    using Cons by simp
  show ?case
  proof (cases "hit h em l")
    case False
    then show ?thesis using IH assms(1) by (auto simp: hit_def truthy_def)
  next
    case True
    then obtain args b where a: "iface_parseLog c l = Inr args" "length args = length xs"
        "args_agree lib args xs = Inr b"
      using Cons.prems by (auto simp: decodes_def ok_iff)
    then show ?thesis using True IH assms(1) by (cases b) (auto simp: hit_def truthy_def agrees_log_def)
  qed
qed

lemma scanEvents_fails:
  assumes "em \<noteq> []" "\<forall>l\<in>set logs. hit h em l \<longrightarrow> decodes lib c xs l"
    "\<forall>l\<in>set logs. hit h em l \<longrightarrow> \<not> agrees_log lib c xs l"
  shows "scanEvents lib c nam (Some em) (Some xs) h flag logs =
    scanEvents lib c nam (Some em) (Some xs) h (flag \<or> (\<exists>l\<in>set logs. hit h em l)) []"
  using assms(2,3)
proof (induction logs arbitrary: flag)
  case Nil
  then show ?case by simp
next
  case (Cons l logs)
  have IH: "scanEvents lib c nam (Some em) (Some xs) h f logs =
      scanEvents lib c nam (Some em) (Some xs) h (f \<or> (\<exists>l\<in>set logs. hit h em l)) []" for f
    using Cons by simp
  show ?case
  proof (cases "hit h em l")
    case False
    then show ?thesis using IH assms(1) by (auto simp: hit_def truthy_def)
  next
    case True
    then obtain args where "iface_parseLog c l = Inr args" "length args = length xs"
        "args_agree lib args xs = Inr False"
      using Cons.prems by (fastforce simp: decodes_def ok_iff agrees_log_def)
    then show ?thesis using True IH[of True] assms(1) by (auto simp: hit_def truthy_def)
  qed
qed

definition demo_ethers :: ethers where
  "demo_ethers = \<lparr>keccak256 = (\<lambda>s. s),
     toBigNumber = (\<lambda>v. case v of EvNum n \<Rightarrow> Inr n | _ \<Rightarrow> Inl (Thrown ''invalid BigNumber''))\<rparr>"

text \<open>A decoder that reads the arguments from the data: two addresses and a number in unary.\<close>

definition demo_iface :: event_interface where
  "demo_iface = \<lparr>iface_events = [''TransferX(uint256)'', ''Transfer(address,address,uint256)''],
     iface_parseLog = (\<lambda>l. Inr [EvStr (take 1 (log_data l)), EvStr (take 1 (drop 1 (log_data l))),
       EvNum (int (length (drop 2 (log_data l))))])\<rparr>"

definition demo_log :: "string \<Rightarrow> log_entry" where
  "demo_log d = \<lparr>log_address = ''0x57'', log_topics = [''Transfer(address,address,uint256)''],
     log_data = d\<rparr>"

text \<open>
  C10: \<open>matchEvent\<close> returns exactly when some log of the event and emitter agrees with the expected
  arguments; otherwise it throws, and the message says whether the event was seen at all.
\<close>

theorem matchEvent_decides:
  assumes "sigHashOf lib contract nam = Some h" "em \<noteq> []"
    "\<forall>l\<in>set logs. hit h em l \<longrightarrow> decodes lib contract expected l"
  shows "matchEvent lib (Some logs) nam contract (Some em) (Some expected) =
    (if \<exists>l\<in>set logs. hit h em l \<and> agrees_log lib contract expected l then Inr ()
     else if \<exists>l\<in>set logs. hit h em l
       then Inl (Thrown (''Event \"'' @ nam @ ''\" found in logs but with unexpected args''))
     else Inl (Thrown (''Event \"'' @ nam @ ''\" not found emitted by \"'' @ em
       @ ''\" in given transaction log'')))"
proof (cases "\<exists>l\<in>set logs. hit h em l \<and> agrees_log lib contract expected l")
  case True
  then show ?thesis
    using scanEvents_passes[OF assms(2,3), of nam False] assms(1) by (simp add: matchEvent_def)
next
  case False
  then have "\<forall>l\<in>set logs. hit h em l \<longrightarrow> \<not> agrees_log lib contract expected l" by blast
  from scanEvents_fails[OF assms(2,3) this, of nam False] False assms(1) show ?thesis
    by (simp add: matchEvent_def)
qed

theorem matchEvent_decides_witness:
  "matchEvent demo_ethers (Some [demo_log ''ab111'', demo_log ''ab11'']) ''Transfer'' demo_iface
     (Some ''0x57'') (Some [EvStr ''a'', EvStr ''b'', EvNum 2]) = Inr () \<and>
   matchEvent demo_ethers (Some [demo_log ''ab111'']) ''Transfer'' demo_iface
     (Some ''0x57'') (Some [EvStr ''a'', EvStr ''b'', EvNum 2]) =
       Inl (Thrown ''Event \"Transfer\" found in logs but with unexpected args'')"
proof -
  let ?h = "''Transfer(address,address,uint256)''" and ?x = "[EvStr ''a'', EvStr ''b'', EvNum 2]"
  have s: "sigHashOf demo_ethers demo_iface ''Transfer'' = Some ?h"
    by (simp add: sigHashOf_def demo_iface_def names_event_def demo_ethers_def)
  have d: "decodes demo_ethers demo_iface ?x (demo_log d)" for d
    by (simp add: decodes_def demo_iface_def demo_ethers_def)
  have h: "hit ?h ''0x57'' (demo_log d)" for d
    by (simp add: hit_def topic0_def demo_log_def)
  have y: "agrees_log demo_ethers demo_iface ?x (demo_log ''ab11'')"
      "\<not> agrees_log demo_ethers demo_iface ?x (demo_log ''ab111'')"
    by (simp_all add: agrees_log_def demo_iface_def demo_ethers_def demo_log_def)
  show ?thesis
    using matchEvent_decides[OF s, of "''0x57''" "[demo_log ''ab111'', demo_log ''ab11'']" ?x]
      matchEvent_decides[OF s, of "''0x57''" "[demo_log ''ab111'']" ?x] d h y
    by simp
qed

end
