(* ===== verification/Words.thy ===== *)
theory Words
  imports Prelude "HOL-Library.Word"
begin

text \<open>
  The 256-bit words of the contracts: arguments are encoded into them, and the arithmetic of Solidity
  reverts instead of wrapping round.
\<close>

type_synonym u256 = "256 word"

text \<open>A number as an argument of \<open>bits\<close> bits: encoding throws when it does not fit.\<close>

definition encode :: "nat \<Rightarrow> int \<Rightarrow> u256 result" where
  "encode bits v = (if 0 \<le> v \<and> v < 2 ^ bits then Inr (word_of_int v) else Inl (Thrown ''value out-of-bounds''))"

definition uadd :: "u256 \<Rightarrow> u256 \<Rightarrow> u256 result" where
  "uadd a b = (if a \<le> a + b then Inr (a + b) else Inl (Reverted ''panic 0x11''))"

definition usub :: "u256 \<Rightarrow> u256 \<Rightarrow> u256 result" where
  "usub a b = (if b \<le> a then Inr (a - b) else Inl (Reverted ''panic 0x11''))"

lemma encode_eq [result_simps]: "encode n v = Inr x \<longleftrightarrow> 0 \<le> v \<and> v < 2 ^ n \<and> x = word_of_int v"
  by (auto simp: encode_def)

lemma uint_encoded: "encode n v = Inr x \<Longrightarrow> n \<le> 256 \<Longrightarrow> uint x = v"
  using power_increasing[of n 256 "2 :: int"] by (auto simp: encode_eq uint_word_of_int)

lemma uint_below: "uint (a :: u256) < 2 ^ 256"
  using uint_lt2p[of a] by simp

lemma uint_max: "uint (- 1 :: u256) = 2 ^ 256 - 1"
  by (simp add: unsigned_minus_1_eq_mask mask_eq_exp_minus_1)

lemma uadd_iff: "uadd a b = Inr c \<longleftrightarrow> uint c = uint a + uint b"
proof -
  have "a \<le> a + b \<longleftrightarrow> uint a + uint b < 2 ^ 256"
    using uint_below[of a] uint_below[of b] by (auto simp: word_le_def uint_plus_if')
  moreover have "uint a + uint b < 2 ^ 256 \<Longrightarrow> uint (a + b) = uint a + uint b"
    by (simp add: uint_plus_if')
  ultimately show ?thesis using uint_below[of c] by (auto simp: uadd_def word_uint_eq_iff)
qed

lemma usub_iff: "usub a b = Inr c \<longleftrightarrow> uint c = uint a - uint b"
  using uint_below[of a] uint_below[of b] uint_ge_0[of c]
  by (auto simp: usub_def word_le_def word_uint_eq_iff uint_sub_if') (metis diff_ge_0_iff_ge uint_ge_0)

text \<open>The operations return when the result fits.\<close>

lemma word_value: "0 \<le> v \<Longrightarrow> v < 2 ^ 256 \<Longrightarrow> \<exists>c :: u256. uint c = v"
  by (rule exI[of _ "word_of_int v"]) (simp add: uint_word_of_int)

lemma uadd_fits: "uint a + uint b < 2 ^ 256 \<Longrightarrow> \<exists>c. uadd a b = Inr c \<and> uint c = uint a + uint b"
  using word_value[of "uint a + uint b"] by (simp add: uadd_iff)

lemma usub_fits: "uint b \<le> uint a \<Longrightarrow> \<exists>c. usub a b = Inr c \<and> uint c = uint a - uint b"
  by (rule exI[of _ "a - b"]) (simp add: usub_iff uint_sub_if')

lemma product_bound: "uint (a :: u256) \<le> m \<Longrightarrow> uint (b :: u256) \<le> n \<Longrightarrow> uint a * uint b \<le> m * n"
  by (intro mult_mono) (auto intro: order_trans[OF uint_ge_0])

end
