(* ===== verification/ContractMath.thy ===== *)
theory ContractMath
  imports Words WadRayMath
begin

text \<open>
  The fixed-point arithmetic of the contracts, \<open>contracts/protocol/libraries/math/WadRayMath.sol\<close> and
  \<open>PercentageMath.sol\<close>, on 256-bit words. The assembly wraps round, so each operation first checks
  that it will not, and reverts without a reason otherwise. The arithmetic of the TypeScript is the
  same on unbounded integers: each operation here is a refinement of one there.
\<close>

section \<open>Operations\<close>

definition WAD_u256 :: u256 where "WAD_u256 = 1000000000000000000"
definition HALF_WAD_u256 :: u256 where "HALF_WAD_u256 = 500000000000000000"
definition RAY_u256 :: u256 where "RAY_u256 = 1000000000000000000000000000"
definition HALF_RAY_u256 :: u256 where "HALF_RAY_u256 = 500000000000000000000000000"
definition WAD_RAY_RATIO_u256 :: u256 where "WAD_RAY_RATIO_u256 = 1000000000"
definition PERCENTAGE_FACTOR_u256 :: u256 where "PERCENTAGE_FACTOR_u256 = 10000"
definition HALF_PERCENTAGE_FACTOR_u256 :: u256 where "HALF_PERCENTAGE_FACTOR_u256 = 5000"

text \<open>The assembly blocks of the multiplications and of the divisions, which differ in the unit only.\<close>

definition mulHalfUp :: "u256 \<Rightarrow> u256 \<Rightarrow> u256 \<Rightarrow> u256 \<Rightarrow> u256 result" where
  "mulHalfUp unit half a b =
     rbind (ensure (b = 0 \<or> a \<le> (- 1 - half) div b) (Reverted [])) (\<lambda>_. Inr ((a * b + half) div unit))"

definition divHalfUp :: "u256 \<Rightarrow> u256 \<Rightarrow> u256 \<Rightarrow> u256 result" where
  "divHalfUp unit a b =
     rbind (ensure (b \<noteq> 0 \<and> a \<le> (- 1 - b div 2) div unit) (Reverted [])) (\<lambda>_. Inr ((a * unit + b div 2) div b))"

definition wadMul_u256 :: "u256 \<Rightarrow> u256 \<Rightarrow> u256 result" where
  "wadMul_u256 = mulHalfUp WAD_u256 HALF_WAD_u256"

definition wadDiv_u256 :: "u256 \<Rightarrow> u256 \<Rightarrow> u256 result" where
  "wadDiv_u256 = divHalfUp WAD_u256"

definition rayMul_u256 :: "u256 \<Rightarrow> u256 \<Rightarrow> u256 result" where
  "rayMul_u256 = mulHalfUp RAY_u256 HALF_RAY_u256"

definition rayDiv_u256 :: "u256 \<Rightarrow> u256 \<Rightarrow> u256 result" where
  "rayDiv_u256 = divHalfUp RAY_u256"

definition percentMul_u256 :: "u256 \<Rightarrow> u256 \<Rightarrow> u256 result" where
  "percentMul_u256 = mulHalfUp PERCENTAGE_FACTOR_u256 HALF_PERCENTAGE_FACTOR_u256"

definition percentDiv_u256 :: "u256 \<Rightarrow> u256 \<Rightarrow> u256 result" where
  "percentDiv_u256 = divHalfUp PERCENTAGE_FACTOR_u256"

definition rayToWad_u256 :: "u256 \<Rightarrow> u256" where
  "rayToWad_u256 a =
     (let b = a div WAD_RAY_RATIO_u256;
          remainder = a mod WAD_RAY_RATIO_u256
      in if remainder < WAD_RAY_RATIO_u256 div 2 then b else b + 1)"

definition wadToRay_u256 :: "u256 \<Rightarrow> u256 result" where
  "wadToRay_u256 a =
     (let b = a * WAD_RAY_RATIO_u256 in
      rbind (ensure (b div WAD_RAY_RATIO_u256 = a) (Reverted [])) (\<lambda>_. Inr b))"

section \<open>Refinement of the unbounded arithmetic\<close>

lemma le_div_iff: "0 < (b :: int) \<Longrightarrow> a \<le> n div b \<longleftrightarrow> a * b \<le> n"
proof
  assume b: "0 < b" and "a \<le> n div b"
  then have "a * b \<le> n div b * b" by (intro mult_right_mono) auto
  also have "\<dots> \<le> n" using pos_mod_sign[OF b, of n] by (simp add: minus_mod_eq_div_mult[symmetric])
  finally show "a * b \<le> n" .
next
  assume b: "0 < b" and "a * b \<le> n"
  then show "a \<le> n div b" using zdiv_mono1[of "a * b" n b] by simp
qed

text \<open>A fixed-point arithmetic whose unit fits a word.\<close>

locale fixed_point_words = fixed_point quot unit half mul dv
  for quot :: "int \<Rightarrow> int \<Rightarrow> int" and unit half :: int and mul :: "int \<Rightarrow> int \<Rightarrow> int"
    and dv :: "int \<Rightarrow> int \<Rightarrow> int result" +
  fixes unit_u half_u :: u256
  assumes uint_unit: "uint unit_u = unit" and uint_half: "uint half_u = half"
begin

lemma mul_refines:
  "mulHalfUp unit_u half_u a b = Inr c \<longleftrightarrow>
     uint a * uint b + half < 2 ^ 256 \<and> uint c = mul (uint a) (uint b)"
proof -
  have h: "uint (- 1 - half_u) = 2 ^ 256 - 1 - half"
    using uint_half uint_below[of half_u] by (simp add: uint_sub_if' uint_max)
  have "b = 0 \<or> a \<le> (- 1 - half_u) div b \<longleftrightarrow> uint a * uint b + half < 2 ^ 256"
  proof (cases "b = 0")
    case True
    then show ?thesis using uint_half uint_below[of half_u] by simp
  next
    case False
    then have "0 < uint b" using uint_ge_0[of b] by (simp add: word_uint_eq_iff le_less)
    then have "uint a \<le> (2 ^ 256 - 1 - half) div uint b \<longleftrightarrow> uint a * uint b \<le> 2 ^ 256 - 1 - half"
      by (rule le_div_iff)
    then show ?thesis using False by (auto simp: word_le_def uint_div h)
  qed
  moreover have "uint ((a * b + half_u) div unit_u) = mul (uint a) (uint b)" if "uint a * uint b + half < 2 ^ 256"
    using that uint_half uint_unit half_pos
    by (simp add: uint_div uint_word_ariths mul_div add.commute)
  ultimately show ?thesis by (auto simp: mulHalfUp_def rbind_eq_Inr word_uint_eq_iff)
qed

lemma div_refines:
  "divHalfUp unit_u a b = Inr c \<longleftrightarrow>
     uint b \<noteq> 0 \<and> uint a * unit + uint b div 2 < 2 ^ 256 \<and> dv (uint a) (uint b) = Inr (uint c)"
proof -
  have h: "uint (- 1 - b div 2) = 2 ^ 256 - 1 - uint b div 2"
    using uint_below[of b] by (simp add: uint_sub_if' uint_div uint_max)
  have "a \<le> (- 1 - b div 2) div unit_u \<longleftrightarrow> uint a * unit + uint b div 2 < 2 ^ 256"
    using unit_pos by (auto simp: word_le_def uint_div h uint_unit le_div_iff)
  moreover have "uint ((a * unit_u + b div 2) div b) = (uint b div 2 + uint a * unit) div uint b"
    if "uint a * unit + uint b div 2 < 2 ^ 256"
  proof -
    have "0 \<le> uint b div 2" "0 \<le> uint a * unit" using unit_pos by simp_all
    then have "uint (a * unit_u + b div 2) = uint b div 2 + uint a * unit"
      using that by (simp add: uint_word_ariths uint_unit uint_div mod_simps mod_pos_pos_trivial add.commute)
    then show ?thesis by (simp add: uint_div)
  qed
  moreover have "dv (uint a) (uint b) = Inr ((uint b div 2 + uint a * unit) div uint b)" if "uint b \<noteq> 0"
  proof (rule dv_div)
    show "0 < uint b" using that uint_ge_0[of b] by linarith
  qed simp
  ultimately show ?thesis by (auto simp: divHalfUp_def rbind_eq_Inr word_uint_eq_iff)
qed

text \<open>Without an overflow, and with a divisor, they return.\<close>

lemma mul_fits:
  assumes "uint a * uint b + half < 2 ^ 256"
  shows "\<exists>c. mulHalfUp unit_u half_u a b = Inr c \<and> uint c = mul (uint a) (uint b)"
proof -
  have nn: "0 \<le> uint a * uint b" by simp
  have "mul (uint a) (uint b) \<le> mul (uint a) (uint b) * unit"
    using mul_nonneg[of "uint a" "uint b"] mult_left_mono[of 1 unit "mul (uint a) (uint b)"] unit_pos by simp
  then have "mul (uint a) (uint b) < 2 ^ 256" using mul_upper[OF nn] assms by linarith
  then obtain c :: u256 where "uint c = mul (uint a) (uint b)" using word_value mul_nonneg by force
  then show ?thesis using assms by (auto simp: mul_refines)
qed

lemma div_fits:
  assumes "uint b \<noteq> 0" "uint a * unit + uint b div 2 < 2 ^ 256"
  shows "\<exists>c. divHalfUp unit_u a b = Inr c \<and> dv (uint a) (uint b) = Inr (uint c)"
proof -
  obtain q where q: "dv (uint a) (uint b) = Inr q" using dv_ok[OF assms(1)] by auto
  have b: "0 < uint b" using assms(1) uint_ge_0[of b] by linarith
  note d = dv_bounds[OF uint_ge_0 b q]
  have "q \<le> q * uint b" using d(1) b mult_left_mono[of 1 "uint b" q] by simp
  then have "q < 2 ^ 256" using d(2) assms(2) by linarith
  then obtain c :: u256 where "uint c = q" using word_value d(1) by force
  then show ?thesis using q assms by (auto simp: div_refines)
qed

end

interpretation ray_u: fixed_point_words "(sdiv)" RAY HALF_RAY rayMul rayDiv RAY_u256 HALF_RAY_u256
  by unfold_locales (simp_all add: RAY_u256_def HALF_RAY_u256_def const_simps)

interpretation wad_u: fixed_point_words "(sdiv)" WAD HALF_WAD wadMul wadDiv WAD_u256 HALF_WAD_u256
  by unfold_locales (simp_all add: WAD_u256_def HALF_WAD_u256_def const_simps)

interpretation percent_u: fixed_point_words "(sdiv)" PERCENTAGE_FACTOR HALF_PERCENTAGE percentMul percentDiv
    PERCENTAGE_FACTOR_u256 HALF_PERCENTAGE_FACTOR_u256
  by unfold_locales (simp_all add: PERCENTAGE_FACTOR_u256_def HALF_PERCENTAGE_FACTOR_u256_def const_simps)

lemma rayMul_refines: "rayMul_u256 a b = Inr c \<Longrightarrow> uint c = rayMul (uint a) (uint b)"
  by (simp add: rayMul_u256_def ray_u.mul_refines)

lemma rayDiv_refines: "rayDiv_u256 a b = Inr c \<Longrightarrow> uint b \<noteq> 0 \<and> rayDiv (uint a) (uint b) = Inr (uint c)"
  by (simp add: rayDiv_u256_def ray_u.div_refines)

lemma percentMul_refines: "percentMul_u256 a b = Inr c \<Longrightarrow> uint c = percentMul (uint a) (uint b)"
  by (simp add: percentMul_u256_def percent_u.mul_refines)

lemma wadToRay_iff:
  "wadToRay_u256 a = Inr c \<longleftrightarrow> uint a * WAD_RAY_RATIO < 2 ^ 256 \<and> uint c = wadToRay (uint a)"
proof -
  let ?n = "uint a * 1000000000"
  have "?n mod 2 ^ 256 div 1000000000 = uint a \<longleftrightarrow> ?n < 2 ^ 256"
  proof
    assume eq: "?n mod 2 ^ 256 div 1000000000 = uint a"
    have "?n mod 2 ^ 256 div 1000000000 * 1000000000 \<le> ?n mod 2 ^ 256"
      using pos_mod_sign[of "1000000000 :: int" "?n mod 2 ^ 256"] by (simp add: minus_mod_eq_div_mult[symmetric])
    then have "?n \<le> ?n mod 2 ^ 256" unfolding eq .
    moreover have "?n mod 2 ^ 256 < 2 ^ 256" by simp
    ultimately show "?n < 2 ^ 256" by linarith
  qed simp
  then show ?thesis
    by (auto simp: wadToRay_u256_def rbind_eq_Inr Let_def WAD_RAY_RATIO_u256_def word_uint_eq_iff uint_div
        uint_word_ariths wadToRay_def const_simps)
qed

lemmas rayMul_fits = ray_u.mul_fits[folded rayMul_u256_def]
lemmas rayDiv_fits = ray_u.div_fits[folded rayDiv_u256_def]
lemmas percentMul_fits = percent_u.mul_fits[folded percentMul_u256_def]

lemma wadToRay_fits:
  "uint a < 2 ^ 128 \<Longrightarrow> \<exists>c. wadToRay_u256 a = Inr c \<and> uint c = wadToRay (uint a)"
  using word_value[of "uint a * WAD_RAY_RATIO"] by (auto simp: wadToRay_iff wadToRay_def const_simps)

lemma half_up_div:
  "((500000000 :: int) + x) div 1000000000 = (if x mod 1000000000 < 500000000 then x div 1000000000 else x div 1000000000 + 1)"
proof -
  define q r where qr: "q = x div 1000000000" "r = x mod 1000000000"
  have x: "x = 1000000000 * q + r" and r: "0 \<le> r" "r < 1000000000" by (simp_all add: qr)
  have "500000000 + x = 1000000000 * q + (r + 500000000)"
    "500000000 + x = 1000000000 * (q + 1) + (r - 500000000)"
    by (simp_all add: x algebra_simps)
  then have "(500000000 + x) div 1000000000 = (if r < 500000000 then q else q + 1)"
    using int_div_pos_eq[of "500000000 + x" 1000000000 q] int_div_pos_eq[of "500000000 + x" 1000000000 "q + 1"] r
    by auto
  then show ?thesis by (simp add: qr)
qed

lemma rayToWad_refines: "uint (rayToWad_u256 a) = rayToWad (uint a)"
proof -
  let ?b = "uint a div 1000000000"
  have s: "uint (a div 1000000000) = ?b" "uint (a mod 1000000000) = uint a mod 1000000000"
    by (simp_all add: uint_div uint_mod)
  have "?b * 1000000000 \<le> uint a" using le_div_iff[of 1000000000 ?b "uint a"] by simp
  then have "?b + 1 < 2 ^ 256" "0 \<le> ?b"
    using uint_below[of a] by (simp_all add: pos_imp_zdiv_nonneg_iff)
  then have "uint (a div 1000000000 + 1) = ?b + 1" by (simp add: uint_word_ariths s mod_pos_pos_trivial)
  then show ?thesis
    using s by (simp add: rayToWad_u256_def rayToWad_div half_up_div WAD_RAY_RATIO_u256_def Let_def word_less_def)
qed

end
