(* ===== verification/RateContract.thy ===== *)
theory RateContract
  imports ContractMath Rates
begin

text \<open>
  The rate strategy of the contracts,
  \<open>contracts/protocol/pool/DefaultReserveInterestRateStrategy.sol\<close>, on 256-bit words with the checked
  arithmetic of Solidity. The rates the TypeScript expects are the ones this contract computes.
\<close>

section \<open>The contract\<close>

record rate_strategy =
  OPTIMAL_USAGE_RATIO :: u256
  MAX_EXCESS_USAGE_RATIO :: u256
  OPTIMAL_STABLE_TO_TOTAL_DEBT_RATIO :: u256
  MAX_EXCESS_STABLE_TO_TOTAL_DEBT_RATIO :: u256
  rs_baseVariableBorrowRate :: u256
  rs_variableRateSlope1 :: u256
  rs_variableRateSlope2 :: u256
  rs_stableRateSlope1 :: u256
  rs_stableRateSlope2 :: u256
  rs_baseStableRateOffset :: u256
  rs_stableRateExcessOffset :: u256

text \<open>The constructor, with the encoding of its arguments; \<open>83\<close> and \<open>84\<close> are its error codes.\<close>

definition new_rate_strategy :: "interest_rate_strategy_params \<Rightarrow> rate_strategy result" where
  "new_rate_strategy p =
     rbind (encode 256 (optimalUsageRatio p)) (\<lambda>optimal.
     rbind (encode 256 (baseVariableBorrowRate p)) (\<lambda>base.
     rbind (encode 256 (variableRateSlope1 p)) (\<lambda>v1.
     rbind (encode 256 (variableRateSlope2 p)) (\<lambda>v2.
     rbind (encode 256 (stableRateSlope1 p)) (\<lambda>s1.
     rbind (encode 256 (stableRateSlope2 p)) (\<lambda>s2.
     rbind (encode 256 (baseStableRateOffset p)) (\<lambda>offset.
     rbind (encode 256 (stableRateExcessOffset p)) (\<lambda>excess.
     rbind (encode 256 (optimalStableToTotalDebtRatio p)) (\<lambda>stable.
     rbind (ensure (optimal \<le> RAY_u256) (Reverted ''83'')) (\<lambda>_.
     rbind (ensure (stable \<le> RAY_u256) (Reverted ''84'')) (\<lambda>_.
     Inr \<lparr>OPTIMAL_USAGE_RATIO = optimal, MAX_EXCESS_USAGE_RATIO = RAY_u256 - optimal,
       OPTIMAL_STABLE_TO_TOTAL_DEBT_RATIO = stable, MAX_EXCESS_STABLE_TO_TOTAL_DEBT_RATIO = RAY_u256 - stable,
       rs_baseVariableBorrowRate = base, rs_variableRateSlope1 = v1, rs_variableRateSlope2 = v2,
       rs_stableRateSlope1 = s1, rs_stableRateSlope2 = s2, rs_baseStableRateOffset = offset,
       rs_stableRateExcessOffset = excess\<rparr>)))))))))))"

definition getBaseStableBorrowRate :: "rate_strategy \<Rightarrow> u256 result" where
  "getBaseStableBorrowRate s = uadd (rs_variableRateSlope1 s) (rs_baseStableRateOffset s)"

text \<open>\<open>CalculateInterestRatesParams\<close>, with the token balance of the reserve read by the call.\<close>

record rate_inputs =
  ri_unbacked :: u256
  ri_liquidityAdded :: u256
  ri_liquidityTaken :: u256
  ri_totalStableDebt :: u256
  ri_totalVariableDebt :: u256
  ri_averageStableBorrowRate :: u256
  ri_reserveFactor :: u256
  ri_balance :: u256

definition getOverallBorrowRate :: "u256 \<Rightarrow> u256 \<Rightarrow> u256 \<Rightarrow> u256 \<Rightarrow> u256 result" where
  "getOverallBorrowRate totalStableDebt totalVariableDebt currentVariableBorrowRate currentAverageStableBorrowRate =
     rbind (uadd totalStableDebt totalVariableDebt) (\<lambda>totalDebt.
     if totalDebt = 0 then Inr 0
     else
       rbind (wadToRay_u256 totalVariableDebt) (\<lambda>v.
       rbind (rayMul_u256 v currentVariableBorrowRate) (\<lambda>weightedVariableRate.
       rbind (wadToRay_u256 totalStableDebt) (\<lambda>s.
       rbind (rayMul_u256 s currentAverageStableBorrowRate) (\<lambda>weightedStableRate.
       rbind (uadd weightedVariableRate weightedStableRate) (\<lambda>weighted.
       rbind (wadToRay_u256 totalDebt) (\<lambda>d.
       rayDiv_u256 weighted d)))))))"

text \<open>The ratios of stable debt to debt, of debt to liquidity and of debt to backed liquidity.\<close>

definition debtRatios :: "rate_inputs \<Rightarrow> u256 \<Rightarrow> (u256 \<times> u256 \<times> u256) result" where
  "debtRatios i totalDebt =
     (if totalDebt = 0 then Inr (0, 0, 0)
      else
        rbind (rayDiv_u256 (ri_totalStableDebt i) totalDebt) (\<lambda>stableToTotalDebtRatio.
        rbind (uadd (ri_balance i) (ri_liquidityAdded i)) (\<lambda>x.
        rbind (usub x (ri_liquidityTaken i)) (\<lambda>availableLiquidity.
        rbind (uadd availableLiquidity totalDebt) (\<lambda>availableLiquidityPlusDebt.
        rbind (rayDiv_u256 totalDebt availableLiquidityPlusDebt) (\<lambda>borrowUsageRatio.
        rbind (uadd availableLiquidityPlusDebt (ri_unbacked i)) (\<lambda>y.
        rbind (rayDiv_u256 totalDebt y) (\<lambda>supplyUsageRatio.
        Inr (stableToTotalDebtRatio, borrowUsageRatio, supplyUsageRatio)))))))))"

text \<open>\<open>rate += slope1 + slope2.rayMul(excess)\<close> above the optimal usage, \<open>rate += ...\<close> below it.\<close>

definition aboveOptimal :: "u256 \<Rightarrow> u256 \<Rightarrow> u256 \<Rightarrow> u256 \<Rightarrow> u256 result" where
  "aboveOptimal rate slope1 slope2 excess =
     rbind (rayMul_u256 slope2 excess) (\<lambda>m. rbind (uadd slope1 m) (\<lambda>x. uadd rate x))"

definition belowOptimal :: "rate_strategy \<Rightarrow> u256 \<Rightarrow> u256 \<Rightarrow> u256 \<Rightarrow> u256 result" where
  "belowOptimal s rate slope1 ratio =
     rbind (rayMul_u256 slope1 ratio) (\<lambda>m. rbind (rayDiv_u256 m (OPTIMAL_USAGE_RATIO s)) (\<lambda>x. uadd rate x))"

text \<open>The two branches on the usage of the liquidity, and the surcharge on the stable rate.\<close>

definition slopeRates :: "rate_strategy \<Rightarrow> u256 \<Rightarrow> u256 \<Rightarrow> (u256 \<times> u256) result" where
  "slopeRates s currentStableBorrowRate borrowUsageRatio =
     (if OPTIMAL_USAGE_RATIO s < borrowUsageRatio then
        rbind (usub borrowUsageRatio (OPTIMAL_USAGE_RATIO s)) (\<lambda>over.
        rbind (rayDiv_u256 over (MAX_EXCESS_USAGE_RATIO s)) (\<lambda>excessBorrowUsageRatio.
        rbind (aboveOptimal currentStableBorrowRate (rs_stableRateSlope1 s) (rs_stableRateSlope2 s)
          excessBorrowUsageRatio) (\<lambda>sr.
        rbind (aboveOptimal (rs_baseVariableBorrowRate s) (rs_variableRateSlope1 s) (rs_variableRateSlope2 s)
          excessBorrowUsageRatio) (\<lambda>vr.
        Inr (sr, vr)))))
      else
        rbind (belowOptimal s currentStableBorrowRate (rs_stableRateSlope1 s) borrowUsageRatio) (\<lambda>sr.
        rbind (belowOptimal s (rs_baseVariableBorrowRate s) (rs_variableRateSlope1 s) borrowUsageRatio) (\<lambda>vr.
        Inr (sr, vr))))"

definition excessRate :: "rate_strategy \<Rightarrow> u256 \<Rightarrow> u256 \<Rightarrow> u256 result" where
  "excessRate s currentStableBorrowRate stableToTotalDebtRatio =
     (if OPTIMAL_STABLE_TO_TOTAL_DEBT_RATIO s < stableToTotalDebtRatio then
        rbind (usub stableToTotalDebtRatio (OPTIMAL_STABLE_TO_TOTAL_DEBT_RATIO s)) (\<lambda>over.
        rbind (rayDiv_u256 over (MAX_EXCESS_STABLE_TO_TOTAL_DEBT_RATIO s)) (\<lambda>excessStableDebtRatio.
        rbind (rayMul_u256 (rs_stableRateExcessOffset s) excessStableDebtRatio) (\<lambda>m.
        uadd currentStableBorrowRate m)))
      else Inr currentStableBorrowRate)"

definition calculateInterestRates :: "rate_strategy \<Rightarrow> rate_inputs \<Rightarrow> (u256 \<times> u256 \<times> u256) result" where
  "calculateInterestRates s i =
     rbind (uadd (ri_totalStableDebt i) (ri_totalVariableDebt i)) (\<lambda>totalDebt.
     rbind (getBaseStableBorrowRate s) (\<lambda>baseStableBorrowRate.
     rbind (debtRatios i totalDebt) (\<lambda>(stableToTotalDebtRatio, borrowUsageRatio, supplyUsageRatio).
     rbind (slopeRates s baseStableBorrowRate borrowUsageRatio) (\<lambda>(stableRate, currentVariableBorrowRate).
     rbind (excessRate s stableRate stableToTotalDebtRatio) (\<lambda>currentStableBorrowRate.
     rbind (getOverallBorrowRate (ri_totalStableDebt i) (ri_totalVariableDebt i) currentVariableBorrowRate
       (ri_averageStableBorrowRate i)) (\<lambda>overall.
     rbind (rayMul_u256 overall supplyUsageRatio) (\<lambda>x.
     rbind (usub PERCENTAGE_FACTOR_u256 (ri_reserveFactor i)) (\<lambda>share.
     rbind (percentMul_u256 x share) (\<lambda>currentLiquidityRate.
     Inr (currentLiquidityRate, currentStableBorrowRate, currentVariableBorrowRate))))))))))"

section \<open>Part by part it is the expected calculation\<close>

text \<open>A deployed strategy holds the parameters it was deployed with.\<close>

definition deployed_as :: "rate_strategy \<Rightarrow> interest_rate_strategy_params \<Rightarrow> bool" where
  "deployed_as s p \<longleftrightarrow>
     uint (OPTIMAL_USAGE_RATIO s) = optimalUsageRatio p \<and>
     uint (MAX_EXCESS_USAGE_RATIO s) = RAY - optimalUsageRatio p \<and>
     uint (OPTIMAL_STABLE_TO_TOTAL_DEBT_RATIO s) = optimalStableToTotalDebtRatio p \<and>
     uint (MAX_EXCESS_STABLE_TO_TOTAL_DEBT_RATIO s) = RAY - optimalStableToTotalDebtRatio p \<and>
     uint (rs_baseVariableBorrowRate s) = baseVariableBorrowRate p \<and>
     uint (rs_variableRateSlope1 s) = variableRateSlope1 p \<and> uint (rs_variableRateSlope2 s) = variableRateSlope2 p \<and>
     uint (rs_stableRateSlope1 s) = stableRateSlope1 p \<and> uint (rs_stableRateSlope2 s) = stableRateSlope2 p \<and>
     uint (rs_baseStableRateOffset s) = baseStableRateOffset p \<and>
     uint (rs_stableRateExcessOffset s) = stableRateExcessOffset p"

lemma uint_RAY: "uint RAY_u256 = RAY"
  by (rule ray_u.uint_unit)

lemma new_rate_strategy_deploys: "new_rate_strategy p = Inr s \<Longrightarrow> deployed_as s p"
  by (auto simp: new_rate_strategy_def rbind_eq_Inr deployed_as_def word_le_def uint_RAY uint_sub_if' dest!: uint_encoded)

lemmas word_steps = uadd_iff usub_iff

lemma debtRatios_expected:
  assumes "debtRatios i d = Inr (str, b, s)" "uint d = uint (ri_totalStableDebt i) + uint (ri_totalVariableDebt i)"
    "av = uint (ri_balance i) + uint (ri_liquidityAdded i) - uint (ri_liquidityTaken i)"
  shows "calcExpectedUsageRatios (uint (ri_totalStableDebt i)) (uint (ri_totalVariableDebt i)) av
      (av + uint (ri_unbacked i)) = Inr (uint b, uint s) \<and>
    (if 0 < uint (ri_totalStableDebt i) then rayDiv (uint (ri_totalStableDebt i)) (uint d) else Inr 0) = Inr (uint str)"
proof (cases "d = 0")
  case True
  then have "uint (ri_totalStableDebt i) + uint (ri_totalVariableDebt i) = 0" using assms(2) by simp
  moreover have "0 \<le> uint (ri_totalStableDebt i)" "0 \<le> uint (ri_totalVariableDebt i)" by simp_all
  ultimately have "uint (ri_totalStableDebt i) = 0" by linarith
  then show ?thesis
    using assms(1) True \<open>_ + _ = 0\<close> by (simp add: debtRatios_def usageRatios_no_debt)
next
  case False
  then have d: "0 < uint d" using uint_ge_0[of d] by (simp add: word_uint_eq_iff le_less)
  from assms(1) False obtain x a y z where w:
      "rayDiv_u256 (ri_totalStableDebt i) d = Inr str" "uadd (ri_balance i) (ri_liquidityAdded i) = Inr x"
      "usub x (ri_liquidityTaken i) = Inr a" "uadd a d = Inr y" "rayDiv_u256 d y = Inr b"
      "uadd y (ri_unbacked i) = Inr z" "rayDiv_u256 d z = Inr s"
    by (auto simp: debtRatios_def rbind_eq_Inr)
  have u: "uint a = av" "uint y = av + uint d" "uint z = av + uint (ri_unbacked i) + uint d"
    using w(2-4,6) assms(3) by (simp_all add: word_steps)
  have r: "rayDiv (uint (ri_totalStableDebt i)) (uint d) = Inr (uint str)" "rayDiv (uint d) (av + uint d) = Inr (uint b)"
    "rayDiv (uint d) (av + uint (ri_unbacked i) + uint d) = Inr (uint s)"
    using rayDiv_refines[OF w(1)] rayDiv_refines[OF w(5)] rayDiv_refines[OF w(7)] u by simp_all
  have pos: "0 < av + uint d" "0 \<le> uint d" "av + uint d \<le> av + uint (ri_unbacked i) + uint d"
    using d u(1) uint_ge_0[of a] by simp_all
  have "uint s \<le> uint b" by (rule ray.dv_antimono[OF pos(2,1,3) r(2,3)])
  then have "calcExpectedUsageRatios (uint (ri_totalStableDebt i)) (uint (ri_totalVariableDebt i)) av
      (av + uint (ri_unbacked i)) = Inr (uint b, uint s)"
    using r(2,3) d by (simp add: usageRatios_inv assms(2)[symmetric])
  moreover have "uint str = 0" if "uint (ri_totalStableDebt i) = 0"
    using r(1) d that by (simp add: ray.dv_div)
  moreover have "0 < uint (ri_totalStableDebt i) \<or> uint (ri_totalStableDebt i) = 0"
    using uint_ge_0[of "ri_totalStableDebt i"] by linarith
  ultimately show ?thesis using r(1) by auto
qed

text \<open>Each step of the contract is the step of the calculation, when it does not revert.\<close>

lemma aboveOptimal_refines:
  "aboveOptimal r s1 s2 e = Inr x \<Longrightarrow> uint x = uint r + uint s1 + rayMul (uint s2) (uint e)"
  by (auto simp: aboveOptimal_def rbind_eq_Inr word_steps dest!: rayMul_refines)

lemma belowOptimal_refines:
  assumes "belowOptimal s r s1 b = Inr x" "deployed_as s p"
  shows "rbind (rayDiv (rayMul (uint s1) (uint b)) (optimalUsageRatio p)) (\<lambda>q. Inr (uint r + q)) = Inr (uint x)"
  using assms by (auto simp: belowOptimal_def rbind_eq_Inr word_steps deployed_as_def dest!: rayMul_refines rayDiv_refines)

lemma slopeRates_refines:
  assumes "slopeRates s r b = Inr (sr, vr)" "deployed_as s p"
  shows "usageRates p (uint r) (baseVariableBorrowRate p) (uint b) = Inr (uint sr, uint vr)"
proof (cases "OPTIMAL_USAGE_RATIO s < b")
  case True
  from assms(1) True obtain v e where w:
      "usub b (OPTIMAL_USAGE_RATIO s) = Inr v" "rayDiv_u256 v (MAX_EXCESS_USAGE_RATIO s) = Inr e"
      "aboveOptimal r (rs_stableRateSlope1 s) (rs_stableRateSlope2 s) e = Inr sr"
      "aboveOptimal (rs_baseVariableBorrowRate s) (rs_variableRateSlope1 s) (rs_variableRateSlope2 s) e = Inr vr"
    by (auto simp: slopeRates_def rbind_eq_Inr)
  have "uint v = uint b - optimalUsageRatio p" "optimalUsageRatio p < uint b"
    using w(1) True assms(2) by (simp_all add: word_steps deployed_as_def word_less_def)
  then show ?thesis
    using rayDiv_refines[OF w(2)] aboveOptimal_refines[OF w(3)] aboveOptimal_refines[OF w(4)] assms(2)
    by (simp add: usageRates_def Let_def deployed_as_def)
next
  case False
  with assms(1) obtain
      w: "belowOptimal s r (rs_stableRateSlope1 s) b = Inr sr"
         "belowOptimal s (rs_baseVariableBorrowRate s) (rs_variableRateSlope1 s) b = Inr vr"
    by (auto simp: slopeRates_def rbind_eq_Inr)
  have "\<not> optimalUsageRatio p < uint b" using False assms(2) by (simp add: deployed_as_def word_less_def)
  then show ?thesis
    using belowOptimal_refines[OF w(1) assms(2)] belowOptimal_refines[OF w(2) assms(2)] assms(2)
    by (auto simp: usageRates_def Let_def deployed_as_def rbind_eq_Inr)
qed

lemma excessRate_refines:
  assumes "excessRate s r q = Inr x" "deployed_as s p"
  shows "excessStableRate p (uint r) (uint q) = Inr (uint x)"
  using assms
  by (auto simp: excessRate_def excessStableRate_def rbind_eq_Inr word_steps word_less_def deployed_as_def Let_def
      split: if_splits dest!: rayDiv_refines rayMul_refines)

lemma getOverallBorrowRate_refines:
  assumes "getOverallBorrowRate ts tv cv av = Inr x"
  shows "calcExpectedOverallBorrowRate (uint ts) (uint tv) (uint cv) (uint av) = Inr (uint x)"
proof -
  from assms obtain d where d: "uadd ts tv = Inr d" by (auto simp: getOverallBorrowRate_def rbind_eq_Inr)
  then have u: "uint d = uint ts + uint tv" by (simp add: word_steps)
  show ?thesis
  proof (cases "d = 0")
    case True
    then show ?thesis using assms d u by (simp add: getOverallBorrowRate_def calcExpectedOverallBorrowRate_def Let_def)
  next
    case False
    then have nz: "uint ts + uint tv \<noteq> 0" using u by (metis word_uint_eq_iff uint_0_eq)
    from False assms d obtain v wv s ws w e where w: "wadToRay_u256 tv = Inr v" "rayMul_u256 v cv = Inr wv"
        "wadToRay_u256 ts = Inr s" "rayMul_u256 s av = Inr ws" "uadd wv ws = Inr w" "wadToRay_u256 d = Inr e"
        "rayDiv_u256 w e = Inr x"
      by (auto simp: getOverallBorrowRate_def rbind_eq_Inr)
    show ?thesis
      using nz rayMul_refines[OF w(2)] rayMul_refines[OF w(4)] rayDiv_refines[OF w(7)] w(1,3,5,6) u
      by (simp add: calcExpectedOverallBorrowRate_def Let_def word_steps wadToRay_iff)
  qed
qed

lemma rates_refine:
  assumes "deployed_as s p" "strategy rp = p" "reserveFactor rp = uint (ri_reserveFactor i)"
    "getBaseStableBorrowRate s = Inr base" "calculateInterestRates s i = Inr (lr, sr, vr)"
    "av = uint (ri_balance i) + uint (ri_liquidityAdded i) - uint (ri_liquidityTaken i)"
  shows "interestRatesFor rp (uint base) (uint (ri_totalStableDebt i)) (uint (ri_totalVariableDebt i))
      (uint (ri_averageStableBorrowRate i)) av (av + uint (ri_unbacked i)) = Inr (uint lr, uint sr, uint vr)"
proof -
  from assms(4,5) obtain d str b su st ov x sh where w:
      "uadd (ri_totalStableDebt i) (ri_totalVariableDebt i) = Inr d" "debtRatios i d = Inr (str, b, su)"
      "slopeRates s base b = Inr (st, vr)" "excessRate s st str = Inr sr"
      "getOverallBorrowRate (ri_totalStableDebt i) (ri_totalVariableDebt i) vr (ri_averageStableBorrowRate i) = Inr ov"
      "rayMul_u256 ov su = Inr x" "usub PERCENTAGE_FACTOR_u256 (ri_reserveFactor i) = Inr sh" "percentMul_u256 x sh = Inr lr"
    by (auto simp: calculateInterestRates_def rbind_eq_Inr split: prod.splits)
  have d: "uint d = uint (ri_totalStableDebt i) + uint (ri_totalVariableDebt i)" using w(1) by (simp add: word_steps)
  have sh: "uint sh = PERCENTAGE_FACTOR - uint (ri_reserveFactor i)" using w(7) percent_u.uint_unit by (simp add: word_steps)
  show ?thesis
    using debtRatios_expected[OF w(2) d assms(6)] slopeRates_refines[OF w(3) assms(1)] excessRate_refines[OF w(4) assms(1)]
      getOverallBorrowRate_refines[OF w(5)] rayMul_refines[OF w(6)] percentMul_refines[OF w(8)] sh assms(2,3)
    by (simp add: interestRatesFor_def Let_def d[symmetric])
qed

end
