(* ===== verification/ReserveBits.thy ===== *)
theory ReserveBits
  imports Words
begin

unbundle bit_operations_syntax

text \<open>
  The configuration of a reserve, packed into one \<open>uint256\<close>:
  \<open>contracts/protocol/libraries/configuration/ReserveConfiguration.sol\<close>. Each setter clears its field
  with a mask and puts the shifted value in; a numeric setter first requires the value to fit. The
  names of the setters end in \<open>_bits\<close>, the plain names are the transactions of the pool configurator.
\<close>

section \<open>Masks, positions and limits\<close>

definition LTV_MASK :: u256 where
  "LTV_MASK = 0xFFFFFFFFFFFFFFFFFFFFFFFFFFFFFFFFFFFFFFFFFFFFFFFFFFFFFFFFFFFF0000"

definition LIQUIDATION_THRESHOLD_MASK :: u256 where
  "LIQUIDATION_THRESHOLD_MASK = 0xFFFFFFFFFFFFFFFFFFFFFFFFFFFFFFFFFFFFFFFFFFFFFFFFFFFFFFFF0000FFFF"

definition LIQUIDATION_BONUS_MASK :: u256 where
  "LIQUIDATION_BONUS_MASK = 0xFFFFFFFFFFFFFFFFFFFFFFFFFFFFFFFFFFFFFFFFFFFFFFFFFFFF0000FFFFFFFF"

definition DECIMALS_MASK :: u256 where
  "DECIMALS_MASK = 0xFFFFFFFFFFFFFFFFFFFFFFFFFFFFFFFFFFFFFFFFFFFFFFFFFF00FFFFFFFFFFFF"

definition ACTIVE_MASK :: u256 where
  "ACTIVE_MASK = 0xFFFFFFFFFFFFFFFFFFFFFFFFFFFFFFFFFFFFFFFFFFFFFFFFFEFFFFFFFFFFFFFF"

definition FROZEN_MASK :: u256 where
  "FROZEN_MASK = 0xFFFFFFFFFFFFFFFFFFFFFFFFFFFFFFFFFFFFFFFFFFFFFFFFFDFFFFFFFFFFFFFF"

definition BORROWING_MASK :: u256 where
  "BORROWING_MASK = 0xFFFFFFFFFFFFFFFFFFFFFFFFFFFFFFFFFFFFFFFFFFFFFFFFFBFFFFFFFFFFFFFF"

definition STABLE_BORROWING_MASK :: u256 where
  "STABLE_BORROWING_MASK = 0xFFFFFFFFFFFFFFFFFFFFFFFFFFFFFFFFFFFFFFFFFFFFFFFFF7FFFFFFFFFFFFFF"

definition PAUSED_MASK :: u256 where
  "PAUSED_MASK = 0xFFFFFFFFFFFFFFFFFFFFFFFFFFFFFFFFFFFFFFFFFFFFFFFFEFFFFFFFFFFFFFFF"

definition BORROWABLE_IN_ISOLATION_MASK :: u256 where
  "BORROWABLE_IN_ISOLATION_MASK = 0xFFFFFFFFFFFFFFFFFFFFFFFFFFFFFFFFFFFFFFFFFFFFFFFFDFFFFFFFFFFFFFFF"

definition SILOED_BORROWING_MASK :: u256 where
  "SILOED_BORROWING_MASK = 0xFFFFFFFFFFFFFFFFFFFFFFFFFFFFFFFFFFFFFFFFFFFFFFFFBFFFFFFFFFFFFFFF"

definition FLASHLOAN_ENABLED_MASK :: u256 where
  "FLASHLOAN_ENABLED_MASK = 0xFFFFFFFFFFFFFFFFFFFFFFFFFFFFFFFFFFFFFFFFFFFFFFFF7FFFFFFFFFFFFFFF"

definition RESERVE_FACTOR_MASK :: u256 where
  "RESERVE_FACTOR_MASK = 0xFFFFFFFFFFFFFFFFFFFFFFFFFFFFFFFFFFFFFFFFFFFF0000FFFFFFFFFFFFFFFF"

definition BORROW_CAP_MASK :: u256 where
  "BORROW_CAP_MASK = 0xFFFFFFFFFFFFFFFFFFFFFFFFFFFFFFFFFFF000000000FFFFFFFFFFFFFFFFFFFF"

definition SUPPLY_CAP_MASK :: u256 where
  "SUPPLY_CAP_MASK = 0xFFFFFFFFFFFFFFFFFFFFFFFFFF000000000FFFFFFFFFFFFFFFFFFFFFFFFFFFFF"

definition LIQUIDATION_PROTOCOL_FEE_MASK :: u256 where
  "LIQUIDATION_PROTOCOL_FEE_MASK = 0xFFFFFFFFFFFFFFFFFFFFFF0000FFFFFFFFFFFFFFFFFFFFFFFFFFFFFFFFFFFFFF"

definition EMODE_CATEGORY_MASK :: u256 where
  "EMODE_CATEGORY_MASK = 0xFFFFFFFFFFFFFFFFFFFF00FFFFFFFFFFFFFFFFFFFFFFFFFFFFFFFFFFFFFFFFFF"

definition UNBACKED_MINT_CAP_MASK :: u256 where
  "UNBACKED_MINT_CAP_MASK = 0xFFFFFFFFFFF000000000FFFFFFFFFFFFFFFFFFFFFFFFFFFFFFFFFFFFFFFFFFFF"

definition DEBT_CEILING_MASK :: u256 where
  "DEBT_CEILING_MASK = 0xF0000000000FFFFFFFFFFFFFFFFFFFFFFFFFFFFFFFFFFFFFFFFFFFFFFFFFFFFF"

definition LIQUIDATION_THRESHOLD_START_BIT_POSITION :: nat where
  "LIQUIDATION_THRESHOLD_START_BIT_POSITION = 16"

definition LIQUIDATION_BONUS_START_BIT_POSITION :: nat where
  "LIQUIDATION_BONUS_START_BIT_POSITION = 32"

definition RESERVE_DECIMALS_START_BIT_POSITION :: nat where
  "RESERVE_DECIMALS_START_BIT_POSITION = 48"

definition IS_ACTIVE_START_BIT_POSITION :: nat where
  "IS_ACTIVE_START_BIT_POSITION = 56"

definition IS_FROZEN_START_BIT_POSITION :: nat where
  "IS_FROZEN_START_BIT_POSITION = 57"

definition BORROWING_ENABLED_START_BIT_POSITION :: nat where
  "BORROWING_ENABLED_START_BIT_POSITION = 58"

definition STABLE_BORROWING_ENABLED_START_BIT_POSITION :: nat where
  "STABLE_BORROWING_ENABLED_START_BIT_POSITION = 59"

definition IS_PAUSED_START_BIT_POSITION :: nat where
  "IS_PAUSED_START_BIT_POSITION = 60"

definition BORROWABLE_IN_ISOLATION_START_BIT_POSITION :: nat where
  "BORROWABLE_IN_ISOLATION_START_BIT_POSITION = 61"

definition SILOED_BORROWING_START_BIT_POSITION :: nat where
  "SILOED_BORROWING_START_BIT_POSITION = 62"

definition FLASHLOAN_ENABLED_START_BIT_POSITION :: nat where
  "FLASHLOAN_ENABLED_START_BIT_POSITION = 63"

definition RESERVE_FACTOR_START_BIT_POSITION :: nat where
  "RESERVE_FACTOR_START_BIT_POSITION = 64"

definition BORROW_CAP_START_BIT_POSITION :: nat where
  "BORROW_CAP_START_BIT_POSITION = 80"

definition SUPPLY_CAP_START_BIT_POSITION :: nat where
  "SUPPLY_CAP_START_BIT_POSITION = 116"

definition LIQUIDATION_PROTOCOL_FEE_START_BIT_POSITION :: nat where
  "LIQUIDATION_PROTOCOL_FEE_START_BIT_POSITION = 152"

definition EMODE_CATEGORY_START_BIT_POSITION :: nat where
  "EMODE_CATEGORY_START_BIT_POSITION = 168"

definition UNBACKED_MINT_CAP_START_BIT_POSITION :: nat where
  "UNBACKED_MINT_CAP_START_BIT_POSITION = 176"

definition DEBT_CEILING_START_BIT_POSITION :: nat where
  "DEBT_CEILING_START_BIT_POSITION = 212"

definition MAX_VALID_LTV :: u256 where
  "MAX_VALID_LTV = 65535"

definition MAX_VALID_LIQUIDATION_THRESHOLD :: u256 where
  "MAX_VALID_LIQUIDATION_THRESHOLD = 65535"

definition MAX_VALID_LIQUIDATION_BONUS :: u256 where
  "MAX_VALID_LIQUIDATION_BONUS = 65535"

definition MAX_VALID_DECIMALS :: u256 where
  "MAX_VALID_DECIMALS = 255"

definition MAX_VALID_RESERVE_FACTOR :: u256 where
  "MAX_VALID_RESERVE_FACTOR = 65535"

definition MAX_VALID_BORROW_CAP :: u256 where
  "MAX_VALID_BORROW_CAP = 68719476735"

definition MAX_VALID_SUPPLY_CAP :: u256 where
  "MAX_VALID_SUPPLY_CAP = 68719476735"

definition MAX_VALID_LIQUIDATION_PROTOCOL_FEE :: u256 where
  "MAX_VALID_LIQUIDATION_PROTOCOL_FEE = 65535"

definition MAX_VALID_EMODE_CATEGORY :: u256 where
  "MAX_VALID_EMODE_CATEGORY = 255"

definition MAX_VALID_UNBACKED_MINT_CAP :: u256 where
  "MAX_VALID_UNBACKED_MINT_CAP = 68719476735"

definition MAX_VALID_DEBT_CEILING :: u256 where
  "MAX_VALID_DEBT_CEILING = 1099511627775"

lemmas field_consts =
  LTV_MASK_def LIQUIDATION_THRESHOLD_MASK_def LIQUIDATION_BONUS_MASK_def DECIMALS_MASK_def
  ACTIVE_MASK_def FROZEN_MASK_def BORROWING_MASK_def STABLE_BORROWING_MASK_def PAUSED_MASK_def
  BORROWABLE_IN_ISOLATION_MASK_def SILOED_BORROWING_MASK_def FLASHLOAN_ENABLED_MASK_def
  RESERVE_FACTOR_MASK_def BORROW_CAP_MASK_def SUPPLY_CAP_MASK_def
  LIQUIDATION_PROTOCOL_FEE_MASK_def EMODE_CATEGORY_MASK_def UNBACKED_MINT_CAP_MASK_def
  DEBT_CEILING_MASK_def LIQUIDATION_THRESHOLD_START_BIT_POSITION_def
  LIQUIDATION_BONUS_START_BIT_POSITION_def RESERVE_DECIMALS_START_BIT_POSITION_def
  IS_ACTIVE_START_BIT_POSITION_def IS_FROZEN_START_BIT_POSITION_def
  BORROWING_ENABLED_START_BIT_POSITION_def STABLE_BORROWING_ENABLED_START_BIT_POSITION_def
  IS_PAUSED_START_BIT_POSITION_def BORROWABLE_IN_ISOLATION_START_BIT_POSITION_def
  SILOED_BORROWING_START_BIT_POSITION_def FLASHLOAN_ENABLED_START_BIT_POSITION_def
  RESERVE_FACTOR_START_BIT_POSITION_def BORROW_CAP_START_BIT_POSITION_def
  SUPPLY_CAP_START_BIT_POSITION_def LIQUIDATION_PROTOCOL_FEE_START_BIT_POSITION_def
  EMODE_CATEGORY_START_BIT_POSITION_def UNBACKED_MINT_CAP_START_BIT_POSITION_def
  DEBT_CEILING_START_BIT_POSITION_def MAX_VALID_LTV_def MAX_VALID_LIQUIDATION_THRESHOLD_def
  MAX_VALID_LIQUIDATION_BONUS_def MAX_VALID_DECIMALS_def MAX_VALID_RESERVE_FACTOR_def
  MAX_VALID_BORROW_CAP_def MAX_VALID_SUPPLY_CAP_def MAX_VALID_LIQUIDATION_PROTOCOL_FEE_def
  MAX_VALID_EMODE_CATEGORY_def MAX_VALID_UNBACKED_MINT_CAP_def MAX_VALID_DEBT_CEILING_def

section \<open>Numbers\<close>

definition setLtv_bits :: "u256 \<Rightarrow> u256 \<Rightarrow> u256 result" where
  "setLtv_bits self v =
     rbind (ensure (v \<le> MAX_VALID_LTV) (Reverted ''63'')) (\<lambda>_. Inr ((self AND LTV_MASK) OR v))"

definition getLtv :: "u256 \<Rightarrow> u256" where
  "getLtv self = self AND NOT LTV_MASK"

definition setLiquidationThreshold_bits :: "u256 \<Rightarrow> u256 \<Rightarrow> u256 result" where
  "setLiquidationThreshold_bits self v =
     rbind (ensure (v \<le> MAX_VALID_LIQUIDATION_THRESHOLD) (Reverted ''64'')) (\<lambda>_. Inr ((self AND LIQUIDATION_THRESHOLD_MASK) OR push_bit LIQUIDATION_THRESHOLD_START_BIT_POSITION v))"

definition getLiquidationThreshold :: "u256 \<Rightarrow> u256" where
  "getLiquidationThreshold self = drop_bit LIQUIDATION_THRESHOLD_START_BIT_POSITION (self AND NOT LIQUIDATION_THRESHOLD_MASK)"

definition setLiquidationBonus_bits :: "u256 \<Rightarrow> u256 \<Rightarrow> u256 result" where
  "setLiquidationBonus_bits self v =
     rbind (ensure (v \<le> MAX_VALID_LIQUIDATION_BONUS) (Reverted ''65'')) (\<lambda>_. Inr ((self AND LIQUIDATION_BONUS_MASK) OR push_bit LIQUIDATION_BONUS_START_BIT_POSITION v))"

definition getLiquidationBonus :: "u256 \<Rightarrow> u256" where
  "getLiquidationBonus self = drop_bit LIQUIDATION_BONUS_START_BIT_POSITION (self AND NOT LIQUIDATION_BONUS_MASK)"

definition setDecimals_bits :: "u256 \<Rightarrow> u256 \<Rightarrow> u256 result" where
  "setDecimals_bits self v =
     rbind (ensure (v \<le> MAX_VALID_DECIMALS) (Reverted ''66'')) (\<lambda>_. Inr ((self AND DECIMALS_MASK) OR push_bit RESERVE_DECIMALS_START_BIT_POSITION v))"

definition getDecimals :: "u256 \<Rightarrow> u256" where
  "getDecimals self = drop_bit RESERVE_DECIMALS_START_BIT_POSITION (self AND NOT DECIMALS_MASK)"

definition setReserveFactor_bits :: "u256 \<Rightarrow> u256 \<Rightarrow> u256 result" where
  "setReserveFactor_bits self v =
     rbind (ensure (v \<le> MAX_VALID_RESERVE_FACTOR) (Reverted ''67'')) (\<lambda>_. Inr ((self AND RESERVE_FACTOR_MASK) OR push_bit RESERVE_FACTOR_START_BIT_POSITION v))"

definition getReserveFactor :: "u256 \<Rightarrow> u256" where
  "getReserveFactor self = drop_bit RESERVE_FACTOR_START_BIT_POSITION (self AND NOT RESERVE_FACTOR_MASK)"

definition setBorrowCap_bits :: "u256 \<Rightarrow> u256 \<Rightarrow> u256 result" where
  "setBorrowCap_bits self v =
     rbind (ensure (v \<le> MAX_VALID_BORROW_CAP) (Reverted ''68'')) (\<lambda>_. Inr ((self AND BORROW_CAP_MASK) OR push_bit BORROW_CAP_START_BIT_POSITION v))"

definition getBorrowCap :: "u256 \<Rightarrow> u256" where
  "getBorrowCap self = drop_bit BORROW_CAP_START_BIT_POSITION (self AND NOT BORROW_CAP_MASK)"

definition setSupplyCap_bits :: "u256 \<Rightarrow> u256 \<Rightarrow> u256 result" where
  "setSupplyCap_bits self v =
     rbind (ensure (v \<le> MAX_VALID_SUPPLY_CAP) (Reverted ''69'')) (\<lambda>_. Inr ((self AND SUPPLY_CAP_MASK) OR push_bit SUPPLY_CAP_START_BIT_POSITION v))"

definition getSupplyCap :: "u256 \<Rightarrow> u256" where
  "getSupplyCap self = drop_bit SUPPLY_CAP_START_BIT_POSITION (self AND NOT SUPPLY_CAP_MASK)"

definition setDebtCeiling_bits :: "u256 \<Rightarrow> u256 \<Rightarrow> u256 result" where
  "setDebtCeiling_bits self v =
     rbind (ensure (v \<le> MAX_VALID_DEBT_CEILING) (Reverted ''73'')) (\<lambda>_. Inr ((self AND DEBT_CEILING_MASK) OR push_bit DEBT_CEILING_START_BIT_POSITION v))"

definition getDebtCeiling :: "u256 \<Rightarrow> u256" where
  "getDebtCeiling self = drop_bit DEBT_CEILING_START_BIT_POSITION (self AND NOT DEBT_CEILING_MASK)"

definition setLiquidationProtocolFee_bits :: "u256 \<Rightarrow> u256 \<Rightarrow> u256 result" where
  "setLiquidationProtocolFee_bits self v =
     rbind (ensure (v \<le> MAX_VALID_LIQUIDATION_PROTOCOL_FEE) (Reverted ''70'')) (\<lambda>_. Inr ((self AND LIQUIDATION_PROTOCOL_FEE_MASK) OR push_bit LIQUIDATION_PROTOCOL_FEE_START_BIT_POSITION v))"

definition getLiquidationProtocolFee :: "u256 \<Rightarrow> u256" where
  "getLiquidationProtocolFee self = drop_bit LIQUIDATION_PROTOCOL_FEE_START_BIT_POSITION (self AND NOT LIQUIDATION_PROTOCOL_FEE_MASK)"

definition setUnbackedMintCap_bits :: "u256 \<Rightarrow> u256 \<Rightarrow> u256 result" where
  "setUnbackedMintCap_bits self v =
     rbind (ensure (v \<le> MAX_VALID_UNBACKED_MINT_CAP) (Reverted ''72'')) (\<lambda>_. Inr ((self AND UNBACKED_MINT_CAP_MASK) OR push_bit UNBACKED_MINT_CAP_START_BIT_POSITION v))"

definition getUnbackedMintCap :: "u256 \<Rightarrow> u256" where
  "getUnbackedMintCap self = drop_bit UNBACKED_MINT_CAP_START_BIT_POSITION (self AND NOT UNBACKED_MINT_CAP_MASK)"

definition setEModeCategory_bits :: "u256 \<Rightarrow> u256 \<Rightarrow> u256 result" where
  "setEModeCategory_bits self v =
     rbind (ensure (v \<le> MAX_VALID_EMODE_CATEGORY) (Reverted ''71'')) (\<lambda>_. Inr ((self AND EMODE_CATEGORY_MASK) OR push_bit EMODE_CATEGORY_START_BIT_POSITION v))"

definition getEModeCategory :: "u256 \<Rightarrow> u256" where
  "getEModeCategory self = drop_bit EMODE_CATEGORY_START_BIT_POSITION (self AND NOT EMODE_CATEGORY_MASK)"

section \<open>Flags\<close>

definition setActive_bits :: "u256 \<Rightarrow> bool \<Rightarrow> u256" where
  "setActive_bits self v = (self AND ACTIVE_MASK) OR push_bit IS_ACTIVE_START_BIT_POSITION (of_bool v)"

definition getActive :: "u256 \<Rightarrow> bool" where
  "getActive self \<longleftrightarrow> self AND NOT ACTIVE_MASK \<noteq> 0"

definition setFrozen_bits :: "u256 \<Rightarrow> bool \<Rightarrow> u256" where
  "setFrozen_bits self v = (self AND FROZEN_MASK) OR push_bit IS_FROZEN_START_BIT_POSITION (of_bool v)"

definition getFrozen :: "u256 \<Rightarrow> bool" where
  "getFrozen self \<longleftrightarrow> self AND NOT FROZEN_MASK \<noteq> 0"

definition setPaused_bits :: "u256 \<Rightarrow> bool \<Rightarrow> u256" where
  "setPaused_bits self v = (self AND PAUSED_MASK) OR push_bit IS_PAUSED_START_BIT_POSITION (of_bool v)"

definition getPaused :: "u256 \<Rightarrow> bool" where
  "getPaused self \<longleftrightarrow> self AND NOT PAUSED_MASK \<noteq> 0"

definition setBorrowableInIsolation_bits :: "u256 \<Rightarrow> bool \<Rightarrow> u256" where
  "setBorrowableInIsolation_bits self v = (self AND BORROWABLE_IN_ISOLATION_MASK) OR push_bit BORROWABLE_IN_ISOLATION_START_BIT_POSITION (of_bool v)"

definition getBorrowableInIsolation :: "u256 \<Rightarrow> bool" where
  "getBorrowableInIsolation self \<longleftrightarrow> self AND NOT BORROWABLE_IN_ISOLATION_MASK \<noteq> 0"

definition setSiloedBorrowing_bits :: "u256 \<Rightarrow> bool \<Rightarrow> u256" where
  "setSiloedBorrowing_bits self v = (self AND SILOED_BORROWING_MASK) OR push_bit SILOED_BORROWING_START_BIT_POSITION (of_bool v)"

definition getSiloedBorrowing :: "u256 \<Rightarrow> bool" where
  "getSiloedBorrowing self \<longleftrightarrow> self AND NOT SILOED_BORROWING_MASK \<noteq> 0"

definition setBorrowingEnabled_bits :: "u256 \<Rightarrow> bool \<Rightarrow> u256" where
  "setBorrowingEnabled_bits self v = (self AND BORROWING_MASK) OR push_bit BORROWING_ENABLED_START_BIT_POSITION (of_bool v)"

definition getBorrowingEnabled :: "u256 \<Rightarrow> bool" where
  "getBorrowingEnabled self \<longleftrightarrow> self AND NOT BORROWING_MASK \<noteq> 0"

definition setStableRateBorrowingEnabled_bits :: "u256 \<Rightarrow> bool \<Rightarrow> u256" where
  "setStableRateBorrowingEnabled_bits self v = (self AND STABLE_BORROWING_MASK) OR push_bit STABLE_BORROWING_ENABLED_START_BIT_POSITION (of_bool v)"

definition getStableRateBorrowingEnabled :: "u256 \<Rightarrow> bool" where
  "getStableRateBorrowingEnabled self \<longleftrightarrow> self AND NOT STABLE_BORROWING_MASK \<noteq> 0"

definition setFlashLoanEnabled_bits :: "u256 \<Rightarrow> bool \<Rightarrow> u256" where
  "setFlashLoanEnabled_bits self v = (self AND FLASHLOAN_ENABLED_MASK) OR push_bit FLASHLOAN_ENABLED_START_BIT_POSITION (of_bool v)"

definition getFlashLoanEnabled :: "u256 \<Rightarrow> bool" where
  "getFlashLoanEnabled self \<longleftrightarrow> self AND NOT FLASHLOAN_ENABLED_MASK \<noteq> 0"

section \<open>Several at once\<close>

definition getFlags :: "u256 \<Rightarrow> bool \<times> bool \<times> bool \<times> bool \<times> bool" where
  "getFlags self =
     (self AND NOT ACTIVE_MASK \<noteq> 0, self AND NOT FROZEN_MASK \<noteq> 0, self AND NOT BORROWING_MASK \<noteq> 0,
      self AND NOT STABLE_BORROWING_MASK \<noteq> 0, self AND NOT PAUSED_MASK \<noteq> 0)"

definition getParams :: "u256 \<Rightarrow> u256 \<times> u256 \<times> u256 \<times> u256 \<times> u256 \<times> u256" where
  "getParams self =
     (self AND NOT LTV_MASK,
      drop_bit LIQUIDATION_THRESHOLD_START_BIT_POSITION (self AND NOT LIQUIDATION_THRESHOLD_MASK),
      drop_bit LIQUIDATION_BONUS_START_BIT_POSITION (self AND NOT LIQUIDATION_BONUS_MASK),
      drop_bit RESERVE_DECIMALS_START_BIT_POSITION (self AND NOT DECIMALS_MASK),
      drop_bit RESERVE_FACTOR_START_BIT_POSITION (self AND NOT RESERVE_FACTOR_MASK),
      drop_bit EMODE_CATEGORY_START_BIT_POSITION (self AND NOT EMODE_CATEGORY_MASK))"

definition getCaps :: "u256 \<Rightarrow> u256 \<times> u256" where
  "getCaps self =
     (drop_bit BORROW_CAP_START_BIT_POSITION (self AND NOT BORROW_CAP_MASK),
      drop_bit SUPPLY_CAP_START_BIT_POSITION (self AND NOT SUPPLY_CAP_MASK))"

section \<open>A field of a word\<close>

text \<open>What a setter and a getter are meant to be: bits replaced and bits cut out.\<close>

definition field :: "nat \<Rightarrow> nat \<Rightarrow> u256 \<Rightarrow> u256" where
  "field st wd d = take_bit wd (drop_bit st d)"

definition put :: "nat \<Rightarrow> nat \<Rightarrow> u256 \<Rightarrow> u256 \<Rightarrow> u256" where
  "put st wd d v = (d AND NOT (push_bit st (mask wd))) OR push_bit st v"

lemma below_exp: "wd < 256 \<Longrightarrow> (v :: u256) < 2 ^ wd \<longleftrightarrow> take_bit wd v = v"
  by (simp add: take_bit_eq_mask mask_eq_iff_w2p word_size)

lemma bit_below: "wd < 256 \<Longrightarrow> (v :: u256) < 2 ^ wd \<Longrightarrow> bit v n \<Longrightarrow> n < wd"
  by (metis bit_take_bit_iff below_exp)

lemma bit_inside: "bit (d :: u256) n \<Longrightarrow> n < 256"
  using bit_imp_le_length[of d n] by simp

lemma field_masked: "drop_bit st (d AND push_bit st (mask wd)) = field st wd d"
  by (rule bit_eqI) (auto simp: field_def bit_simps dest: bit_inside)

lemma field_put:
  assumes "v < 2 ^ wd" "wd < 256" "st + wd \<le> 256"
  shows "field st wd (put st wd d v) = v"
proof (rule bit_eqI)
  fix n
  show "bit (field st wd (put st wd d v)) n \<longleftrightarrow> bit v n"
    using assms(3) bit_below[OF assms(2,1), of n] by (auto simp: field_def put_def bit_simps)
qed

lemma field_put_other:
  assumes "v < 2 ^ wd" "wd < 256" "st' + wd' \<le> st \<or> st + wd \<le> st'"
  shows "field st' wd' (put st wd d v) = field st' wd' d"
proof (rule bit_eqI)
  fix n
  show "bit (field st' wd' (put st wd d v)) n \<longleftrightarrow> bit (field st' wd' d) n"
    using assms(3) bit_below[OF assms(2,1), of "st' + n - st"]
    by (auto simp: field_def put_def bit_simps dest: bit_inside)
qed

lemma put_field: "put st wd d (field st wd d) = d"
  by (rule bit_eqI) (auto simp: field_def put_def bit_simps)

lemma field_bound: "wd < 256 \<Longrightarrow> field st wd d < 2 ^ wd"
  by (simp add: field_def below_exp)

lemma flag_masked: "d AND push_bit st (mask 1) \<noteq> 0 \<longleftrightarrow> bit (d :: u256) st"
  by (simp add: mask_Suc_0 push_bit_of_1 and_exp_eq_0_iff_not_bit)

text \<open>A setter that checks the value, and the getter that belongs to it.\<close>

locale packed =
  fixes st wd :: nat
    and get :: "u256 \<Rightarrow> u256"
    and set :: "u256 \<Rightarrow> u256 \<Rightarrow> u256 result"
  assumes inside: "st + wd \<le> 256" "wd < 256"
    and get_field: "get d = field st wd d"
    and set_iff: "set d v = Inr d' \<longleftrightarrow> v < 2 ^ wd \<and> d' = put st wd d v"
begin

lemma get_set: "set d v = Inr d' \<Longrightarrow> get d' = v"
  using inside by (simp add: set_iff get_field field_put)

lemma set_get: "set d (get d) = Inr d"
  using inside by (simp add: set_iff get_field put_field field_bound)

lemma set_keeps: "set d v = Inr d' \<Longrightarrow> st' + wd' \<le> st \<or> st + wd \<le> st' \<Longrightarrow> field st' wd' d' = field st' wd' d"
  using inside by (simp add: set_iff field_put_other)

end

text \<open>A flag is one bit.\<close>

locale packed_flag =
  fixes st :: nat
    and get :: "u256 \<Rightarrow> bool"
    and set :: "u256 \<Rightarrow> bool \<Rightarrow> u256"
  assumes below: "st < 256"
    and get_bit: "get d \<longleftrightarrow> bit d st"
    and set_put: "set d b = put st 1 d (of_bool b)"
begin

end

text \<open>A flag is a field of width one, read and written as 0 or 1.\<close>

definition withFlag :: "(u256 \<Rightarrow> bool \<Rightarrow> u256) \<Rightarrow> u256 \<Rightarrow> u256 \<Rightarrow> u256 result" where
  "withFlag write self v =
     (if v = 0 then Inr (write self False) else if v = 1 then Inr (write self True) else Inl TypeError)"

lemma withFlag_simps [simp]:
  "withFlag write d 0 = Inr (write d False)" "withFlag write d 1 = Inr (write d True)"
  "withFlag write d (of_bool b) = Inr (write d b)"
  by (simp_all add: withFlag_def)

lemma field_flag: "field st 1 d = of_bool (bit d st)"
  by (simp add: field_def bit_iff_odd_drop_bit mod_2_eq_odd)

lemma below_two: "(v :: u256) < 2 ^ 1 \<longleftrightarrow> v = 0 \<or> v = 1"
proof
  assume "v < 2 ^ 1"
  then have "v = of_bool (bit v 0)"
    by (metis below_exp field_def field_flag drop_bit_0 id_apply one_less_numeral_iff semiring_norm(76))
  then show "v = 0 \<or> v = 1" by (metis of_bool_eq(1,2))
qed auto

sublocale packed_flag \<subseteq> bits: packed st 1 "\<lambda>d. of_bool (get d)" "withFlag set"
  using below
  by unfold_locales (auto simp: withFlag_def get_bit set_put field_flag below_two
      simp del: power_one_right One_nat_def)

section \<open>The masks are those of the fields\<close>

text \<open>A mask written out in hexadecimal is all ones outside its field.\<close>

lemma ltv_mask: "LTV_MASK = NOT (push_bit 0 (mask 16))"
  by code_simp

lemma liquidation_threshold_mask: "LIQUIDATION_THRESHOLD_MASK = NOT (push_bit 16 (mask 16))"
  by code_simp

lemma liquidation_bonus_mask: "LIQUIDATION_BONUS_MASK = NOT (push_bit 32 (mask 16))"
  by code_simp

lemma decimals_mask: "DECIMALS_MASK = NOT (push_bit 48 (mask 8))"
  by code_simp

lemma reserve_factor_mask: "RESERVE_FACTOR_MASK = NOT (push_bit 64 (mask 16))"
  by code_simp

lemma borrow_cap_mask: "BORROW_CAP_MASK = NOT (push_bit 80 (mask 36))"
  by code_simp

lemma supply_cap_mask: "SUPPLY_CAP_MASK = NOT (push_bit 116 (mask 36))"
  by code_simp

lemma debt_ceiling_mask: "DEBT_CEILING_MASK = NOT (push_bit 212 (mask 40))"
  by code_simp

lemma liquidation_protocol_fee_mask: "LIQUIDATION_PROTOCOL_FEE_MASK = NOT (push_bit 152 (mask 16))"
  by code_simp

lemma unbacked_mint_cap_mask: "UNBACKED_MINT_CAP_MASK = NOT (push_bit 176 (mask 36))"
  by code_simp

lemma emode_category_mask: "EMODE_CATEGORY_MASK = NOT (push_bit 168 (mask 8))"
  by code_simp

lemma active_mask: "ACTIVE_MASK = NOT (push_bit 56 (mask 1))"
  by code_simp

lemma frozen_mask: "FROZEN_MASK = NOT (push_bit 57 (mask 1))"
  by code_simp

lemma paused_mask: "PAUSED_MASK = NOT (push_bit 60 (mask 1))"
  by code_simp

lemma borrowable_in_isolation_mask: "BORROWABLE_IN_ISOLATION_MASK = NOT (push_bit 61 (mask 1))"
  by code_simp

lemma siloed_borrowing_mask: "SILOED_BORROWING_MASK = NOT (push_bit 62 (mask 1))"
  by code_simp

lemma borrowing_mask: "BORROWING_MASK = NOT (push_bit 58 (mask 1))"
  by code_simp

lemma stable_borrowing_mask: "STABLE_BORROWING_MASK = NOT (push_bit 59 (mask 1))"
  by code_simp

lemma flashloan_enabled_mask: "FLASHLOAN_ENABLED_MASK = NOT (push_bit 63 (mask 1))"
  by code_simp

lemma at_most: "(v :: u256) \<le> 65535 \<longleftrightarrow> v < 2 ^ 16" "v \<le> 255 \<longleftrightarrow> v < 2 ^ 8"
  "v \<le> 68719476735 \<longleftrightarrow> v < 2 ^ 36" "v \<le> 1099511627775 \<longleftrightarrow> v < 2 ^ 40"
  by (auto simp: word_le_nat_alt word_less_nat_alt)

lemmas field_views = rbind_eq_Inr put_def at_most field_masked[symmetric]

interpretation Ltv: packed 0 16 getLtv setLtv_bits
  by unfold_locales (auto simp: getLtv_def setLtv_bits_def ltv_mask
      MAX_VALID_LTV_def field_views)

interpretation LiquidationThreshold: packed 16 16 getLiquidationThreshold setLiquidationThreshold_bits
  by unfold_locales (auto simp: getLiquidationThreshold_def setLiquidationThreshold_bits_def liquidation_threshold_mask LIQUIDATION_THRESHOLD_START_BIT_POSITION_def
      MAX_VALID_LIQUIDATION_THRESHOLD_def field_views)

interpretation LiquidationBonus: packed 32 16 getLiquidationBonus setLiquidationBonus_bits
  by unfold_locales (auto simp: getLiquidationBonus_def setLiquidationBonus_bits_def liquidation_bonus_mask LIQUIDATION_BONUS_START_BIT_POSITION_def
      MAX_VALID_LIQUIDATION_BONUS_def field_views)

interpretation Decimals: packed 48 8 getDecimals setDecimals_bits
  by unfold_locales (auto simp: getDecimals_def setDecimals_bits_def decimals_mask RESERVE_DECIMALS_START_BIT_POSITION_def
      MAX_VALID_DECIMALS_def field_views)

interpretation ReserveFactor: packed 64 16 getReserveFactor setReserveFactor_bits
  by unfold_locales (auto simp: getReserveFactor_def setReserveFactor_bits_def reserve_factor_mask RESERVE_FACTOR_START_BIT_POSITION_def
      MAX_VALID_RESERVE_FACTOR_def field_views)

interpretation BorrowCap: packed 80 36 getBorrowCap setBorrowCap_bits
  by unfold_locales (auto simp: getBorrowCap_def setBorrowCap_bits_def borrow_cap_mask BORROW_CAP_START_BIT_POSITION_def
      MAX_VALID_BORROW_CAP_def field_views)

interpretation SupplyCap: packed 116 36 getSupplyCap setSupplyCap_bits
  by unfold_locales (auto simp: getSupplyCap_def setSupplyCap_bits_def supply_cap_mask SUPPLY_CAP_START_BIT_POSITION_def
      MAX_VALID_SUPPLY_CAP_def field_views)

interpretation DebtCeiling: packed 212 40 getDebtCeiling setDebtCeiling_bits
  by unfold_locales (auto simp: getDebtCeiling_def setDebtCeiling_bits_def debt_ceiling_mask DEBT_CEILING_START_BIT_POSITION_def
      MAX_VALID_DEBT_CEILING_def field_views)

interpretation LiquidationProtocolFee: packed 152 16 getLiquidationProtocolFee setLiquidationProtocolFee_bits
  by unfold_locales (auto simp: getLiquidationProtocolFee_def setLiquidationProtocolFee_bits_def liquidation_protocol_fee_mask LIQUIDATION_PROTOCOL_FEE_START_BIT_POSITION_def
      MAX_VALID_LIQUIDATION_PROTOCOL_FEE_def field_views)

interpretation UnbackedMintCap: packed 176 36 getUnbackedMintCap setUnbackedMintCap_bits
  by unfold_locales (auto simp: getUnbackedMintCap_def setUnbackedMintCap_bits_def unbacked_mint_cap_mask UNBACKED_MINT_CAP_START_BIT_POSITION_def
      MAX_VALID_UNBACKED_MINT_CAP_def field_views)

interpretation EModeCategory: packed 168 8 getEModeCategory setEModeCategory_bits
  by unfold_locales (auto simp: getEModeCategory_def setEModeCategory_bits_def emode_category_mask EMODE_CATEGORY_START_BIT_POSITION_def
      MAX_VALID_EMODE_CATEGORY_def field_views)

interpretation Active: packed_flag 56 getActive setActive_bits
  by (unfold_locales, simp, simp_all only: getActive_def setActive_bits_def active_mask IS_ACTIVE_START_BIT_POSITION_def
      put_def bit.double_compl flag_masked)

interpretation Frozen: packed_flag 57 getFrozen setFrozen_bits
  by (unfold_locales, simp, simp_all only: getFrozen_def setFrozen_bits_def frozen_mask IS_FROZEN_START_BIT_POSITION_def
      put_def bit.double_compl flag_masked)

interpretation Paused: packed_flag 60 getPaused setPaused_bits
  by (unfold_locales, simp, simp_all only: getPaused_def setPaused_bits_def paused_mask IS_PAUSED_START_BIT_POSITION_def
      put_def bit.double_compl flag_masked)

interpretation BorrowableInIsolation: packed_flag 61 getBorrowableInIsolation setBorrowableInIsolation_bits
  by (unfold_locales, simp, simp_all only: getBorrowableInIsolation_def setBorrowableInIsolation_bits_def borrowable_in_isolation_mask BORROWABLE_IN_ISOLATION_START_BIT_POSITION_def
      put_def bit.double_compl flag_masked)

interpretation SiloedBorrowing: packed_flag 62 getSiloedBorrowing setSiloedBorrowing_bits
  by (unfold_locales, simp, simp_all only: getSiloedBorrowing_def setSiloedBorrowing_bits_def siloed_borrowing_mask SILOED_BORROWING_START_BIT_POSITION_def
      put_def bit.double_compl flag_masked)

interpretation BorrowingEnabled: packed_flag 58 getBorrowingEnabled setBorrowingEnabled_bits
  by (unfold_locales, simp, simp_all only: getBorrowingEnabled_def setBorrowingEnabled_bits_def borrowing_mask BORROWING_ENABLED_START_BIT_POSITION_def
      put_def bit.double_compl flag_masked)

interpretation StableRateBorrowingEnabled: packed_flag 59 getStableRateBorrowingEnabled setStableRateBorrowingEnabled_bits
  by (unfold_locales, simp, simp_all only: getStableRateBorrowingEnabled_def setStableRateBorrowingEnabled_bits_def stable_borrowing_mask STABLE_BORROWING_ENABLED_START_BIT_POSITION_def
      put_def bit.double_compl flag_masked)

interpretation FlashLoanEnabled: packed_flag 63 getFlashLoanEnabled setFlashLoanEnabled_bits
  by (unfold_locales, simp, simp_all only: getFlashLoanEnabled_def setFlashLoanEnabled_bits_def flashloan_enabled_mask FLASHLOAN_ENABLED_START_BIT_POSITION_def
      put_def bit.double_compl flag_masked)

section \<open>The fields together\<close>

text \<open>The nineteen fields by name; a flag is read and written as 0 or 1.\<close>

datatype config_field =
    InLtv | InLiquidationThreshold | InLiquidationBonus | InDecimals | InReserveFactor
  | InBorrowCap | InSupplyCap | InDebtCeiling | InLiquidationProtocolFee
  | InUnbackedMintCap | InEModeCategory | InActive | InFrozen | InPaused
  | InBorrowableInIsolation | InSiloedBorrowing | InBorrowingEnabled
  | InStableRateBorrowingEnabled | InFlashLoanEnabled

fun getField :: "config_field \<Rightarrow> u256 \<Rightarrow> u256" where
  "getField InLtv self = getLtv self"
| "getField InLiquidationThreshold self = getLiquidationThreshold self"
| "getField InLiquidationBonus self = getLiquidationBonus self"
| "getField InDecimals self = getDecimals self"
| "getField InReserveFactor self = getReserveFactor self"
| "getField InBorrowCap self = getBorrowCap self"
| "getField InSupplyCap self = getSupplyCap self"
| "getField InDebtCeiling self = getDebtCeiling self"
| "getField InLiquidationProtocolFee self = getLiquidationProtocolFee self"
| "getField InUnbackedMintCap self = getUnbackedMintCap self"
| "getField InEModeCategory self = getEModeCategory self"
| "getField InActive self = of_bool (getActive self)"
| "getField InFrozen self = of_bool (getFrozen self)"
| "getField InPaused self = of_bool (getPaused self)"
| "getField InBorrowableInIsolation self = of_bool (getBorrowableInIsolation self)"
| "getField InSiloedBorrowing self = of_bool (getSiloedBorrowing self)"
| "getField InBorrowingEnabled self = of_bool (getBorrowingEnabled self)"
| "getField InStableRateBorrowingEnabled self = of_bool (getStableRateBorrowingEnabled self)"
| "getField InFlashLoanEnabled self = of_bool (getFlashLoanEnabled self)"

fun setField :: "config_field \<Rightarrow> u256 \<Rightarrow> u256 \<Rightarrow> u256 result" where
  "setField InLtv self v = setLtv_bits self v"
| "setField InLiquidationThreshold self v = setLiquidationThreshold_bits self v"
| "setField InLiquidationBonus self v = setLiquidationBonus_bits self v"
| "setField InDecimals self v = setDecimals_bits self v"
| "setField InReserveFactor self v = setReserveFactor_bits self v"
| "setField InBorrowCap self v = setBorrowCap_bits self v"
| "setField InSupplyCap self v = setSupplyCap_bits self v"
| "setField InDebtCeiling self v = setDebtCeiling_bits self v"
| "setField InLiquidationProtocolFee self v = setLiquidationProtocolFee_bits self v"
| "setField InUnbackedMintCap self v = setUnbackedMintCap_bits self v"
| "setField InEModeCategory self v = setEModeCategory_bits self v"
| "setField InActive self v = withFlag setActive_bits self v"
| "setField InFrozen self v = withFlag setFrozen_bits self v"
| "setField InPaused self v = withFlag setPaused_bits self v"
| "setField InBorrowableInIsolation self v = withFlag setBorrowableInIsolation_bits self v"
| "setField InSiloedBorrowing self v = withFlag setSiloedBorrowing_bits self v"
| "setField InBorrowingEnabled self v = withFlag setBorrowingEnabled_bits self v"
| "setField InStableRateBorrowingEnabled self v = withFlag setStableRateBorrowingEnabled_bits self v"
| "setField InFlashLoanEnabled self v = withFlag setFlashLoanEnabled_bits self v"

text \<open>First bit and width of each field.\<close>

fun place :: "config_field \<Rightarrow> nat \<times> nat" where
  "place InLtv = (0, 16)"
| "place InLiquidationThreshold = (16, 16)"
| "place InLiquidationBonus = (32, 16)"
| "place InDecimals = (48, 8)"
| "place InReserveFactor = (64, 16)"
| "place InBorrowCap = (80, 36)"
| "place InSupplyCap = (116, 36)"
| "place InDebtCeiling = (212, 40)"
| "place InLiquidationProtocolFee = (152, 16)"
| "place InUnbackedMintCap = (176, 36)"
| "place InEModeCategory = (168, 8)"
| "place InActive = (56, 1)"
| "place InFrozen = (57, 1)"
| "place InPaused = (60, 1)"
| "place InBorrowableInIsolation = (61, 1)"
| "place InSiloedBorrowing = (62, 1)"
| "place InBorrowingEnabled = (58, 1)"
| "place InStableRateBorrowingEnabled = (59, 1)"
| "place InFlashLoanEnabled = (63, 1)"

lemmas numbers_read =
  Ltv.get_field
  LiquidationThreshold.get_field
  LiquidationBonus.get_field
  Decimals.get_field
  ReserveFactor.get_field
  BorrowCap.get_field
  SupplyCap.get_field
  DebtCeiling.get_field
  LiquidationProtocolFee.get_field
  UnbackedMintCap.get_field
  EModeCategory.get_field

lemmas numbers_write =
  Ltv.set_iff
  LiquidationThreshold.set_iff
  LiquidationBonus.set_iff
  Decimals.set_iff
  ReserveFactor.set_iff
  BorrowCap.set_iff
  SupplyCap.set_iff
  DebtCeiling.set_iff
  LiquidationProtocolFee.set_iff
  UnbackedMintCap.set_iff
  EModeCategory.set_iff

lemmas flags_read =
  Active.bits.get_field
  Frozen.bits.get_field
  Paused.bits.get_field
  BorrowableInIsolation.bits.get_field
  SiloedBorrowing.bits.get_field
  BorrowingEnabled.bits.get_field
  StableRateBorrowingEnabled.bits.get_field
  FlashLoanEnabled.bits.get_field

lemmas flags_write =
  Active.bits.set_iff
  Frozen.bits.set_iff
  Paused.bits.set_iff
  BorrowableInIsolation.bits.set_iff
  SiloedBorrowing.bits.set_iff
  BorrowingEnabled.bits.set_iff
  StableRateBorrowingEnabled.bits.set_iff
  FlashLoanEnabled.bits.set_iff

lemma getField_view: "getField f d = field (fst (place f)) (snd (place f)) d"
  by (cases f) (simp_all only: getField.simps place.simps fst_conv snd_conv numbers_read flags_read)

lemma setField_view: "setField f d v = Inr d' \<longleftrightarrow>
    v < 2 ^ snd (place f) \<and> d' = put (fst (place f)) (snd (place f)) d v"
  by (cases f) (simp_all only: setField.simps place.simps fst_conv snd_conv numbers_write flags_write)

lemma place_inside: "fst (place f) + snd (place f) \<le> 256" "snd (place f) < 256"
  by (cases f; simp)+

lemma places_disjoint: "f \<noteq> g \<Longrightarrow>
    fst (place g) + snd (place g) \<le> fst (place f) \<or> fst (place f) + snd (place f) \<le> fst (place g)"
  by (cases f; cases g; simp)

lemma getField_setField:
  assumes "setField f d v = Inr d'"
  shows "getField g d' = (if g = f then v else getField g d)"
proof -
  have v: "v < 2 ^ snd (place f)" "d' = put (fst (place f)) (snd (place f)) d v"
    using assms by (simp_all add: setField_view)
  show ?thesis
    using field_put[OF v(1) place_inside(2,1)] field_put_other[OF v(1) place_inside(2) places_disjoint]
    by (simp add: getField_view v(2))
qed

lemma bundles_read:
  "getFlags d = (getActive d, getFrozen d, getBorrowingEnabled d, getStableRateBorrowingEnabled d, getPaused d)"
  "getParams d = (getLtv d, getLiquidationThreshold d, getLiquidationBonus d, getDecimals d, getReserveFactor d,
     getEModeCategory d)"
  "getCaps d = (getBorrowCap d, getSupplyCap d)"
  by (simp_all only: getFlags_def getParams_def getCaps_def getActive_def getFrozen_def getBorrowingEnabled_def
      getStableRateBorrowingEnabled_def getPaused_def getLtv_def getLiquidationThreshold_def getLiquidationBonus_def
      getDecimals_def getReserveFactor_def getEModeCategory_def getBorrowCap_def getSupplyCap_def)

section \<open>The word is a record\<close>

text \<open>
  C18: The configuration word behaves like a record of nineteen independent fields: a setter that accepts
  a value makes its own getter return it and leaves what every other getter returns, and writing back
  what was read changes nothing.
\<close>

theorem configuration_fields_independent:
  assumes "setField f d v = Inr d'"
  shows "getField g d' = (if g = f then v else getField g d) \<and> setField f d (getField f d) = Inr d"
  using getField_setField[OF assms] by (simp add: setField_view getField_view put_field field_bound place_inside)

theorem configuration_fields_independent_witness:
  "setField InSupplyCap 0 7 = Inr (7 * 2 ^ 116) \<and> getField InSupplyCap (7 * 2 ^ 116) = 7 \<and>
   getField InLtv (7 * 2 ^ 116) = getField InLtv 0"
proof -
  have s: "setField InSupplyCap 0 7 = Inr (7 * 2 ^ 116)"
    by code_simp
  show ?thesis
    using s configuration_fields_independent[OF s, of InSupplyCap] configuration_fields_independent[OF s, of InLtv]
    by simp
qed

end
