(* ===== verification/ReserveContract.thy ===== *)
theory ReserveContract
  imports RateContract ReserveBits
begin

text \<open>
  The accounting of a reserve in the contracts, on machine words: \<open>libraries/math/MathUtils.sol\<close> and
  \<open>libraries/logic/ReserveLogic.sol\<close> over the stored data of one reserve and of its three tokens. What
  is stored in 128 or 40 bits is kept in them; events, and the addresses that the cache copies, are left out.
\<close>

section \<open>Interest\<close>

definition umul :: "u256 \<Rightarrow> u256 \<Rightarrow> u256 result" where
  "umul a b = (if uint a * uint b < 2 ^ 256 then Inr (a * b) else Inl (Reverted ''panic 0x11''))"

definition SECONDS_PER_YEAR :: u256 where
  "SECONDS_PER_YEAR = 31536000"

definition calculateLinearInterest_u256 :: "u256 \<Rightarrow> 40 word \<Rightarrow> u256 \<Rightarrow> u256 result" where
  "calculateLinearInterest_u256 rate lastUpdateTimestamp now =
     rbind (usub now (ucast lastUpdateTimestamp)) (\<lambda>timeDelta.
     rbind (umul rate timeDelta) (\<lambda>res.
     uadd RAY_u256 (res div SECONDS_PER_YEAR)))"

text \<open>The differences and the divisions of the unchecked blocks cannot wrap round.\<close>

definition calculateCompoundedInterest_u256 :: "u256 \<Rightarrow> 40 word \<Rightarrow> u256 \<Rightarrow> u256 result" where
  "calculateCompoundedInterest_u256 rate lastUpdateTimestamp currentTimestamp =
     rbind (usub currentTimestamp (ucast lastUpdateTimestamp)) (\<lambda>exp.
     if exp = 0 then Inr RAY_u256
     else
       (let expMinusOne = exp - 1; expMinusTwo = (if 2 < exp then exp - 2 else 0) in
        rbind (rayMul_u256 rate rate) (\<lambda>r2.
        let basePowerTwo = r2 div (SECONDS_PER_YEAR * SECONDS_PER_YEAR) in
        rbind (rayMul_u256 basePowerTwo rate) (\<lambda>r3.
        let basePowerThree = r3 div SECONDS_PER_YEAR in
        rbind (umul exp expMinusOne) (\<lambda>e2.
        rbind (umul e2 basePowerTwo) (\<lambda>secondTerm.
        rbind (umul e2 expMinusTwo) (\<lambda>e3.
        rbind (umul e3 basePowerThree) (\<lambda>thirdTerm.
        rbind (umul rate exp) (\<lambda>first.
        rbind (uadd RAY_u256 (first div SECONDS_PER_YEAR)) (\<lambda>s1.
        rbind (uadd s1 (secondTerm div 2)) (\<lambda>s2.
        uadd s2 (thirdTerm div 6))))))))))))"

section \<open>The data of a reserve\<close>

definition toUint128 :: "u256 \<Rightarrow> 128 word result" where
  "toUint128 v = (if uint v < 2 ^ 128 then Inr (ucast v) else Inl (Reverted ''SafeCast: value doesnt fit in 128 bits''))"

text \<open>\<open>+=\<close> on 128 bits.\<close>

definition uadd128 :: "128 word \<Rightarrow> 128 word \<Rightarrow> 128 word result" where
  "uadd128 a b = (if uint a + uint b < 2 ^ 128 then Inr (a + b) else Inl (Reverted ''panic 0x11''))"

text \<open>\<open>ReserveData\<close>, and of the tokens of the reserve what the accounting reads.\<close>

record reserve_storage =
  rv_configuration :: u256
  rv_liquidityIndex :: "128 word"
  rv_currentLiquidityRate :: "128 word"
  rv_variableBorrowIndex :: "128 word"
  rv_currentVariableBorrowRate :: "128 word"
  rv_currentStableBorrowRate :: "128 word"
  rv_lastUpdateTimestamp :: "40 word"
  rv_accruedToTreasury :: "128 word"
  rv_unbacked :: "128 word"
  rv_RSTokenAddress :: string
  rv_strategy :: rate_strategy
  rv_scaledSupply :: u256
  rv_scaledVariableDebt :: u256
  rv_principalStableDebt :: u256
  rv_avgStableRate :: "128 word"
  rv_stableTimestamp :: "40 word"

text \<open>\<open>getSupplyData\<close> of the stable debt token: the total with the interest since its last update.\<close>

definition calcTotalSupply :: "u256 \<Rightarrow> reserve_storage \<Rightarrow> u256 result" where
  "calcTotalSupply now s =
     (if rv_principalStableDebt s = 0 then Inr 0
      else rbind (calculateCompoundedInterest_u256 (ucast (rv_avgStableRate s)) (rv_stableTimestamp s) now) (\<lambda>cumulatedInterest.
        rayMul_u256 (rv_principalStableDebt s) cumulatedInterest))"

definition getNormalizedIncome :: "u256 \<Rightarrow> reserve_storage \<Rightarrow> u256 result" where
  "getNormalizedIncome now s =
     (if ucast (rv_lastUpdateTimestamp s) = now then Inr (ucast (rv_liquidityIndex s))
      else rbind (calculateLinearInterest_u256 (ucast (rv_currentLiquidityRate s)) (rv_lastUpdateTimestamp s) now) (\<lambda>interest.
        rayMul_u256 interest (ucast (rv_liquidityIndex s))))"

definition getNormalizedDebt :: "u256 \<Rightarrow> reserve_storage \<Rightarrow> u256 result" where
  "getNormalizedDebt now s =
     (if ucast (rv_lastUpdateTimestamp s) = now then Inr (ucast (rv_variableBorrowIndex s))
      else rbind (calculateCompoundedInterest_u256 (ucast (rv_currentVariableBorrowRate s)) (rv_lastUpdateTimestamp s) now) (\<lambda>interest.
        rayMul_u256 interest (ucast (rv_variableBorrowIndex s))))"

text \<open>\<open>totalSupply\<close> of the token of the suppliers.\<close>

definition totalSupply :: "u256 \<Rightarrow> reserve_storage \<Rightarrow> u256 result" where
  "totalSupply now s =
     (if rv_scaledSupply s = 0 then Inr 0
      else rbind (getNormalizedIncome now s) (\<lambda>income. rayMul_u256 (rv_scaledSupply s) income))"

section \<open>Reserve logic\<close>

record reserve_cache =
  ch_currScaledVariableDebt :: u256
  ch_nextScaledVariableDebt :: u256
  ch_currPrincipalStableDebt :: u256
  ch_currAvgStableBorrowRate :: u256
  ch_currTotalStableDebt :: u256
  ch_nextAvgStableBorrowRate :: u256
  ch_nextTotalStableDebt :: u256
  ch_currLiquidityIndex :: u256
  ch_nextLiquidityIndex :: u256
  ch_currVariableBorrowIndex :: u256
  ch_nextVariableBorrowIndex :: u256
  ch_currLiquidityRate :: u256
  ch_currVariableBorrowRate :: u256
  ch_reserveFactor :: u256
  ch_reserveLastUpdateTimestamp :: "40 word"
  ch_stableDebtLastUpdateTimestamp :: "40 word"

definition cache :: "u256 \<Rightarrow> reserve_storage \<Rightarrow> reserve_cache result" where
  "cache now s =
     rbind (calcTotalSupply now s) (\<lambda>totalStableDebt.
     Inr \<lparr>ch_currScaledVariableDebt = rv_scaledVariableDebt s, ch_nextScaledVariableDebt = rv_scaledVariableDebt s,
       ch_currPrincipalStableDebt = rv_principalStableDebt s, ch_currAvgStableBorrowRate = ucast (rv_avgStableRate s),
       ch_currTotalStableDebt = totalStableDebt, ch_nextAvgStableBorrowRate = ucast (rv_avgStableRate s),
       ch_nextTotalStableDebt = totalStableDebt, ch_currLiquidityIndex = ucast (rv_liquidityIndex s),
       ch_nextLiquidityIndex = ucast (rv_liquidityIndex s), ch_currVariableBorrowIndex = ucast (rv_variableBorrowIndex s),
       ch_nextVariableBorrowIndex = ucast (rv_variableBorrowIndex s), ch_currLiquidityRate = ucast (rv_currentLiquidityRate s),
       ch_currVariableBorrowRate = ucast (rv_currentVariableBorrowRate s),
       ch_reserveFactor = getReserveFactor (rv_configuration s),
       ch_reserveLastUpdateTimestamp = rv_lastUpdateTimestamp s, ch_stableDebtLastUpdateTimestamp = rv_stableTimestamp s\<rparr>)"

text \<open>The two blocks of \<open>_updateIndexes\<close>.\<close>

definition updateLiquidityIndex :: "u256 \<Rightarrow> reserve_cache \<times> reserve_storage \<Rightarrow> (reserve_cache \<times> reserve_storage) result" where
  "updateLiquidityIndex now = (\<lambda>(c, s).
     if ch_currLiquidityRate c \<noteq> 0 then
       rbind (calculateLinearInterest_u256 (ch_currLiquidityRate c) (ch_reserveLastUpdateTimestamp c) now) (\<lambda>interest.
       rbind (rayMul_u256 interest (ch_currLiquidityIndex c)) (\<lambda>nextIndex.
       rbind (toUint128 nextIndex) (\<lambda>stored.
       Inr (c\<lparr>ch_nextLiquidityIndex := nextIndex\<rparr>, s\<lparr>rv_liquidityIndex := stored\<rparr>))))
     else Inr (c, s))"

definition updateVariableBorrowIndex :: "u256 \<Rightarrow> reserve_cache \<times> reserve_storage \<Rightarrow> (reserve_cache \<times> reserve_storage) result" where
  "updateVariableBorrowIndex now = (\<lambda>(c, s).
     if ch_currScaledVariableDebt c \<noteq> 0 then
       rbind (calculateCompoundedInterest_u256 (ch_currVariableBorrowRate c) (ch_reserveLastUpdateTimestamp c) now) (\<lambda>interest.
       rbind (rayMul_u256 interest (ch_currVariableBorrowIndex c)) (\<lambda>nextIndex.
       rbind (toUint128 nextIndex) (\<lambda>stored.
       Inr (c\<lparr>ch_nextVariableBorrowIndex := nextIndex\<rparr>, s\<lparr>rv_variableBorrowIndex := stored\<rparr>))))
     else Inr (c, s))"

definition updateIndexes :: "u256 \<Rightarrow> reserve_cache \<times> reserve_storage \<Rightarrow> (reserve_cache \<times> reserve_storage) result" where
  "updateIndexes now r = rbind (updateLiquidityIndex now r) (updateVariableBorrowIndex now)"

text \<open>\<open>amountToMint\<close> of \<open>_accrueToTreasury\<close>.\<close>

definition amountToMint :: "reserve_cache \<Rightarrow> u256 result" where
  "amountToMint c =
     rbind (rayMul_u256 (ch_currScaledVariableDebt c) (ch_currVariableBorrowIndex c)) (\<lambda>prevTotalVariableDebt.
     rbind (rayMul_u256 (ch_currScaledVariableDebt c) (ch_nextVariableBorrowIndex c)) (\<lambda>currTotalVariableDebt.
     rbind (calculateCompoundedInterest_u256 (ch_currAvgStableBorrowRate c) (ch_stableDebtLastUpdateTimestamp c)
       (ucast (ch_reserveLastUpdateTimestamp c))) (\<lambda>cumulatedStableInterest.
     rbind (rayMul_u256 (ch_currPrincipalStableDebt c) cumulatedStableInterest) (\<lambda>prevTotalStableDebt.
     rbind (uadd currTotalVariableDebt (ch_currTotalStableDebt c)) (\<lambda>a.
     rbind (usub a prevTotalVariableDebt) (\<lambda>b.
     rbind (usub b prevTotalStableDebt) (\<lambda>totalDebtAccrued.
     percentMul_u256 totalDebtAccrued (ch_reserveFactor c))))))))"

definition accrueToTreasury :: "reserve_cache \<times> reserve_storage \<Rightarrow> reserve_storage result" where
  "accrueToTreasury = (\<lambda>(c, s).
     if ch_reserveFactor c = 0 then Inr s
     else
       rbind (amountToMint c) (\<lambda>amountToMint.
       if amountToMint \<noteq> 0 then
         rbind (rayDiv_u256 amountToMint (ch_nextLiquidityIndex c)) (\<lambda>minted.
         rbind (toUint128 minted) (\<lambda>minted.
         rbind (uadd128 (rv_accruedToTreasury s) minted) (\<lambda>accrued.
         Inr (s\<lparr>rv_accruedToTreasury := accrued\<rparr>))))
       else Inr s))"

definition updateState_u256 :: "u256 \<Rightarrow> reserve_cache \<times> reserve_storage \<Rightarrow> (reserve_cache \<times> reserve_storage) result" where
  "updateState_u256 now = (\<lambda>(c, s).
     if rv_lastUpdateTimestamp s = ucast now then Inr (c, s)
     else
       rbind (updateIndexes now (c, s)) (\<lambda>(c, s).
       rbind (accrueToTreasury (c, s)) (\<lambda>s.
       Inr (c, s\<lparr>rv_lastUpdateTimestamp := ucast now\<rparr>))))"

definition cumulateToLiquidityIndex_u256 :: "u256 \<Rightarrow> u256 \<Rightarrow> reserve_storage \<Rightarrow> (u256 \<times> reserve_storage) result" where
  "cumulateToLiquidityIndex_u256 totalLiquidity amount s =
     rbind (wadToRay_u256 amount) (\<lambda>a.
     rbind (wadToRay_u256 totalLiquidity) (\<lambda>t.
     rbind (rayDiv_u256 a t) (\<lambda>q.
     rbind (uadd q RAY_u256) (\<lambda>f.
     rbind (rayMul_u256 f (ucast (rv_liquidityIndex s))) (\<lambda>res.
     rbind (toUint128 res) (\<lambda>stored.
     Inr (res, s\<lparr>rv_liquidityIndex := stored\<rparr>)))))))"

text \<open>\<open>balance\<close> is what the token contract of the suppliers holds of the asset.\<close>

definition updateInterestRates ::
    "u256 \<Rightarrow> u256 \<Rightarrow> u256 \<Rightarrow> reserve_cache \<times> reserve_storage \<Rightarrow> reserve_storage result" where
  "updateInterestRates balance liquidityAdded liquidityTaken = (\<lambda>(c, s).
     rbind (rayMul_u256 (ch_nextScaledVariableDebt c) (ch_nextVariableBorrowIndex c)) (\<lambda>totalVariableDebt.
     rbind (calculateInterestRates (rv_strategy s) \<lparr>ri_unbacked = ucast (rv_unbacked s), ri_liquidityAdded = liquidityAdded,
         ri_liquidityTaken = liquidityTaken, ri_totalStableDebt = ch_nextTotalStableDebt c,
         ri_totalVariableDebt = totalVariableDebt, ri_averageStableBorrowRate = ch_nextAvgStableBorrowRate c,
         ri_reserveFactor = ch_reserveFactor c, ri_balance = balance\<rparr>) (\<lambda>(liquidityRate, stableRate, variableRate).
     rbind (toUint128 liquidityRate) (\<lambda>lr.
     rbind (toUint128 stableRate) (\<lambda>sr.
     rbind (toUint128 variableRate) (\<lambda>vr.
     Inr (s\<lparr>rv_currentLiquidityRate := lr, rv_currentStableBorrowRate := sr, rv_currentVariableBorrowRate := vr\<rparr>)))))))"

section \<open>Words as the numbers they hold\<close>

lemma umul_iff: "umul a b = Inr c \<longleftrightarrow> uint c = uint a * uint b"
  using uint_below[of c] by (auto simp: umul_def word_uint_eq_iff uint_word_ariths)

lemma below_128: "uint (x :: 128 word) < 2 ^ 128"
  using uint_lt2p[of x] by simp

lemma below_40: "uint (t :: 40 word) < 2 ^ 40"
  using uint_lt2p[of t] by simp

lemma uint_widen [simp]: "uint (ucast (x :: 128 word) :: u256) = uint x" "uint (ucast (t :: 40 word) :: u256) = uint t"
  using below_128[of x] below_40[of t] by (simp_all add: unsigned_ucast_eq take_bit_int_eq_self)

lemma uint_narrow:
  "uint v < 2 ^ 128 \<Longrightarrow> uint (ucast (v :: u256) :: 128 word) = uint v"
  "uint v < 2 ^ 40 \<Longrightarrow> uint (ucast (v :: u256) :: 40 word) = uint v"
  by (simp_all add: unsigned_ucast_eq take_bit_int_eq_self)

lemma toUint128_iff: "toUint128 v = Inr x \<longleftrightarrow> uint x = uint v"
  using below_128[of x] by (auto simp: toUint128_def word_uint_eq_iff uint_narrow)

lemma uadd128_iff: "uadd128 a b = Inr c \<longleftrightarrow> uint c = uint a + uint b"
  using below_128[of c] by (auto simp: uadd128_def word_uint_eq_iff uint_word_ariths)

end
