(* ===== verification/ScaledToken.thy ===== *)
theory ScaledToken
  imports ReserveContract
begin

text \<open>
  The scaled-balance tokens of the contracts (\<open>tokenization/base/ScaledBalanceTokenBase.sol\<close> over
  \<open>MintableIncentivizedERC20.sol\<close> and \<open>IncentivizedERC20.sol\<close>, with the transfer of \<open>RSToken.sol\<close>):
  balances kept in 128 bits, the index of each holder's last action, the events each operation
  emits. The incentives controller and the validation of a transfer by the pool are calls out of the
  token: parameters that may revert. Allowances and the access checks are left out.
\<close>

section \<open>State and events\<close>

record user_state =
  us_balance :: "128 word"
  us_additionalData :: "128 word"

record scaled_token =
  st_userState :: "string \<Rightarrow> user_state"
  st_totalSupply :: u256

datatype token_log =
    LogTransfer string string u256
  | LogMint string string u256 u256 u256
  | LogBurn string string u256 u256 u256
  | LogBalanceTransfer string string u256 u256

type_synonym incentives = "(string \<Rightarrow> u256 \<Rightarrow> 128 word \<Rightarrow> unit result) option"

definition usub128 :: "128 word \<Rightarrow> 128 word \<Rightarrow> 128 word result" where
  "usub128 a b = (if uint b \<le> uint a then Inr (a - b) else Inl (Reverted ''panic 0x11''))"

definition setBalance :: "string \<Rightarrow> 128 word \<Rightarrow> scaled_token \<Rightarrow> scaled_token" where
  "setBalance account b s =
     s\<lparr>st_userState := (st_userState s)(account := (st_userState s account)\<lparr>us_balance := b\<rparr>)\<rparr>"

definition setIndex :: "string \<Rightarrow> 128 word \<Rightarrow> scaled_token \<Rightarrow> scaled_token" where
  "setIndex account i s =
     s\<lparr>st_userState := (st_userState s)(account := (st_userState s account)\<lparr>us_additionalData := i\<rparr>)\<rparr>"

definition scaledBalance :: "scaled_token \<Rightarrow> string \<Rightarrow> u256" where
  "scaledBalance s account = ucast (us_balance (st_userState s account))"

text \<open>\<open>handleAction\<close>, called when a controller is set.\<close>

definition handleAction :: "incentives \<Rightarrow> string \<Rightarrow> u256 \<Rightarrow> 128 word \<Rightarrow> unit result" where
  "handleAction ic account oldTotalSupply oldBalance =
     (case ic of None \<Rightarrow> Inr () | Some h \<Rightarrow> h account oldTotalSupply oldBalance)"

section \<open>The plain token\<close>

definition incentivized_mint :: "incentives \<Rightarrow> string \<Rightarrow> 128 word \<Rightarrow> scaled_token \<Rightarrow> scaled_token result" where
  "incentivized_mint ic account amount s =
     (let oldTotalSupply = st_totalSupply s;
          oldAccountBalance = us_balance (st_userState s account) in
     rbind (uadd oldTotalSupply (ucast amount)) (\<lambda>total.
     rbind (uadd128 oldAccountBalance amount) (\<lambda>b.
     rbind (handleAction ic account oldTotalSupply oldAccountBalance) (\<lambda>_.
     Inr (setBalance account b (s\<lparr>st_totalSupply := total\<rparr>))))))"

definition incentivized_burn :: "incentives \<Rightarrow> string \<Rightarrow> 128 word \<Rightarrow> scaled_token \<Rightarrow> scaled_token result" where
  "incentivized_burn ic account amount s =
     (let oldTotalSupply = st_totalSupply s;
          oldAccountBalance = us_balance (st_userState s account) in
     rbind (usub oldTotalSupply (ucast amount)) (\<lambda>total.
     rbind (usub128 oldAccountBalance amount) (\<lambda>b.
     rbind (handleAction ic account oldTotalSupply oldAccountBalance) (\<lambda>_.
     Inr (setBalance account b (s\<lparr>st_totalSupply := total\<rparr>))))))"

text \<open>The recipient's balance is read after the sender's was written.\<close>

definition incentivized_transfer ::
    "incentives \<Rightarrow> string \<Rightarrow> string \<Rightarrow> 128 word \<Rightarrow> scaled_token \<Rightarrow> scaled_token result" where
  "incentivized_transfer ic sender recipient amount s =
     (let oldSenderBalance = us_balance (st_userState s sender) in
     rbind (usub128 oldSenderBalance amount) (\<lambda>b.
     let s = setBalance sender b s;
         oldRecipientBalance = us_balance (st_userState s recipient) in
     rbind (uadd128 oldRecipientBalance amount) (\<lambda>b.
     let s = setBalance recipient b s; currentTotalSupply = st_totalSupply s in
     rbind (handleAction ic sender currentTotalSupply oldSenderBalance) (\<lambda>_.
     rbind (if sender \<noteq> recipient then handleAction ic recipient currentTotalSupply oldRecipientBalance
            else Inr ()) (\<lambda>_.
     Inr s)))))"

section \<open>The scaled token\<close>

text \<open>The interest a holder accrued since his last action.\<close>

definition accruedBalance :: "scaled_token \<Rightarrow> string \<Rightarrow> u256 \<Rightarrow> u256 result" where
  "accruedBalance s user index =
     rbind (rayMul_u256 (scaledBalance s user) index) (\<lambda>a.
     rbind (rayMul_u256 (scaledBalance s user) (ucast (us_additionalData (st_userState s user)))) (\<lambda>b.
     usub a b))"

definition token_mintScaled ::
    "incentives \<Rightarrow> string \<Rightarrow> string \<Rightarrow> u256 \<Rightarrow> u256 \<Rightarrow> scaled_token \<Rightarrow>
       (bool \<times> token_log list \<times> scaled_token) result" where
  "token_mintScaled ic caller onBehalfOf amount index s =
     rbind (rayDiv_u256 amount index) (\<lambda>amountScaled.
     rbind (ensure (amountScaled \<noteq> 0) (Reverted ''24'')) (\<lambda>_.
     rbind (accruedBalance s onBehalfOf index) (\<lambda>balanceIncrease.
     rbind (toUint128 index) (\<lambda>i.
     rbind (toUint128 amountScaled) (\<lambda>a.
     rbind (incentivized_mint ic onBehalfOf a (setIndex onBehalfOf i s)) (\<lambda>s'.
     rbind (uadd amount balanceIncrease) (\<lambda>amountToMint.
     Inr (scaledBalance s onBehalfOf = 0,
       [LogTransfer ZERO_ADDRESS onBehalfOf amountToMint,
        LogMint caller onBehalfOf amountToMint balanceIncrease index], s'))))))))"

definition token_burnScaled ::
    "incentives \<Rightarrow> string \<Rightarrow> string \<Rightarrow> u256 \<Rightarrow> u256 \<Rightarrow> scaled_token \<Rightarrow>
       (token_log list \<times> scaled_token) result" where
  "token_burnScaled ic user target amount index s =
     rbind (rayDiv_u256 amount index) (\<lambda>amountScaled.
     rbind (ensure (amountScaled \<noteq> 0) (Reverted ''25'')) (\<lambda>_.
     rbind (accruedBalance s user index) (\<lambda>balanceIncrease.
     rbind (toUint128 index) (\<lambda>i.
     rbind (toUint128 amountScaled) (\<lambda>a.
     rbind (incentivized_burn ic user a (setIndex user i s)) (\<lambda>s'.
     if amount < balanceIncrease then
       rbind (usub balanceIncrease amount) (\<lambda>amountToMint.
       Inr ([LogTransfer ZERO_ADDRESS user amountToMint,
             LogMint user user amountToMint balanceIncrease index], s'))
     else
       rbind (usub amount balanceIncrease) (\<lambda>amountToBurn.
       Inr ([LogTransfer user ZERO_ADDRESS amountToBurn,
             LogBurn user target amountToBurn balanceIncrease index], s'))))))))"

definition token_transferScaled ::
    "incentives \<Rightarrow> string \<Rightarrow> string \<Rightarrow> string \<Rightarrow> u256 \<Rightarrow> u256 \<Rightarrow> scaled_token \<Rightarrow>
       (token_log list \<times> scaled_token) result" where
  "token_transferScaled ic msgSender sender recipient amount index s =
     rbind (accruedBalance s sender index) (\<lambda>senderBalanceIncrease.
     rbind (accruedBalance s recipient index) (\<lambda>recipientBalanceIncrease.
     rbind (toUint128 index) (\<lambda>i.
     rbind (rayDiv_u256 amount index) (\<lambda>x.
     rbind (toUint128 x) (\<lambda>a.
     rbind (incentivized_transfer ic sender recipient a (setIndex recipient i (setIndex sender i s))) (\<lambda>s'.
     Inr ((if 0 < senderBalanceIncrease then
             [LogTransfer ZERO_ADDRESS sender senderBalanceIncrease,
              LogMint msgSender sender senderBalanceIncrease senderBalanceIncrease index] else []) @
          (if sender \<noteq> recipient \<and> 0 < recipientBalanceIncrease then
             [LogTransfer ZERO_ADDRESS recipient recipientBalanceIncrease,
              LogMint msgSender recipient recipientBalanceIncrease recipientBalanceIncrease index] else []) @
          [LogTransfer sender recipient amount], s')))))))"

text \<open>
  \<open>_transfer\<close> of \<open>RSToken\<close>. \<open>finalizeTransfer\<close> is the pool's validation, given the sender, the
  recipient, the amount and their balances before.
\<close>

definition rs_transfer ::
    "incentives \<Rightarrow> (string \<Rightarrow> string \<Rightarrow> u256 \<Rightarrow> u256 \<Rightarrow> u256 \<Rightarrow> unit result) \<Rightarrow> u256 \<Rightarrow> string \<Rightarrow> string \<Rightarrow> string \<Rightarrow>
       u256 \<Rightarrow> bool \<Rightarrow> scaled_token \<Rightarrow> (token_log list \<times> scaled_token) result" where
  "rs_transfer ic finalizeTransfer index msgSender from to amount validate s =
     rbind (rayMul_u256 (scaledBalance s from) index) (\<lambda>fromBalanceBefore.
     rbind (rayMul_u256 (scaledBalance s to) index) (\<lambda>toBalanceBefore.
     rbind (token_transferScaled ic msgSender from to amount index s) (\<lambda>(logs, s').
     rbind (if validate then finalizeTransfer from to amount fromBalanceBefore toBalanceBefore else Inr ()) (\<lambda>_.
     rbind (rayDiv_u256 amount index) (\<lambda>x.
     Inr (logs @ [LogBalanceTransfer from to x index], s'))))))"

section \<open>Inversion\<close>

lemma usub128_iff: "usub128 a b = Inr c \<longleftrightarrow> uint b \<le> uint a \<and> uint c = uint a - uint b"
  by (auto simp: usub128_def word_uint_eq_iff uint_sub_if')

lemma balance_after [simp]:
  "us_balance (st_userState (setBalance a b s) u) = (if u = a then b else us_balance (st_userState s u))"
  "us_balance (st_userState (setIndex a i s) u) = us_balance (st_userState s u)"
  "st_totalSupply (setBalance a b s) = st_totalSupply s" "st_totalSupply (setIndex a i s) = st_totalSupply s"
  by (simp_all add: setBalance_def setIndex_def)

lemma index_after [simp]:
  "us_additionalData (st_userState (setBalance a b s) u) = us_additionalData (st_userState s u)"
  "us_additionalData (st_userState (setIndex a i s) u) =
     (if u = a then i else us_additionalData (st_userState s u))"
  by (simp_all add: setBalance_def setIndex_def)

lemma uint_scaledBalance: "uint (scaledBalance s u) = uint (us_balance (st_userState s u))"
  by (simp add: scaledBalance_def)

lemma accruedBalance_refines:
  assumes "accruedBalance s user index = Inr b"
  shows "uint b = rayMul (uint (us_balance (st_userState s user))) (uint index) -
    rayMul (uint (us_balance (st_userState s user))) (uint (us_additionalData (st_userState s user)))"
  using assms
  by (auto simp: accruedBalance_def rbind_eq_Inr word_steps uint_scaledBalance dest!: rayMul_refines)

lemma incentivized_mint_inv:
  assumes "incentivized_mint ic account a s = Inr s'"
  shows "uint (us_balance (st_userState s' account)) = uint (us_balance (st_userState s account)) + uint a"
    "u \<noteq> account \<Longrightarrow> us_balance (st_userState s' u) = us_balance (st_userState s u)"
    "uint (st_totalSupply s') = uint (st_totalSupply s) + uint a"
  using assms by (auto simp: incentivized_mint_def Let_def rbind_eq_Inr word_steps uadd128_iff setBalance_def)

lemma incentivized_burn_inv:
  assumes "incentivized_burn ic account a s = Inr s'"
  shows "uint (us_balance (st_userState s' account)) = uint (us_balance (st_userState s account)) - uint a"
    "u \<noteq> account \<Longrightarrow> us_balance (st_userState s' u) = us_balance (st_userState s u)"
    "uint (st_totalSupply s') = uint (st_totalSupply s) - uint a"
  using assms by (auto simp: incentivized_burn_def Let_def rbind_eq_Inr word_steps usub128_iff setBalance_def)

lemma incentivized_transfer_inv:
  assumes "incentivized_transfer ic sender recipient a s = Inr s'"
  shows "uint (us_balance (st_userState s' u)) = uint (us_balance (st_userState s u)) -
      (if u = sender then uint a else 0) + (if u = recipient then uint a else 0)"
    "st_totalSupply s' = st_totalSupply s"
  using assms
  by (auto simp: incentivized_transfer_def Let_def rbind_eq_Inr uadd128_iff usub128_iff setBalance_def)

text \<open>A mint and a burn: what is scaled, what is accrued, what the books say afterwards.\<close>

lemma mintScaled_inv:
  assumes "token_mintScaled ic caller who amount index s = Inr (first, logs, s')"
  obtains x b total where "uint index \<noteq> 0" "rayDiv (uint amount) (uint index) = Inr x" "0 < x"
    "uint b = rayMul (uint (us_balance (st_userState s who))) (uint index) -
       rayMul (uint (us_balance (st_userState s who))) (uint (us_additionalData (st_userState s who)))"
    "uint total = uint amount + uint b"
    "logs = [LogTransfer ZERO_ADDRESS who total, LogMint caller who total b index]"
    "uint (us_balance (st_userState s' who)) = uint (us_balance (st_userState s who)) + x"
    "\<And>u. u \<noteq> who \<Longrightarrow> us_balance (st_userState s' u) = us_balance (st_userState s u)"
    "uint (st_totalSupply s') = uint (st_totalSupply s) + x"
proof -
  from assms obtain q b a i total where w: "rayDiv_u256 amount index = Inr q" "q \<noteq> 0"
      "accruedBalance s who index = Inr b" "toUint128 q = Inr a"
      "incentivized_mint ic who a (setIndex who i s) = Inr s'" "uadd amount b = Inr total"
      "logs = [LogTransfer ZERO_ADDRESS who total, LogMint caller who total b index]"
    by (auto simp: token_mintScaled_def rbind_eq_Inr)
  have a: "uint a = uint q" using w(4) by (simp add: toUint128_iff)
  have "uint q \<noteq> 0" using w(2) by (simp add: word_uint_eq_iff)
  then have "0 < uint q" using uint_ge_0[of q] by linarith
  then show thesis
    using that[OF _ _ _ accruedBalance_refines[OF w(3)] _ w(7)] rayDiv_refines[OF w(1)] w(6)
      incentivized_mint_inv[OF w(5)] by (simp add: a word_steps)
qed

lemma burnScaled_inv:
  assumes "token_burnScaled ic who target amount index s = Inr (logs, s')"
  obtains x b rest where "uint index \<noteq> 0" "rayDiv (uint amount) (uint index) = Inr x" "0 < x"
    "uint b = rayMul (uint (us_balance (st_userState s who))) (uint index) -
       rayMul (uint (us_balance (st_userState s who))) (uint (us_additionalData (st_userState s who)))"
    "if uint amount < uint b
     then uint rest = uint b - uint amount \<and>
       logs = [LogTransfer ZERO_ADDRESS who rest, LogMint who who rest b index]
     else uint rest = uint amount - uint b \<and>
       logs = [LogTransfer who ZERO_ADDRESS rest, LogBurn who target rest b index]"
    "uint (us_balance (st_userState s' who)) = uint (us_balance (st_userState s who)) - x"
    "\<And>u. u \<noteq> who \<Longrightarrow> us_balance (st_userState s' u) = us_balance (st_userState s u)"
    "uint (st_totalSupply s') = uint (st_totalSupply s) - x"
proof -
  from assms obtain q b a i rest where w: "rayDiv_u256 amount index = Inr q" "q \<noteq> 0"
      "accruedBalance s who index = Inr b" "toUint128 q = Inr a"
      "incentivized_burn ic who a (setIndex who i s) = Inr s'"
      "if amount < b then usub b amount = Inr rest \<and>
         logs = [LogTransfer ZERO_ADDRESS who rest, LogMint who who rest b index]
       else usub amount b = Inr rest \<and>
         logs = [LogTransfer who ZERO_ADDRESS rest, LogBurn who target rest b index]"
    by (auto simp: token_burnScaled_def rbind_eq_Inr split: if_splits)
  have a: "uint a = uint q" using w(4) by (simp add: toUint128_iff)
  have "uint q \<noteq> 0" using w(2) by (simp add: word_uint_eq_iff)
  then have "0 < uint q" using uint_ge_0[of q] by linarith
  moreover have "if uint amount < uint b
     then uint rest = uint b - uint amount \<and>
       logs = [LogTransfer ZERO_ADDRESS who rest, LogMint who who rest b index]
     else uint rest = uint amount - uint b \<and>
       logs = [LogTransfer who ZERO_ADDRESS rest, LogBurn who target rest b index]"
    using w(6) by (simp add: word_less_def word_steps split: if_splits)
  ultimately show thesis
    using that[OF _ _ _ accruedBalance_refines[OF w(3)]] rayDiv_refines[OF w(1)]
      incentivized_burn_inv[OF w(5)] by (simp add: a)
qed

lemma transferScaled_inv:
  assumes "token_transferScaled ic msgSender sender recipient amount index s = Inr (logs, s')"
  obtains x i j where "uint index \<noteq> 0" "rayDiv (uint amount) (uint index) = Inr x" "0 \<le> x"
    "uint i = rayMul (uint (us_balance (st_userState s sender))) (uint index) -
       rayMul (uint (us_balance (st_userState s sender))) (uint (us_additionalData (st_userState s sender)))"
    "uint j = rayMul (uint (us_balance (st_userState s recipient))) (uint index) -
       rayMul (uint (us_balance (st_userState s recipient))) (uint (us_additionalData (st_userState s recipient)))"
    "logs = (if 0 < uint i then [LogTransfer ZERO_ADDRESS sender i, LogMint msgSender sender i i index] else []) @
      (if sender \<noteq> recipient \<and> 0 < uint j
       then [LogTransfer ZERO_ADDRESS recipient j, LogMint msgSender recipient j j index] else []) @
      [LogTransfer sender recipient amount]"
    "\<And>u. uint (us_balance (st_userState s' u)) = uint (us_balance (st_userState s u)) -
      (if u = sender then x else 0) + (if u = recipient then x else 0)"
    "st_totalSupply s' = st_totalSupply s"
proof -
  from assms obtain i j k q a where w: "accruedBalance s sender index = Inr i"
      "accruedBalance s recipient index = Inr j" "rayDiv_u256 amount index = Inr q" "toUint128 q = Inr a"
      "incentivized_transfer ic sender recipient a (setIndex recipient k (setIndex sender k s)) = Inr s'"
      "logs = (if 0 < i then [LogTransfer ZERO_ADDRESS sender i, LogMint msgSender sender i i index] else []) @
        (if sender \<noteq> recipient \<and> 0 < j
         then [LogTransfer ZERO_ADDRESS recipient j, LogMint msgSender recipient j j index] else []) @
        [LogTransfer sender recipient amount]"
    by (auto simp: token_transferScaled_def rbind_eq_Inr)
  have a: "uint a = uint q" using w(4) by (simp add: toUint128_iff)
  have pos: "0 < x \<longleftrightarrow> 0 < uint x" for x :: u256 by (simp add: word_less_def)
  show thesis
    using that[OF _ _ _ accruedBalance_refines[OF w(1)] accruedBalance_refines[OF w(2)]]
      rayDiv_refines[OF w(3)] w(6) incentivized_transfer_inv[OF w(5)] by (simp add: a pos)
qed

section \<open>The supply\<close>

datatype scaled_op =
    MintOp string string u256 u256
  | BurnOp string string u256 u256
  | TransferOp string string string u256 u256

fun runScaled :: "incentives \<Rightarrow> scaled_op \<Rightarrow> scaled_token \<Rightarrow> scaled_token result" where
  "runScaled ic (MintOp caller who amount index) s =
     rbind (token_mintScaled ic caller who amount index s) (\<lambda>(_, _, s'). Inr s')"
| "runScaled ic (BurnOp who target amount index) s =
     rbind (token_burnScaled ic who target amount index s) (\<lambda>(_, s'). Inr s')"
| "runScaled ic (TransferOp msgSender sender recipient amount index) s =
     rbind (token_transferScaled ic msgSender sender recipient amount index s) (\<lambda>(_, s'). Inr s')"

text \<open>All holders are among \<open>S\<close>, and their scaled balances add up to the scaled total supply.\<close>

definition backed_by :: "string set \<Rightarrow> scaled_token \<Rightarrow> bool" where
  "backed_by S s \<longleftrightarrow> finite S \<and> (\<forall>u. u \<notin> S \<longrightarrow> us_balance (st_userState s u) = 0) \<and>
     uint (st_totalSupply s) = (\<Sum>u\<in>S. uint (us_balance (st_userState s u)))"

definition no_token :: scaled_token where
  "no_token = \<lparr>st_userState = (\<lambda>_. \<lparr>us_balance = 0, us_additionalData = 0\<rparr>), st_totalSupply = 0\<rparr>"

lemma no_token_backed: "backed_by {} no_token"
  by (simp add: backed_by_def no_token_def)

lemma backed_by_more: "backed_by S s \<Longrightarrow> finite T \<Longrightarrow> S \<subseteq> T \<Longrightarrow> backed_by T s"
  by (auto simp: backed_by_def intro!: sum.mono_neutral_left)

lemma sum_moved:
  fixes f g :: "'a \<Rightarrow> int"
  assumes "finite S" "\<And>u. u \<in> S \<Longrightarrow> g u = f u + d u"
  shows "(\<Sum>u\<in>S. g u) = (\<Sum>u\<in>S. f u) + (\<Sum>u\<in>S. d u)"
  using assms by (simp add: sum.distrib)

lemma balances_moved:
  assumes "backed_by S s" "who \<in> S" "uint (us_balance (st_userState s' who)) = uint (us_balance (st_userState s who)) + x"
    "\<And>u. u \<noteq> who \<Longrightarrow> us_balance (st_userState s' u) = us_balance (st_userState s u)"
    "uint (st_totalSupply s') = uint (st_totalSupply s) + x"
  shows "backed_by S s'"
proof -
  have S: "finite S" using assms(1) by (simp add: backed_by_def)
  have "(\<Sum>u\<in>S. uint (us_balance (st_userState s' u))) =
      (\<Sum>u\<in>S. uint (us_balance (st_userState s u))) + (\<Sum>u\<in>S. if u = who then x else 0)"
    using assms(3,4) by (intro sum_moved[OF S]) auto
  also have "(\<Sum>u\<in>S. if u = who then x else 0) = x" using S assms(2) by simp
  finally have "uint (st_totalSupply s') = (\<Sum>u\<in>S. uint (us_balance (st_userState s' u)))"
    using assms(1,5) by (simp add: backed_by_def)
  moreover have "us_balance (st_userState s' u) = 0" if "u \<notin> S" for u
    using assms(1,2,4) that by (metis backed_by_def)
  ultimately show ?thesis using S by (simp add: backed_by_def)
qed

lemma runScaled_backed:
  assumes "runScaled ic op s = Inr s'" "backed_by S s"
  shows "\<exists>T. S \<subseteq> T \<and> backed_by T s'"
proof (cases op)
  case (MintOp caller who amount index)
  with assms(1) obtain first logs where t: "token_mintScaled ic caller who amount index s = Inr (first, logs, s')"
    by (auto simp: rbind_eq_Inr)
  obtain x where m: "uint (us_balance (st_userState s' who)) = uint (us_balance (st_userState s who)) + x"
      "\<And>u. u \<noteq> who \<Longrightarrow> us_balance (st_userState s' u) = us_balance (st_userState s u)"
      "uint (st_totalSupply s') = uint (st_totalSupply s) + x"
    by (rule mintScaled_inv[OF t]) (rule that; assumption)
  have b: "backed_by (insert who S) s"
    by (rule backed_by_more[OF assms(2)]) (use assms(2) in \<open>auto simp: backed_by_def\<close>)
  have "backed_by (insert who S) s'" by (rule balances_moved[OF b insertI1 m])
  then show ?thesis by blast
next
  case (BurnOp who target amount index)
  with assms(1) obtain logs where t: "token_burnScaled ic who target amount index s = Inr (logs, s')"
    by (auto simp: rbind_eq_Inr)
  obtain x where m: "uint (us_balance (st_userState s' who)) = uint (us_balance (st_userState s who)) - x"
      "\<And>u. u \<noteq> who \<Longrightarrow> us_balance (st_userState s' u) = us_balance (st_userState s u)"
      "uint (st_totalSupply s') = uint (st_totalSupply s) - x"
    by (rule burnScaled_inv[OF t]) (rule that; assumption)
  have b: "backed_by (insert who S) s"
    by (rule backed_by_more[OF assms(2)]) (use assms(2) in \<open>auto simp: backed_by_def\<close>)
  have "uint (us_balance (st_userState s' who)) = uint (us_balance (st_userState s who)) + - x"
      "uint (st_totalSupply s') = uint (st_totalSupply s) + - x"
    using m(1,3) by simp_all
  from balances_moved[OF b insertI1 this(1) m(2) this(2)] have "backed_by (insert who S) s'" .
  then show ?thesis by blast
next
  case (TransferOp msgSender sender recipient amount index)
  with assms(1) obtain logs where t: "token_transferScaled ic msgSender sender recipient amount index s = Inr (logs, s')"
    by (auto simp: rbind_eq_Inr)
  obtain x where m: "\<And>u. uint (us_balance (st_userState s' u)) = uint (us_balance (st_userState s u)) -
      (if u = sender then x else 0) + (if u = recipient then x else 0)" "st_totalSupply s' = st_totalSupply s"
    by (rule transferScaled_inv[OF t]) (rule that; assumption)
  let ?T = "{sender, recipient} \<union> S"
  have b: "backed_by ?T s" by (rule backed_by_more[OF assms(2)]) (use assms(2) in \<open>auto simp: backed_by_def\<close>)
  then have T: "finite ?T" by (simp add: backed_by_def)
  have "(\<Sum>u\<in>?T. uint (us_balance (st_userState s' u))) = (\<Sum>u\<in>?T. uint (us_balance (st_userState s u))) +
      (\<Sum>u\<in>?T. (if u = recipient then x else 0) - (if u = sender then x else 0))"
    using m(1) by (intro sum_moved[OF T]) auto
  also have "(\<Sum>u\<in>?T. (if u = recipient then x else 0) - (if u = sender then x else 0)) = 0"
    unfolding sum_subtractf using T by simp
  finally have "backed_by ?T s'"
    using b m by (auto simp: backed_by_def word_uint_eq_iff)
  then show ?thesis by blast
qed

text \<open>
  C32: The scaled total supply of a token is always the sum of its scaled balances. Whatever sequence of
  scaled mints, burns and transfers goes through, from the empty token, all but finitely many accounts hold
  nothing and the balances of the others, which are kept in 128 bits, add up to the 256-bit total supply.
\<close>

theorem scaled_supply_is_sum_of_balances:
  assumes "foldM (\<lambda>s op. runScaled ic op s) no_token ops = Inr s"
  shows "\<exists>S. backed_by S s"
proof -
  have "\<exists>T. backed_by T s" if "foldM (\<lambda>s op. runScaled ic op s) s0 ops = Inr s" "backed_by S s0" for s0 S
    using that
  proof (induction ops arbitrary: s0 S)
    case (Cons op ops)
    then obtain s1 where s1: "runScaled ic op s0 = Inr s1" "foldM (\<lambda>s op. runScaled ic op s) s1 ops = Inr s"
      by (auto simp: rbind_eq_Inr)
    from runScaled_backed[OF s1(1) Cons.prems(2)] Cons.IH[OF s1(2)] show ?case by blast
  qed auto
  from this[OF assms no_token_backed] show ?thesis .
qed

theorem scaled_supply_is_sum_of_balances_witness:
  "\<exists>s S. foldM (\<lambda>s op. runScaled None op s) no_token
       [MintOp ''0xa'' ''0xa'' 40000 RAY_u256, TransferOp ''0xa'' ''0xa'' ''0xb'' 15000 RAY_u256,
        BurnOp ''0xb'' ''0xc'' 5000 RAY_u256] = Inr s \<and> backed_by S s \<and> st_totalSupply s = 35000"
proof -
  let ?run = "foldM (\<lambda>s op. runScaled None op s) no_token
       [MintOp ''0xa'' ''0xa'' 40000 RAY_u256, TransferOp ''0xa'' ''0xa'' ''0xb'' 15000 RAY_u256,
        BurnOp ''0xb'' ''0xc'' 5000 RAY_u256]"
  have "\<not> isl ?run" "st_totalSupply (projr ?run) = 35000" by code_simp+
  then obtain s where s: "?run = Inr s" "st_totalSupply s = 35000" by (cases ?run) auto
  from scaled_supply_is_sum_of_balances[OF s(1)] s show ?thesis by blast
qed

end
