(* ===== verification/TokenFlow.thy ===== *)
theory TokenFlow
  imports EventProps ActionProps ScaledToken "HOL-Library.Multiset"
begin

text \<open>
  The events a checked token transaction expects against the token of the contracts: they are the events
  the token emits, and as a flow of tokens they add up to the change of the holder's balance.
\<close>

section \<open>Flows\<close>

text \<open>What a holder gains of a token by one expected event.\<close>

definition flow_of :: "string \<Rightarrow> string \<Rightarrow> expected_event \<Rightarrow> int" where
  "flow_of token who ev =
     (if xe_name ev = ''Transfer'' \<and> xe_emitter ev = token then
        (case xe_args ev of
           [EvStr sender, EvStr receiver, EvNum v] \<Rightarrow>
             (if receiver = who then v else 0) - (if sender = who then v else 0)
         | _ \<Rightarrow> 0)
      else 0)"

definition flow :: "string \<Rightarrow> string \<Rightarrow> expected_event list \<Rightarrow> int" where
  "flow token who evs = sum_list (map (flow_of token who) evs)"

lemma flow_simps [simp]:
  "flow token who [] = 0"
  "flow token who (e # evs) = flow_of token who e + flow token who evs"
  "flow token who (evs @ evs') = flow token who evs + flow token who evs'"
  by (simp_all add: flow_def)

lemma flow_of_events [simp]:
  "flow_of token who (transferEvent c t a b v) =
     (if t = token then (if b = who then v else 0) - (if a = who then v else 0) else 0)"
  "flow_of token who (mintEvent c t a b vs) = 0"
  "flow_of token who (burnEvent c t args) = 0"
  by (simp_all add: flow_of_def transferEvent_def mintEvent_def burnEvent_def)

section \<open>The four scaled-balance transactions\<close>

datatype checked_op = OpSupply | OpWithdraw | OpVariableBorrow | OpRepayVariable

fun checked ::
    "checked_op \<Rightarrow> 'w token_env \<Rightarrow> string \<Rightarrow> string \<Rightarrow> string \<Rightarrow> string \<Rightarrow> 'w \<Rightarrow>
       (receipt \<times> log_entry list option \<times> 'w) result" where
  "checked OpSupply = supplyTokens"
| "checked OpWithdraw = withdrawTokens"
| "checked OpVariableBorrow = variableBorrow"
| "checked OpRepayVariable = repayVariableBorrow"

text \<open>The holder, the token and the index of the balance that moves, and its direction.\<close>

fun holder :: "checked_op \<Rightarrow> string \<Rightarrow> string \<Rightarrow> string" where
  "holder OpWithdraw user other = user"
| "holder _ user other = other"

fun positionToken :: "checked_op \<Rightarrow> raw_reserve \<Rightarrow> string" where
  "positionToken OpSupply v = raw_RSTokenAddress v"
| "positionToken OpWithdraw v = raw_RSTokenAddress v"
| "positionToken _ v = raw_variableDebtTokenAddress v"

fun positionIndex :: "checked_op \<Rightarrow> 'w token_env \<Rightarrow> 'w \<Rightarrow> string \<Rightarrow> int result" where
  "positionIndex OpSupply env = getReserveNormalizedIncome env"
| "positionIndex OpWithdraw env = getReserveNormalizedIncome env"
| "positionIndex _ env = getReserveNormalizedVariableDebt env"

fun credits :: "checked_op \<Rightarrow> bool" where
  "credits OpSupply \<longleftrightarrow> True"
| "credits OpVariableBorrow \<longleftrightarrow> True"
| "credits _ \<longleftrightarrow> False"

fun checkedEvents ::
    "checked_op \<Rightarrow> 'w token_env \<Rightarrow> string \<Rightarrow> string \<Rightarrow> raw_reserve \<Rightarrow> int \<Rightarrow> string \<Rightarrow> int \<Rightarrow> int \<Rightarrow>
       expected_event list" where
  "checkedEvents OpSupply env user underlying v amount other inc idx =
     supplyEvents env user underlying (raw_RSTokenAddress v) amount other inc idx"
| "checkedEvents OpWithdraw env user underlying v amount other inc idx =
     withdrawEvents env user underlying (raw_RSTokenAddress v) amount other inc idx"
| "checkedEvents OpVariableBorrow env user underlying v amount other inc idx =
     variableBorrowEvents env user underlying (raw_RSTokenAddress v) (raw_variableDebtTokenAddress v)
       amount other inc idx"
| "checkedEvents OpRepayVariable env user underlying v amount other inc idx =
     repayVariableEvents env user underlying (raw_RSTokenAddress v) (raw_variableDebtTokenAddress v)
       amount other inc idx"

lemmas checked_defs = supplyTokens_def withdrawTokens_def variableBorrow_def repayVariableBorrow_def

lemma checked_inv:
  assumes "checked op env user underlying amt other w = Inr (rc, logs, w')"
    "reserveView env w underlying = Inr v"
  obtains amount i0 i1 x s1 where "convertToCurrencyDecimals env w underlying amt = Inr amount"
    "getPreviousIndex env w (positionToken op v) (holder op user other) = Inr i0"
    "positionIndex op env w' underlying = Inr i1" "rayDiv amount i1 = Inr x"
    "scaledBalanceOf env w' (positionToken op v) (holder op user other) = Inr s1"
    "matchEvents (ethersOf env) logs (checkedEvents op env user underlying v amount other
       (getBalanceIncrease (if credits op then s1 - x else s1 + x) i0 i1) i1) = Inr ()"
  using assms by (cases op) (auto simp: checked_defs rbind_eq_Inr Let_def)

lemma checked_flow:
  assumes "holder op user other \<noteq> ZERO_ADDRESS" "positionToken op v \<noteq> underlying"
  shows "flow (positionToken op v) (holder op user other)
      (checkedEvents op env user underlying v amount other inc idx) =
    (if credits op then amount + inc else inc - amount)"
  using assms
  by (cases op) (auto simp: supplyEvents_def withdrawEvents_def variableBorrowEvents_def
      repayVariableEvents_def)

text \<open>The event a helper expects for an event the token emits.\<close>

fun asExpected :: "event_interface \<Rightarrow> string \<Rightarrow> token_log \<Rightarrow> expected_event" where
  "asExpected iface token (LogTransfer sender receiver v) = transferEvent iface token sender receiver (uint v)"
| "asExpected iface token (LogMint caller who v inc index) =
     mintEvent iface token caller who [uint v, uint inc, uint index]"
| "asExpected iface token (LogBurn who target v inc index) =
     burnEvent iface token [EvStr who, EvStr target, EvNum (uint v), EvNum (uint inc), EvNum (uint index)]"
| "asExpected iface token (LogBalanceTransfer sender receiver v index) =
     \<lparr>xe_name = ''BalanceTransfer'', xe_contract = iface, xe_emitter = token,
      xe_args = [EvStr sender, EvStr receiver, EvNum (uint v), EvNum (uint index)]\<rparr>"

fun positionInterface :: "checked_op \<Rightarrow> 'w token_env \<Rightarrow> event_interface" where
  "positionInterface OpSupply env = rsTokenInterface env"
| "positionInterface OpWithdraw env = rsTokenInterface env"
| "positionInterface _ env = variableDebtInterface env"

text \<open>What the pool calls on the position's token: \<open>mint\<close> and \<open>burn\<close> of the RSToken and of the variable debt.\<close>

fun positionCall ::
    "incentives \<Rightarrow> checked_op \<Rightarrow> string \<Rightarrow> string \<Rightarrow> u256 \<Rightarrow> u256 \<Rightarrow> scaled_token \<Rightarrow>
       (token_log list \<times> scaled_token) result" where
  "positionCall ic OpSupply user other amount index s =
     rbind (token_mintScaled ic user other amount index s) (\<lambda>(_, logs, s'). Inr (logs, s'))"
| "positionCall ic OpWithdraw user other amount index s = token_burnScaled ic user other amount index s"
| "positionCall ic OpVariableBorrow user other amount index s =
     rbind (token_mintScaled ic user other amount index s) (\<lambda>(_, logs, s'). Inr (logs, s'))"
| "positionCall ic OpRepayVariable user other amount index s =
     token_burnScaled ic other ZERO_ADDRESS amount index s"

text \<open>The two views of the token that a helper reads, of one holder.\<close>

definition reads_books :: "'w token_env \<Rightarrow> 'w \<Rightarrow> string \<Rightarrow> string \<Rightarrow> scaled_token \<Rightarrow> bool" where
  "reads_books env w token who s \<longleftrightarrow>
     scaledBalanceOf env w token who = Inr (uint (us_balance (st_userState s who))) \<and>
     getPreviousIndex env w token who = Inr (uint (us_additionalData (st_userState s who)))"

abbreviation booked :: "scaled_token \<Rightarrow> string \<Rightarrow> int" where
  "booked s who \<equiv> uint (us_balance (st_userState s who))"

abbreviation lastIndex :: "scaled_token \<Rightarrow> string \<Rightarrow> int" where
  "lastIndex s who \<equiv> uint (us_additionalData (st_userState s who))"

lemma positionCall_books:
  assumes "positionCall ic op user other amount index s = Inr (emitted, s')" "who = holder op user other"
  obtains x where "0 < uint index" "rayDiv (uint amount) (uint index) = Inr x"
    "booked s' who = (if credits op then booked s who + x else booked s who - x)"
    "checkedEvents op env user underlying v (uint amount) other
       (getBalanceIncrease (booked s who) (lastIndex s who) (uint index)) (uint index) =
     hd (checkedEvents op env user underlying v (uint amount) other
       (getBalanceIncrease (booked s who) (lastIndex s who) (uint index)) (uint index)) #
     map (asExpected (positionInterface op env) (positionToken op v)) emitted"
proof (cases op)
  case OpSupply
  with assms obtain f where "token_mintScaled ic user who amount index s = Inr (f, emitted, s')"
    by (auto simp: rbind_eq_Inr)
  then show ?thesis
    by (rule mintScaled_inv) (rule that; use OpSupply assms(2) in
      \<open>simp add: supplyEvents_def getBalanceIncrease_def order.not_eq_order_implies_strict\<close>)
next
  case OpVariableBorrow
  with assms obtain f where "token_mintScaled ic user who amount index s = Inr (f, emitted, s')"
    by (auto simp: rbind_eq_Inr)
  then show ?thesis
    by (rule mintScaled_inv) (rule that; use OpVariableBorrow assms(2) in
      \<open>simp add: variableBorrowEvents_def getBalanceIncrease_def order.not_eq_order_implies_strict\<close>)
next
  case OpWithdraw
  with assms have "token_burnScaled ic who other amount index s = Inr (emitted, s')" by simp
  then show ?thesis
    by (rule burnScaled_inv) (rule that; use OpWithdraw assms(2) in
      \<open>simp add: withdrawEvents_def getBalanceIncrease_def order.not_eq_order_implies_strict split: if_splits\<close>)
next
  case OpRepayVariable
  with assms have "token_burnScaled ic who ZERO_ADDRESS amount index s = Inr (emitted, s')" by simp
  then show ?thesis
    by (rule burnScaled_inv) (rule that; use OpRepayVariable assms(2) in
      \<open>simp add: repayVariableEvents_def getBalanceIncrease_def order.not_eq_order_implies_strict split: if_splits\<close>)
qed

text \<open>A flow of the amount and the interest accounts for a balance that moved by the scaled amount.\<close>

lemma flow_matches_move:
  assumes "0 < uint index" "rayDiv (uint amount) (uint index) = Inr x"
    "booked s' who = (if gain then booked s who + x else booked s who - x)"
    "f = (if gain then uint amount else - uint amount) + getBalanceIncrease (booked s who) (lastIndex s who) (uint index)"
  shows "2 * RAY * \<bar>f - (rayMul (booked s' who) (uint index) - rayMul (booked s who) (lastIndex s who))\<bar>
    \<le> 2 * RAY + uint index"
proof -
  have nn: "0 \<le> booked s who" "0 \<le> booked s' who" "0 \<le> uint amount" by simp_all
  show ?thesis
  proof (cases gain)
    case True
    then have "booked s' who = booked s who + x" using assms(3) by simp
    from ray.scaled_move[OF nn assms(1,2) this] True assms(4) show ?thesis
      by (simp add: getBalanceIncrease_def abs_minus_commute algebra_simps)
  next
    case False
    then have "booked s who = booked s' who + x" using assms(3) by simp
    moreover have "f - (rayMul (booked s' who) (uint index) - rayMul (booked s who) (lastIndex s who)) =
        rayMul (booked s who) (uint index) - (rayMul (booked s' who) (uint index) + uint amount)"
      using False assms(4) by (simp add: getBalanceIncrease_def)
    ultimately show ?thesis using ray.scaled_move[OF nn(2,1,3) assms(1,2)] by (simp only:)
  qed
qed

text \<open>
  C15: A checked supply, withdrawal, variable borrow or variable repayment expects what the token of the
  contracts does. Suppose the helper reads its books before the transaction (the scaled balance and the
  last index of the holder) and after it, and that between the two the token ran the scaled mint or
  burn of \<open>ScaledBalanceTokenBase\<close> for the amount, at the index read afterwards. Then, when the check passes,
  the events found in the logs are a transfer of the underlying followed by exactly the events that the
  token emitted, and the expected transfers of the token add up to the change of the holder's balance
  between the two indexes, up to one unit and half an index step. The holder is not the zero address
  and the token not the underlying.
\<close>

theorem checked_transfers_explain_balance:
  assumes "checked op env user underlying amt other w = Inr (rc, logs, w')"
    "reserveView env w underlying = Inr v" "token = positionToken op v" "who = holder op user other"
    "who \<noteq> ZERO_ADDRESS" "token \<noteq> underlying"
    "convertToCurrencyDecimals env w underlying amt = Inr (uint amount)"
    "positionIndex op env w' underlying = Inr (uint index)"
    "reads_books env w token who s" "scaledBalanceOf env w' token who = Inr (booked s' who)"
    "positionCall ic op user other amount index s = Inr (emitted, s')"
  shows "\<exists>first evs. evs = first # map (asExpected (positionInterface op env) token) emitted \<and>
    xe_emitter first = underlying \<and> matchEvents (ethersOf env) logs evs = Inr () \<and>
    2 * RAY * \<bar>flow token who evs - (rayMul (booked s' who) (uint index) - rayMul (booked s who) (lastIndex s who))\<bar>
      \<le> 2 * RAY + uint index"
proof -
  define inc where "inc = getBalanceIncrease (booked s who) (lastIndex s who) (uint index)"
  define evs where "evs = checkedEvents op env user underlying v (uint amount) other inc (uint index)"
  obtain x where x: "0 < uint index" "rayDiv (uint amount) (uint index) = Inr x"
      "booked s' who = (if credits op then booked s who + x else booked s who - x)"
      "checkedEvents op env user underlying v (uint amount) other
         (getBalanceIncrease (booked s who) (lastIndex s who) (uint index)) (uint index) =
       hd (checkedEvents op env user underlying v (uint amount) other
         (getBalanceIncrease (booked s who) (lastIndex s who) (uint index)) (uint index)) #
       map (asExpected (positionInterface op env) (positionToken op v)) emitted"
    by (rule positionCall_books[OF assms(11,4), where env = env and underlying = underlying and v = v])
       (rule that; assumption)
  have evs: "evs = hd evs # map (asExpected (positionInterface op env) token) emitted"
    unfolding evs_def inc_def assms(3) by (rule x(4))
  have before: "(if credits op then booked s' who - x else booked s' who + x) = booked s who"
    using x(3) by simp
  obtain a j0 j1 y z where r: "convertToCurrencyDecimals env w underlying amt = Inr a"
      "getPreviousIndex env w (positionToken op v) (holder op user other) = Inr j0"
      "positionIndex op env w' underlying = Inr j1" "rayDiv a j1 = Inr y"
      "scaledBalanceOf env w' (positionToken op v) (holder op user other) = Inr z"
      "matchEvents (ethersOf env) logs (checkedEvents op env user underlying v a other
         (getBalanceIncrease (if credits op then z - y else z + y) j0 j1) j1) = Inr ()"
    by (rule checked_inv[OF assms(1,2)]) (rule that; assumption)
  have e: "a = uint amount" "j0 = lastIndex s who" "j1 = uint index" "z = booked s' who"
    using r assms(3,4,7-10) by (simp_all add: reads_books_def)
  then have "y = x" using r(4) x(2) by simp
  have y: "(if credits op then z - y else z + y) = booked s who"
    unfolding \<open>y = x\<close> e(4) by (rule before)
  have found: "matchEvents (ethersOf env) logs evs = Inr ()"
    using r(6) unfolding y e(1-3) evs_def inc_def .
  have "flow token who evs = (if credits op then uint amount else - uint amount) + inc"
    using assms(3-6) by (auto simp: evs_def checked_flow)
  from flow_matches_move[OF x(1-3) this[unfolded inc_def]]
  have "2 * RAY * \<bar>flow token who evs - (rayMul (booked s' who) (uint index) - rayMul (booked s who) (lastIndex s who))\<bar>
      \<le> 2 * RAY + uint index" .
  moreover have "xe_emitter (hd evs) = underlying"
    by (cases op) (simp_all add: evs_def supplyEvents_def withdrawEvents_def variableBorrowEvents_def
        repayVariableEvents_def transferEvent_def)
  ultimately show ?thesis using found evs by blast
qed

text \<open>A chain on which a supply of 40000 mints the tokens and the interest on a balance of 20000.\<close>

definition demo_token_iface :: "string \<Rightarrow> event_interface" where
  "demo_token_iface t = \<lparr>iface_events = [''Transfer(address,address,uint256)'',
       ''Mint(address,address,uint256,uint256,uint256)''],
     iface_parseLog = (\<lambda>l. Inr (
       if log_data l = ''in'' then [EvStr ''0xa'', EvStr ''0x57'', EvNum 40000]
       else if log_data l = ''out'' then [EvStr ZERO_ADDRESS, EvStr ''0xa'', EvNum 42000]
       else [EvStr ''0xa'', EvStr ''0xa'', EvNum 42000, EvNum 2000,
         EvNum 1100000000000000000000000000]))\<rparr>"

definition demo_token_env :: "nat token_env" where
  "demo_token_env = chain.extend (chain.truncate demo_env)
     \<lparr>ethersOf = demo_ethers, erc20Interface = demo_token_iface ''0xda1'',
      rsTokenInterface = demo_token_iface ''0x57'', variableDebtInterface = demo_token_iface ''0x59'',
      stableDebtInterface = demo_token_iface ''0x58'',
      getPreviousIndex = (\<lambda>w t u. Inr RAY),
      scaledBalanceOf = (\<lambda>w t u. Inr (if w = 0 then 20000 else 56364)),
      getReserveNormalizedIncome = (\<lambda>w a. Inr 1100000000000000000000000000),
      getReserveNormalizedVariableDebt = (\<lambda>w a. Inr RAY), getUserStableRate = (\<lambda>w t u. Inr 0),
      principalBalanceOf = (\<lambda>w t u. Inr 0), getUserLastUpdated = (\<lambda>w t u. Inr 0),
      getAverageStableRate = (\<lambda>w t. Inr 0), getSupplyTotal = (\<lambda>w t. Inr 0),
      submit = (\<lambda>w u c. if w = 0 \<and> c = SupplyCall ''0xda1'' 40000 ''0xa''
        then Inr (\<lparr>rc_blockNumber = Some 2, rc_transactionHash = Some ''0xab'',
                   rc_cumulativeGasUsed = Some 21000\<rparr>,
          Some [\<lparr>log_address = ''0xda1'', log_topics = [''Transfer(address,address,uint256)''], log_data = ''in''\<rparr>,
            \<lparr>log_address = ''0x57'', log_topics = [''Transfer(address,address,uint256)''], log_data = ''out''\<rparr>,
            \<lparr>log_address = ''0x57'', log_topics = [''Mint(address,address,uint256,uint256,uint256)''],
             log_data = ''mint''\<rparr>], 1)
        else Inl (Reverted ''26'')),
      emitsMockRepayment = (\<lambda>t r a. False)\<rparr>"

lemma demo_index_sums: "rayDiv 40000 1100000000000000000000000000 = Inr 36364"
  "rayMul 20000 1100000000000000000000000000 = 22000" "rayMul 20000 RAY = 20000"
  by (simp_all add: rayDiv_def rayMul_def bn_div_def signed_divide_int_def const_simps)

lemma demo_token_fields:
  "convertToCurrencyDecimals demo_token_env 0 ''0xda1'' ''40000'' = Inr 40000"
  "reserveView demo_token_env 0 ''0xda1'' = Inr demo_raw_before"
  "getPreviousIndex demo_token_env 0 ''0x57'' ''0xa'' = Inr RAY"
  "positionToken OpSupply demo_raw_before = ''0x57''"
  "positionIndex OpSupply demo_token_env 1 ''0xda1'' = Inr 1100000000000000000000000000"
  "scaledBalanceOf demo_token_env (1::nat) ''0x57'' ''0xa'' = Inr 56364"
  by (simp_all add: demo_token_env_def chain.defs demo_env_def convertToCurrencyDecimals_def
      demo_raw_before_def)

lemma demo_supply:
  "\<exists>rc logs. checked OpSupply demo_token_env ''0xa'' ''0xda1'' ''40000'' ''0xa'' 0 = Inr (rc, logs, 1)"
proof -
  have z: "''0xda1'' \<noteq> ''0x57''" "''0x57'' \<noteq> ''0xda1''" by simp_all
  have c: "convertToCurrencyDecimals demo_token_env 0 ''0xda1'' ''40000'' = Inr 40000"
      "reserveView demo_token_env 0 ''0xda1'' = Inr demo_raw_before"
      "raw_RSTokenAddress demo_raw_before = ''0x57''"
    using demo_token_fields by simp_all
  show ?thesis
    by (simp add: supplyTokens_def c)
      (simp add: demo_token_env_def chain.defs demo_env_def supplyEvents_def matchEvents_def
        transferEvent_def mintEvent_def matchEvent_def sigHashOf_def names_event_def topic0_def truthy_def
        demo_token_iface_def demo_ethers_def getBalanceIncrease_def demo_index_sums z Let_def)
qed

text \<open>The books of the token before: 20000 scaled units, last touched at one ray.\<close>

definition demo_books :: scaled_token where
  "demo_books = \<lparr>st_userState = (\<lambda>u. if u = ''0xa'' then \<lparr>us_balance = 20000, us_additionalData = 1000000000000000000000000000\<rparr>
     else \<lparr>us_balance = 0, us_additionalData = 0\<rparr>), st_totalSupply = 20000\<rparr>"

lemma demo_books_run:
  "\<exists>s'. positionCall None OpSupply ''0xa'' ''0xa'' 40000 1100000000000000000000000000 demo_books =
     Inr ([LogTransfer ZERO_ADDRESS ''0xa'' 42000,
           LogMint ''0xa'' ''0xa'' 42000 2000 1100000000000000000000000000], s') \<and> booked s' ''0xa'' = 56364"
proof -
  let ?run = "positionCall None OpSupply ''0xa'' ''0xa'' 40000 1100000000000000000000000000 demo_books"
  have "\<not> isl ?run \<and> fst (projr ?run) = [LogTransfer ZERO_ADDRESS ''0xa'' 42000,
      LogMint ''0xa'' ''0xa'' 42000 2000 1100000000000000000000000000] \<and> booked (snd (projr ?run)) ''0xa'' = 56364"
    by code_simp
  then show ?thesis by (cases ?run) (auto intro!: exI[of _ "snd (projr ?run)"] simp: prod_eq_iff)
qed

theorem checked_transfers_explain_balance_witness:
  "\<exists>logs first. matchEvents (ethersOf demo_token_env) logs
     [first, transferEvent (demo_token_iface ''0x57'') ''0x57'' ZERO_ADDRESS ''0xa'' 42000,
      mintEvent (demo_token_iface ''0x57'') ''0x57'' ''0xa'' ''0xa'' [42000, 2000, 1100000000000000000000000000]] = Inr ()"
proof -
  obtain rc logs where s: "checked OpSupply demo_token_env ''0xa'' ''0xda1'' ''40000'' ''0xa'' 0 = Inr (rc, logs, 1)"
    using demo_supply by blast
  obtain s' where c: "positionCall None OpSupply ''0xa'' ''0xa'' 40000 1100000000000000000000000000 demo_books =
     Inr ([LogTransfer ZERO_ADDRESS ''0xa'' 42000,
           LogMint ''0xa'' ''0xa'' 42000 2000 1100000000000000000000000000], s')" "booked s' ''0xa'' = 56364"
    using demo_books_run by blast
  have z: "''0xa'' \<noteq> ZERO_ADDRESS" by (simp add: ZERO_ADDRESS_def)
  have b: "reads_books demo_token_env 0 ''0x57'' ''0xa'' demo_books"
    by (simp add: reads_books_def demo_token_env_def chain.defs demo_books_def const_simps)
  have i: "rsTokenInterface demo_token_env = demo_token_iface ''0x57''"
    by (simp add: demo_token_env_def chain.defs)
  have "convertToCurrencyDecimals demo_token_env 0 ''0xda1'' ''40000'' = Inr (uint (40000 :: u256))"
    "positionIndex OpSupply demo_token_env 1 ''0xda1'' = Inr (uint (1100000000000000000000000000 :: u256))"
    "scaledBalanceOf demo_token_env 1 ''0x57'' ''0xa'' = Inr (booked s' ''0xa'')"
    using demo_token_fields c(2) by simp_all
  from checked_transfers_explain_balance[OF s demo_token_fields(2) demo_token_fields(4)[symmetric] _ z _ this(1,2) b this(3) c(1)]
  obtain first where "matchEvents (ethersOf demo_token_env) logs
     [first, transferEvent (demo_token_iface ''0x57'') ''0x57'' ZERO_ADDRESS ''0xa'' 42000,
      mintEvent (demo_token_iface ''0x57'') ''0x57'' ''0xa'' ''0xa'' [42000, 2000, 1100000000000000000000000000]] = Inr ()"
    by (auto simp: i)
  then show ?thesis by blast
qed

section \<open>Transfers\<close>

lemma flow_of_balanceTransfer [simp]:
  "flow_of token who \<lparr>xe_name = ''BalanceTransfer'', xe_contract = c, xe_emitter = t, xe_args = a\<rparr> = 0"
  by (simp add: flow_of_def)

lemma transfer_flow:
  assumes "origin \<noteq> ZERO_ADDRESS" "to \<noteq> ZERO_ADDRESS"
  shows "flow token origin (transferEvents env user origin token amount x to i j idx) =
      max 0 i + (if origin = to then 0 else - amount)"
    and "origin \<noteq> to \<Longrightarrow> flow token to (transferEvents env user origin token amount x to i j idx) =
      amount + max 0 j"
  using assms by (auto simp: transferEvents_def max_def)

lemma rs_transfer_inv:
  assumes "rs_transfer ic finalize index msgSender from to amount validate s = Inr (emitted, s')"
  obtains logs q where "token_transferScaled ic msgSender from to amount index s = Inr (logs, s')"
    "rayDiv (uint amount) (uint index) = Inr (uint q)" "emitted = logs @ [LogBalanceTransfer from to q index]"
  using assms by (auto simp: rs_transfer_def rbind_eq_Inr dest!: rayDiv_refines)

lemma transfer_books:
  assumes "rs_transfer ic finalize index user origin to amount True s = Inr (emitted, s')"
    "rayDiv (uint amount) (uint index) = Inr x"
  shows "0 < uint index" "0 \<le> x"
    "booked s' who = booked s who - (if who = origin then x else 0) + (if who = to then x else 0)"
    "mset (transferEvents env user origin token (uint amount) x to
       (getBalanceIncrease (booked s origin) (lastIndex s origin) (uint index))
       (getBalanceIncrease (booked s to) (lastIndex s to) (uint index)) (uint index)) =
     mset (map (asExpected (rsTokenInterface env) token) emitted)"
    "0 \<le> getBalanceIncrease (booked s origin) (lastIndex s origin) (uint index)"
    "0 \<le> getBalanceIncrease (booked s to) (lastIndex s to) (uint index)"
proof -
  obtain logs q where w: "token_transferScaled ic user origin to amount index s = Inr (logs, s')"
      "rayDiv (uint amount) (uint index) = Inr (uint q)" "emitted = logs @ [LogBalanceTransfer origin to q index]"
    by (rule rs_transfer_inv[OF assms(1)])
  have x: "x = uint q" using w(2) assms(2) by simp
  obtain y i j where t: "uint index \<noteq> 0" "rayDiv (uint amount) (uint index) = Inr y"
    "uint i = rayMul (booked s origin) (uint index) - rayMul (booked s origin) (lastIndex s origin)"
    "uint j = rayMul (booked s to) (uint index) - rayMul (booked s to) (lastIndex s to)"
    "logs = (if 0 < uint i then [LogTransfer ZERO_ADDRESS origin i, LogMint user origin i i index] else []) @
      (if origin \<noteq> to \<and> 0 < uint j then [LogTransfer ZERO_ADDRESS to j, LogMint user to j j index] else []) @
      [LogTransfer origin to amount]"
    "\<And>u. booked s' u = booked s u - (if u = origin then y else 0) + (if u = to then y else 0)"
    by (rule transferScaled_inv[OF w(1)]) (rule that; assumption)
  have y: "y = x" using t(2) assms(2) by simp
  show "0 < uint index" using t(1) uint_ge_0[of index] by linarith
  show "0 \<le> x" by (simp add: x)
  show "booked s' who = booked s who - (if who = origin then x else 0) + (if who = to then x else 0)"
    using t(6)[of who] by (simp add: y)
  have inc: "getBalanceIncrease (booked s origin) (lastIndex s origin) (uint index) = uint i"
      "getBalanceIncrease (booked s to) (lastIndex s to) (uint index) = uint j"
    by (simp_all add: getBalanceIncrease_def t(3,4))
  then show "0 \<le> getBalanceIncrease (booked s origin) (lastIndex s origin) (uint index)"
    "0 \<le> getBalanceIncrease (booked s to) (lastIndex s to) (uint index)" by simp_all
  show "mset (transferEvents env user origin token (uint amount) x to
       (getBalanceIncrease (booked s origin) (lastIndex s origin) (uint index))
       (getBalanceIncrease (booked s to) (lastIndex s to) (uint index)) (uint index)) =
     mset (map (asExpected (rsTokenInterface env) token) emitted)"
    unfolding inc transferEvents_def w(3) t(5) x
    by (cases "0 < uint i"; cases "origin \<noteq> to \<and> 0 < uint j") (simp_all add: add_mset_commute)
qed

text \<open>
  C9: A checked transfer of an RSToken expects the events that the transfer of the contracts emits. Suppose the
  helper reads the books of the token before the transaction (the last indexes of the sender and of the
  receiver) and after it (their scaled balances), and that between the two the token ran \<open>_transfer\<close> of
  \<open>RSToken\<close> for the amount at the index read afterwards. Then, when the check passes, the events found in the
  logs are, in some order, exactly those the token emitted, and for the sender and the receiver, when neither
  is the zero address, the transfers among them add up to the change of the balance between the two indexes, up to
  one unit and half an index step, also for a transfer to oneself.
\<close>

theorem transfer_events_are_emitted:
  assumes "checkedTransfer env user origin call underlying amt to w = Inr (rc, logs, w')"
    "reserveView env w underlying = Inr v" "token = raw_RSTokenAddress v"
    "convertToCurrencyDecimals env w underlying amt = Inr (uint amount)"
    "getReserveNormalizedIncome env w' underlying = Inr (uint index)"
    "reads_books env w token origin s" "reads_books env w token to s"
    "scaledBalanceOf env w' token origin = Inr (booked s' origin)" "scaledBalanceOf env w' token to = Inr (booked s' to)"
    "rs_transfer ic finalize index user origin to amount True s = Inr (emitted, s')"
    "origin \<noteq> ZERO_ADDRESS" "to \<noteq> ZERO_ADDRESS" "who = origin \<or> who = to"
  shows "\<exists>evs. matchEvents (ethersOf env) logs evs = Inr () \<and>
    mset evs = mset (map (asExpected (rsTokenInterface env) token) emitted) \<and>
    2 * RAY * \<bar>flow token who evs - (rayMul (booked s' who) (uint index) - rayMul (booked s who) (lastIndex s who))\<bar>
      \<le> 2 * RAY + uint index"
proof -
  obtain x where x: "rayDiv (uint amount) (uint index) = Inr x"
      "matchEvents (ethersOf env) logs (transferEvents env user origin token (uint amount) x to
        (getBalanceIncrease (booked s' origin + (if origin = to then 0 else x)) (lastIndex s origin) (uint index))
        (getBalanceIncrease (booked s' to - (if origin = to then 0 else x)) (lastIndex s to) (uint index)) (uint index)) =
       Inr ()"
    using assms(1-9) by (auto simp: checkedTransfer_def rbind_eq_Inr Let_def reads_books_def)
  note b = transfer_books[OF assms(10) x(1)]
  let ?i = "getBalanceIncrease (booked s origin) (lastIndex s origin) (uint index)"
    and ?j = "getBalanceIncrease (booked s to) (lastIndex s to) (uint index)"
  define evs where "evs = transferEvents env user origin token (uint amount) x to ?i ?j (uint index)"
  have found: "matchEvents (ethersOf env) logs evs = Inr ()"
    using x(2) b(3)[of origin] b(3)[of to] by (cases "origin = to") (simp_all add: evs_def)
  have f: "flow token origin evs = ?i + (if origin = to then 0 else - uint amount)"
      "origin \<noteq> to \<Longrightarrow> flow token to evs = uint amount + ?j"
    using transfer_flow[OF assms(11,12), of token env user "uint amount" x ?i ?j "uint index"] b(5,6)
    by (simp_all add: max_def evs_def)
  have "2 * RAY * \<bar>flow token who evs - (rayMul (booked s' who) (uint index) - rayMul (booked s who) (lastIndex s who))\<bar>
      \<le> 2 * RAY + uint index"
  proof (cases "origin = to")
    case True
    then have "booked s' who = booked s who" "flow token who evs = ?i" "who = origin"
      using b(3)[of who] f(1) assms(13) by auto
    then show ?thesis using b(1) ray.unit_pos by (simp add: getBalanceIncrease_def)
  next
    case False
    then have "booked s' who = (if who = to then booked s who + x else booked s who - x)"
        "flow token who evs = (if who = to then uint amount else - uint amount) +
           getBalanceIncrease (booked s who) (lastIndex s who) (uint index)"
      using b(3)[of who] f assms(13) by auto
    then show ?thesis by (rule flow_matches_move[OF b(1) x(1)])
  qed
  then show ?thesis using found b(4)[where env = env and token = token, folded evs_def] by blast
qed

text \<open>
  When a checked transfer passes, its expected transfers take the amount from the origin and give
  it to the receiver, and create nothing but the interest both accrued since their last index; a
  transfer to oneself only mints that interest.
\<close>

theorem checked_transfer_conserves:
  assumes "checkedTransfer env user origin call underlying amt to w = Inr (rc, logs, w')"
    "origin \<noteq> ZERO_ADDRESS" "to \<noteq> ZERO_ADDRESS"
  shows "\<exists>v amount scaled fromInterest toInterest index evs.
    reserveView env w underlying = Inr v \<and>
    convertToCurrencyDecimals env w underlying amt = Inr amount \<and>
    getReserveNormalizedIncome env w' underlying = Inr index \<and> rayDiv amount index = Inr scaled \<and>
    evs = transferEvents env user origin (raw_RSTokenAddress v) amount scaled to fromInterest
      toInterest index \<and>
    matchEvents (ethersOf env) logs evs = Inr () \<and>
    flow (raw_RSTokenAddress v) origin evs =
      max 0 fromInterest + (if origin = to then 0 else - amount) \<and>
    (origin \<noteq> to \<longrightarrow> flow (raw_RSTokenAddress v) to evs = amount + max 0 toInterest)"
proof -
  obtain v amount x i j idx where
    "reserveView env w underlying = Inr v" "convertToCurrencyDecimals env w underlying amt = Inr amount"
    "getReserveNormalizedIncome env w' underlying = Inr idx" "rayDiv amount idx = Inr x"
    "matchEvents (ethersOf env) logs
      (transferEvents env user origin (raw_RSTokenAddress v) amount x to i j idx) = Inr ()"
    using assms(1) by (auto simp: checkedTransfer_def rbind_eq_Inr Let_def)
  with transfer_flow[OF assms(2,3), of "raw_RSTokenAddress v" env user amount x i j idx]
  show ?thesis by blast
qed

text \<open>The same chain answering a transfer of 40000 to oneself that mints 2000 of interest.\<close>

definition demo_self_iface :: event_interface where
  "demo_self_iface = \<lparr>iface_events = [''Transfer(address,address,uint256)'',
       ''Mint(address,address,uint256,uint256,uint256)'', ''BalanceTransfer(address,address,uint256,uint256)''],
     iface_parseLog = (\<lambda>l. Inr (
       if log_data l = ''in'' then [EvStr ''0xa'', EvStr ''0xa'', EvNum 40000]
       else if log_data l = ''out'' then [EvStr ZERO_ADDRESS, EvStr ''0xa'', EvNum 2000]
       else if log_data l = ''bt'' then [EvStr ''0xa'', EvStr ''0xa'', EvNum 36364,
         EvNum 1100000000000000000000000000]
       else [EvStr ''0xa'', EvStr ''0xa'', EvNum 2000, EvNum 2000,
         EvNum 1100000000000000000000000000]))\<rparr>"

definition demo_self_env :: "nat token_env" where
  "demo_self_env = demo_token_env\<lparr>rsTokenInterface := demo_self_iface,
     scaledBalanceOf := (\<lambda>w t u. Inr 20000),
     submit := (\<lambda>w u c. Inr (\<lparr>rc_blockNumber = Some 2, rc_transactionHash = Some ''0xab'',
                   rc_cumulativeGasUsed = Some 21000\<rparr>,
       Some (map (\<lambda>(s, d). \<lparr>log_address = ''0x57'', log_topics = [s], log_data = d\<rparr>)
         [(''Transfer(address,address,uint256)'', ''in''),
          (''BalanceTransfer(address,address,uint256,uint256)'', ''bt''),
          (''Transfer(address,address,uint256)'', ''out''),
          (''Mint(address,address,uint256,uint256,uint256)'', ''mint'')]), 1))\<rparr>"

lemma demo_self_transfer:
  "\<exists>rc logs. checkedTransfer demo_self_env ''0xa'' ''0xa'' (\<lambda>t a. TransferCall t ''0xa'' a) ''0xda1''
     ''40000'' ''0xa'' 0 = Inr (rc, logs, 1)"
proof -
  have c: "convertToCurrencyDecimals demo_self_env 0 ''0xda1'' ''40000'' = Inr 40000"
      "reserveView demo_self_env 0 ''0xda1'' = Inr demo_raw_before"
      "raw_RSTokenAddress demo_raw_before = ''0x57''"
    using demo_token_fields by (simp_all add: demo_self_env_def convertToCurrencyDecimals_def)
  show ?thesis
    by (simp add: checkedTransfer_def c)
      (simp add: demo_self_env_def demo_token_env_def chain.defs transferEvents_def matchEvents_def
        transferEvent_def mintEvent_def matchEvent_def sigHashOf_def names_event_def topic0_def truthy_def
        demo_self_iface_def demo_ethers_def getBalanceIncrease_def demo_index_sums Let_def)
qed

text \<open>The books behind such a transfer: 40000 scaled units, last touched at 1.05 rays.\<close>

definition demo_transfer_books :: scaled_token where
  "demo_transfer_books = \<lparr>st_userState = (\<lambda>_. \<lparr>us_balance = 40000, us_additionalData = 1050000000000000000000000000\<rparr>),
     st_totalSupply = 40000\<rparr>"

definition demo_transfer_env :: "nat token_env" where
  "demo_transfer_env = demo_self_env\<lparr>scaledBalanceOf := (\<lambda>w t u. Inr 40000),
     getPreviousIndex := (\<lambda>w t u. Inr 1050000000000000000000000000)\<rparr>"

lemma demo_transfer_run:
  "\<exists>emitted s'. rs_transfer None (\<lambda>_ _ _ _ _. Inr ()) 1100000000000000000000000000 ''0xa'' ''0xa'' ''0xa'' 40000 True
     demo_transfer_books = Inr (emitted, s') \<and> booked s' ''0xa'' = 40000 \<and>
     emitted = [LogTransfer ZERO_ADDRESS ''0xa'' 2000, LogMint ''0xa'' ''0xa'' 2000 2000 1100000000000000000000000000,
       LogTransfer ''0xa'' ''0xa'' 40000, LogBalanceTransfer ''0xa'' ''0xa'' 36364 1100000000000000000000000000]"
  (is "\<exists>emitted s'. ?run = _ \<and> _ \<and> emitted = ?logs")
proof -
  have "\<not> isl ?run \<and> fst (projr ?run) = ?logs \<and> booked (snd (projr ?run)) ''0xa'' = 40000"
    by code_simp
  then show ?thesis by (cases ?run) (auto intro!: exI[of _ "snd (projr ?run)"] simp: prod_eq_iff)
qed

lemma demo_transfer_checked:
  "\<exists>rc logs. checkedTransfer demo_transfer_env ''0xa'' ''0xa'' (\<lambda>t a. TransferCall t ''0xa'' a) ''0xda1''
     ''40000'' ''0xa'' 0 = Inr (rc, logs, 1)"
proof -
  have c: "convertToCurrencyDecimals demo_transfer_env 0 ''0xda1'' ''40000'' = Inr 40000"
      "reserveView demo_transfer_env 0 ''0xda1'' = Inr demo_raw_before"
      "raw_RSTokenAddress demo_raw_before = ''0x57''"
    using demo_token_fields by (simp_all add: demo_transfer_env_def demo_self_env_def convertToCurrencyDecimals_def)
  have m: "rayMul 40000 1100000000000000000000000000 = 44000" "rayMul 40000 1050000000000000000000000000 = 42000"
    by (simp_all add: rayMul_def signed_divide_int_def const_simps)
  show ?thesis
    by (simp add: checkedTransfer_def c)
      (simp add: demo_transfer_env_def demo_self_env_def demo_token_env_def chain.defs transferEvents_def matchEvents_def
        transferEvent_def mintEvent_def matchEvent_def sigHashOf_def names_event_def topic0_def truthy_def
        demo_self_iface_def demo_ethers_def getBalanceIncrease_def demo_index_sums m Let_def)
qed

theorem transfer_events_are_emitted_witness:
  "\<exists>env logs evs. matchEvents (ethersOf (env :: nat token_env)) logs evs = Inr () \<and>
     mset evs = mset [transferEvent demo_self_iface ''0x57'' ZERO_ADDRESS ''0xa'' 2000,
       mintEvent demo_self_iface ''0x57'' ''0xa'' ''0xa'' [2000, 2000, 1100000000000000000000000000],
       transferEvent demo_self_iface ''0x57'' ''0xa'' ''0xa'' 40000,
       \<lparr>xe_name = ''BalanceTransfer'', xe_contract = demo_self_iface, xe_emitter = ''0x57'',
        xe_args = [EvStr ''0xa'', EvStr ''0xa'', EvNum 36364, EvNum 1100000000000000000000000000]\<rparr>]"
proof -
  let ?env = demo_transfer_env
  obtain rc logs where s: "checkedTransfer ?env ''0xa'' ''0xa'' (\<lambda>t a. TransferCall t ''0xa'' a)
      ''0xda1'' ''40000'' ''0xa'' 0 = Inr (rc, logs, 1)" using demo_transfer_checked by blast
  obtain emitted s' where r: "rs_transfer None (\<lambda>_ _ _ _ _. Inr ()) 1100000000000000000000000000 ''0xa'' ''0xa'' ''0xa''
      40000 True demo_transfer_books = Inr (emitted, s')" "booked s' ''0xa'' = 40000"
    "emitted = [LogTransfer ZERO_ADDRESS ''0xa'' 2000, LogMint ''0xa'' ''0xa'' 2000 2000 1100000000000000000000000000,
       LogTransfer ''0xa'' ''0xa'' 40000, LogBalanceTransfer ''0xa'' ''0xa'' 36364 1100000000000000000000000000]"
    using demo_transfer_run by blast
  have z: "''0xa'' \<noteq> ZERO_ADDRESS" by (simp add: ZERO_ADDRESS_def)
  have i: "rsTokenInterface ?env = demo_self_iface" by (simp add: demo_transfer_env_def demo_self_env_def)
  have "reserveView ?env 0 ''0xda1'' = Inr demo_raw_before" "''0x57'' = raw_RSTokenAddress demo_raw_before"
    "convertToCurrencyDecimals ?env 0 ''0xda1'' ''40000'' = Inr (uint (40000 :: u256))"
    "getReserveNormalizedIncome ?env 1 ''0xda1'' = Inr (uint (1100000000000000000000000000 :: u256))"
    "reads_books ?env 0 ''0x57'' ''0xa'' demo_transfer_books"
    "scaledBalanceOf ?env 1 ''0x57'' ''0xa'' = Inr (booked s' ''0xa'')"
    using demo_token_fields r(2)
    by (simp_all add: demo_transfer_env_def demo_self_env_def convertToCurrencyDecimals_def reads_books_def
        demo_transfer_books_def demo_token_env_def)
  from transfer_events_are_emitted[OF s this(1-5,5,6,6) r(1) z z, of "''0xa''"]
  obtain evs where "matchEvents (ethersOf ?env) logs evs = Inr ()"
      "mset evs = mset (map (asExpected (rsTokenInterface ?env) ''0x57'') emitted)" by blast
  then show ?thesis unfolding i r(3) by (intro exI[of _ ?env] exI[of _ logs] exI[of _ evs]) simp
qed

theorem checked_transfer_conserves_witness:
  "\<exists>logs evs interest. matchEvents (ethersOf demo_self_env) logs evs = Inr () \<and>
     flow ''0x57'' ''0xa'' evs = max 0 interest"
proof -
  have z: "''0xa'' \<noteq> ZERO_ADDRESS" by (simp add: ZERO_ADDRESS_def)
  have v: "reserveView demo_self_env 0 ''0xda1'' = Inr demo_raw_before"
      "raw_RSTokenAddress demo_raw_before = ''0x57''"
    using demo_token_fields by (simp_all add: demo_self_env_def)
  obtain rc logs where "checkedTransfer demo_self_env ''0xa'' ''0xa'' (\<lambda>t a. TransferCall t ''0xa'' a)
      ''0xda1'' ''40000'' ''0xa'' 0 = Inr (rc, logs, 1)" using demo_self_transfer by blast
  from checked_transfer_conserves[OF this z z] v show ?thesis by auto
qed

end
