(* ===== verification/EnumProps.thy ===== *)
theory EnumProps
  imports ProtocolTypes
begin

text \<open>What the tests can rely on about the string enums of \<open>helpers/types.ts\<close>.\<close>

section \<open>Properties\<close>

text \<open>
  The error codes the tests compare with identify the error, with one exception: the two balance
  errors after a transfer carry the same message, so a test cannot tell them apart.
\<close>

theorem protocol_errors_nearly_injective:
  "distinct (obj_keys ProtocolErrors) \<and>
   obj_get ProtocolErrors ''INVALID_TO_BALANCE_AFTER_TRANSFER'' =
     obj_get ProtocolErrors ''INVALID_FROM_BALANCE_AFTER_TRANSFER'' \<and>
   distinct (enum_values (filter (\<lambda>e. fst e \<noteq> ''INVALID_TO_BALANCE_AFTER_TRANSFER'') ProtocolErrors))"
  by code_simp

text \<open>
  Every contract and token id is spelled like its member: looking a known name up returns the name
  itself, so an id can be used as an artifact name.
\<close>

theorem contract_ids_are_names:
  "enum_values eContractid = obj_keys eContractid \<and> enum_values TokenContractId = obj_keys TokenContractId \<and>
   enum_values eEthereumNetwork = obj_keys eEthereumNetwork \<and>
   distinct (obj_keys eContractid) \<and> distinct (obj_keys TokenContractId)"
  by code_simp

end
