(* ===== verification/Utils.thy ===== *)
theory Utils
  imports Constants "HOL-Library.Multiset" "HOL-Library.Char_ord" "HOL-Library.List_Lexorder"
begin

text \<open>
  The collection and address helpers of \<open>helpers/utilities/utils.ts\<close>. \<open>isAddress\<close> and
  \<open>getAddress\<close> (checksum addresses) are functions of the ethers library: the record \<open>address_lib\<close>.
\<close>

section \<open>Addresses\<close>

record address_lib =
  isAddress :: "string \<Rightarrow> bool"
  getAddress :: "string \<Rightarrow> string result"

text \<open>\<open>!!value && isAddress(value) && getAddress(value) !== getAddress(ZERO_ADDRESS)\<close>\<close>

definition isValidAddress :: "address_lib \<Rightarrow> string option \<Rightarrow> bool result" where
  "isValidAddress lib val =
     (case val of
        None \<Rightarrow> Inr False
      | Some a \<Rightarrow>
          if a = [] \<or> \<not> isAddress lib a then Inr False
          else rbind (getAddress lib a) (\<lambda>x. rbind (getAddress lib ZERO_ADDRESS) (\<lambda>z. Inr (x \<noteq> z))))"

definition isEqualAddress :: "address_lib \<Rightarrow> string \<Rightarrow> string \<Rightarrow> bool result" where
  "isEqualAddress lib a b = rbind (getAddress lib a) (\<lambda>x. rbind (getAddress lib b) (\<lambda>y. Inr (x = y)))"

section \<open>Chunks\<close>

text \<open>
  \<open>arr.reduce\<close> over the elements and their indexes: an index divisible by the size starts a chunk. A
  size of 0 makes the remainder \<open>NaN\<close>, which is falsy, so every index starts a (then empty) chunk.
\<close>

definition slice :: "'a list \<Rightarrow> nat \<Rightarrow> nat \<Rightarrow> 'a list" where
  "slice arr from till = take (till - from) (drop from arr)"

definition chunk :: "'a list \<Rightarrow> nat \<Rightarrow> 'a list list" where
  "chunk arr chunkSize =
     foldl (\<lambda>prevVal currIndx.
         if chunkSize = 0 \<or> currIndx mod chunkSize = 0
         then prevVal @ [slice arr currIndx (currIndx + chunkSize)] else prevVal)
       [] [0..<length arr]"

text \<open>The reference: cut off a chunk as long as something is left.\<close>

function chunks :: "nat \<Rightarrow> 'a list \<Rightarrow> 'a list list" where
  "chunks n xs = (if n = 0 \<or> xs = [] then [] else take n xs # chunks n (drop n xs))"
  by pat_completeness auto
termination
  by (relation "measure (\<lambda>(n, xs). length xs)") auto

declare chunks.simps [simp del]

lemma chunks_Nil [simp]: "chunks n [] = []"
  by (simp add: chunks.simps)

lemma chunks_step: "0 < n \<Longrightarrow> xs \<noteq> [] \<Longrightarrow> chunks n xs = take n xs # chunks n (drop n xs)"
  by (subst chunks.simps) simp

lemma foldl_collect:
  "foldl (\<lambda>acc i. if P i then acc @ [f i] else acc) acc js = acc @ map f (filter P js)"
  by (induction js arbitrary: acc) auto

lemma chunk_starts:
  "0 < n \<Longrightarrow> chunk arr n = map (\<lambda>i. take n (drop i arr)) (filter (\<lambda>i. i mod n = 0) [0..<length arr])"
  by (simp add: chunk_def foldl_collect slice_def)

lemma multiples_below:
  assumes "0 < n" "0 < m"
  shows "filter (\<lambda>i. i mod n = 0) [0..<m] = 0 # map (\<lambda>i. n + i) (filter (\<lambda>i. i mod n = 0) [0..<m - n])"
proof -
  have none: "filter (\<lambda>i. i mod n = 0) [Suc 0..<k] = []" if "k \<le> n" for k
    using that by (auto simp: filter_empty_conv)
  have hd: "[0..<m] = 0 # [Suc 0..<m]" using assms(2) by (simp add: upt_conv_Cons)
  show ?thesis
  proof (cases "m \<le> n")
    case True
    then show ?thesis using none[of m] hd by simp
  next
    case False
    then have "[Suc 0..<m] = [Suc 0..<n] @ map (\<lambda>i. n + i) [0..<m - n]"
      using assms(1) upt_add_eq_append[of "Suc 0" n "m - n"] map_add_upt[of n "m - n"]
      by (simp add: add.commute)
    then show ?thesis using none[of n] hd by (simp add: filter_map o_def)
  qed
qed

lemma chunk_eq_chunks:
  assumes "0 < n"
  shows "chunk arr n = chunks n arr"
proof (induction "length arr" arbitrary: arr rule: less_induct)
  case less
  show ?case
  proof (cases "arr = []")
    case True
    then show ?thesis by (simp add: chunk_def)
  next
    case False
    then have "length (drop n arr) < length arr" using assms by simp
    from less.hyps[OF this] have
      "chunks n (drop n arr) =
         map (\<lambda>i. take n (drop (n + i) arr)) (filter (\<lambda>i. i mod n = 0) [0..<length arr - n])"
      by (simp add: chunk_starts[OF assms] add.commute)
    then show ?thesis
      using False assms
      by (simp add: chunk_starts chunks_step multiples_below[of n "length arr"] o_def)
  qed
qed

lemma chunks_concat: "0 < n \<Longrightarrow> concat (chunks n xs) = xs"
  by (induction n xs rule: chunks.induct) (subst chunks.simps, auto)

lemma chunks_sizes: "c \<in> set (chunks n xs) \<Longrightarrow> 0 < length c \<and> length c \<le> n"
proof (induction n xs rule: chunks.induct)
  case (1 n xs)
  then show ?case by (cases "n = 0 \<or> xs = []") (auto simp: chunks.simps[of n xs])
qed

lemma chunks_count: "0 < n \<Longrightarrow> length (chunks n xs) = (length xs + n - 1) div n"
proof (induction n xs rule: chunks.induct)
  case (1 n xs)
  show ?case
  proof (cases "xs = []")
    case False
    have l: "length (chunks n xs) = Suc ((length xs - n + n - 1) div n)"
      using 1 False by (simp add: chunks_step)
    show ?thesis
    proof (cases "n \<le> length xs")
      case True
      then have "length xs + n - 1 = (length xs - n + n - 1) + n" using 1(2) by simp
      then show ?thesis using l 1(2) by (metis Suc_eq_plus1 div_add_self2 not_less_zero)
    next
      case short: False
      have "1 \<le> length xs" using False by (simp add: Suc_le_eq)
      with short 1(2) have "(length xs + n - 1) div n = 1" by (intro div_nat_eqI) auto
      then show ?thesis using l short 1(2) by simp
    qed
  qed (use 1 in simp)
qed

section \<open>Dictionaries and members\<close>

definition filterMapBy :: "'v obj \<Rightarrow> (string \<Rightarrow> bool) \<Rightarrow> 'v obj" where
  "filterMapBy raw fn =
     foldl (\<lambda>ob key. case obj_get raw key of None \<Rightarrow> ob | Some v \<Rightarrow> obj_set ob key v) []
       (filter fn (obj_keys raw))"

definition join :: "string list \<Rightarrow> string" where
  "join ss = (case ss of [] \<Rightarrow> [] | s # ss \<Rightarrow> s @ concat (map (\<lambda>s. CHR '','' # s) ss))"

definition containsSameMembers :: "string list \<Rightarrow> string list \<Rightarrow> bool" where
  "containsSameMembers arr1 arr2 \<longleftrightarrow> join (sort arr1) = join (sort arr2)"

lemma foldl_obj_get:
  "obj_get (foldl (\<lambda>ob key. case obj_get raw key of None \<Rightarrow> ob | Some v \<Rightarrow> obj_set ob key v) ob ks) k =
     (if k \<in> set ks \<and> obj_get raw k \<noteq> None then obj_get raw k else obj_get ob k)"
  by (induction ks arbitrary: ob) (auto split: option.splits)

lemma obj_get_Some_key: "obj_get ob k = Some v \<Longrightarrow> k \<in> set (obj_keys ob)"
  using obj_get_None_iff[of ob k] by auto

lemma filterMapBy_get: "obj_get (filterMapBy raw fn) k = (if fn k then obj_get raw k else None)"
  by (cases "obj_get raw k") (auto simp: filterMapBy_def foldl_obj_get dest: obj_get_Some_key)

text \<open>A joined list is split again at the commas, so comma-free members are recovered.\<close>

fun split_commas :: "string \<Rightarrow> string list" where
  "split_commas [] = [[]]"
| "split_commas (c # cs) =
     (case split_commas cs of
        [] \<Rightarrow> []
      | s # ss \<Rightarrow> if c = CHR '','' then [] # s # ss else (c # s) # ss)"

lemma split_append:
  "CHR '','' \<notin> set s \<Longrightarrow> split_commas (s @ t) = (case split_commas t of [] \<Rightarrow> [] | x # xs \<Rightarrow> (s @ x) # xs)"
  by (induction s) (auto split: list.splits)

lemma split_join_tail:
  "\<forall>s\<in>set ss. CHR '','' \<notin> set s \<Longrightarrow> split_commas (concat (map (\<lambda>s. CHR '','' # s) ss)) = [] # ss"
proof (induction ss)
  case (Cons s ss)
  then have "split_commas (s @ concat (map (\<lambda>s. CHR '','' # s) ss)) = s # ss"
    by (simp add: split_append)
  then show ?case by simp
qed simp

lemma split_join: "ss \<noteq> [] \<Longrightarrow> \<forall>s\<in>set ss. CHR '','' \<notin> set s \<Longrightarrow> split_commas (join ss) = ss"
  by (cases ss) (auto simp: join_def split_append split_join_tail)

lemma join_eq_Nil: "[] \<notin> set ss \<Longrightarrow> join ss = [] \<longleftrightarrow> ss = []"
  by (cases ss) (auto simp: join_def)

lemma join_inj:
  assumes "\<forall>s\<in>set ss \<union> set ts. CHR '','' \<notin> set s \<and> s \<noteq> []" "join ss = join ts"
  shows "ss = ts"
proof (cases "ss = [] \<or> ts = []")
  case True
  have "[] \<notin> set ss" "[] \<notin> set ts" using assms(1) by blast+
  then have "join ss = [] \<longleftrightarrow> ss = []" "join ts = [] \<longleftrightarrow> ts = []" by (simp_all add: join_eq_Nil)
  then show ?thesis using True assms(2) by metis
next
  case False
  have "\<forall>s\<in>set ss. CHR '','' \<notin> set s" "\<forall>s\<in>set ts. CHR '','' \<notin> set s" using assms(1) by blast+
  then have "split_commas (join ss) = ss" "split_commas (join ts) = ts"
    using False by (simp_all add: split_join)
  then show ?thesis unfolding assms(2) by (rule trans[OF sym])
qed

section \<open>Properties\<close>

text \<open>
  Chunking with a positive size partitions the list in order: it is the reference that cuts off
  one chunk after the other, its concatenation is the list, every chunk has between one and the given
  number of elements, and there are as few chunks as possible.
\<close>

theorem chunk_partitions:
  assumes "0 < n"
  shows "chunk arr n = chunks n arr \<and> concat (chunk arr n) = arr \<and>
    (\<forall>c\<in>set (chunk arr n). 0 < length c \<and> length c \<le> n) \<and>
    length (chunk arr n) = (length arr + n - 1) div n"
  using assms chunks_sizes by (auto simp: chunk_eq_chunks chunks_concat chunks_count)

theorem chunk_partitions_witness: "concat (chunk [5, 6, 7, 8::nat] 3) = [5, 6, 7, 8]"
proof -
  have "(0::nat) < 3" by simp
  from chunk_partitions[OF this, of "[5, 6, 7, 8::nat]"] show ?thesis by blast
qed

text \<open>
  A chunk size of zero does not fail: it yields one empty chunk for every element, so all
  elements are lost.
\<close>

theorem chunk_size_zero_loses_all: "chunk arr 0 = replicate (length arr) []"
proof -
  have "chunk arr 0 = map (\<lambda>_. []) [0..<length arr]"
    using foldl_collect[of "\<lambda>_. True" "\<lambda>_. []" "[]" "[0..<length arr]"]
    by (simp add: chunk_def slice_def)
  then show ?thesis by (simp add: map_replicate_const)
qed

text \<open>
  For members without commas that are not empty, two arrays contain the same members exactly when
  they are the same multiset.
\<close>

theorem containsSameMembers_iff_mset:
  assumes "\<forall>s\<in>set arr1 \<union> set arr2. CHR '','' \<notin> set s \<and> s \<noteq> []"
  shows "containsSameMembers arr1 arr2 \<longleftrightarrow> mset arr1 = mset arr2"
proof
  assume "containsSameMembers arr1 arr2"
  then have "sort arr1 = sort arr2"
    using join_inj[of "sort arr1" "sort arr2"] assms by (simp add: containsSameMembers_def)
  then show "mset arr1 = mset arr2" by (metis mset_sort)
next
  assume "mset arr1 = mset arr2"
  then have "sort arr1 = sort arr2"
    by (metis mset_sort sort_key_id_if_sorted sorted_sort properties_for_sort)
  then show "containsSameMembers arr1 arr2" by (simp add: containsSameMembers_def)
qed

theorem containsSameMembers_iff_mset_witness:
  "containsSameMembers [''b'', ''a'', ''b''] [''b'', ''b'', ''a''] \<and>
   \<not> containsSameMembers [''b'', ''a''] [''b'', ''b'', ''a'']"
  using containsSameMembers_iff_mset[of "[''b'', ''a'', ''b'']" "[''b'', ''b'', ''a'']"]
    containsSameMembers_iff_mset[of "[''b'', ''a'']" "[''b'', ''b'', ''a'']"] by simp

end
