(* ===== verification/DeployIds.thy ===== *)
theory DeployIds
  imports Utils
begin

text \<open>
  The names under which deployments are stored, \<open>helpers/deploy-ids.ts\<close>. Most of them end in the
  market name \<open>MARKET_NAME\<close>, which is read from the environment: it is their argument.
\<close>

section \<open>Names\<close>

definition POOL_ADDRESSES_PROVIDER_ID :: "string \<Rightarrow> string" where
  "POOL_ADDRESSES_PROVIDER_ID market = ''PoolAddressesProvider-'' @ market"

definition ACL_MANAGER_ID :: "string \<Rightarrow> string" where
  "ACL_MANAGER_ID market = ''ACLManager-'' @ market"

definition IMPL_ID :: string where
  "IMPL_ID = ''Implementation''"

definition PROXY_ID :: string where
  "PROXY_ID = ''Proxy''"

definition POOL_IMPL_ID :: string where
  "POOL_IMPL_ID = ''Pool-'' @ IMPL_ID"

definition L2_POOL_IMPL_ID :: string where
  "L2_POOL_IMPL_ID = ''L2Pool-'' @ IMPL_ID"

definition POOL_CONFIGURATOR_IMPL_ID :: string where
  "POOL_CONFIGURATOR_IMPL_ID = ''PoolConfigurator-'' @ IMPL_ID"

definition POOL_PROXY_ID :: "string \<Rightarrow> string" where
  "POOL_PROXY_ID market = ''Pool-'' @ PROXY_ID @ ''-'' @ market"

definition POOL_CONFIGURATOR_PROXY_ID :: "string \<Rightarrow> string" where
  "POOL_CONFIGURATOR_PROXY_ID market = ''PoolConfigurator-'' @ PROXY_ID @ ''-'' @ market"

definition POOL_DATA_PROVIDER :: "string \<Rightarrow> string" where
  "POOL_DATA_PROVIDER market = ''PoolDataProvider-'' @ market"

definition RSTOKEN_IMPL_ID :: "string \<Rightarrow> string" where
  "RSTOKEN_IMPL_ID market = ''RSToken-'' @ market"

definition DELEGATION_AWARE_RSTOKEN_IMPL_ID :: "string \<Rightarrow> string" where
  "DELEGATION_AWARE_RSTOKEN_IMPL_ID market = ''DelegationAwareRSToken-'' @ market"

definition STABLE_DEBT_TOKEN_IMPL_ID :: "string \<Rightarrow> string" where
  "STABLE_DEBT_TOKEN_IMPL_ID market = ''StableDebtToken-'' @ market"

definition VARIABLE_DEBT_TOKEN_IMPL_ID :: "string \<Rightarrow> string" where
  "VARIABLE_DEBT_TOKEN_IMPL_ID market = ''VariableDebtToken-'' @ market"

definition RESERVES_SETUP_HELPER_ID :: string where
  "RESERVES_SETUP_HELPER_ID = ''ReservesSetupHelper''"

definition INCENTIVES_PROXY_ID :: string where
  "INCENTIVES_PROXY_ID = ''IncentivesProxy''"

definition EMISSION_MANAGER_ID :: string where
  "EMISSION_MANAGER_ID = ''EmissionManager''"

definition INCENTIVES_V2_IMPL_ID :: string where
  "INCENTIVES_V2_IMPL_ID = ''IncentivesV2-'' @ IMPL_ID"

definition INCENTIVES_PULL_REWARDS_STRATEGY_ID :: string where
  "INCENTIVES_PULL_REWARDS_STRATEGY_ID = ''PullRewardsTransferStrategy''"

definition INCENTIVES_STAKED_TOKEN_STRATEGY_ID :: string where
  "INCENTIVES_STAKED_TOKEN_STRATEGY_ID = ''StakedTokenTransferStrategy''"

definition ORACLE_ID :: "string \<Rightarrow> string" where
  "ORACLE_ID market = ''RASAOracle-'' @ market"

definition FALLBACK_ORACLE_ID :: "string \<Rightarrow> string" where
  "FALLBACK_ORACLE_ID market = ''FallbackOracle-'' @ market"

definition TREASURY_PROXY_ID :: string where
  "TREASURY_PROXY_ID = ''TreasuryProxy''"

definition TREASURY_IMPL_ID :: string where
  "TREASURY_IMPL_ID = ''Treasury-'' @ IMPL_ID"

definition TREASURY_CONTROLLER_ID :: string where
  "TREASURY_CONTROLLER_ID = ''Treasury-Controller''"

definition COLLECTOR_PROXY_ID :: "string \<Rightarrow> string" where
  "COLLECTOR_PROXY_ID market = ''Collector-'' @ PROXY_ID @ ''-'' @ market"

definition COLLECTOR_IMPL_ID :: "string \<Rightarrow> string" where
  "COLLECTOR_IMPL_ID market = ''Collector-'' @ IMPL_ID @ ''-'' @ market"

definition TESTNET_TOKEN_PREFIX :: "string \<Rightarrow> string" where
  "TESTNET_TOKEN_PREFIX market = ''-TestnetMintableERC20-'' @ market"

definition TESTNET_REWARD_TOKEN_PREFIX :: "string \<Rightarrow> string" where
  "TESTNET_REWARD_TOKEN_PREFIX market = ''-TestnetMintableERC20-Reward-'' @ market"

definition TESTNET_PRICE_AGGR_PREFIX :: "string \<Rightarrow> string" where
  "TESTNET_PRICE_AGGR_PREFIX market = ''-TestnetPriceAggregator-'' @ market"

definition RSTOKEN_PREFIX :: "string \<Rightarrow> string" where
  "RSTOKEN_PREFIX market = ''-RSToken-'' @ market"

definition VARIABLE_DEBT_PREFIX :: "string \<Rightarrow> string" where
  "VARIABLE_DEBT_PREFIX market = ''-VariableDebtToken-'' @ market"

definition STABLE_DEBT_PREFIX :: "string \<Rightarrow> string" where
  "STABLE_DEBT_PREFIX market = ''-StableDebtToken-'' @ market"

definition STAKE_RASA_PROXY :: string where
  "STAKE_RASA_PROXY = ''StakeRASA-'' @ PROXY_ID"

definition L2_ENCODER :: string where
  "L2_ENCODER = ''L2Encoder''"

definition FAUCET_OWNABLE_ID :: "string \<Rightarrow> string" where
  "FAUCET_OWNABLE_ID market = ''Faucet-'' @ market"

text \<open>All names of one market, in the order of the source.\<close>

definition deployment_ids :: "string \<Rightarrow> string list" where
  "deployment_ids market = [
     POOL_ADDRESSES_PROVIDER_ID market,
     ACL_MANAGER_ID market,
     POOL_IMPL_ID,
     L2_POOL_IMPL_ID,
     POOL_CONFIGURATOR_IMPL_ID,
     POOL_PROXY_ID market,
     POOL_CONFIGURATOR_PROXY_ID market,
     POOL_DATA_PROVIDER market,
     RSTOKEN_IMPL_ID market,
     DELEGATION_AWARE_RSTOKEN_IMPL_ID market,
     STABLE_DEBT_TOKEN_IMPL_ID market,
     VARIABLE_DEBT_TOKEN_IMPL_ID market,
     RESERVES_SETUP_HELPER_ID,
     INCENTIVES_PROXY_ID,
     EMISSION_MANAGER_ID,
     INCENTIVES_V2_IMPL_ID,
     INCENTIVES_PULL_REWARDS_STRATEGY_ID,
     INCENTIVES_STAKED_TOKEN_STRATEGY_ID,
     ORACLE_ID market,
     FALLBACK_ORACLE_ID market,
     TREASURY_PROXY_ID,
     TREASURY_IMPL_ID,
     TREASURY_CONTROLLER_ID,
     COLLECTOR_PROXY_ID market,
     COLLECTOR_IMPL_ID market,
     TESTNET_TOKEN_PREFIX market,
     TESTNET_REWARD_TOKEN_PREFIX market,
     TESTNET_PRICE_AGGR_PREFIX market,
     RSTOKEN_PREFIX market,
     VARIABLE_DEBT_PREFIX market,
     STABLE_DEBT_PREFIX market,
     STAKE_RASA_PROXY,
     L2_ENCODER,
     FAUCET_OWNABLE_ID market]"

lemmas deploy_id_defs = POOL_ADDRESSES_PROVIDER_ID_def ACL_MANAGER_ID_def IMPL_ID_def PROXY_ID_def POOL_IMPL_ID_def L2_POOL_IMPL_ID_def POOL_CONFIGURATOR_IMPL_ID_def POOL_PROXY_ID_def POOL_CONFIGURATOR_PROXY_ID_def POOL_DATA_PROVIDER_def RSTOKEN_IMPL_ID_def DELEGATION_AWARE_RSTOKEN_IMPL_ID_def STABLE_DEBT_TOKEN_IMPL_ID_def VARIABLE_DEBT_TOKEN_IMPL_ID_def RESERVES_SETUP_HELPER_ID_def INCENTIVES_PROXY_ID_def EMISSION_MANAGER_ID_def INCENTIVES_V2_IMPL_ID_def INCENTIVES_PULL_REWARDS_STRATEGY_ID_def INCENTIVES_STAKED_TOKEN_STRATEGY_ID_def ORACLE_ID_def FALLBACK_ORACLE_ID_def TREASURY_PROXY_ID_def TREASURY_IMPL_ID_def TREASURY_CONTROLLER_ID_def COLLECTOR_PROXY_ID_def COLLECTOR_IMPL_ID_def TESTNET_TOKEN_PREFIX_def TESTNET_REWARD_TOKEN_PREFIX_def TESTNET_PRICE_AGGR_PREFIX_def RSTOKEN_PREFIX_def VARIABLE_DEBT_PREFIX_def STABLE_DEBT_PREFIX_def STAKE_RASA_PROXY_def L2_ENCODER_def FAUCET_OWNABLE_ID_def

section \<open>Property\<close>

text \<open>
  Within a market no two deployments share a name, whatever the market is called.
\<close>

theorem deployment_ids_distinct: "distinct (deployment_ids market)"
  by (simp add: deployment_ids_def deploy_id_defs)

end
