(* ===== verification/MarketConfig.thy ===== *)
theory MarketConfig
  imports DeployIds ProtocolTypes
begin

text \<open>
  Reading the market configuration, \<open>helpers/market-config-helpers.ts\<close>. The stored deployments
  (\<open>hre.deployments\<close>) are a dictionary from names to addresses that \<open>savePoolTokens\<close> extends; the
  network settings, the environment variables and the address functions of ethers are the record
  \<open>market_env\<close>. Messages written to the console are left out.
\<close>

section \<open>Configuration\<close>

text \<open>The properties of \<open>PoolConfiguration\<close> that these functions read.\<close>

record pool_configuration =
  TestnetMarket :: bool
  ReservesConfig :: "reserve_params obj"
  ReserveAssets :: "string obj obj option"
  PriceAggregator :: "string obj obj option"
  ReserveFactorTreasuryAddress :: "string obj option"
  L2PoolEnabled :: "bool obj option"
  IncentivesEnabled :: "bool obj option"

record market_env =
  networkName :: string
  networks :: "bool obj"
  ENABLE_REWARDS :: "bool option"
  MARKET_NAME :: string
  addresses :: address_lib

definition ConfigNames :: "string obj" where
  "ConfigNames = [(''Commons'', ''Commons''), (''Test'', ''Test''), (''Ethereum'', ''Ethereum'')]"

text \<open>
  The environment variables of \<open>helpers/env.ts\<close>; an empty string counts as not set. The first argument
  is the value of the variable in \<open>process.env\<close>.
\<close>

definition env_MARKET_NAME :: "string option \<Rightarrow> string" where
  "env_MARKET_NAME v = (case v of None \<Rightarrow> ''Commons'' | Some s \<Rightarrow> if s = [] then ''Commons'' else s)"

definition env_ENABLE_REWARDS :: "string option \<Rightarrow> bool option" where
  "env_ENABLE_REWARDS v =
     (case v of None \<Rightarrow> None | Some s \<Rightarrow> if s = [] then None else Some (s = ''true''))"

definition env_DETERMINISTIC_DEPLOYMENT :: "string option \<Rightarrow> bool option" where
  "env_DETERMINISTIC_DEPLOYMENT v =
     (case v of None \<Rightarrow> None | Some s \<Rightarrow> if s = [] then None else Some (s = ''true''))"

text \<open>\<open>log\<close> and \<open>deterministicDeployment\<close> of the parameters every deployment gets.\<close>

definition COMMON_DEPLOY_PARAMS :: "string option \<Rightarrow> bool \<times> bool" where
  "COMMON_DEPLOY_PARAMS v =
     (True, case env_DETERMINISTIC_DEPLOYMENT v of None \<Rightarrow> False | Some b \<Rightarrow> b)"

definition env_PERMISSIONED_FAUCET :: "string option \<Rightarrow> bool" where
  "env_PERMISSIONED_FAUCET v \<longleftrightarrow> v = Some ''true''"

definition getParamPerNetwork :: "'v obj option \<Rightarrow> string \<Rightarrow> 'v option" where
  "getParamPerNetwork param network = (case param of None \<Rightarrow> None | Some p \<Rightarrow> obj_get p network)"

text \<open>A value is required to be truthy; what that means depends on the type of the property.\<close>

definition getRequiredParamPerNetwork ::
    "('v \<Rightarrow> bool) \<Rightarrow> 'v obj option \<Rightarrow> string \<Rightarrow> string \<Rightarrow> 'v result" where
  "getRequiredParamPerNetwork truth mapNetworkToValue key network =
     (case mapNetworkToValue of
        None \<Rightarrow> Inl (Thrown (''[config] missing required parameter '' @ key @ '' at market config''))
      | Some p \<Rightarrow>
          (case obj_get p network of
             Some v \<Rightarrow> if truth v then Inr v
               else Inl (Thrown (''[config] missing required value at '' @ key @ ''.'' @ network))
           | None \<Rightarrow> Inl (Thrown (''[config] missing required value at '' @ key @ ''.'' @ network))))"

definition getAddressFromConfig ::
    "address_lib \<Rightarrow> string obj option \<Rightarrow> string \<Rightarrow> string option \<Rightarrow> string result" where
  "getAddressFromConfig lib param network key =
     (let val = getParamPerNetwork param network;
          err = Thrown (''Input parameter '' @
            (case key of None \<Rightarrow> [] | Some k \<Rightarrow> if k = [] then [] else CHR 0x22 # k @ [CHR 0x22]) @
            '' is missing or is not an address.'') in
      case val of
        None \<Rightarrow> Inl err
      | Some a \<Rightarrow>
          if a = [] then Inl err
          else rbind (isValidAddress lib (Some a)) (\<lambda>valid. if valid then Inr a else Inl err))"

text \<open>The two configured markets are arguments; any other name is rejected.\<close>

definition loadPoolConfig :: "'m \<Rightarrow> 'm \<Rightarrow> string \<Rightarrow> 'm result" where
  "loadPoolConfig ethereumMarket testMarket configName =
     (if configName = ''Ethereum'' then Inr ethereumMarket
      else if configName = ''Test'' then Inr testMarket
      else Inl (Thrown (''Unsupported pool configuration: '' @ configName @
        '' is not one of the supported configs '' @ join (map snd ConfigNames))))"

text \<open>True means that the deployment is skipped.\<close>

definition checkRequiredEnvironment :: "string option \<Rightarrow> bool" where
  "checkRequiredEnvironment marketName = (case marketName of None \<Rightarrow> True | Some s \<Rightarrow> s = [])"

section \<open>Names with a prefix\<close>

text \<open>\<open>key.includes(prefix)\<close> and \<open>key.replace(prefix, '')\<close>, which removes the first occurrence.\<close>

definition startsWith :: "string \<Rightarrow> string \<Rightarrow> bool" where
  "startsWith p s \<longleftrightarrow> take (length p) s = p"

fun hasSubstring :: "string \<Rightarrow> string \<Rightarrow> bool" where
  "hasSubstring p [] \<longleftrightarrow> p = []"
| "hasSubstring p (c # cs) \<longleftrightarrow> startsWith p (c # cs) \<or> hasSubstring p cs"

fun removeFirst :: "string \<Rightarrow> string \<Rightarrow> string" where
  "removeFirst p [] = []"
| "removeFirst p (c # cs) =
     (if startsWith p (c # cs) then drop (length p) (c # cs) else c # removeFirst p cs)"

definition getSubTokensByPrefix :: "string obj \<Rightarrow> string \<Rightarrow> (string \<times> string) list" where
  "getSubTokensByPrefix deployments prefix =
     map (\<lambda>(key, artifact). (removeFirst prefix key, artifact))
       (filter (\<lambda>(key, artifact). hasSubstring prefix key) deployments)"

definition getSymbolsByPrefix :: "string obj \<Rightarrow> string \<Rightarrow> string list" where
  "getSymbolsByPrefix deployments prefix =
     map (removeFirst prefix) (filter (hasSubstring prefix) (obj_keys deployments))"

text \<open>
  The testnet branch of \<open>getReserveAddresses\<close> and \<open>getChainlinkOracles\<close>: the deployments with the
  prefix whose symbol is wanted, as a dictionary from the symbol to the address.
\<close>

definition testnetAddresses :: "string obj \<Rightarrow> string \<Rightarrow> (string \<Rightarrow> bool) \<Rightarrow> string obj" where
  "testnetAddresses deployments prefix wanted =
     foldl (\<lambda>acc (key, address). obj_set acc (removeFirst prefix key) address) []
       (filter (\<lambda>(key, address). hasSubstring prefix key \<and> wanted (removeFirst prefix key)) deployments)"

definition isLive :: "market_env \<Rightarrow> string \<Rightarrow> bool result" where
  "isLive env network = getf (obj_get (networks env) network)"

definition getReserveAddresses ::
    "market_env \<Rightarrow> 'a pool_configuration_scheme \<Rightarrow> string \<Rightarrow> string obj \<Rightarrow> string obj result" where
  "getReserveAddresses env poolConfig network deployments =
     rbind (isLive env network) (\<lambda>live.
     if live \<and> \<not> TestnetMarket poolConfig then
       Inr (case getParamPerNetwork (ReserveAssets poolConfig) network of None \<Rightarrow> [] | Some a \<Rightarrow> a)
     else Inr (testnetAddresses deployments (TESTNET_TOKEN_PREFIX (MARKET_NAME env))
       (\<lambda>symb. symb \<in> set (obj_keys (ReservesConfig poolConfig)))))"

definition isIncentivesEnabled :: "market_env \<Rightarrow> 'a pool_configuration_scheme \<Rightarrow> bool" where
  "isIncentivesEnabled env poolConfig =
     (case ENABLE_REWARDS env of
        Some b \<Rightarrow> b
      | None \<Rightarrow> getParamPerNetwork (IncentivesEnabled poolConfig) (networkName env) = Some True)"

definition getChainlinkOracles ::
    "market_env \<Rightarrow> 'a pool_configuration_scheme \<Rightarrow> string \<Rightarrow> string obj \<Rightarrow> string obj result" where
  "getChainlinkOracles env poolConfig network deployments =
     rbind (isLive env network) (\<lambda>live.
     if live then
       Inr (case getParamPerNetwork (PriceAggregator poolConfig) network of None \<Rightarrow> [] | Some a \<Rightarrow> a)
     else
       let rewardKeys = (if isIncentivesEnabled env poolConfig
             then getSymbolsByPrefix deployments (TESTNET_REWARD_TOKEN_PREFIX (MARKET_NAME env)) else [])
       in Inr (testnetAddresses deployments (TESTNET_PRICE_AGGR_PREFIX (MARKET_NAME env))
         (\<lambda>symb. symb \<in> set (obj_keys (ReservesConfig poolConfig)) \<or> symb \<in> set rewardKeys)))"

section \<open>Single addresses\<close>

text \<open>\<open>hre.deployments.get\<close> throws for a name that is not stored.\<close>

definition deployments_get :: "string obj \<Rightarrow> string \<Rightarrow> string result" where
  "deployments_get deployments nam =
     (case obj_get deployments nam of
        None \<Rightarrow> Inl (Thrown (''No deployment found for: '' @ nam)) | Some a \<Rightarrow> Inr a)"

definition getTreasuryAddress ::
    "market_env \<Rightarrow> 'a pool_configuration_scheme \<Rightarrow> string \<Rightarrow> string obj \<Rightarrow> string result" where
  "getTreasuryAddress env poolConfig network deployments =
     rbind (case getParamPerNetwork (ReserveFactorTreasuryAddress poolConfig) network of
              None \<Rightarrow> Inr None
            | Some a \<Rightarrow>
                if a = [] then Inr None
                else rbind (getAddress (addresses env) a) (\<lambda>x.
                  rbind (getAddress (addresses env) ZERO_ADDRESS) (\<lambda>z.
                  Inr (if x \<noteq> z then Some a else None))))
       (\<lambda>configured. case configured of
          Some a \<Rightarrow> Inr a
        | None \<Rightarrow> deployments_get deployments TREASURY_PROXY_ID)"

definition isProductionMarket :: "market_env \<Rightarrow> 'a pool_configuration_scheme \<Rightarrow> bool result" where
  "isProductionMarket env poolConfig =
     rbind (isLive env (networkName env)) (\<lambda>live. Inr (live \<and> \<not> TestnetMarket poolConfig))"

definition isTestnetMarket :: "market_env \<Rightarrow> 'a pool_configuration_scheme \<Rightarrow> bool result" where
  "isTestnetMarket env poolConfig = rbind (isProductionMarket env poolConfig) (\<lambda>b. Inr (\<not> b))"

definition getReserveAddress :: "market_env \<Rightarrow> 'a pool_configuration_scheme \<Rightarrow> string \<Rightarrow> string result" where
  "getReserveAddress env poolConfig symb =
     (let assetAddress = Option.bind (getParamPerNetwork (ReserveAssets poolConfig) (networkName env))
            (\<lambda>assets. obj_get assets symb) in
      case assetAddress of
        None \<Rightarrow> Inl (Thrown (''Missing asset address for asset '' @ symb))
      | Some a \<Rightarrow>
          if a = [] \<or> a = ZERO_ADDRESS then Inl (Thrown (''Missing asset address for asset '' @ symb))
          else Inr a)"

definition getOracleByAsset :: "market_env \<Rightarrow> 'a pool_configuration_scheme \<Rightarrow> string \<Rightarrow> string result" where
  "getOracleByAsset env poolConfig symb =
     rbind (getf (PriceAggregator poolConfig)) (\<lambda>aggregators.
     case Option.bind (obj_get aggregators (networkName env)) (\<lambda>oracles. obj_get oracles symb) of
       None \<Rightarrow> Inl (Thrown (''Missing oracle address for '' @ symb))
     | Some a \<Rightarrow> if a = [] then Inl (Thrown (''Missing oracle address for '' @ symb)) else Inr a)"

definition isL2PoolSupported :: "market_env \<Rightarrow> 'a pool_configuration_scheme \<Rightarrow> bool" where
  "isL2PoolSupported env poolConfig \<longleftrightarrow>
     getParamPerNetwork (L2PoolEnabled poolConfig) (networkName env) = Some True"

fun getPrefixByAssetType :: "string \<Rightarrow> AssetType \<Rightarrow> string" where
  "getPrefixByAssetType market AssetType_RSToken = RSTOKEN_PREFIX market"
| "getPrefixByAssetType market AssetType_VariableDebtToken = VARIABLE_DEBT_PREFIX market"
| "getPrefixByAssetType market AssetType_StableDebtToken = STABLE_DEBT_PREFIX market"

section \<open>Saving the tokens of a pool\<close>

record pool_tokens =
  pt_RSTokenAddress :: string
  pt_stableDebtTokenAddress :: string
  pt_variableDebtTokenAddress :: string

text \<open>
  For each reserve in turn the three tokens the data provider reports are stored under the symbol and
  the prefix of their kind. The artifacts and the data provider itself must be there.
\<close>

definition saveTokensOf :: "string \<Rightarrow> string \<Rightarrow> pool_tokens \<Rightarrow> string obj \<Rightarrow> string obj" where
  "saveTokensOf market symb tokens deployments =
     obj_set (obj_set (obj_set deployments
       (symb @ RSTOKEN_PREFIX market) (pt_RSTokenAddress tokens))
       (symb @ VARIABLE_DEBT_PREFIX market) (pt_variableDebtTokenAddress tokens))
       (symb @ STABLE_DEBT_PREFIX market) (pt_stableDebtTokenAddress tokens)"

definition savePoolTokens ::
    "market_env \<Rightarrow> (string \<Rightarrow> pool_tokens result) \<Rightarrow> string obj \<Rightarrow> string obj \<Rightarrow> string obj result" where
  "savePoolTokens env getReserveTokensAddresses reservesConfig deployments =
     rbind (deployments_get deployments (POOL_DATA_PROVIDER (MARKET_NAME env))) (\<lambda>_.
     foldM (\<lambda>deployments (tokenSymbol, asset).
         rbind (getReserveTokensAddresses asset) (\<lambda>tokens.
         Inr (saveTokensOf (MARKET_NAME env) tokenSymbol tokens deployments)))
       deployments reservesConfig)"

end
