(* ===== verification/MarketProps.thy ===== *)
theory MarketProps
  imports MarketConfig
begin

text \<open>What the configuration helpers promise to the deployment scripts.\<close>

section \<open>Names with a prefix\<close>

lemma startsWith_append [simp]: "startsWith p (p @ s)"
  by (simp add: startsWith_def)

lemma hasSubstring_suffix: "hasSubstring p (s @ p)"
proof (induction s)
  case Nil
  then show ?case using startsWith_append[of p "[]"] by (cases p) auto
qed simp

lemma removeFirst_suffix:
  assumes "p = c # q" "c \<notin> set s"
  shows "removeFirst p (s @ p) = s"
  using assms(2)
proof (induction s)
  case Nil
  then show ?case using startsWith_append[of p "[]"] by (simp add: assms(1))
next
  case (Cons x s)
  then have "c \<noteq> x" "removeFirst p (s @ p) = s" by auto
  then show ?case by (auto simp: assms(1) startsWith_def)
qed

lemma suffix_unique:
  assumes "s @ c # p = t @ c # q" "c \<notin> set s" "c \<notin> set t"
  shows "s = t" "p = q"
  using assms by (auto simp: append_eq_append_conv2 Cons_eq_append_conv append_eq_Cons_conv)

text \<open>A symbol without a dash; all prefixes start with one.\<close>

abbreviation dashless :: "string \<Rightarrow> bool" where
  "dashless s \<equiv> CHR ''-'' \<notin> set s"

lemma prefix_dash: "\<exists>q. getPrefixByAssetType market k = CHR ''-'' # q"
  by (cases k) (simp_all add: RSTOKEN_PREFIX_def VARIABLE_DEBT_PREFIX_def STABLE_DEBT_PREFIX_def)

lemma prefix_inj: "getPrefixByAssetType market k = getPrefixByAssetType market k' \<Longrightarrow> k = k'"
  by (cases k; cases k')
    (simp_all add: RSTOKEN_PREFIX_def VARIABLE_DEBT_PREFIX_def STABLE_DEBT_PREFIX_def)

lemma token_key_inj:
  assumes "s @ getPrefixByAssetType market k = t @ getPrefixByAssetType market k'" "dashless s" "dashless t"
  shows "s = t" "k = k'"
proof -
  obtain p q where p: "getPrefixByAssetType market k = CHR ''-'' # p"
      "getPrefixByAssetType market k' = CHR ''-'' # q"
    using prefix_dash by meson
  then have "s @ CHR ''-'' # p = t @ CHR ''-'' # q" using assms(1) by simp
  note u = suffix_unique[OF this assms(2,3)]
  show "s = t" by (rule u(1))
  show "k = k'" using p u(2) prefix_inj[of market k k'] by simp
qed

section \<open>Saved tokens\<close>

fun tokenOf :: "AssetType \<Rightarrow> pool_tokens \<Rightarrow> string" where
  "tokenOf AssetType_RSToken t = pt_RSTokenAddress t"
| "tokenOf AssetType_VariableDebtToken t = pt_variableDebtTokenAddress t"
| "tokenOf AssetType_StableDebtToken t = pt_stableDebtTokenAddress t"

lemma saveTokensOf_get:
  assumes "dashless s" "dashless symb"
  shows "obj_get (saveTokensOf market symb t ds) (s @ getPrefixByAssetType market k) =
    (if s = symb then Some (tokenOf k t) else obj_get ds (s @ getPrefixByAssetType market k))"
proof -
  have eq: "symb @ getPrefixByAssetType market k' = s @ getPrefixByAssetType market k \<longleftrightarrow> s = symb \<and> k = k'" for k'
    using token_key_inj[of symb market k' s k] assms by auto
  show ?thesis
    using eq[of AssetType_RSToken] eq[of AssetType_VariableDebtToken] eq[of AssetType_StableDebtToken]
    by (cases k) (simp_all add: saveTokensOf_def)
qed

definition saveLoop ::
    "string \<Rightarrow> (string \<Rightarrow> pool_tokens result) \<Rightarrow> (string \<times> string) list \<Rightarrow> string obj \<Rightarrow> string obj result" where
  "saveLoop market prov config ds =
     foldM (\<lambda>ds (symb, asset). rbind (prov asset) (\<lambda>tokens. Inr (saveTokensOf market symb tokens ds)))
       ds config"

lemma saveLoop_Cons:
  "saveLoop market prov ((symb, asset) # config) ds = Inr ds' \<longleftrightarrow>
     (\<exists>t. prov asset = Inr t \<and> saveLoop market prov config (saveTokensOf market symb t ds) = Inr ds')"
  by (auto simp: saveLoop_def rbind_eq_Inr)

lemma saveLoop_other:
  assumes "saveLoop market prov config ds = Inr ds'" "\<forall>p\<in>set config. dashless (fst p)" "dashless s"
    "s \<notin> fst ` set config"
  shows "obj_get ds' (s @ getPrefixByAssetType market k) = obj_get ds (s @ getPrefixByAssetType market k)"
  using assms
proof (induction config arbitrary: ds)
  case Nil
  then show ?case by (simp add: saveLoop_def)
next
  case (Cons p config)
  obtain symb asset where p: "p = (symb, asset)" by (cases p)
  obtain t where t: "saveLoop market prov config (saveTokensOf market symb t ds) = Inr ds'"
    using Cons.prems(1) by (auto simp: p saveLoop_Cons)
  have "s \<noteq> symb" "dashless symb" using Cons.prems by (auto simp: p)
  with Cons.IH[OF t] Cons.prems saveTokensOf_get[of s symb] show ?case by simp
qed

lemma saveLoop_get:
  assumes "saveLoop market prov config ds = Inr ds'" "\<forall>p\<in>set config. dashless (fst p)"
    "distinct (map fst config)" "(symb, asset) \<in> set config"
  shows "\<exists>t. prov asset = Inr t \<and> (\<forall>k. obj_get ds' (symb @ getPrefixByAssetType market k) = Some (tokenOf k t))"
  using assms
proof (induction config arbitrary: ds)
  case (Cons p config)
  obtain symb' asset' where p: "p = (symb', asset')" by (cases p)
  obtain t where t: "prov asset' = Inr t"
      "saveLoop market prov config (saveTokensOf market symb' t ds) = Inr ds'"
    using Cons.prems(1) by (auto simp: p saveLoop_Cons)
  show ?case
  proof (cases "(symb, asset) = p")
    case True
    have "symb \<notin> fst ` set config" "dashless symb" using Cons.prems(2,3) True by (auto simp: p)
    then have "obj_get ds' (symb @ getPrefixByAssetType market k) = Some (tokenOf k t)" for k
      using saveLoop_other[OF t(2), of symb k] saveTokensOf_get[of symb symb market t ds k]
        Cons.prems(2) True by (simp add: p)
    then show ?thesis using t(1) True by (auto simp: p)
  next
    case False
    then show ?thesis using Cons.IH[OF t(2)] Cons.prems by auto
  qed
qed simp

lemma spec_pair: "\<exists>t. P t \<and> (\<forall>k. Q t k \<and> R t k) \<Longrightarrow> \<exists>t. P t \<and> Q t k \<and> R t k"
  by blast

definition demo_market_env :: market_env where
  "demo_market_env = \<lparr>networkName = ''lisk'', networks = [(''lisk'', True), (''hardhat'', False)],
     ENABLE_REWARDS = None, MARKET_NAME = ''Test'',
     addresses = \<lparr>isAddress = (\<lambda>a. length a = 42), getAddress = (\<lambda>a. Inr a)\<rparr>\<rparr>"

definition demo_tokens :: "string \<Rightarrow> pool_tokens result" where
  "demo_tokens a = Inr \<lparr>pt_RSTokenAddress = a @ ''r'', pt_stableDebtTokenAddress = a @ ''s'',
     pt_variableDebtTokenAddress = a @ ''v''\<rparr>"

text \<open>
  Saving and finding the tokens of a pool is a round trip: after a successful save of reserves whose
  symbols are distinct and contain no dash, each token of each reserve is stored under its symbol and
  prefix with the address the data provider reports, and searching the deployments by that prefix
  yields the symbol with that address.
\<close>

theorem saved_tokens_are_found:
  assumes "savePoolTokens env prov config ds = Inr ds'" "\<forall>p\<in>set config. dashless (fst p)"
    "distinct (map fst config)" "(symb, asset) \<in> set config"
  shows "\<exists>t. prov asset = Inr t \<and>
    (\<forall>k. obj_get ds' (symb @ getPrefixByAssetType (MARKET_NAME env) k) = Some (tokenOf k t) \<and>
      (symb, tokenOf k t) \<in> set (getSubTokensByPrefix ds' (getPrefixByAssetType (MARKET_NAME env) k)))"
proof -
  let ?p = "getPrefixByAssetType (MARKET_NAME env)"
  have "saveLoop (MARKET_NAME env) prov config ds = Inr ds'"
    using assms(1) by (auto simp: savePoolTokens_def saveLoop_def rbind_eq_Inr)
  from saveLoop_get[OF this assms(2-4)] obtain t where t: "prov asset = Inr t"
      "\<And>k. obj_get ds' (symb @ ?p k) = Some (tokenOf k t)" by blast
  have d: "dashless symb" using assms(2,4) by force
  have "(symb, tokenOf k t) \<in> set (getSubTokensByPrefix ds' (?p k))" for k
  proof -
    obtain q where q: "?p k = CHR ''-'' # q" using prefix_dash by blast
    have "(symb @ ?p k, tokenOf k t) \<in> set ds'" using obj_get_Some_mem[OF t(2)] .
    moreover have "removeFirst (?p k) (symb @ ?p k) = symb" by (rule removeFirst_suffix[OF q d])
    ultimately show ?thesis
      using hasSubstring_suffix[of "?p k" symb] by (force simp: getSubTokensByPrefix_def)
  qed
  with t show ?thesis by blast
qed

theorem saved_tokens_are_found_witness:
  "\<exists>ds'. savePoolTokens demo_market_env demo_tokens [(''DAI'', ''0x1''), (''WETH'', ''0x2'')]
      [(''PoolDataProvider-Test'', ''0x9'')] = Inr ds' \<and>
     obj_get ds' (''DAI'' @ getPrefixByAssetType ''Test'' AssetType_RSToken) = Some ''0x1r'' \<and>
     (''WETH'', ''0x2v'') \<in>
       set (getSubTokensByPrefix ds' (getPrefixByAssetType ''Test'' AssetType_VariableDebtToken))"
proof -
  let ?c = "[(''DAI'', ''0x1''), (''WETH'', ''0x2'')]"
  obtain ds' where s: "savePoolTokens demo_market_env demo_tokens ?c [(''PoolDataProvider-Test'', ''0x9'')] = Inr ds'"
    by (simp add: savePoolTokens_def demo_market_env_def deployments_get_def POOL_DATA_PROVIDER_def
        demo_tokens_def)
  have c: "\<forall>p\<in>set ?c. dashless (fst p)" "distinct (map fst ?c)" by simp_all
  have m: "(''DAI'', ''0x1'') \<in> set ?c" "(''WETH'', ''0x2'') \<in> set ?c" by simp_all
  have "MARKET_NAME demo_market_env = ''Test''" by (simp add: demo_market_env_def)
  then show ?thesis
    using s spec_pair[OF saved_tokens_are_found[OF s c m(1)], of AssetType_RSToken]
      spec_pair[OF saved_tokens_are_found[OF s c m(2)], of AssetType_VariableDebtToken]
    by (auto simp: demo_tokens_def)
qed

section \<open>Addresses\<close>

text \<open>
  A reserve address is returned exactly when the current network configures a non-empty, non-zero
  address for the symbol, and it is that address; every other case throws the message that names the
  symbol.
\<close>

theorem reserve_address_is_configured:
  "getReserveAddress env cfg symb =
     (case ReserveAssets cfg of
        Some nets \<Rightarrow>
          (case obj_get nets (networkName env) of
             Some assets \<Rightarrow>
               (case obj_get assets symb of
                  Some a \<Rightarrow> if a \<noteq> [] \<and> a \<noteq> ZERO_ADDRESS then Inr a
                    else Inl (Thrown (''Missing asset address for asset '' @ symb))
                | None \<Rightarrow> Inl (Thrown (''Missing asset address for asset '' @ symb)))
           | None \<Rightarrow> Inl (Thrown (''Missing asset address for asset '' @ symb)))
      | None \<Rightarrow> Inl (Thrown (''Missing asset address for asset '' @ symb)))"
  by (simp add: getReserveAddress_def getParamPerNetwork_def Let_def split: option.splits)

text \<open>
  The treasury is never the zero address by configuration: a configured zero address falls through
  to the deployed treasury proxy, and if that is missing too the function throws.
\<close>

theorem treasury_falls_back:
  assumes "\<And>a. getAddress (addresses env) a = Inr (norm a)"
  shows "getTreasuryAddress env cfg network ds =
    (case getParamPerNetwork (ReserveFactorTreasuryAddress cfg) network of
       Some a \<Rightarrow> if a \<noteq> [] \<and> norm a \<noteq> norm ZERO_ADDRESS then Inr a
         else deployments_get ds TREASURY_PROXY_ID
     | None \<Rightarrow> deployments_get ds TREASURY_PROXY_ID)"
  by (simp add: getTreasuryAddress_def assms split: option.splits)

definition demo_market :: pool_configuration where
  "demo_market = \<lparr>TestnetMarket = False, ReservesConfig = [], ReserveAssets = None,
     PriceAggregator = None, ReserveFactorTreasuryAddress = Some [(''lisk'', ZERO_ADDRESS)],
     L2PoolEnabled = None, IncentivesEnabled = None\<rparr>"

theorem treasury_falls_back_witness:
  "getTreasuryAddress demo_market_env demo_market ''lisk'' [(''TreasuryProxy'', ''0x7'')] = Inr ''0x7''"
proof -
  have g: "getAddress (addresses demo_market_env) a = Inr (id a)" for a
    by (simp add: demo_market_env_def)
  show ?thesis
    using treasury_falls_back[OF g, of demo_market "''lisk''" "[(''TreasuryProxy'', ''0x7'')]"]
    by (simp add: demo_market_def getParamPerNetwork_def deployments_get_def TREASURY_PROXY_ID_def)
qed

section \<open>The market of the environment\<close>

text \<open>
  With the environment variable of the market name unset or empty no configuration is loaded: the
  default name Commons is one of the configuration names but not of the loaded markets, so every
  script that loads the configuration throws. A name is loaded exactly when it is Ethereum or Test.
\<close>

theorem default_market_is_unsupported:
  "(\<exists>cfg. loadPoolConfig eth_market test_market (env_MARKET_NAME v) = Inr cfg) \<longleftrightarrow>
     v = Some ''Ethereum'' \<or> v = Some ''Test''"
  by (auto simp: loadPoolConfig_def env_MARKET_NAME_def split: option.splits)

end
