(* ===== verification/Transactions.thy ===== *)
theory Transactions
  imports Prelude
begin

text \<open>
  Scripts that send transactions one after the other. A script may throw half way, and what it sent
  before stays on the chain: an action takes the chain to a result and the chain it leaves behind.
  \<open>ask\<close> reads, \<open>transact\<close> sends one transaction (a reverted one changes nothing), \<open>abind\<close> sequences and
  stops at the first error, \<open>sendEach\<close> is a loop that waits for each transaction.
\<close>

type_synonym ('w, 'a) act = "'w \<Rightarrow> 'a result \<times> 'w"

definition areturn :: "'a result \<Rightarrow> ('w, 'a) act" where
  "areturn r w = (r, w)"

definition ask :: "('w \<Rightarrow> 'a result) \<Rightarrow> ('w, 'a) act" where
  "ask f w = (f w, w)"

definition transact :: "('w \<Rightarrow> 'w result) \<Rightarrow> ('w, unit) act" where
  "transact tx w = (case tx w of Inl e \<Rightarrow> (Inl e, w) | Inr w' \<Rightarrow> (Inr (), w'))"

definition abind :: "('w, 'a) act \<Rightarrow> ('a \<Rightarrow> ('w, 'b) act) \<Rightarrow> ('w, 'b) act" where
  "abind m f w = (case m w of (Inl e, w') \<Rightarrow> (Inl e, w') | (Inr x, w') \<Rightarrow> f x w')"

fun sendEach :: "('x \<Rightarrow> 'w \<Rightarrow> 'w result) \<Rightarrow> 'x list \<Rightarrow> ('w, unit) act" where
  "sendEach tx [] = areturn (Inr ())"
| "sendEach tx (x # xs) = abind (transact (tx x)) (\<lambda>_. sendEach tx xs)"

text \<open>Steps one after the other, up to the first that throws.\<close>

fun sequenceActs :: "('w, unit) act list \<Rightarrow> ('w, unit) act" where
  "sequenceActs [] = areturn (Inr ())"
| "sequenceActs (m # ms) = abind m (\<lambda>_. sequenceActs ms)"

text \<open>A loop with a body that may throw.\<close>

definition forEach :: "('x \<Rightarrow> ('w, unit) act) \<Rightarrow> 'x list \<Rightarrow> ('w, unit) act" where
  "forEach body xs = sequenceActs (map body xs)"

named_theorems act_inv \<open>inversion of a successful action\<close>

lemma areturn_eq [act_inv]: "areturn r w = (r', w') \<longleftrightarrow> r = r' \<and> w' = w"
  by (auto simp: areturn_def)

lemma ask_eq [act_inv]: "ask f w = (r, w') \<longleftrightarrow> f w = r \<and> w' = w"
  by (auto simp: ask_def)

lemma transact_eq_Inr [act_inv]: "transact tx w = (Inr u, w') \<longleftrightarrow> tx w = Inr w'"
  by (auto simp: transact_def split: sum.splits)

lemma transact_eq_Inl [act_inv]: "transact tx w = (Inl e, w') \<longleftrightarrow> tx w = Inl e \<and> w' = w"
  by (auto simp: transact_def split: sum.splits)

lemma abind_eq_Inr [act_inv]: "abind m f w = (Inr y, w') \<longleftrightarrow> (\<exists>x v. m w = (Inr x, v) \<and> f x v = (Inr y, w'))"
  by (auto simp: abind_def split: prod.splits sum.splits)

lemma abind_eq_Inl:
  "abind m f w = (Inl e, w') \<longleftrightarrow> m w = (Inl e, w') \<or> (\<exists>x v. m w = (Inr x, v) \<and> f x v = (Inl e, w'))"
  by (auto simp: abind_def split: prod.splits sum.splits)

lemma abind_ask [simp]: "abind (ask g) f w = (case g w of Inl e \<Rightarrow> (Inl e, w) | Inr x \<Rightarrow> f x w)"
  by (simp add: abind_def ask_def)

lemma abind_areturn [simp]: "abind (areturn r) f w = (case r of Inl e \<Rightarrow> (Inl e, w) | Inr x \<Rightarrow> f x w)"
  by (simp add: abind_def areturn_def)

lemma abind_transact [simp]: "abind (transact tx) f w = (case tx w of Inl e \<Rightarrow> (Inl e, w) | Inr w' \<Rightarrow> f () w')"
  by (simp add: abind_def transact_def split: sum.split)

lemma abind_at: "m w = (s, u) \<Longrightarrow> abind m f w = (case s of Inl e \<Rightarrow> (Inl e, u) | Inr x \<Rightarrow> f x u)"
  by (simp add: abind_def)

text \<open>What every transaction of a loop keeps, the loop keeps, also when it stops half way.\<close>

lemma sendEach_keeps:
  assumes "P w" "\<And>x w w'. x \<in> set xs \<Longrightarrow> P w \<Longrightarrow> tx x w = Inr w' \<Longrightarrow> P w'"
    "sendEach tx xs w = (r, w')"
  shows "P w'"
  using assms
proof (induction xs arbitrary: w)
  case Nil
  then show ?case by (simp add: areturn_eq)
next
  case (Cons x xs)
  show ?case
  proof (cases "tx x w")
    case (Inl e)
    then show ?thesis using Cons.prems by simp
  next
    case (Inr v)
    have "P v" using Cons.prems(2)[OF _ Cons.prems(1) Inr] by simp
    moreover have "sendEach tx xs v = (r, w')" using Cons.prems(3) Inr by simp
    ultimately show ?thesis using Cons.IH Cons.prems(2) by (metis list.set_intros(2))
  qed
qed

lemma sendEach_all:
  assumes "sendEach tx xs w = (Inr u, w')" "x \<in> set xs"
    "\<And>w w'. tx x w = Inr w' \<Longrightarrow> P w'" "\<And>y w w'. y \<in> set xs \<Longrightarrow> P w \<Longrightarrow> tx y w = Inr w' \<Longrightarrow> P w'"
  shows "P w'"
  using assms
proof (induction xs arbitrary: w)
  case (Cons y xs)
  from Cons.prems(1) obtain v where v: "tx y w = Inr v" "sendEach tx xs v = (Inr u, w')"
    by (auto split: sum.splits)
  show ?case
  proof (cases "x = y")
    case True
    then have "P v" using Cons.prems(3) v(1) by simp
    then show ?thesis using sendEach_keeps[OF _ _ v(2), of P] Cons.prems(4) by (metis list.set_intros(2))
  next
    case False
    then show ?thesis
      using Cons.IH[OF v(2)] Cons.prems(2-4) by (metis list.set_intros(2) set_ConsD)
  qed
qed simp

section \<open>Loops\<close>

lemma forEach_simps [simp]:
  "forEach body [] = areturn (Inr ())" "forEach body (x # xs) = abind (body x) (\<lambda>_. forEach body xs)"
  by (simp_all add: forEach_def)

lemma abind_areturn_Inr: "abind (areturn (Inr x)) f = f x"
  by (rule ext) simp

lemma abind_assoc: "abind (abind m f) g = abind m (\<lambda>x. abind (f x) g)"
  by (rule ext) (simp add: abind_def split: prod.split sum.split)

lemma abind_unit: "abind m (\<lambda>_. areturn (Inr ())) = (m :: ('w, unit) act)"
  by (rule ext) (simp add: abind_def areturn_def split: prod.split sum.split)

lemma sendEach_append: "sendEach tx (xs @ ys) = abind (sendEach tx xs) (\<lambda>_. sendEach tx ys)"
  by (induction xs) (simp_all add: abind_areturn_Inr abind_assoc del: abind_transact)

lemma sendEach_one: "sendEach tx [x] = transact (tx x)"
  by (simp add: abind_unit)

text \<open>A loop whose bodies send transactions sends them all, in order.\<close>

lemma forEach_sends:
  assumes "\<And>x. x \<in> set xs \<Longrightarrow> body x = sendEach tx (calls x)"
  shows "forEach body xs = sendEach tx (concat (map calls xs))"
  using assms by (induction xs) (simp_all add: sendEach_append)

lemma concat_if: "concat (map (\<lambda>x. if P x then [f x] else []) xs) = map f (filter P xs)"
  by (induction xs) simp_all

end
