(* ===== verification/InitReserves.thy ===== *)
theory InitReserves
  imports MarketConfig Transactions
begin

text \<open>
  Initialising and configuring the reserves, \<open>helpers/init-helpers.ts\<close>. The contracts are the record
  \<open>deploy_api\<close>: reads of the chain and transactions of a sender. Contract handles are addresses, the
  signer of an account is the account, and messages to the console are left out. The loops keep the
  dictionaries of the code, whose entries may be missing.
\<close>

section \<open>Contracts\<close>

record init_input =
  ii_RSTokenImpl :: string
  ii_stableDebtTokenImpl :: string
  ii_variableDebtTokenImpl :: string
  ii_underlyingAssetDecimals :: int
  ii_interestRateStrategyAddress :: "string option"
  ii_underlyingAsset :: string
  ii_treasury :: string
  ii_incentivesController :: string
  ii_underlyingAssetName :: string
  ii_RSTokenName :: string
  ii_RSTokenSymbol :: string
  ii_variableDebtTokenName :: string
  ii_variableDebtTokenSymbol :: string
  ii_stableDebtTokenName :: string
  ii_stableDebtTokenSymbol :: string
  ii_params :: string

record configure_input =
  ci_asset :: string
  ci_baseLTV :: int
  ci_liquidationThreshold :: int
  ci_liquidationBonus :: int
  ci_reserveFactor :: int
  ci_borrowCap :: int
  ci_supplyCap :: int
  ci_stableBorrowingEnabled :: bool
  ci_borrowingEnabled :: bool
  ci_flashLoanEnabled :: bool

text \<open>
  The first argument of each operation is the contract it is called on, the sender of a transaction
  comes second.
\<close>

record 'w deploy_api =
  getPool :: "string \<Rightarrow> 'w \<Rightarrow> string result"
  getACLManager :: "string \<Rightarrow> 'w \<Rightarrow> string result"
  getACLAdmin :: "string \<Rightarrow> 'w \<Rightarrow> string result"
  getPoolConfigurator :: "string \<Rightarrow> 'w \<Rightarrow> string result"
  reserveRSTokenAddress :: "string \<Rightarrow> string \<Rightarrow> 'w \<Rightarrow> string result"
  usageAsCollateralEnabled :: "string \<Rightarrow> string \<Rightarrow> 'w \<Rightarrow> bool result"
  registryOwner :: "string \<Rightarrow> 'w \<Rightarrow> string result"
  initReserves :: "string \<Rightarrow> string \<Rightarrow> init_input list \<Rightarrow> 'w \<Rightarrow> 'w result"
  addRiskAdmin :: "string \<Rightarrow> string \<Rightarrow> string \<Rightarrow> 'w \<Rightarrow> 'w result"
  removeRiskAdmin :: "string \<Rightarrow> string \<Rightarrow> string \<Rightarrow> 'w \<Rightarrow> 'w result"
  configureReserves :: "string \<Rightarrow> string \<Rightarrow> string \<Rightarrow> configure_input list \<Rightarrow> 'w \<Rightarrow> 'w result"
  registerAddressesProvider :: "string \<Rightarrow> string \<Rightarrow> string \<Rightarrow> int \<Rightarrow> 'w \<Rightarrow> 'w result"

section \<open>Initialising reserves\<close>

definition delegatedAwareReserves :: "reserve_params obj \<Rightarrow> reserve_params obj" where
  "delegatedAwareReserves reservesParams =
     filter (\<lambda>(_, p). RSTokenImpl p = ''DelegationAwareRSToken'') reservesParams"

definition reservesToInit :: "reserve_params obj \<Rightarrow> reserve_params obj" where
  "reservesToInit reservesParams =
     filter (\<lambda>(_, p). RSTokenImpl p = ''DelegationAwareRSToken'' \<or> RSTokenImpl p = ''RSToken'')
       reservesParams"

text \<open>The variables of the first loop.\<close>

record init_state =
  reserveTokens :: "string list"
  reserveInitDecimals :: "int list"
  reserveSymbols :: "string list"
  strategyAddresses :: "string obj"
  strategyAddressPerAsset :: "string obj"
  RSTokenType :: "string obj"

definition init_start :: init_state where
  "init_start = \<lparr>reserveTokens = [], reserveInitDecimals = [], reserveSymbols = [],
     strategyAddresses = [], strategyAddressPerAsset = [], RSTokenType = []\<rparr>"

definition strategyId :: "string \<Rightarrow> string" where
  "strategyId nam = ''ReserveStrategy-'' @ nam"

definition loadStrategy :: "string obj \<Rightarrow> string \<Rightarrow> string obj \<Rightarrow> string obj result" where
  "loadStrategy deployments nam cache =
     (if truthy (obj_get cache nam) then Inr cache
      else rbind (deployments_get deployments (strategyId nam)) (\<lambda>address.
        Inr (obj_set cache nam address)))"

definition pushReserve ::
    "string obj \<Rightarrow> string \<Rightarrow> string \<Rightarrow> reserve_params \<Rightarrow> init_state \<Rightarrow> init_state result" where
  "pushReserve deployments symb asset params st =
     rbind (loadStrategy deployments (strategy_name (strategy params)) (strategyAddresses st)) (\<lambda>cache.
     rbind (getf (obj_get cache (strategy_name (strategy params)))) (\<lambda>address.
     Inr (st\<lparr>strategyAddresses := cache,
       strategyAddressPerAsset := obj_set (strategyAddressPerAsset st) symb address,
       RSTokenType :=
         (if RSTokenImpl params = ''RSToken'' then obj_set (RSTokenType st) symb ''generic''
          else if RSTokenImpl params = ''DelegationAwareRSToken''
          then obj_set (RSTokenType st) symb ''delegation aware''
          else RSTokenType st),
       reserveInitDecimals := reserveInitDecimals st @ [reserveDecimals params],
       reserveTokens := reserveTokens st @ [asset],
       reserveSymbols := reserveSymbols st @ [symb]\<rparr>)))"

definition collectReserve ::
    "'w deploy_api \<Rightarrow> 'w \<Rightarrow> string \<Rightarrow> string obj \<Rightarrow> string obj \<Rightarrow> init_state \<Rightarrow>
      string \<times> reserve_params \<Rightarrow> init_state result" where
  "collectReserve api w pool deployments tokenAddresses st reserve =
     (case reserve of (symb, params) \<Rightarrow>
      case obj_get tokenAddresses symb of
        None \<Rightarrow> Inr st
      | Some asset \<Rightarrow>
          if asset = [] then Inr st
          else rbind (reserveRSTokenAddress api pool asset w) (\<lambda>token.
            if token \<noteq> ZERO_ADDRESS then Inr st else pushReserve deployments symb asset params st))"

text \<open>The implementations and the addresses every input carries.\<close>

record init_common =
  RSTokenImplementationAddress :: string
  delegationAwareRSTokenImplementationAddress :: string
  stableDebtTokenImplementationAddress :: string
  variableDebtTokenImplementationAddress :: string
  treasuryAddress :: string
  incentivesController :: string

text \<open>The second loop; the stable debt symbol has the dollar sign that the template literal has.\<close>

definition initInput ::
    "init_common \<Rightarrow> string option \<Rightarrow> string option \<Rightarrow> string \<Rightarrow> string \<Rightarrow> int \<Rightarrow> init_input" where
  "initInput c tokenType strategyAddress symb asset decimals = \<lparr>
     ii_RSTokenImpl = (if tokenType = Some ''generic'' then RSTokenImplementationAddress c
       else delegationAwareRSTokenImplementationAddress c),
     ii_stableDebtTokenImpl = stableDebtTokenImplementationAddress c,
     ii_variableDebtTokenImpl = variableDebtTokenImplementationAddress c,
     ii_underlyingAssetDecimals = decimals,
     ii_interestRateStrategyAddress = strategyAddress,
     ii_underlyingAsset = asset,
     ii_treasury = treasuryAddress c,
     ii_incentivesController = incentivesController c,
     ii_underlyingAssetName = symb,
     ii_RSTokenName = ''RASA '' @ symb,
     ii_RSTokenSymbol = ''RS'' @ symb,
     ii_variableDebtTokenName = ''RASA Variable Debt '' @ symb,
     ii_variableDebtTokenSymbol = ''variableDebt'' @ symb,
     ii_stableDebtTokenName = ''RASA Stable Debt '' @ symb,
     ii_stableDebtTokenSymbol = ''stableDebt$'' @ symb,
     ii_params = ''0x10''\<rparr>"

definition initInputParams :: "init_common \<Rightarrow> init_state \<Rightarrow> init_input list" where
  "initInputParams c st =
     map (\<lambda>i. let symb = reserveSymbols st ! i in
         initInput c (obj_get (RSTokenType st) symb) (obj_get (strategyAddressPerAsset st) symb) symb
           (reserveTokens st ! i) (reserveInitDecimals st ! i))
       [0..<length (reserveSymbols st)]"

text \<open>
  The plan reads only; the last component of the result is the configurator. The market of the
  environment decides which pool implementation must be deployed.
\<close>

definition initPlan ::
    "'w deploy_api \<Rightarrow> market_env \<Rightarrow> (string \<Rightarrow> 'a pool_configuration_scheme result) \<Rightarrow> string obj \<Rightarrow>
      reserve_params obj \<Rightarrow> string obj \<Rightarrow> string \<Rightarrow> string \<Rightarrow> 'w \<Rightarrow> (init_input list \<times> string) result" where
  "initPlan api env loadConfig deployments reservesParams tokenAddresses treasury incentives w =
     (let get = deployments_get deployments; market = MARKET_NAME env in
      rbind (loadConfig market) (\<lambda>poolConfig.
      rbind (get (POOL_ADDRESSES_PROVIDER_ID market)) (\<lambda>provider.
      rbind (get (if isL2PoolSupported env poolConfig then L2_POOL_IMPL_ID else POOL_IMPL_ID)) (\<lambda>_.
      rbind (getPool api provider w) (\<lambda>pool.
      rbind (get (STABLE_DEBT_TOKEN_IMPL_ID market)) (\<lambda>stableImpl.
      rbind (get (VARIABLE_DEBT_TOKEN_IMPL_ID market)) (\<lambda>variableImpl.
      rbind (get (RSTOKEN_IMPL_ID market)) (\<lambda>rsImpl.
      rbind (if delegatedAwareReserves reservesParams \<noteq> [] then get (DELEGATION_AWARE_RSTOKEN_IMPL_ID market)
             else Inr []) (\<lambda>delegationImpl.
      rbind (foldM (collectReserve api w pool deployments tokenAddresses) init_start
               (reservesToInit reservesParams)) (\<lambda>st.
      rbind (get (POOL_CONFIGURATOR_PROXY_ID market)) (\<lambda>configurator.
      rbind (get POOL_CONFIGURATOR_IMPL_ID) (\<lambda>_.
      Inr (initInputParams \<lparr>RSTokenImplementationAddress = rsImpl,
             delegationAwareRSTokenImplementationAddress = delegationImpl,
             stableDebtTokenImplementationAddress = stableImpl,
             variableDebtTokenImplementationAddress = variableImpl,
             treasuryAddress = treasury, incentivesController = incentives\<rparr> st,
           configurator)))))))))))))"

definition initReservesByHelper ::
    "'w deploy_api \<Rightarrow> market_env \<Rightarrow> (string \<Rightarrow> 'a pool_configuration_scheme result) \<Rightarrow> string obj \<Rightarrow>
      reserve_params obj \<Rightarrow> string obj \<Rightarrow> string \<Rightarrow> string \<Rightarrow> string \<Rightarrow> ('w, unit) act" where
  "initReservesByHelper api env loadConfig deployments reservesParams tokenAddresses admin treasury incentives =
     abind (ask (initPlan api env loadConfig deployments reservesParams tokenAddresses treasury incentives))
       (\<lambda>(inputs, configurator). sendEach (initReserves api configurator admin) (chunk inputs 3))"

section \<open>Oracles of the assets\<close>

definition getPairsTokenAggregator :: "string obj \<Rightarrow> string obj \<Rightarrow> (string list \<times> string list) result" where
  "getPairsTokenAggregator allAssetsAddresses aggregatorsAddresses =
     rbind (mapM (\<lambda>(tokenSymbol, tokenAddress).
         rbind (entry_of aggregatorsAddresses tokenSymbol) (\<lambda>aggregatorAddress.
         if aggregatorAddress = [] then Inl (Thrown (''Missing aggregator for '' @ tokenSymbol))
         else if tokenAddress = [] then Inl (Thrown (''Missing token address for '' @ tokenSymbol))
         else Inr (tokenAddress, aggregatorAddress)))
       (filter (\<lambda>(tokenSymbol, _). tokenSymbol \<noteq> ''ETH'' \<and> tokenSymbol \<noteq> ''USD'') allAssetsAddresses))
     (\<lambda>pairs. Inr (map fst pairs, map snd pairs))"

section \<open>Configuring reserves\<close>

text \<open>One round of the loop: nothing for a reserve that is skipped.\<close>

definition configureInput ::
    "'w deploy_api \<Rightarrow> 'w \<Rightarrow> string \<Rightarrow> string obj \<Rightarrow> string \<times> reserve_params \<Rightarrow> configure_input list result" where
  "configureInput api w dataProvider tokenAddresses reserve =
     (case reserve of (assetSymbol, p) \<Rightarrow>
      if \<not> truthy (obj_get tokenAddresses assetSymbol) then Inr []
      else if baseLTVAsCollateral p = -1 then Inr []
      else rbind (entry_of tokenAddresses assetSymbol) (\<lambda>tokenAddress.
        rbind (usageAsCollateralEnabled api dataProvider tokenAddress w) (\<lambda>alreadyEnabled.
        if alreadyEnabled then Inr []
        else Inr [\<lparr>ci_asset = tokenAddress, ci_baseLTV = baseLTVAsCollateral p,
          ci_liquidationThreshold = liquidationThreshold p, ci_liquidationBonus = liquidationBonus p,
          ci_reserveFactor = reserveFactor p, ci_borrowCap = borrowCap p, ci_supplyCap = supplyCap p,
          ci_stableBorrowingEnabled = stableBorrowRateEnabled p,
          ci_borrowingEnabled = borrowingEnabled p, ci_flashLoanEnabled = flashLoanEnabled p\<rparr>])))"

definition configureInputs ::
    "'w deploy_api \<Rightarrow> string \<Rightarrow> reserve_params obj \<Rightarrow> string obj \<Rightarrow> 'w \<Rightarrow> configure_input list result" where
  "configureInputs api dataProvider reservesParams tokenAddresses w =
     foldM (\<lambda>inputs reserve. rbind (configureInput api w dataProvider tokenAddresses reserve) (\<lambda>new.
       Inr (inputs @ new))) [] reservesParams"

text \<open>The helper contract is a risk admin only while the reserves are configured.\<close>

definition configureAsAdmin ::
    "'w deploy_api \<Rightarrow> string \<Rightarrow> string \<Rightarrow> string \<Rightarrow> string \<Rightarrow> configure_input list \<Rightarrow> ('w, unit) act" where
  "configureAsAdmin api provider aclManager setupHelper deployer inputs =
     abind (ask (getACLAdmin api provider)) (\<lambda>aclAdmin.
     abind (transact (addRiskAdmin api aclManager aclAdmin setupHelper)) (\<lambda>_.
     abind (ask (getPoolConfigurator api provider)) (\<lambda>poolConfigurator.
     abind (sendEach (configureReserves api setupHelper deployer poolConfigurator) (chunk inputs 20)) (\<lambda>_.
     transact (removeRiskAdmin api aclManager aclAdmin setupHelper)))))"

definition configureReservesByHelper ::
    "'w deploy_api \<Rightarrow> string \<Rightarrow> string \<Rightarrow> string obj \<Rightarrow> reserve_params obj \<Rightarrow> string obj \<Rightarrow> ('w, unit) act" where
  "configureReservesByHelper api market deployer deployments reservesParams tokenAddresses =
     (let get = (\<lambda>nam. areturn (deployments_get deployments nam)) in
      abind (get (POOL_ADDRESSES_PROVIDER_ID market)) (\<lambda>provider.
      abind (get (ACL_MANAGER_ID market)) (\<lambda>_.
      abind (ask (getACLManager api provider)) (\<lambda>aclManager.
      abind (get RESERVES_SETUP_HELPER_ID) (\<lambda>setupHelper.
      abind (get (POOL_DATA_PROVIDER market)) (\<lambda>dataProvider.
      abind (ask (configureInputs api dataProvider reservesParams tokenAddresses)) (\<lambda>inputs.
      if inputs = [] then areturn (Inr ())
      else configureAsAdmin api provider aclManager setupHelper deployer inputs)))))))"

section \<open>The registry\<close>

definition addMarketToRegistry ::
    "'w deploy_api \<Rightarrow> address_lib \<Rightarrow> string obj \<Rightarrow> int \<Rightarrow> string option \<Rightarrow> ('w, unit) act" where
  "addMarketToRegistry api lib deployments providerId addressesProvider =
     abind (areturn (deployments_get deployments ''PoolAddressesProviderRegistry'')) (\<lambda>registry.
     abind (ask (registryOwner api registry)) (\<lambda>owner.
     abind (areturn (isValidAddress lib addressesProvider)) (\<lambda>valid.
     if \<not> valid then areturn (Inl (Thrown (''[add-market-to-registry] Input parameter '' @ [CHR 0x22] @
       ''addressesProvider'' @ [CHR 0x22] @ '' is missing or is not an address.'')))
     else abind (areturn (getf addressesProvider)) (\<lambda>provider.
       transact (registerAddressesProvider api registry owner provider providerId)))))"

end
