(* ===== verification/EthereumMarket.thy ===== *)
theory EthereumMarket
  imports MarketConfig Rates
begin

text \<open>
  The Ethereum market, \<open>markets/eth\<close>: its rate strategies, the parameters of its reserves and the
  configuration object. Decimal strings are the integers they denote and \<open>parseUnits(x, 27)\<close> is
  \<open>x * 10^27\<close>. The market configuration extends the record the configuration helpers read; its
  \<open>incentivesInput\<close>, an empty object nothing here reads, is left out.
\<close>

section \<open>Rate strategies\<close>

definition rateStrategyVolatileOne :: interest_rate_strategy_params where
  "rateStrategyVolatileOne = \<lparr>
     strategy_name = ''rateStrategyVolatileOne'',
     optimalUsageRatio = 45 * 10 ^ 25,
     baseVariableBorrowRate = 0,
     variableRateSlope1 = 7 * 10 ^ 25,
     variableRateSlope2 = 3 * 10 ^ 27,
     stableRateSlope1 = 7 * 10 ^ 25,
     stableRateSlope2 = 3 * 10 ^ 27,
     baseStableRateOffset = 2 * 10 ^ 25,
     stableRateExcessOffset = 5 * 10 ^ 25,
     optimalStableToTotalDebtRatio = 2 * 10 ^ 26\<rparr>"

definition rateStrategyStableOne :: interest_rate_strategy_params where
  "rateStrategyStableOne = \<lparr>
     strategy_name = ''rateStrategyStableOne'',
     optimalUsageRatio = 9 * 10 ^ 26,
     baseVariableBorrowRate = 0,
     variableRateSlope1 = 4 * 10 ^ 25,
     variableRateSlope2 = 6 * 10 ^ 26,
     stableRateSlope1 = 5 * 10 ^ 24,
     stableRateSlope2 = 6 * 10 ^ 26,
     baseStableRateOffset = 10 ^ 25,
     stableRateExcessOffset = 8 * 10 ^ 25,
     optimalStableToTotalDebtRatio = 2 * 10 ^ 26\<rparr>"

definition rateStrategyStableTwo :: interest_rate_strategy_params where
  "rateStrategyStableTwo = \<lparr>
     strategy_name = ''rateStrategyStableTwo'',
     optimalUsageRatio = 8 * 10 ^ 26,
     baseVariableBorrowRate = 0,
     variableRateSlope1 = 4 * 10 ^ 25,
     variableRateSlope2 = 75 * 10 ^ 25,
     stableRateSlope1 = 5 * 10 ^ 24,
     stableRateSlope2 = 75 * 10 ^ 25,
     baseStableRateOffset = 10 ^ 25,
     stableRateExcessOffset = 8 * 10 ^ 25,
     optimalStableToTotalDebtRatio = 2 * 10 ^ 26\<rparr>"

section \<open>Reserves\<close>

definition strategyWETH :: reserve_params where
  "strategyWETH = \<lparr>
     borrowingEnabled = True, stableBorrowRateEnabled = False, reserveDecimals = 18, borrowCap = 0,
     debtCeiling = 0, borrowableIsolation = False, flashLoanEnabled = False,
     baseLTVAsCollateral = 8000, liquidationThreshold = 8250, liquidationBonus = 10500,
     liquidationProtocolFee = Some 1000, RSTokenImpl = ''RSToken'', reserveFactor = 1000,
     supplyCap = 0, strategy = rateStrategyVolatileOne\<rparr>"

definition strategyUSDT :: reserve_params where
  "strategyUSDT = \<lparr>
     borrowingEnabled = True, stableBorrowRateEnabled = False, reserveDecimals = 6, borrowCap = 0,
     debtCeiling = 0, borrowableIsolation = False, flashLoanEnabled = False,
     baseLTVAsCollateral = 8000, liquidationThreshold = 8250, liquidationBonus = 10500,
     liquidationProtocolFee = Some 1000, RSTokenImpl = ''RSToken'', reserveFactor = 1000,
     supplyCap = 0, strategy = rateStrategyStableOne\<rparr>"

definition strategyLSK :: reserve_params where
  "strategyLSK = \<lparr>
     borrowingEnabled = True, stableBorrowRateEnabled = False, reserveDecimals = 18, borrowCap = 0,
     debtCeiling = 500000, borrowableIsolation = False, flashLoanEnabled = False,
     baseLTVAsCollateral = 2000, liquidationThreshold = 3500, liquidationBonus = 11000,
     liquidationProtocolFee = Some 1000, RSTokenImpl = ''RSToken'', reserveFactor = 1000,
     supplyCap = 0, strategy = rateStrategyVolatileOne\<rparr>"

section \<open>The market\<close>

record EMode =
  em_id :: int
  em_ltv :: int
  em_liquidationThreshold :: int
  em_liquidationBonus :: int
  em_label :: string
  em_oracleId :: "string option"
  em_assets :: "string list"

text \<open>The properties of \<open>IRASAConfiguration\<close> beside the ones the helpers read.\<close>

record market_configuration = pool_configuration +
  MarketId :: string
  ProviderId :: int
  OracleQuoteCurrency :: string
  OracleQuoteUnit :: string
  WrappedNativeTokenSymbol :: string
  OracleQuoteCurrencyAddress :: string
  StkRASAProxy :: "string obj"
  UseMockedEACAggregatorProxy :: "bool obj"
  BaseTokenPriceInUsdProxyAggregator :: "string obj"
  FallbackOracle :: "string obj"
  rewards :: "string obj obj"
  rewardsOracle :: "string obj obj"
  EModes :: "EMode obj"
  flashLoanPremium_total :: int
  flashLoanPremium_protocol :: int
  RateStrategies :: "interest_rate_strategy_params obj"

definition EthereumMarket :: market_configuration where
  "EthereumMarket = \<lparr>
     TestnetMarket = False,
     ReservesConfig = [(''WETH'', strategyWETH), (''LSK'', strategyLSK), (''USDT'', strategyUSDT)],
     ReserveAssets = Some [(''lisk'',
       [(''WETH'', ''0x4200000000000000000000000000000000000006''),
        (''LSK'', ''0xac485391EB2d7D88253a7F1eF18C37f4242D1A24''),
        (''USDT'', ''0x05D032ac25d322df992303dCa074EE7392C117b9'')])],
     PriceAggregator = Some [(''lisk'',
       [(''WETH'', ''0xE4Fbc2b3fE1553FF9b8159C7522f328eCF828F32''),
        (''LSK'', ''0x7542c75242494947Db0B5ccd48051284808a01d6''),
        (''USDT'', ''0x544609AE882AEdbf65b529b18AFbf2866E4A1acF'')])],
     ReserveFactorTreasuryAddress = Some [(''lisk'', ZERO_ADDRESS)],
     L2PoolEnabled = Some [],
     IncentivesEnabled = Some [],
     MarketId = ''Ethereum Market'',
     ProviderId = 50,
     OracleQuoteCurrency = ''USD'',
     OracleQuoteUnit = ''18'',
     WrappedNativeTokenSymbol = ''WETH'',
     OracleQuoteCurrencyAddress = ZERO_ADDRESS,
     StkRASAProxy = [],
     UseMockedEACAggregatorProxy = [(''lisk'', False)],
     BaseTokenPriceInUsdProxyAggregator =
       [(''lisk'', ''0xE4Fbc2b3fE1553FF9b8159C7522f328eCF828F32'')],
     FallbackOracle = [(''lisk'', ZERO_ADDRESS)],
     rewards = [(''lisk'', [(''StkRASA'', ZERO_ADDRESS)])],
     rewardsOracle = [(''lisk'', [(''StkRASA'', ZERO_ADDRESS)])],
     EModes = [(''StableEMode'', \<lparr>em_id = 1, em_ltv = 9700, em_liquidationThreshold = 9750,
       em_liquidationBonus = 10100, em_label = ''Stablecoins'', em_oracleId = None,
       em_assets = [''USDT'']\<rparr>)],
     flashLoanPremium_total = 5,
     flashLoanPremium_protocol = 4,
     RateStrategies =
       [(''rateStrategyVolatileOne'', rateStrategyVolatileOne),
        (''rateStrategyStableOne'', rateStrategyStableOne),
        (''rateStrategyStableTwo'', rateStrategyStableTwo)]\<rparr>"

section \<open>What the pool configurator accepts\<close>

text \<open>
  The requirements of \<open>configureReserveAsCollateral\<close> (with a threshold that is not zero, which needs no
  suppliers check) and of \<open>setEModeCategory\<close> in \<open>contracts/protocol/pool/PoolConfigurator.sol\<close>. The
  \<open>percentMul\<close> of the contract rounds as the one of the TypeScript does.
\<close>

definition configureReserveAsCollateral_requires :: "int \<Rightarrow> int \<Rightarrow> int \<Rightarrow> bool" where
  "configureReserveAsCollateral_requires ltv lt bonus \<longleftrightarrow>
     ltv \<le> lt \<and>
     (if lt \<noteq> 0 then PERCENTAGE_FACTOR < bonus \<and> percentMul lt bonus \<le> PERCENTAGE_FACTOR
      else bonus = 0)"

definition setEModeCategory_requires :: "int \<Rightarrow> int \<Rightarrow> int \<Rightarrow> (int \<times> int) list \<Rightarrow> bool" where
  "setEModeCategory_requires ltv lt bonus members \<longleftrightarrow>
     ltv \<noteq> 0 \<and> lt \<noteq> 0 \<and> ltv \<le> lt \<and> PERCENTAGE_FACTOR < bonus \<and>
     percentMul lt bonus \<le> PERCENTAGE_FACTOR \<and>
     list_all (\<lambda>(l, t). l < ltv \<and> t < lt) members"

text \<open>The market's own data, unfolded where a proof inspects each reserve.\<close>

lemmas market_simps = EthereumMarket_def strategyWETH_def strategyLSK_def strategyUSDT_def
  rateStrategyVolatileOne_def rateStrategyStableOne_def rateStrategyStableTwo_def

lemma ethereum_reserves:
  "(symb, p) \<in> set (ReservesConfig EthereumMarket) \<longleftrightarrow>
     symb = ''WETH'' \<and> p = strategyWETH \<or> symb = ''LSK'' \<and> p = strategyLSK \<or>
     symb = ''USDT'' \<and> p = strategyUSDT"
  by (auto simp: EthereumMarket_def)

lemma ethereum_wf:
  assumes "(symb, p) \<in> set (ReservesConfig EthereumMarket)"
  shows "wf_params p" "obj_get (ReservesConfig EthereumMarket) symb = Some p"
    "45 * 10 ^ 25 \<le> optimalUsageRatio (strategy p)"
    "variableRateSlope1 (strategy p) + variableRateSlope2 (strategy p) \<le> 307 * 10 ^ 25"
    "baseVariableBorrowRate (strategy p) = 0"
  using assms unfolding ethereum_reserves
  by (auto simp: wf_params_def wf_strategy_def market_simps const_simps)

section \<open>The market is accepted\<close>

text \<open>
  On lisk every reserve of the Ethereum market can be deployed: its asset address and its oracle
  are found by the configuration helpers, its rate strategy is well formed and listed under its own
  name, the pool configurator accepts its collateral parameters, and accepts every efficiency mode
  together with the parameters of the reserves in it.
\<close>

theorem ethereum_market_accepted:
  assumes "networkName env = ''lisk''" "(symb, p) \<in> set (ReservesConfig EthereumMarket)"
  shows "(\<exists>a. getReserveAddress env EthereumMarket symb = Inr a \<and> length a = 42) \<and>
    (\<exists>a. getOracleByAsset env EthereumMarket symb = Inr a \<and> length a = 42) \<and>
    wf_params p \<and>
    obj_get (RateStrategies EthereumMarket) (strategy_name (strategy p)) = Some (strategy p) \<and>
    configureReserveAsCollateral_requires (baseLTVAsCollateral p) (liquidationThreshold p) (liquidationBonus p) \<and>
    list_all (\<lambda>(_, em). setEModeCategory_requires (em_ltv em) (em_liquidationThreshold em)
        (em_liquidationBonus em)
        (map (\<lambda>(_, r). (baseLTVAsCollateral r, liquidationThreshold r))
          (filter (\<lambda>(s, _). s \<in> set (em_assets em)) (ReservesConfig EthereumMarket))))
      (EModes EthereumMarket)"
proof -
  have "(\<exists>a. getReserveAddress env EthereumMarket symb = Inr a \<and> length a = 42) \<and>
      (\<exists>a. getOracleByAsset env EthereumMarket symb = Inr a \<and> length a = 42)"
    using assms unfolding ethereum_reserves
    by (auto simp: getReserveAddress_def getOracleByAsset_def getParamPerNetwork_def
        EthereumMarket_def Let_def ZERO_ADDRESS_def)
  moreover have "wf_params p" using ethereum_wf(1)[OF assms(2)] .
  moreover have "obj_get (RateStrategies EthereumMarket) (strategy_name (strategy p)) = Some (strategy p)"
    using assms(2) unfolding ethereum_reserves by (auto simp: market_simps)
  moreover have "configureReserveAsCollateral_requires (baseLTVAsCollateral p) (liquidationThreshold p)
      (liquidationBonus p)"
    using assms(2) unfolding ethereum_reserves
    by (auto simp: configureReserveAsCollateral_requires_def percentMul_def market_simps const_simps
        signed_divide_int_def)
  moreover have "list_all (\<lambda>(_, em). setEModeCategory_requires (em_ltv em) (em_liquidationThreshold em)
        (em_liquidationBonus em)
        (map (\<lambda>(_, r). (baseLTVAsCollateral r, liquidationThreshold r))
          (filter (\<lambda>(s, _). s \<in> set (em_assets em)) (ReservesConfig EthereumMarket))))
      (EModes EthereumMarket)"
    by (simp add: setEModeCategory_requires_def percentMul_def market_simps const_simps
        signed_divide_int_def)
  ultimately show ?thesis by blast
qed

definition lisk_env :: market_env where
  "lisk_env = \<lparr>networkName = ''lisk'', networks = [(''lisk'', True)], ENABLE_REWARDS = None,
     MARKET_NAME = ''Ethereum'',
     addresses = \<lparr>isAddress = (\<lambda>a. length a = 42), getAddress = (\<lambda>a. Inr a)\<rparr>\<rparr>"

theorem ethereum_market_accepted_witness:
  "(\<exists>a. getReserveAddress lisk_env EthereumMarket ''USDT'' = Inr a \<and> length a = 42) \<and>
   configureReserveAsCollateral_requires 8000 8250 10500"
proof -
  have n: "networkName lisk_env = ''lisk''" by (simp add: lisk_env_def)
  have m: "(''USDT'', strategyUSDT) \<in> set (ReservesConfig EthereumMarket)"
    by (simp add: ethereum_reserves)
  have v: "baseLTVAsCollateral strategyUSDT = 8000" "liquidationThreshold strategyUSDT = 8250"
      "liquidationBonus strategyUSDT = 10500"
    by (simp_all add: strategyUSDT_def)
  show ?thesis using ethereum_market_accepted[OF n m] unfolding v by blast
qed

text \<open>
  For every reserve of the Ethereum market and any amounts the expected rates exist: the liquidity
  rate is not negative, the stable rate is at least the market rate, and the variable rate lies
  between zero and 307 percent, one ray unit of rounding included.
\<close>

theorem ethereum_rates_bounded:
  assumes "(symb, p) \<in> set (ReservesConfig EthereumMarket)" "0 \<le> msr" "0 \<le> ts" "0 \<le> tv" "0 \<le> asr"
    "0 \<le> av" "av \<le> tq"
  shows "\<exists>lr sr vr. calcExpectedInterestRates (ReservesConfig EthereumMarket) symb msr ts tv asr av tq =
      Inr (lr, sr, vr) \<and> 0 \<le> lr \<and> msr \<le> sr \<and> 0 \<le> vr \<and> vr \<le> 307 * 10 ^ 25 + 1"
proof -
  note wf = ethereum_wf[OF assms(1)]
  let ?o = "optimalUsageRatio (strategy p)"
  let ?s = "variableRateSlope1 (strategy p) + variableRateSlope2 (strategy p)"
  obtain lr sr vr where r: "interestRatesFor p msr ts tv asr av tq = Inr (lr, sr, vr)"
      "0 \<le> lr" "msr \<le> sr" "baseVariableBorrowRate (strategy p) \<le> vr"
      "2 * ?o * (vr - (baseVariableBorrowRate (strategy p) + variableRateSlope1 (strategy p) +
       variableRateSlope2 (strategy p))) \<le> RAY + ?o"
    by (rule interestRatesFor_ok[OF wf(1) assms(2-7)])
  have "vr - ?s \<le> 1"
  proof (rule ccontr)
    assume "\<not> vr - ?s \<le> 1"
    then have "2 * ?o * 2 \<le> 2 * ?o * (vr - ?s)" using wf(3) by (intro mult_left_mono) simp_all
    with r(5) wf(3,5) show False by (simp add: const_simps add.assoc)
  qed
  then have "vr \<le> 307 * 10 ^ 25 + 1" using wf(4) by linarith
  then show ?thesis
    using r wf(2,5) by (simp add: calcExpectedInterestRates_def entry_of_get)
qed

theorem ethereum_rates_bounded_witness:
  "\<exists>lr sr vr. calcExpectedInterestRates (ReservesConfig EthereumMarket) ''USDT'' 50 1000 3000 60 6000 8000 =
      Inr (lr, sr, vr) \<and> 0 \<le> vr \<and> vr \<le> 307 * 10 ^ 25 + 1"
proof -
  have m: "(''USDT'', strategyUSDT) \<in> set (ReservesConfig EthereumMarket)"
    by (simp add: ethereum_reserves)
  show ?thesis using ethereum_rates_bounded[OF m, of 50 1000 3000 60 6000 8000] by auto
qed

end
