(* ===== verification/DeployDemo.thy ===== *)
theory DeployDemo
  imports InitReserves EthereumMarket
begin

text \<open>
  A small chain on which the deployment scripts run: the Ethereum market with one reserve already
  initialised. The witnesses of the deployment properties are runs on it.
\<close>

section \<open>A demonstration chain\<close>

record demo_chain =
  dc_initialised :: "string list"
  dc_riskAdmins :: "string list"
  dc_registry :: "string list"

definition demo_deploy_api :: "demo_chain deploy_api" where
  "demo_deploy_api = \<lparr>
     getPool = (\<lambda>_ _. Inr ''0xpool''),
     getACLManager = (\<lambda>_ _. Inr ''0xacl''),
     getACLAdmin = (\<lambda>_ _. Inr ''0xadmin''),
     getPoolConfigurator = (\<lambda>_ _. Inr ''0xconf''),
     reserveRSTokenAddress = (\<lambda>_ asset w. Inr (if asset \<in> set (dc_initialised w) then ''r'' @ asset else ZERO_ADDRESS)),
     usageAsCollateralEnabled = (\<lambda>_ _ _. Inr False),
     registryOwner = (\<lambda>_ _. Inr ''0xowner''),
     initReserves = (\<lambda>_ _ inputs w. Inr (w\<lparr>dc_initialised := map ii_underlyingAsset inputs @ dc_initialised w\<rparr>)),
     addRiskAdmin = (\<lambda>_ _ a w. Inr (w\<lparr>dc_riskAdmins := a # dc_riskAdmins w\<rparr>)),
     removeRiskAdmin = (\<lambda>_ _ a w. Inr (w\<lparr>dc_riskAdmins := removeAll a (dc_riskAdmins w)\<rparr>)),
     configureReserves = (\<lambda>_ _ _ inputs w.
       if list_all (\<lambda>i. ci_baseLTV i \<le> ci_liquidationThreshold i) inputs then Inr w else Inl (Reverted ''20'')),
     registerAddressesProvider = (\<lambda>_ _ p _ w. Inr (w\<lparr>dc_registry := p # dc_registry w\<rparr>))\<rparr>"

definition demo_deployed :: "string obj" where
  "demo_deployed =
     [(''PoolAddressesProvider-Ethereum'', ''0xprovider''), (''Pool-Implementation'', ''0xpoolImpl''),
      (''StableDebtToken-Ethereum'', ''0xstable''), (''VariableDebtToken-Ethereum'', ''0xvariable''),
      (''RSToken-Ethereum'', ''0xrs''), (''PoolConfigurator-Proxy-Ethereum'', ''0xconf''),
      (''PoolConfigurator-Implementation'', ''0xconfImpl''), (''ACLManager-Ethereum'', ''0xacl''),
      (''ReservesSetupHelper'', ''0xhelper''), (''PoolDataProvider-Ethereum'', ''0xdata''),
      (''ReserveStrategy-rateStrategyVolatileOne'', ''0xvolatile''),
      (''ReserveStrategy-rateStrategyStableOne'', ''0xstableOne'')]"

definition demo_genesis :: demo_chain where
  "demo_genesis = \<lparr>dc_initialised = [''0xlsk''], dc_riskAdmins = [], dc_registry = []\<rparr>"

definition demo_addresses :: "string obj" where
  "demo_addresses = [(''WETH'', ''0xweth''), (''LSK'', ''0xlsk''), (''USDT'', ''0xusdt'')]"

lemma demo_reserves: "ReservesConfig EthereumMarket =
    [(''WETH'', strategyWETH), (''LSK'', strategyLSK), (''USDT'', strategyUSDT)]"
  by (simp add: EthereumMarket_def)

lemma demo_ids:
  "deployments_get demo_deployed (POOL_ADDRESSES_PROVIDER_ID ''Ethereum'') = Inr ''0xprovider''"
  "deployments_get demo_deployed POOL_IMPL_ID = Inr ''0xpoolImpl''"
  "deployments_get demo_deployed (STABLE_DEBT_TOKEN_IMPL_ID ''Ethereum'') = Inr ''0xstable''"
  "deployments_get demo_deployed (VARIABLE_DEBT_TOKEN_IMPL_ID ''Ethereum'') = Inr ''0xvariable''"
  "deployments_get demo_deployed (RSTOKEN_IMPL_ID ''Ethereum'') = Inr ''0xrs''"
  "deployments_get demo_deployed (POOL_CONFIGURATOR_PROXY_ID ''Ethereum'') = Inr ''0xconf''"
  "deployments_get demo_deployed POOL_CONFIGURATOR_IMPL_ID = Inr ''0xconfImpl''"
  "deployments_get demo_deployed (strategyId ''rateStrategyVolatileOne'') = Inr ''0xvolatile''"
  "deployments_get demo_deployed (strategyId ''rateStrategyStableOne'') = Inr ''0xstableOne''"
  by code_simp+

abbreviation demo_init :: "demo_chain \<Rightarrow> unit result \<times> demo_chain" where
  "demo_init \<equiv> initReservesByHelper demo_deploy_api lisk_env (loadPoolConfig EthereumMarket EthereumMarket)
     demo_deployed (ReservesConfig EthereumMarket) demo_addresses ''0xadmin'' ''0xtreasury'' ZERO_ADDRESS"

lemma demo_init_runs: "demo_init demo_genesis =
    (Inr (), \<lparr>dc_initialised = [''0xweth'', ''0xusdt'', ''0xlsk''], dc_riskAdmins = [], dc_registry = []\<rparr>)"
  by code_simp

end
