(* ===== verification/InitProps.thy ===== *)
theory InitProps
  imports DeployDemo
begin

text \<open>
  The scripts that initialise and configure reserves: the dictionaries of the loop against one pass
  over the reserves, the batches, what a second run does, and the temporary role of the helper.
\<close>

section \<open>One pass over the reserves\<close>

text \<open>The reference: no caches, no dictionaries, no parallel lists.\<close>

definition inputFor :: "init_common \<Rightarrow> string \<Rightarrow> string \<Rightarrow> reserve_params \<Rightarrow> string \<Rightarrow> init_input" where
  "inputFor c symb asset p strategyAddress =
     initInput c (Some (if RSTokenImpl p = ''RSToken'' then ''generic'' else ''delegation aware''))
       (Some strategyAddress) symb asset (reserveDecimals p)"

fun pendingInputs ::
    "'w deploy_api \<Rightarrow> 'w \<Rightarrow> string \<Rightarrow> string obj \<Rightarrow> string obj \<Rightarrow> init_common \<Rightarrow> reserve_params obj \<Rightarrow>
      init_input list result" where
  "pendingInputs api w pool deployments tokens c [] = Inr []"
| "pendingInputs api w pool deployments tokens c ((symb, p) # rs) =
     (let rest = pendingInputs api w pool deployments tokens c rs in
      case obj_get tokens symb of
        None \<Rightarrow> rest
      | Some asset \<Rightarrow>
          if asset = [] then rest
          else rbind (reserveRSTokenAddress api pool asset w) (\<lambda>token.
            if token \<noteq> ZERO_ADDRESS then rest
            else rbind (deployments_get deployments (strategyId (strategy_name (strategy p))))
              (\<lambda>address. rbind rest (\<lambda>xs. Inr (inputFor c symb asset p address # xs)))))"

definition init_ok :: "string obj \<Rightarrow> init_state \<Rightarrow> bool" where
  "init_ok deployments st \<longleftrightarrow>
     (\<forall>n a. obj_get (strategyAddresses st) n = Some a \<longrightarrow>
        deployments_get deployments (strategyId n) = Inr a) \<and>
     length (reserveTokens st) = length (reserveSymbols st) \<and>
     length (reserveInitDecimals st) = length (reserveSymbols st)"

lemma loadStrategy_eq:
  assumes "init_ok deployments st"
  shows "(\<exists>e. deployments_get deployments (strategyId n) = Inl e \<and>
      loadStrategy deployments n (strategyAddresses st) = Inl e) \<or>
    (\<exists>a cache. deployments_get deployments (strategyId n) = Inr a \<and>
      loadStrategy deployments n (strategyAddresses st) = Inr cache \<and> obj_get cache n = Some a \<and>
      (\<forall>m b. obj_get cache m = Some b \<longrightarrow> deployments_get deployments (strategyId m) = Inr b))"
proof (cases "truthy (obj_get (strategyAddresses st) n)")
  case True
  then obtain a where "obj_get (strategyAddresses st) n = Some a"
    by (auto simp: truthy_def split: option.splits)
  then show ?thesis using assms True by (auto simp: init_ok_def loadStrategy_def)
next
  case False
  then show ?thesis
    using assms by (cases "deployments_get deployments (strategyId n)")
      (auto simp: init_ok_def loadStrategy_def)
qed

lemma initInputParams_snoc:
  assumes "init_ok deployments st" "symb \<notin> set (reserveSymbols st)"
  shows "initInputParams c (st\<lparr>strategyAddresses := cache,
       strategyAddressPerAsset := obj_set (strategyAddressPerAsset st) symb a,
       RSTokenType := obj_set (RSTokenType st) symb t,
       reserveInitDecimals := reserveInitDecimals st @ [d],
       reserveTokens := reserveTokens st @ [asset],
       reserveSymbols := reserveSymbols st @ [symb]\<rparr>) =
     initInputParams c st @ [initInput c (Some t) (Some a) symb asset d]"
proof -
  have "reserveSymbols st ! i \<noteq> symb" if "i < length (reserveSymbols st)" for i
    using that assms(2) by auto
  then show ?thesis
    using assms(1) by (auto simp: initInputParams_def init_ok_def Let_def nth_append)
qed

lemma pushReserve_eq:
  assumes "init_ok deployments st" "symb \<notin> set (reserveSymbols st)"
    "RSTokenImpl p = ''DelegationAwareRSToken'' \<or> RSTokenImpl p = ''RSToken''"
  shows "(\<exists>e. deployments_get deployments (strategyId (strategy_name (strategy p))) = Inl e \<and>
      pushReserve deployments symb asset p st = Inl e) \<or>
    (\<exists>a st'. deployments_get deployments (strategyId (strategy_name (strategy p))) = Inr a \<and>
      pushReserve deployments symb asset p st = Inr st' \<and> init_ok deployments st' \<and>
      reserveSymbols st' = reserveSymbols st @ [symb] \<and>
      initInputParams c st' = initInputParams c st @ [inputFor c symb asset p a])"
  using loadStrategy_eq[OF assms(1), of "strategy_name (strategy p)"]
proof (elim disjE exE conjE)
  fix e
  assume "deployments_get deployments (strategyId (strategy_name (strategy p))) = Inl e"
    "loadStrategy deployments (strategy_name (strategy p)) (strategyAddresses st) = Inl e"
  then show ?thesis by (simp add: pushReserve_def)
next
  fix a cache
  let ?t = "if RSTokenImpl p = ''RSToken'' then ''generic'' else ''delegation aware''"
  let ?st' = "st\<lparr>strategyAddresses := cache,
       strategyAddressPerAsset := obj_set (strategyAddressPerAsset st) symb a,
       RSTokenType := obj_set (RSTokenType st) symb ?t,
       reserveInitDecimals := reserveInitDecimals st @ [reserveDecimals p],
       reserveTokens := reserveTokens st @ [asset],
       reserveSymbols := reserveSymbols st @ [symb]\<rparr>"
  assume d: "deployments_get deployments (strategyId (strategy_name (strategy p))) = Inr a"
    and l: "loadStrategy deployments (strategy_name (strategy p)) (strategyAddresses st) = Inr cache"
      "obj_get cache (strategy_name (strategy p)) = Some a"
    and c: "\<forall>m b. obj_get cache m = Some b \<longrightarrow> deployments_get deployments (strategyId m) = Inr b"
  have "pushReserve deployments symb asset p st = Inr ?st'"
    using l assms(3) by (auto simp: pushReserve_def)
  moreover have "init_ok deployments ?st'" using c assms(1) by (simp add: init_ok_def)
  moreover have "initInputParams c ?st' = initInputParams c st @ [inputFor c symb asset p a]"
    unfolding inputFor_def by (rule initInputParams_snoc[OF assms(1,2)])
  ultimately show ?thesis using d by auto
qed

lemma collectReserve_pair:
  "collectReserve api w pool deployments tokens st (symb, p) =
     (case obj_get tokens symb of
        None \<Rightarrow> Inr st
      | Some asset \<Rightarrow>
          if asset = [] then Inr st
          else rbind (reserveRSTokenAddress api pool asset w) (\<lambda>token.
            if token \<noteq> ZERO_ADDRESS then Inr st else pushReserve deployments symb asset p st))"
  by (simp add: collectReserve_def)

lemma collect_eq_pending:
  assumes "init_ok deployments st" "distinct (map fst rs)" "set (map fst rs) \<inter> set (reserveSymbols st) = {}"
    "\<forall>r\<in>set rs. RSTokenImpl (snd r) = ''DelegationAwareRSToken'' \<or> RSTokenImpl (snd r) = ''RSToken''"
  shows "rbind (foldM (collectReserve api w pool deployments tokens) st rs) (\<lambda>st'. Inr (initInputParams c st')) =
    rbind (pendingInputs api w pool deployments tokens c rs) (\<lambda>xs. Inr (initInputParams c st @ xs))"
  using assms
proof (induction rs arbitrary: st)
  case Nil
  then show ?case by simp
next
  case (Cons r rs)
  obtain symb p where r: "r = (symb, p)" by (cases r)
  have rest: "rbind (foldM (collectReserve api w pool deployments tokens) st rs)
      (\<lambda>st'. Inr (initInputParams c st')) =
    rbind (pendingInputs api w pool deployments tokens c rs) (\<lambda>xs. Inr (initInputParams c st @ xs))"
    using Cons by auto
  show ?case
  proof (cases "obj_get tokens symb")
    case None
    then show ?thesis using rest by (simp add: r collectReserve_pair)
  next
    case (Some asset)
    show ?thesis
    proof (cases "asset = [] \<or> reserveRSTokenAddress api pool asset w \<noteq> Inr ZERO_ADDRESS")
      case True
      then show ?thesis
        using rest by (cases "reserveRSTokenAddress api pool asset w")
          (auto simp: r collectReserve_pair Some Let_def)
    next
      case False
      have s: "symb \<notin> set (reserveSymbols st)" using Cons.prems(3) by (auto simp: r)
      have t: "RSTokenImpl p = ''DelegationAwareRSToken'' \<or> RSTokenImpl p = ''RSToken''"
        using Cons.prems(4) by (simp add: r)
      have m: "collectReserve api w pool deployments tokens st (symb, p) =
        pushReserve deployments symb asset p st"
        using False by (simp add: collectReserve_pair Some)
      show ?thesis
        using pushReserve_eq[OF Cons.prems(1) s t, of asset c]
      proof (elim disjE exE conjE)
        fix e
        assume "deployments_get deployments (strategyId (strategy_name (strategy p))) = Inl e"
          "pushReserve deployments symb asset p st = Inl e"
        then show ?thesis using False by (simp add: m r Some)
      next
        fix a st'
        assume d: "deployments_get deployments (strategyId (strategy_name (strategy p))) = Inr a"
          and p: "pushReserve deployments symb asset p st = Inr st'" "init_ok deployments st'"
            "reserveSymbols st' = reserveSymbols st @ [symb]"
            "initInputParams c st' = initInputParams c st @ [inputFor c symb asset p a]"
        have "set (map fst rs) \<inter> set (reserveSymbols st') = {}"
          using Cons.prems(2,3) by (auto simp: p(3) r)
        then have "rbind (foldM (collectReserve api w pool deployments tokens) st' rs)
            (\<lambda>st'. Inr (initInputParams c st')) =
          rbind (pendingInputs api w pool deployments tokens c rs) (\<lambda>xs. Inr (initInputParams c st' @ xs))"
          using Cons.IH[OF p(2)] Cons.prems(2,4) by simp
        then show ?thesis
          using False d by (simp add: m r Some p(1,4) Let_def rbind_assoc)
      qed
    qed
  qed
qed

section \<open>The script and its reference\<close>

definition referencePlan ::
    "'w deploy_api \<Rightarrow> market_env \<Rightarrow> (string \<Rightarrow> 'a pool_configuration_scheme result) \<Rightarrow> string obj \<Rightarrow>
      reserve_params obj \<Rightarrow> string obj \<Rightarrow> string \<Rightarrow> string \<Rightarrow> 'w \<Rightarrow> (init_input list \<times> string) result" where
  "referencePlan api env loadConfig deployments reservesParams tokens treasury incentives w =
     (let get = deployments_get deployments; market = MARKET_NAME env in
      rbind (loadConfig market) (\<lambda>poolConfig.
      rbind (get (POOL_ADDRESSES_PROVIDER_ID market)) (\<lambda>provider.
      rbind (get (if isL2PoolSupported env poolConfig then L2_POOL_IMPL_ID else POOL_IMPL_ID)) (\<lambda>_.
      rbind (getPool api provider w) (\<lambda>pool.
      rbind (get (STABLE_DEBT_TOKEN_IMPL_ID market)) (\<lambda>stableImpl.
      rbind (get (VARIABLE_DEBT_TOKEN_IMPL_ID market)) (\<lambda>variableImpl.
      rbind (get (RSTOKEN_IMPL_ID market)) (\<lambda>rsImpl.
      rbind (if delegatedAwareReserves reservesParams \<noteq> []
             then get (DELEGATION_AWARE_RSTOKEN_IMPL_ID market) else Inr []) (\<lambda>delegationImpl.
      rbind (pendingInputs api w pool deployments tokens
               \<lparr>RSTokenImplementationAddress = rsImpl,
                delegationAwareRSTokenImplementationAddress = delegationImpl,
                stableDebtTokenImplementationAddress = stableImpl,
                variableDebtTokenImplementationAddress = variableImpl,
                treasuryAddress = treasury, incentivesController = incentives\<rparr>
               (reservesToInit reservesParams)) (\<lambda>inputs.
      rbind (get (POOL_CONFIGURATOR_PROXY_ID market)) (\<lambda>configurator.
      rbind (get POOL_CONFIGURATOR_IMPL_ID) (\<lambda>_. Inr (inputs, configurator)))))))))))))"

lemma reservesToInit_distinct: "distinct (map fst ps) \<Longrightarrow> distinct (map fst (reservesToInit ps))"
  unfolding reservesToInit_def by (rule distinct_map_filter)

lemma collect_from_start:
  assumes "distinct (map fst ps)"
  shows "rbind (foldM (collectReserve api w pool deployments tokens) init_start (reservesToInit ps))
      (\<lambda>st. f (initInputParams c st)) =
    rbind (pendingInputs api w pool deployments tokens c (reservesToInit ps)) f"
proof -
  have start: "init_ok deployments init_start" "initInputParams c init_start = []"
      "reserveSymbols init_start = []"
    by (simp_all add: init_ok_def init_start_def initInputParams_def)
  have impl: "\<forall>r\<in>set (reservesToInit ps).
      RSTokenImpl (snd r) = ''DelegationAwareRSToken'' \<or> RSTokenImpl (snd r) = ''RSToken''"
    by (auto simp: reservesToInit_def)
  have "rbind (foldM (collectReserve api w pool deployments tokens) init_start (reservesToInit ps))
      (\<lambda>st. Inr (initInputParams c st)) = pendingInputs api w pool deployments tokens c (reservesToInit ps)"
    using collect_eq_pending[OF start(1) reservesToInit_distinct[OF assms] _ impl, of api w pool tokens c]
    by (simp add: start(2,3))
  from arg_cong[OF this, of "\<lambda>m. rbind m f"] show ?thesis by (simp add: rbind_assoc)
qed

lemma initPlan_eq:
  assumes "distinct (map fst ps)"
  shows "initPlan api env loadConfig deployments ps tokens treasury incentives w =
    referencePlan api env loadConfig deployments ps tokens treasury incentives w"
  unfolding initPlan_def referencePlan_def Let_def
  by (intro rbind_cong refl)
    (rule collect_from_start[OF assms, of _ _ _ _ _ "\<lambda>inputs. rbind _ (\<lambda>configurator. rbind _ (\<lambda>_. Inr (inputs, configurator)))"])

text \<open>
  With distinct symbols the initialisation script, with its strategy cache, its dictionaries and
  its parallel lists, is on every chain and in every failing case the same as one pass over the
  reserves that takes those with a token address and no token yet, cut into batches of three.
\<close>

theorem init_script_is_one_pass:
  assumes "distinct (obj_keys reservesParams)"
  shows "initReservesByHelper api env loadConfig deployments reservesParams tokens admin treasury incentives =
    abind (ask (referencePlan api env loadConfig deployments reservesParams tokens treasury incentives))
      (\<lambda>(inputs, configurator). sendEach (initReserves api configurator admin) (chunks 3 inputs))"
proof -
  have "initPlan api env loadConfig deployments reservesParams tokens treasury incentives =
      referencePlan api env loadConfig deployments reservesParams tokens treasury incentives"
    using assms by (intro ext initPlan_eq) (simp add: obj_keys_def)
  then show ?thesis
    by (simp add: initReservesByHelper_def chunk_eq_chunks)
qed

theorem init_script_is_one_pass_witness:
  "abind (ask (referencePlan demo_deploy_api lisk_env (loadPoolConfig EthereumMarket EthereumMarket)
       demo_deployed (ReservesConfig EthereumMarket) demo_addresses ''0xtreasury'' ZERO_ADDRESS))
     (\<lambda>(inputs, configurator). sendEach (initReserves demo_deploy_api configurator ''0xadmin'') (chunks 3 inputs))
     demo_genesis =
   (Inr (), \<lparr>dc_initialised = [''0xweth'', ''0xusdt'', ''0xlsk''], dc_riskAdmins = [], dc_registry = []\<rparr>)"
proof -
  have d: "distinct (obj_keys (ReservesConfig EthereumMarket))" by (simp add: demo_reserves)
  show ?thesis using demo_init_runs unfolding init_script_is_one_pass[OF d] .
qed

section \<open>Running the script twice\<close>

text \<open>
  What \<open>initReserves\<close> of the pool configurator is documented to do: every asset of the call gets a
  token, the other assets and the registered pools stay as they are.
\<close>

definition has_token :: "'w deploy_api \<Rightarrow> string \<Rightarrow> string \<Rightarrow> 'w \<Rightarrow> bool" where
  "has_token api pool asset w \<longleftrightarrow>
     (case reserveRSTokenAddress api pool asset w of Inl _ \<Rightarrow> False | Inr t \<Rightarrow> t \<noteq> ZERO_ADDRESS)"

definition init_contract :: "'w deploy_api \<Rightarrow> string \<Rightarrow> string \<Rightarrow> bool" where
  "init_contract api configurator pool \<longleftrightarrow>
     (\<forall>sender inputs w w'. initReserves api configurator sender inputs w = Inr w' \<longrightarrow>
        (\<forall>provider. getPool api provider w' = getPool api provider w) \<and>
        (\<forall>asset. if asset \<in> ii_underlyingAsset ` set inputs then has_token api pool asset w'
           else reserveRSTokenAddress api pool asset w' = reserveRSTokenAddress api pool asset w))"

lemma init_contractD:
  assumes "init_contract api configurator pool" "initReserves api configurator sender inputs w = Inr w'"
  shows "getPool api provider w' = getPool api provider w"
    "asset \<in> ii_underlyingAsset ` set inputs \<Longrightarrow> has_token api pool asset w'"
    "has_token api pool asset w \<Longrightarrow> has_token api pool asset w'"
  using assms unfolding init_contract_def
  by (blast, metis, metis has_token_def)

lemma send_inits:
  assumes "init_contract api configurator pool"
    and sent: "sendEach (initReserves api configurator sender) batches w = (Inr u, w')"
  shows "getPool api provider w' = getPool api provider w"
    "has_token api pool asset w \<or> (\<exists>b\<in>set batches. asset \<in> ii_underlyingAsset ` set b) \<Longrightarrow>
      has_token api pool asset w'"
proof -
  note c = init_contractD[OF assms(1)]
  show "getPool api provider w' = getPool api provider w"
    using sendEach_keeps[where P = "\<lambda>v. getPool api provider v = getPool api provider w", OF _ _ sent]
      c(1) by metis
  assume "has_token api pool asset w \<or> (\<exists>b\<in>set batches. asset \<in> ii_underlyingAsset ` set b)"
  then show "has_token api pool asset w'"
    using sendEach_keeps[OF _ _ sent, of "has_token api pool asset"]
      sendEach_all[OF sent, of _ "has_token api pool asset"] c(2,3) by metis
qed

lemma pending_covers:
  assumes "pendingInputs api w pool deployments tokens c rs = Inr xs" "symb \<in> fst ` set rs"
    "obj_get tokens symb = Some asset" "asset \<noteq> []"
  shows "has_token api pool asset w \<or> asset \<in> ii_underlyingAsset ` set xs"
  using assms
proof (induction rs arbitrary: xs)
  case (Cons r rs)
  obtain s p where r: "r = (s, p)" by (cases r)
  have "\<exists>ys. pendingInputs api w pool deployments tokens c rs = Inr ys \<and> set ys \<subseteq> set xs"
    using Cons.prems(1) by (auto simp: r Let_def rbind_eq_Inr split: option.splits if_splits)
  then obtain ys where ys: "pendingInputs api w pool deployments tokens c rs = Inr ys" "set ys \<subseteq> set xs"
    by blast
  show ?case
  proof (cases "s = symb")
    case True
    then show ?thesis
      using Cons.prems(1,3,4)
      by (auto simp: r Let_def rbind_eq_Inr has_token_def inputFor_def initInput_def split: if_splits)
  next
    case False
    then show ?thesis using Cons.IH[OF ys(1)] Cons.prems(2-4) ys(2) by (auto simp: r)
  qed
qed simp

lemma has_token_read:
  "has_token api pool asset w \<Longrightarrow> \<exists>t. reserveRSTokenAddress api pool asset w = Inr t \<and> t \<noteq> ZERO_ADDRESS"
  by (auto simp: has_token_def split: sum.splits)

lemma pending_none:
  assumes "\<And>symb asset. symb \<in> fst ` set rs \<Longrightarrow> obj_get tokens symb = Some asset \<Longrightarrow> asset \<noteq> [] \<Longrightarrow>
    has_token api pool asset w"
  shows "pendingInputs api w pool deployments tokens c rs = Inr []"
  using assms
proof (induction rs)
  case (Cons r rs)
  obtain symb p where r: "r = (symb, p)" by (cases r)
  have "pendingInputs api w pool deployments tokens c rs = Inr []" using Cons by auto
  moreover have "\<exists>t. reserveRSTokenAddress api pool asset w = Inr t \<and> t \<noteq> ZERO_ADDRESS"
    if "obj_get tokens symb = Some asset" "asset \<noteq> []" for asset
    using Cons.prems[of symb asset] that by (intro has_token_read) (simp add: r)
  ultimately show ?case by (fastforce simp: r Let_def split: option.split)
qed simp

lemma referencePlan_inv:
  assumes "referencePlan api env loadConfig deployments ps tokens treasury incentives w = Inr (inputs, configurator)"
  obtains provider pool where "deployments_get deployments (POOL_ADDRESSES_PROVIDER_ID (MARKET_NAME env)) = Inr provider"
    "getPool api provider w = Inr pool"
    "deployments_get deployments (POOL_CONFIGURATOR_PROXY_ID (MARKET_NAME env)) = Inr configurator"
    "\<exists>c. pendingInputs api w pool deployments tokens c (reservesToInit ps) = Inr inputs"
    "\<And>w'. getPool api provider w' = Inr pool \<Longrightarrow>
       \<forall>c. pendingInputs api w' pool deployments tokens c (reservesToInit ps) = Inr [] \<Longrightarrow>
       referencePlan api env loadConfig deployments ps tokens treasury incentives w' = Inr ([], configurator)"
  using assms by (auto simp: referencePlan_def Let_def rbind_eq_Inr)

text \<open>
  C14: When the initialisation script succeeds, every reserve that is to be initialised and has a
  token address has its token, and a second run of the script sends no transaction and changes
  nothing, given that the configurator gives a token to each asset of a call and leaves the others.
\<close>

theorem init_script_is_idempotent:
  assumes "distinct (obj_keys reservesParams)"
    "deployments_get deployments (POOL_ADDRESSES_PROVIDER_ID (MARKET_NAME env)) = Inr provider"
    "getPool api provider w = Inr pool"
    "deployments_get deployments (POOL_CONFIGURATOR_PROXY_ID (MARKET_NAME env)) = Inr configurator"
    "init_contract api configurator pool"
    "initReservesByHelper api env loadConfig deployments reservesParams tokens admin treasury incentives w =
       (Inr (), w')"
  shows "(\<forall>(symb, p)\<in>set (reservesToInit reservesParams). \<forall>asset. obj_get tokens symb = Some asset \<and>
       asset \<noteq> [] \<longrightarrow> has_token api pool asset w') \<and>
    initReservesByHelper api env loadConfig deployments reservesParams tokens admin treasury incentives w' =
       (Inr (), w')"
proof -
  let ?ref = "referencePlan api env loadConfig deployments reservesParams tokens treasury incentives"
  have d: "distinct (map fst reservesParams)" using assms(1) by (simp add: obj_keys_def)
  note script = initReservesByHelper_def initPlan_eq[OF d]
  obtain inputs conf where plan: "?ref w = Inr (inputs, conf)"
      and sent0: "sendEach (initReserves api conf admin) (chunk inputs 3) w = (Inr (), w')"
    using assms(6) by (auto simp: script split: sum.splits)
  obtain prov pl where r: "deployments_get deployments (POOL_ADDRESSES_PROVIDER_ID (MARKET_NAME env)) = Inr prov"
      "getPool api prov w = Inr pl"
      "deployments_get deployments (POOL_CONFIGURATOR_PROXY_ID (MARKET_NAME env)) = Inr conf"
      and pend: "\<exists>c. pendingInputs api w pl deployments tokens c (reservesToInit reservesParams) = Inr inputs"
      and again: "\<And>w'. getPool api prov w' = Inr pl \<Longrightarrow>
         \<forall>c. pendingInputs api w' pl deployments tokens c (reservesToInit reservesParams) = Inr [] \<Longrightarrow>
         ?ref w' = Inr ([], conf)"
    using referencePlan_inv[OF plan] by metis
  have eqs: "prov = provider" "pl = pool" "conf = configurator" using r assms(2-4) by auto
  have sent: "sendEach (initReserves api configurator admin) (chunks 3 inputs) w = (Inr (), w')"
    using sent0 by (simp add: eqs chunk_eq_chunks)
  have all: "set inputs = (\<Union>b\<in>set (chunks 3 inputs). set b)"
    using chunks_concat[of 3 inputs] by (metis set_concat zero_less_numeral)
  have tok: "has_token api pool asset w'"
    if "symb \<in> fst ` set (reservesToInit reservesParams)" "obj_get tokens symb = Some asset" "asset \<noteq> []"
    for symb asset
  proof -
    obtain c where "pendingInputs api w pool deployments tokens c (reservesToInit reservesParams) = Inr inputs"
      using pend eqs by blast
    from pending_covers[OF this that] have
      "has_token api pool asset w \<or> (\<exists>b\<in>set (chunks 3 inputs). asset \<in> ii_underlyingAsset ` set b)"
      using all by blast
    then show ?thesis by (rule send_inits(2)[OF assms(5) sent])
  qed
  have "getPool api provider w' = Inr pool"
    using send_inits(1)[OF assms(5) sent] assms(3) by simp
  then have "?ref w' = Inr ([], configurator)"
    using again[of w'] pending_none[of "reservesToInit reservesParams" tokens api pool w', OF tok]
    by (simp add: eqs)
  then have "initReservesByHelper api env loadConfig deployments reservesParams tokens admin treasury
      incentives w' = (Inr (), w')"
    by (simp add: script chunk_def areturn_def)
  then show ?thesis using tok by fastforce
qed

lemma demo_init_contract: "init_contract demo_deploy_api ''0xconf'' ''0xpool''"
  by (auto simp: init_contract_def has_token_def demo_deploy_api_def ZERO_ADDRESS_def)

theorem init_script_is_idempotent_witness:
  "\<exists>w'. demo_init demo_genesis = (Inr (), w') \<and> has_token demo_deploy_api ''0xpool'' ''0xusdt'' w' \<and>
     demo_init w' = (Inr (), w')"
proof -
  have d: "distinct (obj_keys (ReservesConfig EthereumMarket))" by (simp add: demo_reserves)
  have n: "MARKET_NAME lisk_env = ''Ethereum''" by (simp add: lisk_env_def)
  have g: "getPool demo_deploy_api ''0xprovider'' demo_genesis = Inr ''0xpool''"
    by (simp add: demo_deploy_api_def)
  have u: "(''USDT'', strategyUSDT) \<in> set (reservesToInit (ReservesConfig EthereumMarket))"
    "obj_get demo_addresses ''USDT'' = Some ''0xusdt''"
    by (simp_all add: demo_reserves reservesToInit_def strategyUSDT_def demo_addresses_def)
  note run = init_script_is_idempotent[where env = lisk_env and deployments = demo_deployed, unfolded n,
      OF d demo_ids(1) g demo_ids(6) demo_init_contract demo_init_runs]
  show ?thesis using demo_init_runs run u by fastforce
qed

end
