(* ===== verification/ConfigureProps.thy ===== *)
theory ConfigureProps
  imports DeployDemo
begin

text \<open>
  Configuring reserves: the temporary role of the setup helper, and the pairs of assets and oracles.
\<close>

section \<open>The temporary role\<close>

text \<open>
  What the access control of the protocol is documented to do: adding and removing a risk admin sets
  and clears the role, and configuring reserves leaves the roles alone.
\<close>

definition role_contract :: "'w deploy_api \<Rightarrow> string \<Rightarrow> string \<Rightarrow> ('w \<Rightarrow> bool) \<Rightarrow> bool" where
  "role_contract api acl helper isAdmin \<longleftrightarrow>
     (\<forall>sender w w'. addRiskAdmin api acl sender helper w = Inr w' \<longrightarrow> isAdmin w') \<and>
     (\<forall>sender w w'. removeRiskAdmin api acl sender helper w = Inr w' \<longrightarrow> \<not> isAdmin w') \<and>
     (\<forall>sender conf inputs w w'. configureReserves api helper sender conf inputs w = Inr w' \<longrightarrow>
        isAdmin w' = isAdmin w)"

lemma role_contractD:
  assumes "role_contract api acl helper isAdmin"
  shows "addRiskAdmin api acl sender helper w = Inr w' \<Longrightarrow> isAdmin w'"
    "removeRiskAdmin api acl sender helper w = Inr w' \<Longrightarrow> \<not> isAdmin w'"
    "configureReserves api helper sender conf inputs w = Inr w' \<Longrightarrow> isAdmin w' = isAdmin w"
  using assms unfolding role_contract_def by blast+

lemma configures_keep_role:
  assumes "role_contract api acl helper isAdmin" "isAdmin w"
    "sendEach (configureReserves api helper sender conf) batches w = (r, w')"
  shows "isAdmin w'"
  using sendEach_keeps[where P = isAdmin, OF assms(2) _ assms(3)] role_contractD(3)[OF assms(1)] by metis

lemma configureAsAdmin_role:
  assumes "role_contract api acl helper isAdmin"
    "configureAsAdmin api provider acl helper deployer inputs w = (r, w')"
  shows "case r of Inl _ \<Rightarrow> w' = w \<or> isAdmin w' | Inr _ \<Rightarrow> \<not> isAdmin w'"
proof (cases "\<exists>admin v. getACLAdmin api provider w = Inr admin \<and> addRiskAdmin api acl admin helper w = Inr v")
  case False
  then show ?thesis
    using assms(2) by (auto simp: configureAsAdmin_def split: sum.splits)
next
  case True
  then obtain admin v where v: "getACLAdmin api provider w = Inr admin"
      "addRiskAdmin api acl admin helper w = Inr v" by blast
  have a: "isAdmin v" by (rule role_contractD(1)[OF assms(1) v(2)])
  show ?thesis
  proof (cases "getPoolConfigurator api provider v")
    case (Inl e)
    then show ?thesis using assms(2) a by (auto simp: configureAsAdmin_def v)
  next
    case (Inr conf)
    obtain s u where s: "sendEach (configureReserves api helper deployer conf) (chunk inputs 20) v = (s, u)"
      by (cases "sendEach (configureReserves api helper deployer conf) (chunk inputs 20) v")
    have u: "isAdmin u" by (rule configures_keep_role[OF assms(1) a s])
    have "(r, w') = (case s of Inl e \<Rightarrow> (Inl e, u)
        | Inr _ \<Rightarrow> transact (removeRiskAdmin api acl admin helper) u)"
      using assms(2) by (simp add: configureAsAdmin_def v Inr
          abind_at[where m = "sendEach (configureReserves api helper deployer conf) (chunk inputs 20)", OF s]
          split: sum.splits)
    then show ?thesis
      using u role_contractD(2)[OF assms(1)] by (auto simp: transact_def split: sum.splits)
  qed
qed

text \<open>
  The setup helper is a risk admin only for the time of the configuration: after a successful run
  it is not one unless nothing was sent. A run that fails after its first transaction leaves the
  helper with the role, because nothing removes it on the way out.
\<close>

theorem risk_admin_is_temporary:
  assumes "role_contract api acl helper isAdmin"
    "deployments_get deployments (POOL_ADDRESSES_PROVIDER_ID market) = Inr provider"
    "getACLManager api provider w = Inr acl"
    "deployments_get deployments RESERVES_SETUP_HELPER_ID = Inr helper"
    "configureReservesByHelper api market deployer deployments reservesParams tokens w = (r, w')"
  shows "w' = w \<or> (isAdmin w' \<longleftrightarrow> (\<exists>e. r = Inl e))"
proof (cases "\<exists>a d. deployments_get deployments (ACL_MANAGER_ID market) = Inr a \<and>
    deployments_get deployments (POOL_DATA_PROVIDER market) = Inr d \<and>
    (\<exists>i is. configureInputs api d reservesParams tokens w = Inr (i # is))")
  case False
  then show ?thesis
    using assms(2-5)
    by (auto simp: configureReservesByHelper_def Let_def areturn_def neq_Nil_conv split: sum.splits if_splits)
next
  case True
  then obtain a d inputs where "deployments_get deployments (ACL_MANAGER_ID market) = Inr a"
      "deployments_get deployments (POOL_DATA_PROVIDER market) = Inr d"
      "configureInputs api d reservesParams tokens w = Inr inputs" "inputs \<noteq> []" by blast
  then have "configureAsAdmin api provider acl helper deployer inputs w = (r, w')"
    using assms(2-5) by (simp add: configureReservesByHelper_def Let_def)
  from configureAsAdmin_role[OF assms(1) this] show ?thesis by (auto split: sum.splits)
qed

definition reckless_market :: "reserve_params obj" where
  "reckless_market = [(''WETH'', strategyWETH\<lparr>baseLTVAsCollateral := 9000\<rparr>)]"

text \<open>A loan-to-value above the threshold makes the transaction revert.\<close>

lemma demo_configure_runs:
  "configureReservesByHelper demo_deploy_api ''Ethereum'' ''0xdeployer'' demo_deployed
     reckless_market demo_addresses demo_genesis = (Inl (Reverted ''20''), demo_genesis\<lparr>dc_riskAdmins := [''0xhelper'']\<rparr>)"
  by code_simp

theorem risk_admin_is_temporary_witness:
  "\<exists>w'. configureReservesByHelper demo_deploy_api ''Ethereum'' ''0xdeployer'' demo_deployed
     reckless_market demo_addresses demo_genesis = (Inl (Reverted ''20''), w') \<and>
     ''0xhelper'' \<in> set (dc_riskAdmins w')"
proof -
  have c: "role_contract demo_deploy_api ''0xacl'' ''0xhelper'' (\<lambda>w. ''0xhelper'' \<in> set (dc_riskAdmins w))"
    by (auto simp: role_contract_def demo_deploy_api_def split: if_splits)
  have g: "getACLManager demo_deploy_api ''0xprovider'' demo_genesis = Inr ''0xacl''"
    by (simp add: demo_deploy_api_def)
  have h: "deployments_get demo_deployed RESERVES_SETUP_HELPER_ID = Inr ''0xhelper''" by code_simp
  have n: "demo_genesis\<lparr>dc_riskAdmins := [''0xhelper'']\<rparr> \<noteq> demo_genesis" by (simp add: demo_genesis_def)
  from risk_admin_is_temporary[OF c demo_ids(1) g h demo_configure_runs] n
  show ?thesis using demo_configure_runs by blast
qed

section \<open>Assets and oracles\<close>

text \<open>
  The pairs handed to the oracle are exactly the assets but ETH and USD, in the order of the
  configuration and each with the aggregator of its own symbol; the function returns them exactly
  when every such asset has a non-empty address and a non-empty aggregator.
\<close>

theorem oracle_pairs_match_symbols:
  "getPairsTokenAggregator assets aggregators = Inr (addrs, sources) \<longleftrightarrow>
     (let priced = filter (\<lambda>(s, _). s \<noteq> ''ETH'' \<and> s \<noteq> ''USD'') assets in
      addrs = map snd priced \<and> map (\<lambda>(s, _). obj_get aggregators s) priced = map Some sources \<and>
      [] \<notin> set addrs \<and> [] \<notin> set sources)"
proof -
  define priced where "priced = filter (\<lambda>(s, _). s \<noteq> ''ETH'' \<and> s \<noteq> ''USD'') assets"
  let ?f = "\<lambda>(s, a). rbind (entry_of aggregators s) (\<lambda>g.
      if g = [] then Inl (Thrown (''Missing aggregator for '' @ s))
      else if a = [] then Inl (Thrown (''Missing token address for '' @ s)) else Inr (a, g))"
  have pairs: "mapM ?f xs = Inr ps \<longleftrightarrow> map fst ps = map snd xs \<and>
      map (\<lambda>(s, _). obj_get aggregators s) xs = map Some (map snd ps) \<and>
      [] \<notin> set (map fst ps) \<and> [] \<notin> set (map snd ps)" for xs ps
  proof (induction xs arbitrary: ps)
    case Nil
    then show ?case by auto
  next
    case (Cons x xs)
    obtain s a where x: "x = (s, a)" by (cases x)
    show ?case
      using Cons.IH[unfolded entry_of_get]
      by (cases ps, auto simp: x rbind_eq_Inr entry_of_get split: if_splits) metis
  qed
  have zip: "\<exists>ps. addrs = map fst ps \<and> sources = map snd ps"
    if "addrs = map snd xs" "map g xs = map Some sources" for xs :: "(string \<times> string) list" and g
  proof -
    have "length addrs = length sources" using that map_eq_imp_length_eq[OF that(2)] by simp
    then show ?thesis by (intro exI[of _ "zip addrs sources"]) simp
  qed
  have "getPairsTokenAggregator assets aggregators = Inr (addrs, sources) \<longleftrightarrow>
      (\<exists>ps. mapM ?f priced = Inr ps \<and> addrs = map fst ps \<and> sources = map snd ps)"
    by (auto simp: getPairsTokenAggregator_def priced_def rbind_eq_Inr)
  also have "\<dots> \<longleftrightarrow> addrs = map snd priced \<and>
      map (\<lambda>(s, _). obj_get aggregators s) priced = map Some sources \<and> [] \<notin> set addrs \<and> [] \<notin> set sources"
    unfolding pairs using zip[of priced] by (metis (no_types, lifting))
  finally show ?thesis by (simp add: priced_def Let_def)
qed

end
