(* ===== verification/AccessControl.thy ===== *)
theory AccessControl
  imports Transactions Constants
begin

text \<open>
  The access control of the protocol: \<open>AccessControl\<close> and \<open>Ownable\<close> of
  \<open>contracts/dependencies/openzeppelin\<close> and \<open>contracts/protocol/configuration/ACLManager.sol\<close>. A role
  is the hash of its name in the source and a constructor here. The sender comes first; a failed
  requirement reverts. The revert message of a missing role is shortened to its fixed part.
\<close>

section \<open>Roles\<close>

datatype acl_role = DEFAULT_ADMIN_ROLE | POOL_ADMIN_ROLE | EMERGENCY_ADMIN_ROLE | RISK_ADMIN_ROLE
  | FLASH_BORROWER_ROLE | BRIDGE_ROLE | ASSET_LISTING_ADMIN_ROLE

record acl =
  members :: "acl_role \<Rightarrow> string set"
  adminRole :: "acl_role \<Rightarrow> acl_role"

definition hasRole :: "acl_role \<Rightarrow> string \<Rightarrow> acl \<Rightarrow> bool" where
  "hasRole role account a \<longleftrightarrow> account \<in> members a role"

definition onlyRole :: "acl_role \<Rightarrow> string \<Rightarrow> acl \<Rightarrow> unit result" where
  "onlyRole role sender a = ensure (hasRole role sender a) (Reverted ''AccessControl: account is missing role'')"

definition grantRole :: "string \<Rightarrow> acl_role \<Rightarrow> string \<Rightarrow> acl \<Rightarrow> acl result" where
  "grantRole sender role account a =
     rbind (onlyRole (adminRole a role) sender a) (\<lambda>_.
     Inr (a\<lparr>members := (members a)(role := insert account (members a role))\<rparr>))"

definition revokeRole :: "string \<Rightarrow> acl_role \<Rightarrow> string \<Rightarrow> acl \<Rightarrow> acl result" where
  "revokeRole sender role account a =
     rbind (onlyRole (adminRole a role) sender a) (\<lambda>_.
     Inr (a\<lparr>members := (members a)(role := members a role - {account})\<rparr>))"

definition renounceRole :: "string \<Rightarrow> acl_role \<Rightarrow> string \<Rightarrow> acl \<Rightarrow> acl result" where
  "renounceRole sender role account a =
     rbind (ensure (account = sender) (Reverted ''AccessControl: can only renounce roles for self'')) (\<lambda>_.
     Inr (a\<lparr>members := (members a)(role := members a role - {account})\<rparr>))"

definition setRoleAdmin :: "string \<Rightarrow> acl_role \<Rightarrow> acl_role \<Rightarrow> acl \<Rightarrow> acl result" where
  "setRoleAdmin sender role admin a =
     rbind (onlyRole DEFAULT_ADMIN_ROLE sender a) (\<lambda>_. Inr (a\<lparr>adminRole := (adminRole a)(role := admin)\<rparr>))"

text \<open>The constructor; the revert reason is the code of \<open>ACL_ADMIN_CANNOT_BE_ZERO\<close>.\<close>

definition new_ACLManager :: "string \<Rightarrow> acl result" where
  "new_ACLManager aclAdmin =
     rbind (ensure (aclAdmin \<noteq> ZERO_ADDRESS) (Reverted ''75'')) (\<lambda>_.
     Inr \<lparr>members = (\<lambda>_. {})(DEFAULT_ADMIN_ROLE := {aclAdmin}), adminRole = (\<lambda>_. DEFAULT_ADMIN_ROLE)\<rparr>)"

definition addPoolAdmin :: "string \<Rightarrow> string \<Rightarrow> acl \<Rightarrow> acl result" where
  "addPoolAdmin sender admin = grantRole sender POOL_ADMIN_ROLE admin"

definition removePoolAdmin :: "string \<Rightarrow> string \<Rightarrow> acl \<Rightarrow> acl result" where
  "removePoolAdmin sender admin = revokeRole sender POOL_ADMIN_ROLE admin"

definition isPoolAdmin :: "string \<Rightarrow> acl \<Rightarrow> bool" where
  "isPoolAdmin admin = hasRole POOL_ADMIN_ROLE admin"

definition addEmergencyAdmin :: "string \<Rightarrow> string \<Rightarrow> acl \<Rightarrow> acl result" where
  "addEmergencyAdmin sender admin = grantRole sender EMERGENCY_ADMIN_ROLE admin"

definition removeEmergencyAdmin :: "string \<Rightarrow> string \<Rightarrow> acl \<Rightarrow> acl result" where
  "removeEmergencyAdmin sender admin = revokeRole sender EMERGENCY_ADMIN_ROLE admin"

definition isEmergencyAdmin :: "string \<Rightarrow> acl \<Rightarrow> bool" where
  "isEmergencyAdmin admin = hasRole EMERGENCY_ADMIN_ROLE admin"

definition addRiskAdmin :: "string \<Rightarrow> string \<Rightarrow> acl \<Rightarrow> acl result" where
  "addRiskAdmin sender admin = grantRole sender RISK_ADMIN_ROLE admin"

definition removeRiskAdmin :: "string \<Rightarrow> string \<Rightarrow> acl \<Rightarrow> acl result" where
  "removeRiskAdmin sender admin = revokeRole sender RISK_ADMIN_ROLE admin"

definition isRiskAdmin :: "string \<Rightarrow> acl \<Rightarrow> bool" where
  "isRiskAdmin admin = hasRole RISK_ADMIN_ROLE admin"

definition addFlashBorrower :: "string \<Rightarrow> string \<Rightarrow> acl \<Rightarrow> acl result" where
  "addFlashBorrower sender borrower = grantRole sender FLASH_BORROWER_ROLE borrower"

definition removeFlashBorrower :: "string \<Rightarrow> string \<Rightarrow> acl \<Rightarrow> acl result" where
  "removeFlashBorrower sender borrower = revokeRole sender FLASH_BORROWER_ROLE borrower"

definition isFlashBorrower :: "string \<Rightarrow> acl \<Rightarrow> bool" where
  "isFlashBorrower borrower = hasRole FLASH_BORROWER_ROLE borrower"

definition addBridge :: "string \<Rightarrow> string \<Rightarrow> acl \<Rightarrow> acl result" where
  "addBridge sender bridge = grantRole sender BRIDGE_ROLE bridge"

definition removeBridge :: "string \<Rightarrow> string \<Rightarrow> acl \<Rightarrow> acl result" where
  "removeBridge sender bridge = revokeRole sender BRIDGE_ROLE bridge"

definition isBridge :: "string \<Rightarrow> acl \<Rightarrow> bool" where
  "isBridge bridge = hasRole BRIDGE_ROLE bridge"

definition addAssetListingAdmin :: "string \<Rightarrow> string \<Rightarrow> acl \<Rightarrow> acl result" where
  "addAssetListingAdmin sender admin = grantRole sender ASSET_LISTING_ADMIN_ROLE admin"

definition removeAssetListingAdmin :: "string \<Rightarrow> string \<Rightarrow> acl \<Rightarrow> acl result" where
  "removeAssetListingAdmin sender admin = revokeRole sender ASSET_LISTING_ADMIN_ROLE admin"

definition isAssetListingAdmin :: "string \<Rightarrow> acl \<Rightarrow> bool" where
  "isAssetListingAdmin admin = hasRole ASSET_LISTING_ADMIN_ROLE admin"

lemmas acl_defs = addPoolAdmin_def removePoolAdmin_def isPoolAdmin_def addEmergencyAdmin_def
  removeEmergencyAdmin_def isEmergencyAdmin_def
  addRiskAdmin_def removeRiskAdmin_def isRiskAdmin_def addFlashBorrower_def removeFlashBorrower_def isFlashBorrower_def
  addBridge_def removeBridge_def isBridge_def addAssetListingAdmin_def removeAssetListingAdmin_def isAssetListingAdmin_def

section \<open>What the operations do to the roles\<close>

lemma grantRole_iff [act_inv]:
  "grantRole sender role account a = Inr a' \<longleftrightarrow> hasRole (adminRole a role) sender a \<and>
     a' = a\<lparr>members := (members a)(role := insert account (members a role))\<rparr>"
  by (auto simp: grantRole_def onlyRole_def rbind_eq_Inr)

lemma revokeRole_iff [act_inv]:
  "revokeRole sender role account a = Inr a' \<longleftrightarrow> hasRole (adminRole a role) sender a \<and>
     a' = a\<lparr>members := (members a)(role := members a role - {account})\<rparr>"
  by (auto simp: revokeRole_def onlyRole_def rbind_eq_Inr)

lemma renounceRole_iff [act_inv]:
  "renounceRole sender role account a = Inr a' \<longleftrightarrow> account = sender \<and>
     a' = a\<lparr>members := (members a)(role := members a role - {account})\<rparr>"
  by (auto simp: renounceRole_def rbind_eq_Inr)

lemma hasRole_upd [simp]:
  "hasRole r x (a\<lparr>members := (members a)(role := S)\<rparr>) \<longleftrightarrow> (if r = role then x \<in> S else hasRole r x a)"
  "hasRole r x (a\<lparr>adminRole := f\<rparr>) \<longleftrightarrow> hasRole r x a"
  by (auto simp: hasRole_def)

section \<open>Owned contracts\<close>

definition transferOwnership :: "string \<Rightarrow> string \<Rightarrow> string \<Rightarrow> string result" where
  "transferOwnership sender newOwner owner =
     rbind (ensure (owner = sender) (Reverted ''Ownable: caller is not the owner'')) (\<lambda>_.
     rbind (ensure (newOwner \<noteq> ZERO_ADDRESS) (Reverted ''Ownable: new owner is the zero address'')) (\<lambda>_.
     Inr newOwner))"

lemma transferOwnership_iff:
  "transferOwnership sender newOwner owner = Inr owner' \<longleftrightarrow>
     owner = sender \<and> newOwner \<noteq> ZERO_ADDRESS \<and> owner' = newOwner"
  by (auto simp: transferOwnership_def rbind_eq_Inr)

text \<open>A script step: hand the ownership over if it is still with the old owner.\<close>

definition transferIfOwner ::
    "('w \<Rightarrow> string) \<Rightarrow> (string \<Rightarrow> string \<Rightarrow> 'w \<Rightarrow> 'w result) \<Rightarrow> string \<Rightarrow> string \<Rightarrow> string \<Rightarrow> ('w, unit) act" where
  "transferIfOwner owner transfer sender oldOwner newOwner =
     abind (ask (\<lambda>w. Inr (owner w))) (\<lambda>current.
     if current = oldOwner then transact (transfer sender newOwner) else areturn (Inr ()))"

text \<open>
  An owned contract inside a larger state: only its owner transfers it, to an address that is not
  zero, and the transfer sets the owner.
\<close>

locale owned =
  fixes owner :: "'w \<Rightarrow> string"
    and transfer :: "string \<Rightarrow> string \<Rightarrow> 'w \<Rightarrow> 'w result"
  assumes transfer_sets: "transfer sender new w = Inr w' \<Longrightarrow> owner w' = new"
    and transfer_ok_iff: "(\<exists>w'. transfer sender new w = Inr w') \<longleftrightarrow> owner w = sender \<and> new \<noteq> ZERO_ADDRESS"
begin

lemma step_owner:
  "transferIfOwner owner transfer sender old new w = (Inr u, w') \<Longrightarrow>
     owner w' = (if owner w = old then new else owner w)"
  by (auto simp: transferIfOwner_def areturn_def act_inv transfer_sets split: if_splits)

lemma step_stops:
  "transferIfOwner owner transfer sender old new w = (Inl e, w') \<Longrightarrow>
     w' = w \<and> owner w = old \<and> (old \<noteq> sender \<or> new = ZERO_ADDRESS)"
  using transfer_ok_iff[of sender new w]
  by (auto simp: transferIfOwner_def areturn_def act_inv split: if_splits)

lemma step_succeeds:
  "owner w \<noteq> old \<or> old = sender \<and> new \<noteq> ZERO_ADDRESS \<Longrightarrow>
     \<exists>w'. transferIfOwner owner transfer sender old new w = (Inr (), w')"
  using transfer_ok_iff[of sender new w]
  by (auto simp: transferIfOwner_def areturn_def act_inv split: if_splits)

end

end
