(* ===== verification/Handover.thy ===== *)
theory Handover
  imports AccessControl MarketConfig
begin

text \<open>
  Who administers a market: \<open>deploy/02_market/03_init_acl.ts\<close> sets the administrators up,
  \<open>tasks/misc/transfer-protocol-ownership.ts\<close> hands the protocol over to another account, and
  \<open>tasks/misc/renounce-pool-admin.ts\<close> drops a last role of the deployer. The chain is the ACL manager
  and the owners of the contracts the scripts touch. Tables written to the console are the reports the
  functions return.
\<close>

section \<open>Accounts and chain\<close>

text \<open>Each named account is the signer with the given index; by default all are the first one.\<close>

definition DEFAULT_NAMED_ACCOUNTS :: "nat obj" where
  "DEFAULT_NAMED_ACCOUNTS =
     [(''deployer'', 0), (''aclAdmin'', 0), (''emergencyAdmin'', 0), (''poolAdmin'', 0),
      (''addressesProviderRegistryOwner'', 0), (''treasuryProxyAdmin'', 0),
      (''incentivesProxyAdmin'', 0), (''incentivesEmissionManager'', 0), (''incentivesRewardsVault'', 0)]"

definition POOL_ADMIN :: "string obj" where
  "POOL_ADMIN = [(''lisk'', ''0xCDeCF21e8bf321094Bb483B64f761a8f8191760d'')]"

definition EMERGENCY_ADMIN :: "string obj" where
  "EMERGENCY_ADMIN = [(''lisk'', ''0xCDeCF21e8bf321094Bb483B64f761a8f8191760d'')]"

record named_accounts =
  deployer :: string
  aclAdmin :: string
  emergencyAdmin :: string
  poolAdmin :: string
  addressesProviderRegistryOwner :: string

text \<open>The accounts the names resolve to, over the list of signers.\<close>

definition resolveAccounts :: "nat obj \<Rightarrow> string list \<Rightarrow> named_accounts result" where
  "resolveAccounts namedAccounts signers =
     (let account = (\<lambda>nam. rbind (getf (obj_get namedAccounts nam)) (\<lambda>i.
            getf (if i < length signers then Some (signers ! i) else None))) in
      rbind (account ''deployer'') (\<lambda>d.
      rbind (account ''aclAdmin'') (\<lambda>a.
      rbind (account ''emergencyAdmin'') (\<lambda>e.
      rbind (account ''poolAdmin'') (\<lambda>p.
      rbind (account ''addressesProviderRegistryOwner'') (\<lambda>r.
      Inr \<lparr>deployer = d, aclAdmin = a, emergencyAdmin = e, poolAdmin = p,
        addressesProviderRegistryOwner = r\<rparr>))))))"

record market_chain =
  ch_acl :: "acl option"
  ch_providerOwner :: string
  ch_ACLAdmin :: string
  ch_ACLManagerSet :: bool
  ch_registryOwner :: string
  ch_gatewayOwner :: string
  ch_emissionOwner :: string

section \<open>Transactions of the chain\<close>

text \<open>A call of the ACL manager, and a read of it; without a deployed manager the call has no code to run.\<close>

definition onACL :: "(acl \<Rightarrow> acl result) \<Rightarrow> market_chain \<Rightarrow> market_chain result" where
  "onACL f w = (case ch_acl w of None \<Rightarrow> Inl TypeError | Some a \<Rightarrow> rbind (f a) (\<lambda>a'. Inr (w\<lparr>ch_acl := Some a'\<rparr>)))"

definition readACL :: "(acl \<Rightarrow> bool) \<Rightarrow> market_chain \<Rightarrow> bool result" where
  "readACL f w = (case ch_acl w of None \<Rightarrow> Inl TypeError | Some a \<Rightarrow> Inr (f a))"

definition transferProvider :: "string \<Rightarrow> string \<Rightarrow> market_chain \<Rightarrow> market_chain result" where
  "transferProvider sender new w =
     rbind (transferOwnership sender new (ch_providerOwner w)) (\<lambda>x. Inr (w\<lparr>ch_providerOwner := x\<rparr>))"

definition transferRegistry :: "string \<Rightarrow> string \<Rightarrow> market_chain \<Rightarrow> market_chain result" where
  "transferRegistry sender new w =
     rbind (transferOwnership sender new (ch_registryOwner w)) (\<lambda>x. Inr (w\<lparr>ch_registryOwner := x\<rparr>))"

definition transferGateway :: "string \<Rightarrow> string \<Rightarrow> market_chain \<Rightarrow> market_chain result" where
  "transferGateway sender new w =
     rbind (transferOwnership sender new (ch_gatewayOwner w)) (\<lambda>x. Inr (w\<lparr>ch_gatewayOwner := x\<rparr>))"

definition transferEmission :: "string \<Rightarrow> string \<Rightarrow> market_chain \<Rightarrow> market_chain result" where
  "transferEmission sender new w =
     rbind (transferOwnership sender new (ch_emissionOwner w)) (\<lambda>x. Inr (w\<lparr>ch_emissionOwner := x\<rparr>))"

text \<open>\<open>setACLAdmin\<close> and \<open>setACLManager\<close> of the addresses provider, both only for its owner.\<close>

definition setACLAdmin :: "string \<Rightarrow> string \<Rightarrow> market_chain \<Rightarrow> market_chain result" where
  "setACLAdmin sender admin w =
     rbind (ensure (ch_providerOwner w = sender) (Reverted ''Ownable: caller is not the owner'')) (\<lambda>_.
     Inr (w\<lparr>ch_ACLAdmin := admin\<rparr>))"

definition setACLManager :: "string \<Rightarrow> market_chain \<Rightarrow> market_chain result" where
  "setACLManager sender w =
     rbind (ensure (ch_providerOwner w = sender) (Reverted ''Ownable: caller is not the owner'')) (\<lambda>_.
     Inr (w\<lparr>ch_ACLManagerSet := True\<rparr>))"

text \<open>\<open>deploy(ACL_MANAGER_ID, ...)\<close>: an existing deployment is kept.\<close>

definition deployACLManager :: "market_chain \<Rightarrow> market_chain result" where
  "deployACLManager w =
     (case ch_acl w of
        Some _ \<Rightarrow> Inr w
      | None \<Rightarrow> rbind (new_ACLManager (ch_ACLAdmin w)) (\<lambda>a. Inr (w\<lparr>ch_acl := Some a\<rparr>)))"

section \<open>Setting the administrators up\<close>

definition initAcl :: "named_accounts \<Rightarrow> string obj \<Rightarrow> string \<Rightarrow> (market_chain, unit) act" where
  "initAcl acc deployments market =
     abind (areturn (deployments_get deployments (POOL_ADDRESSES_PROVIDER_ID market))) (\<lambda>_.
     abind (transact (setACLAdmin (deployer acc) (aclAdmin acc))) (\<lambda>_.
     abind (transact deployACLManager) (\<lambda>_.
     abind (transact (setACLManager (deployer acc))) (\<lambda>_.
     abind (transact (onACL (addPoolAdmin (aclAdmin acc) (poolAdmin acc)))) (\<lambda>_.
     abind (transact (onACL (addEmergencyAdmin (aclAdmin acc) (emergencyAdmin acc)))) (\<lambda>_.
     abind (ask (readACL (hasRole DEFAULT_ADMIN_ROLE (aclAdmin acc)))) (\<lambda>isACLAdmin.
     abind (ask (readACL (isPoolAdmin (poolAdmin acc)))) (\<lambda>isPoolAdmin.
     abind (ask (readACL (isEmergencyAdmin (emergencyAdmin acc)))) (\<lambda>isEmergencyAdmin.
     areturn (if \<not> isACLAdmin then Inl (Thrown ''[ACL][ERROR] ACLAdmin is not setup correctly'')
       else if \<not> isPoolAdmin then Inl (Thrown ''[ACL][ERROR] PoolAdmin is not setup correctly'')
       else if \<not> isEmergencyAdmin then Inl (Thrown ''[ACL][ERROR] EmergencyAdmin is not setup correctly'')
       else Inr ()))))))))))"

section \<open>Handing the protocol over\<close>

text \<open>If the old account has the role: add the new one, then remove the old one.\<close>

definition moveRole ::
    "(string \<Rightarrow> acl \<Rightarrow> bool) \<Rightarrow> (string \<Rightarrow> string \<Rightarrow> acl \<Rightarrow> acl result) \<Rightarrow> (string \<Rightarrow> string \<Rightarrow> acl \<Rightarrow> acl result) \<Rightarrow>
      string \<Rightarrow> string \<Rightarrow> string \<Rightarrow> (market_chain, unit) act" where
  "moveRole has add remove signer old new =
     abind (ask (readACL (has old))) (\<lambda>held.
     if held then
       abind (transact (onACL (add signer new))) (\<lambda>_.
       transact (onACL (remove signer old)))
     else areturn (Inr ()))"

definition moveACLAdmin :: "string \<Rightarrow> string \<Rightarrow> string \<Rightarrow> (market_chain, unit) act" where
  "moveACLAdmin signer old new =
     abind (ask (\<lambda>w. Inr (ch_ACLAdmin w))) (\<lambda>current.
     if current = old then transact (setACLAdmin signer new) else areturn (Inr ()))"

text \<open>
  The contracts the task loads before it does anything. \<open>getContract\<close> with no address looks the
  deployment up and throws if it is missing.
\<close>

definition handoverContracts :: "string \<Rightarrow> string list" where
  "handoverContracts market =
     [POOL_ADDRESSES_PROVIDER_ID market, ''PoolAddressesProviderRegistry'', ''WrappedTokenGatewayV3'',
      EMISSION_MANAGER_ID, ''ParaSwapLiquiditySwapAdapter'', ''ParaSwapRepayAdapter'']"

definition handoverSteps :: "named_accounts \<Rightarrow> string \<Rightarrow> string \<Rightarrow> (market_chain, unit) act list" where
  "handoverSteps acc signer desiredAdmin =
     [moveRole isEmergencyAdmin addEmergencyAdmin removeEmergencyAdmin (aclAdmin acc) (emergencyAdmin acc) desiredAdmin,
      moveRole isPoolAdmin addPoolAdmin removePoolAdmin (aclAdmin acc) (poolAdmin acc) desiredAdmin,
      moveACLAdmin signer (deployer acc) desiredAdmin,
      transferIfOwner ch_providerOwner transferProvider signer (poolAdmin acc) desiredAdmin,
      transferIfOwner ch_registryOwner transferRegistry signer (addressesProviderRegistryOwner acc) desiredAdmin,
      transferIfOwner ch_gatewayOwner transferGateway signer (poolAdmin acc) desiredAdmin,
      transferIfOwner ch_emissionOwner transferEmission signer (deployer acc) desiredAdmin,
      moveRole (hasRole DEFAULT_ADMIN_ROLE) (\<lambda>s. grantRole s DEFAULT_ADMIN_ROLE)
        (\<lambda>s. revokeRole s DEFAULT_ADMIN_ROLE) (aclAdmin acc) (deployer acc) desiredAdmin]"

text \<open>The table at the end: a name and whether the expectation holds.\<close>

definition handoverReport :: "named_accounts \<Rightarrow> string \<Rightarrow> market_chain \<Rightarrow> (string \<times> bool) list result" where
  "handoverReport acc desiredAdmin w =
     rbind (readACL (isPoolAdmin desiredAdmin) w) (\<lambda>pool.
     rbind (readACL (hasRole DEFAULT_ADMIN_ROLE (deployer acc)) w) (\<lambda>old.
     rbind (readACL (hasRole DEFAULT_ADMIN_ROLE desiredAdmin) w) (\<lambda>new.
     Inr [(''PoolAdmin'', pool),
       (''PoolAddressesProvider owner'', ch_providerOwner w = desiredAdmin),
       (''WrappedTokenGateway owner'', ch_gatewayOwner w = desiredAdmin),
       (''EmissionManager owner'', ch_emissionOwner w = desiredAdmin),
       (''ACL Default Admin role revoked Deployer'', \<not> old),
       (''ACL Default Admin role granted Multisig'', new)])))"

definition transferProtocolOwnership ::
    "named_accounts \<Rightarrow> string \<Rightarrow> string obj \<Rightarrow> string \<Rightarrow> string \<Rightarrow> (market_chain, (string \<times> bool) list) act" where
  "transferProtocolOwnership acc signer deployments market networkId =
     (case obj_get POOL_ADMIN networkId of
        None \<Rightarrow> areturn (Inl (ProcessExit 403))
      | Some desiredAdmin \<Rightarrow>
          abind (areturn (mapM (deployments_get deployments) (handoverContracts market))) (\<lambda>_.
          abind (ask (\<lambda>w. Inr (ch_providerOwner w))) (\<lambda>currentOwner.
          if currentOwner = desiredAdmin then areturn (Inl (ProcessExit 0))
          else if currentOwner \<noteq> poolAdmin acc then areturn (Inl (ProcessExit 403))
          else abind (sequenceActs (handoverSteps acc signer desiredAdmin)) (\<lambda>_.
            ask (handoverReport acc desiredAdmin)))))"

section \<open>Renouncing\<close>

definition renouncePoolAdmin :: "named_accounts \<Rightarrow> string \<Rightarrow> (market_chain, (string \<times> bool) list) act" where
  "renouncePoolAdmin acc networkId =
     (case obj_get POOL_ADMIN networkId of
        None \<Rightarrow> areturn (Inl (ProcessExit 403))
      | Some desiredAdmin \<Rightarrow>
          abind (ask (readACL (isPoolAdmin (deployer acc)))) (\<lambda>isDeployerPoolAdmin.
          abind (ask (readACL (isPoolAdmin desiredAdmin))) (\<lambda>isMultisigPoolAdmin.
          abind (if isDeployerPoolAdmin \<and> isMultisigPoolAdmin
                 then transact (onACL (renounceRole (deployer acc) POOL_ADMIN_ROLE (deployer acc)))
                 else areturn (Inr ())) (\<lambda>_.
          ask (\<lambda>w.
            rbind (readACL (isPoolAdmin (deployer acc)) w) (\<lambda>d.
            rbind (readACL (isPoolAdmin desiredAdmin) w) (\<lambda>m.
            Inr [(''Deployer renounced PoolAdmin'', \<not> d), (''Owner is still PoolAdmin'', m)])))))))"

section \<open>The owned contracts of the chain\<close>

interpretation provider: owned ch_providerOwner transferProvider
  by unfold_locales (auto simp: transferProvider_def rbind_eq_Inr transferOwnership_iff)

interpretation registry: owned ch_registryOwner transferRegistry
  by unfold_locales (auto simp: transferRegistry_def rbind_eq_Inr transferOwnership_iff)

interpretation gateway: owned ch_gatewayOwner transferGateway
  by unfold_locales (auto simp: transferGateway_def rbind_eq_Inr transferOwnership_iff)

interpretation emission: owned ch_emissionOwner transferEmission
  by unfold_locales (auto simp: transferEmission_def rbind_eq_Inr transferOwnership_iff)

end
