(* ===== verification/HandoverProps.thy ===== *)
theory HandoverProps
  imports Handover
begin

text \<open>
  Handing the protocol over: no role is orphaned wherever the task stops, a freshly set up market is
  handed over completely, and without the swap adapters nothing is handed over at all.
\<close>

section \<open>Steps and what they keep\<close>

lemma sequenceActs_keeps:
  assumes "P w" "\<And>m w r w'. m \<in> set ms \<Longrightarrow> P w \<Longrightarrow> m w = (r, w') \<Longrightarrow> P w'" "sequenceActs ms w = (r, w')"
  shows "P w'"
  using assms
proof (induction ms arbitrary: w)
  case Nil
  then show ?case by (simp add: areturn_eq)
next
  case (Cons m ms)
  obtain s v where v: "m w = (s, v)" by (cases "m w")
  have P: "P v" using Cons.prems(2)[of m w s v] Cons.prems(1) v by simp
  show ?case
  proof (cases s)
    case (Inl e)
    then show ?thesis using Cons.prems(3) v P by (simp add: abind_def)
  next
    case (Inr u)
    then have "sequenceActs ms v = (r, w')" using Cons.prems(3) v by (simp add: abind_def)
    then show ?thesis using Cons.IH[OF P] Cons.prems(2) by (meson list.set_intros(2))
  qed
qed

text \<open>Somebody of the two has the role.\<close>

definition attended :: "acl_role \<Rightarrow> string \<Rightarrow> string \<Rightarrow> market_chain \<Rightarrow> bool" where
  "attended role x y w \<longleftrightarrow> (\<exists>a. ch_acl w = Some a \<and> (hasRole role x a \<or> hasRole role y a))"

lemma onACL_iff: "onACL f w = Inr w' \<longleftrightarrow> (\<exists>a a'. ch_acl w = Some a \<and> f a = Inr a' \<and> w' = w\<lparr>ch_acl := Some a'\<rparr>)"
  by (auto simp: onACL_def rbind_eq_Inr split: option.splits)

lemma readACL_iff: "readACL f w = Inr b \<longleftrightarrow> (\<exists>a. ch_acl w = Some a \<and> b = f a)"
  by (auto simp: readACL_def split: option.splits)

text \<open>The four worlds in which moving a role can end.\<close>

lemma moveRole_cases:
  assumes "moveRole (hasRole role) (\<lambda>s. grantRole s role) (\<lambda>s. revokeRole s role) signer old new w = (r, w')"
  obtains "w' = w"
  | a a' where "ch_acl w = Some a" "w' = w\<lparr>ch_acl := Some a'\<rparr>"
      "a' = a\<lparr>members := (members a)(role := insert new (members a role))\<rparr> \<or>
       a' = a\<lparr>members := (members a)(role := insert new (members a role) - {old})\<rparr>"
proof (cases "ch_acl w")
  case None
  then show ?thesis using assms that(1) by (simp add: moveRole_def readACL_def)
next
  case (Some a)
  note split = sum.splits if_splits
  show ?thesis
    using assms that Some
    by (auto simp: moveRole_def readACL_def onACL_def transact_def areturn_def grantRole_def revokeRole_def
        onlyRole_def ensure_def split: split)
qed

lemma role_names:
  "isPoolAdmin = hasRole POOL_ADMIN_ROLE" "isEmergencyAdmin = hasRole EMERGENCY_ADMIN_ROLE"
  "addPoolAdmin = (\<lambda>s. grantRole s POOL_ADMIN_ROLE)" "removePoolAdmin = (\<lambda>s. revokeRole s POOL_ADMIN_ROLE)"
  "addEmergencyAdmin = (\<lambda>s. grantRole s EMERGENCY_ADMIN_ROLE)"
  "removeEmergencyAdmin = (\<lambda>s. revokeRole s EMERGENCY_ADMIN_ROLE)"
  by (auto simp: acl_defs fun_eq_iff)

lemma moveRole_keeps:
  assumes "moveRole (hasRole r0) (\<lambda>s. grantRole s r0) (\<lambda>s. revokeRole s r0) signer old new w = (r, w')"
    "old \<noteq> new" "attended role x new w"
  shows "attended role x new w'"
  using assms(1)
proof (cases rule: moveRole_cases)
  case 1
  then show ?thesis using assms(3) by simp
next
  case (2 a a')
  then show ?thesis using assms(2,3) by (auto simp: attended_def hasRole_def)
qed

text \<open>The other steps leave the roles alone.\<close>

lemma transfer_keeps_acl:
  assumes "\<And>w'. tr signer new w = Inr w' \<Longrightarrow> ch_acl w' = ch_acl w"
    "transferIfOwner ow tr signer old new w = (r, w')"
  shows "ch_acl w' = ch_acl w"
  using assms by (auto simp: transferIfOwner_def transact_def areturn_def split: sum.splits if_splits)

lemma other_steps_keep_acl:
  "moveACLAdmin signer old new w = (r, w') \<Longrightarrow> ch_acl w' = ch_acl w"
  "transferIfOwner ch_providerOwner transferProvider signer old new w = (r, w') \<Longrightarrow> ch_acl w' = ch_acl w"
  "transferIfOwner ch_registryOwner transferRegistry signer old new w = (r, w') \<Longrightarrow> ch_acl w' = ch_acl w"
  "transferIfOwner ch_gatewayOwner transferGateway signer old new w = (r, w') \<Longrightarrow> ch_acl w' = ch_acl w"
  "transferIfOwner ch_emissionOwner transferEmission signer old new w = (r, w') \<Longrightarrow> ch_acl w' = ch_acl w"
  by (auto simp: moveACLAdmin_def setACLAdmin_def transact_def areturn_def transferProvider_def
      transferRegistry_def transferGateway_def transferEmission_def rbind_eq_Inr
      split: sum.splits if_splits elim!: transfer_keeps_acl[rotated])

lemma handover_step_keeps:
  assumes "m \<in> set (handoverSteps acc signer new)" "m w = (r, w')" "attended role x new w"
    "emergencyAdmin acc \<noteq> new" "poolAdmin acc \<noteq> new" "deployer acc \<noteq> new"
  shows "attended role x new w'"
proof -
  have same: "ch_acl w' = ch_acl w \<Longrightarrow> attended role x new w'" using assms(3) by (simp add: attended_def)
  show ?thesis
    using assms(1)[unfolded handoverSteps_def role_names] assms(2) moveRole_keeps[OF _ _ assms(3)]
      assms(4-6) other_steps_keep_acl same
    by (auto simp: handoverSteps_def)
qed

text \<open>The task either stops before its steps or is its steps.\<close>

lemma handover_steps:
  assumes "transferProtocolOwnership acc signer deployments market networkId w = (r, w')"
    "obj_get POOL_ADMIN networkId = Some new"
  obtains "w' = w" "\<exists>e. r = Inl e"
  | s where "poolAdmin acc \<noteq> new" "ch_providerOwner w = poolAdmin acc"
      "sequenceActs (handoverSteps acc signer new) w = (s, w')"
      "r = (case s of Inl e \<Rightarrow> Inl e | Inr _ \<Rightarrow> handoverReport acc new w')"
proof (cases "(\<exists>x. mapM (deployments_get deployments) (handoverContracts market) = Inr x) \<and>
    ch_providerOwner w \<noteq> new \<and> ch_providerOwner w = poolAdmin acc")
  case False
  then show ?thesis
    using assms that(1)
    by (auto simp: transferProtocolOwnership_def areturn_def split: sum.splits if_splits)
next
  case True
  obtain s v where s: "sequenceActs (handoverSteps acc signer new) w = (s, v)"
    by (cases "sequenceActs (handoverSteps acc signer new) w")
  have "(r, w') = (case s of Inl e \<Rightarrow> (Inl e, v) | Inr _ \<Rightarrow> (handoverReport acc new v, v))"
    using assms True by (auto simp: transferProtocolOwnership_def abind_def s areturn_def ask_def split: sum.splits)
  then show ?thesis using that(2)[of s] True s by (auto split: sum.splits)
qed

text \<open>
  C19: No role is orphaned: wherever the ownership transfer stops, for every role and every account that
  had it, that account or the new administrator has it afterwards. This needs the emergency
  administrator and the deployer to be other accounts than the new administrator; for the pool
  administrator the task checks it.
\<close>

theorem no_role_is_orphaned:
  assumes "obj_get POOL_ADMIN networkId = Some new" "emergencyAdmin acc \<noteq> new" "deployer acc \<noteq> new"
    "transferProtocolOwnership acc signer deployments market networkId w = (r, w')"
    "ch_acl w = Some a" "hasRole role x a"
  shows "\<exists>a'. ch_acl w' = Some a' \<and> (hasRole role x a' \<or> hasRole role new a')"
proof -
  have start: "attended role x new w" using assms(5,6) by (simp add: attended_def)
  from assms(4,1) have "attended role x new w'"
  proof (cases rule: handover_steps)
    case 1
    then show ?thesis using start by simp
  next
    case (2 s)
    show ?thesis
      using sequenceActs_keeps[where P = "attended role x new", OF start _ 2(3)]
        handover_step_keeps assms(2,3) 2(1) by metis
  qed
  then show ?thesis by (simp add: attended_def)
qed

definition demo_acl :: acl where
  "demo_acl = \<lparr>members = (\<lambda>_. {''0xa''}), adminRole = (\<lambda>_. DEFAULT_ADMIN_ROLE)\<rparr>"

definition demo_market_chain :: market_chain where
  "demo_market_chain = \<lparr>ch_acl = Some demo_acl, ch_providerOwner = ''0xa'', ch_ACLAdmin = ''0xa'',
     ch_ACLManagerSet = True, ch_registryOwner = ''0xa'', ch_gatewayOwner = ''0xb'', ch_emissionOwner = ''0xa''\<rparr>"

definition demo_accounts :: named_accounts where
  "demo_accounts = \<lparr>deployer = ''0xa'', aclAdmin = ''0xa'', emergencyAdmin = ''0xa'', poolAdmin = ''0xa'',
     addressesProviderRegistryOwner = ''0xb''\<rparr>"

definition demo_handover_deployments :: "string obj" where
  "demo_handover_deployments = map (\<lambda>n. (n, ''0x1'')) (handoverContracts ''Ethereum'')"

text \<open>A run that stops half way: the provider is not owned by the signer the task uses.\<close>

theorem no_role_is_orphaned_witness:
  "\<exists>r w' a'. transferProtocolOwnership demo_accounts ''0xc'' demo_handover_deployments ''Ethereum'' ''lisk''
       demo_market_chain = (r, w') \<and> ch_acl w' = Some a' \<and>
     (hasRole DEFAULT_ADMIN_ROLE ''0xa'' a' \<or>
      hasRole DEFAULT_ADMIN_ROLE ''0xCDeCF21e8bf321094Bb483B64f761a8f8191760d'' a')"
proof -
  obtain r w' where t: "transferProtocolOwnership demo_accounts ''0xc'' demo_handover_deployments ''Ethereum''
      ''lisk'' demo_market_chain = (r, w')" by (cases "transferProtocolOwnership demo_accounts ''0xc''
      demo_handover_deployments ''Ethereum'' ''lisk'' demo_market_chain")
  have p: "obj_get POOL_ADMIN ''lisk'' = Some ''0xCDeCF21e8bf321094Bb483B64f761a8f8191760d''"
    by (simp add: POOL_ADMIN_def)
  show ?thesis
    using no_role_is_orphaned[OF p _ _ t, of demo_acl DEFAULT_ADMIN_ROLE "''0xa''"] t
    by (auto simp: demo_accounts_def demo_market_chain_def demo_acl_def hasRole_def)
qed

text \<open>
  The transfer of ownership loads two swap adapters before it does anything. If one of its contracts
  is not among the stored deployments it throws and leaves the chain as it was.
\<close>

lemma missing_contract_blocks_handover:
  assumes "contract \<in> set (handoverContracts market)" "obj_get deployments contract = None"
  shows "\<exists>e. transferProtocolOwnership acc signer deployments market networkId w = (Inl e, w)"
proof -
  have "\<nexists>x. mapM (deployments_get deployments) names = Inr x" if "contract \<in> set names" for names
    using that assms(2)
    by (induction names) (auto simp: rbind_eq_Inr deployments_get_def)
  then have "\<exists>e. mapM (deployments_get deployments) (handoverContracts market) = Inl e"
    using assms(1) by (cases "mapM (deployments_get deployments) (handoverContracts market)") auto
  then show ?thesis
    by (auto simp: transferProtocolOwnership_def areturn_def split: option.splits)
qed

text \<open>
  C20: A market set up by the ACL script with the default accounts, all of them the first signer, is
  handed over completely, or not at all. The ACL script goes through whenever the addresses provider is
  deployed. If every contract the transfer of ownership loads is deployed, the two ParaSwap adapters
  included (no script of the repository deploys those), the transfer succeeds, every expectation of
  its final table holds, and the signer keeps no role at all; if one of them is missing, it throws and
  leaves the chain as it was. The network names a new administrator, the signer is neither the zero
  address nor that administrator, no ACL manager exists yet, and the signer owns the provider, the
  registry, the gateway and the emission manager.
\<close>

theorem fresh_market_is_handed_over:
  assumes "resolveAccounts DEFAULT_NAMED_ACCOUNTS (d # signers) = Inr acc" "d \<noteq> ZERO_ADDRESS"
    "obj_get POOL_ADMIN networkId = Some new" "d \<noteq> new"
    "obj_get deployments (POOL_ADDRESSES_PROVIDER_ID market) \<noteq> None"
    "ch_acl w = None" "ch_providerOwner w = d" "ch_registryOwner w = d" "ch_gatewayOwner w = d"
    "ch_emissionOwner w = d"
  shows "\<exists>w1. initAcl acc deployments market w = (Inr (), w1) \<and>
    (if \<forall>n\<in>set (handoverContracts market). obj_get deployments n \<noteq> None
     then \<exists>report w2 a. transferProtocolOwnership acc d deployments market networkId w1 = (Inr report, w2) \<and>
       list_all snd report \<and> ch_acl w2 = Some a \<and> (\<forall>role. \<not> hasRole role d a)
     else \<exists>e. transferProtocolOwnership acc d deployments market networkId w1 = (Inl e, w1))"
proof -
  have acc: "acc = \<lparr>deployer = d, aclAdmin = d, emergencyAdmin = d, poolAdmin = d,
      addressesProviderRegistryOwner = d\<rparr>"
    using assms(1) by (simp add: resolveAccounts_def DEFAULT_NAMED_ACCOUNTS_def)
  have z: "new \<noteq> ZERO_ADDRESS"
    using assms(3) by (auto simp: POOL_ADMIN_def ZERO_ADDRESS_def split: if_splits)
  define a1 where "a1 = \<lparr>members = (\<lambda>_. {})(DEFAULT_ADMIN_ROLE := {d}, POOL_ADMIN_ROLE := {d},
      EMERGENCY_ADMIN_ROLE := {d}), adminRole = (\<lambda>_. DEFAULT_ADMIN_ROLE)\<rparr>"
  define w1 where "w1 = w\<lparr>ch_acl := Some a1, ch_ACLAdmin := d, ch_ACLManagerSet := True\<rparr>"
  note ops = transact_def areturn_def ask_def abind_def onACL_def readACL_def acl_defs grantRole_def revokeRole_def
    onlyRole_def hasRole_def setACLAdmin_def setACLManager_def deployACLManager_def new_ACLManager_def
  have "initAcl acc deployments market w = (Inr (), w1)"
    using assms(2,5-7)
    by (auto simp: initAcl_def acc ops a1_def w1_def deployments_get_def split: option.splits)
  moreover have "\<exists>report w2 a. transferProtocolOwnership acc d deployments market networkId w1 = (Inr report, w2) \<and>
       list_all snd report \<and> ch_acl w2 = Some a \<and> (\<forall>role. \<not> hasRole role d a)"
    if "\<forall>n\<in>set (handoverContracts market). obj_get deployments n \<noteq> None"
  proof -
    have "\<exists>x. mapM (deployments_get deployments) (handoverContracts market) = Inr x"
      using that by (auto simp: handoverContracts_def deployments_get_def split: option.splits)
    then show ?thesis
      using assms(3,4,7-10) z
      by (auto simp: transferProtocolOwnership_def handoverSteps_def moveRole_def moveACLAdmin_def
          transferIfOwner_def transferProvider_def transferRegistry_def transferGateway_def
          transferEmission_def transferOwnership_def handoverReport_def acc ops a1_def w1_def)
  qed
  moreover have "\<exists>e. transferProtocolOwnership acc d deployments market networkId w1 = (Inl e, w1)"
    if "\<not> (\<forall>n\<in>set (handoverContracts market). obj_get deployments n \<noteq> None)"
    using that missing_contract_blocks_handover by blast
  ultimately show ?thesis by auto
qed

theorem fresh_market_is_handed_over_witness:
  "\<exists>acc w1 report w2. resolveAccounts DEFAULT_NAMED_ACCOUNTS [''0xa''] = Inr acc \<and>
     initAcl acc demo_handover_deployments ''Ethereum'' (demo_market_chain\<lparr>ch_acl := None, ch_gatewayOwner := ''0xa''\<rparr>) = (Inr (), w1) \<and>
     transferProtocolOwnership acc ''0xa'' demo_handover_deployments ''Ethereum'' ''lisk'' w1 = (Inr report, w2) \<and>
     list_all snd report"
proof -
  obtain acc where a: "resolveAccounts DEFAULT_NAMED_ACCOUNTS [''0xa''] = Inr acc"
    by (simp add: resolveAccounts_def DEFAULT_NAMED_ACCOUNTS_def)
  have z: "''0xa'' \<noteq> ZERO_ADDRESS" by (simp add: ZERO_ADDRESS_def)
  have p: "obj_get POOL_ADMIN ''lisk'' = Some ''0xCDeCF21e8bf321094Bb483B64f761a8f8191760d''"
    by (simp add: POOL_ADMIN_def)
  have n: "''0xa'' \<noteq> ''0xCDeCF21e8bf321094Bb483B64f761a8f8191760d''" by simp
  have d: "\<forall>n\<in>set (handoverContracts ''Ethereum''). obj_get demo_handover_deployments n \<noteq> None"
    by (simp add: demo_handover_deployments_def handoverContracts_def)
  then have e: "obj_get demo_handover_deployments (POOL_ADDRESSES_PROVIDER_ID ''Ethereum'') \<noteq> None"
    by (simp add: handoverContracts_def)
  show ?thesis
    using fresh_market_is_handed_over[OF a z p n e,
        of "demo_market_chain\<lparr>ch_acl := None, ch_gatewayOwner := ''0xa''\<rparr>"] a d
    by (auto simp: demo_market_chain_def)
qed

section \<open>Accounts that are the new administrator already\<close>

lemma sequenceActs_Inr:
  "sequenceActs (m # ms) w = (Inr u, w') \<longleftrightarrow> (\<exists>x v. m w = (Inr x, v) \<and> sequenceActs ms v = (Inr u, w'))"
  by (simp add: act_inv)

definition lacking :: "acl_role \<Rightarrow> string \<Rightarrow> market_chain \<Rightarrow> bool" where
  "lacking role x w \<longleftrightarrow> (\<exists>a. ch_acl w = Some a \<and> \<not> hasRole role x a)"

lemma moveRole_lacking:
  assumes "moveRole (hasRole r0) (\<lambda>s. grantRole s r0) (\<lambda>s. revokeRole s r0) signer old new w = (r, w')"
    "r0 \<noteq> role" "lacking role x w"
  shows "lacking role x w'"
  using assms(1)
proof (cases rule: moveRole_cases)
  case 1
  then show ?thesis using assms(3) by simp
next
  case (2 b b')
  then show ?thesis using assms(2,3) by (auto simp: lacking_def hasRole_def)
qed

lemma later_steps_lacking:
  assumes "m \<in> set (tl (handoverSteps acc signer new))" "lacking EMERGENCY_ADMIN_ROLE x w" "m w = (r, w')"
  shows "lacking EMERGENCY_ADMIN_ROLE x w'"
proof -
  have same: "ch_acl w' = ch_acl w \<Longrightarrow> lacking EMERGENCY_ADMIN_ROLE x w'"
    using assms(2) by (simp add: lacking_def)
  show ?thesis
    using assms(1)[unfolded handoverSteps_def role_names] assms(3)
      moveRole_lacking[OF _ _ assms(2), of POOL_ADMIN_ROLE]
      moveRole_lacking[OF _ _ assms(2), of DEFAULT_ADMIN_ROLE] other_steps_keep_acl same
    by auto
qed

text \<open>
  When the emergency administrator is the new administrator already, a successful transfer takes the
  role away from it: the role is added and then removed again, and nothing in the final table says so.
\<close>

theorem emergency_role_is_lost:
  assumes "obj_get POOL_ADMIN networkId = Some new" "emergencyAdmin acc = new"
    "transferProtocolOwnership acc signer deployments market networkId w = (Inr report, w')"
    "ch_acl w = Some a"
  shows "\<exists>a'. ch_acl w' = Some a' \<and> \<not> hasRole EMERGENCY_ADMIN_ROLE new a'"
proof -
  from assms(3,1) obtain s where seq: "sequenceActs (handoverSteps acc signer new) w = (Inr s, w')"
    by (cases rule: handover_steps) (auto split: sum.splits)
  let ?m = "moveRole isEmergencyAdmin addEmergencyAdmin removeEmergencyAdmin (aclAdmin acc) (emergencyAdmin acc) new"
  obtain x v where first: "?m w = (Inr x, v)" and rest: "sequenceActs (tl (handoverSteps acc signer new)) v = (Inr s, w')"
  proof -
    have "handoverSteps acc signer new = ?m # tl (handoverSteps acc signer new)" by (simp add: handoverSteps_def)
    then have "sequenceActs (?m # tl (handoverSteps acc signer new)) w = (Inr s, w')" using seq by simp
    then show ?thesis using that by (auto simp only: sequenceActs_Inr)
  qed
  have v: "lacking EMERGENCY_ADMIN_ROLE new v"
    using first assms(2,4)
    by (auto simp: moveRole_def readACL_def acl_defs onACL_def transact_def areturn_def lacking_def
        grantRole_def revokeRole_def onlyRole_def ensure_def hasRole_def split: sum.splits if_splits)
  have "lacking EMERGENCY_ADMIN_ROLE new w'"
    using sequenceActs_keeps[where P = "lacking EMERGENCY_ADMIN_ROLE new", OF v _ rest] later_steps_lacking
    by metis
  then show ?thesis by (auto simp: lacking_def)
qed

section \<open>Renouncing\<close>

text \<open>
  Renouncing drops the pool-admin role of the deployer exactly when the new administrator has it, and
  never touches the one of the new administrator: at least one of them stays pool administrator if
  one was. The final table reports what is on the chain.
\<close>

theorem renounce_keeps_an_administrator:
  assumes "obj_get POOL_ADMIN networkId = Some new" "deployer acc \<noteq> new" "ch_acl w = Some a"
    "old = hasRole POOL_ADMIN_ROLE (deployer acc) a" "owner = hasRole POOL_ADMIN_ROLE new a"
  shows "\<exists>w' a'. renouncePoolAdmin acc networkId w =
      (Inr [(''Deployer renounced PoolAdmin'', \<not> old \<or> owner), (''Owner is still PoolAdmin'', owner)], w') \<and>
    ch_acl w' = Some a' \<and>
    hasRole POOL_ADMIN_ROLE (deployer acc) a' = (old \<and> \<not> owner) \<and>
    hasRole POOL_ADMIN_ROLE new a' = owner"
  using assms
  by (auto simp: renouncePoolAdmin_def transact_def areturn_def ask_def abind_def onACL_def readACL_def
      isPoolAdmin_def renounceRole_def hasRole_def)

theorem renounce_keeps_an_administrator_witness:
  "\<exists>w' a'. renouncePoolAdmin demo_accounts ''lisk'' demo_market_chain =
      (Inr [(''Deployer renounced PoolAdmin'', False), (''Owner is still PoolAdmin'', False)], w') \<and>
    ch_acl w' = Some a' \<and> hasRole POOL_ADMIN_ROLE ''0xa'' a'"
proof -
  have p: "obj_get POOL_ADMIN ''lisk'' = Some ''0xCDeCF21e8bf321094Bb483B64f761a8f8191760d''"
    by (simp add: POOL_ADMIN_def)
  show ?thesis
    using renounce_keeps_an_administrator[OF p, of demo_accounts demo_market_chain demo_acl True False]
    by (simp add: demo_accounts_def demo_market_chain_def demo_acl_def hasRole_def) blast
qed

end
