(* ===== verification/Configurator.thy ===== *)
theory Configurator
  imports ReserveBits RateContract AccessControl ReserveTypes
begin

text \<open>
  The part of the pool that the configuration scripts write and read: the packed configuration of each
  reserve, its rate strategy, the efficiency modes and who may change them
  (\<open>contracts/protocol/pool/PoolConfigurator.sol\<close> over the storage of \<open>Pool.sol\<close>, read through
  \<open>contracts/misc/ProtocolDataProvider.sol\<close>). Events are left out. Whether anything is supplied to
  or borrowed from a reserve is a fact of the state. Initialising, dropping and upgrading reserves and
  the flash-loan premiums are not transactions of this model.
\<close>

section \<open>State\<close>

record emode_category =
  ec_ltv :: u256
  ec_liquidationThreshold :: u256
  ec_liquidationBonus :: u256
  ec_priceSource :: string
  ec_label :: string

record pool =
  po_acl :: acl
  po_reservesList :: "string list"
  po_configuration :: "string \<Rightarrow> u256"
  po_strategy :: "string \<Rightarrow> string"
  po_strategies :: "string \<Rightarrow> rate_strategy option"
  po_eModes :: "u256 \<Rightarrow> emode_category"
  po_symbol :: "string \<Rightarrow> string"
  po_supplied :: "string \<Rightarrow> bool"
  po_borrowed :: "string \<Rightarrow> bool"
  po_isolationModeTotalDebt :: "string \<Rightarrow> u256"

type_synonym pool_tx = "pool \<Rightarrow> pool result"

section \<open>Storage of the pool\<close>

definition requireListed :: "string \<Rightarrow> pool \<Rightarrow> unit result" where
  "requireListed asset w =
     rbind (ensure (asset \<noteq> ZERO_ADDRESS) (Reverted ''77'')) (\<lambda>_.
     ensure (asset \<in> set (po_reservesList w)) (Reverted ''82''))"

definition setConfiguration :: "string \<Rightarrow> u256 \<Rightarrow> pool_tx" where
  "setConfiguration asset configuration w =
     rbind (requireListed asset w) (\<lambda>_.
     Inr (w\<lparr>po_configuration := (po_configuration w)(asset := configuration)\<rparr>))"

definition setStrategyAddress :: "string \<Rightarrow> string \<Rightarrow> pool_tx" where
  "setStrategyAddress asset rateStrategyAddress w =
     rbind (requireListed asset w) (\<lambda>_.
     Inr (w\<lparr>po_strategy := (po_strategy w)(asset := rateStrategyAddress)\<rparr>))"

definition configureEModeCategory :: "u256 \<Rightarrow> emode_category \<Rightarrow> pool_tx" where
  "configureEModeCategory i category w =
     rbind (ensure (i \<noteq> 0) (Reverted ''16'')) (\<lambda>_.
     Inr (w\<lparr>po_eModes := (po_eModes w)(i := category)\<rparr>))"

definition resetIsolationModeTotalDebt :: "string \<Rightarrow> pool_tx" where
  "resetIsolationModeTotalDebt asset w =
     rbind (ensure (getDebtCeiling (po_configuration w asset) = 0) (Reverted ''81'')) (\<lambda>_.
     Inr (w\<lparr>po_isolationModeTotalDebt := (po_isolationModeTotalDebt w)(asset := 0)\<rparr>))"

section \<open>Who may call\<close>

definition onlyPoolAdmin :: "string \<Rightarrow> pool \<Rightarrow> unit result" where
  "onlyPoolAdmin sender w = ensure (isPoolAdmin sender (po_acl w)) (Reverted ''1'')"

definition onlyEmergencyAdmin :: "string \<Rightarrow> pool \<Rightarrow> unit result" where
  "onlyEmergencyAdmin sender w = ensure (isEmergencyAdmin sender (po_acl w)) (Reverted ''2'')"

definition onlyEmergencyOrPoolAdmin :: "string \<Rightarrow> pool \<Rightarrow> unit result" where
  "onlyEmergencyOrPoolAdmin sender w =
     ensure (isPoolAdmin sender (po_acl w) \<or> isEmergencyAdmin sender (po_acl w)) (Reverted ''3'')"

definition onlyRiskOrPoolAdmins :: "string \<Rightarrow> pool \<Rightarrow> unit result" where
  "onlyRiskOrPoolAdmins sender w =
     ensure (isRiskAdmin sender (po_acl w) \<or> isPoolAdmin sender (po_acl w)) (Reverted ''4'')"

definition checkNoSuppliers :: "string \<Rightarrow> pool \<Rightarrow> unit result" where
  "checkNoSuppliers asset w = ensure (\<not> po_supplied w asset) (Reverted ''18'')"

definition checkNoBorrowers :: "string \<Rightarrow> pool \<Rightarrow> unit result" where
  "checkNoBorrowers asset w = ensure (\<not> po_borrowed w asset) (Reverted ''90'')"

section \<open>Flags of a reserve\<close>

definition setReserveBorrowing :: "string \<Rightarrow> string \<Rightarrow> bool \<Rightarrow> pool_tx" where
  "setReserveBorrowing sender asset enabled w =
     rbind (onlyRiskOrPoolAdmins sender w) (\<lambda>_.
     rbind (ensure (enabled \<or> \<not> getStableRateBorrowingEnabled (po_configuration w asset)) (Reverted ''88'')) (\<lambda>_.
     setConfiguration asset (setBorrowingEnabled_bits (po_configuration w asset) enabled) w))"

definition setReserveStableRateBorrowing :: "string \<Rightarrow> string \<Rightarrow> bool \<Rightarrow> pool_tx" where
  "setReserveStableRateBorrowing sender asset enabled w =
     rbind (onlyRiskOrPoolAdmins sender w) (\<lambda>_.
     rbind (ensure (\<not> enabled \<or> getBorrowingEnabled (po_configuration w asset)) (Reverted ''30'')) (\<lambda>_.
     setConfiguration asset (setStableRateBorrowingEnabled_bits (po_configuration w asset) enabled) w))"

definition setReserveFlashLoaning :: "string \<Rightarrow> string \<Rightarrow> bool \<Rightarrow> pool_tx" where
  "setReserveFlashLoaning sender asset enabled w =
     rbind (onlyRiskOrPoolAdmins sender w) (\<lambda>_.
     setConfiguration asset (setFlashLoanEnabled_bits (po_configuration w asset) enabled) w)"

definition setReserveActive :: "string \<Rightarrow> string \<Rightarrow> bool \<Rightarrow> pool_tx" where
  "setReserveActive sender asset active w =
     rbind (onlyPoolAdmin sender w) (\<lambda>_.
     rbind (if active then Inr () else checkNoSuppliers asset w) (\<lambda>_.
     setConfiguration asset (setActive_bits (po_configuration w asset) active) w))"

definition setReserveFreeze :: "string \<Rightarrow> string \<Rightarrow> bool \<Rightarrow> pool_tx" where
  "setReserveFreeze sender asset freeze w =
     rbind (onlyRiskOrPoolAdmins sender w) (\<lambda>_.
     setConfiguration asset (setFrozen_bits (po_configuration w asset) freeze) w)"

definition setBorrowableInIsolation :: "string \<Rightarrow> string \<Rightarrow> bool \<Rightarrow> pool_tx" where
  "setBorrowableInIsolation sender asset borrowable w =
     rbind (onlyRiskOrPoolAdmins sender w) (\<lambda>_.
     setConfiguration asset (setBorrowableInIsolation_bits (po_configuration w asset) borrowable) w)"

definition setReservePause :: "string \<Rightarrow> string \<Rightarrow> bool \<Rightarrow> pool_tx" where
  "setReservePause sender asset paused w =
     rbind (onlyEmergencyOrPoolAdmin sender w) (\<lambda>_.
     setConfiguration asset (setPaused_bits (po_configuration w asset) paused) w)"

definition setSiloedBorrowing :: "string \<Rightarrow> string \<Rightarrow> bool \<Rightarrow> pool_tx" where
  "setSiloedBorrowing sender asset newSiloed w =
     rbind (onlyRiskOrPoolAdmins sender w) (\<lambda>_.
     rbind (if newSiloed then checkNoBorrowers asset w else Inr ()) (\<lambda>_.
     setConfiguration asset (setSiloedBorrowing_bits (po_configuration w asset) newSiloed) w))"

definition setPoolPause :: "string \<Rightarrow> bool \<Rightarrow> pool_tx" where
  "setPoolPause sender paused w =
     rbind (onlyEmergencyAdmin sender w) (\<lambda>_.
     foldM (\<lambda>w reserve. if reserve \<noteq> ZERO_ADDRESS then setReservePause sender reserve paused w else Inr w)
       w (po_reservesList w))"

section \<open>Numbers of a reserve\<close>

definition setReserveFactor :: "string \<Rightarrow> string \<Rightarrow> u256 \<Rightarrow> pool_tx" where
  "setReserveFactor sender asset newReserveFactor w =
     rbind (onlyRiskOrPoolAdmins sender w) (\<lambda>_.
     rbind (ensure (newReserveFactor \<le> 10000) (Reverted ''67'')) (\<lambda>_.
     rbind (setReserveFactor_bits (po_configuration w asset) newReserveFactor) (\<lambda>c.
     setConfiguration asset c w)))"

definition setDebtCeiling :: "string \<Rightarrow> string \<Rightarrow> u256 \<Rightarrow> pool_tx" where
  "setDebtCeiling sender asset newDebtCeiling w =
     rbind (onlyRiskOrPoolAdmins sender w) (\<lambda>_.
     rbind (if getDebtCeiling (po_configuration w asset) = 0 then checkNoSuppliers asset w else Inr ()) (\<lambda>_.
     rbind (setDebtCeiling_bits (po_configuration w asset) newDebtCeiling) (\<lambda>c.
     rbind (setConfiguration asset c w) (\<lambda>w.
     if newDebtCeiling = 0 then resetIsolationModeTotalDebt asset w else Inr w))))"

definition setBorrowCap :: "string \<Rightarrow> string \<Rightarrow> u256 \<Rightarrow> pool_tx" where
  "setBorrowCap sender asset newBorrowCap w =
     rbind (onlyRiskOrPoolAdmins sender w) (\<lambda>_.
     rbind (setBorrowCap_bits (po_configuration w asset) newBorrowCap) (\<lambda>c.
     setConfiguration asset c w))"

definition setSupplyCap :: "string \<Rightarrow> string \<Rightarrow> u256 \<Rightarrow> pool_tx" where
  "setSupplyCap sender asset newSupplyCap w =
     rbind (onlyRiskOrPoolAdmins sender w) (\<lambda>_.
     rbind (setSupplyCap_bits (po_configuration w asset) newSupplyCap) (\<lambda>c.
     setConfiguration asset c w))"

definition setLiquidationProtocolFee :: "string \<Rightarrow> string \<Rightarrow> u256 \<Rightarrow> pool_tx" where
  "setLiquidationProtocolFee sender asset newFee w =
     rbind (onlyRiskOrPoolAdmins sender w) (\<lambda>_.
     rbind (ensure (newFee \<le> 10000) (Reverted ''70'')) (\<lambda>_.
     rbind (setLiquidationProtocolFee_bits (po_configuration w asset) newFee) (\<lambda>c.
     setConfiguration asset c w)))"

definition setUnbackedMintCap :: "string \<Rightarrow> string \<Rightarrow> u256 \<Rightarrow> pool_tx" where
  "setUnbackedMintCap sender asset newUnbackedMintCap w =
     rbind (onlyRiskOrPoolAdmins sender w) (\<lambda>_.
     rbind (setUnbackedMintCap_bits (po_configuration w asset) newUnbackedMintCap) (\<lambda>c.
     setConfiguration asset c w))"

definition configureReserveAsCollateral :: "string \<Rightarrow> string \<Rightarrow> u256 \<Rightarrow> u256 \<Rightarrow> u256 \<Rightarrow> pool_tx" where
  "configureReserveAsCollateral sender asset ltv threshold bonus w =
     rbind (onlyRiskOrPoolAdmins sender w) (\<lambda>_.
     rbind (ensure (ltv \<le> threshold) (Reverted ''20'')) (\<lambda>_.
     rbind (if threshold \<noteq> 0 then
              rbind (ensure (10000 < bonus) (Reverted ''20'')) (\<lambda>_.
              rbind (percentMul_u256 threshold bonus) (\<lambda>x. ensure (x \<le> 10000) (Reverted ''20'')))
            else rbind (ensure (bonus = 0) (Reverted ''20'')) (\<lambda>_. checkNoSuppliers asset w)) (\<lambda>_.
     rbind (setLtv_bits (po_configuration w asset) ltv) (\<lambda>c.
     rbind (setLiquidationThreshold_bits c threshold) (\<lambda>c.
     rbind (setLiquidationBonus_bits c bonus) (\<lambda>c.
     setConfiguration asset c w))))))"

definition setReserveInterestRateStrategyAddress :: "string \<Rightarrow> string \<Rightarrow> string \<Rightarrow> pool_tx" where
  "setReserveInterestRateStrategyAddress sender asset newRateStrategyAddress w =
     rbind (onlyRiskOrPoolAdmins sender w) (\<lambda>_. setStrategyAddress asset newRateStrategyAddress w)"

section \<open>Efficiency modes\<close>

definition setEModeCategory :: "string \<Rightarrow> u256 \<Rightarrow> u256 \<Rightarrow> u256 \<Rightarrow> u256 \<Rightarrow> string \<Rightarrow> string \<Rightarrow> pool_tx" where
  "setEModeCategory sender categoryId ltv threshold bonus oracle label w =
     rbind (onlyRiskOrPoolAdmins sender w) (\<lambda>_.
     rbind (ensure (ltv \<noteq> 0) (Reverted ''21'')) (\<lambda>_.
     rbind (ensure (threshold \<noteq> 0) (Reverted ''21'')) (\<lambda>_.
     rbind (ensure (ltv \<le> threshold) (Reverted ''21'')) (\<lambda>_.
     rbind (ensure (10000 < bonus) (Reverted ''21'')) (\<lambda>_.
     rbind (percentMul_u256 threshold bonus) (\<lambda>x.
     rbind (ensure (x \<le> 10000) (Reverted ''21'')) (\<lambda>_.
     rbind (foldM (\<lambda>_ reserve.
              if categoryId = getEModeCategory (po_configuration w reserve) then
                rbind (ensure (getLtv (po_configuration w reserve) < ltv) (Reverted ''21'')) (\<lambda>_.
                ensure (getLiquidationThreshold (po_configuration w reserve) < threshold) (Reverted ''21''))
              else Inr ())
            () (po_reservesList w)) (\<lambda>_.
     configureEModeCategory categoryId \<lparr>ec_ltv = ltv, ec_liquidationThreshold = threshold,
       ec_liquidationBonus = bonus, ec_priceSource = oracle, ec_label = label\<rparr> w))))))))"

definition setAssetEModeCategory :: "string \<Rightarrow> string \<Rightarrow> u256 \<Rightarrow> pool_tx" where
  "setAssetEModeCategory sender asset newCategoryId w =
     rbind (onlyRiskOrPoolAdmins sender w) (\<lambda>_.
     rbind (ensure (newCategoryId = 0 \<or>
         getLiquidationThreshold (po_configuration w asset) < ec_liquidationThreshold (po_eModes w newCategoryId))
         (Reverted ''17'')) (\<lambda>_.
     rbind (setEModeCategory_bits (po_configuration w asset) newCategoryId) (\<lambda>c.
     setConfiguration asset c w)))"

section \<open>Reading\<close>

definition MKR :: string where
  "MKR = ''0x9f8F72aA9304c8B593d555F12eF6589cC3A579A2''"

definition ETH :: string where
  "ETH = ''0xEeeeeEeeeEeEeeEeEeEeeEEEeeeeEeeeeeeeEEeE''"

definition getAllReservesTokens :: "pool \<Rightarrow> (string \<times> string) list" where
  "getAllReservesTokens w =
     map (\<lambda>asset. (if asset = MKR then ''MKR'' else if asset = ETH then ''ETH'' else po_symbol w asset, asset))
       (po_reservesList w)"

definition getReserveCaps :: "string \<Rightarrow> pool \<Rightarrow> u256 \<times> u256" where
  "getReserveCaps asset w = getCaps (po_configuration w asset)"

text \<open>The property \<open>stableBorrowRateEnabled\<close> of \<open>getReserveConfigurationData\<close>: the fourth flag.\<close>

definition stableBorrowRateEnabledOf :: "string \<Rightarrow> pool \<Rightarrow> bool" where
  "stableBorrowRateEnabledOf asset w =
     (case getFlags (po_configuration w asset) of (_, _, _, enabled, _) \<Rightarrow> enabled)"

section \<open>Transactions as data\<close>

text \<open>
  A call as the scripts write it, with numbers as \<open>BigNumber\<close>s: encoding the call throws when a number
  does not fit its type.
\<close>

datatype configurator_call =
    SetDebtCeiling string int
  | SetLiquidationProtocolFee string int
  | SetBorrowableInIsolation string bool
  | SetReserveStableRateBorrowing string bool
  | SetSupplyCap string int
  | SetEModeCategory int int int int string string
  | SetAssetEModeCategory string int
  | SetReserveInterestRateStrategyAddress string string
  | SetPoolPause bool

fun submit :: "string \<Rightarrow> configurator_call \<Rightarrow> pool_tx" where
  "submit sender (SetDebtCeiling asset v) w = rbind (encode 256 v) (\<lambda>v. setDebtCeiling sender asset v w)"
| "submit sender (SetLiquidationProtocolFee asset v) w =
     rbind (encode 256 v) (\<lambda>v. setLiquidationProtocolFee sender asset v w)"
| "submit sender (SetBorrowableInIsolation asset b) w = setBorrowableInIsolation sender asset b w"
| "submit sender (SetReserveStableRateBorrowing asset b) w = setReserveStableRateBorrowing sender asset b w"
| "submit sender (SetSupplyCap asset v) w = rbind (encode 256 v) (\<lambda>v. setSupplyCap sender asset v w)"
| "submit sender (SetEModeCategory i ltv threshold bonus oracle label) w =
     rbind (encode 8 i) (\<lambda>i. rbind (encode 16 ltv) (\<lambda>ltv. rbind (encode 16 threshold) (\<lambda>threshold.
     rbind (encode 16 bonus) (\<lambda>bonus. setEModeCategory sender i ltv threshold bonus oracle label w))))"
| "submit sender (SetAssetEModeCategory asset i) w =
     rbind (encode 8 i) (\<lambda>i. setAssetEModeCategory sender asset i w)"
| "submit sender (SetReserveInterestRateStrategyAddress asset a) w =
     setReserveInterestRateStrategyAddress sender asset a w"
| "submit sender (SetPoolPause b) w = setPoolPause sender b w"

section \<open>What a call changes\<close>

text \<open>
  The abstract state: one value for each reserve and field. A call that sets one field of one reserve
  has it as its effect; the efficiency modes and the rate strategies are not settings.
\<close>

definition settings :: "pool \<Rightarrow> string \<Rightarrow> config_field \<Rightarrow> u256" where
  "settings w asset f = getField f (po_configuration w asset)"

fun effect :: "configurator_call \<Rightarrow> string list \<Rightarrow> (string \<times> config_field \<times> u256) list" where
  "effect (SetDebtCeiling asset v) rs = [(asset, InDebtCeiling, word_of_int v)]"
| "effect (SetLiquidationProtocolFee asset v) rs = [(asset, InLiquidationProtocolFee, word_of_int v)]"
| "effect (SetBorrowableInIsolation asset b) rs = [(asset, InBorrowableInIsolation, of_bool b)]"
| "effect (SetReserveStableRateBorrowing asset b) rs = [(asset, InStableRateBorrowingEnabled, of_bool b)]"
| "effect (SetSupplyCap asset v) rs = [(asset, InSupplyCap, word_of_int v)]"
| "effect (SetAssetEModeCategory asset i) rs = [(asset, InEModeCategory, word_of_int i)]"
| "effect (SetPoolPause b) rs = map (\<lambda>r. (r, InPaused, of_bool b)) (filter (\<lambda>r. r \<noteq> ZERO_ADDRESS) rs)"
| "effect _ rs = []"

fun assign :: "(string \<Rightarrow> config_field \<Rightarrow> u256) \<Rightarrow> string \<times> config_field \<times> u256 \<Rightarrow> string \<Rightarrow> config_field \<Rightarrow> u256" where
  "assign s (asset, f, v) = s(asset := (s asset)(f := v))"

declare assign.simps [simp del]

text \<open>What no call touches.\<close>

definition sameBut :: "pool \<Rightarrow> pool \<Rightarrow> bool" where
  "sameBut w w' \<longleftrightarrow> po_acl w' = po_acl w \<and> po_reservesList w' = po_reservesList w \<and> po_symbol w' = po_symbol w \<and>
     po_supplied w' = po_supplied w \<and> po_borrowed w' = po_borrowed w"

lemma sameBut_refl [simp]: "sameBut w w"
  and sameBut_trans: "sameBut u v \<Longrightarrow> sameBut v w \<Longrightarrow> sameBut u w"
  and sameBut_simps: "sameBut w w' \<Longrightarrow> po_acl w' = po_acl w" "sameBut w w' \<Longrightarrow> po_reservesList w' = po_reservesList w"
    "sameBut w w' \<Longrightarrow> po_symbol w' = po_symbol w"
  by (simp_all add: sameBut_def)

lemma settings_other [simp]:
  "settings (w\<lparr>po_strategy := x\<rparr>) = settings w" "settings (w\<lparr>po_eModes := y\<rparr>) = settings w"
  "settings (w\<lparr>po_isolationModeTotalDebt := z\<rparr>) = settings w"
  by (simp_all add: settings_def fun_eq_iff)

text \<open>Setting one field of one reserve.\<close>

definition oneSetting :: "string \<Rightarrow> config_field \<Rightarrow> u256 \<Rightarrow> pool \<Rightarrow> pool \<Rightarrow> bool" where
  "oneSetting asset f v w w' \<longleftrightarrow> settings w' = assign (settings w) (asset, f, v) \<and> sameBut w w'"

lemma setConfiguration_one:
  assumes "setConfiguration asset c w = Inr w'" "setField f (po_configuration w asset) v = Inr c"
  shows "oneSetting asset f v w w'"
proof -
  have "w' = w\<lparr>po_configuration := (po_configuration w)(asset := c)\<rparr>"
    using assms(1) by (simp add: setConfiguration_def rbind_eq_Inr)
  then show ?thesis
    using getField_setField[OF assms(2)]
    by (auto simp: oneSetting_def sameBut_def settings_def assign.simps fun_eq_iff)
qed

named_theorems one_setting \<open>transactions that set one field\<close>

lemma setReservePause_one [one_setting]:
  "setReservePause sender asset b w = Inr w' \<Longrightarrow> oneSetting asset InPaused (of_bool b) w w'"
  by (auto simp: setReservePause_def rbind_eq_Inr intro!: setConfiguration_one)

lemma setBorrowableInIsolation_one [one_setting]:
  "setBorrowableInIsolation sender asset b w = Inr w' \<Longrightarrow> oneSetting asset InBorrowableInIsolation (of_bool b) w w'"
  by (auto simp: setBorrowableInIsolation_def rbind_eq_Inr intro!: setConfiguration_one)

lemma setReserveStableRateBorrowing_one [one_setting]:
  "setReserveStableRateBorrowing sender asset b w = Inr w' \<Longrightarrow>
     oneSetting asset InStableRateBorrowingEnabled (of_bool b) w w'"
  by (auto simp: setReserveStableRateBorrowing_def rbind_eq_Inr intro!: setConfiguration_one)

lemma setSupplyCap_one [one_setting]:
  "setSupplyCap sender asset v w = Inr w' \<Longrightarrow> oneSetting asset InSupplyCap v w w'"
  by (auto simp: setSupplyCap_def rbind_eq_Inr intro!: setConfiguration_one)

lemma setLiquidationProtocolFee_one [one_setting]:
  "setLiquidationProtocolFee sender asset v w = Inr w' \<Longrightarrow> oneSetting asset InLiquidationProtocolFee v w w'"
  by (auto simp: setLiquidationProtocolFee_def rbind_eq_Inr intro!: setConfiguration_one)

lemma setAssetEModeCategory_one [one_setting]:
  "setAssetEModeCategory sender asset v w = Inr w' \<Longrightarrow> oneSetting asset InEModeCategory v w w'"
  by (auto simp: setAssetEModeCategory_def rbind_eq_Inr intro!: setConfiguration_one)

lemma setDebtCeiling_one [one_setting]:
  assumes "setDebtCeiling sender asset v w = Inr w'"
  shows "oneSetting asset InDebtCeiling v w w'"
proof -
  from assms obtain c u where u: "setDebtCeiling_bits (po_configuration w asset) v = Inr c"
      "setConfiguration asset c w = Inr u" "w' = u \<or> resetIsolationModeTotalDebt asset u = Inr w'"
    by (auto simp: setDebtCeiling_def rbind_eq_Inr split: if_splits)
  have "oneSetting asset InDebtCeiling v w u"
    by (rule setConfiguration_one[OF u(2)]) (simp add: u(1))
  moreover have "settings w' = settings u" "sameBut u w'"
    using u(3) by (auto simp: resetIsolationModeTotalDebt_def rbind_eq_Inr sameBut_def)
  ultimately show ?thesis unfolding oneSetting_def using sameBut_trans by metis
qed

lemma setPoolPause_settings:
  "foldM (\<lambda>w reserve. if reserve \<noteq> ZERO_ADDRESS then setReservePause sender reserve b w else Inr w) w rs = Inr w' \<Longrightarrow>
   settings w' = foldl assign (settings w) (map (\<lambda>r. (r, InPaused, of_bool b)) (filter (\<lambda>r. r \<noteq> ZERO_ADDRESS) rs)) \<and>
   sameBut w w'"
proof (induction rs arbitrary: w)
  case (Cons r rs)
  show ?case
  proof (cases "r = ZERO_ADDRESS")
    case False
    then obtain u where "oneSetting r InPaused (of_bool b) w u"
        "settings w' = foldl assign (settings u) (map (\<lambda>r. (r, InPaused, of_bool b)) (filter (\<lambda>r. r \<noteq> ZERO_ADDRESS) rs)) \<and>
         sameBut u w'"
      using Cons by (auto simp: rbind_eq_Inr dest: one_setting)
    then show ?thesis using False sameBut_trans[of w u w'] by (simp add: oneSetting_def)
  qed (use Cons in simp)
qed simp

definition mayConfigure :: "string \<Rightarrow> configurator_call \<Rightarrow> pool \<Rightarrow> bool" where
  "mayConfigure sender call w \<longleftrightarrow>
     (case call of
        SetPoolPause _ \<Rightarrow> isEmergencyAdmin sender (po_acl w)
      | _ \<Rightarrow> isRiskAdmin sender (po_acl w) \<or> isPoolAdmin sender (po_acl w))"

lemma submit_settings:
  assumes "submit sender call w = Inr w'"
  shows "settings w' = foldl assign (settings w) (effect call (po_reservesList w)) \<and> sameBut w w'"
proof (cases call)
  case (SetPoolPause b)
  then show ?thesis using assms setPoolPause_settings by (auto simp: setPoolPause_def rbind_eq_Inr)
next
  case (SetEModeCategory i ltv threshold bonus priceSource label)
  then show ?thesis
    using assms by (auto simp: setEModeCategory_def configureEModeCategory_def rbind_eq_Inr sameBut_def)
next
  case (SetReserveInterestRateStrategyAddress asset a)
  then show ?thesis
    using assms by (auto simp: setReserveInterestRateStrategyAddress_def setStrategyAddress_def rbind_eq_Inr sameBut_def)
qed (use assms in \<open>auto simp: rbind_eq_Inr encode_eq oneSetting_def dest!: one_setting\<close>)

lemma submit_authorised: "submit sender call w = Inr w' \<Longrightarrow> mayConfigure sender call w"
  by (cases call) (auto simp: mayConfigure_def rbind_eq_Inr encode_eq onlyRiskOrPoolAdmins_def onlyEmergencyAdmin_def
      setDebtCeiling_def setLiquidationProtocolFee_def setBorrowableInIsolation_def setReserveStableRateBorrowing_def
      setSupplyCap_def setEModeCategory_def setAssetEModeCategory_def setReserveInterestRateStrategyAddress_def
      setPoolPause_def)

end
