(* ===== verification/SetupTasks.thy ===== *)
theory SetupTasks
  imports EthereumMarket Configurator
begin

text \<open>
  The tasks that write the market configuration to the pool: \<open>tasks/misc/setup-debt-ceiling.ts\<close>,
  \<open>setup-liquidation-protocol-fee.ts\<close>, \<open>setup-isolation-mode.ts\<close> and \<open>setup-e-modes.ts\<close>. The pool
  administrator signs; the contracts the tasks load are those of the state. Messages are left out.
\<close>

section \<open>The tasks\<close>

definition setupDebtCeiling ::
    "string \<Rightarrow> market_env \<Rightarrow> 'a pool_configuration_scheme \<Rightarrow> (pool, unit) act" where
  "setupDebtCeiling poolAdmin env config =
     forEach (\<lambda>(asset, p).
       abind (areturn (getReserveAddress env config asset)) (\<lambda>assetAddress.
       if 0 < debtCeiling p then transact (submit poolAdmin (SetDebtCeiling assetAddress (debtCeiling p)))
       else areturn (Inr ())))
     (ReservesConfig config)"

text \<open>\<open>BigNumber.from(undefined)\<close> throws.\<close>

definition setupLiquidationProtocolFee ::
    "string \<Rightarrow> market_env \<Rightarrow> 'a pool_configuration_scheme \<Rightarrow> (pool, unit) act" where
  "setupLiquidationProtocolFee poolAdmin env config =
     forEach (\<lambda>(asset, p).
       abind (areturn (case liquidationProtocolFee p of
           None \<Rightarrow> Inl (Thrown ''invalid BigNumber value'') | Some fee \<Rightarrow> Inr fee)) (\<lambda>fee.
       abind (areturn (getReserveAddress env config asset)) (\<lambda>assetAddress.
       if 0 < fee then transact (submit poolAdmin (SetLiquidationProtocolFee assetAddress fee))
       else areturn (Inr ()))))
     (ReservesConfig config)"

definition setupIsolationMode ::
    "string \<Rightarrow> market_env \<Rightarrow> 'a pool_configuration_scheme \<Rightarrow> (pool, unit) act" where
  "setupIsolationMode poolAdmin env config =
     forEach (\<lambda>(asset, p).
       abind (areturn (getReserveAddress env config asset)) (\<lambda>assetAddress.
       if assetAddress \<noteq> [] \<and> borrowableIsolation p
       then transact (submit poolAdmin (SetBorrowableInIsolation assetAddress (borrowableIsolation p)))
       else areturn (Inr ())))
     (ReservesConfig config)"

definition setupEModes :: "string \<Rightarrow> market_env \<Rightarrow> market_configuration \<Rightarrow> (pool, unit) act" where
  "setupEModes poolAdmin env config =
     forEach (\<lambda>(_, eMode).
       abind (areturn (if truthy (em_oracleId eMode) then getOracleByAsset env config (the (em_oracleId eMode))
                       else Inr ZERO_ADDRESS)) (\<lambda>oracle.
       abind (transact (submit poolAdmin (SetEModeCategory (em_id eMode) (em_ltv eMode)
           (em_liquidationThreshold eMode) (em_liquidationBonus eMode) oracle (em_label eMode)))) (\<lambda>_.
       forEach (\<lambda>asset.
           abind (areturn (getReserveAddress env config asset)) (\<lambda>assetAddress.
           transact (submit poolAdmin (SetAssetEModeCategory assetAddress (em_id eMode)))))
         (em_assets eMode))))
     (EModes config)"

end
