(* ===== verification/ReviewTasks.thy ===== *)
theory ReviewTasks
  imports SetupTasks
begin

text \<open>
  The tasks that compare the pool with the market configuration and can bring it in line,
  \<open>tasks/misc/review-stable-borrow.ts\<close>, \<open>review-supply-caps.ts\<close>, \<open>review-rate-strategies.ts\<close> and
  \<open>review-e-mode.ts\<close>, and the hook after a deployment, \<open>deploy/01-after-deploy.ts\<close>, that runs the setup
  and review tasks. An option that is not given is the empty string or false. What a task reads again
  only to print it is left out.
\<close>

section \<open>Which reserves are checked, and against what\<close>

definition reservesToCheck :: "string \<Rightarrow> (string \<times> string) list \<Rightarrow> (string \<times> string) list" where
  "reservesToCheck checkOnly reserves =
     (let checkOnlyReserves = (if checkOnly = [] then [] else split_commas checkOnly) in
      if checkOnlyReserves \<noteq> [] then filter (\<lambda>(reserveSymbol, _). reserveSymbol \<in> set checkOnlyReserves) reserves
      else reserves)"

text \<open>\<open>toUpperCase\<close> on the letters of ASCII; symbols have no others.\<close>

definition toUpperCase :: "string \<Rightarrow> string" where
  "toUpperCase s = map (\<lambda>c. if CHR ''a'' \<le> c \<and> c \<le> CHR ''z'' then char_of (of_char c - 32 :: nat) else c) s"

text \<open>
  The first configured symbol that is part of the reserve's symbol, in upper case; its configuration is
  then looked up under the upper-case key.
\<close>

definition configuredReserve :: "'a pool_configuration_scheme \<Rightarrow> string \<Rightarrow> reserve_params result" where
  "configuredReserve config symb =
     (case find (\<lambda>s. hasSubstring (toUpperCase s) (toUpperCase symb)) (obj_keys (ReservesConfig config)) of
        None \<Rightarrow> Inl (ProcessExit 3)
      | Some s \<Rightarrow> if s = [] then Inl (ProcessExit 3) else getf (obj_get (ReservesConfig config) (toUpperCase s)))"

text \<open>Compare one value with the expected one, and write it when they differ and \<open>fix\<close> is set.\<close>

definition bringInLine ::
    "bool \<Rightarrow> (string \<Rightarrow> 'w \<Rightarrow> 'v) \<Rightarrow> (string \<Rightarrow> 'v \<Rightarrow> 'w \<Rightarrow> 'w result) \<Rightarrow> string \<Rightarrow> 'v \<Rightarrow> ('w, unit) act" where
  "bringInLine fx read write asset expected =
     abind (ask (\<lambda>w. Inr (read asset w))) (\<lambda>onChain.
     if expected \<noteq> onChain \<and> fx then transact (write asset expected) else areturn (Inr ()))"

section \<open>Stable borrowing\<close>

definition reviewStableBorrow :: "bool \<Rightarrow> string \<Rightarrow> string \<Rightarrow> 'a pool_configuration_scheme \<Rightarrow> (pool, unit) act" where
  "reviewStableBorrow fx checkOnly poolAdmin config =
     abind (ask (\<lambda>w. Inr (getAllReservesTokens w))) (\<lambda>reserves.
     forEach (\<lambda>(symb, tokenAddress).
       abind (areturn (configuredReserve config symb)) (\<lambda>p.
       bringInLine fx stableBorrowRateEnabledOf (\<lambda>a b. submit poolAdmin (SetReserveStableRateBorrowing a b))
         tokenAddress (stableBorrowRateEnabled p)))
     (reservesToCheck checkOnly reserves))"

section \<open>Supply caps\<close>

text \<open>
  The key of the last asset of the configuration with the address of the token. A cap of the
  configuration is a decimal string without leading zeros, so that comparing the strings compares the
  numbers.
\<close>

definition symbolOfAddress :: "address_lib \<Rightarrow> string obj \<Rightarrow> string \<Rightarrow> string result" where
  "symbolOfAddress lib reserveAssets tokenAddress =
     foldM (\<lambda>normalizedSymbol (key, val).
         rbind (getAddress lib val) (\<lambda>x. rbind (getAddress lib tokenAddress) (\<lambda>y.
         Inr (if x = y then key else normalizedSymbol))))
       [] reserveAssets"

definition supplyCapOf :: "string \<Rightarrow> pool \<Rightarrow> int" where
  "supplyCapOf asset w = uint (snd (getReserveCaps asset w))"

definition reviewSupplyCaps ::
    "bool \<Rightarrow> string \<Rightarrow> string \<Rightarrow> market_env \<Rightarrow> 'a pool_configuration_scheme \<Rightarrow> (pool, unit) act" where
  "reviewSupplyCaps fx checkOnly poolAdmin env config =
     abind (ask (\<lambda>w. Inr (getAllReservesTokens w))) (\<lambda>reserves.
     case getParamPerNetwork (ReserveAssets config) (networkName env) of
       None \<Rightarrow> areturn (Inl (ProcessExit 2))
     | Some reserveAssets \<Rightarrow>
         forEach (\<lambda>(symb, tokenAddress).
           abind (areturn (symbolOfAddress (addresses env) reserveAssets tokenAddress)) (\<lambda>normalizedSymbol.
           abind (areturn (if normalizedSymbol = [] then Inl (ProcessExit 3)
             else getf (obj_get (ReservesConfig config) (toUpperCase normalizedSymbol)))) (\<lambda>p.
           bringInLine fx supplyCapOf (\<lambda>a v. submit poolAdmin (SetSupplyCap a v)) tokenAddress (supplyCap p))))
         (reservesToCheck checkOnly reserves))"

section \<open>Rate strategies\<close>

text \<open>What the contract at an address says of itself, under the expected name.\<close>

definition currentStrategy :: "string \<Rightarrow> rate_strategy \<Rightarrow> interest_rate_strategy_params result" where
  "currentStrategy nam s =
     rbind (getBaseStableBorrowRate s) (\<lambda>base.
     Inr \<lparr>strategy_name = nam, optimalUsageRatio = uint (OPTIMAL_USAGE_RATIO s),
       baseVariableBorrowRate = uint (rs_baseVariableBorrowRate s),
       variableRateSlope1 = uint (rs_variableRateSlope1 s), variableRateSlope2 = uint (rs_variableRateSlope2 s),
       stableRateSlope1 = uint (rs_stableRateSlope1 s), stableRateSlope2 = uint (rs_stableRateSlope2 s),
       baseStableRateOffset = uint base - uint (rs_variableRateSlope1 s),
       stableRateExcessOffset = uint (rs_stableRateExcessOffset s),
       optimalStableToTotalDebtRatio = uint (OPTIMAL_STABLE_TO_TOTAL_DEBT_RATIO s)\<rparr>)"

text \<open>
  A deterministic deployment: the address is a function of the parameters (and of the deployer and the
  code), and what is already there is kept.
\<close>

definition deployStrategy ::
    "(interest_rate_strategy_params \<Rightarrow> string) \<Rightarrow> interest_rate_strategy_params \<Rightarrow> pool \<Rightarrow> pool result" where
  "deployStrategy addressOf p w =
     (case po_strategies w (addressOf p) of
        Some _ \<Rightarrow> Inr w
      | None \<Rightarrow> rbind (new_rate_strategy p) (\<lambda>s.
          Inr (w\<lparr>po_strategies := (po_strategies w)(addressOf p \<mapsto> s)\<rparr>)))"

definition reviewRateStrategies ::
    "bool \<Rightarrow> bool \<Rightarrow> string \<Rightarrow> string \<Rightarrow> (interest_rate_strategy_params \<Rightarrow> string) \<Rightarrow>
      'a pool_configuration_scheme \<Rightarrow> (pool, unit) act" where
  "reviewRateStrategies fx deploy checkOnly poolAdmin addressOf config =
     abind (ask (\<lambda>w. Inr (getAllReservesTokens w))) (\<lambda>reserves.
     forEach (\<lambda>(symb, tokenAddress).
       abind (areturn (configuredReserve config symb)) (\<lambda>p.
       abind (ask (\<lambda>w. rbind (getf (po_strategies w (po_strategy w tokenAddress)))
         (currentStrategy (strategy_name (strategy p))))) (\<lambda>current.
       if current \<noteq> strategy p \<and> deploy then
         abind (transact (deployStrategy addressOf (strategy p))) (\<lambda>_.
         if fx then transact (submit poolAdmin
           (SetReserveInterestRateStrategyAddress tokenAddress (addressOf (strategy p))))
         else areturn (Inr ()))
       else areturn (Inr ()))))
     (reservesToCheck checkOnly reserves))"

section \<open>Efficiency modes\<close>

text \<open>The configured mode is always the one under the key \<open>StableEMode\<close>; the label is taken from the pool.\<close>

definition reviewEMode :: "int \<Rightarrow> bool \<Rightarrow> string \<Rightarrow> market_env \<Rightarrow> market_configuration \<Rightarrow> (pool, unit) act" where
  "reviewEMode i fx poolAdmin env config =
     abind (ask (\<lambda>w. rbind (encode 8 i) (\<lambda>n. Inr (po_eModes w n)))) (\<lambda>onChain.
     abind (areturn (getf (obj_get (EModes config) ''StableEMode''))) (\<lambda>eMode.
     abind (areturn (if truthy (em_oracleId eMode) then getOracleByAsset env config (the (em_oracleId eMode))
                     else Inr ZERO_ADDRESS)) (\<lambda>priceSource.
     if (uint (ec_ltv onChain), uint (ec_liquidationThreshold onChain), uint (ec_liquidationBonus onChain),
           ec_priceSource onChain) \<noteq>
         (em_ltv eMode, em_liquidationThreshold eMode, em_liquidationBonus eMode, priceSource) \<and> fx
     then transact (submit poolAdmin (SetEModeCategory i (em_ltv eMode) (em_liquidationThreshold eMode)
       (em_liquidationBonus eMode) priceSource (ec_label onChain)))
     else areturn (Inr ()))))"

section \<open>After a deployment\<close>

text \<open>
  The hook in its order. The first signer unpauses the pool of a test market; the three tasks on the
  ownership of the protocol, run on demand, are an argument.
\<close>

definition afterDeploy ::
    "string \<Rightarrow> string \<Rightarrow> (interest_rate_strategy_params \<Rightarrow> string) \<Rightarrow> market_env \<Rightarrow> string option \<Rightarrow>
      (pool, unit) act \<Rightarrow> market_configuration \<Rightarrow> (pool, unit) act" where
  "afterDeploy signer poolAdmin addressOf env TRANSFER_OWNERSHIP handover config =
     sequenceActs
      [reviewStableBorrow True [] poolAdmin config,
       reviewRateStrategies False False [] poolAdmin addressOf config,
       setupDebtCeiling poolAdmin env config,
       setupIsolationMode poolAdmin env config,
       setupEModes poolAdmin env config,
       setupLiquidationProtocolFee poolAdmin env config,
       abind (areturn (isTestnetMarket env config)) (\<lambda>testnet.
         if testnet then transact (submit signer (SetPoolPause False)) else areturn (Inr ())),
       if TRANSFER_OWNERSHIP = Some ''true'' then handover else areturn (Inr ())]"

end
