(* ===== verification/PoolDemo.thy ===== *)
theory PoolDemo
  imports ReviewTasks
begin

text \<open>A pool right after the reserves of the Ethereum market were listed; the witnesses run on it.\<close>

section \<open>A fresh pool of the Ethereum market\<close>

definition fresh_pool :: pool where
  "fresh_pool = \<lparr>
     po_acl = \<lparr>members = (\<lambda>_. {})(POOL_ADMIN_ROLE := {''0xadmin''}), adminRole = (\<lambda>_. DEFAULT_ADMIN_ROLE)\<rparr>,
     po_reservesList = map snd (the (obj_get (the (ReserveAssets EthereumMarket)) ''lisk'')),
     po_configuration = (\<lambda>_. 0),
     po_strategy = (\<lambda>_. ''0xstrategy''),
     po_strategies = Map.empty(''0xstrategy'' \<mapsto> \<lparr>OPTIMAL_USAGE_RATIO = 0, MAX_EXCESS_USAGE_RATIO = 0,
       OPTIMAL_STABLE_TO_TOTAL_DEBT_RATIO = 0, MAX_EXCESS_STABLE_TO_TOTAL_DEBT_RATIO = 0,
       rs_baseVariableBorrowRate = 0, rs_variableRateSlope1 = 0, rs_variableRateSlope2 = 0, rs_stableRateSlope1 = 0,
       rs_stableRateSlope2 = 0, rs_baseStableRateOffset = 0, rs_stableRateExcessOffset = 0\<rparr>),
     po_eModes = (\<lambda>_. \<lparr>ec_ltv = 0, ec_liquidationThreshold = 0, ec_liquidationBonus = 0,
       ec_priceSource = ZERO_ADDRESS, ec_label = []\<rparr>),
     po_symbol = (\<lambda>a. if a = ''0x4200000000000000000000000000000000000006'' then ''WETH''
       else if a = ''0xac485391EB2d7D88253a7F1eF18C37f4242D1A24'' then ''LSK'' else ''USDT''),
     po_supplied = (\<lambda>_. False),
     po_borrowed = (\<lambda>_. False),
     po_isolationModeTotalDebt = (\<lambda>_. 0)\<rparr>"

lemma fresh_distinct: "distinct (po_reservesList fresh_pool)"
  by code_simp

lemma fresh_acl: "members (po_acl fresh_pool) POOL_ADMIN_ROLE = {''0xadmin''}"
  by (simp add: fresh_pool_def)

lemma run_split: "fst p = Inr () \<Longrightarrow> p = (Inr (), snd p)"
  by (metis prod.collapse)

lemma lisk_addresses:
  "getReserveAddress lisk_env EthereumMarket ''WETH'' = Inr ''0x4200000000000000000000000000000000000006''"
  "getReserveAddress lisk_env EthereumMarket ''LSK'' = Inr ''0xac485391EB2d7D88253a7F1eF18C37f4242D1A24''"
  "getReserveAddress lisk_env EthereumMarket ''USDT'' = Inr ''0x05D032ac25d322df992303dCa074EE7392C117b9''"
  by code_simp+

lemma ethereum_reserves_list: "ReservesConfig EthereumMarket =
    [(''WETH'', strategyWETH), (''LSK'', strategyLSK), (''USDT'', strategyUSDT)]"
  by (simp add: EthereumMarket_def)

end
