(* ===== verification/TaskProps.thy ===== *)
theory TaskProps
  imports PoolDemo
begin

text \<open>
  What the setup and review tasks do to the pool: which transactions they send, which settings the
  reserves have afterwards, and that a review brings a setting in line once and for all.
\<close>

section \<open>Loops that look something up first\<close>

lemma forEach_lookup_at:
  "mapM f xs = Inr ys \<Longrightarrow> forEach (\<lambda>x. abind (areturn (f x)) (g x)) xs = forEach (\<lambda>(x, y). g x y) (zip xs ys)"
  by (induction xs arbitrary: ys) (auto simp: rbind_eq_Inr abind_areturn_Inr)

lemma forEach_lookup:
  assumes "forEach (\<lambda>x. abind (areturn (f x)) (g x)) xs w = (Inr u, w')"
  shows "\<exists>ys. mapM f xs = Inr ys \<and> forEach (\<lambda>(x, y). g x y) (zip xs ys) w = (Inr u, w')"
  using assms
proof (induction xs arbitrary: w)
  case Nil
  then show ?case by simp
next
  case (Cons x xs)
  from Cons.prems obtain v where v: "abind (areturn (f x)) (g x) w = (Inr (), v)"
      "forEach (\<lambda>x. abind (areturn (f x)) (g x)) xs v = (Inr u, w')"
    by (auto simp: abind_eq_Inr[of "abind (areturn (f x)) (g x)"] simp del: abind_areturn)
  then obtain y where y: "f x = Inr y" "g x y w = (Inr (), v)"
    by (auto split: sum.splits)
  from Cons.IH[OF v(2)] obtain ys where "mapM f xs = Inr ys"
      "forEach (\<lambda>(x, y). g x y) (zip xs ys) v = (Inr u, w')"
    by blast
  then show ?case using y by (auto simp: abind_at)
qed

lemma forEach_map: "forEach body (map h xs) = forEach (\<lambda>x. body (h x)) xs"
  by (simp add: forEach_def comp_def)

lemma mapM_mem: "mapM f xs = Inr ys \<Longrightarrow> x \<in> set xs \<Longrightarrow> \<exists>y. f x = Inr y \<and> (x, y) \<in> set (zip xs ys)"
  by (auto simp: mapM_eq_Inr_iff list_all2_conv_all_nth in_set_conv_nth set_zip)

lemma mapM_total: "\<forall>x\<in>set xs. \<exists>y. f x = Inr y \<Longrightarrow> \<exists>ys. mapM f xs = Inr ys"
  by (induction xs) auto

lemma zip_mapM: "mapM f xs = Inr ys \<Longrightarrow> (x, y) \<in> set (zip xs ys) \<Longrightarrow> x \<in> set xs \<and> f x = Inr y"
  by (auto simp: mapM_eq_Inr_iff list_all2_conv_all_nth set_zip)

lemma forEach_keeps:
  assumes "forEach body xs w = (r, w')" "P w"
    "\<And>x v v' r. x \<in> set xs \<Longrightarrow> P v \<Longrightarrow> body x v = (r, v') \<Longrightarrow> P v'"
  shows "P w'"
  using assms
proof (induction xs arbitrary: w)
  case Nil
  then show ?case by (simp add: areturn_eq)
next
  case (Cons x xs)
  obtain s v where v: "body x w = (s, v)" by fastforce
  have p: "P v" using Cons.prems(2,3) v by (metis list.set_intros(1))
  show ?case
  proof (cases s)
    case (Inl e)
    then show ?thesis using Cons.prems(1) v p by (simp add: abind_at)
  next
    case (Inr u)
    then have "forEach body xs v = (r, w')" using Cons.prems(1) v by (simp add: abind_at)
    then show ?thesis using Cons.IH p Cons.prems(3) by (metis list.set_intros(2))
  qed
qed

lemma abind_areturn_rbind: "abind (areturn m) (\<lambda>x. abind (areturn (g x)) h) = abind (areturn (rbind m g)) h"
  by (rule ext) (simp split: sum.split)

lemma forEach_ok_keeps:
  assumes "forEach body xs w = (Inr u, w')" "Q w"
    "\<And>y v v'. y \<in> set xs \<Longrightarrow> Q v \<Longrightarrow> body y v = (Inr (), v') \<Longrightarrow> Q v'"
  shows "Q w'"
  using assms
proof (induction xs arbitrary: w)
  case (Cons x xs)
  from Cons.prems(1) obtain v where v: "body x w = (Inr (), v)" "forEach body xs v = (Inr u, w')"
    by (auto simp: act_inv)
  have "Q v" using Cons.prems(2,3) v(1) by (metis list.set_intros(1))
  then show ?case using Cons.IH[OF v(2)] Cons.prems(3) by (metis list.set_intros(2))
qed (simp add: areturn_eq)

text \<open>What the body of one element establishes and no body destroys holds after the loop.\<close>

lemma forEach_reaches:
  assumes "forEach body xs w = (Inr u, w')" "x \<in> set xs"
    "\<And>v v'. body x v = (Inr (), v') \<Longrightarrow> Q v'"
    "\<And>y v v'. y \<in> set xs \<Longrightarrow> Q v \<Longrightarrow> body y v = (Inr (), v') \<Longrightarrow> Q v'"
  shows "Q w'"
  using assms
proof (induction xs arbitrary: w)
  case (Cons y ys)
  from Cons.prems(1) obtain v where v: "body y w = (Inr (), v)" "forEach body ys v = (Inr u, w')"
    by (auto simp: act_inv)
  show ?case
  proof (cases "x = y")
    case True
    then have "Q v" using Cons.prems(3) v(1) by simp
    then show ?thesis using forEach_ok_keeps[OF v(2), of Q] Cons.prems(4) by (metis list.set_intros(2))
  next
    case False
    then show ?thesis using Cons.IH[OF v(2)] Cons.prems(2-4) by (metis list.set_intros(2) set_ConsD)
  qed
qed simp

section \<open>A setting of an asset\<close>

text \<open>
  Each asset has a value that can be read and written on its own. The laws suffice for the review
  loops: after a review every reviewed asset has its expected value, and another review writes nothing.
\<close>

locale asset_setting =
  fixes look :: "string \<Rightarrow> 'w \<Rightarrow> 'v"
    and store :: "string \<Rightarrow> 'v \<Rightarrow> 'w \<Rightarrow> 'w result"
  assumes store_look: "store a v w = Inr w' \<Longrightarrow> look b w' = (if b = a then v else look b w)"
begin

lemma inLine_reads:
  "bringInLine True look store a v w = (Inr u, w') \<Longrightarrow> look b w' = (if b = a then v else look b w)"
  by (auto simp: bringInLine_def act_inv store_look split: if_splits)

lemma inLine_idle: "look a w = v \<or> \<not> fx \<Longrightarrow> bringInLine fx look store a v w = (Inr (), w)"
  by (auto simp: bringInLine_def areturn_eq)

lemma review_reads:
  assumes "forEach (\<lambda>(a, v). bringInLine True look store a v) avs w = (Inr u, w')" "distinct (map fst avs)"
  shows "look b w' = (case map_of avs b of Some v \<Rightarrow> v | None \<Rightarrow> look b w)"
  using assms
proof (induction avs arbitrary: w)
  case Nil
  then show ?case by (simp add: areturn_eq)
next
  case (Cons av avs)
  obtain a v where av: "av = (a, v)" by fastforce
  from Cons.prems(1) obtain x where x: "bringInLine True look store a v w = (Inr (), x)"
      "forEach (\<lambda>(a, v). bringInLine True look store a v) avs x = (Inr u, w')"
    by (auto simp: av act_inv)
  have "look b w' = (case map_of avs b of Some v \<Rightarrow> v | None \<Rightarrow> look b x)"
    using Cons.IH[OF x(2)] Cons.prems(2) by simp
  moreover have "map_of avs a = None" using Cons.prems(2) by (simp add: av map_of_eq_None_iff)
  ultimately show ?case using inLine_reads[OF x(1), of b] by (auto simp: av split: option.split)
qed

lemma review_idle:
  assumes "\<forall>(a, v)\<in>set avs. look a w = v \<or> \<not> fx"
  shows "forEach (\<lambda>(a, v). bringInLine fx look store a v) avs w = (Inr (), w)"
  using assms by (induction avs) (auto simp: areturn_eq inLine_idle abind_at)

lemma looked_up_review:
  assumes "forEach (\<lambda>x. abind (areturn (f x)) (\<lambda>p. bringInLine True look store (snd x) (e p))) rs w = (Inr u, w')"
    "distinct (map snd rs)" "x \<in> set rs"
  shows "\<exists>p. f x = Inr p \<and> look (snd x) w' = e p"
proof -
  from forEach_lookup[OF assms(1)] obtain ps where ps: "mapM f rs = Inr ps"
      "forEach (\<lambda>(x, p). bringInLine True look store (snd x) (e p)) (zip rs ps) w = (Inr u, w')"
    by blast
  let ?avs = "map (\<lambda>(x, p). (snd x, e p)) (zip rs ps)"
  have fst: "map fst ?avs = map snd rs"
    using mapM_length[OF ps(1)] by (simp add: comp_def case_prod_beta' flip: map_map[of snd fst, unfolded comp_def])
  have "forEach (\<lambda>(a, v). bringInLine True look store a v) ?avs w = (Inr u, w')"
    using ps(2) by (simp add: forEach_map case_prod_beta')
  then have look: "look b w' = (case map_of ?avs b of Some v \<Rightarrow> v | None \<Rightarrow> look b w)" for b
    using review_reads fst assms(2) by metis
  from mapM_mem[OF ps(1) assms(3)] obtain p where p: "f x = Inr p" "(x, p) \<in> set (zip rs ps)" by blast
  have "map_of ?avs (snd x) = Some (e p)"
    using p(2) fst assms(2) by (intro map_of_is_SomeI) (auto intro!: image_eqI[of _ _ "(x, p)"])
  then show ?thesis using p(1) look by simp
qed

lemma looked_up_idle:
  assumes "\<forall>x\<in>set rs. \<exists>p. f x = Inr p \<and> (look (snd x) w = e p \<or> \<not> fx)"
  shows "forEach (\<lambda>x. abind (areturn (f x)) (\<lambda>p. bringInLine fx look store (snd x) (e p))) rs w = (Inr (), w)"
  using assms by (induction rs) (auto simp: areturn_eq inLine_idle abind_at abind_areturn_Inr)

text \<open>A loop that writes the value of an element under a condition.\<close>

lemma guarded_reaches:
  assumes "forEach (\<lambda>x. abind (areturn (address x)) (\<lambda>a. if on x a then transact (store a (e x)) else areturn (Inr ()))) xs w =
      (Inr u, w')" "x \<in> set xs" "address x = Inr a" "on x a" "\<And>y. y \<in> set xs \<Longrightarrow> address y = Inr a \<Longrightarrow> y = x"
  shows "look a w' = e x"
proof -
  have step: "\<exists>b. address y = Inr b \<and> look a v' = (if a = b \<and> on y b then e y else look a v)"
    if "abind (areturn (address y)) (\<lambda>a. if on y a then transact (store a (e y)) else areturn (Inr ())) v = (Inr (), v')"
    for y v v'
    using that by (auto simp: act_inv store_look split: if_splits sum.splits)
  show ?thesis
  proof (rule forEach_reaches[OF assms(1,2)])
    fix v v'
    assume "abind (areturn (address x)) (\<lambda>a. if on x a then transact (store a (e x)) else areturn (Inr ())) v = (Inr (), v')"
    from step[OF this] show "look a v' = e x" using assms(3,4) by auto
  next
    fix y v v'
    assume y: "y \<in> set xs" "look a v = e x"
      "abind (areturn (address y)) (\<lambda>a. if on y a then transact (store a (e y)) else areturn (Inr ())) v = (Inr (), v')"
    from step[OF y(3)] show "look a v' = e x" using assms(5)[OF y(1)] y(2) by auto
  qed
qed

lemma looked_up_dry:
  assumes "forEach (\<lambda>x. abind (areturn (f x)) (\<lambda>p. bringInLine False look store (snd x) (e p))) rs w = (r, w')"
  shows "w' = w"
  by (rule forEach_keeps[OF assms, of "\<lambda>v. v = w"]) (auto simp: inLine_idle split: sum.splits)

end

interpretation stable: asset_setting stableBorrowRateEnabledOf
    "\<lambda>a b. submit sender (SetReserveStableRateBorrowing a b)" for sender
proof
  fix a b v w w'
  assume "submit sender (SetReserveStableRateBorrowing a v) w = Inr w'"
  from submit_settings[OF this] have "settings w' b InStableRateBorrowingEnabled =
      (if b = a then of_bool v else settings w b InStableRateBorrowingEnabled)"
    by (auto simp: assign.simps)
  then show "stableBorrowRateEnabledOf b w' = (if b = a then v else stableBorrowRateEnabledOf b w)"
    by (auto simp: stableBorrowRateEnabledOf_def bundles_read settings_def split: if_splits)
qed

text \<open>Calls that write a number to a field of a reserve.\<close>

lemma number_setting:
  assumes "\<And>a v rs. effect (call a v) rs = [(a, f, word_of_int v)]"
    "\<And>a v w w'. submit sender (call a v) w = Inr w' \<Longrightarrow> encode 256 v = Inr (word_of_int v)"
  shows "asset_setting (\<lambda>a w. uint (settings w a f)) (\<lambda>a v. submit sender (call a v))"
proof
  fix a b v w w'
  assume s: "submit sender (call a v) w = Inr w'"
  then show "uint (settings w' b f) = (if b = a then v else uint (settings w b f))"
    using submit_settings[OF s] uint_encoded[OF assms(2)[OF s]] by (simp add: assms(1) assign.simps)
qed

interpretation debt_ceiling: asset_setting "\<lambda>a w. uint (settings w a InDebtCeiling)"
    "\<lambda>a v. submit sender (SetDebtCeiling a v)" for sender
  by (rule number_setting) (auto simp: rbind_eq_Inr encode_eq)

interpretation protocol_fee: asset_setting "\<lambda>a w. uint (settings w a InLiquidationProtocolFee)"
    "\<lambda>a v. submit sender (SetLiquidationProtocolFee a v)" for sender
  by (rule number_setting) (auto simp: rbind_eq_Inr encode_eq)

lemma supplyCapOf_setting: "supplyCapOf = (\<lambda>a w. uint (settings w a InSupplyCap))"
  by (intro ext) (simp add: supplyCapOf_def getReserveCaps_def bundles_read settings_def)

interpretation supply_cap: asset_setting supplyCapOf "\<lambda>a v. submit sender (SetSupplyCap a v)" for sender
  unfolding supplyCapOf_setting by (rule number_setting) (auto simp: rbind_eq_Inr encode_eq)

interpretation isolation: asset_setting "\<lambda>a w. settings w a InBorrowableInIsolation = 1"
    "\<lambda>a b. submit sender (SetBorrowableInIsolation a b)" for sender
proof
  fix a b v w w'
  assume "submit sender (SetBorrowableInIsolation a v) w = Inr w'"
  from submit_settings[OF this]
  show "(settings w' b InBorrowableInIsolation = 1) = (if b = a then v else settings w b InBorrowableInIsolation = 1)"
    by (simp add: assign.simps)
qed

section \<open>Stable borrowing and supply caps are brought in line\<close>

lemma reviewStableBorrow_at: "reviewStableBorrow fx c admin config w =
    forEach (\<lambda>x. abind (areturn (configuredReserve config (fst x))) (\<lambda>p.
      bringInLine fx stableBorrowRateEnabledOf (\<lambda>a b. submit admin (SetReserveStableRateBorrowing a b)) (snd x)
        (stableBorrowRateEnabled p))) (reservesToCheck c (getAllReservesTokens w)) w"
  by (simp add: reviewStableBorrow_def case_prod_beta')

lemma reservesToCheck_set: "set (reservesToCheck c rs) \<subseteq> set rs" "reservesToCheck [] rs = rs"
  by (auto simp: reservesToCheck_def Let_def)

lemma tokens_addresses: "map snd (getAllReservesTokens w) = po_reservesList w"
  by (simp add: getAllReservesTokens_def comp_def)

lemma inLine_frame:
  assumes "bringInLine fx look (\<lambda>a v. submit admin (call a v)) a v w = (r, w')"
  shows "sameBut w w'"
  using assms by (auto simp: bringInLine_def act_inv transact_def dest: submit_settings split: if_splits sum.splits)

lemma tokens_kept: "sameBut w w' \<Longrightarrow> getAllReservesTokens w' = getAllReservesTokens w"
  by (simp add: getAllReservesTokens_def sameBut_simps)

lemma reviewStableBorrow_frame:
  assumes "reviewStableBorrow fx c admin config w = (r, w')"
  shows "sameBut w w'"
  using forEach_keeps[OF assms[unfolded reviewStableBorrow_at], of "sameBut w"]
  by (fastforce split: sum.splits dest: inLine_frame intro: sameBut_trans)

lemma reviewStableBorrow_reaches:
  assumes "reviewStableBorrow True [] admin config w = (Inr u, w')" "distinct (po_reservesList w)"
    "x \<in> set (getAllReservesTokens w)"
  shows "\<exists>p. configuredReserve config (fst x) = Inr p \<and>
    stableBorrowRateEnabledOf (snd x) w' = stableBorrowRateEnabled p"
  using stable.looked_up_review[OF assms(1)[unfolded reviewStableBorrow_at reservesToCheck_set(2)], of x] assms(2,3)
  by (simp add: tokens_addresses)

text \<open>
  C21: When the stable-borrow review with \<open>fix\<close> goes through, every listed reserve has a configuration
  and the flag it says, and a later review of any selection of the reserves sends nothing; without
  \<open>fix\<close> a review never changes the pool, whether it goes through or throws.
\<close>

theorem stable_review_converges:
  assumes "reviewStableBorrow True [] poolAdmin config w = (Inr u, w')" "distinct (po_reservesList w)"
  shows "(\<forall>(symb, a)\<in>set (getAllReservesTokens w'). \<exists>p. configuredReserve config symb = Inr p \<and>
      stableBorrowRateEnabledOf a w' = stableBorrowRateEnabled p) \<and>
    reviewStableBorrow fx checkOnly poolAdmin config w' = (Inr (), w') \<and>
    (\<forall>v. snd (reviewStableBorrow False checkOnly poolAdmin config v) = v)"
proof -
  have same: "getAllReservesTokens w' = getAllReservesTokens w"
    using tokens_kept reviewStableBorrow_frame[OF assms(1)] by blast
  have reached: "\<exists>p. configuredReserve config (fst x) = Inr p \<and>
      stableBorrowRateEnabledOf (snd x) w' = stableBorrowRateEnabled p" if "x \<in> set (getAllReservesTokens w')" for x
    using reviewStableBorrow_reaches[OF assms(1,2)] that by (simp add: same)
  then have "reviewStableBorrow fx checkOnly poolAdmin config w' = (Inr (), w')"
    unfolding reviewStableBorrow_at using reservesToCheck_set(1)[of checkOnly "getAllReservesTokens w'"]
    by (intro stable.looked_up_idle) blast
  moreover have "snd (reviewStableBorrow False checkOnly poolAdmin config v) = v" for v
    unfolding reviewStableBorrow_at by (rule stable.looked_up_dry[OF prod.collapse[symmetric]])
  ultimately show ?thesis using reached by auto
qed

theorem stable_review_converges_witness:
  "\<exists>w'. reviewStableBorrow True [] ''0xadmin'' EthereumMarket fresh_pool = (Inr (), w') \<and>
    reviewStableBorrow True ''LSK,USDT'' ''0xadmin'' EthereumMarket w' = (Inr (), w')"
proof -
  have "fst (reviewStableBorrow True [] ''0xadmin'' EthereumMarket fresh_pool) = Inr ()" by code_simp
  note r = run_split[OF this]
  show ?thesis
    using r stable_review_converges[OF r fresh_distinct, of True "''LSK,USDT''", THEN conjunct2, THEN conjunct1]
    by blast
qed

definition cappedReserve ::
    "market_env \<Rightarrow> 'a pool_configuration_scheme \<Rightarrow> string obj \<Rightarrow> string \<Rightarrow> reserve_params result" where
  "cappedReserve env config assets tokenAddress =
     rbind (symbolOfAddress (addresses env) assets tokenAddress) (\<lambda>key.
     if key = [] then Inl (ProcessExit 3) else getf (obj_get (ReservesConfig config) (toUpperCase key)))"

lemma reviewSupplyCaps_at:
  assumes "getParamPerNetwork (ReserveAssets config) (networkName env) = Some assets"
  shows "reviewSupplyCaps fx c admin env config w =
    forEach (\<lambda>x. abind (areturn (cappedReserve env config assets (snd x))) (\<lambda>p.
      bringInLine fx supplyCapOf (\<lambda>a v. submit admin (SetSupplyCap a v)) (snd x) (supplyCap p)))
      (reservesToCheck c (getAllReservesTokens w)) w"
  by (simp add: reviewSupplyCaps_def assms case_prod_beta' abind_areturn_rbind cappedReserve_def)

lemma reviewSupplyCaps_frame:
  assumes "reviewSupplyCaps fx c admin env config w = (r, w')"
  shows "sameBut w w'"
proof (cases "getParamPerNetwork (ReserveAssets config) (networkName env)")
  case None
  then show ?thesis using assms by (simp add: reviewSupplyCaps_def areturn_eq)
next
  case (Some assets)
  show ?thesis
    using forEach_keeps[OF assms[unfolded reviewSupplyCaps_at[OF Some]], of "sameBut w"]
    by (fastforce split: sum.splits dest: inLine_frame intro: sameBut_trans)
qed

text \<open>
  When the supply-cap review with \<open>fix\<close> goes through, the cap of every listed reserve is the one the
  configuration has under the symbol of its address, and a later review of any selection sends nothing.
\<close>

theorem supply_cap_review_converges:
  assumes "reviewSupplyCaps True [] poolAdmin env config w = (Inr u, w')" "distinct (po_reservesList w)"
    "getParamPerNetwork (ReserveAssets config) (networkName env) = Some assets"
  shows "(\<forall>a\<in>set (po_reservesList w'). \<exists>key p. symbolOfAddress (addresses env) assets a = Inr key \<and>
      obj_get (ReservesConfig config) (toUpperCase key) = Some p \<and> supplyCapOf a w' = supplyCap p) \<and>
    reviewSupplyCaps fx checkOnly poolAdmin env config w' = (Inr (), w')"
proof -
  note at = reviewSupplyCaps_at[OF assms(3)]
  have same: "getAllReservesTokens w' = getAllReservesTokens w"
    using tokens_kept reviewSupplyCaps_frame[OF assms(1)] by blast
  have reached: "\<exists>p. cappedReserve env config assets (snd x) = Inr p \<and> supplyCapOf (snd x) w' = supplyCap p"
    if "x \<in> set (getAllReservesTokens w')" for x
    using supply_cap.looked_up_review[OF assms(1)[unfolded at reservesToCheck_set(2)], of x] that assms(2)
    by (simp add: tokens_addresses same)
  then have "reviewSupplyCaps fx checkOnly poolAdmin env config w' = (Inr (), w')"
    unfolding at using reservesToCheck_set(1)[of checkOnly "getAllReservesTokens w'"]
    by (intro supply_cap.looked_up_idle) blast
  moreover have "\<forall>a\<in>set (po_reservesList w'). \<exists>p. cappedReserve env config assets a = Inr p \<and> supplyCapOf a w' = supplyCap p"
    using reached unfolding tokens_addresses[symmetric] by auto
  ultimately show ?thesis by (fastforce simp: cappedReserve_def rbind_eq_Inr split: if_splits)
qed

theorem supply_cap_review_converges_witness:
  "\<exists>w'. reviewSupplyCaps True [] ''0xadmin'' lisk_env EthereumMarket fresh_pool = (Inr (), w') \<and>
    reviewSupplyCaps True ''LSK'' ''0xadmin'' lisk_env EthereumMarket w' = (Inr (), w')"
proof -
  have "fst (reviewSupplyCaps True [] ''0xadmin'' lisk_env EthereumMarket fresh_pool) = Inr ()" by code_simp
  moreover have "getParamPerNetwork (ReserveAssets EthereumMarket) (networkName lisk_env) =
      Some (the (obj_get (the (ReserveAssets EthereumMarket)) ''lisk''))"
    by code_simp
  moreover note r = run_split[OF calculation(1)]
  ultimately show ?thesis
    using r supply_cap_review_converges[OF r fresh_distinct, THEN conjunct2] by blast
qed

section \<open>Efficiency modes\<close>

lemma setEModeCategory_stores:
  "submit sender (SetEModeCategory i ltv threshold bonus priceSource label) w = Inr w' \<Longrightarrow>
   \<exists>n l t b. encode 8 i = Inr n \<and> encode 16 ltv = Inr l \<and> encode 16 threshold = Inr t \<and> encode 16 bonus = Inr b \<and>
     po_eModes w' = (po_eModes w)(n := \<lparr>ec_ltv = l, ec_liquidationThreshold = t, ec_liquidationBonus = b,
       ec_priceSource = priceSource, ec_label = label\<rparr>)"
  by (auto simp: rbind_eq_Inr setEModeCategory_def configureEModeCategory_def)

text \<open>
  The review of an efficiency mode takes the mode it is given only as the place to write to: with
  \<open>fix\<close>, whatever the mode, the category ends up with the parameters and the price source of
  \<open>StableEMode\<close> under the label it had, and no other category and no reserve changes.
\<close>

theorem emode_review_writes_stable_mode:
  assumes "reviewEMode i True poolAdmin env config w = (Inr u, w')"
    "obj_get (EModes config) ''StableEMode'' = Some em" "em_oracleId em = None"
  shows "uint (ec_ltv (po_eModes w' (word_of_int i))) = em_ltv em \<and>
    uint (ec_liquidationThreshold (po_eModes w' (word_of_int i))) = em_liquidationThreshold em \<and>
    uint (ec_liquidationBonus (po_eModes w' (word_of_int i))) = em_liquidationBonus em \<and>
    ec_priceSource (po_eModes w' (word_of_int i)) = ZERO_ADDRESS \<and>
    ec_label (po_eModes w' (word_of_int i)) = ec_label (po_eModes w (word_of_int i)) \<and>
    (\<forall>j. j \<noteq> word_of_int i \<longrightarrow> po_eModes w' j = po_eModes w j) \<and> settings w' = settings w"
proof -
  from assms obtain n where n: "encode 8 i = Inr n" by (auto simp: reviewEMode_def rbind_eq_Inr split: sum.splits)
  then have i: "n = word_of_int i" by (simp add: encode_eq)
  let ?c = "po_eModes w n"
  have cases: "(uint (ec_ltv ?c), uint (ec_liquidationThreshold ?c), uint (ec_liquidationBonus ?c), ec_priceSource ?c) =
        (em_ltv em, em_liquidationThreshold em, em_liquidationBonus em, ZERO_ADDRESS) \<and> w' = w \<or>
      submit poolAdmin (SetEModeCategory i (em_ltv em) (em_liquidationThreshold em) (em_liquidationBonus em)
        ZERO_ADDRESS (ec_label ?c)) w = Inr w'"
    using assms n by (auto simp: reviewEMode_def areturn_eq truthy_def transact_eq_Inr simp del: submit.simps split: if_splits)
  then show ?thesis
  proof
    assume s: "submit poolAdmin (SetEModeCategory i (em_ltv em) (em_liquidationThreshold em) (em_liquidationBonus em)
        ZERO_ADDRESS (ec_label ?c)) w = Inr w'"
    have "settings w' = settings w" using submit_settings[OF s] by simp
    moreover obtain l t b where e: "encode 16 (em_ltv em) = Inr l" "encode 16 (em_liquidationThreshold em) = Inr t"
        "encode 16 (em_liquidationBonus em) = Inr b"
        "po_eModes w' = (po_eModes w)(n := \<lparr>ec_ltv = l, ec_liquidationThreshold = t, ec_liquidationBonus = b,
          ec_priceSource = ZERO_ADDRESS, ec_label = ec_label ?c\<rparr>)"
      using setEModeCategory_stores[OF s] n by auto
    ultimately show ?thesis using uint_encoded[OF e(1)] uint_encoded[OF e(2)] uint_encoded[OF e(3)] by (simp add: i)
  qed (simp add: i)
qed

theorem emode_review_writes_stable_mode_witness:
  "\<exists>w'. reviewEMode 2 True ''0xadmin'' lisk_env EthereumMarket fresh_pool = (Inr (), w') \<and>
    uint (ec_ltv (po_eModes w' 2)) = 9700 \<and> ec_label (po_eModes w' 2) = []"
proof -
  have "fst (reviewEMode 2 True ''0xadmin'' lisk_env EthereumMarket fresh_pool) = Inr ()" by code_simp
  from run_split[OF this] obtain w' where r:
    "reviewEMode 2 True ''0xadmin'' lisk_env EthereumMarket fresh_pool = (Inr (), w')" by blast
  show ?thesis
    using r emode_review_writes_stable_mode[OF r] by (simp add: EthereumMarket_def fresh_pool_def)
qed

section \<open>Rate strategies\<close>

lemma rate_review_dry:
  assumes "reviewRateStrategies fx False c admin addressOf config w = (r, w')"
  shows "w' = w"
  using assms by (auto simp: reviewRateStrategies_def areturn_eq elim!: forEach_keeps[where P = "\<lambda>v. v = w"]
      split: sum.splits prod.splits)

text \<open>
  A rate strategy deployed with the parameters of the configuration reads back as those parameters,
  so the review finds no difference; and a review without \<open>deploy\<close> never changes the pool, whatever
  \<open>fix\<close> is.
\<close>

theorem rate_strategy_roundtrip:
  assumes "new_rate_strategy p = Inr s" "variableRateSlope1 p + baseStableRateOffset p < 2 ^ 256"
  shows "currentStrategy (strategy_name p) s = Inr p \<and>
    (\<forall>fx checkOnly addressOf config w. snd (reviewRateStrategies fx False checkOnly poolAdmin addressOf
      (config :: market_configuration) w) = w)"
proof -
  have d: "deployed_as s p" by (rule new_rate_strategy_deploys[OF assms(1)])
  then obtain base where "getBaseStableBorrowRate s = Inr base"
      "uint base = variableRateSlope1 p + baseStableRateOffset p"
    using uadd_fits[of "rs_variableRateSlope1 s" "rs_baseStableRateOffset s"] assms(2)
    by (auto simp: getBaseStableBorrowRate_def deployed_as_def)
  then have "currentStrategy (strategy_name p) s = Inr p"
    using d by (simp add: currentStrategy_def deployed_as_def)
  then show ?thesis using rate_review_dry[OF prod.collapse[symmetric]] by auto
qed

theorem rate_strategy_roundtrip_witness:
  "\<exists>s. new_rate_strategy rateStrategyVolatileOne = Inr s \<and>
    currentStrategy ''rateStrategyVolatileOne'' s = Inr rateStrategyVolatileOne"
proof -
  have "new_rate_strategy rateStrategyVolatileOne = Inr (projr (new_rate_strategy rateStrategyVolatileOne))"
    by code_simp
  from rate_strategy_roundtrip[OF this] show ?thesis
    using \<open>new_rate_strategy rateStrategyVolatileOne = _\<close> by (auto simp: rateStrategyVolatileOne_def)
qed

section \<open>The pool configurator\<close>

text \<open>
  C17: A call of the pool configurator that goes through changes the settings of the reserves exactly by
  its effect: the named fields of the named reserves get the given values, and every other field of
  every reserve, packed into the same words, keeps its own. It leaves the roles and the list of
  reserves alone, and its sender has a role that allows the call.
\<close>

theorem configurator_calls_refine_settings:
  assumes "submit sender call w = Inr w'"
  shows "settings w' = foldl assign (settings w) (effect call (po_reservesList w)) \<and>
    po_acl w' = po_acl w \<and> po_reservesList w' = po_reservesList w \<and> mayConfigure sender call w"
  using submit_settings[OF assms] submit_authorised[OF assms] by (simp add: sameBut_def)

theorem configurator_calls_refine_settings_witness:
  "\<exists>w'. submit ''0xadmin'' (SetSupplyCap ''0x05D032ac25d322df992303dCa074EE7392C117b9'' 7) fresh_pool = Inr w' \<and>
    settings w' ''0x05D032ac25d322df992303dCa074EE7392C117b9'' InSupplyCap = 7 \<and>
    settings w' ''0x05D032ac25d322df992303dCa074EE7392C117b9'' InLtv =
      settings fresh_pool ''0x05D032ac25d322df992303dCa074EE7392C117b9'' InLtv"
proof -
  have "ok (submit ''0xadmin'' (SetSupplyCap ''0x05D032ac25d322df992303dCa074EE7392C117b9'' 7) fresh_pool)"
    by code_simp
  then obtain w' where r:
    "submit ''0xadmin'' (SetSupplyCap ''0x05D032ac25d322df992303dCa074EE7392C117b9'' 7) fresh_pool = Inr w'"
    unfolding ok_iff by blast
  show ?thesis
    using r configurator_calls_refine_settings[OF r] by (simp add: assign.simps)
qed

end
