(* ===== verification/AfterDeploy.thy ===== *)
theory AfterDeploy
  imports TaskProps
begin

text \<open>
  The setup tasks, and the hook after a deployment as a whole: what is sent, and what the pool holds
  afterwards.
\<close>

section \<open>What the setup tasks send\<close>

text \<open>
  When every configured reserve has an address and a protocol fee, the debt-ceiling task sends one
  transaction for each reserve with a positive ceiling, in the order of the configuration, and nothing
  else; the isolation task does so for the reserves borrowable in isolation, and the fee task for those
  with a positive fee.
\<close>

theorem setup_tasks_send_configuration:
  assumes "\<forall>(asset, p)\<in>set (ReservesConfig config). getReserveAddress env config asset = Inr (addr asset) \<and>
      addr asset \<noteq> [] \<and> liquidationProtocolFee p \<noteq> None"
  shows "setupDebtCeiling admin env config =
      sendEach (submit admin) (map (\<lambda>x. SetDebtCeiling (addr (fst x)) (debtCeiling (snd x)))
        (filter (\<lambda>x. 0 < debtCeiling (snd x)) (ReservesConfig config))) \<and>
    setupIsolationMode admin env config =
      sendEach (submit admin) (map (\<lambda>x. SetBorrowableInIsolation (addr (fst x)) True)
        (filter (\<lambda>x. borrowableIsolation (snd x)) (ReservesConfig config))) \<and>
    setupLiquidationProtocolFee admin env config =
      sendEach (submit admin) (map (\<lambda>x. SetLiquidationProtocolFee (addr (fst x)) (the (liquidationProtocolFee (snd x))))
        (filter (\<lambda>x. 0 < the (liquidationProtocolFee (snd x))) (ReservesConfig config)))"
proof -
  have "setupDebtCeiling admin env config = sendEach (submit admin) (concat (map
      (\<lambda>x. if 0 < debtCeiling (snd x) then [SetDebtCeiling (addr (fst x)) (debtCeiling (snd x))] else [])
      (ReservesConfig config)))"
    unfolding setupDebtCeiling_def
    by (intro forEach_sends) (auto simp: abind_areturn_Inr abind_unit dest!: bspec[OF assms])
  moreover have "setupIsolationMode admin env config = sendEach (submit admin) (concat (map
      (\<lambda>x. if borrowableIsolation (snd x) then [SetBorrowableInIsolation (addr (fst x)) True] else [])
      (ReservesConfig config)))"
    unfolding setupIsolationMode_def
    by (intro forEach_sends) (auto simp: abind_areturn_Inr abind_unit dest!: bspec[OF assms])
  moreover have "setupLiquidationProtocolFee admin env config = sendEach (submit admin) (concat (map
      (\<lambda>x. if 0 < the (liquidationProtocolFee (snd x))
        then [SetLiquidationProtocolFee (addr (fst x)) (the (liquidationProtocolFee (snd x)))] else [])
      (ReservesConfig config)))"
    unfolding setupLiquidationProtocolFee_def
    by (intro forEach_sends) (auto simp: abind_areturn_Inr abind_unit dest!: bspec[OF assms])
  ultimately show ?thesis by (simp add: concat_if)
qed

section \<open>What a task leaves alone\<close>

text \<open>The settings of a pool that a task does not touch.\<close>

definition keepsBut :: "config_field set \<Rightarrow> pool \<Rightarrow> pool \<Rightarrow> bool" where
  "keepsBut fs w w' \<longleftrightarrow> sameBut w w' \<and> (\<forall>a f. f \<notin> fs \<longrightarrow> settings w' a f = settings w a f)"

lemma keepsBut_refl [simp]: "keepsBut fs w w"
  and keepsBut_trans: "keepsBut fs u v \<Longrightarrow> keepsBut fs v w \<Longrightarrow> keepsBut fs u w"
  by (auto simp: keepsBut_def intro: sameBut_trans)

lemma foldl_assign_other: "\<forall>(a, f, v)\<in>set xs. f \<in> fs \<Longrightarrow> g \<notin> fs \<Longrightarrow> foldl assign s xs b g = s b g"
  by (induction xs arbitrary: s) (auto simp: assign.simps)

lemma submit_keepsBut:
  "submit admin call w = Inr w' \<Longrightarrow> \<forall>(a, f, v)\<in>set (effect call (po_reservesList w)). f \<in> fs \<Longrightarrow> keepsBut fs w w'"
  using submit_settings[of admin call w w'] by (simp add: keepsBut_def foldl_assign_other)

lemma forEach_keepsBut:
  assumes "forEach body xs w = (Inr u, w')"
    "\<And>x v v'. x \<in> set xs \<Longrightarrow> body x v = (Inr (), v') \<Longrightarrow> keepsBut fs v v'"
  shows "keepsBut fs w w'"
  by (rule forEach_ok_keeps[OF assms(1), of "keepsBut fs w"]) (auto intro: keepsBut_trans assms(2))

lemma setupDebtCeiling_keeps: "setupDebtCeiling admin env config w = (Inr u, w') \<Longrightarrow> keepsBut {InDebtCeiling} w w'"
  unfolding setupDebtCeiling_def
  by (erule forEach_keepsBut)
    (auto simp: act_inv simp del: submit.simps split: if_splits sum.splits elim!: submit_keepsBut)

lemma setupIsolationMode_keeps:
  "setupIsolationMode admin env config w = (Inr u, w') \<Longrightarrow> keepsBut {InBorrowableInIsolation} w w'"
  unfolding setupIsolationMode_def
  by (erule forEach_keepsBut)
    (auto simp: act_inv simp del: submit.simps split: if_splits sum.splits elim!: submit_keepsBut)

lemma setupLiquidationProtocolFee_keeps:
  "setupLiquidationProtocolFee admin env config w = (Inr u, w') \<Longrightarrow> keepsBut {InLiquidationProtocolFee} w w'"
  unfolding setupLiquidationProtocolFee_def
  by (erule forEach_keepsBut)
    (auto simp: act_inv simp del: submit.simps split: if_splits sum.splits option.splits elim!: submit_keepsBut)

lemma setupEModes_keeps: "setupEModes admin env config w = (Inr u, w') \<Longrightarrow> keepsBut {InEModeCategory} w w'"
  unfolding setupEModes_def
proof (erule forEach_keepsBut)
  fix x and v v' :: pool
  assume "(case x of (_, eMode) \<Rightarrow>
      abind (areturn (if truthy (em_oracleId eMode) then getOracleByAsset env config (the (em_oracleId eMode))
                      else Inr ZERO_ADDRESS)) (\<lambda>src.
      abind (transact (submit admin (SetEModeCategory (em_id eMode) (em_ltv eMode)
          (em_liquidationThreshold eMode) (em_liquidationBonus eMode) src (em_label eMode)))) (\<lambda>_.
      forEach (\<lambda>asset.
          abind (areturn (getReserveAddress env config asset)) (\<lambda>assetAddress.
          transact (submit admin (SetAssetEModeCategory assetAddress (em_id eMode)))))
        (em_assets eMode)))) v = (Inr (), v')"
  moreover obtain nam em where x: "x = (nam, em)" by fastforce
  ultimately obtain src y where y: "submit admin (SetEModeCategory (em_id em) (em_ltv em)
          (em_liquidationThreshold em) (em_liquidationBonus em) src (em_label em)) v = Inr y"
      "forEach (\<lambda>asset.
          abind (areturn (getReserveAddress env config asset)) (\<lambda>assetAddress.
          transact (submit admin (SetAssetEModeCategory assetAddress (em_id em)))))
        (em_assets em) y = (Inr (), v')"
    by (auto simp del: submit.simps split: sum.splits)
  have "keepsBut {InEModeCategory} v y" by (rule submit_keepsBut[OF y(1)]) simp
  moreover have "keepsBut {InEModeCategory} y v'"
    by (rule forEach_keepsBut[OF y(2)])
      (auto simp: act_inv simp del: submit.simps split: sum.splits elim!: submit_keepsBut)
  ultimately show "keepsBut {InEModeCategory} v v'" by (rule keepsBut_trans)
qed

lemma reviewStableBorrow_keeps:
  "reviewStableBorrow True c admin config w = (Inr u, w') \<Longrightarrow> keepsBut {InStableRateBorrowingEnabled} w w'"
  unfolding reviewStableBorrow_at
  by (erule forEach_keepsBut)
    (auto simp: bringInLine_def act_inv simp del: submit.simps split: sum.splits if_splits elim!: submit_keepsBut)

lemma setPoolPause_keeps: "submit admin (SetPoolPause b) w = Inr w' \<Longrightarrow> keepsBut {InPaused} w w'"
  by (erule submit_keepsBut) auto

section \<open>What a task reaches\<close>

text \<open>
  A loop that writes the value of an element under a condition gives the element its value when the
  condition holds and leaves it as it was otherwise.
\<close>

context asset_setting
begin

lemma guarded_sets:
  assumes "forEach (\<lambda>x. abind (areturn (address x)) (\<lambda>a. if on x a then transact (store a (e x)) else areturn (Inr ()))) xs w =
      (Inr u, w')" "x \<in> set xs" "address x = Inr a" "\<And>y. y \<in> set xs \<Longrightarrow> address y = Inr a \<Longrightarrow> y = x"
  shows "look a w' = (if on x a then e x else look a w)"
proof (cases "on x a")
  case True
  then show ?thesis using guarded_reaches[OF assms(1-3)] assms(4) by simp
next
  case False
  have "look a w' = look a w"
  proof (rule forEach_ok_keeps[OF assms(1), of "\<lambda>v. look a v = look a w"])
    fix y v v'
    assume y: "y \<in> set xs" "look a v = look a w"
      "abind (areturn (address y)) (\<lambda>a. if on y a then transact (store a (e y)) else areturn (Inr ())) v = (Inr (), v')"
    obtain b where b: "address y = Inr b" using y(3) by (auto simp: act_inv split: sum.splits)
    have "b \<noteq> a \<or> \<not> on y b" using b assms(4)[OF y(1)] False by metis
    then show "look a v' = look a w" using y(2,3) b by (auto simp: act_inv store_look split: if_splits)
  qed simp
  then show ?thesis using False by simp
qed

end

text \<open>Two reserves of the configuration do not share an address.\<close>

definition separateReserves :: "market_env \<Rightarrow> 'a pool_configuration_scheme \<Rightarrow> bool" where
  "separateReserves env config \<longleftrightarrow>
     (\<forall>x\<in>set (ReservesConfig config). \<forall>y\<in>set (ReservesConfig config). \<forall>a.
        getReserveAddress env config (fst x) = Inr a \<and> getReserveAddress env config (fst y) = Inr a \<longrightarrow> x = y)"

lemma separateD:
  assumes "separateReserves env config" "(asset, p) \<in> set (ReservesConfig config)"
    "getReserveAddress env config asset = Inr a" "y \<in> set (ReservesConfig config)"
    "getReserveAddress env config (fst y) = Inr a"
  shows "y = (asset, p)"
  using assms unfolding separateReserves_def by (metis fst_conv)

lemma setupDebtCeiling_reaches:
  assumes "setupDebtCeiling admin env config w = (Inr u, w')" "separateReserves env config"
    "(asset, p) \<in> set (ReservesConfig config)" "getReserveAddress env config asset = Inr a"
  shows "uint (settings w' a InDebtCeiling) =
    (if 0 < debtCeiling p then debtCeiling p else uint (settings w a InDebtCeiling))"
proof -
  have "forEach (\<lambda>x. abind (areturn (getReserveAddress env config (fst x))) (\<lambda>a.
      if 0 < debtCeiling (snd x) then transact (submit admin (SetDebtCeiling a (debtCeiling (snd x))))
      else areturn (Inr ()))) (ReservesConfig config) w = (Inr u, w')"
    using assms(1) by (simp only: setupDebtCeiling_def case_prod_beta')
  from debt_ceiling.guarded_sets[OF this assms(3)] show ?thesis
    using assms(4) separateD[OF assms(2-4)] by simp
qed

lemma setupIsolationMode_reaches:
  assumes "setupIsolationMode admin env config w = (Inr u, w')" "separateReserves env config"
    "(asset, p) \<in> set (ReservesConfig config)" "getReserveAddress env config asset = Inr a" "a \<noteq> []"
  shows "settings w' a InBorrowableInIsolation = 1 \<longleftrightarrow>
    borrowableIsolation p \<or> settings w a InBorrowableInIsolation = 1"
proof -
  have "forEach (\<lambda>x. abind (areturn (getReserveAddress env config (fst x))) (\<lambda>a.
      if a \<noteq> [] \<and> borrowableIsolation (snd x)
      then transact (submit admin (SetBorrowableInIsolation a (borrowableIsolation (snd x))))
      else areturn (Inr ()))) (ReservesConfig config) w = (Inr u, w')"
    using assms(1) by (simp only: setupIsolationMode_def case_prod_beta')
  from isolation.guarded_sets[OF this assms(3)] show ?thesis
    using assms(4,5) separateD[OF assms(2-4)] by simp
qed

lemma setupLiquidationProtocolFee_reaches:
  assumes "setupLiquidationProtocolFee admin env config w = (Inr u, w')" "separateReserves env config"
    "(asset, p) \<in> set (ReservesConfig config)" "getReserveAddress env config asset = Inr a"
  shows "\<exists>fee. liquidationProtocolFee p = Some fee \<and>
    uint (settings w' a InLiquidationProtocolFee) =
      (if 0 < fee then fee else uint (settings w a InLiquidationProtocolFee))"
proof -
  let ?fee = "\<lambda>x. case liquidationProtocolFee (snd x) of
      None \<Rightarrow> Inl (Thrown ''invalid BigNumber value'') | Some fee \<Rightarrow> Inr fee"
  let ?address = "\<lambda>x. rbind (?fee x) (\<lambda>_. getReserveAddress env config (fst x))"
  let ?body = "\<lambda>x. abind (areturn (?address x)) (\<lambda>a.
      if 0 < the (liquidationProtocolFee (snd x))
      then transact (submit admin (SetLiquidationProtocolFee a (the (liquidationProtocolFee (snd x)))))
      else areturn (Inr ()))"
  have eq: "abind (areturn (?fee x)) (\<lambda>fee. abind (areturn (getReserveAddress env config (fst x))) (\<lambda>a.
      if 0 < fee then transact (submit admin (SetLiquidationProtocolFee a fee)) else areturn (Inr ()))) = ?body x" for x
    by (cases "liquidationProtocolFee (snd x)") (simp_all add: fun_eq_iff split: sum.split)
  have loop: "forEach ?body (ReservesConfig config) w = (Inr u, w')"
    using assms(1) by (simp only: setupLiquidationProtocolFee_def case_prod_beta' eq)
  from forEach_lookup[OF loop] obtain as where "mapM ?address (ReservesConfig config) = Inr as" by blast
  from mapM_mem[OF this assms(3)] obtain fee where fee: "liquidationProtocolFee p = Some fee"
    by (auto simp: rbind_eq_Inr split: option.splits)
  have "uint (settings w' a InLiquidationProtocolFee) =
      (if 0 < fee then fee else uint (settings w a InLiquidationProtocolFee))"
    using protocol_fee.guarded_sets[OF loop assms(3)] separateD[OF assms(2-4)] assms(4) fee
    by (simp add: rbind_eq_Inr)
  then show ?thesis using fee by blast
qed

section \<open>The hook\<close>

lemma setPoolPause_reaches:
  assumes "submit signer (SetPoolPause b) w = Inr w'" "a \<in> set (po_reservesList w)" "a \<noteq> ZERO_ADDRESS"
  shows "settings w' a InPaused = of_bool b"
proof -
  have "foldl assign s (map (\<lambda>r. (r, InPaused, of_bool b)) rs) a InPaused = of_bool b"
    if "a \<in> set rs \<or> s a InPaused = of_bool b" for s rs
    using that by (induction rs arbitrary: s) (auto simp: assign.simps)
  then show ?thesis using submit_settings[OF assms(1)] assms(2,3) by simp
qed

text \<open>The stages of a hook that goes through, without a change of ownership.\<close>

lemma afterDeploy_stages:
  assumes "afterDeploy signer admin addressOf env owner handover config w = (Inr u, w')" "owner \<noteq> Some ''true''"
  obtains w1 w2 w3 w4 w5 testnet where
    "reviewStableBorrow True [] admin config w = (Inr (), w1)" "setupDebtCeiling admin env config w1 = (Inr (), w2)"
    "setupIsolationMode admin env config w2 = (Inr (), w3)" "setupEModes admin env config w3 = (Inr (), w4)"
    "setupLiquidationProtocolFee admin env config w4 = (Inr (), w5)" "isTestnetMarket env config = Inr testnet"
    "if testnet then submit signer (SetPoolPause False) w5 = Inr w' else w' = w5"
proof -
  from assms obtain v where "reviewStableBorrow True [] admin config w = (Inr (), v)"
      "sequenceActs
      [setupDebtCeiling admin env config,
       setupIsolationMode admin env config,
       setupEModes admin env config,
       setupLiquidationProtocolFee admin env config,
       abind (areturn (isTestnetMarket env config)) (\<lambda>testnet.
         if testnet then transact (submit signer (SetPoolPause False)) else areturn (Inr ()))] v = (Inr u, w')"
    by (auto simp: afterDeploy_def abind_unit abind_areturn_Inr act_inv simp del: submit.simps dest!: rate_review_dry)
  then show ?thesis
    using that by (cases "isTestnetMarket env config") (auto simp: act_inv simp del: submit.simps split: if_splits)
qed

text \<open>
  C16: When the hook goes through without a change of ownership, the pool holds what the hook can
  write of the market configuration: a reserve with a positive debt ceiling or a positive protocol fee
  has exactly that one, a reserve borrowable in isolation is flagged so, and where the configuration
  says 0 or false the setting is what it was before (the hook never clears one). Every listed reserve
  has its stable-rate flag, and on a test market no reserve is paused (the zero address, a
  slot of the list without a reserve, aside). The roles and the list of
  reserves are as they were. It is assumed that the pool lists no reserve twice, that no two
  reserves of the configuration share an address and that the reserve in question has one.
\<close>

theorem after_deploy_configures_market:
  assumes "afterDeploy signer poolAdmin addressOf env owner handover config w = (Inr u, w')" "owner \<noteq> Some ''true''"
    "distinct (po_reservesList w)" "separateReserves env config"
    "(asset, p) \<in> set (ReservesConfig config)" "getReserveAddress env config asset = Inr a" "a \<noteq> []"
  shows "uint (getDebtCeiling (po_configuration w' a)) =
      (if 0 < debtCeiling p then debtCeiling p else uint (getDebtCeiling (po_configuration w a))) \<and>
    (getBorrowableInIsolation (po_configuration w' a) \<longleftrightarrow>
      borrowableIsolation p \<or> getBorrowableInIsolation (po_configuration w a)) \<and>
    (\<exists>fee. liquidationProtocolFee p = Some fee \<and>
      uint (getLiquidationProtocolFee (po_configuration w' a)) =
        (if 0 < fee then fee else uint (getLiquidationProtocolFee (po_configuration w a)))) \<and>
    (\<forall>(symb, b)\<in>set (getAllReservesTokens w'). \<exists>q. configuredReserve config symb = Inr q \<and>
      stableBorrowRateEnabledOf b w' = stableBorrowRateEnabled q) \<and>
    (isTestnetMarket env config = Inr True \<longrightarrow>
      (\<forall>b\<in>set (po_reservesList w'). b \<noteq> ZERO_ADDRESS \<longrightarrow> \<not> getPaused (po_configuration w' b))) \<and>
    po_acl w' = po_acl w \<and> po_reservesList w' = po_reservesList w"
proof -
  from afterDeploy_stages[OF assms(1,2)] obtain w1 w2 w3 w4 w5 testnet where
    s1: "reviewStableBorrow True [] poolAdmin config w = (Inr (), w1)" and
    s2: "setupDebtCeiling poolAdmin env config w1 = (Inr (), w2)" and
    s3: "setupIsolationMode poolAdmin env config w2 = (Inr (), w3)" and
    s4: "setupEModes poolAdmin env config w3 = (Inr (), w4)" and
    s5: "setupLiquidationProtocolFee poolAdmin env config w4 = (Inr (), w5)" and
    t: "isTestnetMarket env config = Inr testnet" and
    s6: "if testnet then submit signer (SetPoolPause False) w5 = Inr w' else w' = w5"
    by blast
  have k6: "keepsBut {InPaused} w5 w'" using s6 setPoolPause_keeps by (auto split: if_splits)
  note keeps = reviewStableBorrow_keeps[OF s1] setupDebtCeiling_keeps[OF s2] setupIsolationMode_keeps[OF s3]
    setupEModes_keeps[OF s4] setupLiquidationProtocolFee_keeps[OF s5] k6
  have same: "sameBut w w'" using keeps by (simp add: keepsBut_def sameBut_def)
  have f: "settings w' b InDebtCeiling = settings w2 b InDebtCeiling"
    "settings w' b InBorrowableInIsolation = settings w3 b InBorrowableInIsolation"
    "settings w' b InLiquidationProtocolFee = settings w5 b InLiquidationProtocolFee"
    "settings w' b InStableRateBorrowingEnabled = settings w1 b InStableRateBorrowingEnabled" for b
    using keeps by (simp_all add: keepsBut_def)
  have stable: "stableBorrowRateEnabledOf b w' = stableBorrowRateEnabledOf b w1" for b
    using f(4)[of b] by (simp add: stableBorrowRateEnabledOf_def bundles_read settings_def of_bool_eq_iff)
  have before: "settings w1 a InDebtCeiling = settings w a InDebtCeiling"
    "settings w2 a InBorrowableInIsolation = settings w a InBorrowableInIsolation"
    "settings w4 a InLiquidationProtocolFee = settings w a InLiquidationProtocolFee"
    using keeps by (simp_all add: keepsBut_def)
  have "uint (getDebtCeiling (po_configuration w' a)) =
      (if 0 < debtCeiling p then debtCeiling p else uint (getDebtCeiling (po_configuration w a)))"
    using setupDebtCeiling_reaches[OF s2 assms(4-6)] f(1)[of a] before(1) by (simp add: settings_def)
  moreover have "getBorrowableInIsolation (po_configuration w' a) \<longleftrightarrow>
      borrowableIsolation p \<or> getBorrowableInIsolation (po_configuration w a)"
    using setupIsolationMode_reaches[OF s3 assms(4-7)] f(2)[of a] before(2)
    by (simp add: settings_def of_bool_eq_iff)
  moreover have "\<exists>fee. liquidationProtocolFee p = Some fee \<and>
      uint (getLiquidationProtocolFee (po_configuration w' a)) =
        (if 0 < fee then fee else uint (getLiquidationProtocolFee (po_configuration w a)))"
    using setupLiquidationProtocolFee_reaches[OF s5 assms(4-6)] f(3)[of a] before(3) by (auto simp: settings_def)
  moreover have "\<forall>(symb, b)\<in>set (getAllReservesTokens w'). \<exists>q. configuredReserve config symb = Inr q \<and>
      stableBorrowRateEnabledOf b w' = stableBorrowRateEnabled q"
    using reviewStableBorrow_reaches[OF s1 assms(3)] by (auto simp: stable tokens_kept[OF same])
  moreover have "\<forall>b\<in>set (po_reservesList w'). b \<noteq> ZERO_ADDRESS \<longrightarrow> \<not> getPaused (po_configuration w' b)"
    if "isTestnetMarket env config = Inr True"
    using that t s6 setPoolPause_reaches[of signer False w5 w'] sameBut_simps(2)[of w5 w'] k6
    by (fastforce simp: settings_def keepsBut_def)
  ultimately show ?thesis using sameBut_simps[OF same] by blast
qed

abbreviation fresh_hook :: "(pool, unit) act" where
  "fresh_hook \<equiv> afterDeploy ''0xadmin'' ''0xadmin'' (\<lambda>p. ''0x'' @ strategy_name p) lisk_env None
     (areturn (Inr ())) EthereumMarket"

lemma fresh_hook_runs: "fst (fresh_hook fresh_pool) = Inr ()"
  by code_simp

text \<open>The hook is where the witnesses of both properties meet: it goes through on the fresh pool.\<close>

lemma lisk_separate: "separateReserves lisk_env EthereumMarket"
  by (simp add: separateReserves_def ethereum_reserves_list lisk_addresses)

theorem after_deploy_configures_market_witness:
  "uint (getDebtCeiling (po_configuration (snd (fresh_hook fresh_pool)) ''0xac485391EB2d7D88253a7F1eF18C37f4242D1A24'')) = 500000 \<and>
   uint (getLiquidationProtocolFee (po_configuration (snd (fresh_hook fresh_pool))
     ''0xac485391EB2d7D88253a7F1eF18C37f4242D1A24'')) = 1000"
proof -
  have m: "(''LSK'', strategyLSK) \<in> set (ReservesConfig EthereumMarket)" by (simp add: ethereum_reserves)
  show ?thesis
    using after_deploy_configures_market[OF run_split[OF fresh_hook_runs] _ fresh_distinct lisk_separate m lisk_addresses(2)]
    by (simp add: strategyLSK_def)
qed

theorem setup_tasks_send_configuration_witness:
  "setupDebtCeiling ''0xadmin'' lisk_env EthereumMarket =
     sendEach (submit ''0xadmin'') [SetDebtCeiling ''0xac485391EB2d7D88253a7F1eF18C37f4242D1A24'' 500000]"
proof -
  let ?addr = "\<lambda>symb. projr (getReserveAddress lisk_env EthereumMarket symb)"
  have "\<forall>(asset, p)\<in>set (ReservesConfig EthereumMarket).
      getReserveAddress lisk_env EthereumMarket asset = Inr (?addr asset) \<and> ?addr asset \<noteq> [] \<and> liquidationProtocolFee p \<noteq> None"
    by (simp add: ethereum_reserves_list lisk_addresses strategyWETH_def strategyLSK_def strategyUSDT_def)
  from setup_tasks_send_configuration[where addr = ?addr, OF this, THEN conjunct1] show ?thesis
    by (simp add: ethereum_reserves_list lisk_addresses strategyWETH_def strategyLSK_def strategyUSDT_def
        del: submit.simps sendEach.simps)
qed

end
