(* ===== verification/RateBounds.thy ===== *)
theory RateBounds
  imports RateContract EthereumMarket
begin

text \<open>
  When the rate calculation of the contract returns at all: with debts, liquidity and rates of any
  realistic size none of its checked operations reverts.
\<close>

section \<open>Bounds\<close>

text \<open>Amounts of at most \<open>2^112\<close>, and rates of at most \<open>2^96\<close> in ray units, which is about 79 rays or 7900 percent.\<close>

definition amounts_bounded :: "rate_inputs \<Rightarrow> bool" where
  "amounts_bounded i \<longleftrightarrow>
     uint (ri_unbacked i) \<le> 2 ^ 112 \<and> uint (ri_liquidityAdded i) \<le> 2 ^ 112 \<and> uint (ri_balance i) \<le> 2 ^ 112 \<and>
     uint (ri_totalStableDebt i) \<le> 2 ^ 112 \<and> uint (ri_totalVariableDebt i) \<le> 2 ^ 112 \<and>
     uint (ri_liquidityTaken i) \<le> uint (ri_balance i) + uint (ri_liquidityAdded i) \<and>
     uint (ri_averageStableBorrowRate i) \<le> 2 ^ 96 \<and> uint (ri_reserveFactor i) \<le> PERCENTAGE_FACTOR"

definition rates_bounded :: "interest_rate_strategy_params \<Rightarrow> bool" where
  "rates_bounded p \<longleftrightarrow>
     RAY div 100 \<le> optimalUsageRatio p \<and> baseVariableBorrowRate p \<le> 2 ^ 96 \<and>
     variableRateSlope1 p \<le> 2 ^ 96 \<and> variableRateSlope2 p \<le> 2 ^ 96 \<and>
     stableRateSlope1 p \<le> 2 ^ 96 \<and> stableRateSlope2 p \<le> 2 ^ 96 \<and>
     baseStableRateOffset p \<le> 2 ^ 96 \<and> stableRateExcessOffset p \<le> 2 ^ 96"

lemma share_fits:
  assumes "uint a \<le> 2 ^ 120" "uint a \<le> uint b" "uint b \<le> 2 ^ 120" "uint b \<noteq> 0"
  obtains q where "rayDiv_u256 a b = Inr q" "uint q \<le> RAY"
proof -
  have "uint a * RAY + uint b div 2 < 2 ^ 256" using assms(1,3) by (simp add: const_simps)
  from rayDiv_fits[OF assms(4) this] obtain q where
      q: "rayDiv_u256 a b = Inr q" "rayDiv (uint a) (uint b) = Inr (uint q)" by blast
  have "0 < uint b" using assms(4) uint_ge_0[of b] by linarith
  then have "uint q \<le> RAY" using ray.dv_le_unit[OF uint_ge_0 assms(2) _ q(2)] by simp
  then show thesis using q(1) that by simp
qed

lemma debtRatios_fits:
  assumes "amounts_bounded i" "uint d = uint (ri_totalStableDebt i) + uint (ri_totalVariableDebt i)"
  obtains str b su where "debtRatios i d = Inr (str, b, su)" "uint b \<le> RAY" "uint su \<le> RAY" "uint str \<le> RAY"
proof (cases "d = 0")
  case True
  then show thesis using that[of 0 0 0] ray.unit_pos by (simp add: debtRatios_def)
next
  case False
  then have d: "uint d \<noteq> 0" by (simp add: word_uint_eq_iff)
  have nn: "0 \<le> uint (ri_totalVariableDebt i)" "0 \<le> uint (ri_unbacked i)" by simp_all
  have a: "uint (ri_unbacked i) \<le> 2 ^ 112" "uint (ri_liquidityAdded i) \<le> 2 ^ 112" "uint (ri_balance i) \<le> 2 ^ 112"
      "uint (ri_liquidityTaken i) \<le> uint (ri_balance i) + uint (ri_liquidityAdded i)" "uint d \<le> 2 ^ 113"
    using assms by (simp_all add: amounts_bounded_def)
  obtain str where str: "rayDiv_u256 (ri_totalStableDebt i) d = Inr str" "uint str \<le> RAY"
    using share_fits[of "ri_totalStableDebt i" d] a(5) assms(2) d nn(1) by force
  obtain x where x: "uadd (ri_balance i) (ri_liquidityAdded i) = Inr x" "uint x = uint (ri_balance i) + uint (ri_liquidityAdded i)"
    using uadd_fits[of "ri_balance i" "ri_liquidityAdded i"] a(2,3) by fastforce
  obtain v where v: "usub x (ri_liquidityTaken i) = Inr v" "uint v = uint x - uint (ri_liquidityTaken i)"
    using usub_fits[of "ri_liquidityTaken i" x] x(2) a(4) by auto
  have "uint x \<le> 2 ^ 113" using x(2) a(2,3) by simp
  then have v_le: "uint v \<le> 2 ^ 113" "0 \<le> uint v"
    using v(2) uint_ge_0[of "ri_liquidityTaken i"] uint_ge_0[of v] by linarith+
  obtain y where y: "uadd v d = Inr y" "uint y = uint v + uint d" using uadd_fits[of v d] v_le(1) a(5) by fastforce
  obtain b where b: "rayDiv_u256 d y = Inr b" "uint b \<le> RAY"
    using share_fits[of d y] y(2) v_le a(5) d uint_ge_0[of d] by force
  obtain z where z: "uadd y (ri_unbacked i) = Inr z" "uint z = uint y + uint (ri_unbacked i)"
    using uadd_fits[of y "ri_unbacked i"] y(2) v_le(1) a(1,5) by fastforce
  obtain su where su: "rayDiv_u256 d z = Inr su" "uint su \<le> RAY"
    using share_fits[of d z] z(2) y(2) v_le a(1,5) d uint_ge_0[of d] nn(2) by force
  show thesis using that[of str b su] False str b su x(1) v(1) y(1) z(1) by (simp add: debtRatios_def)
qed

lemma surcharge_fits:
  assumes "uint s \<le> 2 ^ 96" "uint e \<le> RAY"
  obtains m where "rayMul_u256 s e = Inr m" "uint m \<le> uint s"
proof -
  have "uint s * uint e + HALF_RAY < 2 ^ 256" using product_bound[OF assms] by (simp add: const_simps)
  from rayMul_fits[OF this] show thesis using that ray.mul_le[of "uint s" "uint e"] assms(2) by auto
qed

lemma aboveOptimal_fits:
  assumes "uint r \<le> 2 ^ 97" "uint s1 \<le> 2 ^ 96" "uint s2 \<le> 2 ^ 96" "uint e \<le> RAY"
  obtains x where "aboveOptimal r s1 s2 e = Inr x" "uint x \<le> 2 ^ 98"
proof -
  obtain m where m: "rayMul_u256 s2 e = Inr m" "uint m \<le> uint s2" using surcharge_fits[OF assms(3,4)] .
  obtain x where x: "uadd s1 m = Inr x" "uint x = uint s1 + uint m" using uadd_fits[of s1 m] assms(2,3) m(2) by fastforce
  obtain y where y: "uadd r x = Inr y" "uint y = uint r + uint x" using uadd_fits[of r x] assms(1-3) m(2) x(2) by fastforce
  show thesis using that[of y] m x y assms(1-3) by (simp add: aboveOptimal_def)
qed

lemma belowOptimal_fits:
  assumes "uint r \<le> 2 ^ 97" "uint s1 \<le> 2 ^ 96" "uint b \<le> uint (OPTIMAL_USAGE_RATIO s)"
    "RAY div 100 \<le> uint (OPTIMAL_USAGE_RATIO s)" "uint (OPTIMAL_USAGE_RATIO s) \<le> RAY"
  obtains x where "belowOptimal s r s1 b = Inr x" "uint x \<le> 2 ^ 98"
proof -
  let ?o = "uint (OPTIMAL_USAGE_RATIO s)"
  have o: "0 < ?o" using assms(4) by (simp add: const_simps)
  have "uint b \<le> RAY" using assms(3,5) by simp
  then have "uint s1 * uint b + HALF_RAY < 2 ^ 256" using product_bound[OF assms(2)] by (force simp: const_simps)
  from rayMul_fits[OF this] obtain m where m: "rayMul_u256 s1 b = Inr m" "uint m = rayMul (uint s1) (uint b)" by blast
  have nn: "0 \<le> uint s1 * uint b" by simp
  have up: "uint m * RAY \<le> uint s1 * ?o + HALF_RAY"
    using ray.mul_upper[OF nn] m(2) mult_left_mono[OF assms(3), of "uint s1"] by simp
  have "uint s1 * ?o \<le> 2 ^ 96 * RAY" by (rule product_bound[OF assms(2,5)])
  then have "uint m * RAY + ?o div 2 < 2 ^ 256" using up assms(5) by (simp add: const_simps)
  from rayDiv_fits[OF _ this] o obtain q where
      q: "rayDiv_u256 m (OPTIMAL_USAGE_RATIO s) = Inr q" "rayDiv (uint m) ?o = Inr (uint q)" by auto
  have "uint q * ?o \<le> uint m * RAY + ?o div 2" by (rule ray.dv_bounds(2)[OF uint_ge_0 o q(2)])
  also have "\<dots> \<le> (uint s1 + 51) * ?o" using up assms(4) by (simp add: const_simps algebra_simps)
  finally have "uint q \<le> uint s1 + 51" using o by simp
  then show thesis
    using uadd_fits[of r q] assms(1,2) that m(1) q(1) by (force simp: belowOptimal_def)
qed

lemma slopeRates_fits:
  assumes "deployed_as s p" "rates_bounded p" "uint r \<le> 2 ^ 97" "uint b \<le> RAY"
  obtains sr vr where "slopeRates s r b = Inr (sr, vr)" "uint sr \<le> 2 ^ 98" "uint vr \<le> 2 ^ 98"
proof -
  note d = assms(1,2)[unfolded deployed_as_def rates_bounded_def]
  have c: "uint (rs_baseVariableBorrowRate s) \<le> 2 ^ 97" "uint (rs_variableRateSlope1 s) \<le> 2 ^ 96"
      "uint (rs_variableRateSlope2 s) \<le> 2 ^ 96" "uint (rs_stableRateSlope1 s) \<le> 2 ^ 96"
      "uint (rs_stableRateSlope2 s) \<le> 2 ^ 96" "RAY div 100 \<le> uint (OPTIMAL_USAGE_RATIO s)"
    using d by simp_all
  have ray: "uint (OPTIMAL_USAGE_RATIO s) \<le> RAY" using d uint_ge_0[of "MAX_EXCESS_USAGE_RATIO s"] by linarith
  show thesis
  proof (cases "OPTIMAL_USAGE_RATIO s < b")
    case True
    then have over: "uint (OPTIMAL_USAGE_RATIO s) < uint b" by (simp add: word_less_def)
    obtain v where v: "usub b (OPTIMAL_USAGE_RATIO s) = Inr v" "uint v = uint b - uint (OPTIMAL_USAGE_RATIO s)"
      using usub_fits[of "OPTIMAL_USAGE_RATIO s" b] over by auto
    have "uint v \<le> uint (MAX_EXCESS_USAGE_RATIO s)" "uint (MAX_EXCESS_USAGE_RATIO s) \<noteq> 0"
        "uint (MAX_EXCESS_USAGE_RATIO s) \<le> 2 ^ 120" "uint v \<le> 2 ^ 120"
      using v(2) d assms(4) over c(6) by (auto simp: const_simps)
    then obtain e where e: "rayDiv_u256 v (MAX_EXCESS_USAGE_RATIO s) = Inr e" "uint e \<le> RAY"
      using share_fits[of v "MAX_EXCESS_USAGE_RATIO s"] by metis
    obtain sr where "aboveOptimal r (rs_stableRateSlope1 s) (rs_stableRateSlope2 s) e = Inr sr" "uint sr \<le> 2 ^ 98"
      using aboveOptimal_fits[OF assms(3) c(4,5) e(2)] .
    moreover obtain vr where
        "aboveOptimal (rs_baseVariableBorrowRate s) (rs_variableRateSlope1 s) (rs_variableRateSlope2 s) e = Inr vr"
        "uint vr \<le> 2 ^ 98"
      using aboveOptimal_fits[OF c(1-3) e(2)] .
    ultimately show thesis using that True v(1) e(1) by (simp add: slopeRates_def)
  next
    case False
    then have b: "uint b \<le> uint (OPTIMAL_USAGE_RATIO s)" by (simp add: word_less_def)
    obtain sr where "belowOptimal s r (rs_stableRateSlope1 s) b = Inr sr" "uint sr \<le> 2 ^ 98"
      using belowOptimal_fits[OF assms(3) c(4) b c(6) ray] .
    moreover obtain vr where "belowOptimal s (rs_baseVariableBorrowRate s) (rs_variableRateSlope1 s) b = Inr vr"
        "uint vr \<le> 2 ^ 98"
      using belowOptimal_fits[OF c(1,2) b c(6) ray] .
    ultimately show thesis using that False by (simp add: slopeRates_def)
  qed
qed

lemma excessRate_fits:
  assumes "deployed_as s p" "rates_bounded p" "uint r \<le> 2 ^ 98" "uint q \<le> RAY"
  obtains x where "excessRate s r q = Inr x"
proof (cases "OPTIMAL_STABLE_TO_TOTAL_DEBT_RATIO s < q")
  case True
  let ?o = "uint (OPTIMAL_STABLE_TO_TOTAL_DEBT_RATIO s)" and ?m = "uint (MAX_EXCESS_STABLE_TO_TOTAL_DEBT_RATIO s)"
  note d = assms(1,2)[unfolded deployed_as_def rates_bounded_def]
  have m: "?m = RAY - ?o" using d by simp
  have over: "?o < uint q" using True by (simp add: word_less_def)
  obtain v where v: "usub q (OPTIMAL_STABLE_TO_TOTAL_DEBT_RATIO s) = Inr v" "uint v = uint q - ?o"
    using usub_fits[of "OPTIMAL_STABLE_TO_TOTAL_DEBT_RATIO s" q] over by auto
  have "uint v \<le> ?m" "?m \<noteq> 0" using v(2) m assms(4) over by linarith+
  moreover have "RAY \<le> 2 ^ 120" by (simp add: const_simps)
  then have "?m \<le> 2 ^ 120" "uint v \<le> 2 ^ 120"
    using v(2) m assms(4) uint_ge_0[of "OPTIMAL_STABLE_TO_TOTAL_DEBT_RATIO s"] by linarith+
  ultimately obtain e where e: "rayDiv_u256 v (MAX_EXCESS_STABLE_TO_TOTAL_DEBT_RATIO s) = Inr e" "uint e \<le> RAY"
    using share_fits[of v "MAX_EXCESS_STABLE_TO_TOTAL_DEBT_RATIO s"] by metis
  have o: "uint (rs_stableRateExcessOffset s) \<le> 2 ^ 96" using d by simp
  obtain c where c: "rayMul_u256 (rs_stableRateExcessOffset s) e = Inr c" "uint c \<le> uint (rs_stableRateExcessOffset s)"
    using surcharge_fits[OF o e(2)] .
  show thesis
    using that uadd_fits[of r c] True v(1) e(1) c o assms(3) by (force simp: excessRate_def)
qed (use that in \<open>simp add: excessRate_def\<close>)

lemma getOverallBorrowRate_fits:
  assumes "uint ts \<le> 2 ^ 112" "uint tv \<le> 2 ^ 112" "uint cv \<le> 2 ^ 98" "uint av \<le> 2 ^ 98"
  obtains x where "getOverallBorrowRate ts tv cv av = Inr x" "uint x \<le> 2 ^ 99"
proof -
  obtain d where d: "uadd ts tv = Inr d" "uint d = uint ts + uint tv" using uadd_fits[of ts tv] assms by fastforce
  show thesis
  proof (cases "d = 0")
    case True
    then show thesis using that[of 0] d by (simp add: getOverallBorrowRate_def)
  next
    case False
    then have nz: "0 < uint d" using uint_ge_0[of d] by (simp add: word_uint_eq_iff le_less)
    obtain v s e where ray: "wadToRay_u256 tv = Inr v" "wadToRay_u256 ts = Inr s" "wadToRay_u256 d = Inr e"
        "uint v = 1000000000 * uint tv" "uint s = 1000000000 * uint ts" "uint e = 1000000000 * uint d"
      using wadToRay_fits[of tv] wadToRay_fits[of ts] wadToRay_fits[of d] assms d(2)
      by (force simp: wadToRay_def const_simps)
    have p: "uint v * uint cv \<le> uint v * 2 ^ 98" "uint s * uint av \<le> uint s * 2 ^ 98"
      using assms(3,4) by (simp_all add: mult_left_mono)
    have v: "uint v \<le> 2 ^ 142" "uint s \<le> 2 ^ 142" using assms ray(4,5) by simp_all
    have "uint v * uint cv + HALF_RAY < 2 ^ 256" "uint s * uint av + HALF_RAY < 2 ^ 256"
      using p v by (simp_all add: const_simps)
    then obtain wv ws where w: "rayMul_u256 v cv = Inr wv" "uint wv = rayMul (uint v) (uint cv)"
        "rayMul_u256 s av = Inr ws" "uint ws = rayMul (uint s) (uint av)"
      using rayMul_fits by metis
    have up: "uint wv * RAY \<le> uint v * 2 ^ 98 + HALF_RAY" "uint ws * RAY \<le> uint s * 2 ^ 98 + HALF_RAY"
      using ray.mul_upper[of "uint v" "uint cv"] ray.mul_upper[of "uint s" "uint av"] p w(2,4) by simp_all
    then have "uint wv + uint ws < 2 ^ 256" using v by (simp add: const_simps)
    then obtain x where x: "uadd wv ws = Inr x" "uint x = uint wv + uint ws" using uadd_fits by blast
    have xr: "uint x * RAY \<le> uint e * 2 ^ 98 + RAY" using up x(2) ray(4-6) d(2) by (simp add: const_simps)
    moreover have "uint e \<le> 2 ^ 143" using v ray(4-6) d(2) by simp
    ultimately have "uint x * RAY + uint e div 2 < 2 ^ 256" by (simp add: const_simps)
    moreover have e: "0 < uint e" "1000000000 \<le> uint e" using nz ray(6) by simp_all
    ultimately obtain q where q: "rayDiv_u256 x e = Inr q" "rayDiv (uint x) (uint e) = Inr (uint q)"
      using rayDiv_fits[of e x] by auto
    have "uint q * uint e \<le> uint x * RAY + uint e div 2" by (rule ray.dv_bounds(2)[OF uint_ge_0 e(1) q(2)])
    also have "\<dots> \<le> 2 ^ 99 * uint e" using xr e(2) by (simp add: const_simps)
    finally have "uint q \<le> 2 ^ 99" using e(1) by simp
    then show thesis using that[of q] False d(1) ray(1-3) w(1,3) x(1) q(1) by (simp add: getOverallBorrowRate_def)
  qed
qed

lemma calculateInterestRates_fits:
  assumes "deployed_as s p" "rates_bounded p" "amounts_bounded i"
  shows "\<exists>base lr sr vr. getBaseStableBorrowRate s = Inr base \<and> calculateInterestRates s i = Inr (lr, sr, vr)"
proof -
  note a = assms(3)[unfolded amounts_bounded_def]
  have slopes: "uint (rs_variableRateSlope1 s) \<le> 2 ^ 96" "uint (rs_baseStableRateOffset s) \<le> 2 ^ 96"
    using assms(1,2) by (simp_all add: deployed_as_def rates_bounded_def)
  obtain base where base: "getBaseStableBorrowRate s = Inr base" "uint base \<le> 2 ^ 97"
    using uadd_fits[of "rs_variableRateSlope1 s" "rs_baseStableRateOffset s"] slopes
    by (fastforce simp: getBaseStableBorrowRate_def)
  obtain d where d: "uadd (ri_totalStableDebt i) (ri_totalVariableDebt i) = Inr d"
      "uint d = uint (ri_totalStableDebt i) + uint (ri_totalVariableDebt i)"
    using uadd_fits[of "ri_totalStableDebt i" "ri_totalVariableDebt i"] a by fastforce
  obtain str b su where r: "debtRatios i d = Inr (str, b, su)" "uint b \<le> RAY" "uint su \<le> RAY" "uint str \<le> RAY"
    using debtRatios_fits[OF assms(3) d(2)] .
  obtain st vr where v: "slopeRates s base b = Inr (st, vr)" "uint st \<le> 2 ^ 98" "uint vr \<le> 2 ^ 98"
    using slopeRates_fits[OF assms(1,2) base(2) r(2)] .
  obtain sr where sr: "excessRate s st str = Inr sr" using excessRate_fits[OF assms(1,2) v(2) r(4)] .
  have o: "uint (ri_totalStableDebt i) \<le> 2 ^ 112" "uint (ri_totalVariableDebt i) \<le> 2 ^ 112"
      "uint (ri_averageStableBorrowRate i) \<le> 2 ^ 98"
    using a by simp_all
  obtain ov where ov: "getOverallBorrowRate (ri_totalStableDebt i) (ri_totalVariableDebt i) vr
      (ri_averageStableBorrowRate i) = Inr ov" "uint ov \<le> 2 ^ 99"
    using getOverallBorrowRate_fits[OF o(1,2) v(3) o(3)] .
  have "uint ov * uint su + HALF_RAY < 2 ^ 256" using product_bound[OF ov(2) r(3)] by (simp add: const_simps)
  from rayMul_fits[OF this] obtain x where x: "rayMul_u256 ov su = Inr x" "uint x \<le> uint ov"
    using ray.mul_le[of "uint ov" "uint su"] r(3) by auto
  obtain sh where sh: "usub PERCENTAGE_FACTOR_u256 (ri_reserveFactor i) = Inr sh" "uint sh \<le> PERCENTAGE_FACTOR"
    using usub_fits[of "ri_reserveFactor i" PERCENTAGE_FACTOR_u256] a percent_u.uint_unit
      uint_ge_0[of "ri_reserveFactor i"] by auto
  have "uint x \<le> 2 ^ 99" using x(2) ov(2) by simp
  then have "uint x * uint sh + HALF_PERCENTAGE < 2 ^ 256"
    using product_bound[of x "2 ^ 99" sh, OF _ sh(2)] by (simp add: const_simps)
  from percentMul_fits[OF this] obtain lr where "percentMul_u256 x sh = Inr lr" by blast
  then show ?thesis
    using base(1) d(1) r(1) v(1) sr ov(1) x(1) sh(1) by (simp add: calculateInterestRates_def)
qed

section \<open>The contract computes the expected rates\<close>

text \<open>
  C24: The fixed-point arithmetic of the contracts is that of the test helpers, cut off where it would
  leave 256 bits: a multiplication or division returns exactly when its divisor is not zero and its
  scaled and rounded numerator fits a word, and then with the value on unbounded integers; otherwise it
  reverts. Rays become wads without a limit, wads become rays when the product fits.
\<close>

theorem contract_arithmetic_refines:
  "(wadMul_u256 a b = Inr c \<longleftrightarrow> uint a * uint b + HALF_WAD < 2 ^ 256 \<and> uint c = wadMul (uint a) (uint b)) \<and>
   (rayMul_u256 a b = Inr c \<longleftrightarrow> uint a * uint b + HALF_RAY < 2 ^ 256 \<and> uint c = rayMul (uint a) (uint b)) \<and>
   (percentMul_u256 a b = Inr c \<longleftrightarrow>
      uint a * uint b + HALF_PERCENTAGE < 2 ^ 256 \<and> uint c = percentMul (uint a) (uint b)) \<and>
   (wadDiv_u256 a b = Inr c \<longleftrightarrow>
      uint b \<noteq> 0 \<and> uint a * WAD + uint b div 2 < 2 ^ 256 \<and> wadDiv (uint a) (uint b) = Inr (uint c)) \<and>
   (rayDiv_u256 a b = Inr c \<longleftrightarrow>
      uint b \<noteq> 0 \<and> uint a * RAY + uint b div 2 < 2 ^ 256 \<and> rayDiv (uint a) (uint b) = Inr (uint c)) \<and>
   (percentDiv_u256 a b = Inr c \<longleftrightarrow>
      uint b \<noteq> 0 \<and> uint a * PERCENTAGE_FACTOR + uint b div 2 < 2 ^ 256 \<and>
      percentDiv (uint a) (uint b) = Inr (uint c)) \<and>
   (wadToRay_u256 a = Inr c \<longleftrightarrow> uint a * WAD_RAY_RATIO < 2 ^ 256 \<and> uint c = wadToRay (uint a)) \<and>
   uint (rayToWad_u256 a) = rayToWad (uint a)"
  by (simp only: wadMul_u256_def rayMul_u256_def percentMul_u256_def wadDiv_u256_def rayDiv_u256_def percentDiv_u256_def
      wad_u.mul_refines ray_u.mul_refines percent_u.mul_refines wad_u.div_refines ray_u.div_refines percent_u.div_refines
      wadToRay_iff rayToWad_refines simp_thms)

text \<open>
  C22: The rates that the test helper expects are the rates of the contract. Whenever a deployed strategy
  returns from its calculation, the expected liquidity, stable and variable rate of a reserve configured
  with the parameters of the strategy are the three rates it returns, for the liquidity that is left
  after the addition and removal of the call.
\<close>

theorem expected_rates_equal_contract:
  assumes "new_rate_strategy (strategy rp) = Inr s" "reserveFactor rp = uint (ri_reserveFactor i)"
    "getBaseStableBorrowRate s = Inr base" "calculateInterestRates s i = Inr (lr, sr, vr)"
  shows "let availableLiquidity = uint (ri_balance i) + uint (ri_liquidityAdded i) - uint (ri_liquidityTaken i)
    in interestRatesFor rp (uint base) (uint (ri_totalStableDebt i)) (uint (ri_totalVariableDebt i))
      (uint (ri_averageStableBorrowRate i)) availableLiquidity (availableLiquidity + uint (ri_unbacked i)) =
      Inr (uint lr, uint sr, uint vr)"
  unfolding Let_def by (rule rates_refine[OF new_rate_strategy_deploys[OF assms(1)] refl assms(2-4) refl])

definition lisk_inputs :: rate_inputs where
  "lisk_inputs = \<lparr>ri_unbacked = 0, ri_liquidityAdded = 100000000000000000000, ri_liquidityTaken = 20000000000000000000,
     ri_totalStableDebt = 150000000000000000000, ri_totalVariableDebt = 600000000000000000000,
     ri_averageStableBorrowRate = 50000000000000000000000000, ri_reserveFactor = 1000,
     ri_balance = 120000000000000000000\<rparr>"

abbreviation volatile_one :: rate_strategy where
  "volatile_one \<equiv> projr (new_rate_strategy rateStrategyVolatileOne)"

lemma volatile_one_rates:
  "new_rate_strategy (strategy strategyWETH) = Inr volatile_one"
  "reserveFactor strategyWETH = uint (ri_reserveFactor lisk_inputs)"
  "getBaseStableBorrowRate volatile_one = Inr 90000000000000000000000000"
  "calculateInterestRates volatile_one lisk_inputs =
     Inr (1099425585494837572399899269, 2011674641148325358851674640, 1921674641148325358851674640)"
  by code_simp+

theorem expected_rates_equal_contract_witness:
  "interestRatesFor strategyWETH 90000000000000000000000000 150000000000000000000 600000000000000000000
     50000000000000000000000000 200000000000000000000 200000000000000000000 =
   Inr (1099425585494837572399899269, 2011674641148325358851674640, 1921674641148325358851674640)"
  using expected_rates_equal_contract[OF volatile_one_rates] by (simp add: lisk_inputs_def)

text \<open>
  C23: The calculation of a deployed strategy never reverts on amounts of at most \<open>2^112\<close> and rates of at
  most \<open>2^96\<close>, in units of \<open>10^-27\<close> (about 79 times 100 percent), with a reserve factor of at most 100
  percent (above it the subtraction from 100 percent reverts), an optimal usage of at least one percent and
  no more liquidity taken than there is: it returns, and the expected rates exist and are the ones it returns.
\<close>

theorem contract_rates_never_revert:
  assumes "new_rate_strategy (strategy rp) = Inr s" "rates_bounded (strategy rp)" "amounts_bounded i"
    "reserveFactor rp = uint (ri_reserveFactor i)"
  shows "\<exists>base lr sr vr. getBaseStableBorrowRate s = Inr base \<and> calculateInterestRates s i = Inr (lr, sr, vr) \<and>
    (let availableLiquidity = uint (ri_balance i) + uint (ri_liquidityAdded i) - uint (ri_liquidityTaken i)
     in interestRatesFor rp (uint base) (uint (ri_totalStableDebt i)) (uint (ri_totalVariableDebt i))
       (uint (ri_averageStableBorrowRate i)) availableLiquidity (availableLiquidity + uint (ri_unbacked i)) =
       Inr (uint lr, uint sr, uint vr))"
proof -
  have d: "deployed_as s (strategy rp)" by (rule new_rate_strategy_deploys[OF assms(1)])
  then obtain base lr sr vr where "getBaseStableBorrowRate s = Inr base" "calculateInterestRates s i = Inr (lr, sr, vr)"
    using calculateInterestRates_fits[OF _ assms(2,3)] by blast
  then show ?thesis unfolding Let_def using rates_refine[OF d refl assms(4) _ _ refl] by blast
qed

theorem contract_rates_never_revert_witness:
  "\<exists>lr sr vr. calculateInterestRates volatile_one (lisk_inputs\<lparr>ri_liquidityTaken := 0\<rparr>) = Inr (lr, sr, vr)"
proof -
  have "rates_bounded (strategy strategyWETH)" "amounts_bounded (lisk_inputs\<lparr>ri_liquidityTaken := 0\<rparr>)"
    "reserveFactor strategyWETH = uint (ri_reserveFactor (lisk_inputs\<lparr>ri_liquidityTaken := 0\<rparr>))"
    by code_simp+
  from contract_rates_never_revert[OF volatile_one_rates(1) this] show ?thesis by blast
qed

text \<open>Every strategy of the Ethereum market is within these bounds.\<close>

lemma ethereum_strategies_bounded:
  "list_all (\<lambda>(_, rp). rates_bounded (strategy rp) \<and> \<not> isl (new_rate_strategy (strategy rp))) (ReservesConfig EthereumMarket)"
  by code_simp

end
