(* ===== verification/ProviderRegistry.thy ===== *)
theory ProviderRegistry
  imports AccessControl Words
begin

text \<open>
  The registries of the protocol: \<open>contracts/protocol/configuration/PoolAddressesProviderRegistry.sol\<close>,
  which numbers the markets, and the storage of \<open>PoolAddressesProvider.sol\<close>, which names the contracts
  of one market. The sender comes first; events are left out.
\<close>

definition onlyOwner :: "string \<Rightarrow> string \<Rightarrow> unit result" where
  "onlyOwner owner sender = ensure (owner = sender) (Reverted ''Ownable: caller is not the owner'')"

section \<open>The registry of markets\<close>

record registry =
  rg_owner :: string
  addressesProviderToId :: "string \<Rightarrow> u256"
  idToAddressesProvider :: "u256 \<Rightarrow> string"
  addressesProvidersList :: "string list"
  addressesProvidersIndexes :: "string \<Rightarrow> nat"

definition new_registry :: "string \<Rightarrow> string \<Rightarrow> registry result" where
  "new_registry sender owner =
     rbind (transferOwnership sender owner sender) (\<lambda>o'.
     Inr \<lparr>rg_owner = o', addressesProviderToId = (\<lambda>_. 0), idToAddressesProvider = (\<lambda>_. ZERO_ADDRESS),
       addressesProvidersList = [], addressesProvidersIndexes = (\<lambda>_. 0)\<rparr>)"

definition addToAddressesProvidersList :: "string \<Rightarrow> registry \<Rightarrow> registry" where
  "addToAddressesProvidersList provider r =
     r\<lparr>addressesProvidersIndexes := (addressesProvidersIndexes r)(provider := length (addressesProvidersList r)),
       addressesProvidersList := addressesProvidersList r @ [provider]\<rparr>"

definition registerProvider :: "string \<Rightarrow> string \<Rightarrow> u256 \<Rightarrow> registry \<Rightarrow> registry result" where
  "registerProvider sender provider i r =
     rbind (onlyOwner (rg_owner r) sender) (\<lambda>_.
     rbind (ensure (i \<noteq> 0) (Reverted ''8'')) (\<lambda>_.
     rbind (ensure (idToAddressesProvider r i = ZERO_ADDRESS) (Reverted ''8'')) (\<lambda>_.
     rbind (ensure (addressesProviderToId r provider = 0) (Reverted ''86'')) (\<lambda>_.
     Inr (addToAddressesProvidersList provider
       (r\<lparr>addressesProviderToId := (addressesProviderToId r)(provider := i),
          idToAddressesProvider := (idToAddressesProvider r)(i := provider)\<rparr>))))))"

text \<open>The last element takes the place of the removed one.\<close>

definition removeFromAddressesProvidersList :: "string \<Rightarrow> registry \<Rightarrow> registry" where
  "removeFromAddressesProvidersList provider r =
     (let index = addressesProvidersIndexes r provider;
          r = r\<lparr>addressesProvidersIndexes := (addressesProvidersIndexes r)(provider := 0)\<rparr>;
          lastIndex = length (addressesProvidersList r) - 1;
          r = (if index < lastIndex then
                 let lastProvider = addressesProvidersList r ! lastIndex in
                 r\<lparr>addressesProvidersList := (addressesProvidersList r)[index := lastProvider],
                   addressesProvidersIndexes := (addressesProvidersIndexes r)(lastProvider := index)\<rparr>
               else r)
      in r\<lparr>addressesProvidersList := butlast (addressesProvidersList r)\<rparr>)"

definition unregisterProvider :: "string \<Rightarrow> string \<Rightarrow> registry \<Rightarrow> registry result" where
  "unregisterProvider sender provider r =
     rbind (onlyOwner (rg_owner r) sender) (\<lambda>_.
     rbind (ensure (addressesProviderToId r provider \<noteq> 0) (Reverted ''7'')) (\<lambda>_.
     Inr (removeFromAddressesProvidersList provider
       (r\<lparr>idToAddressesProvider := (idToAddressesProvider r)(addressesProviderToId r provider := ZERO_ADDRESS),
          addressesProviderToId := (addressesProviderToId r)(provider := 0)\<rparr>))))"

section \<open>Its invariant\<close>

text \<open>
  The list holds each registered provider once and knows where, and providers and numbers determine each
  other.
\<close>

definition registry_inv :: "registry \<Rightarrow> bool" where
  "registry_inv r \<longleftrightarrow>
     distinct (addressesProvidersList r) \<and>
     (\<forall>p. addressesProviderToId r p \<noteq> 0 \<longleftrightarrow> p \<in> set (addressesProvidersList r)) \<and>
     (\<forall>n < length (addressesProvidersList r). addressesProvidersIndexes r (addressesProvidersList r ! n) = n) \<and>
     (\<forall>p \<in> set (addressesProvidersList r). p \<noteq> ZERO_ADDRESS \<and> idToAddressesProvider r (addressesProviderToId r p) = p) \<and>
     (\<forall>i. idToAddressesProvider r i \<noteq> ZERO_ADDRESS \<longrightarrow>
        addressesProviderToId r (idToAddressesProvider r i) = i \<and> i \<noteq> 0)"

lemma new_registry_inv: "new_registry sender owner = Inr r \<Longrightarrow> registry_inv r"
  by (auto simp: new_registry_def rbind_eq_Inr registry_inv_def)

lemma registerProvider_iff:
  "registerProvider sender provider i r = Inr r' \<longleftrightarrow>
     rg_owner r = sender \<and> i \<noteq> 0 \<and> idToAddressesProvider r i = ZERO_ADDRESS \<and> addressesProviderToId r provider = 0 \<and>
     r' = addToAddressesProvidersList provider
       (r\<lparr>addressesProviderToId := (addressesProviderToId r)(provider := i),
          idToAddressesProvider := (idToAddressesProvider r)(i := provider)\<rparr>)"
  by (auto simp: registerProvider_def onlyOwner_def rbind_eq_Inr)

lemma registerProvider_inv:
  assumes "registry_inv r" "registerProvider sender provider i r = Inr r'" "provider \<noteq> ZERO_ADDRESS"
  shows "registry_inv r'"
proof -
  have free: "i \<noteq> 0" "idToAddressesProvider r i = ZERO_ADDRESS" "addressesProviderToId r provider = 0"
    and r': "r' = addToAddressesProvidersList provider
       (r\<lparr>addressesProviderToId := (addressesProviderToId r)(provider := i),
          idToAddressesProvider := (idToAddressesProvider r)(i := provider)\<rparr>)"
    using assms(2) by (simp_all add: registerProvider_iff)
  have new: "provider \<notin> set (addressesProvidersList r)" using free(3) assms(1) by (auto simp: registry_inv_def)
  have "addressesProviderToId r p \<noteq> i" if "p \<in> set (addressesProvidersList r)" for p
    using that free(2) assms(1) by (auto simp: registry_inv_def)
  then show ?thesis
    using assms(1,3) free new
    by (auto simp: r' registry_inv_def addToAddressesProvidersList_def nth_append less_Suc_eq)
qed

text \<open>Swap and pop: the list without its element at an index, the last one in its place.\<close>

lemma swap_pop:
  assumes "distinct xs" "n < length xs"
  defines "ys \<equiv> butlast (if n < length xs - 1 then xs[n := xs ! (length xs - 1)] else xs)"
  shows "set ys = set xs - {xs ! n}" "distinct ys"
    "k < length ys \<Longrightarrow> ys ! k = (if k = n then last xs else xs ! k)" "length ys = length xs - 1"
proof -
  obtain zs z where xs: "xs = zs @ [z]" using assms(2) by (metis length_0_conv less_nat_zero_code rev_exhaust)
  have ys: "ys = (if n < length zs then zs[n := z] else zs)"
    using assms(2) by (auto simp: ys_def xs nth_append butlast_list_update list_update_append)
  have z: "z \<notin> set zs" "distinct zs" using assms(1) by (simp_all add: xs)
  show "set ys = set xs - {xs ! n}"
  proof (cases "n < length zs")
    case True
    then have "set (zs[n := z]) = insert z (set zs - {zs ! n})" using set_update_distinct[OF z(2) True] by simp
    then show ?thesis using True z(1) by (auto simp: ys xs nth_append)
  next
    case False
    then have "n = length zs" using assms(2) by (simp add: xs)
    then show ?thesis using z(1) by (simp add: ys xs)
  qed
  show "distinct ys" using z by (auto simp: ys intro: distinct_list_update)
  show "length ys = length xs - 1" by (simp add: ys xs)
  show "ys ! k = (if k = n then last xs else xs ! k)" if "k < length ys"
    using that by (auto simp: ys xs nth_append nth_list_update split: if_splits)
qed

lemma unregisterProvider_inv:
  assumes "registry_inv r" "unregisterProvider sender provider r = Inr r'"
  shows "registry_inv r'"
proof -
  let ?xs = "addressesProvidersList r" and ?ix = "addressesProvidersIndexes r" and ?toId = "addressesProviderToId r"
  define n where "n = ?ix provider"
  define ys where "ys = butlast (if n < length ?xs - 1 then ?xs[n := ?xs ! (length ?xs - 1)] else ?xs)"
  note inv = assms(1)[unfolded registry_inv_def]
  have r': "r' = removeFromAddressesProvidersList provider
       (r\<lparr>idToAddressesProvider := (idToAddressesProvider r)(?toId provider := ZERO_ADDRESS),
          addressesProviderToId := ?toId(provider := 0)\<rparr>)"
    and known: "?toId provider \<noteq> 0"
    using assms(2) by (auto simp: unregisterProvider_def rbind_eq_Inr)
  then have "provider \<in> set ?xs" using inv by blast
  then obtain m where m: "m < length ?xs" "?xs ! m = provider" by (auto simp: in_set_conv_nth)
  then have "?ix provider = m" using inv by blast
  then have n: "n < length ?xs" "?xs ! n = provider" using m by (simp_all add: n_def)
  note sp = swap_pop[OF _ n(1), folded ys_def, unfolded n(2)]
  have d: "distinct ?xs" using inv by simp
  have last: "last ?xs = ?xs ! (length ?xs - 1)" using n(1) by (intro last_conv_nth) auto
  have ixs: "addressesProvidersIndexes r' =
      (if n < length ?xs - 1 then (?ix(provider := 0))(last ?xs := n) else ?ix(provider := 0))"
    unfolding last by (simp add: r' removeFromAddressesProvidersList_def Let_def n_def)
  have ix: "addressesProvidersIndexes r' (ys ! k) = k" if "k < length ys" for k
  proof -
    have k: "k < length ?xs - 1" "k < length ?xs" using that sp(4)[OF d] by simp_all
    show ?thesis
    proof (cases "k = n")
      case True
      then show ?thesis using k(1) sp(3)[OF d that] by (simp add: ixs)
    next
      case False
      have "?xs ! k \<noteq> provider" using False n k(2) nth_eq_iff_index_eq[OF d k(2) n(1)] by simp
      moreover have "?xs ! k \<noteq> last ?xs" unfolding last using k n(1) nth_eq_iff_index_eq[OF d k(2), of "length ?xs - 1"] by simp
      moreover have "?ix (?xs ! k) = k" using inv k(2) by simp
      ultimately show ?thesis using False sp(3)[OF d that] by (simp add: ixs)
    qed
  qed
  have "addressesProvidersList r' = ys"
    by (simp add: r' removeFromAddressesProvidersList_def Let_def n_def ys_def)
  moreover have "addressesProviderToId r' = ?toId(provider := 0)"
    "idToAddressesProvider r' = (idToAddressesProvider r)(?toId provider := ZERO_ADDRESS)"
    by (simp_all add: r' removeFromAddressesProvidersList_def Let_def)
  moreover have "?toId p \<noteq> ?toId provider" if "p \<in> set ?xs" "p \<noteq> provider" for p
    using that known inv by metis
  ultimately show ?thesis
    using ix sp(1,2)[OF d] inv known unfolding registry_inv_def by (auto simp: fun_upd_def)
qed

section \<open>A registry is a numbering\<close>

text \<open>The specification: a partial function from the providers to their numbers.\<close>

definition marketsOf :: "registry \<Rightarrow> string \<Rightarrow> u256 option" where
  "marketsOf r p = (if addressesProviderToId r p = 0 then None else Some (addressesProviderToId r p))"

lemma marketsOf_dom: "registry_inv r \<Longrightarrow> dom (marketsOf r) = set (addressesProvidersList r)"
  by (auto simp: registry_inv_def marketsOf_def dom_def)

lemma marketsOf_free:
  assumes "registry_inv r"
  shows "idToAddressesProvider r i = ZERO_ADDRESS \<and> i \<noteq> 0 \<longleftrightarrow> i \<notin> ran (marketsOf r) \<and> i \<noteq> 0"
  using assms by (auto simp: registry_inv_def marketsOf_def ran_def) metis+

lemma marketsOf_inj: "registry_inv r \<Longrightarrow> inj_on (marketsOf r) (dom (marketsOf r))"
  by (rule inj_onI) (metis marketsOf_def marketsOf_dom option.inject registry_inv_def)

lemma unregisterProvider_iff:
  "unregisterProvider sender provider r = Inr r' \<longleftrightarrow>
     rg_owner r = sender \<and> addressesProviderToId r provider \<noteq> 0 \<and>
     r' = removeFromAddressesProvidersList provider
       (r\<lparr>idToAddressesProvider := (idToAddressesProvider r)(addressesProviderToId r provider := ZERO_ADDRESS),
          addressesProviderToId := (addressesProviderToId r)(provider := 0)\<rparr>)"
  by (auto simp: unregisterProvider_def onlyOwner_def rbind_eq_Inr)

text \<open>
  C26: A registry of markets is a numbering of the providers: whatever registrations of real addresses and
  removals led to it, its list holds the numbered providers once each and no two have the same number. A
  registration goes through exactly for its owner, a number that is neither zero nor taken and a provider
  that has none, and adds that number; a removal exactly for the owner and a registered provider, and
  removes it. Both keep the invariant, although a removal moves the last provider of the list.
\<close>

theorem registry_refines_numbering:
  assumes "registry_inv r" "provider \<noteq> ZERO_ADDRESS"
  shows "distinct (addressesProvidersList r) \<and> set (addressesProvidersList r) = dom (marketsOf r) \<and>
    inj_on (marketsOf r) (dom (marketsOf r)) \<and>
    ((\<exists>r'. registerProvider sender provider i r = Inr r') \<longleftrightarrow>
       rg_owner r = sender \<and> i \<noteq> 0 \<and> i \<notin> ran (marketsOf r) \<and> provider \<notin> dom (marketsOf r)) \<and>
    (\<forall>r'. registerProvider sender provider i r = Inr r' \<longrightarrow>
       registry_inv r' \<and> marketsOf r' = (marketsOf r)(provider \<mapsto> i)) \<and>
    ((\<exists>r'. unregisterProvider sender provider r = Inr r') \<longleftrightarrow> rg_owner r = sender \<and> provider \<in> dom (marketsOf r)) \<and>
    (\<forall>r'. unregisterProvider sender provider r = Inr r' \<longrightarrow>
       registry_inv r' \<and> marketsOf r' = (marketsOf r)(provider := None))"
proof (intro conjI allI impI)
  show "distinct (addressesProvidersList r)" using assms(1) by (simp add: registry_inv_def)
  show "set (addressesProvidersList r) = dom (marketsOf r)" by (simp add: marketsOf_dom[OF assms(1)])
  show "inj_on (marketsOf r) (dom (marketsOf r))" by (rule marketsOf_inj[OF assms(1)])
  show "(\<exists>r'. registerProvider sender provider i r = Inr r') \<longleftrightarrow>
       rg_owner r = sender \<and> i \<noteq> 0 \<and> i \<notin> ran (marketsOf r) \<and> provider \<notin> dom (marketsOf r)"
    using marketsOf_free[OF assms(1), of i] by (auto simp: registerProvider_iff marketsOf_def)
  show "(\<exists>r'. unregisterProvider sender provider r = Inr r') \<longleftrightarrow> rg_owner r = sender \<and> provider \<in> dom (marketsOf r)"
    by (auto simp: unregisterProvider_iff marketsOf_def)
next
  fix r' assume reg: "registerProvider sender provider i r = Inr r'"
  show "registry_inv r'" by (rule registerProvider_inv[OF assms(1) reg assms(2)])
  show "marketsOf r' = (marketsOf r)(provider \<mapsto> i)"
    using reg by (auto simp: registerProvider_iff marketsOf_def addToAddressesProvidersList_def fun_eq_iff)
next
  fix r' assume unreg: "unregisterProvider sender provider r = Inr r'"
  show "registry_inv r'" by (rule unregisterProvider_inv[OF assms(1) unreg])
  show "marketsOf r' = (marketsOf r)(provider := None)"
    using unreg by (auto simp: unregisterProvider_iff marketsOf_def removeFromAddressesProvidersList_def Let_def fun_eq_iff)
qed

text \<open>Three markets; the first one is removed again.\<close>

definition three_markets :: registry where
  "three_markets = projr (rbind (new_registry ''0xowner'' ''0xowner'') (\<lambda>r.
     rbind (registerProvider ''0xowner'' ''0xa'' 50 r) (\<lambda>r.
     rbind (registerProvider ''0xowner'' ''0xb'' 51 r) (\<lambda>r.
     registerProvider ''0xowner'' ''0xc'' 52 r))))"

lemma three_markets_inv: "registry_inv three_markets" and three_markets_list: "addressesProvidersList three_markets = [''0xa'', ''0xb'', ''0xc'']"
proof -
  obtain r0 where r0: "new_registry ''0xowner'' ''0xowner'' = Inr r0"
    by (simp add: new_registry_def transferOwnership_def ZERO_ADDRESS_def)
  have e: "rg_owner r0 = ''0xowner''" "addressesProvidersList r0 = []" "addressesProviderToId r0 = (\<lambda>_. 0)"
      "idToAddressesProvider r0 = (\<lambda>_. ZERO_ADDRESS)"
    using r0 by (auto simp: new_registry_def transferOwnership_def rbind_eq_Inr)
  define r1 r2 r3 where "r1 = projr (registerProvider ''0xowner'' ''0xa'' 50 r0)"
    "r2 = projr (registerProvider ''0xowner'' ''0xb'' 51 r1)" "r3 = projr (registerProvider ''0xowner'' ''0xc'' 52 r2)"
  have s: "registerProvider ''0xowner'' ''0xa'' 50 r0 = Inr r1" "registerProvider ''0xowner'' ''0xb'' 51 r1 = Inr r2"
      "registerProvider ''0xowner'' ''0xc'' 52 r2 = Inr r3" "addressesProvidersList r3 = [''0xa'', ''0xb'', ''0xc'']"
    by (simp_all add: r1_r2_r3_def registerProvider_def onlyOwner_def addToAddressesProvidersList_def e ZERO_ADDRESS_def)
  have three: "three_markets = r3" by (simp add: three_markets_def r0 s)
  have z: "''0xa'' \<noteq> ZERO_ADDRESS" "''0xb'' \<noteq> ZERO_ADDRESS" "''0xc'' \<noteq> ZERO_ADDRESS" by (simp_all add: ZERO_ADDRESS_def)
  have "registry_inv r3"
    using registerProvider_inv[OF registerProvider_inv[OF registerProvider_inv[OF new_registry_inv[OF r0] s(1) z(1)] s(2) z(2)] s(3) z(3)] .
  then show "registry_inv three_markets" "addressesProvidersList three_markets = [''0xa'', ''0xb'', ''0xc'']"
    by (simp_all add: three s(4))
qed

theorem registry_refines_numbering_witness:
  "\<exists>r'. unregisterProvider ''0xowner'' ''0xa'' three_markets = Inr r' \<and> addressesProvidersList r' = [''0xc'', ''0xb''] \<and>
    registry_inv r' \<and> marketsOf r' ''0xa'' = None"
proof -
  have z: "''0xa'' \<noteq> ZERO_ADDRESS" by (simp add: ZERO_ADDRESS_def)
  have "map_sum id addressesProvidersList (unregisterProvider ''0xowner'' ''0xa'' three_markets) = Inr [''0xc'', ''0xb'']"
    by code_simp
  then obtain r' where run: "unregisterProvider ''0xowner'' ''0xa'' three_markets = Inr r'"
      "addressesProvidersList r' = [''0xc'', ''0xb'']"
    by (cases "unregisterProvider ''0xowner'' ''0xa'' three_markets") auto
  from registry_refines_numbering[OF three_markets_inv z, of "''0xowner''" 1] run show ?thesis by auto
qed

text \<open>
  The address zero is not a provider: registering it leaves its number free, so that a second provider can
  get the same number. The script that registers markets rejects it.
\<close>

lemma zero_provider_leaves_number_free:
  assumes "rg_owner r = sender" "i \<noteq> 0" "idToAddressesProvider r i = ZERO_ADDRESS" "addressesProviderToId r ZERO_ADDRESS = 0"
    "provider \<noteq> ZERO_ADDRESS" "addressesProviderToId r provider = 0"
  shows "\<exists>r' r''. registerProvider sender ZERO_ADDRESS i r = Inr r' \<and> registerProvider sender provider i r' = Inr r'' \<and>
    addressesProviderToId r'' ZERO_ADDRESS = i \<and> addressesProviderToId r'' provider = i"
  using assms by (simp add: registerProvider_iff addToAddressesProvidersList_def)

end
