(* ===== verification/OracleContract.thy ===== *)
theory OracleContract
  imports AccessControl Words
begin

text \<open>
  The price oracle of a market, \<open>contracts/misc/RASAOracle.sol\<close>: which source prices which asset, and
  the price that results. Answers of the sources and prices of the fallback oracle, which may revert, are parameters; events
  are left out.
\<close>

record price_oracle =
  po_provider :: string
  assetsSources :: "string \<Rightarrow> string"
  fallbackOracle :: string
  BASE_CURRENCY :: string
  BASE_CURRENCY_UNIT :: u256

definition setFallbackOracle :: "string \<Rightarrow> price_oracle \<Rightarrow> price_oracle" where
  "setFallbackOracle fallback po = po\<lparr>fallbackOracle := fallback\<rparr>"

definition setAssetsSources :: "string list \<Rightarrow> string list \<Rightarrow> price_oracle \<Rightarrow> price_oracle result" where
  "setAssetsSources assets sources po =
     rbind (ensure (length assets = length sources) (Reverted ''76'')) (\<lambda>_.
     Inr (foldl (\<lambda>po (asset, source). po\<lparr>assetsSources := (assetsSources po)(asset := source)\<rparr>) po (zip assets sources)))"

definition new_oracle ::
    "string \<Rightarrow> string list \<Rightarrow> string list \<Rightarrow> string \<Rightarrow> string \<Rightarrow> u256 \<Rightarrow> price_oracle result" where
  "new_oracle provider assets sources fallback base unit =
     setAssetsSources assets sources
       \<lparr>po_provider = provider, assetsSources = (\<lambda>_. ZERO_ADDRESS), fallbackOracle = fallback, BASE_CURRENCY = base,
         BASE_CURRENCY_UNIT = unit\<rparr>"

definition onlyAssetListingOrPoolAdmins :: "string \<Rightarrow> acl \<Rightarrow> unit result" where
  "onlyAssetListingOrPoolAdmins sender a =
     ensure (isAssetListingAdmin sender a \<or> isPoolAdmin sender a) (Reverted ''5'')"

definition getAssetPrice ::
    "(string \<Rightarrow> u256 result) \<Rightarrow> (string \<Rightarrow> string \<Rightarrow> u256 result) \<Rightarrow> price_oracle \<Rightarrow> string \<Rightarrow> u256 result" where
  "getAssetPrice latestAnswer priceAt po asset =
     (let source = assetsSources po asset in
      if asset = BASE_CURRENCY po then Inr (BASE_CURRENCY_UNIT po)
      else if source = ZERO_ADDRESS then priceAt (fallbackOracle po) asset
      else rbind (latestAnswer source) (\<lambda>value.
        if 0 < value then Inr value else priceAt (fallbackOracle po) asset))"

definition getAssetsPrices ::
    "(string \<Rightarrow> u256 result) \<Rightarrow> (string \<Rightarrow> string \<Rightarrow> u256 result) \<Rightarrow> price_oracle \<Rightarrow> string list \<Rightarrow> u256 list result" where
  "getAssetsPrices latestAnswer priceAt po assets = mapM (getAssetPrice latestAnswer priceAt po) assets"

lemma foldl_sources:
  assumes "distinct (map fst ps)"
  shows "assetsSources (foldl (\<lambda>po (a, s). po\<lparr>assetsSources := (assetsSources po)(a := s)\<rparr>) po ps) asset =
    (case map_of ps asset of None \<Rightarrow> assetsSources po asset | Some s \<Rightarrow> s)"
    "fallbackOracle (foldl (\<lambda>po (a, s). po\<lparr>assetsSources := (assetsSources po)(a := s)\<rparr>) po ps) = fallbackOracle po"
    "po_provider (foldl (\<lambda>po (a, s). po\<lparr>assetsSources := (assetsSources po)(a := s)\<rparr>) po ps) = po_provider po"
  using assms by (induction ps arbitrary: po) (auto simp: map_of_eq_None_iff[symmetric] split: option.splits)

text \<open>Each asset gets its own source, as no asset occurs twice.\<close>

lemma setAssetsSources_Inr:
  assumes "setAssetsSources assets sources po = Inr po'" "distinct assets"
  shows "length assets = length sources" "fallbackOracle po' = fallbackOracle po" "po_provider po' = po_provider po"
    "(asset, source) \<in> set (zip assets sources) \<Longrightarrow> assetsSources po' asset = source"
    "asset \<notin> set assets \<Longrightarrow> assetsSources po' asset = assetsSources po asset"
proof -
  show len: "length assets = length sources" using assms(1) by (simp add: setAssetsSources_def rbind_eq_Inr)
  have d: "distinct (map fst (zip assets sources))" using assms(2) len by simp
  note f = foldl_sources[OF d]
  show "fallbackOracle po' = fallbackOracle po" "po_provider po' = po_provider po"
    using assms(1) by (auto simp: setAssetsSources_def rbind_eq_Inr f)
  show "assetsSources po' asset = source" if "(asset, source) \<in> set (zip assets sources)"
    using assms(1) map_of_is_SomeI[OF d that] by (auto simp: setAssetsSources_def rbind_eq_Inr f)
  show "assetsSources po' asset = assetsSources po asset" if "asset \<notin> set assets"
  proof -
    have none: "map_of (zip assets sources) asset = None" using that by (auto simp: map_of_eq_None_iff dest: set_zip_leftD)
    show ?thesis using assms(1) by (auto simp: setAssetsSources_def rbind_eq_Inr f none)
  qed
qed

end
