(* ===== verification/DeployWorld.thy ===== *)
theory DeployWorld
  imports ProviderRegistry OracleContract RateContract Handover InitReserves
begin

text \<open>
  The chain that the deployment scripts build, and the deployments they remember. \<open>deploy\<close> of
  \<open>hardhat-deploy\<close> keeps a contract that is already there with the same code and arguments; the address
  of a contract is a parameter, a function of the name and of what is deployed. Contracts: the addresses
  provider (\<open>PoolAddressesProvider.sol\<close>) and its proxies
  (\<open>InitializableImmutableAdminUpgradeabilityProxy.sol\<close>), the guard of initialisers
  (\<open>VersionedInitializable.sol\<close>), the registry, the ACL manager, the emission manager, and of the pool
  configurator the premiums of flash loans. A 32-byte identifier is the text it encodes.
\<close>

section \<open>Contracts and the chain\<close>

datatype arg =
    is_Address: Address (address_of: string)
  | is_Addresses: Addresses (addresses_of: "string list")
  | Text string
  | is_Number: Number (number: int)
  | Flag bool

record contract_code =
  cc_contract :: string
  cc_args :: "arg list"
  cc_libraries :: "string obj"

definition contract_of :: "string \<Rightarrow> arg list \<Rightarrow> contract_code" where
  "contract_of nam args = \<lparr>cc_contract = nam, cc_args = args, cc_libraries = []\<rparr>"

record provider_storage =
  pv_owner :: string
  pv_marketId :: string
  pv_addresses :: "string \<Rightarrow> string"

record deploy_world =
  w_saved :: "string obj"
  w_code :: "string \<Rightarrow> contract_code option"
  w_revision :: "string \<Rightarrow> nat"
  w_implementation :: "string \<Rightarrow> string"
  w_proxyAdmin :: "string \<Rightarrow> string"
  w_owner :: "string \<Rightarrow> string"
  w_provider :: "string \<Rightarrow> provider_storage"
  w_registry :: "string \<Rightarrow> registry"
  w_acl :: "string \<Rightarrow> acl"
  w_rewardsController :: "string \<Rightarrow> string"
  w_fundsAdmin :: "string \<Rightarrow> string"
  w_configurator :: "string \<Rightarrow> string \<times> string"
  w_premiums :: "string \<Rightarrow> u256 \<times> u256"
  w_oracle :: "string \<Rightarrow> price_oracle"

type_synonym deploy_tx = "deploy_world \<Rightarrow> deploy_world result"
type_synonym 'a script = "(deploy_world, 'a) act"

text \<open>
  Network, accounts, the addresses that new contracts and new proxies of a provider get, and the hash
  function of \<open>ethers\<close>.
\<close>

record deploy_env =
  de_market :: market_env
  de_accounts :: named_accounts
  incentivesRewardsVault :: string
  incentivesEmissionManager :: string
  firstSigner :: string
  de_addressOf :: "string \<Rightarrow> contract_code \<Rightarrow> string"
  de_proxyOf :: "string \<Rightarrow> string \<Rightarrow> string"
  PERMISSIONED_FAUCET :: bool
  keccak256 :: "string \<Rightarrow> string"

section \<open>Initialisers\<close>

text \<open>The contracts have revision 1, but for the mocks that the tests upgrade tokens to.\<close>

definition getRevision :: "contract_code \<Rightarrow> nat" where
  "getRevision logic =
     (if cc_contract logic = ''MockRSToken'' then 2
      else if cc_contract logic \<in> {''MockStableDebtToken'', ''MockVariableDebtToken''} then 3 else 1)"

definition initializer :: "contract_code \<Rightarrow> string \<Rightarrow> deploy_tx" where
  "initializer logic storage w =
     rbind (ensure (w_revision w storage < getRevision logic) (Reverted ''Contract instance has already been initialized'')) (\<lambda>_.
     Inr (w\<lparr>w_revision := (w_revision w)(storage := getRevision logic)\<rparr>))"

text \<open>The tokens of a reserve, whose constructors and initialisers check the pool.\<close>

definition token_contracts :: "string set" where
  "token_contracts = {''RSToken'', ''DelegationAwareRSToken'', ''StableDebtToken'', ''VariableDebtToken'',
     ''MockRSToken'', ''MockStableDebtToken'', ''MockVariableDebtToken''}"

definition providerAddress :: "string \<Rightarrow> string \<Rightarrow> deploy_world \<Rightarrow> string" where
  "providerAddress provider i w = pv_addresses (w_provider w provider) i"

text \<open>
  \<open>initialize\<close> of the logic of a contract, on the storage of the logic itself or of a proxy. The argument
  is the provider, for a token the pool and for the treasury the funds administrator.
\<close>

definition initializeWith :: "contract_code \<Rightarrow> string \<Rightarrow> string \<Rightarrow> deploy_tx" where
  "initializeWith logic storage argument w =
     rbind (initializer logic storage w) (\<lambda>w.
     if cc_contract logic \<in> {''Pool'', ''L2Pool''} then
       rbind (ensure (cc_args logic = [Address argument]) (Reverted ''12'')) (\<lambda>_. Inr w)
     else if cc_contract logic = ''PoolConfigurator'' then
       Inr (w\<lparr>w_configurator := (w_configurator w)(storage := (argument, providerAddress argument ''POOL'' w))\<rparr>)
     else if cc_contract logic \<in> token_contracts then
       rbind (ensure (cc_args logic = [Address argument]) (Reverted ''87'')) (\<lambda>_. Inr w)
     else if cc_contract logic = ''EcosystemReserveV2'' then
       Inr (w\<lparr>w_fundsAdmin := (w_fundsAdmin w)(storage := argument)\<rparr>)
     else Inr w)"

definition initialize :: "string \<Rightarrow> string \<Rightarrow> deploy_tx" where
  "initialize contract argument w = rbind (getf (w_code w contract)) (\<lambda>logic. initializeWith logic contract argument w)"

section \<open>Proxies\<close>

definition setImplementation :: "string \<Rightarrow> string \<Rightarrow> deploy_world \<Rightarrow> (contract_code \<times> deploy_world) result" where
  "setImplementation proxy impl w =
     (case w_code w impl of
        None \<Rightarrow> Inl (Reverted ''Cannot set a proxy implementation to a non-contract address'')
      | Some logic \<Rightarrow> Inr (logic, w\<lparr>w_implementation := (w_implementation w)(proxy := impl)\<rparr>))"

text \<open>The initialiser runs on the storage of the proxy, and its failure loses the reason.\<close>

definition delegateInitialize :: "string \<Rightarrow> string \<Rightarrow> string \<Rightarrow> deploy_tx" where
  "delegateInitialize proxy impl argument w =
     rbind (setImplementation proxy impl w) (\<lambda>(logic, w).
     case initializeWith logic proxy argument w of Inl _ \<Rightarrow> Inl (Reverted []) | Inr w' \<Rightarrow> Inr w')"

definition initializeProxy :: "string \<Rightarrow> string \<Rightarrow> string \<Rightarrow> deploy_tx" where
  "initializeProxy proxy impl argument w =
     rbind (ensure (w_implementation w proxy = ZERO_ADDRESS) (Reverted [])) (\<lambda>_. delegateInitialize proxy impl argument w)"

text \<open>\<open>initialize(logic, admin, data)\<close> of \<open>InitializableAdminUpgradeabilityProxy\<close>.\<close>

definition initializeAdminProxy :: "string \<Rightarrow> string \<Rightarrow> string \<Rightarrow> string \<Rightarrow> deploy_tx" where
  "initializeAdminProxy proxy impl admin argument w =
     rbind (initializeProxy proxy impl argument w) (\<lambda>w. Inr (w\<lparr>w_proxyAdmin := (w_proxyAdmin w)(proxy := admin)\<rparr>))"

section \<open>The addresses provider\<close>

definition onProvider :: "string \<Rightarrow> string \<Rightarrow> (provider_storage \<Rightarrow> provider_storage) \<Rightarrow> deploy_tx" where
  "onProvider sender provider f w =
     rbind (onlyOwner (pv_owner (w_provider w provider)) sender) (\<lambda>_.
     Inr (w\<lparr>w_provider := (w_provider w)(provider := f (w_provider w provider))\<rparr>))"

definition setMarketId :: "string \<Rightarrow> string \<Rightarrow> string \<Rightarrow> deploy_tx" where
  "setMarketId sender provider i = onProvider sender provider (\<lambda>s. s\<lparr>pv_marketId := i\<rparr>)"

definition setAddress :: "string \<Rightarrow> string \<Rightarrow> string \<Rightarrow> string \<Rightarrow> deploy_tx" where
  "setAddress sender provider i address =
     onProvider sender provider (\<lambda>s. s\<lparr>pv_addresses := (pv_addresses s)(i := address)\<rparr>)"

definition updateImpl :: "deploy_env \<Rightarrow> string \<Rightarrow> string \<Rightarrow> string \<Rightarrow> deploy_tx" where
  "updateImpl env provider i impl w =
     (let proxyAddress = providerAddress provider i w in
      if proxyAddress = ZERO_ADDRESS then
        let proxy = de_proxyOf env provider i;
            s = w_provider w provider
        in initializeProxy proxy impl provider
             (w\<lparr>w_code := (w_code w)(proxy \<mapsto> contract_of ''InitializableImmutableAdminUpgradeabilityProxy'' [Address provider]),
               w_implementation := (w_implementation w)(proxy := ZERO_ADDRESS),
               w_revision := (w_revision w)(proxy := 0),
               w_provider := (w_provider w)(provider := s\<lparr>pv_addresses := (pv_addresses s)(i := proxy)\<rparr>)\<rparr>)
      else delegateInitialize proxyAddress impl provider w)"

text \<open>The old implementation is read first, which fails on an address that is not such a proxy.\<close>

definition setAddressAsProxy :: "deploy_env \<Rightarrow> string \<Rightarrow> string \<Rightarrow> string \<Rightarrow> string \<Rightarrow> deploy_tx" where
  "setAddressAsProxy env sender provider i impl w =
     rbind (onlyOwner (pv_owner (w_provider w provider)) sender) (\<lambda>_.
     rbind (ensure (providerAddress provider i w = ZERO_ADDRESS \<or>
         w_code w (providerAddress provider i w) =
           Some (contract_of ''InitializableImmutableAdminUpgradeabilityProxy'' [Address provider])) (Reverted [])) (\<lambda>_.
     updateImpl env provider i impl w))"

section \<open>Other contracts\<close>

definition transferOwned :: "string \<Rightarrow> string \<Rightarrow> string \<Rightarrow> deploy_tx" where
  "transferOwned sender contract newOwner w =
     rbind (transferOwnership sender newOwner (w_owner w contract)) (\<lambda>x.
     Inr (w\<lparr>w_owner := (w_owner w)(contract := x)\<rparr>))"

definition onRegistry :: "string \<Rightarrow> (registry \<Rightarrow> registry result) \<Rightarrow> deploy_tx" where
  "onRegistry registry f w =
     rbind (f (w_registry w registry)) (\<lambda>r. Inr (w\<lparr>w_registry := (w_registry w)(registry := r)\<rparr>))"

definition transferRegistryTo :: "string \<Rightarrow> string \<Rightarrow> string \<Rightarrow> deploy_tx" where
  "transferRegistryTo sender registry newOwner =
     onRegistry registry (\<lambda>r. rbind (transferOwnership sender newOwner (rg_owner r)) (\<lambda>x. Inr (r\<lparr>rg_owner := x\<rparr>)))"

definition onManager :: "string \<Rightarrow> (acl \<Rightarrow> acl result) \<Rightarrow> deploy_tx" where
  "onManager manager f w = rbind (f (w_acl w manager)) (\<lambda>a. Inr (w\<lparr>w_acl := (w_acl w)(manager := a)\<rparr>))"

text \<open>Who may change an oracle is read from the ACL manager of its provider.\<close>

definition onOracle :: "string \<Rightarrow> string \<Rightarrow> (price_oracle \<Rightarrow> price_oracle result) \<Rightarrow> deploy_tx" where
  "onOracle sender oracle f w =
     (let po = w_oracle w oracle in
      rbind (onlyAssetListingOrPoolAdmins sender (w_acl w (providerAddress (po_provider po) ''ACL_MANAGER'' w))) (\<lambda>_.
      rbind (f po) (\<lambda>po. Inr (w\<lparr>w_oracle := (w_oracle w)(oracle := po)\<rparr>))))"

definition setRewardsController :: "string \<Rightarrow> string \<Rightarrow> string \<Rightarrow> deploy_tx" where
  "setRewardsController sender manager controller w =
     rbind (onlyOwner (w_owner w manager) sender) (\<lambda>_.
     Inr (w\<lparr>w_rewardsController := (w_rewardsController w)(manager := controller)\<rparr>))"

text \<open>
  \<open>updateFlashloanPremiumTotal\<close> and \<open>updateFlashloanPremiumToProtocol\<close> of the configurator, which the
  pool accepts only from the configurator of its provider.
\<close>

definition updatePremiums ::
    "string \<Rightarrow> string \<Rightarrow> u256 \<Rightarrow> (u256 \<Rightarrow> u256 \<times> u256 \<Rightarrow> u256 \<times> u256) \<Rightarrow> deploy_tx" where
  "updatePremiums sender configurator premium put w =
     (let (provider, pool) = w_configurator w configurator in
      rbind (ensure (isPoolAdmin sender (w_acl w (providerAddress provider ''ACL_MANAGER'' w))) (Reverted ''1'')) (\<lambda>_.
      rbind (ensure (premium \<le> 10000) (Reverted ''19'')) (\<lambda>_.
      rbind (ensure (providerAddress provider ''POOL_CONFIGURATOR'' w = configurator) (Reverted ''10'')) (\<lambda>_.
      Inr (w\<lparr>w_premiums := (w_premiums w)(pool := put premium (w_premiums w pool))\<rparr>)))))"

definition updateFlashloanPremiumTotal :: "string \<Rightarrow> string \<Rightarrow> int \<Rightarrow> deploy_tx" where
  "updateFlashloanPremiumTotal sender configurator premium w =
     rbind (encode 128 premium) (\<lambda>p. updatePremiums sender configurator p (\<lambda>p (_, protocol). (p, protocol)) w)"

definition updateFlashloanPremiumToProtocol :: "string \<Rightarrow> string \<Rightarrow> int \<Rightarrow> deploy_tx" where
  "updateFlashloanPremiumToProtocol sender configurator premium w =
     rbind (encode 128 premium) (\<lambda>p. updatePremiums sender configurator p (\<lambda>p (total, _). (total, p)) w)"

section \<open>Deploying\<close>

text \<open>
  The constructors that set up state or that can fail; \<open>sender\<close> is the account that deploys. Arguments
  that do not match the parameters are refused before anything is sent, here as a \<open>TypeError\<close>.
\<close>

definition construct_provider :: "string \<Rightarrow> string \<Rightarrow> arg list \<Rightarrow> deploy_tx" where
  "construct_provider sender address args w =
     (case args of [Text i, Address owner] \<Rightarrow>
        rbind (transferOwnership sender owner sender) (\<lambda>x.
        Inr (w\<lparr>w_provider := (w_provider w)(address :=
          \<lparr>pv_owner = x, pv_marketId = i, pv_addresses = (\<lambda>_. ZERO_ADDRESS)\<rparr>)\<rparr>))
      | _ \<Rightarrow> Inl TypeError)"

definition construct_registry :: "string \<Rightarrow> string \<Rightarrow> arg list \<Rightarrow> deploy_tx" where
  "construct_registry sender address args w =
     (case args of [Address owner] \<Rightarrow>
        rbind (new_registry sender owner) (\<lambda>r. Inr (w\<lparr>w_registry := (w_registry w)(address := r)\<rparr>))
      | _ \<Rightarrow> Inl TypeError)"

definition construct_manager :: "string \<Rightarrow> arg list \<Rightarrow> deploy_tx" where
  "construct_manager address args w =
     (case args of [Address provider] \<Rightarrow>
        rbind (new_ACLManager (providerAddress provider ''ACL_ADMIN'' w)) (\<lambda>a.
        Inr (w\<lparr>w_acl := (w_acl w)(address := a)\<rparr>))
      | _ \<Rightarrow> Inl TypeError)"

definition construct_owned :: "string \<Rightarrow> string \<Rightarrow> arg list \<Rightarrow> deploy_tx" where
  "construct_owned sender address args w =
     (case args of [Address owner] \<Rightarrow>
        rbind (transferOwnership sender owner sender) (\<lambda>x. Inr (w\<lparr>w_owner := (w_owner w)(address := x)\<rparr>))
      | _ \<Rightarrow> Inl TypeError)"

definition construct_gateway :: "string \<Rightarrow> string \<Rightarrow> arg list \<Rightarrow> deploy_tx" where
  "construct_gateway sender address args w =
     (case args of [Address _, Address owner, Address _] \<Rightarrow>
        rbind (transferOwnership sender owner sender) (\<lambda>x. Inr (w\<lparr>w_owner := (w_owner w)(address := x)\<rparr>))
      | _ \<Rightarrow> Inl TypeError)"

definition construct_token :: "arg list \<Rightarrow> deploy_tx" where
  "construct_token args w =
     (case args of [Address pool] \<Rightarrow> rbind (ensure (w_code w pool \<noteq> None) (Reverted [])) (\<lambda>_. Inr w)
      | _ \<Rightarrow> Inl TypeError)"

definition construct_oracle :: "string \<Rightarrow> arg list \<Rightarrow> deploy_tx" where
  "construct_oracle address args w =
     (if length args = 6 \<and> list_all is_Address [args ! 0, args ! 3, args ! 4] \<and>
         list_all is_Addresses [args ! 1, args ! 2] \<and> is_Number (args ! 5) then
        rbind (encode 256 (number (args ! 5))) (\<lambda>unit.
        rbind (new_oracle (address_of (args ! 0)) (addresses_of (args ! 1)) (addresses_of (args ! 2))
          (address_of (args ! 3)) (address_of (args ! 4)) unit) (\<lambda>po.
        Inr (w\<lparr>w_oracle := (w_oracle w)(address := po)\<rparr>)))
      else Inl TypeError)"

definition construct_strategy :: "arg list \<Rightarrow> deploy_tx" where
  "construct_strategy args w =
     (case args of Address _ # ns \<Rightarrow>
        if length ns = 9 \<and> list_all is_Number ns then
          (let n = (\<lambda>k. number (ns ! k)) in
           rbind (new_rate_strategy \<lparr>strategy_name = [], optimalUsageRatio = n 0, baseVariableBorrowRate = n 1,
             variableRateSlope1 = n 2, variableRateSlope2 = n 3, stableRateSlope1 = n 4, stableRateSlope2 = n 5,
             baseStableRateOffset = n 6, stableRateExcessOffset = n 7, optimalStableToTotalDebtRatio = n 8\<rparr>) (\<lambda>_.
           Inr w))
        else Inl TypeError
      | _ \<Rightarrow> Inl TypeError)"

definition construct_weth :: "string \<Rightarrow> string \<Rightarrow> arg list \<Rightarrow> deploy_tx" where
  "construct_weth sender address args w =
     (case args of [Text _, Text _, Address owner] \<Rightarrow>
        rbind (transferOwnership sender owner sender) (\<lambda>x. Inr (w\<lparr>w_owner := (w_owner w)(address := x)\<rparr>))
      | _ \<Rightarrow> Inl TypeError)"

definition construct_testnet_token :: "string \<Rightarrow> string \<Rightarrow> arg list \<Rightarrow> deploy_tx" where
  "construct_testnet_token sender address args w =
     (case args of [Text _, Text _, Number decimals, Address owner] \<Rightarrow>
        rbind (encode 8 decimals) (\<lambda>_.
        rbind (transferOwnership sender owner sender) (\<lambda>x. Inr (w\<lparr>w_owner := (w_owner w)(address := x)\<rparr>)))
      | _ \<Rightarrow> Inl TypeError)"

definition construct_faucet :: "string \<Rightarrow> string \<Rightarrow> arg list \<Rightarrow> deploy_tx" where
  "construct_faucet sender address args w =
     (case args of [Address owner, Flag permissioned] \<Rightarrow>
        rbind (transferOwnership sender owner sender) (\<lambda>x. Inr (w\<lparr>w_owner := (w_owner w)(address := x)\<rparr>))
      | _ \<Rightarrow> Inl TypeError)"

text \<open>This one only takes its argument.\<close>

definition construct_ui :: "arg list \<Rightarrow> deploy_tx" where
  "construct_ui args w = (case args of [Address _] \<Rightarrow> Inr w | _ \<Rightarrow> Inl TypeError)"

text \<open>The contracts of this chain that their constructor hands to an owner.\<close>

abbreviation owned_contracts :: "string set" where
  "owned_contracts \<equiv> {''EmissionManager'', ''EcosystemReserveController'', ''WrappedTokenGatewayV3'', ''WETH9Mocked'',
     ''TestnetERC20'', ''Faucet''}"

definition construct :: "string \<Rightarrow> string \<Rightarrow> contract_code \<Rightarrow> deploy_tx" where
  "construct sender address code =
     (let c = cc_contract code; args = cc_args code in
      if c = ''PoolAddressesProvider'' then construct_provider sender address args
      else if c = ''PoolAddressesProviderRegistry'' then construct_registry sender address args
      else if c = ''ACLManager'' then construct_manager address args
      else if c \<in> {''EmissionManager'', ''EcosystemReserveController''} then construct_owned sender address args
      else if c = ''WrappedTokenGatewayV3'' then construct_gateway sender address args
      else if c \<in> token_contracts then construct_token args
      else if c = ''RASAOracle'' then construct_oracle address args
      else if c = ''DefaultReserveInterestRateStrategy'' then construct_strategy args
      else if c = ''UiPoolDataProviderV3'' then construct_ui args
      else if c = ''WETH9Mocked'' then construct_weth sender address args
      else if c = ''TestnetERC20'' then construct_testnet_token sender address args
      else if c = ''Faucet'' then construct_faucet sender address args
      else Inr)"

lemmas constructors = construct_provider_def construct_registry_def construct_manager_def construct_owned_def
  construct_gateway_def construct_token_def construct_oracle_def construct_strategy_def construct_ui_def construct_weth_def
  construct_testnet_token_def construct_faucet_def

lemma constructor_writes:
  "construct_provider sender a args w = Inr w' \<Longrightarrow> \<exists>x. w' = w\<lparr>w_provider := (w_provider w)(a := x)\<rparr>"
  "construct_registry sender a args w = Inr w' \<Longrightarrow> \<exists>x. w' = w\<lparr>w_registry := (w_registry w)(a := x)\<rparr>"
  "construct_manager a args w = Inr w' \<Longrightarrow> \<exists>x. w' = w\<lparr>w_acl := (w_acl w)(a := x)\<rparr>"
  "construct_owned sender a args w = Inr w' \<Longrightarrow> \<exists>x. w' = w\<lparr>w_owner := (w_owner w)(a := x)\<rparr>"
  "construct_gateway sender a args w = Inr w' \<Longrightarrow> \<exists>x. w' = w\<lparr>w_owner := (w_owner w)(a := x)\<rparr>"
  "construct_weth sender a args w = Inr w' \<Longrightarrow> \<exists>x. w' = w\<lparr>w_owner := (w_owner w)(a := x)\<rparr>"
  "construct_testnet_token sender a args w = Inr w' \<Longrightarrow> \<exists>x. w' = w\<lparr>w_owner := (w_owner w)(a := x)\<rparr>"
  "construct_faucet sender a args w = Inr w' \<Longrightarrow> \<exists>x. w' = w\<lparr>w_owner := (w_owner w)(a := x)\<rparr>"
  "construct_oracle a args w = Inr w' \<Longrightarrow> \<exists>x. w' = w\<lparr>w_oracle := (w_oracle w)(a := x)\<rparr>"
  by (auto simp: constructors rbind_eq_Inr split: list.splits arg.splits if_splits)

lemma constructor_keeps:
  "construct_token args w = Inr w' \<Longrightarrow> w' = w" "construct_strategy args w = Inr w' \<Longrightarrow> w' = w"
  "construct_ui args w = Inr w' \<Longrightarrow> w' = w"
  by (auto simp: constructors rbind_eq_Inr Let_def split: list.splits arg.splits if_splits)

definition deploy :: "deploy_env \<Rightarrow> string \<Rightarrow> contract_code \<Rightarrow> string script" where
  "deploy env nam code w =
     (let address = de_addressOf env nam code;
          saved = (\<lambda>w. w\<lparr>w_saved := obj_set (w_saved w) nam address\<rparr>)
      in if w_code w address = Some code then (Inr address, saved w)
      else case construct (deployer (de_accounts env)) address code w of
             Inl e \<Rightarrow> (Inl e, w)
           | Inr w' \<Rightarrow> (Inr address, saved (w'\<lparr>w_code := (w_code w')(address \<mapsto> code),
               w_revision := (w_revision w')(address := 0),
               w_implementation := (w_implementation w')(address := ZERO_ADDRESS)\<rparr>)))"

definition deploymentOf :: "string \<Rightarrow> string script" where
  "deploymentOf nam = ask (\<lambda>w. deployments_get (w_saved w) nam)"

definition saveDeployment :: "string \<Rightarrow> string \<Rightarrow> unit script" where
  "saveDeployment nam address = transact (\<lambda>w. Inr (w\<lparr>w_saved := obj_set (w_saved w) nam address\<rparr>))"

section \<open>What a deployment leaves alone\<close>

text \<open>A constructor writes the storage of its own kind of contract only.\<close>

lemma construct_frame:
  assumes "construct sender a c w = Inr w'"
  shows "w_saved w' = w_saved w" "w_code w' = w_code w" "w_revision w' = w_revision w"
    "w_implementation w' = w_implementation w" "w_proxyAdmin w' = w_proxyAdmin w"
    "w_rewardsController w' = w_rewardsController w" "w_fundsAdmin w' = w_fundsAdmin w"
    "w_configurator w' = w_configurator w" "w_premiums w' = w_premiums w"
    "cc_contract c \<noteq> ''PoolAddressesProvider'' \<Longrightarrow> w_provider w' = w_provider w"
    "cc_contract c \<noteq> ''PoolAddressesProviderRegistry'' \<Longrightarrow> w_registry w' = w_registry w"
    "cc_contract c \<noteq> ''ACLManager'' \<Longrightarrow> w_acl w' = w_acl w"
    "cc_contract c \<notin> owned_contracts \<Longrightarrow> w_owner w' = w_owner w"
    "cc_contract c \<noteq> ''RASAOracle'' \<Longrightarrow> w_oracle w' = w_oracle w"
  using assms unfolding construct_def Let_def
  by (auto split: if_splits dest!: constructor_writes constructor_keeps)

text \<open>A deployment that goes through, in a form that shows what it keeps.\<close>

lemma deploy_Inr:
  assumes "deploy env nam c w = (Inr a, w')"
  shows "a = de_addressOf env nam c" "w_saved w' = obj_set (w_saved w) nam a" "w_code w' = (w_code w)(a \<mapsto> c)"
    "b \<noteq> a \<Longrightarrow> w_revision w' b = w_revision w b" "b \<noteq> a \<Longrightarrow> w_implementation w' b = w_implementation w b"
    "w_code w a = Some c \<Longrightarrow> w' = w\<lparr>w_saved := obj_set (w_saved w) nam a\<rparr>"
    "w_configurator w' = w_configurator w" "w_premiums w' = w_premiums w"
    "cc_contract c \<noteq> ''PoolAddressesProvider'' \<Longrightarrow> w_provider w' = w_provider w"
    "cc_contract c \<noteq> ''PoolAddressesProviderRegistry'' \<Longrightarrow> w_registry w' = w_registry w"
    "cc_contract c \<noteq> ''ACLManager'' \<Longrightarrow> w_acl w' = w_acl w"
    "cc_contract c \<notin> owned_contracts \<Longrightarrow> w_owner w' = w_owner w"
    "cc_contract c \<noteq> ''RASAOracle'' \<Longrightarrow> w_oracle w' = w_oracle w"
proof -
  let ?a = "de_addressOf env nam c"
  show a: "a = ?a" using assms by (auto simp: deploy_def Let_def split: if_splits sum.splits)
  consider "w_code w ?a = Some c" "w' = w\<lparr>w_saved := obj_set (w_saved w) nam a\<rparr>"
    | v where "w_code w ?a \<noteq> Some c" "construct (deployer (de_accounts env)) ?a c w = Inr v"
        "w' = v\<lparr>w_code := (w_code v)(a \<mapsto> c), w_revision := (w_revision v)(a := 0),
          w_implementation := (w_implementation v)(a := ZERO_ADDRESS), w_saved := obj_set (w_saved v) nam a\<rparr>"
    using assms by (auto simp: deploy_def Let_def split: if_splits sum.splits)
  note cs = this
  show "w_saved w' = obj_set (w_saved w) nam a" "w_code w' = (w_code w)(a \<mapsto> c)"
    "b \<noteq> a \<Longrightarrow> w_revision w' b = w_revision w b" "b \<noteq> a \<Longrightarrow> w_implementation w' b = w_implementation w b"
    "w_configurator w' = w_configurator w" "w_premiums w' = w_premiums w"
    by (cases rule: cs; auto simp: a construct_frame fun_upd_idem)+
  show "w_code w a = Some c \<Longrightarrow> w' = w\<lparr>w_saved := obj_set (w_saved w) nam a\<rparr>"
    by (cases rule: cs; simp add: a)
  show "cc_contract c \<noteq> ''PoolAddressesProvider'' \<Longrightarrow> w_provider w' = w_provider w"
    "cc_contract c \<noteq> ''PoolAddressesProviderRegistry'' \<Longrightarrow> w_registry w' = w_registry w"
    "cc_contract c \<noteq> ''ACLManager'' \<Longrightarrow> w_acl w' = w_acl w"
    "cc_contract c \<notin> owned_contracts \<Longrightarrow> w_owner w' = w_owner w"
    "cc_contract c \<noteq> ''RASAOracle'' \<Longrightarrow> w_oracle w' = w_oracle w"
    by (cases rule: cs; auto dest: construct_frame)+
qed

text \<open>Deploying again what is there changes nothing.\<close>

lemma obj_set_same: "obj_get ob k = Some v \<Longrightarrow> obj_set ob k v = ob"
  by (induction ob k v rule: obj_set.induct) (auto split: if_splits)

lemma deploy_again:
  assumes "w_code w (de_addressOf env nam c) = Some c" "obj_get (w_saved w) nam = Some (de_addressOf env nam c)"
  shows "deploy env nam c w = (Inr (de_addressOf env nam c), w)"
  using assms by (simp add: deploy_def Let_def obj_set_same)

lemma contract_of_simps [simp]: "cc_contract (contract_of nam args) = nam" "cc_args (contract_of nam args) = args"
  "cc_libraries (contract_of nam args) = []"
  by (simp_all add: contract_of_def)

lemma deploymentOf_eq [act_inv]: "deploymentOf nam w = (Inr a, w') \<longleftrightarrow> obj_get (w_saved w) nam = Some a \<and> w' = w"
  by (auto simp: deploymentOf_def ask_eq deployments_get_def split: option.splits)

lemma saveDeployment_eq [act_inv]:
  "saveDeployment nam a w = (Inr u, w') \<longleftrightarrow> w' = w\<lparr>w_saved := obj_set (w_saved w) nam a\<rparr>"
  by (auto simp: saveDeployment_def transact_eq_Inr)

lemma abind_deploymentOf [simp]:
  "abind (deploymentOf nam) f w = (case deployments_get (w_saved w) nam of Inl e \<Rightarrow> (Inl e, w) | Inr a \<Rightarrow> f a w)"
  by (simp add: deploymentOf_def)

end
