(* ===== verification/MarketDeploy.thy ===== *)
theory MarketDeploy
  imports DeployWorld EthereumMarket
begin

text \<open>
  The scripts that deploy a market, \<open>deploy/00_core\<close>, \<open>deploy/01_periphery_pre\<close>,
  \<open>deploy/02_market\<close> and \<open>deploy/03_periphery_post\<close>, in their order. The market configuration is the
  one \<open>loadPoolConfig\<close> finds. A contract read through \<open>getContractAt\<close> without a signer sends from the
  first signer. Messages are left out.
\<close>

abbreviation de_market_name :: "deploy_env \<Rightarrow> string" where
  "de_market_name env \<equiv> MARKET_NAME (de_market env)"

abbreviation de_deployer :: "deploy_env \<Rightarrow> string" where
  "de_deployer env \<equiv> deployer (de_accounts env)"

section \<open>Core\<close>

definition marketsRegistry :: "deploy_env \<Rightarrow> unit script" where
  "marketsRegistry env =
     abind (deploy env ''PoolAddressesProviderRegistry''
       (contract_of ''PoolAddressesProviderRegistry'' [Address (de_deployer env)])) (\<lambda>registry.
     transact (transferRegistryTo (de_deployer env) registry (addressesProviderRegistryOwner (de_accounts env))))"

definition logicLibraries :: "deploy_env \<Rightarrow> unit script" where
  "logicLibraries env =
     abind (deploy env ''SupplyLogic'' (contract_of ''SupplyLogic'' [])) (\<lambda>_.
     abind (deploy env ''BorrowLogic'' (contract_of ''BorrowLogic'' [])) (\<lambda>borrowLogic.
     abind (deploy env ''LiquidationLogic'' (contract_of ''LiquidationLogic'' [])) (\<lambda>_.
     abind (deploy env ''EModeLogic'' (contract_of ''EModeLogic'' [])) (\<lambda>_.
     abind (deploy env ''BridgeLogic'' (contract_of ''BridgeLogic'' [])) (\<lambda>_.
     abind (deploy env ''ConfiguratorLogic'' (contract_of ''ConfiguratorLogic'' [])) (\<lambda>_.
     abind (deploy env ''FlashLoanLogic''
       ((contract_of ''FlashLoanLogic'' [])\<lparr>cc_libraries := [(''BorrowLogic'', borrowLogic)]\<rparr>)) (\<lambda>_.
     abind (deploy env ''PoolLogic'' (contract_of ''PoolLogic'' [])) (\<lambda>_.
     areturn (Inr ())))))))))"

definition getPoolLibraries :: "string obj script" where
  "getPoolLibraries =
     abind (deploymentOf ''SupplyLogic'') (\<lambda>supply.
     abind (deploymentOf ''BorrowLogic'') (\<lambda>borrow.
     abind (deploymentOf ''LiquidationLogic'') (\<lambda>liquidation.
     abind (deploymentOf ''EModeLogic'') (\<lambda>eMode.
     abind (deploymentOf ''BridgeLogic'') (\<lambda>bridge.
     abind (deploymentOf ''FlashLoanLogic'') (\<lambda>flashLoan.
     abind (deploymentOf ''PoolLogic'') (\<lambda>pool.
     areturn (Inr [(''LiquidationLogic'', liquidation), (''SupplyLogic'', supply), (''EModeLogic'', eMode),
       (''FlashLoanLogic'', flashLoan), (''BorrowLogic'', borrow), (''BridgeLogic'', bridge),
       (''PoolLogic'', pool)]))))))))"

section \<open>Treasury\<close>

text \<open>An owner that the network does not have cannot be encoded as an argument of the controller.\<close>

definition treasury :: "deploy_env \<Rightarrow> market_configuration \<Rightarrow> unit script" where
  "treasury env poolConfig =
     (let network = networkName (de_market env);
          treasuryAddress = getParamPerNetwork (ReserveFactorTreasuryAddress poolConfig) network
      in abind (areturn (isTestnetMarket (de_market env) poolConfig)) (\<lambda>testnet.
      let treasuryOwner = (if testnet then Some (de_deployer env) else obj_get POOL_ADMIN network) in
      abind (areturn (if truthy treasuryAddress
        then rbind (getAddress (addresses (de_market env)) (the treasuryAddress)) (\<lambda>x. Inr (x \<noteq> ZERO_ADDRESS))
        else Inr False)) (\<lambda>given.
      if given then
        let proxy = the treasuryAddress in
        abind (ask (\<lambda>w. Inr (w_fundsAdmin w proxy, w_implementation w proxy))) (\<lambda>(controller, impl).
        abind (saveDeployment TREASURY_PROXY_ID proxy) (\<lambda>_.
        abind (saveDeployment TREASURY_CONTROLLER_ID controller) (\<lambda>_.
        saveDeployment TREASURY_IMPL_ID impl)))
      else
        abind (deploy env TREASURY_PROXY_ID (contract_of ''InitializableAdminUpgradeabilityProxy'' [])) (\<lambda>proxy.
        abind (areturn (getf treasuryOwner)) (\<lambda>owner.
        abind (deploy env TREASURY_CONTROLLER_ID (contract_of ''EcosystemReserveController'' [Address owner])) (\<lambda>controller.
        abind (deploy env TREASURY_IMPL_ID (contract_of ''EcosystemReserveV2'' [])) (\<lambda>impl.
        abind (transact (initialize impl ZERO_ADDRESS)) (\<lambda>_.
        transact (initializeAdminProxy proxy impl owner controller)))))))))"

section \<open>The addresses provider\<close>

text \<open>The contracts as the helpers see them; the operations on reserves are the ones of \<open>base\<close>.\<close>

definition world_api :: "deploy_world deploy_api \<Rightarrow> deploy_world deploy_api" where
  "world_api base = base\<lparr>
     getPool := \<lambda>provider w. Inr (providerAddress provider ''POOL'' w),
     getACLManager := \<lambda>provider w. Inr (providerAddress provider ''ACL_MANAGER'' w),
     getACLAdmin := \<lambda>provider w. Inr (providerAddress provider ''ACL_ADMIN'' w),
     getPoolConfigurator := \<lambda>provider w. Inr (providerAddress provider ''POOL_CONFIGURATOR'' w),
     registryOwner := \<lambda>registry w. Inr (rg_owner (w_registry w registry)),
     addRiskAdmin := \<lambda>manager sender account. onManager manager (AccessControl.addRiskAdmin sender account),
     removeRiskAdmin := \<lambda>manager sender account. onManager manager (AccessControl.removeRiskAdmin sender account),
     registerAddressesProvider := \<lambda>registry sender provider i w.
       rbind (encode 256 i) (\<lambda>i. onRegistry registry (registerProvider sender provider i) w)\<rparr>"

text \<open>
  Step 0 of the script: every reserve of the market needs an address. \<open>containsSameMembers\<close> sorts the two
  arrays in place, so that the symbols are then visited in order.
\<close>

definition checkReserves :: "address_lib \<Rightarrow> string list \<Rightarrow> string obj \<Rightarrow> unit result" where
  "checkReserves lib reserveConfigSymbols reserves =
     (if \<not> containsSameMembers reserveConfigSymbols (obj_keys reserves) then
        Inl (Thrown ''[Deployment][Error] Mismatch between Config.ReservesConfig and Config.ReserveAssets token symbols'')
      else foldM (\<lambda>_ symb.
        let missing = Inl (Thrown (''[Deployment][Error] Missing token '' @ symb @ '' ReserveAssets configuration'')) in
        if \<not> truthy (obj_get reserves symb) then missing
        else rbind (getAddress lib (the (obj_get reserves symb))) (\<lambda>x.
          if x = ZERO_ADDRESS then missing else Inr ())) () (sort (obj_keys reserves)))"

definition setupAddressesProvider ::
    "deploy_env \<Rightarrow> deploy_world deploy_api \<Rightarrow> market_configuration \<Rightarrow> unit script" where
  "setupAddressesProvider env base poolConfig =
     (let lib = addresses (de_market env); network = networkName (de_market env) in
      abind (ask (\<lambda>w. getReserveAddresses (de_market env) poolConfig network (w_saved w))) (\<lambda>reserves.
      abind (areturn (checkReserves lib (obj_keys (ReservesConfig poolConfig)) reserves)) (\<lambda>_.
      abind (deploy env (POOL_ADDRESSES_PROVIDER_ID (de_market_name env))
        (contract_of ''PoolAddressesProvider'' [Text ''0'', Address (de_deployer env)])) (\<lambda>provider.
      abind (transact (setMarketId (de_deployer env) provider (MarketId poolConfig))) (\<lambda>_.
      abind (ask (\<lambda>w. Inr (w_saved w))) (\<lambda>saved.
      abind (addMarketToRegistry (world_api base) lib saved (ProviderId poolConfig) (Some provider)) (\<lambda>_.
      abind (deploy env (POOL_DATA_PROVIDER (de_market_name env))
        (contract_of ''ProtocolDataProvider'' [Address provider])) (\<lambda>dataProvider.
      abind (ask (\<lambda>w. isEqualAddress lib dataProvider (providerAddress provider ''DATA_PROVIDER'' w))) (\<lambda>isSet.
      if isSet then areturn (Inr ())
      else transact (setAddress (de_deployer env) provider ''DATA_PROVIDER'' dataProvider))))))))))"

section \<open>Implementations of the pool and its configurator\<close>

definition poolImplementation :: "deploy_env \<Rightarrow> unit script" where
  "poolImplementation env =
     abind (deploymentOf (POOL_ADDRESSES_PROVIDER_ID (de_market_name env))) (\<lambda>provider.
     abind getPoolLibraries (\<lambda>commonLibraries.
     abind (deploy env POOL_IMPL_ID
       ((contract_of ''Pool'' [Address provider])\<lparr>cc_libraries := commonLibraries\<rparr>)) (\<lambda>pool.
     transact (initialize pool provider))))"

definition poolConfigurator :: "deploy_env \<Rightarrow> unit script" where
  "poolConfigurator env =
     abind (deploymentOf (POOL_ADDRESSES_PROVIDER_ID (de_market_name env))) (\<lambda>provider.
     abind (deploymentOf ''ConfiguratorLogic'') (\<lambda>configuratorLogic.
     abind (deploy env POOL_CONFIGURATOR_IMPL_ID
       ((contract_of ''PoolConfigurator'' [])\<lparr>cc_libraries := [(''ConfiguratorLogic'', configuratorLogic)]\<rparr>)) (\<lambda>poolConfig.
     abind (transact (initialize poolConfig provider)) (\<lambda>_.
     abind (deploy env RESERVES_SETUP_HELPER_ID (contract_of ''ReservesSetupHelper'' [])) (\<lambda>_.
     areturn (Inr ()))))))"

section \<open>Access control\<close>

text \<open>\<open>03_init_acl.ts\<close> on the chain of the deployment.\<close>

definition deployAcl :: "deploy_env \<Rightarrow> unit script" where
  "deployAcl env =
     (let acc = de_accounts env in
      abind (deploymentOf (POOL_ADDRESSES_PROVIDER_ID (de_market_name env))) (\<lambda>provider.
      abind (transact (setAddress (deployer acc) provider ''ACL_ADMIN'' (aclAdmin acc))) (\<lambda>_.
      abind (deploy env (ACL_MANAGER_ID (de_market_name env)) (contract_of ''ACLManager'' [Address provider])) (\<lambda>manager.
      abind (transact (setAddress (deployer acc) provider ''ACL_MANAGER'' manager)) (\<lambda>_.
      abind (transact (onManager manager (addPoolAdmin (aclAdmin acc) (poolAdmin acc)))) (\<lambda>_.
      abind (transact (onManager manager (addEmergencyAdmin (aclAdmin acc) (emergencyAdmin acc)))) (\<lambda>_.
      abind (ask (\<lambda>w. Inr (hasRole DEFAULT_ADMIN_ROLE (aclAdmin acc) (w_acl w manager)))) (\<lambda>isACLAdmin.
      abind (ask (\<lambda>w. Inr (isPoolAdmin (poolAdmin acc) (w_acl w manager)))) (\<lambda>isPoolAdmin.
      abind (ask (\<lambda>w. Inr (isEmergencyAdmin (emergencyAdmin acc) (w_acl w manager)))) (\<lambda>isEmergencyAdmin.
      areturn (if \<not> isACLAdmin then Inl (Thrown ''[ACL][ERROR] ACLAdmin is not setup correctly'')
        else if \<not> isPoolAdmin then Inl (Thrown ''[ACL][ERROR] PoolAdmin is not setup correctly'')
        else if \<not> isEmergencyAdmin then Inl (Thrown ''[ACL][ERROR] EmergencyAdmin is not setup correctly'')
        else Inr ())))))))))))"

section \<open>Oracles\<close>

text \<open>\<open>parseUnits(x, unit)\<close> is \<open>x\<close> with \<open>unit\<close> zeros; the unit is the decimal string \<open>OracleQuoteUnit\<close>.\<close>

definition decimal_value :: "string \<Rightarrow> nat" where
  "decimal_value s = foldl (\<lambda>n c. 10 * n + (of_char c - 48)) 0 s"

definition parseUnits_one :: "string \<Rightarrow> int" where
  "parseUnits_one unit = 10 ^ decimal_value unit"

definition deployOracles :: "deploy_env \<Rightarrow> market_configuration \<Rightarrow> unit script" where
  "deployOracles env poolConfig =
     (let network = networkName (de_market env) in
      abind (deploymentOf (POOL_ADDRESSES_PROVIDER_ID (de_market_name env))) (\<lambda>provider.
      abind (ask (\<lambda>w. getReserveAddresses (de_market env) poolConfig network (w_saved w))) (\<lambda>reserveAssets.
      abind (ask (\<lambda>w. getChainlinkOracles (de_market env) poolConfig network (w_saved w))) (\<lambda>aggregators.
      abind (areturn (getPairsTokenAggregator reserveAssets aggregators)) (\<lambda>(assets, sources).
      abind (deploy env (FALLBACK_ORACLE_ID (de_market_name env)) (contract_of ''PriceOracle'' [])) (\<lambda>_.
      abind (deploymentOf (FALLBACK_ORACLE_ID (de_market_name env))) (\<lambda>fallback.
      abind (deploy env (ORACLE_ID (de_market_name env)) (contract_of ''RASAOracle''
        [Address provider, Addresses assets, Addresses sources, Address fallback, Address ZERO_ADDRESS,
         Number (parseUnits_one (OracleQuoteUnit poolConfig))])) (\<lambda>_.
      areturn (Inr ())))))))))"

definition initOracles :: "deploy_env \<Rightarrow> unit script" where
  "initOracles env =
     (let lib = addresses (de_market env) in
      abind (deploymentOf (POOL_ADDRESSES_PROVIDER_ID (de_market_name env))) (\<lambda>provider.
      abind (deploymentOf (ORACLE_ID (de_market_name env))) (\<lambda>configPriceOracle.
      abind (ask (\<lambda>w. isEqualAddress lib configPriceOracle (providerAddress provider ''PRICE_ORACLE'' w))) (\<lambda>isSet.
      if isSet then areturn (Inr ())
      else transact (setAddress (de_deployer env) provider ''PRICE_ORACLE'' configPriceOracle)))))"

section \<open>The pool\<close>

text \<open>\<open>setPoolImpl\<close> and \<open>setPoolConfiguratorImpl\<close> of the provider are \<open>setAddressAsProxy\<close> of a fixed name.\<close>

definition attachProxy :: "deploy_env \<Rightarrow> string \<Rightarrow> string \<Rightarrow> string \<Rightarrow> string \<Rightarrow> unit script" where
  "attachProxy env provider i impl nam =
     abind (ask (\<lambda>w. Inr (providerAddress provider i w))) (\<lambda>current.
     abind (if current = ZERO_ADDRESS then transact (setAddressAsProxy env (de_deployer env) provider i impl)
            else areturn (Inr ())) (\<lambda>_.
     abind (ask (\<lambda>w. Inr (providerAddress provider i w))) (\<lambda>proxy.
     saveDeployment nam proxy)))"

definition initPool :: "deploy_env \<Rightarrow> market_configuration \<Rightarrow> unit script" where
  "initPool env poolConfig =
     (let l2 = isL2PoolSupported (de_market env) poolConfig; nam = de_market_name env in
      abind (deploymentOf (if l2 then L2_POOL_IMPL_ID else POOL_IMPL_ID)) (\<lambda>poolImpl.
      abind (deploymentOf POOL_CONFIGURATOR_IMPL_ID) (\<lambda>configuratorImpl.
      abind (deploymentOf (POOL_ADDRESSES_PROVIDER_ID nam)) (\<lambda>provider.
      abind (attachProxy env provider ''POOL'' poolImpl (POOL_PROXY_ID nam)) (\<lambda>_.
      abind (attachProxy env provider ''POOL_CONFIGURATOR'' configuratorImpl (POOL_CONFIGURATOR_PROXY_ID nam)) (\<lambda>_.
      abind (if l2 then
               abind (deploymentOf (POOL_PROXY_ID nam)) (\<lambda>pool.
               abind (deploy env L2_ENCODER (contract_of ''L2Encoder'' [Address pool])) (\<lambda>_. areturn (Inr ())))
             else areturn (Inr ())) (\<lambda>_.
      abind (deploymentOf (POOL_CONFIGURATOR_PROXY_ID nam)) (\<lambda>configurator.
      abind (transact (updateFlashloanPremiumTotal (de_deployer env) configurator (flashLoanPremium_total poolConfig))) (\<lambda>_.
      transact (updateFlashloanPremiumToProtocol (de_deployer env) configurator
        (flashLoanPremium_protocol poolConfig)))))))))))"

end
