(* ===== verification/PeripheryDeploy.thy ===== *)
theory PeripheryDeploy
  imports MarketDeploy
begin

text \<open>
  The rest of the deployment scripts: incentives, the implementations of the tokens, the reserves and the
  peripheral contracts, and the tokens and price feeds of a test market
  (\<open>deploy/02_market/00_testnet\<close>).
\<close>

section \<open>Incentives\<close>

definition rewardsStrategies :: "deploy_env \<Rightarrow> string \<Rightarrow> unit script" where
  "rewardsStrategies env rewardsProxy =
     abind (deploy env INCENTIVES_PULL_REWARDS_STRATEGY_ID (contract_of ''PullRewardsTransferStrategy''
       [Address rewardsProxy, Address (incentivesEmissionManager env), Address (incentivesRewardsVault env)])) (\<lambda>_.
     abind (ask (\<lambda>w. Inr (obj_get (w_saved w) STAKE_RASA_PROXY))) (\<lambda>stakedRASA.
     if truthy stakedRASA then
       abind (deploy env INCENTIVES_STAKED_TOKEN_STRATEGY_ID (contract_of ''StakedTokenTransferStrategy''
         [Address rewardsProxy, Address (incentivesEmissionManager env), Address (the stakedRASA)])) (\<lambda>_.
       areturn (Inr ()))
     else areturn (Inr ())))"

definition incentives :: "deploy_env \<Rightarrow> unit script" where
  "incentives env =
     (let incentivesControllerId = keccak256 env ''INCENTIVES_CONTROLLER'' in
     abind (areturn (isLive (de_market env) (networkName (de_market env)))) (\<lambda>live.
     abind (deploymentOf (POOL_ADDRESSES_PROVIDER_ID (de_market_name env))) (\<lambda>provider.
     abind (deploy env EMISSION_MANAGER_ID (contract_of ''EmissionManager'' [Address (de_deployer env)])) (\<lambda>emissionManager.
     abind (deploy env INCENTIVES_V2_IMPL_ID (contract_of ''RewardsController'' [Address emissionManager])) (\<lambda>impl.
     abind (transact (initialize impl ZERO_ADDRESS)) (\<lambda>_.
     abind (ask (\<lambda>w. Inr (providerAddress provider incentivesControllerId w))) (\<lambda>current.
     abind (if current = ZERO_ADDRESS then
              abind (transact (setAddressAsProxy env (de_deployer env) provider incentivesControllerId impl)) (\<lambda>_.
              abind (ask (\<lambda>w. Inr (providerAddress provider incentivesControllerId w))) (\<lambda>proxy.
              saveDeployment INCENTIVES_PROXY_ID proxy))
            else areturn (Inr ())) (\<lambda>_.
     abind (deploymentOf INCENTIVES_PROXY_ID) (\<lambda>rewardsProxy.
     abind (transact (setRewardsController (firstSigner env) emissionManager rewardsProxy)) (\<lambda>_.
     abind (if \<not> live then rewardsStrategies env rewardsProxy else areturn (Inr ())) (\<lambda>_.
     transact (transferOwned (firstSigner env) emissionManager (incentivesEmissionManager env)))))))))))))"

section \<open>Implementations of the tokens\<close>

definition tokenImplementation :: "deploy_env \<Rightarrow> string \<Rightarrow> string \<Rightarrow> string \<Rightarrow> unit script" where
  "tokenImplementation env pool nam contract =
     abind (deploy env nam (contract_of contract [Address pool])) (\<lambda>token. transact (initialize token pool))"

definition tokenImplementations :: "deploy_env \<Rightarrow> unit script" where
  "tokenImplementations env =
     (let market = de_market_name env in
      abind (deploymentOf (POOL_ADDRESSES_PROVIDER_ID market)) (\<lambda>provider.
      abind (ask (\<lambda>w. Inr (providerAddress provider ''POOL'' w))) (\<lambda>pool.
      abind (tokenImplementation env pool (RSTOKEN_IMPL_ID market) ''RSToken'') (\<lambda>_.
      abind (tokenImplementation env pool (DELEGATION_AWARE_RSTOKEN_IMPL_ID market) ''DelegationAwareRSToken'') (\<lambda>_.
      abind (tokenImplementation env pool (STABLE_DEBT_TOKEN_IMPL_ID market) ''StableDebtToken'') (\<lambda>_.
      tokenImplementation env pool (VARIABLE_DEBT_TOKEN_IMPL_ID market) ''VariableDebtToken''))))))"

section \<open>Reserves\<close>

definition strategyArgs :: "string \<Rightarrow> interest_rate_strategy_params \<Rightarrow> arg list" where
  "strategyArgs provider p =
     [Address provider, Number (optimalUsageRatio p), Number (baseVariableBorrowRate p),
      Number (variableRateSlope1 p), Number (variableRateSlope2 p), Number (stableRateSlope1 p),
      Number (stableRateSlope2 p), Number (baseStableRateOffset p), Number (stableRateExcessOffset p),
      Number (optimalStableToTotalDebtRatio p)]"

definition deployStrategies :: "deploy_env \<Rightarrow> string \<Rightarrow> interest_rate_strategy_params obj \<Rightarrow> unit script" where
  "deployStrategies env provider strategies =
     forEach (\<lambda>(_, p). abind (deploy env (strategyId (strategy_name p))
       (contract_of ''DefaultReserveInterestRateStrategy'' (strategyArgs provider p))) (\<lambda>_. areturn (Inr ()))) strategies"

text \<open>\<open>tokensOf\<close> is what the data provider says of the tokens of a reserve.\<close>

definition initReservesScript ::
    "deploy_env \<Rightarrow> deploy_world deploy_api \<Rightarrow> (string \<Rightarrow> deploy_world \<Rightarrow> pool_tokens result) \<Rightarrow>
      market_configuration \<Rightarrow> unit script" where
  "initReservesScript env base tokensOf poolConfig =
     (let menv = de_market env; market = de_market_name env; network = networkName menv;
          saved = ask (\<lambda>w. Inr (w_saved w)) in
      abind (deploymentOf (POOL_ADDRESSES_PROVIDER_ID market)) (\<lambda>provider.
      abind (deployStrategies env provider (RateStrategies poolConfig)) (\<lambda>_.
      abind (ask (\<lambda>w. getTreasuryAddress menv poolConfig network (w_saved w))) (\<lambda>treasury.
      abind (deploymentOf INCENTIVES_PROXY_ID) (\<lambda>incentivesController.
      abind (ask (\<lambda>w. getReserveAddresses menv poolConfig network (w_saved w))) (\<lambda>reservesAddresses.
      if reservesAddresses = [] then areturn (Inr ())
      else
        abind saved (\<lambda>deployments.
        abind (initReservesByHelper (world_api base) menv (\<lambda>_. Inr poolConfig) deployments
          (ReservesConfig poolConfig) reservesAddresses (de_deployer env) treasury incentivesController) (\<lambda>_.
        abind (configureReservesByHelper (world_api base) market (de_deployer env) deployments
          (ReservesConfig poolConfig) reservesAddresses) (\<lambda>_.
        transact (\<lambda>w. rbind (savePoolTokens menv (\<lambda>asset. tokensOf asset w) reservesAddresses (w_saved w)) (\<lambda>s.
          Inr (w\<lparr>w_saved := s\<rparr>))))))))))))"

section \<open>Periphery\<close>

definition initPeriphery :: "deploy_env \<Rightarrow> market_configuration \<Rightarrow> unit script" where
  "initPeriphery env poolConfig =
     abind (areturn (isLive (de_market env) (networkName (de_market env)))) (\<lambda>live.
     if \<not> live \<or> TestnetMarket poolConfig then
       abind (deploymentOf (POOL_ADDRESSES_PROVIDER_ID (de_market_name env))) (\<lambda>provider.
       abind (deploy env ''MockFlashLoanReceiver'' (contract_of ''MockFlashLoanReceiver'' [Address provider])) (\<lambda>_.
       areturn (Inr ())))
     else areturn (Inr ()))"

definition WRAPPED_NATIVE_TOKEN_PER_NETWORK :: "string obj" where
  "WRAPPED_NATIVE_TOKEN_PER_NETWORK = [(''lisk'', ''0x4200000000000000000000000000000000000006'')]"

definition nativeTokenGateway :: "deploy_env \<Rightarrow> market_configuration \<Rightarrow> unit script" where
  "nativeTokenGateway env poolConfig =
     (let network = networkName (de_market env) in
      abind (areturn (isTestnetMarket (de_market env) poolConfig)) (\<lambda>testnet.
      abind (if testnet
             then deploymentOf (WrappedNativeTokenSymbol poolConfig @ TESTNET_TOKEN_PREFIX (de_market_name env))
             else areturn (case obj_get WRAPPED_NATIVE_TOKEN_PER_NETWORK network of
               Some a \<Rightarrow> Inr a
             | None \<Rightarrow> Inl (Thrown (''Missing Wrapped native token for network: '' @ network @
                 '', fill the missing configuration at ./helpers/constants.ts'')))) (\<lambda>wrappedNativeToken.
      abind (deploymentOf (POOL_PROXY_ID (de_market_name env))) (\<lambda>pool.
      abind (deploy env ''WrappedTokenGatewayV3'' (contract_of ''WrappedTokenGatewayV3''
        [Address wrappedNativeToken, Address (de_deployer env), Address pool])) (\<lambda>_.
      areturn (Inr ()))))))"

definition walletBalanceProvider :: "deploy_env \<Rightarrow> unit script" where
  "walletBalanceProvider env =
     abind (deploy env ''WalletBalanceProvider'' (contract_of ''WalletBalanceProvider'' [])) (\<lambda>_. areturn (Inr ()))"

text \<open>The mocked price feed is stored under a name with the random identifier \<open>uuid\<close>.\<close>

definition uiHelpers :: "string \<Rightarrow> deploy_env \<Rightarrow> market_configuration \<Rightarrow> unit script" where
  "uiHelpers uuid env poolConfig =
     (let network = networkName (de_market env);
          mocked = obj_get (UseMockedEACAggregatorProxy poolConfig) network = Some True;
          feed = obj_get (BaseTokenPriceInUsdProxyAggregator poolConfig) network
      in if \<not> mocked \<and> feed = Some ZERO_ADDRESS then areturn (Inr ())
      else
        abind (deploy env ''UiIncentiveDataProviderV3'' (contract_of ''UiIncentiveDataProviderV3'' [])) (\<lambda>_.
        abind (if mocked
               then deploy env (''MockAggregator-'' @ uuid) (contract_of ''MockAggregator'' [Text ''1000000000000000000''])
               else areturn (getf feed)) (\<lambda>aggregator.
        abind (deploy env ''UiPoolDataProviderV3'' (contract_of ''UiPoolDataProviderV3'' [Address aggregator])) (\<lambda>_.
        areturn (Inr ())))))"

section \<open>A test market\<close>

definition testToken :: "deploy_env \<Rightarrow> market_configuration \<Rightarrow> string \<Rightarrow> string \<Rightarrow> unit script" where
  "testToken env poolConfig faucet symb =
     (let nam = symb @ TESTNET_TOKEN_PREFIX (de_market_name env) in
      case obj_get (ReservesConfig poolConfig) symb of
        None \<Rightarrow> areturn (Inl (Thrown (''[Deployment] Missing token '' @ [CHR 0x22] @ symb @ [CHR 0x22] @ '' at ReservesConfig'')))
      | Some p \<Rightarrow>
          abind (deploy env nam
            (if symb = WrappedNativeTokenSymbol poolConfig
             then contract_of ''WETH9Mocked'' [Text symb, Text symb, Address faucet]
             else contract_of ''TestnetERC20'' [Text symb, Text symb, Number (reserveDecimals p), Address faucet])) (\<lambda>_.
          areturn (Inr ())))"

text \<open>The script calls \<open>setupStkRASA\<close>, which no module exports: calling it is a \<open>TypeError\<close>.\<close>

definition testRewards :: "deploy_env \<Rightarrow> market_configuration \<Rightarrow> string \<Rightarrow> unit script" where
  "testRewards env poolConfig faucet =
     (let market = de_market_name env;
          rewardSymbols = (case obj_get (rewards poolConfig) (networkName (de_market env)) of
            None \<Rightarrow> [] | Some r \<Rightarrow> obj_keys r)
      in abind (forEach (\<lambda>reward. abind (deploy env (reward @ TESTNET_REWARD_TOKEN_PREFIX market)
           (contract_of ''TestnetERC20'' [Text reward, Text reward, Number 18, Address faucet])) (\<lambda>_.
           areturn (Inr ()))) rewardSymbols) (\<lambda>_.
      abind (deploymentOf (''RASA'' @ TESTNET_TOKEN_PREFIX market)) (\<lambda>_.
      abind (deploy env STAKE_RASA_PROXY (contract_of ''InitializableAdminUpgradeabilityProxy'' [])) (\<lambda>_.
      areturn (Inl TypeError)))))"

definition tokenSetup :: "deploy_env \<Rightarrow> market_configuration \<Rightarrow> unit script" where
  "tokenSetup env poolConfig =
     abind (areturn (isProductionMarket (de_market env) poolConfig)) (\<lambda>production.
     if production then areturn (Inr ())
     else
       abind (deploy env (FAUCET_OWNABLE_ID (de_market_name env)) (contract_of ''Faucet''
         [Address (de_deployer env), Flag (PERMISSIONED_FAUCET env)])) (\<lambda>faucet.
       let reserveSymbols = obj_keys (ReservesConfig poolConfig) in
       if reserveSymbols = [] then areturn (Inr ())
       else
         abind (forEach (testToken env poolConfig faucet) reserveSymbols) (\<lambda>_.
         if isIncentivesEnabled (de_market env) poolConfig then testRewards env poolConfig faucet
         else areturn (Inr ()))))"

definition MOCK_CHAINLINK_AGGREGATORS_PRICES :: "string obj" where
  "MOCK_CHAINLINK_AGGREGATORS_PRICES =
     [(''WETH'', ''2500000000000000000000''), (''USDT'', ''100000000000000000000'')]"

definition priceAggregators :: "deploy_env \<Rightarrow> market_configuration \<Rightarrow> unit script" where
  "priceAggregators env poolConfig =
     (let menv = de_market env; market = de_market_name env in
      abind (areturn (isProductionMarket menv poolConfig)) (\<lambda>production.
      if production then areturn (Inr ())
      else
        abind (ask (\<lambda>w. getReserveAddresses menv poolConfig (networkName menv) (w_saved w))) (\<lambda>reserves.
        abind (ask (\<lambda>w. Inr (if isIncentivesEnabled menv poolConfig
          then getSymbolsByPrefix (w_saved w) (TESTNET_REWARD_TOKEN_PREFIX market) else []))) (\<lambda>rewardSymbols.
        forEach (\<lambda>symb.
          case obj_get MOCK_CHAINLINK_AGGREGATORS_PRICES (if symb = ''StkRASA'' then ''RASA'' else symb) of
            None \<Rightarrow> areturn (Inl (Thrown (''[ERROR] Missing mock price for asset '' @ symb @
              '' at MOCK_CHAINLINK_AGGREGATORS_PRICES constant located at src/constants.ts'')))
          | Some price \<Rightarrow> abind (deploy env (symb @ TESTNET_PRICE_AGGR_PREFIX market)
              (contract_of ''MockAggregator'' [Text price])) (\<lambda>_. areturn (Inr ())))
          (obj_keys reserves @ rewardSymbols)))))"

end
