(* ===== verification/DeployProps.thy ===== *)
theory DeployProps
  imports PeripheryDeploy
begin

text \<open>
  What the deployment scripts achieve, and which of them can be run again. Each script is inverted once,
  into the facts its successful run leaves behind.
\<close>

lemmas act_steps = abind_ask abind_areturn abind_transact abind_deploymentOf

section \<open>The addresses provider\<close>

lemma names_differ:
  "POOL_ADDRESSES_PROVIDER_ID market \<noteq> ''PoolAddressesProviderRegistry''"
  "POOL_DATA_PROVIDER market \<noteq> ''PoolAddressesProviderRegistry''"
  "POOL_DATA_PROVIDER market \<noteq> POOL_ADDRESSES_PROVIDER_ID market'"
  by (simp_all add: POOL_ADDRESSES_PROVIDER_ID_def POOL_DATA_PROVIDER_def)

lemmas ids_differ = names_differ names_differ[THEN not_sym]

lemma onProvider_iff:
  "onProvider sender provider f w = Inr w' \<longleftrightarrow> pv_owner (w_provider w provider) = sender \<and>
     w' = w\<lparr>w_provider := (w_provider w)(provider := f (w_provider w provider))\<rparr>"
  by (auto simp: onProvider_def onlyOwner_def rbind_eq_Inr)

text \<open>The contract the script deploys, and its address.\<close>

abbreviation the_provider :: "deploy_env \<Rightarrow> string" where
  "the_provider env \<equiv> de_addressOf env (POOL_ADDRESSES_PROVIDER_ID (de_market_name env))
     (contract_of ''PoolAddressesProvider'' [Text ''0'', Address (de_deployer env)])"

lemma addMarketToRegistry_iff:
  "addMarketToRegistry (world_api base) lib saved i (Some provider) w = (Inr u, w') \<longleftrightarrow>
     (\<exists>registry n r. obj_get saved ''PoolAddressesProviderRegistry'' = Some registry \<and>
       isValidAddress lib (Some provider) = Inr True \<and> encode 256 i = Inr n \<and>
       registerProvider (rg_owner (w_registry w registry)) provider n (w_registry w registry) = Inr r \<and>
       w' = w\<lparr>w_registry := (w_registry w)(registry := r)\<rparr>)"
  by (auto simp: addMarketToRegistry_def act_inv deployments_get_def world_api_def rbind_eq_Inr onRegistry_def
      split: option.splits if_splits sum.splits)

lemma setupAddressesProvider_Inr:
  assumes "setupAddressesProvider env base poolConfig w = (Inr u, w')"
  obtains reserves registry n r d v where
    "getReserveAddresses (de_market env) poolConfig (networkName (de_market env)) (w_saved w) = Inr reserves"
    "checkReserves (addresses (de_market env)) (obj_keys (ReservesConfig poolConfig)) reserves = Inr ()"
    "obj_get (w_saved w) ''PoolAddressesProviderRegistry'' = Some registry"
    "obj_get (w_saved w') ''PoolAddressesProviderRegistry'' = Some registry"
    "obj_get (w_saved w') (POOL_ADDRESSES_PROVIDER_ID (de_market_name env)) = Some (the_provider env)"
    "isValidAddress (addresses (de_market env)) (Some (the_provider env)) = Inr True"
    "encode 256 (ProviderId poolConfig) = Inr n"
    "registerProvider (rg_owner (w_registry w registry)) (the_provider env) n (w_registry w registry) = Inr r"
    "w_registry w' registry = r"
    "pv_marketId (w_provider w' (the_provider env)) = MarketId poolConfig"
    "pv_owner (w_provider w' (the_provider env)) = de_deployer env"
    "obj_get (w_saved w') (POOL_DATA_PROVIDER (de_market_name env)) = Some d"
    "isEqualAddress (addresses (de_market env)) d (providerAddress (the_provider env) ''DATA_PROVIDER'' w') = Inr True"
proof -
  from assms obtain reserves w1 w2 w3 w4 d eq where s:
      "getReserveAddresses (de_market env) poolConfig (networkName (de_market env)) (w_saved w) = Inr reserves"
      "checkReserves (addresses (de_market env)) (obj_keys (ReservesConfig poolConfig)) reserves = Inr ()"
      "deploy env (POOL_ADDRESSES_PROVIDER_ID (de_market_name env))
         (contract_of ''PoolAddressesProvider'' [Text ''0'', Address (de_deployer env)]) w = (Inr (the_provider env), w1)"
      "setMarketId (de_deployer env) (the_provider env) (MarketId poolConfig) w1 = Inr w2"
      "addMarketToRegistry (world_api base) (addresses (de_market env)) (w_saved w2) (ProviderId poolConfig)
         (Some (the_provider env)) w2 = (Inr (), w3)"
      "deploy env (POOL_DATA_PROVIDER (de_market_name env)) (contract_of ''ProtocolDataProvider'' [Address (the_provider env)]) w3
         = (Inr d, w4)"
      "isEqualAddress (addresses (de_market env)) d (providerAddress (the_provider env) ''DATA_PROVIDER'' w4) = Inr eq"
      "if eq then w' = w4 else setAddress (de_deployer env) (the_provider env) ''DATA_PROVIDER'' d w4 = Inr w'"
    by (auto simp: setupAddressesProvider_def Let_def act_inv simp del: act_steps dest: deploy_Inr(1) split: if_splits)
  note d1 = deploy_Inr[OF s(3)] and d2 = deploy_Inr[OF s(6)]
  have w2: "pv_owner (w_provider w1 (the_provider env)) = de_deployer env"
      "w2 = w1\<lparr>w_provider := (w_provider w1)(the_provider env := (w_provider w1 (the_provider env))\<lparr>pv_marketId := MarketId poolConfig\<rparr>)\<rparr>"
    using s(4) by (simp_all add: setMarketId_def onProvider_iff)
  from s(5) obtain registry n r where r:
      "obj_get (w_saved w2) ''PoolAddressesProviderRegistry'' = Some registry"
      "isValidAddress (addresses (de_market env)) (Some (the_provider env)) = Inr True"
      "encode 256 (ProviderId poolConfig) = Inr n"
      "registerProvider (rg_owner (w_registry w2 registry)) (the_provider env) n (w_registry w2 registry) = Inr r"
      "w3 = w2\<lparr>w_registry := (w_registry w2)(registry := r)\<rparr>"
    by (auto simp: addMarketToRegistry_iff)
  have reg: "w_registry w2 = w_registry w" using d1(10) w2(2) by simp
  have w': "w_saved w' = w_saved w4 \<and> w_registry w' = w_registry w4 \<and>
      pv_marketId (w_provider w' (the_provider env)) = pv_marketId (w_provider w4 (the_provider env)) \<and>
      pv_owner (w_provider w' (the_provider env)) = pv_owner (w_provider w4 (the_provider env)) \<and>
      isEqualAddress (addresses (de_market env)) d (providerAddress (the_provider env) ''DATA_PROVIDER'' w') = Inr True"
  proof (cases eq)
    case False
    moreover have "isEqualAddress (addresses (de_market env)) d d = Inr True"
      using s(7) by (auto simp: isEqualAddress_def rbind_eq_Inr)
    ultimately show ?thesis using s(8) by (auto simp: setAddress_def onProvider_iff providerAddress_def)
  qed (use s(7,8) in auto)
  show thesis
  proof (rule that[OF s(1,2) _ _ _ r(2,3)])
    show "obj_get (w_saved w) ''PoolAddressesProviderRegistry'' = Some registry"
      using r(1) d1(2) w2(2) by (simp add: ids_differ)
    then show "obj_get (w_saved w') ''PoolAddressesProviderRegistry'' = Some registry"
      using d1(2) d2(2) w2(2) r(5) w' by (simp add: ids_differ)
    show "obj_get (w_saved w') (POOL_ADDRESSES_PROVIDER_ID (de_market_name env)) = Some (the_provider env)"
      using d1(1,2) d2(2) w2(2) r(5) w' by (simp add: ids_differ)
    show "registerProvider (rg_owner (w_registry w registry)) (the_provider env) n (w_registry w registry) = Inr r"
      using r(4) by (simp add: reg)
    show "w_registry w' registry = r" using d2(10) r(5) w' by simp
    show "pv_marketId (w_provider w' (the_provider env)) = MarketId poolConfig"
      "pv_owner (w_provider w' (the_provider env)) = de_deployer env"
      using d2(9) r(5) w' w2 by simp_all
    show "obj_get (w_saved w') (POOL_DATA_PROVIDER (de_market_name env)) = Some d" using d2(2) w' by simp
    show "isEqualAddress (addresses (de_market env)) d (providerAddress (the_provider env) ''DATA_PROVIDER'' w') = Inr True"
      using w' by simp
  qed
qed

text \<open>
  C25: When the script that sets the addresses provider up goes through, the market is registered: the
  stored provider carries the market id of the configuration, is owned by the deployer, has the configured
  number in the stored registry and is found under it, and its data provider is the stored one. The
  registry was open for it: neither the number nor the provider had been registered.
\<close>

theorem provider_script_registers_market:
  assumes "setupAddressesProvider env base poolConfig w = (Inr u, w')"
  shows "\<exists>provider registry n d.
    obj_get (w_saved w') (POOL_ADDRESSES_PROVIDER_ID (de_market_name env)) = Some provider \<and>
    pv_marketId (w_provider w' provider) = MarketId poolConfig \<and> pv_owner (w_provider w' provider) = de_deployer env \<and>
    obj_get (w_saved w') ''PoolAddressesProviderRegistry'' = Some registry \<and> uint n = ProviderId poolConfig \<and> n \<noteq> 0 \<and>
    marketsOf (w_registry w registry) provider = None \<and> idToAddressesProvider (w_registry w registry) n = ZERO_ADDRESS \<and>
    marketsOf (w_registry w' registry) = (marketsOf (w_registry w registry))(provider \<mapsto> n) \<and>
    idToAddressesProvider (w_registry w' registry) n = provider \<and>
    addressesProvidersList (w_registry w' registry) = addressesProvidersList (w_registry w registry) @ [provider] \<and>
    obj_get (w_saved w') (POOL_DATA_PROVIDER (de_market_name env)) = Some d \<and>
    isEqualAddress (addresses (de_market env)) d (providerAddress provider ''DATA_PROVIDER'' w') = Inr True"
proof (rule setupAddressesProvider_Inr[OF assms])
  fix registry n r d
  assume s: "obj_get (w_saved w') ''PoolAddressesProviderRegistry'' = Some registry"
    "obj_get (w_saved w') (POOL_ADDRESSES_PROVIDER_ID (de_market_name env)) = Some (the_provider env)"
    "encode 256 (ProviderId poolConfig) = Inr n"
    "registerProvider (rg_owner (w_registry w registry)) (the_provider env) n (w_registry w registry) = Inr r"
    "w_registry w' registry = r"
    "pv_marketId (w_provider w' (the_provider env)) = MarketId poolConfig"
    "pv_owner (w_provider w' (the_provider env)) = de_deployer env"
    "obj_get (w_saved w') (POOL_DATA_PROVIDER (de_market_name env)) = Some d"
    "isEqualAddress (addresses (de_market env)) d (providerAddress (the_provider env) ''DATA_PROVIDER'' w') = Inr True"
  have "uint n = ProviderId poolConfig" by (rule uint_encoded[OF s(3)]) simp
  moreover have "marketsOf r = (marketsOf (w_registry w registry))(the_provider env \<mapsto> n)"
    "marketsOf (w_registry w registry) (the_provider env) = None" "n \<noteq> 0"
    "idToAddressesProvider (w_registry w registry) n = ZERO_ADDRESS" "idToAddressesProvider r n = the_provider env"
    "addressesProvidersList r = addressesProvidersList (w_registry w registry) @ [the_provider env]"
    using s(4) by (auto simp: registerProvider_iff marketsOf_def addToAddressesProvidersList_def fun_eq_iff)
  ultimately show ?thesis using s by (intro exI[of _ "the_provider env"] exI[of _ registry] exI[of _ n] exI[of _ d]) simp
qed

text \<open>
  As its comment says, the script can be run successfully only once per market: after a successful run
  it throws on every later chain on which the registry is still stored and the number of the market still
  taken, in particular when it is run again at once.
\<close>

theorem provider_script_runs_once:
  assumes "setupAddressesProvider env base poolConfig w = (Inr u, w')" "the_provider env \<noteq> ZERO_ADDRESS"
    "\<And>registry. obj_get (w_saved w') ''PoolAddressesProviderRegistry'' = Some registry \<Longrightarrow>
      obj_get (w_saved v) ''PoolAddressesProviderRegistry'' = Some registry \<and>
      idToAddressesProvider (w_registry v registry) (word_of_int (ProviderId poolConfig)) =
        idToAddressesProvider (w_registry w' registry) (word_of_int (ProviderId poolConfig))"
  shows "(\<exists>e v'. setupAddressesProvider env base poolConfig v = (Inl e, v')) \<and>
    (\<exists>e v'. setupAddressesProvider env base poolConfig w' = (Inl e, v'))"
proof (rule setupAddressesProvider_Inr[OF assms(1)])
  fix registry n r
  assume s: "obj_get (w_saved w') ''PoolAddressesProviderRegistry'' = Some registry"
    "encode 256 (ProviderId poolConfig) = Inr n"
    "registerProvider (rg_owner (w_registry w registry)) (the_provider env) n (w_registry w registry) = Inr r"
    "w_registry w' registry = r"
  have n: "n = word_of_int (ProviderId poolConfig)" using s(2) by (simp add: encode_eq)
  have taken: "idToAddressesProvider (w_registry w' registry) n = the_provider env"
    using s(3,4) by (auto simp: registerProvider_iff addToAddressesProvidersList_def)
  have stuck: "\<exists>e v'. setupAddressesProvider env base poolConfig x = (Inl e, v')"
    if "obj_get (w_saved x) ''PoolAddressesProviderRegistry'' = Some registry"
      "idToAddressesProvider (w_registry x registry) n \<noteq> ZERO_ADDRESS" for x
  proof (cases "setupAddressesProvider env base poolConfig x")
    case (Pair res x')
    show ?thesis
    proof (cases res)
      case (Inr u')
      then have run: "setupAddressesProvider env base poolConfig x = (Inr u', x')" using Pair by simp
      show ?thesis
        by (rule setupAddressesProvider_Inr[OF run]) (use that s(2) in \<open>auto simp: registerProvider_iff\<close>)
    qed (use Pair in simp)
  qed
  show ?thesis using stuck[of v] stuck[of w'] assms(2) assms(3)[OF s(1)] s(1) taken by (simp add: n)
qed

section \<open>The pool\<close>

lemma delegateInitialize_frame:
  "delegateInitialize proxy impl argument w = Inr w' \<Longrightarrow>
     w_provider w' = w_provider w \<and> w_saved w' = w_saved w \<and> w_code w' = w_code w \<and> w_acl w' = w_acl w \<and>
     w_premiums w' = w_premiums w \<and> w_implementation w' = (w_implementation w)(proxy := impl)"
  by (auto simp: delegateInitialize_def setImplementation_def initializeWith_def initializer_def rbind_eq_Inr
      split: option.splits sum.splits if_splits)

text \<open>What a successful \<open>setAddressAsProxy\<close> does to the provider: the identifier has a proxy afterwards.\<close>

lemma setAddressAsProxy_Inr:
  assumes "setAddressAsProxy env sender provider i impl w = Inr w'"
  shows "w_provider w' = (if providerAddress provider i w = ZERO_ADDRESS
       then (w_provider w)(provider := (w_provider w provider)\<lparr>pv_addresses :=
         (pv_addresses (w_provider w provider))(i := de_proxyOf env provider i)\<rparr>)
       else w_provider w) \<and>
    w_saved w' = w_saved w \<and> w_acl w' = w_acl w \<and> w_premiums w' = w_premiums w \<and>
    w_implementation w' (providerAddress provider i w') = impl"
proof -
  have "updateImpl env provider i impl w = Inr w'"
    using assms by (auto simp: setAddressAsProxy_def onlyOwner_def rbind_eq_Inr)
  then show ?thesis
    by (auto simp: updateImpl_def initializeProxy_def rbind_eq_Inr Let_def providerAddress_def
        dest!: delegateInitialize_frame split: if_splits)
qed

lemma attachProxy_Inr:
  assumes "attachProxy env provider i impl nam w = (Inr u, w')" "de_proxyOf env provider i \<noteq> ZERO_ADDRESS"
  shows "providerAddress provider i w' \<noteq> ZERO_ADDRESS" "w_saved w' = obj_set (w_saved w) nam (providerAddress provider i w')"
    "j \<noteq> i \<Longrightarrow> providerAddress provider j w' = providerAddress provider j w"
    "w_acl w' = w_acl w" "w_premiums w' = w_premiums w"
  using assms
  by (auto simp: attachProxy_def act_inv providerAddress_def simp del: act_steps split: if_splits
      dest!: setAddressAsProxy_Inr)

lemma attachProxy_again:
  assumes "providerAddress provider i w \<noteq> ZERO_ADDRESS" "obj_get (w_saved w) nam = Some (providerAddress provider i w)"
  shows "attachProxy env provider i impl nam w = (Inr (), w)"
  using assms by (simp add: attachProxy_def saveDeployment_def obj_set_same areturn_def transact_def)

lemma updatePremiums_Inr:
  assumes "updatePremiums sender configurator p put w = Inr w'"
  shows "w' = w\<lparr>w_premiums := (w_premiums w)(snd (w_configurator w configurator) :=
      put p (w_premiums w (snd (w_configurator w configurator))))\<rparr>"
    "w_saved v = w_saved w \<Longrightarrow> w_provider v = w_provider w \<Longrightarrow> w_acl v = w_acl w \<Longrightarrow> w_configurator v = w_configurator w \<Longrightarrow>
     put p (w_premiums v (snd (w_configurator w configurator))) = w_premiums v (snd (w_configurator w configurator)) \<Longrightarrow>
     updatePremiums sender configurator p put v = Inr v"
  using assms
  by (auto simp: updatePremiums_def rbind_eq_Inr providerAddress_def split: prod.splits)

lemma pool_ids_differ:
  "POOL_PROXY_ID market \<noteq> POOL_CONFIGURATOR_PROXY_ID market'" "POOL_PROXY_ID market \<noteq> L2_ENCODER"
  "POOL_CONFIGURATOR_PROXY_ID market \<noteq> L2_ENCODER" "POOL_PROXY_ID market \<noteq> POOL_IMPL_ID"
  "POOL_PROXY_ID market \<noteq> L2_POOL_IMPL_ID" "POOL_PROXY_ID market \<noteq> POOL_CONFIGURATOR_IMPL_ID"
  "POOL_PROXY_ID market \<noteq> POOL_ADDRESSES_PROVIDER_ID market'" "POOL_CONFIGURATOR_PROXY_ID market \<noteq> POOL_IMPL_ID"
  "POOL_CONFIGURATOR_PROXY_ID market \<noteq> L2_POOL_IMPL_ID" "POOL_CONFIGURATOR_PROXY_ID market \<noteq> POOL_CONFIGURATOR_IMPL_ID"
  "POOL_CONFIGURATOR_PROXY_ID market \<noteq> POOL_ADDRESSES_PROVIDER_ID market'" "L2_ENCODER \<noteq> POOL_IMPL_ID"
  "L2_ENCODER \<noteq> L2_POOL_IMPL_ID" "L2_ENCODER \<noteq> POOL_CONFIGURATOR_IMPL_ID" "L2_ENCODER \<noteq> POOL_ADDRESSES_PROVIDER_ID market"
  by (simp_all add: POOL_PROXY_ID_def POOL_CONFIGURATOR_PROXY_ID_def L2_ENCODER_def POOL_IMPL_ID_def L2_POOL_IMPL_ID_def
      POOL_CONFIGURATOR_IMPL_ID_def POOL_ADDRESSES_PROVIDER_ID_def PROXY_ID_def IMPL_ID_def)

lemmas pool_ids = pool_ids_differ pool_ids_differ[THEN not_sym]

lemma premiums_Inr:
  assumes "updateFlashloanPremiumTotal sender conf t w = Inr v" "updateFlashloanPremiumToProtocol sender conf p v = Inr w'"
  obtains n m where "encode 128 t = Inr n" "encode 128 p = Inr m"
    "w' = w\<lparr>w_premiums := (w_premiums w)(snd (w_configurator w conf) := (n, m))\<rparr>"
    "updateFlashloanPremiumTotal sender conf t w' = Inr w'" "updateFlashloanPremiumToProtocol sender conf p w' = Inr w'"
proof -
  from assms obtain n m where nm: "encode 128 t = Inr n" "encode 128 p = Inr m"
      "updatePremiums sender conf n (\<lambda>p (_, protocol). (p, protocol)) w = Inr v"
      "updatePremiums sender conf m (\<lambda>p (total, _). (total, p)) v = Inr w'"
    by (auto simp: updateFlashloanPremiumTotal_def updateFlashloanPremiumToProtocol_def rbind_eq_Inr)
  note a = updatePremiums_Inr[OF nm(3)] and b = updatePremiums_Inr[OF nm(4)]
  have w': "w' = w\<lparr>w_premiums := (w_premiums w)(snd (w_configurator w conf) := (n, m))\<rparr>"
    using a(1) b(1) by (simp split: prod.splits)
  show thesis
    by (rule that[OF nm(1,2) w'])
       (use a(1) in \<open>auto simp: updateFlashloanPremiumTotal_def updateFlashloanPremiumToProtocol_def nm(1,2) w'
          intro!: a(2) b(2)\<close>)
qed

text \<open>A successful run of the script that initialises the pool, and its second run.\<close>

lemma initPool_again:
  assumes "initPool env poolConfig w = (Inr u, w')" "\<And>provider i. de_proxyOf env provider i \<noteq> ZERO_ADDRESS"
  shows "initPool env poolConfig w' = (Inr u, w') \<and>
    (\<exists>provider total protocol.
       obj_get (w_saved w') (POOL_ADDRESSES_PROVIDER_ID (de_market_name env)) = Some provider \<and>
       providerAddress provider ''POOL'' w' \<noteq> ZERO_ADDRESS \<and>
       obj_get (w_saved w') (POOL_PROXY_ID (de_market_name env)) = Some (providerAddress provider ''POOL'' w') \<and>
       providerAddress provider ''POOL_CONFIGURATOR'' w' \<noteq> ZERO_ADDRESS \<and>
       obj_get (w_saved w') (POOL_CONFIGURATOR_PROXY_ID (de_market_name env)) =
         Some (providerAddress provider ''POOL_CONFIGURATOR'' w') \<and>
       uint total = flashLoanPremium_total poolConfig \<and> uint protocol = flashLoanPremium_protocol poolConfig \<and>
       w_premiums w' (snd (w_configurator w' (providerAddress provider ''POOL_CONFIGURATOR'' w'))) = (total, protocol))"
proof -
  let ?l2 = "isL2PoolSupported (de_market env) poolConfig" and ?m = "de_market_name env"
  let ?code = "\<lambda>pool. contract_of ''L2Encoder'' [Address pool]"
  from assms(1) obtain poolImpl confImpl P w1 w2 w3 conf w4 where s:
      "obj_get (w_saved w) (if ?l2 then L2_POOL_IMPL_ID else POOL_IMPL_ID) = Some poolImpl"
      "obj_get (w_saved w) POOL_CONFIGURATOR_IMPL_ID = Some confImpl"
      "obj_get (w_saved w) (POOL_ADDRESSES_PROVIDER_ID ?m) = Some P"
      "attachProxy env P ''POOL'' poolImpl (POOL_PROXY_ID ?m) w = (Inr (), w1)"
      "attachProxy env P ''POOL_CONFIGURATOR'' confImpl (POOL_CONFIGURATOR_PROXY_ID ?m) w1 = (Inr (), w2)"
      "if ?l2 then \<exists>pool enc. obj_get (w_saved w2) (POOL_PROXY_ID ?m) = Some pool \<and> deploy env L2_ENCODER (?code pool) w2 = (Inr enc, w3)
       else w3 = w2"
      "obj_get (w_saved w3) (POOL_CONFIGURATOR_PROXY_ID ?m) = Some conf"
      "updateFlashloanPremiumTotal (de_deployer env) conf (flashLoanPremium_total poolConfig) w3 = Inr w4"
      "updateFlashloanPremiumToProtocol (de_deployer env) conf (flashLoanPremium_protocol poolConfig) w4 = Inr w'"
    by (auto simp: initPool_def Let_def act_inv simp del: act_steps split: if_splits)
  note a1 = attachProxy_Inr[OF s(4) assms(2)] and a2 = attachProxy_Inr[OF s(5) assms(2)]
  obtain n m where nm: "encode 128 (flashLoanPremium_total poolConfig) = Inr n"
      "encode 128 (flashLoanPremium_protocol poolConfig) = Inr m"
      "w' = w3\<lparr>w_premiums := (w_premiums w3)(snd (w_configurator w3 conf) := (n, m))\<rparr>"
      "updateFlashloanPremiumTotal (de_deployer env) conf (flashLoanPremium_total poolConfig) w' = Inr w'"
      "updateFlashloanPremiumToProtocol (de_deployer env) conf (flashLoanPremium_protocol poolConfig) w' = Inr w'"
    using premiums_Inr[OF s(8,9)] by blast
  let ?pool = "providerAddress P ''POOL'' w2" and ?conf = "providerAddress P ''POOL_CONFIGURATOR'' w2"
  have pool: "providerAddress P ''POOL'' w1 = ?pool" using a2(3)[of "''POOL''"] by simp
  have l2: "w_provider w3 = w_provider w2 \<and> (\<forall>k. k \<noteq> L2_ENCODER \<longrightarrow> obj_get (w_saved w3) k = obj_get (w_saved w2) k) \<and>
      (?l2 \<longrightarrow> w_code w3 (de_addressOf env L2_ENCODER (?code ?pool)) = Some (?code ?pool) \<and>
         obj_get (w_saved w3) L2_ENCODER = Some (de_addressOf env L2_ENCODER (?code ?pool)))"
  proof (cases ?l2)
    case True
    then obtain enc where d: "deploy env L2_ENCODER (?code ?pool) w2 = (Inr enc, w3)"
      using s(6) a1(2) a2(2) pool by (auto simp: pool_ids)
    from deploy_Inr(1,2,3,9)[OF d] show ?thesis by simp
  qed (use s(6) in simp)
  have saved: "obj_get (w_saved w') k = (if k = L2_ENCODER then obj_get (w_saved w3) k
      else if k = POOL_CONFIGURATOR_PROXY_ID ?m then Some ?conf else if k = POOL_PROXY_ID ?m then Some ?pool
      else obj_get (w_saved w) k)" for k
    using l2 a1(2) a2(2) pool nm(3) by (auto simp: pool_ids)
  have conf: "conf = ?conf" using s(7) l2 a2(2) by (auto simp: pool_ids)
  have addr: "providerAddress P i w' = providerAddress P i w2" for i using nm(3) l2 by (simp add: providerAddress_def)
  have again: "attachProxy env P ''POOL'' poolImpl (POOL_PROXY_ID ?m) w' = (Inr (), w')"
    "attachProxy env P ''POOL_CONFIGURATOR'' confImpl (POOL_CONFIGURATOR_PROXY_ID ?m) w' = (Inr (), w')"
    using a1(1) a2(1) pool by (auto simp: addr saved pool_ids intro!: attachProxy_again)
  have enc: "deploy env L2_ENCODER (?code ?pool) w' = (Inr (de_addressOf env L2_ENCODER (?code ?pool)), w')" if ?l2
    using l2 that nm(3) by (intro deploy_again) auto
  have "initPool env poolConfig w' = (Inr u, w')"
    using s(1-3) nm(4,5) enc
    by (auto simp: initPool_def Let_def saved pool_ids deployments_get_def again abind_def conf transact_def deploymentOf_def
        ask_def areturn_def)
  moreover have "uint n = flashLoanPremium_total poolConfig" "uint m = flashLoanPremium_protocol poolConfig"
    using uint_encoded[OF nm(1)] uint_encoded[OF nm(2)] by simp_all
  moreover have "w_premiums w' (snd (w_configurator w' ?conf)) = (n, m)" using nm(3) by (simp add: conf)
  ultimately show ?thesis
    using s(3) a1(1) a2(1) pool
    by (intro conjI exI[of _ P] exI[of _ n] exI[of _ m]) (simp_all add: saved pool_ids addr)
qed

text \<open>
  C27: The script that initialises the pool may be run again, although its comment says that it can only be
  run successfully once: after a successful run the pool and its configurator have proxies that are the
  stored ones, the premiums of flash loans are the configured ones, and a second run goes through and
  changes nothing at all.
\<close>

theorem init_pool_is_idempotent:
  assumes "initPool env poolConfig w = (Inr u, w')" "\<And>provider i. de_proxyOf env provider i \<noteq> ZERO_ADDRESS"
  shows "initPool env poolConfig w' = (Inr u, w') \<and>
    (\<exists>provider total protocol.
       obj_get (w_saved w') (POOL_ADDRESSES_PROVIDER_ID (de_market_name env)) = Some provider \<and>
       providerAddress provider ''POOL'' w' \<noteq> ZERO_ADDRESS \<and>
       obj_get (w_saved w') (POOL_PROXY_ID (de_market_name env)) = Some (providerAddress provider ''POOL'' w') \<and>
       providerAddress provider ''POOL_CONFIGURATOR'' w' \<noteq> ZERO_ADDRESS \<and>
       obj_get (w_saved w') (POOL_CONFIGURATOR_PROXY_ID (de_market_name env)) =
         Some (providerAddress provider ''POOL_CONFIGURATOR'' w') \<and>
       uint total = flashLoanPremium_total poolConfig \<and> uint protocol = flashLoanPremium_protocol poolConfig \<and>
       w_premiums w' (snd (w_configurator w' (providerAddress provider ''POOL_CONFIGURATOR'' w'))) = (total, protocol))"
  using assms by (rule initPool_again)

end
