(* ===== verification/DeployAcl.thy ===== *)
theory DeployAcl
  imports DeployProps
begin

text \<open>
  The access-control script on the full chain of the deployment refines its model on the abstract chain of
  administrators, and the scripts that initialise implementations cannot be run again.
\<close>

section \<open>Refinement of scripts\<close>

text \<open>
  From a chain with \<open>I\<close> the script and its specification throw the same or return related values and leave
  related chains behind, with \<open>J\<close> when they return.
\<close>

definition refines ::
    "('w \<Rightarrow> bool) \<Rightarrow> ('w \<Rightarrow> bool) \<Rightarrow> ('w \<Rightarrow> 'c) \<Rightarrow> ('a \<Rightarrow> 'b \<Rightarrow> bool) \<Rightarrow> ('w, 'a) act \<Rightarrow> ('c, 'b) act \<Rightarrow> bool" where
  "refines I J abst R m m' \<longleftrightarrow>
     (\<forall>w. I w \<longrightarrow>
       (case m w of
          (Inl e, v) \<Rightarrow> m' (abst w) = (Inl e, abst v)
        | (Inr x, v) \<Rightarrow> J v \<and> (\<exists>y. m' (abst w) = (Inr y, abst v) \<and> R x y)))"

lemma refinesD:
  assumes "refines I J abst R m m'" "I w"
  obtains (thrown) e v where "m w = (Inl e, v)" "m' (abst w) = (Inl e, abst v)"
    | (returned) x y v where "m w = (Inr x, v)" "m' (abst w) = (Inr y, abst v)" "J v" "R x y"
proof -
  obtain r v where m: "m w = (r, v)" by (cases "m w")
  note c = assms(1)[unfolded refines_def, THEN spec, THEN mp, OF assms(2), unfolded m, simplified]
  show thesis
  proof (cases r)
    case (Inl e)
    with c m show ?thesis by (intro thrown) simp_all
  next
    case (Inr x)
    with c m obtain y where "J v" "m' (abst w) = (Inr y, abst v)" "R x y" by auto
    with m Inr show ?thesis by (intro returned) simp_all
  qed
qed

lemma refinesI:
  assumes "\<And>w. I w \<Longrightarrow> (\<exists>e v. m w = (Inl e, v) \<and> m' (abst w) = (Inl e, abst v)) \<or>
    (\<exists>x y v. m w = (Inr x, v) \<and> m' (abst w) = (Inr y, abst v) \<and> J v \<and> R x y)"
  shows "refines I J abst R m m'"
  unfolding refines_def
proof (intro allI impI)
  fix w assume "I w"
  from assms[OF this] show "case m w of (Inl e, v) \<Rightarrow> m' (abst w) = (Inl e, abst v)
        | (Inr x, v) \<Rightarrow> J v \<and> (\<exists>y. m' (abst w) = (Inr y, abst v) \<and> R x y)"
    by (elim disjE exE conjE) simp_all
qed

lemma refines_abind:
  assumes "refines I J abst R m m'" "\<And>x y. R x y \<Longrightarrow> refines J K abst S (f x) (f' y)"
  shows "refines I K abst S (abind m f) (abind m' f')"
proof (rule refinesI)
  fix w assume "I w"
  from assms(1) this show "(\<exists>e v. abind m f w = (Inl e, v) \<and> abind m' f' (abst w) = (Inl e, abst v)) \<or>
    (\<exists>x y v. abind m f w = (Inr x, v) \<and> abind m' f' (abst w) = (Inr y, abst v) \<and> K v \<and> S x y)"
  proof (cases rule: refinesD)
    case (thrown e v)
    then show ?thesis by (simp add: abind_def)
  next
    case (returned x y v)
    from assms(2)[OF \<open>R x y\<close>] \<open>J v\<close> show ?thesis
      by (cases rule: refinesD) (simp_all add: abind_def returned)
  qed
qed

lemma refines_transact:
  assumes "\<And>w. I w \<Longrightarrow> (case tx w of Inl e \<Rightarrow> tx' (abst w) = Inl e | Inr v \<Rightarrow> J v \<and> tx' (abst w) = Inr (abst v))"
  shows "refines I J abst (\<lambda>_ _. True) (transact tx) (transact tx')"
proof (rule refinesI)
  fix w assume "I w"
  from assms[OF this] show "(\<exists>e v. transact tx w = (Inl e, v) \<and> transact tx' (abst w) = (Inl e, abst v)) \<or>
    (\<exists>x y v. transact tx w = (Inr x, v) \<and> transact tx' (abst w) = (Inr y, abst v) \<and> J v \<and> True)"
    by (cases "tx w") (simp_all add: transact_def)
qed

lemma refines_ask: "(\<And>w. I w \<Longrightarrow> g' (abst w) = g w) \<Longrightarrow> refines I I abst (=) (ask g) (ask g')"
  by (auto simp: refines_def ask_def split: sum.splits)

lemma refines_areturn: "refines I I abst (=) (areturn r) (areturn r)"
  by (auto simp: refines_def areturn_def split: sum.splits)

section \<open>Setting the administrators up\<close>

abbreviation the_manager :: "deploy_env \<Rightarrow> string \<Rightarrow> string" where
  "the_manager env provider \<equiv>
     de_addressOf env (ACL_MANAGER_ID (de_market_name env)) (contract_of ''ACLManager'' [Address provider])"

text \<open>The administrators of a chain: of a provider with its ACL manager, a registry and two owned contracts.\<close>

definition chainOf ::
    "deploy_env \<Rightarrow> string \<Rightarrow> string \<Rightarrow> string \<Rightarrow> string \<Rightarrow> deploy_world \<Rightarrow> market_chain" where
  "chainOf env provider registry gateway emission w = \<lparr>
     ch_acl = (if w_code w (the_manager env provider) = Some (contract_of ''ACLManager'' [Address provider])
       then Some (w_acl w (the_manager env provider)) else None),
     ch_providerOwner = pv_owner (w_provider w provider),
     ch_ACLAdmin = providerAddress provider ''ACL_ADMIN'' w,
     ch_ACLManagerSet = (providerAddress provider ''ACL_MANAGER'' w = the_manager env provider),
     ch_registryOwner = rg_owner (w_registry w registry),
     ch_gatewayOwner = w_owner w gateway,
     ch_emissionOwner = w_owner w emission\<rparr>"

definition hasManager :: "deploy_env \<Rightarrow> string \<Rightarrow> deploy_world \<Rightarrow> bool" where
  "hasManager env provider w \<longleftrightarrow>
     w_code w (the_manager env provider) = Some (contract_of ''ACLManager'' [Address provider])"

lemma setAddress_iff:
  "setAddress sender provider i a w = Inr w' \<longleftrightarrow> pv_owner (w_provider w provider) = sender \<and>
     w' = w\<lparr>w_provider := (w_provider w)(provider := (w_provider w provider)\<lparr>pv_addresses :=
       (pv_addresses (w_provider w provider))(i := a)\<rparr>)\<rparr>"
  by (simp add: setAddress_def onProvider_iff)

lemma refines_setACLAdmin:
  "refines (\<lambda>_. True) (\<lambda>_. True) (chainOf env provider registry gateway emission) (\<lambda>_ _. True)
     (transact (setAddress sender provider ''ACL_ADMIN'' admin)) (transact (setACLAdmin sender admin))"
  by (rule refines_transact)
     (auto simp: setAddress_def onProvider_def onlyOwner_def setACLAdmin_def chainOf_def providerAddress_def ensure_def)

lemma refines_setACLManager:
  "refines (hasManager env provider) (hasManager env provider) (chainOf env provider registry gateway emission) (\<lambda>_ _. True)
     (transact (setAddress sender provider ''ACL_MANAGER'' (the_manager env provider))) (transact (setACLManager sender))"
  by (rule refines_transact)
     (auto simp: setAddress_def onProvider_def onlyOwner_def setACLManager_def chainOf_def providerAddress_def ensure_def
        hasManager_def)

lemma refines_onManager:
  "refines (hasManager env provider) (hasManager env provider) (chainOf env provider registry gateway emission) (\<lambda>_ _. True)
     (transact (onManager (the_manager env provider) f)) (transact (onACL f))"
  by (rule refines_transact)
     (auto simp: onManager_def onACL_def chainOf_def providerAddress_def hasManager_def rbind_def split: sum.splits)

lemma refines_readManager:
  "refines (hasManager env provider) (hasManager env provider) (chainOf env provider registry gateway emission) (=)
     (ask (\<lambda>w. Inr (f (w_acl w (the_manager env provider))))) (ask (readACL f))"
  by (rule refines_ask) (simp add: readACL_def chainOf_def hasManager_def)

lemma refines_deployManager:
  "refines (\<lambda>_. True) (hasManager env provider) (chainOf env provider registry gateway emission)
     (\<lambda>x _. x = the_manager env provider)
     (deploy env (ACL_MANAGER_ID (de_market_name env)) (contract_of ''ACLManager'' [Address provider]))
     (transact deployACLManager)"
  by (auto simp: refines_def deploy_def Let_def deployACLManager_def transact_def construct_def construct_manager_def chainOf_def hasManager_def
      providerAddress_def rbind_def split: sum.splits)

text \<open>
  The access-control script of the deployment refines the specification on administrators alone: on a
  chain whose stored addresses provider is the given one it throws the same exception or returns, and the
  administrators of the chain it leaves behind are those that the specification gives for the
  administrators of the chain it started on.
\<close>

theorem deploy_acl_refines_administrators:
  assumes "obj_get (w_saved w) (POOL_ADDRESSES_PROVIDER_ID (de_market_name env)) = Some provider"
  shows "initAcl (de_accounts env) (w_saved w) (de_market_name env) (chainOf env provider registry gateway emission w) =
    (fst (deployAcl env w), chainOf env provider registry gateway emission (snd (deployAcl env w)))"
proof -
  let ?acc = "de_accounts env" and ?m = "the_manager env provider"
  let ?steps = "abind (transact (setAddress (deployer ?acc) provider ''ACL_ADMIN'' (aclAdmin ?acc))) (\<lambda>_.
      abind (deploy env (ACL_MANAGER_ID (de_market_name env)) (contract_of ''ACLManager'' [Address provider])) (\<lambda>manager.
      abind (transact (setAddress (deployer ?acc) provider ''ACL_MANAGER'' manager)) (\<lambda>_.
      abind (transact (onManager manager (addPoolAdmin (aclAdmin ?acc) (poolAdmin ?acc)))) (\<lambda>_.
      abind (transact (onManager manager (addEmergencyAdmin (aclAdmin ?acc) (emergencyAdmin ?acc)))) (\<lambda>_.
      abind (ask (\<lambda>w. Inr (hasRole DEFAULT_ADMIN_ROLE (aclAdmin ?acc) (w_acl w manager)))) (\<lambda>isACLAdmin.
      abind (ask (\<lambda>w. Inr (isPoolAdmin (poolAdmin ?acc) (w_acl w manager)))) (\<lambda>isPoolAdmin.
      abind (ask (\<lambda>w. Inr (isEmergencyAdmin (emergencyAdmin ?acc) (w_acl w manager)))) (\<lambda>isEmergencyAdmin.
      areturn (if \<not> isACLAdmin then Inl (Thrown ''[ACL][ERROR] ACLAdmin is not setup correctly'')
        else if \<not> isPoolAdmin then Inl (Thrown ''[ACL][ERROR] PoolAdmin is not setup correctly'')
        else if \<not> isEmergencyAdmin then Inl (Thrown ''[ACL][ERROR] EmergencyAdmin is not setup correctly'')
        else Inr ())))))))))"
  have g: "deployments_get (w_saved w) (POOL_ADDRESSES_PROVIDER_ID (de_market_name env)) = Inr provider"
    using assms by (simp add: deployments_get_def)
  have run: "deployAcl env w = ?steps w" by (simp add: deployAcl_def Let_def g)
  have "refines (\<lambda>_. True) (hasManager env provider) (chainOf env provider registry gateway emission) (=) ?steps
      (\<lambda>c. initAcl ?acc (w_saved w) (de_market_name env) c)"
    unfolding initAcl_def g abind_areturn_Inr
    by (intro refines_abind[OF refines_setACLAdmin] refines_abind[OF refines_deployManager])
       (auto intro!: refines_abind[OF refines_setACLManager] refines_abind[OF refines_onManager]
          refines_abind[OF refines_readManager] refines_areturn simp del: act_steps)
  then show ?thesis unfolding run by (cases rule: refinesD[where w = w]) simp_all
qed

text \<open>What the specification does on a chain without an ACL manager.\<close>

lemma initAcl_fresh:
  assumes "deployments_get deployments (POOL_ADDRESSES_PROVIDER_ID market) = Inr provider" "ch_acl c = None"
  shows "fst (initAcl acc deployments market c) = Inr () \<longleftrightarrow>
      ch_providerOwner c = deployer acc \<and> aclAdmin acc \<noteq> ZERO_ADDRESS"
    "fst (initAcl acc deployments market c) = Inr () \<Longrightarrow> snd (initAcl acc deployments market c) = c\<lparr>
       ch_acl := Some \<lparr>members = (\<lambda>_. {})(DEFAULT_ADMIN_ROLE := {aclAdmin acc}, POOL_ADMIN_ROLE := {poolAdmin acc},
         EMERGENCY_ADMIN_ROLE := {emergencyAdmin acc}), adminRole = (\<lambda>_. DEFAULT_ADMIN_ROLE)\<rparr>,
       ch_ACLAdmin := aclAdmin acc, ch_ACLManagerSet := True\<rparr>"
proof -
  note ops = transact_def areturn_def ask_def abind_def onACL_def readACL_def acl_defs grantRole_def
    onlyRole_def hasRole_def setACLAdmin_def setACLManager_def deployACLManager_def new_ACLManager_def
  show "fst (initAcl acc deployments market c) = Inr () \<longleftrightarrow>
      ch_providerOwner c = deployer acc \<and> aclAdmin acc \<noteq> ZERO_ADDRESS"
    using assms by (auto simp: initAcl_def ops ensure_def)
  then show "snd (initAcl acc deployments market c) = c\<lparr>
       ch_acl := Some \<lparr>members = (\<lambda>_. {})(DEFAULT_ADMIN_ROLE := {aclAdmin acc}, POOL_ADMIN_ROLE := {poolAdmin acc},
         EMERGENCY_ADMIN_ROLE := {emergencyAdmin acc}), adminRole = (\<lambda>_. DEFAULT_ADMIN_ROLE)\<rparr>,
       ch_ACLAdmin := aclAdmin acc, ch_ACLManagerSet := True\<rparr>"
    if "fst (initAcl acc deployments market c) = Inr ()"
    using assms that by (simp add: initAcl_def ops ensure_def)
qed

text \<open>
  C28: The access-control script appoints the administrators. On a chain whose stored addresses provider has no
  ACL manager at the address of the script yet, the script goes through exactly when the deployer owns the
  provider and the ACL administrator is not the zero address. Then the provider names the ACL administrator
  and the new manager, and on that manager the ACL administrator is the only default administrator, the
  pool administrator the only pool administrator and the emergency administrator the only emergency
  administrator, and no one has any other role.
\<close>

theorem acl_script_appoints_administrators:
  assumes "obj_get (w_saved w) (POOL_ADDRESSES_PROVIDER_ID (de_market_name env)) = Some provider"
    "\<not> hasManager env provider w" "deployAcl env w = (r, w')"
  shows "(r = Inr () \<longleftrightarrow> pv_owner (w_provider w provider) = deployer (de_accounts env) \<and>
      aclAdmin (de_accounts env) \<noteq> ZERO_ADDRESS) \<and>
    (r = Inr () \<longrightarrow> providerAddress provider ''ACL_ADMIN'' w' = aclAdmin (de_accounts env) \<and>
      providerAddress provider ''ACL_MANAGER'' w' = the_manager env provider \<and> hasManager env provider w' \<and>
      (\<forall>role x. hasRole role x (w_acl w' (the_manager env provider)) \<longleftrightarrow>
        role = DEFAULT_ADMIN_ROLE \<and> x = aclAdmin (de_accounts env) \<or>
        role = POOL_ADMIN_ROLE \<and> x = poolAdmin (de_accounts env) \<or>
        role = EMERGENCY_ADMIN_ROLE \<and> x = emergencyAdmin (de_accounts env)))"
proof -
  let ?chain = "chainOf env provider provider provider provider"
  let ?init = "initAcl (de_accounts env) (w_saved w) (de_market_name env) (?chain w)"
  have i: "?init = (r, ?chain w')"
    using deploy_acl_refines_administrators[OF assms(1), of provider provider provider] assms(3) by simp
  have g: "deployments_get (w_saved w) (POOL_ADDRESSES_PROVIDER_ID (de_market_name env)) = Inr provider"
    using assms(1) by (simp add: deployments_get_def)
  have n: "ch_acl (?chain w) = None" using assms(2) by (simp add: chainOf_def hasManager_def)
  note f = initAcl_fresh[OF g n, of "de_accounts env"]
  have ok: "r = Inr () \<longleftrightarrow> pv_owner (w_provider w provider) = deployer (de_accounts env) \<and>
      aclAdmin (de_accounts env) \<noteq> ZERO_ADDRESS"
    using f(1) i by (simp add: chainOf_def)
  have "?chain w' = (?chain w)\<lparr>
       ch_acl := Some \<lparr>members = (\<lambda>_. {})(DEFAULT_ADMIN_ROLE := {aclAdmin (de_accounts env)},
         POOL_ADMIN_ROLE := {poolAdmin (de_accounts env)},
         EMERGENCY_ADMIN_ROLE := {emergencyAdmin (de_accounts env)}), adminRole = (\<lambda>_. DEFAULT_ADMIN_ROLE)\<rparr>,
       ch_ACLAdmin := aclAdmin (de_accounts env), ch_ACLManagerSet := True\<rparr>" if "r = Inr ()"
    using f(2) i that by simp
  then have "r = Inr () \<Longrightarrow> providerAddress provider ''ACL_ADMIN'' w' = aclAdmin (de_accounts env) \<and>
      providerAddress provider ''ACL_MANAGER'' w' = the_manager env provider \<and> hasManager env provider w' \<and>
      w_acl w' (the_manager env provider) = \<lparr>members = (\<lambda>_. {})(DEFAULT_ADMIN_ROLE := {aclAdmin (de_accounts env)},
         POOL_ADMIN_ROLE := {poolAdmin (de_accounts env)},
         EMERGENCY_ADMIN_ROLE := {emergencyAdmin (de_accounts env)}), adminRole = (\<lambda>_. DEFAULT_ADMIN_ROLE)\<rparr>"
    by (simp add: chainOf_def hasManager_def split: if_splits)
  then show ?thesis using ok by (auto simp: hasRole_def split: if_splits)
qed

end
