(* ===== verification/DeployOnce.thy ===== *)
theory DeployOnce
  imports DeployProps
begin

text \<open>
  The scripts that deploy and initialise implementations cannot be run a second time: the implementation is
  still there, and its initialiser reverts.
\<close>

abbreviation already_initialized :: js_error where
  "already_initialized \<equiv> Reverted ''Contract instance has already been initialized''"

text \<open>The contract stored under a name is there and has been initialised.\<close>

definition initialised :: "deploy_env \<Rightarrow> string \<Rightarrow> contract_code \<Rightarrow> deploy_world \<Rightarrow> bool" where
  "initialised env nam c w \<longleftrightarrow> w_code w (de_addressOf env nam c) = Some c \<and> w_revision w (de_addressOf env nam c) = getRevision c"

lemma initialize_Inr:
  assumes "initialize a x w = Inr w'"
  shows "w_saved w' = w_saved w" "w_code w' = w_code w" "w_provider w' = w_provider w"
    "\<exists>c. w_code w a = Some c \<and> w_revision w' = (w_revision w)(a := getRevision c)"
  using assms
  by (auto simp: initialize_def initializeWith_def initializer_def rbind_eq_Inr getf_eq_Inr split: if_splits)

lemma initialised_first:
  assumes "deploy env nam c w = (Inr a, v)" "initialize a x v = Inr w'"
  shows "initialised env nam c w'" "w_saved w' = obj_set (w_saved w) nam a"
    "cc_contract c \<noteq> ''PoolAddressesProvider'' \<Longrightarrow> w_provider w' = w_provider w"
  using deploy_Inr(1-3,9)[OF assms(1)] initialize_Inr[OF assms(2)] by (auto simp: initialised_def)

lemma initialised_deploy:
  assumes "initialised env nam c w" "deploy env nam' c' w = (Inr a, w')" "de_addressOf env nam c \<noteq> de_addressOf env nam' c'"
  shows "initialised env nam c w'"
  using assms deploy_Inr(1,3)[OF assms(2)] deploy_Inr(4)[OF assms(2), of "de_addressOf env nam c"]
  by (simp add: initialised_def)

lemma initialised_initialize:
  assumes "initialised env nam c w" "initialize a x w = Inr w'"
  shows "initialised env nam c w'"
  using assms initialize_Inr[OF assms(2)] by (auto simp: initialised_def)

text \<open>Deploying it again keeps it, and its initialiser reverts.\<close>

lemma initialised_again:
  assumes "initialised env nam c w"
  obtains v where "deploy env nam c w = (Inr (de_addressOf env nam c), v)"
    "\<And>x. initialize (de_addressOf env nam c) x v = Inl already_initialized"
  using assms
  by (simp add: deploy_def Let_def initialised_def initialize_def initializeWith_def initializer_def ensure_def getf_eq_Inr rbind_def)

lemma getPoolLibraries_eq [act_inv]:
  "getPoolLibraries w = (Inr libs, w') \<longleftrightarrow> w' = w \<and>
     (\<exists>supply borrow liquidation eMode bridge flashLoan pool.
        obj_get (w_saved w) ''SupplyLogic'' = Some supply \<and> obj_get (w_saved w) ''BorrowLogic'' = Some borrow \<and>
        obj_get (w_saved w) ''LiquidationLogic'' = Some liquidation \<and> obj_get (w_saved w) ''EModeLogic'' = Some eMode \<and>
        obj_get (w_saved w) ''BridgeLogic'' = Some bridge \<and> obj_get (w_saved w) ''FlashLoanLogic'' = Some flashLoan \<and>
        obj_get (w_saved w) ''PoolLogic'' = Some pool \<and>
        libs = [(''LiquidationLogic'', liquidation), (''SupplyLogic'', supply), (''EModeLogic'', eMode),
          (''FlashLoanLogic'', flashLoan), (''BorrowLogic'', borrow), (''BridgeLogic'', bridge), (''PoolLogic'', pool)])"
  by (auto simp: getPoolLibraries_def act_inv simp del: act_steps)

lemma impl_ids_differ:
  "POOL_IMPL_ID \<noteq> ''SupplyLogic''" "POOL_IMPL_ID \<noteq> ''BorrowLogic''" "POOL_IMPL_ID \<noteq> ''LiquidationLogic''"
  "POOL_IMPL_ID \<noteq> ''EModeLogic''" "POOL_IMPL_ID \<noteq> ''BridgeLogic''" "POOL_IMPL_ID \<noteq> ''FlashLoanLogic''"
  "POOL_IMPL_ID \<noteq> ''PoolLogic''" "POOL_IMPL_ID \<noteq> POOL_ADDRESSES_PROVIDER_ID market"
  "POOL_CONFIGURATOR_IMPL_ID \<noteq> ''ConfiguratorLogic''" "POOL_CONFIGURATOR_IMPL_ID \<noteq> POOL_ADDRESSES_PROVIDER_ID market"
  "RESERVES_SETUP_HELPER_ID \<noteq> ''ConfiguratorLogic''" "RESERVES_SETUP_HELPER_ID \<noteq> POOL_ADDRESSES_PROVIDER_ID market"
  "RESERVES_SETUP_HELPER_ID \<noteq> POOL_CONFIGURATOR_IMPL_ID"
  by (simp_all add: POOL_IMPL_ID_def POOL_CONFIGURATOR_IMPL_ID_def RESERVES_SETUP_HELPER_ID_def
      POOL_ADDRESSES_PROVIDER_ID_def IMPL_ID_def)

lemma token_ids_differ:
  "RSTOKEN_IMPL_ID market \<noteq> DELEGATION_AWARE_RSTOKEN_IMPL_ID market'" "RSTOKEN_IMPL_ID market \<noteq> STABLE_DEBT_TOKEN_IMPL_ID market'"
  "RSTOKEN_IMPL_ID market \<noteq> VARIABLE_DEBT_TOKEN_IMPL_ID market'" "RSTOKEN_IMPL_ID market \<noteq> POOL_ADDRESSES_PROVIDER_ID market'"
  "DELEGATION_AWARE_RSTOKEN_IMPL_ID market \<noteq> POOL_ADDRESSES_PROVIDER_ID market'"
  "STABLE_DEBT_TOKEN_IMPL_ID market \<noteq> POOL_ADDRESSES_PROVIDER_ID market'"
  "VARIABLE_DEBT_TOKEN_IMPL_ID market \<noteq> POOL_ADDRESSES_PROVIDER_ID market'"
  by (simp_all add: RSTOKEN_IMPL_ID_def DELEGATION_AWARE_RSTOKEN_IMPL_ID_def STABLE_DEBT_TOKEN_IMPL_ID_def
      VARIABLE_DEBT_TOKEN_IMPL_ID_def POOL_ADDRESSES_PROVIDER_ID_def IMPL_ID_def)

lemmas once_ids = impl_ids_differ impl_ids_differ[THEN not_sym] token_ids_differ token_ids_differ[THEN not_sym]

lemma poolImplementation_once:
  assumes "poolImplementation env w = (Inr u, w')"
  shows "fst (poolImplementation env w') = Inl already_initialized"
proof -
  from assms obtain provider libs a v where s:
      "obj_get (w_saved w) (POOL_ADDRESSES_PROVIDER_ID (de_market_name env)) = Some provider"
      "getPoolLibraries w = (Inr libs, w)"
      "deploy env POOL_IMPL_ID ((contract_of ''Pool'' [Address provider])\<lparr>cc_libraries := libs\<rparr>) w = (Inr a, v)"
      "initialize a provider v = Inr w'"
    unfolding poolImplementation_def abind_eq_Inr deploymentOf_eq transact_eq_Inr
    by (metis getPoolLibraries_eq)
  note i = initialised_first[OF s(3,4)]
  have "getPoolLibraries w' = (Inr libs, w')" using s(2) i(2) by (simp add: getPoolLibraries_eq once_ids)
  moreover have "deployments_get (w_saved w') (POOL_ADDRESSES_PROVIDER_ID (de_market_name env)) = Inr provider"
    using s(1) i(2) by (simp add: deployments_get_def once_ids)
  ultimately show ?thesis
    by (cases rule: initialised_again[OF i(1)]) (simp add: poolImplementation_def abind_def[of getPoolLibraries] abind_def[of "deploy _ _ _"] transact_def)
qed

lemma poolConfigurator_once:
  assumes "poolConfigurator env w = (Inr u, w')"
    "\<And>c c'. de_addressOf env POOL_CONFIGURATOR_IMPL_ID c \<noteq> de_addressOf env RESERVES_SETUP_HELPER_ID c'"
  shows "fst (poolConfigurator env w') = Inl already_initialized"
proof -
  let ?code = "\<lambda>logic. (contract_of ''PoolConfigurator'' [])\<lparr>cc_libraries := [(''ConfiguratorLogic'', logic)]\<rparr>"
  from assms(1) obtain provider logic a b v v' where s:
      "obj_get (w_saved w) (POOL_ADDRESSES_PROVIDER_ID (de_market_name env)) = Some provider"
      "obj_get (w_saved w) ''ConfiguratorLogic'' = Some logic"
      "deploy env POOL_CONFIGURATOR_IMPL_ID (?code logic) w = (Inr a, v)" "initialize a provider v = Inr v'"
      "deploy env RESERVES_SETUP_HELPER_ID (contract_of ''ReservesSetupHelper'' []) v' = (Inr b, w')"
    by (auto simp: poolConfigurator_def act_inv simp del: act_steps)
  note i = initialised_first[OF s(3,4)]
  have again: "initialised env POOL_CONFIGURATOR_IMPL_ID (?code logic) w'"
    by (rule initialised_deploy[OF i(1) s(5) assms(2)])
  have "deployments_get (w_saved w') (POOL_ADDRESSES_PROVIDER_ID (de_market_name env)) = Inr provider"
      "deployments_get (w_saved w') ''ConfiguratorLogic'' = Inr logic"
    using s(1,2) i(2) deploy_Inr(2)[OF s(5)] by (simp_all add: deployments_get_def once_ids)
  then show ?thesis
    by (cases rule: initialised_again[OF again]) (simp add: poolConfigurator_def abind_def[of "deploy _ _ _"] transact_def)
qed

lemma tokenImplementation_Inr:
  assumes "tokenImplementation env pool nam contract w = (Inr u, w')"
  shows "initialised env nam (contract_of contract [Address pool]) w'" "w_saved w' = obj_set (w_saved w) nam (de_addressOf env nam (contract_of contract [Address pool]))"
    "contract \<noteq> ''PoolAddressesProvider'' \<Longrightarrow> w_provider w' = w_provider w"
    "initialised env nam' c w \<Longrightarrow> de_addressOf env nam' c \<noteq> de_addressOf env nam (contract_of contract [Address pool]) \<Longrightarrow>
      initialised env nam' c w'"
proof -
  from assms obtain a v where s: "deploy env nam (contract_of contract [Address pool]) w = (Inr a, v)" "initialize a pool v = Inr w'"
    by (auto simp: tokenImplementation_def act_inv simp del: act_steps)
  note i = initialised_first[OF s]
  show "initialised env nam (contract_of contract [Address pool]) w'" by (rule i)
  show "w_saved w' = obj_set (w_saved w) nam (de_addressOf env nam (contract_of contract [Address pool]))"
    using i(2) deploy_Inr(1)[OF s(1)] by simp
  show "contract \<noteq> ''PoolAddressesProvider'' \<Longrightarrow> w_provider w' = w_provider w" using i(3) by simp
  show "initialised env nam' c w'" if "initialised env nam' c w"
      "de_addressOf env nam' c \<noteq> de_addressOf env nam (contract_of contract [Address pool])"
    by (rule initialised_initialize[OF initialised_deploy[OF that(1) s(1) that(2)] s(2)])
qed

lemma tokenImplementations_once:
  assumes "tokenImplementations env w = (Inr u, w')"
    "\<And>nam nam' c c'. nam \<noteq> nam' \<Longrightarrow> de_addressOf env nam c \<noteq> de_addressOf env nam' c'"
  shows "fst (tokenImplementations env w') = Inl already_initialized"
proof -
  let ?m = "de_market_name env"
  from assms(1) obtain provider w1 w2 w3 where s:
      "obj_get (w_saved w) (POOL_ADDRESSES_PROVIDER_ID ?m) = Some provider"
      "tokenImplementation env (providerAddress provider ''POOL'' w) (RSTOKEN_IMPL_ID ?m) ''RSToken'' w = (Inr (), w1)"
      "tokenImplementation env (providerAddress provider ''POOL'' w) (DELEGATION_AWARE_RSTOKEN_IMPL_ID ?m) ''DelegationAwareRSToken'' w1 = (Inr (), w2)"
      "tokenImplementation env (providerAddress provider ''POOL'' w) (STABLE_DEBT_TOKEN_IMPL_ID ?m) ''StableDebtToken'' w2 = (Inr (), w3)"
      "tokenImplementation env (providerAddress provider ''POOL'' w) (VARIABLE_DEBT_TOKEN_IMPL_ID ?m) ''VariableDebtToken'' w3 = (Inr (), w')"
    by (auto simp: tokenImplementations_def Let_def act_inv simp del: act_steps)
  note t = tokenImplementation_Inr[OF s(2)] tokenImplementation_Inr[OF s(3)] tokenImplementation_Inr[OF s(4)] tokenImplementation_Inr[OF s(5)]
  let ?c = "contract_of ''RSToken'' [Address (providerAddress provider ''POOL'' w)]"
  have again: "initialised env (RSTOKEN_IMPL_ID ?m) ?c w'"
    by (intro t(16) t(12) t(8) t(1) assms(2) once_ids)
  have "deployments_get (w_saved w') (POOL_ADDRESSES_PROVIDER_ID ?m) = Inr provider"
      "providerAddress provider ''POOL'' w' = providerAddress provider ''POOL'' w"
    using s(1) t(2,6,10,14) t(3,7,11,15) by (simp_all add: deployments_get_def providerAddress_def once_ids)
  then show ?thesis
    by (cases rule: initialised_again[OF again])
       (simp add: tokenImplementations_def tokenImplementation_def Let_def abind_def[of "abind _ _"] abind_def[of "deploy _ _ _"] transact_def)
qed

text \<open>
  The scripts that deploy and initialise implementations - of the pool, of its configurator and of the
  four tokens - cannot be run a second time: on the chain that a successful run leaves behind they throw
  that the contract has already been initialized, as every deployment with a name of its own gets an
  address of its own.
\<close>

theorem implementation_scripts_run_once:
  assumes "\<And>nam nam' c c'. nam \<noteq> nam' \<Longrightarrow> de_addressOf env nam c \<noteq> de_addressOf env nam' c'"
  shows "(poolImplementation env w = (Inr (), w') \<longrightarrow> fst (poolImplementation env w') = Inl already_initialized) \<and>
    (poolConfigurator env w = (Inr (), w') \<longrightarrow> fst (poolConfigurator env w') = Inl already_initialized) \<and>
    (tokenImplementations env w = (Inr (), w') \<longrightarrow> fst (tokenImplementations env w') = Inl already_initialized)"
proof (intro conjI impI)
  show "poolImplementation env w = (Inr (), w') \<Longrightarrow> fst (poolImplementation env w') = Inl already_initialized"
    by (rule poolImplementation_once)
  show "poolConfigurator env w = (Inr (), w') \<Longrightarrow> fst (poolConfigurator env w') = Inl already_initialized"
    by (rule poolConfigurator_once) (simp_all add: assms once_ids)
  show "tokenImplementations env w = (Inr (), w') \<Longrightarrow> fst (tokenImplementations env w') = Inl already_initialized"
    by (rule tokenImplementations_once) (simp_all add: assms)
qed

end
