(* ===== verification/DeployRun.thy ===== *)
theory DeployRun
  imports DeployAcl DeployOnce DeployDemo
begin

text \<open>
  A chain on which the registry and the libraries are deployed, for the witnesses of the deployment
  properties: contracts and proxies get addresses that spell their names, and every account is the deployer.
\<close>

definition run_accounts :: named_accounts where
  "run_accounts = \<lparr>deployer = ''0xdeployer'', aclAdmin = ''0xdeployer'', emergencyAdmin = ''0xdeployer'',
     poolAdmin = ''0xdeployer'', addressesProviderRegistryOwner = ''0xdeployer''\<rparr>"

definition run_env :: deploy_env where
  "run_env = \<lparr>de_market = lisk_env\<lparr>addresses := \<lparr>isAddress = (\<lambda>_. True), getAddress = Inr\<rparr>\<rparr>,
     de_accounts = run_accounts, incentivesRewardsVault = ''0xdeployer'', incentivesEmissionManager = ''0xdeployer'',
     firstSigner = ''0xdeployer'', de_addressOf = (\<lambda>nam _. ''0x'' @ nam), de_proxyOf = (\<lambda>_ i. ''0xproxy-'' @ i),
     PERMISSIONED_FAUCET = False, keccak256 = (@) ''#''\<rparr>"

definition blank_world :: deploy_world where
  "blank_world = \<lparr>w_saved = [], w_code = Map.empty, w_revision = (\<lambda>_. 0), w_implementation = (\<lambda>_. ZERO_ADDRESS),
     w_proxyAdmin = (\<lambda>_. ZERO_ADDRESS), w_owner = (\<lambda>_. ZERO_ADDRESS),
     w_provider = (\<lambda>_. \<lparr>pv_owner = ZERO_ADDRESS, pv_marketId = [], pv_addresses = (\<lambda>_. ZERO_ADDRESS)\<rparr>),
     w_registry = (\<lambda>_. \<lparr>rg_owner = ''0xdeployer'', addressesProviderToId = (\<lambda>_. 0),
       idToAddressesProvider = (\<lambda>_. ZERO_ADDRESS), addressesProvidersList = [], addressesProvidersIndexes = (\<lambda>_. 0)\<rparr>),
     w_acl = (\<lambda>_. \<lparr>members = (\<lambda>_. {}), adminRole = (\<lambda>_. DEFAULT_ADMIN_ROLE)\<rparr>),
     w_rewardsController = (\<lambda>_. ZERO_ADDRESS), w_fundsAdmin = (\<lambda>_. ZERO_ADDRESS),
     w_configurator = (\<lambda>_. (ZERO_ADDRESS, ZERO_ADDRESS)), w_premiums = (\<lambda>_. (0, 0)),
     w_oracle = (\<lambda>_. \<lparr>po_provider = ZERO_ADDRESS, assetsSources = (\<lambda>_. ZERO_ADDRESS), fallbackOracle = ZERO_ADDRESS,
       BASE_CURRENCY = ZERO_ADDRESS, BASE_CURRENCY_UNIT = 0\<rparr>)\<rparr>"

definition registry_world :: deploy_world where
  "registry_world = blank_world\<lparr>w_saved := [(''PoolAddressesProviderRegistry'', ''0xregistry'')]\<rparr>"

text \<open>The operations on reserves, which these runs do not reach.\<close>

definition run_base :: "deploy_world deploy_api" where
  "run_base = \<lparr>
     getPool = (\<lambda>_ _. Inr ZERO_ADDRESS), getACLManager = (\<lambda>_ _. Inr ZERO_ADDRESS), getACLAdmin = (\<lambda>_ _. Inr ZERO_ADDRESS),
     getPoolConfigurator = (\<lambda>_ _. Inr ZERO_ADDRESS), reserveRSTokenAddress = (\<lambda>_ _ _. Inr ZERO_ADDRESS),
     usageAsCollateralEnabled = (\<lambda>_ _ _. Inr False), registryOwner = (\<lambda>_ _. Inr ZERO_ADDRESS),
     initReserves = (\<lambda>_ _ _. Inr), addRiskAdmin = (\<lambda>_ _ _. Inr), removeRiskAdmin = (\<lambda>_ _ _. Inr),
     configureReserves = (\<lambda>_ _ _ _. Inr), registerAddressesProvider = (\<lambda>_ _ _ _. Inr)\<rparr>"

abbreviation provider_run :: "unit result \<times> deploy_world" where
  "provider_run \<equiv> setupAddressesProvider run_env run_base EthereumMarket registry_world"

lemma provider_run_returns: "provider_run = (Inr (), snd provider_run)"
proof -
  have "fst provider_run = Inr ()" by code_simp
  then show ?thesis by (metis prod.collapse)
qed

theorem provider_script_registers_market_witness:
  "\<exists>provider (n :: u256). obj_get (w_saved (snd provider_run)) (POOL_ADDRESSES_PROVIDER_ID (de_market_name run_env)) = Some provider \<and>
    pv_marketId (w_provider (snd provider_run) provider) = MarketId EthereumMarket \<and> uint n = ProviderId EthereumMarket \<and>
    addressesProvidersList (w_registry (snd provider_run) ''0xregistry'') = [provider]"
proof -
  have list: "addressesProvidersList (w_registry registry_world r) = []" for r
    by (simp add: registry_world_def blank_world_def)
  have "obj_get (w_saved (snd provider_run)) ''PoolAddressesProviderRegistry'' = Some ''0xregistry''" by code_simp
  moreover from provider_script_registers_market[OF provider_run_returns] obtain provider registry and n :: u256 where
      "obj_get (w_saved (snd provider_run)) (POOL_ADDRESSES_PROVIDER_ID (de_market_name run_env)) = Some provider"
      "pv_marketId (w_provider (snd provider_run) provider) = MarketId EthereumMarket" "uint n = ProviderId EthereumMarket"
      "obj_get (w_saved (snd provider_run)) ''PoolAddressesProviderRegistry'' = Some registry"
      "addressesProvidersList (w_registry (snd provider_run) registry) =
        addressesProvidersList (w_registry registry_world registry) @ [provider]"
    by (elim exE conjE) (rule that)
  ultimately show ?thesis using list by (intro exI[of _ provider] exI[of _ n]) simp
qed

theorem provider_script_runs_once_witness:
  "\<exists>e v'. setupAddressesProvider run_env run_base EthereumMarket (snd provider_run) = (Inl e, v')"
proof -
  have "the_provider run_env \<noteq> ZERO_ADDRESS" by code_simp
  from provider_script_runs_once[OF provider_run_returns this, of "snd provider_run"] show ?thesis by blast
qed

section \<open>A market with its addresses provider\<close>

text \<open>The provider of the market is stored and owned by the deployer, and so are the implementations.\<close>

definition provider_world :: deploy_world where
  "provider_world = blank_world\<lparr>
     w_saved := [(POOL_ADDRESSES_PROVIDER_ID (de_market_name run_env), ''0xprovider''), (''ConfiguratorLogic'', ''0xlogic''),
       (POOL_IMPL_ID, ''0xpool''), (L2_POOL_IMPL_ID, ''0xl2pool''), (POOL_CONFIGURATOR_IMPL_ID, ''0xconfigurator'')],
     w_provider := (\<lambda>_. \<lparr>pv_owner = ''0xdeployer'', pv_marketId = [], pv_addresses = (\<lambda>_. ZERO_ADDRESS)\<rparr>),
     w_code := [''0xpool'' \<mapsto> contract_of ''Pool'' [Address ''0xprovider''],
       ''0xl2pool'' \<mapsto> contract_of ''L2Pool'' [Address ''0xprovider''],
       ''0xconfigurator'' \<mapsto> contract_of ''PoolConfigurator'' []]\<rparr>"

lemma provider_world_saved: "obj_get (w_saved provider_world) (POOL_ADDRESSES_PROVIDER_ID (de_market_name run_env)) = Some ''0xprovider''"
  by code_simp

theorem acl_script_appoints_administrators_witness:
  "fst (deployAcl run_env provider_world) = Inr () \<and>
   hasRole POOL_ADMIN_ROLE (poolAdmin run_accounts) (w_acl (snd (deployAcl run_env provider_world)) (the_manager run_env ''0xprovider''))"
proof -
  have run: "fst (deployAcl run_env provider_world) = Inr ()" by code_simp
  have fresh: "\<not> hasManager run_env ''0xprovider'' provider_world" by code_simp
  have "de_accounts run_env = run_accounts" by (simp add: run_env_def)
  with acl_script_appoints_administrators[OF provider_world_saved fresh surjective_pairing] run show ?thesis by simp
qed

theorem implementation_scripts_run_once_witness:
  "fst (poolConfigurator run_env provider_world) = Inr () \<and>
   fst (poolConfigurator run_env (snd (poolConfigurator run_env provider_world))) = Inl already_initialized"
proof -
  have run: "fst (poolConfigurator run_env provider_world) = Inr ()" by code_simp
  then have "poolConfigurator run_env provider_world = (Inr (), snd (poolConfigurator run_env provider_world))"
    by (metis prod.collapse)
  moreover have "nam \<noteq> nam' \<Longrightarrow> de_addressOf run_env nam c \<noteq> de_addressOf run_env nam' c'" for nam nam' c c'
    by (simp add: run_env_def)
  ultimately show ?thesis using implementation_scripts_run_once[of run_env] run by blast
qed

text \<open>The same, with an ACL manager on which the deployer has every role.\<close>

definition administered :: deploy_world where
  "administered = provider_world\<lparr>
     w_provider := (\<lambda>_. \<lparr>pv_owner = ''0xdeployer'', pv_marketId = [],
       pv_addresses = (\<lambda>_. ZERO_ADDRESS)(''ACL_MANAGER'' := ''0xmanager'')\<rparr>),
     w_acl := (\<lambda>_. \<lparr>members = (\<lambda>_. {''0xdeployer''}), adminRole = (\<lambda>_. DEFAULT_ADMIN_ROLE)\<rparr>)\<rparr>"

theorem init_pool_is_idempotent_witness:
  "fst (initPool run_env EthereumMarket administered) = Inr () \<and>
   initPool run_env EthereumMarket (snd (initPool run_env EthereumMarket administered)) =
     (Inr (), snd (initPool run_env EthereumMarket administered))"
proof -
  have run: "fst (initPool run_env EthereumMarket administered) = Inr ()" by code_simp
  then have "initPool run_env EthereumMarket administered = (Inr (), snd (initPool run_env EthereumMarket administered))"
    by (metis prod.collapse)
  moreover have "de_proxyOf run_env provider i \<noteq> ZERO_ADDRESS" for provider i
    by (simp add: run_env_def ZERO_ADDRESS_def)
  ultimately show ?thesis using init_pool_is_idempotent run by blast
qed

end
