(* ===== verification/ContractGetters.thy ===== *)
theory ContractGetters
  imports DeployIds MarketConfig
begin

text \<open>
  Looking contracts up: \<open>getContract\<close> of \<open>helpers/utilities/tx.ts\<close> and the getters of
  \<open>helpers/contract-getters.ts\<close>, over the stored deployments. A contract is its artifact and its address;
  whether an artifact exists is a parameter.
\<close>

record contract_at =
  at_artifact :: string
  at_address :: string

text \<open>The artifacts that were compiled, as the error of reading one or nothing.\<close>

type_synonym artifacts = "string \<Rightarrow> unit result"

text \<open>An empty or missing argument is replaced by the address of a stored deployment.\<close>

definition addressOr :: "string obj \<Rightarrow> string option \<Rightarrow> string \<Rightarrow> string result" where
  "addressOr saved address i = (if truthy address then Inr (the address) else deployments_get saved i)"

definition getContract :: "artifacts \<Rightarrow> string obj \<Rightarrow> string \<Rightarrow> string option \<Rightarrow> contract_at result" where
  "getContract getArtifact saved i address =
     rbind (getArtifact i) (\<lambda>_.
     rbind (addressOr saved address i) (\<lambda>a. Inr \<lparr>at_artifact = i, at_address = a\<rparr>))"

text \<open>The getters that look the contract up under an identifier of its own.\<close>

definition getStored :: "artifacts \<Rightarrow> string obj \<Rightarrow> string \<Rightarrow> string \<Rightarrow> string option \<Rightarrow> contract_at result" where
  "getStored art saved contract i address =
     rbind (addressOr saved address i) (\<lambda>a. getContract art saved contract (Some a))"

section \<open>Tokens\<close>

definition IERC20Detailed_artifact :: string where
  "IERC20Detailed_artifact = ''../contracts/dependencies/openzeppelin/contracts/IERC20Detailed.sol:IERC20Detailed''"

definition getRSToken :: "artifacts \<Rightarrow> string obj \<Rightarrow> string \<Rightarrow> contract_at result" where
  "getRSToken art saved address = getContract art saved ''RSToken'' (Some address)"

definition getVariableDebtToken :: "artifacts \<Rightarrow> string obj \<Rightarrow> string \<Rightarrow> contract_at result" where
  "getVariableDebtToken art saved address = getContract art saved ''VariableDebtToken'' (Some address)"

definition getStableDebtToken :: "artifacts \<Rightarrow> string obj \<Rightarrow> string \<Rightarrow> contract_at result" where
  "getStableDebtToken art saved address = getContract art saved ''StableDebtToken'' (Some address)"

definition getERC20 :: "artifacts \<Rightarrow> string obj \<Rightarrow> string \<Rightarrow> contract_at result" where
  "getERC20 art saved address = getContract art saved IERC20Detailed_artifact (Some address)"

definition getIErc20Detailed :: "artifacts \<Rightarrow> string obj \<Rightarrow> string \<Rightarrow> contract_at result" where
  "getIErc20Detailed art saved address = getContract art saved IERC20Detailed_artifact (Some address)"

definition getWETH :: "artifacts \<Rightarrow> string obj \<Rightarrow> string \<Rightarrow> contract_at result" where
  "getWETH art saved address = getContract art saved ''WETH9'' (Some address)"

definition getWETHMocked :: "artifacts \<Rightarrow> string obj \<Rightarrow> string option \<Rightarrow> contract_at result" where
  "getWETHMocked art saved address = getContract art saved ''WETH9Mocked'' address"

definition getMintableERC20 :: "artifacts \<Rightarrow> string obj \<Rightarrow> string \<Rightarrow> contract_at result" where
  "getMintableERC20 art saved address = getContract art saved ''MintableERC20'' (Some address)"

definition getMockVariableDebtToken :: "artifacts \<Rightarrow> string obj \<Rightarrow> string \<Rightarrow> contract_at result" where
  "getMockVariableDebtToken art saved address = getContract art saved ''MockVariableDebtToken'' (Some address)"

definition getMockStableDebtToken :: "artifacts \<Rightarrow> string obj \<Rightarrow> string \<Rightarrow> contract_at result" where
  "getMockStableDebtToken art saved address = getContract art saved ''MockStableDebtToken'' (Some address)"

text \<open>The prefix makes the key of a test token of the market.\<close>

definition getTestnetReserveAddressFromSymbol :: "string obj \<Rightarrow> string \<Rightarrow> string \<Rightarrow> string result" where
  "getTestnetReserveAddressFromSymbol saved market symb = deployments_get saved (symb @ TESTNET_TOKEN_PREFIX market)"

section \<open>The market\<close>

definition getPoolAddressesProvider :: "artifacts \<Rightarrow> string obj \<Rightarrow> string \<Rightarrow> string option \<Rightarrow> contract_at result" where
  "getPoolAddressesProvider art saved market address =
     getStored art saved ''PoolAddressesProvider'' (POOL_ADDRESSES_PROVIDER_ID market) address"

definition getACLManager :: "artifacts \<Rightarrow> string obj \<Rightarrow> string \<Rightarrow> string option \<Rightarrow> contract_at result" where
  "getACLManager art saved market address = getStored art saved ''ACLManager'' (ACL_MANAGER_ID market) address"

definition getPoolConfiguratorProxy :: "artifacts \<Rightarrow> string obj \<Rightarrow> string \<Rightarrow> string option \<Rightarrow> contract_at result" where
  "getPoolConfiguratorProxy art saved market address =
     getStored art saved ''PoolConfigurator'' (POOL_CONFIGURATOR_PROXY_ID market) address"

definition getPool :: "artifacts \<Rightarrow> string obj \<Rightarrow> string \<Rightarrow> string option \<Rightarrow> contract_at result" where
  "getPool art saved market address = getStored art saved ''Pool'' (POOL_PROXY_ID market) address"

definition getProtocolDataProvider :: "artifacts \<Rightarrow> string obj \<Rightarrow> string \<Rightarrow> string option \<Rightarrow> contract_at result" where
  "getProtocolDataProvider art saved market address =
     getStored art saved ''ProtocolDataProvider'' (POOL_DATA_PROVIDER market) address"

definition getRASAOracle :: "artifacts \<Rightarrow> string obj \<Rightarrow> string \<Rightarrow> string option \<Rightarrow> contract_at result" where
  "getRASAOracle art saved market address = getStored art saved ''RASAOracle'' (ORACLE_ID market) address"

definition getFallbackOracle :: "artifacts \<Rightarrow> string obj \<Rightarrow> string \<Rightarrow> string option \<Rightarrow> contract_at result" where
  "getFallbackOracle art saved market address = getStored art saved ''PriceOracle'' (FALLBACK_ORACLE_ID market) address"

definition getPriceOracle :: "artifacts \<Rightarrow> string obj \<Rightarrow> string option \<Rightarrow> contract_at result" where
  "getPriceOracle art saved address = getContract art saved ''PriceOracle'' address"

definition getIRStrategy :: "artifacts \<Rightarrow> string obj \<Rightarrow> string \<Rightarrow> contract_at result" where
  "getIRStrategy art saved address = getContract art saved ''DefaultReserveInterestRateStrategy'' (Some address)"

definition getPoolAddressesProviderRegistry :: "artifacts \<Rightarrow> string obj \<Rightarrow> string option \<Rightarrow> contract_at result" where
  "getPoolAddressesProviderRegistry art saved address = getContract art saved ''PoolAddressesProviderRegistry'' address"

definition getReservesSetupHelper :: "artifacts \<Rightarrow> string obj \<Rightarrow> string option \<Rightarrow> contract_at result" where
  "getReservesSetupHelper art saved address = getContract art saved ''ReservesSetupHelper'' address"

definition getL2Encoder :: "artifacts \<Rightarrow> string obj \<Rightarrow> string option \<Rightarrow> contract_at result" where
  "getL2Encoder art saved address = getStored art saved ''L2Encoder'' L2_ENCODER address"

section \<open>Libraries\<close>

definition getSupplyLogic :: "artifacts \<Rightarrow> string obj \<Rightarrow> string option \<Rightarrow> contract_at result" where
  "getSupplyLogic art saved address = getContract art saved ''SupplyLogic'' address"

definition getBridgeLogic :: "artifacts \<Rightarrow> string obj \<Rightarrow> string option \<Rightarrow> contract_at result" where
  "getBridgeLogic art saved address = getContract art saved ''BridgeLogic'' address"

definition getBorrowLogic :: "artifacts \<Rightarrow> string obj \<Rightarrow> string option \<Rightarrow> contract_at result" where
  "getBorrowLogic art saved address = getContract art saved ''BorrowLogic'' address"

definition getLiquidationLogic :: "artifacts \<Rightarrow> string obj \<Rightarrow> string option \<Rightarrow> contract_at result" where
  "getLiquidationLogic art saved address = getContract art saved ''LiquidationLogic'' address"

definition getEModeLogic :: "artifacts \<Rightarrow> string obj \<Rightarrow> string option \<Rightarrow> contract_at result" where
  "getEModeLogic art saved address = getContract art saved ''EModeLogic'' address"

definition getFlashLoanLogic :: "artifacts \<Rightarrow> string obj \<Rightarrow> string option \<Rightarrow> contract_at result" where
  "getFlashLoanLogic art saved address = getContract art saved ''FlashLoanLogic'' address"

section \<open>Incentives and periphery\<close>

text \<open>Both deployments are read, also when an address is given, and the artifact is the one of the implementation.\<close>

definition getIncentivesV2 :: "string obj \<Rightarrow> string option \<Rightarrow> contract_at result" where
  "getIncentivesV2 saved address =
     rbind (deployments_get saved INCENTIVES_PROXY_ID) (\<lambda>proxy.
     rbind (deployments_get saved INCENTIVES_V2_IMPL_ID) (\<lambda>_.
     Inr \<lparr>at_artifact = INCENTIVES_V2_IMPL_ID, at_address = (if truthy address then the address else proxy)\<rparr>))"

definition getPullRewardsStrategy :: "artifacts \<Rightarrow> string obj \<Rightarrow> string option \<Rightarrow> contract_at result" where
  "getPullRewardsStrategy art saved address =
     getStored art saved ''PullRewardsTransferStrategy'' INCENTIVES_PULL_REWARDS_STRATEGY_ID address"

definition getStakedRewardsStrategy :: "artifacts \<Rightarrow> string obj \<Rightarrow> string option \<Rightarrow> contract_at result" where
  "getStakedRewardsStrategy art saved address =
     getStored art saved ''StakedTokenTransferStrategy'' INCENTIVES_STAKED_TOKEN_STRATEGY_ID address"

definition getEmissionManager :: "artifacts \<Rightarrow> string obj \<Rightarrow> string option \<Rightarrow> contract_at result" where
  "getEmissionManager art saved address = getStored art saved ''EmissionManager'' EMISSION_MANAGER_ID address"

definition getFaucet :: "artifacts \<Rightarrow> string obj \<Rightarrow> string \<Rightarrow> string option \<Rightarrow> contract_at result" where
  "getFaucet art saved market address = getStored art saved ''Faucet'' (FAUCET_OWNABLE_ID market) address"

definition getWrappedTokenGateway :: "artifacts \<Rightarrow> string obj \<Rightarrow> string option \<Rightarrow> contract_at result" where
  "getWrappedTokenGateway art saved address = getContract art saved ''WrappedTokenGatewayV3'' address"

definition getUiPoolDataProvider :: "artifacts \<Rightarrow> string obj \<Rightarrow> string option \<Rightarrow> contract_at result" where
  "getUiPoolDataProvider art saved address = getContract art saved ''UiPoolDataProviderV3'' address"

definition getUiIncentiveDataProvider :: "artifacts \<Rightarrow> string obj \<Rightarrow> string option \<Rightarrow> contract_at result" where
  "getUiIncentiveDataProvider art saved address = getContract art saved ''UiIncentiveDataProviderV3'' address"

definition getWalletBalanceProvider :: "artifacts \<Rightarrow> string obj \<Rightarrow> string option \<Rightarrow> contract_at result" where
  "getWalletBalanceProvider art saved address = getContract art saved ''WalletBalanceProvider'' address"

section \<open>Mocks\<close>

definition getMockFlashLoanReceiver :: "artifacts \<Rightarrow> string obj \<Rightarrow> string option \<Rightarrow> contract_at result" where
  "getMockFlashLoanReceiver art saved address = getContract art saved ''MockFlashLoanReceiver'' address"

definition getMockPool :: "artifacts \<Rightarrow> string obj \<Rightarrow> string option \<Rightarrow> contract_at result" where
  "getMockPool art saved address = getContract art saved ''MockPool'' address"

definition getMockL2Pool :: "artifacts \<Rightarrow> string obj \<Rightarrow> string option \<Rightarrow> contract_at result" where
  "getMockL2Pool art saved address = getContract art saved ''MockL2Pool'' address"

definition getMockInitializableImple :: "artifacts \<Rightarrow> string obj \<Rightarrow> string option \<Rightarrow> contract_at result" where
  "getMockInitializableImple art saved address = getContract art saved ''MockInitializableImple'' address"

definition getMockInitializableImpleV2 :: "artifacts \<Rightarrow> string obj \<Rightarrow> string option \<Rightarrow> contract_at result" where
  "getMockInitializableImpleV2 art saved address = getContract art saved ''MockInitializableImpleV2'' address"

text \<open>A contract with an owner is used through an interface written out in the helper.\<close>

definition getOwnableContract :: "string \<Rightarrow> contract_at" where
  "getOwnableContract address = \<lparr>at_artifact = ''Ownable'', at_address = address\<rparr>"

end
