(* ===== verification/ContractDeployments.thy ===== *)
theory ContractDeployments
  imports MarketDeploy
begin

text \<open>
  The deployers of \<open>helpers/contract-deployments.ts\<close>, which the tests and tasks use. Each stores its
  contract under its name and a random identifier, a parameter here, unless it is given a name.
  \<open>deployMockInitializableFromConstructorImple\<close>, whose constructor runs its initialiser, is left out.
\<close>

definition deployContract ::
    "deploy_env \<Rightarrow> string \<Rightarrow> string \<Rightarrow> arg list \<Rightarrow> string obj \<Rightarrow> string option \<Rightarrow> string script" where
  "deployContract env uuid contract args libraries i =
     deploy env (if truthy i then the i else contract @ ''-'' @ uuid)
       ((contract_of contract args)\<lparr>cc_libraries := libraries\<rparr>)"

text \<open>Most of them pass arguments only.\<close>

abbreviation deployArgs :: "deploy_env \<Rightarrow> string \<Rightarrow> string \<Rightarrow> arg list \<Rightarrow> string script" where
  "deployArgs env uuid contract args \<equiv> deployContract env uuid contract args [] None"

section \<open>The market\<close>

definition deployPoolAddressesProvider :: "deploy_env \<Rightarrow> string \<Rightarrow> string \<Rightarrow> string script" where
  "deployPoolAddressesProvider env uuid marketId = deployArgs env uuid ''PoolAddressesProvider'' [Text marketId]"

definition deployPoolAddressesProviderRegistry :: "deploy_env \<Rightarrow> string \<Rightarrow> string script" where
  "deployPoolAddressesProviderRegistry env uuid = deployArgs env uuid ''PoolAddressesProviderRegistry'' []"

definition deployACLManager :: "deploy_env \<Rightarrow> string \<Rightarrow> string \<Rightarrow> string script" where
  "deployACLManager env uuid provider = deployArgs env uuid ''ACLManager'' [Address provider]"

definition deployConfiguratorLogicLibrary :: "deploy_env \<Rightarrow> string \<Rightarrow> string script" where
  "deployConfiguratorLogicLibrary env uuid = deployArgs env uuid ''ConfiguratorLogic'' []"

definition deployCalldataLogicLibrary :: "deploy_env \<Rightarrow> string \<Rightarrow> string script" where
  "deployCalldataLogicLibrary env uuid = deployArgs env uuid ''CalldataLogic'' []"

definition deployPoolConfigurator :: "deploy_env \<Rightarrow> string \<Rightarrow> string script" where
  "deployPoolConfigurator env uuid =
     abind (deploymentOf ''ConfiguratorLogic'') (\<lambda>configuratorLogic.
     deployContract env uuid ''PoolConfigurator'' [] [(''ConfiguratorLogic'', configuratorLogic)] None)"

definition deployPoolLike :: "string \<Rightarrow> deploy_env \<Rightarrow> string \<Rightarrow> string option \<Rightarrow> string script" where
  "deployPoolLike contract env uuid provider =
     abind getPoolLibraries (\<lambda>libraries.
     abind (if truthy provider then areturn (Inr (the provider))
            else deploymentOf (POOL_ADDRESSES_PROVIDER_ID (de_market_name env))) (\<lambda>provider.
     deployContract env uuid contract [Address provider] libraries None))"

definition deployPool :: "deploy_env \<Rightarrow> string \<Rightarrow> string option \<Rightarrow> string script" where
  "deployPool = deployPoolLike ''Pool''"

definition deployMockPoolInherited :: "deploy_env \<Rightarrow> string \<Rightarrow> string option \<Rightarrow> string script" where
  "deployMockPoolInherited = deployPoolLike ''MockPoolInherited''"

text \<open>The library \<open>CalldataLogic\<close> is linked to the address of \<open>EModeLogic\<close>.\<close>

definition deployL2DeployerImplementation :: "deploy_env \<Rightarrow> string \<Rightarrow> string \<Rightarrow> string script" where
  "deployL2DeployerImplementation env uuid provider =
     abind getPoolLibraries (\<lambda>commonLibraries.
     abind (deploymentOf ''EModeLogic'') (\<lambda>CalldataLogic.
     deployContract env uuid ''L2Pool'' [Address provider] (obj_set commonLibraries ''CalldataLogic'' CalldataLogic) None))"

definition deployL2Mock2Pool :: "deploy_env \<Rightarrow> string \<Rightarrow> string \<Rightarrow> string script" where
  "deployL2Mock2Pool env uuid provider = deployArgs env uuid ''MockL2Pool'' [Address provider]"

definition deployL2Encoder :: "deploy_env \<Rightarrow> string \<Rightarrow> string \<Rightarrow> string script" where
  "deployL2Encoder env uuid pool = deployArgs env uuid ''L2Encoder'' [Address pool]"

definition deployReservesSetupHelper :: "deploy_env \<Rightarrow> string \<Rightarrow> string script" where
  "deployReservesSetupHelper env uuid = deployArgs env uuid ''ReservesSetupHelper'' []"

definition deployProtocolDataProvider :: "deploy_env \<Rightarrow> string \<Rightarrow> string \<Rightarrow> string script" where
  "deployProtocolDataProvider env uuid provider = deployArgs env uuid ''ProtocolDataProvider'' [Address provider]"

definition deployDefaultReserveInterestRateStrategy :: "deploy_env \<Rightarrow> string \<Rightarrow> arg list \<Rightarrow> string script" where
  "deployDefaultReserveInterestRateStrategy env uuid args = deployArgs env uuid ''DefaultReserveInterestRateStrategy'' args"

section \<open>Oracles and periphery\<close>

definition deployPriceOracle :: "deploy_env \<Rightarrow> string \<Rightarrow> string script" where
  "deployPriceOracle env uuid = deployArgs env uuid ''PriceOracle'' []"

definition deployMockAggregator :: "deploy_env \<Rightarrow> string \<Rightarrow> string \<Rightarrow> string script" where
  "deployMockAggregator env uuid price = deployArgs env uuid ''MockAggregator'' [Text price]"

definition deployRASAOracle :: "deploy_env \<Rightarrow> string \<Rightarrow> arg list \<Rightarrow> string script" where
  "deployRASAOracle env uuid args = deployArgs env uuid ''RASAOracle'' args"

definition deployMockFlashLoanReceiver :: "deploy_env \<Rightarrow> string \<Rightarrow> string \<Rightarrow> string script" where
  "deployMockFlashLoanReceiver env uuid provider = deployArgs env uuid ''MockFlashLoanReceiver'' [Address provider]"

definition deployUiIncentiveDataProvider :: "deploy_env \<Rightarrow> string \<Rightarrow> string script" where
  "deployUiIncentiveDataProvider env uuid = deployArgs env uuid ''UiIncentiveDataProviderV3'' []"

definition deployUiPoolDataProvider :: "deploy_env \<Rightarrow> string \<Rightarrow> string \<Rightarrow> string \<Rightarrow> string script" where
  "deployUiPoolDataProvider env uuid aggregator ethUsdAggregator =
     deployArgs env uuid ''UiPoolDataProviderV3'' [Address aggregator, Address ethUsdAggregator]"

definition deployWrappedTokenGateway :: "deploy_env \<Rightarrow> string \<Rightarrow> string \<Rightarrow> string script" where
  "deployWrappedTokenGateway env uuid wrappedToken = deployArgs env uuid ''WrappedTokenGatewayV3'' [Address wrappedToken]"

definition deployEmissionManager :: "deploy_env \<Rightarrow> string \<Rightarrow> string \<Rightarrow> string \<Rightarrow> string script" where
  "deployEmissionManager env uuid rewardsController owner =
     deployArgs env uuid ''EmissionManager'' [Address rewardsController, Address owner]"

definition deployMockIncentivesController :: "deploy_env \<Rightarrow> string \<Rightarrow> string script" where
  "deployMockIncentivesController env uuid = deployArgs env uuid ''MockIncentivesController'' []"

text \<open>These two proxies are given the arguments, and the second one the name to be stored under.\<close>

definition deployInitializableImmutableAdminUpgradeabilityProxy :: "deploy_env \<Rightarrow> string \<Rightarrow> string \<Rightarrow> string script" where
  "deployInitializableImmutableAdminUpgradeabilityProxy env uuid admin =
     deployArgs env uuid ''InitializableImmutableAdminUpgradeabilityProxy'' [Address admin]"

definition deployInitializableAdminUpgradeabilityProxy :: "deploy_env \<Rightarrow> string \<Rightarrow> string \<Rightarrow> string script" where
  "deployInitializableAdminUpgradeabilityProxy env uuid slug =
     deployContract env uuid ''InitializableAdminUpgradeabilityProxy'' [] [] (Some slug)"

section \<open>Tokens\<close>

definition deployMintableERC20 :: "deploy_env \<Rightarrow> string \<Rightarrow> string \<times> string \<times> string \<Rightarrow> string script" where
  "deployMintableERC20 env uuid = (\<lambda>(nam, symb, decimals).
     deployArgs env uuid ''MintableERC20'' [Text nam, Text symb, Text decimals])"

definition deployMintableDelegationERC20 :: "deploy_env \<Rightarrow> string \<Rightarrow> string \<times> string \<times> string \<Rightarrow> string script" where
  "deployMintableDelegationERC20 env uuid = (\<lambda>(nam, symb, decimals).
     deployArgs env uuid ''MintableDelegationERC20'' [Text nam, Text symb, Text decimals])"

definition deployWETHMocked :: "deploy_env \<Rightarrow> string \<Rightarrow> string script" where
  "deployWETHMocked env uuid = deployArgs env uuid ''WETH9Mocked'' []"

definition deployGenericStableDebtToken :: "deploy_env \<Rightarrow> string \<Rightarrow> string \<Rightarrow> string script" where
  "deployGenericStableDebtToken env uuid pool = deployArgs env uuid ''StableDebtToken'' [Address pool]"

definition deployGenericVariableDebtToken :: "deploy_env \<Rightarrow> string \<Rightarrow> string \<Rightarrow> string script" where
  "deployGenericVariableDebtToken env uuid pool = deployArgs env uuid ''VariableDebtToken'' [Address pool]"

definition deployGenericRSTokenImpl :: "deploy_env \<Rightarrow> string \<Rightarrow> string \<Rightarrow> string script" where
  "deployGenericRSTokenImpl env uuid pool = deployArgs env uuid ''RSToken'' [Address pool]"

definition deployDelegationAwareRSTokenImpl :: "deploy_env \<Rightarrow> string \<Rightarrow> string \<Rightarrow> string script" where
  "deployDelegationAwareRSTokenImpl env uuid pool = deployArgs env uuid ''DelegationAwareRSToken'' [Address pool]"

text \<open>The others are initialised with the pool at once; the names and addresses of the token are not kept.\<close>

definition deployInitialised :: "string \<Rightarrow> deploy_env \<Rightarrow> string \<Rightarrow> string \<Rightarrow> string script" where
  "deployInitialised contract env uuid pool =
     abind (deployArgs env uuid contract [Address pool]) (\<lambda>instance.
     abind (transact (initialize instance pool)) (\<lambda>_. areturn (Inr instance)))"

definition deployGenericRSToken :: "deploy_env \<Rightarrow> string \<Rightarrow> string \<Rightarrow> string script" where
  "deployGenericRSToken = deployInitialised ''RSToken''"

definition deployDelegationAwareRSToken :: "deploy_env \<Rightarrow> string \<Rightarrow> string \<Rightarrow> string script" where
  "deployDelegationAwareRSToken = deployInitialised ''DelegationAwareRSToken''"

definition deployMockStableDebtToken :: "deploy_env \<Rightarrow> string \<Rightarrow> string \<Rightarrow> string script" where
  "deployMockStableDebtToken = deployInitialised ''MockStableDebtToken''"

definition deployMockVariableDebtToken :: "deploy_env \<Rightarrow> string \<Rightarrow> string \<Rightarrow> string script" where
  "deployMockVariableDebtToken = deployInitialised ''MockVariableDebtToken''"

definition deployMockRSToken :: "deploy_env \<Rightarrow> string \<Rightarrow> string \<Rightarrow> string script" where
  "deployMockRSToken = deployInitialised ''MockRSToken''"

section \<open>Mocks\<close>

definition deployMockReserveConfiguration :: "deploy_env \<Rightarrow> string \<Rightarrow> string script" where
  "deployMockReserveConfiguration env uuid = deployArgs env uuid ''MockReserveConfiguration'' []"

definition deployMockPool :: "deploy_env \<Rightarrow> string \<Rightarrow> string script" where
  "deployMockPool env uuid = deployArgs env uuid ''MockPool'' []"

definition deployMockInitializableImple :: "deploy_env \<Rightarrow> string \<Rightarrow> string script" where
  "deployMockInitializableImple env uuid = deployArgs env uuid ''MockInitializableImple'' []"

definition deployMockInitializableImpleV2 :: "deploy_env \<Rightarrow> string \<Rightarrow> string script" where
  "deployMockInitializableImpleV2 env uuid = deployArgs env uuid ''MockInitializableImpleV2'' []"

definition deployMockReentrantInitializableImple :: "deploy_env \<Rightarrow> string \<Rightarrow> string script" where
  "deployMockReentrantInitializableImple env uuid = deployArgs env uuid ''MockReentrantInitializableImple'' []"

end
