(* ===== verification/HelperProps.thy ===== *)
theory HelperProps
  imports ContractGetters ContractDeployments DeployOnce
begin

text \<open>
  The helpers that deploy and look up single contracts, against the scripts that deploy a market: what the
  getters find, which deployers build the contracts of the scripts and which cannot build any.
\<close>

section \<open>Deployers\<close>

text \<open>A deployer whose name is new runs the constructor, and fails with it.\<close>

lemma deployContract_throws:
  assumes "\<And>c. w_code w (de_addressOf env (contract @ ''-'' @ uuid) c) = None"
    "\<And>a. construct (de_deployer env) a ((contract_of contract args)\<lparr>cc_libraries := libs\<rparr>) w = Inl e"
  shows "deployContract env uuid contract args libs None w = (Inl e, w)"
  using assms by (simp add: deployContract_def deploy_def Let_def truthy_def)

text \<open>
  Six of the deployers never deploy anything, since they do not pass the arguments that the constructor
  of their contract takes: those of the addresses provider, of its registry, of the gateway, of the
  emission manager, of the data provider of the user interface and of the mocked wrapped token. Under any
  identifier that is new they throw and leave the chain as it is.
\<close>

theorem six_deployers_always_throw:
  assumes "\<And>contract c. w_code w (de_addressOf env (contract @ ''-'' @ uuid) c) = None"
  shows "deployPoolAddressesProvider env uuid marketId w = (Inl TypeError, w) \<and>
    deployPoolAddressesProviderRegistry env uuid w = (Inl TypeError, w) \<and>
    deployWrappedTokenGateway env uuid token w = (Inl TypeError, w) \<and>
    deployEmissionManager env uuid controller owner w = (Inl TypeError, w) \<and>
    deployUiPoolDataProvider env uuid aggregator ethUsdAggregator w = (Inl TypeError, w) \<and>
    deployWETHMocked env uuid w = (Inl TypeError, w)"
  unfolding deployPoolAddressesProvider_def deployPoolAddressesProviderRegistry_def deployWrappedTokenGateway_def
    deployEmissionManager_def deployUiPoolDataProvider_def deployWETHMocked_def
  by (intro conjI deployContract_throws assms) (simp_all add: construct_def constructors token_contracts_def Let_def)

lemma deployContract_Inr:
  assumes "deployContract env uuid contract args libs i w = (Inr a, w')"
  shows "w_code w' a = Some ((contract_of contract args)\<lparr>cc_libraries := libs\<rparr>)"
  using deploy_Inr(3)[OF assms[unfolded deployContract_def]] by simp

lemma getPoolLibraries_det: "getPoolLibraries w = (Inr libs, v) \<Longrightarrow> getPoolLibraries w = (Inr libs', v') \<Longrightarrow> libs' = libs"
  by simp

lemma deployPool_Inr:
  assumes "deployPool env uuid None w = (Inr a, w')"
  obtains provider libs where
    "obj_get (w_saved w) (POOL_ADDRESSES_PROVIDER_ID (de_market_name env)) = Some provider" "getPoolLibraries w = (Inr libs, w)"
    "w_code w' a = Some ((contract_of ''Pool'' [Address provider])\<lparr>cc_libraries := libs\<rparr>)"
proof -
  from assms obtain libs v provider where s: "getPoolLibraries w = (Inr libs, v)"
      "deploymentOf (POOL_ADDRESSES_PROVIDER_ID (de_market_name env)) v = (Inr provider, v)"
      "deployContract env uuid ''Pool'' [Address provider] libs None v = (Inr a, w')"
    unfolding deployPool_def deployPoolLike_def abind_eq_Inr by (auto simp: deploymentOf_eq truthy_def simp del: act_steps)
  moreover have "v = w" using s(1) by (auto simp: getPoolLibraries_eq)
  ultimately show thesis by (intro that deployContract_Inr) (simp_all add: deploymentOf_eq)
qed

lemma poolImplementation_Inr:
  assumes "poolImplementation env w = (Inr u, w')"
  obtains provider libs impl where
    "obj_get (w_saved w) (POOL_ADDRESSES_PROVIDER_ID (de_market_name env)) = Some provider" "getPoolLibraries w = (Inr libs, w)"
    "obj_get (w_saved w') POOL_IMPL_ID = Some impl"
    "w_code w' impl = Some ((contract_of ''Pool'' [Address provider])\<lparr>cc_libraries := libs\<rparr>)"
proof -
  from assms obtain provider libs a v where s:
      "obj_get (w_saved w) (POOL_ADDRESSES_PROVIDER_ID (de_market_name env)) = Some provider"
      "getPoolLibraries w = (Inr libs, w)"
      "deploy env POOL_IMPL_ID ((contract_of ''Pool'' [Address provider])\<lparr>cc_libraries := libs\<rparr>) w = (Inr a, v)"
      "initialize a provider v = Inr w'"
    unfolding poolImplementation_def abind_eq_Inr deploymentOf_eq transact_eq_Inr
    by (metis getPoolLibraries_eq)
  then show thesis using deploy_Inr(1-3)[OF s(3)] initialize_Inr(1,2)[OF s(4)] by (intro that[of provider libs a]) simp_all
qed

lemma poolConfigurator_Inr:
  assumes "poolConfigurator env w = (Inr u, w')"
    "\<And>c c'. de_addressOf env POOL_CONFIGURATOR_IMPL_ID c \<noteq> de_addressOf env RESERVES_SETUP_HELPER_ID c'"
  obtains logic impl where "obj_get (w_saved w) ''ConfiguratorLogic'' = Some logic"
    "obj_get (w_saved w') POOL_CONFIGURATOR_IMPL_ID = Some impl"
    "w_code w' impl = Some ((contract_of ''PoolConfigurator'' [])\<lparr>cc_libraries := [(''ConfiguratorLogic'', logic)]\<rparr>)"
proof -
  from assms(1) obtain provider logic a b v v' where s:
      "obj_get (w_saved w) ''ConfiguratorLogic'' = Some logic"
      "deploy env POOL_CONFIGURATOR_IMPL_ID ((contract_of ''PoolConfigurator'' [])\<lparr>cc_libraries := [(''ConfiguratorLogic'', logic)]\<rparr>) w = (Inr a, v)"
      "initialize a provider v = Inr v'"
      "deploy env RESERVES_SETUP_HELPER_ID (contract_of ''ReservesSetupHelper'' []) v' = (Inr b, w')"
    by (auto simp: poolConfigurator_def act_inv simp del: act_steps)
  then show thesis
    using deploy_Inr(1-3)[OF s(2)] deploy_Inr(1-3)[OF s(4)] initialize_Inr(1,2)[OF s(3)] assms(2)
    by (intro that[of logic a]) (simp_all add: once_ids)
qed

text \<open>
  C31: The deployers of the pool and of its configurator build exactly what the scripts build: on the same
  chain, what they deploy has the contract, the arguments and the linked libraries of the implementation
  that the script stores. The deployer of the pool for rollups does not: it links the library that decodes
  the call data to the address of the efficiency mode logic.
\<close>

theorem deployers_build_the_implementations:
  assumes "\<And>nam nam' c c'. nam \<noteq> nam' \<Longrightarrow> de_addressOf env nam c \<noteq> de_addressOf env nam' c'"
  shows "(deployPool env uuid None w = (Inr a, v) \<and> poolImplementation env w = (Inr (), v') \<longrightarrow>
      (\<exists>impl. obj_get (w_saved v') POOL_IMPL_ID = Some impl \<and> w_code v a = w_code v' impl \<and> w_code v a \<noteq> None)) \<and>
    (deployPoolConfigurator env uuid w = (Inr a, v) \<and> poolConfigurator env w = (Inr (), v') \<longrightarrow>
      (\<exists>impl. obj_get (w_saved v') POOL_CONFIGURATOR_IMPL_ID = Some impl \<and> w_code v a = w_code v' impl \<and> w_code v a \<noteq> None)) \<and>
    (deployL2DeployerImplementation env uuid provider w = (Inr a, v) \<longrightarrow>
      (\<exists>code eMode. w_code v a = Some code \<and> obj_get (w_saved w) ''EModeLogic'' = Some eMode \<and>
        obj_get (cc_libraries code) ''CalldataLogic'' = Some eMode))"
proof (intro conjI impI; (elim conjE)?)
  assume "deployPool env uuid None w = (Inr a, v)" "poolImplementation env w = (Inr (), v')"
  then show "\<exists>impl. obj_get (w_saved v') POOL_IMPL_ID = Some impl \<and> w_code v a = w_code v' impl \<and> w_code v a \<noteq> None"
    by (elim deployPool_Inr poolImplementation_Inr) simp
next
  assume deployed: "deployPoolConfigurator env uuid w = (Inr a, v)" and script: "poolConfigurator env w = (Inr (), v')"
  have "de_addressOf env POOL_CONFIGURATOR_IMPL_ID c \<noteq> de_addressOf env RESERVES_SETUP_HELPER_ID c'" for c c'
    by (rule assms) (simp add: once_ids)
  with script deployed
  show "\<exists>impl. obj_get (w_saved v') POOL_CONFIGURATOR_IMPL_ID = Some impl \<and> w_code v a = w_code v' impl \<and> w_code v a \<noteq> None"
    by (elim poolConfigurator_Inr)
       (auto simp: deployPoolConfigurator_def act_inv simp del: act_steps dest!: deployContract_Inr)
next
  assume "deployL2DeployerImplementation env uuid provider w = (Inr a, v)"
  then show "\<exists>code eMode. w_code v a = Some code \<and> obj_get (w_saved w) ''EModeLogic'' = Some eMode \<and>
      obj_get (cc_libraries code) ''CalldataLogic'' = Some eMode"
    by (auto simp: deployL2DeployerImplementation_def abind_eq_Inr deploymentOf_eq getPoolLibraries_eq simp del: act_steps
        dest!: deployContract_Inr)
qed

section \<open>Getters\<close>

lemma getStored_None:
  assumes "obj_get saved i = Some a" "a \<noteq> []" "art contract = Inr ()"
  shows "getStored art saved contract i None = Inr \<lparr>at_artifact = contract, at_address = a\<rparr>"
  using assms by (simp add: getStored_def getContract_def addressOr_def truthy_def deployments_get_def)

text \<open>
  C30: After the script that initialises the pool, the getters that are called without an address find the
  market: the stored addresses provider, and as the pool and as its configurator the proxies that this
  provider has registered - as the compiled artifacts are there and no stored address is an empty string.
\<close>

theorem getters_find_the_market:
  assumes "initPool env poolConfig w = (Inr u, w')" "\<And>provider i. de_proxyOf env provider i \<noteq> ZERO_ADDRESS"
    "\<And>contract. art contract = Inr ()" "\<And>k a. obj_get (w_saved w') k = Some a \<Longrightarrow> a \<noteq> []"
  shows "\<exists>provider. getPoolAddressesProvider art (w_saved w') (de_market_name env) None =
      Inr \<lparr>at_artifact = ''PoolAddressesProvider'', at_address = provider\<rparr> \<and>
    ContractGetters.getPool art (w_saved w') (de_market_name env) None =
      Inr \<lparr>at_artifact = ''Pool'', at_address = providerAddress provider ''POOL'' w'\<rparr> \<and>
    getPoolConfiguratorProxy art (w_saved w') (de_market_name env) None =
      Inr \<lparr>at_artifact = ''PoolConfigurator'', at_address = providerAddress provider ''POOL_CONFIGURATOR'' w'\<rparr>"
proof -
  from initPool_again[OF assms(1,2)] obtain provider where p:
      "obj_get (w_saved w') (POOL_ADDRESSES_PROVIDER_ID (de_market_name env)) = Some provider"
      "obj_get (w_saved w') (POOL_PROXY_ID (de_market_name env)) = Some (providerAddress provider ''POOL'' w')"
      "obj_get (w_saved w') (POOL_CONFIGURATOR_PROXY_ID (de_market_name env)) =
        Some (providerAddress provider ''POOL_CONFIGURATOR'' w')"
    by (elim conjE exE) (rule that)
  note found = getStored_None[OF _ assms(4) assms(3)]
  show ?thesis
    unfolding getPoolAddressesProvider_def ContractGetters.getPool_def getPoolConfiguratorProxy_def
    by (intro exI[of _ provider] conjI found[OF p(1) p(1)] found[OF p(2) p(2)] found[OF p(3) p(3)])
qed

end
