(* ===== verification/OracleProps.thy ===== *)
theory OracleProps
  imports DeployProps ConfigureProps
begin

text \<open>The price oracle that the deployment scripts leave behind.\<close>

lemma oracle_ids_differ:
  "ORACLE_ID market \<noteq> FALLBACK_ORACLE_ID market'" "ORACLE_ID market \<noteq> POOL_ADDRESSES_PROVIDER_ID market'"
  "FALLBACK_ORACLE_ID market \<noteq> POOL_ADDRESSES_PROVIDER_ID market'"
  by (simp_all add: ORACLE_ID_def FALLBACK_ORACLE_ID_def POOL_ADDRESSES_PROVIDER_ID_def)

lemmas oracle_ids = oracle_ids_differ oracle_ids_differ[THEN not_sym]

lemma deploy_new:
  assumes "deploy env nam c w = (Inr a, w')" "w_code w (de_addressOf env nam c) \<noteq> Some c"
  obtains v where "construct (de_deployer env) a c w = Inr v" "w_oracle w' = w_oracle v"
  using assms by (auto simp: deploy_def Let_def split: sum.splits)

text \<open>A new oracle has the sources of its arguments.\<close>

lemma deploy_oracle:
  assumes "deploy env nam (contract_of ''RASAOracle''
      [Address provider, Addresses assets, Addresses sources, Address fallback, Address base, Number unit]) w = (Inr a, w')"
    "w_code w (de_addressOf env nam (contract_of ''RASAOracle''
      [Address provider, Addresses assets, Addresses sources, Address fallback, Address base, Number unit])) \<noteq>
      Some (contract_of ''RASAOracle''
        [Address provider, Addresses assets, Addresses sources, Address fallback, Address base, Number unit])"
    "distinct assets"
  shows "fallbackOracle (w_oracle w' a) = fallback" "length assets = length sources"
    "(asset, source) \<in> set (zip assets sources) \<Longrightarrow> assetsSources (w_oracle w' a) asset = source"
proof -
  obtain v where c: "w_oracle w' = w_oracle v" "construct (de_deployer env) a (contract_of ''RASAOracle''
      [Address provider, Addresses assets, Addresses sources, Address fallback, Address base, Number unit]) w = Inr v"
    by (rule deploy_new[OF assms(1,2)])
  from c(2) obtain n po where p: "new_oracle provider assets sources fallback base n = Inr po" "w_oracle v a = po"
    by (auto simp: construct_def constructors rbind_eq_Inr token_contracts_def Let_def)
  note po = setAssetsSources_Inr[OF p(1)[unfolded new_oracle_def] assms(3)]
  show "fallbackOracle (w_oracle w' a) = fallback" "length assets = length sources" using po(1,2) c(1) p(2) by simp_all
  show "(asset, source) \<in> set (zip assets sources) \<Longrightarrow> assetsSources (w_oracle w' a) asset = source" using po(4) c(1) p(2) by simp
qed

text \<open>The two lists pair each asset with the aggregator of its symbol.\<close>

lemma pairs_Inr:
  assumes "getPairsTokenAggregator reserves aggregators = Inr (assets, sources)" "distinct (map snd reserves)"
  shows "distinct assets"
    "(symb, a) \<in> set reserves \<Longrightarrow> symb \<noteq> ''ETH'' \<Longrightarrow> symb \<noteq> ''USD'' \<Longrightarrow>
      \<exists>source. obj_get aggregators symb = Some source \<and> (a, source) \<in> set (zip assets sources)"
proof -
  let ?priced = "filter (\<lambda>(s, _). s \<noteq> ''ETH'' \<and> s \<noteq> ''USD'') reserves"
  have pairs: "assets = map snd ?priced" "map (\<lambda>(s, _). obj_get aggregators s) ?priced = map Some sources"
    using assms(1) by (simp_all add: oracle_pairs_match_symbols Let_def)
  show "distinct assets" using assms(2) by (auto simp: pairs(1) distinct_map intro: inj_on_subset)
  assume "(symb, a) \<in> set reserves" "symb \<noteq> ''ETH''" "symb \<noteq> ''USD''"
  then have "(symb, a) \<in> set ?priced" by simp
  then obtain n where n: "n < length ?priced" "?priced ! n = (symb, a)"
    unfolding in_set_conv_nth by blast
  have len: "length sources = length ?priced" using map_eq_imp_length_eq[OF pairs(2)] by simp
  have "map (\<lambda>(s, _). obj_get aggregators s) ?priced ! n = map Some sources ! n" by (simp only: pairs(2))
  then have "obj_get aggregators symb = Some (sources ! n)" using n len by simp
  moreover have "(a, sources ! n) \<in> set (zip assets sources)"
    using n len by (auto simp: in_set_zip pairs(1) intro!: exI[of _ n])
  ultimately show "\<exists>source. obj_get aggregators symb = Some source \<and> (a, source) \<in> set (zip assets sources)" by blast
qed

lemma deployOracles_Inr:
  assumes "deployOracles env poolConfig w = (Inr u, w')"
    "\<And>c. w_code w (de_addressOf env (ORACLE_ID (de_market_name env)) c) \<noteq> Some c"
    "\<And>reserves. getReserveAddresses (de_market env) poolConfig (networkName (de_market env)) (w_saved w) = Inr reserves \<Longrightarrow>
      distinct (map snd reserves)"
  obtains provider reserves aggregators fallback orc where
    "obj_get (w_saved w') (POOL_ADDRESSES_PROVIDER_ID (de_market_name env)) = Some provider"
    "getReserveAddresses (de_market env) poolConfig (networkName (de_market env)) (w_saved w) = Inr reserves"
    "getChainlinkOracles (de_market env) poolConfig (networkName (de_market env)) (w_saved w) = Inr aggregators"
    "obj_get (w_saved w') (FALLBACK_ORACLE_ID (de_market_name env)) = Some fallback"
    "obj_get (w_saved w') (ORACLE_ID (de_market_name env)) = Some orc"
    "fallbackOracle (w_oracle w' orc) = fallback"
    "\<And>symb a. (symb, a) \<in> set reserves \<Longrightarrow> symb \<noteq> ''ETH'' \<Longrightarrow> symb \<noteq> ''USD'' \<Longrightarrow>
      obj_get aggregators symb = Some (assetsSources (w_oracle w' orc) a)"
proof -
  let ?m = "de_market_name env" and ?unit = "parseUnits_one (OracleQuoteUnit poolConfig)"
  from assms(1) obtain provider reserves aggregators assets sources fb w1 fallback orc where s:
      "obj_get (w_saved w) (POOL_ADDRESSES_PROVIDER_ID ?m) = Some provider"
      "getReserveAddresses (de_market env) poolConfig (networkName (de_market env)) (w_saved w) = Inr reserves"
      "getChainlinkOracles (de_market env) poolConfig (networkName (de_market env)) (w_saved w) = Inr aggregators"
      "getPairsTokenAggregator reserves aggregators = Inr (assets, sources)"
      "deploy env (FALLBACK_ORACLE_ID ?m) (contract_of ''PriceOracle'' []) w = (Inr fb, w1)"
      "obj_get (w_saved w1) (FALLBACK_ORACLE_ID ?m) = Some fallback"
      "deploy env (ORACLE_ID ?m) (contract_of ''RASAOracle'' [Address provider, Addresses assets, Addresses sources,
         Address fallback, Address ZERO_ADDRESS, Number ?unit]) w1 = (Inr orc, w')"
    by (auto simp: deployOracles_def Let_def act_inv simp del: act_steps split: prod.splits)
  let ?c = "contract_of ''RASAOracle'' [Address provider, Addresses assets, Addresses sources, Address fallback,
    Address ZERO_ADDRESS, Number ?unit]"
  note d1 = deploy_Inr[OF s(5)] and d2 = deploy_Inr[OF s(7)]
  have fresh: "w_code w1 (de_addressOf env (ORACLE_ID ?m) ?c) \<noteq> Some ?c"
    using d1(3) assms(2)[of ?c] by (auto simp: contract_of_def)
  note pairs = pairs_Inr[OF s(4) assms(3)[OF s(2)]]
  note o = deploy_oracle[OF s(7) fresh pairs(1)]
  show thesis
  proof (rule that)
    show "obj_get (w_saved w') (POOL_ADDRESSES_PROVIDER_ID ?m) = Some provider"
      "obj_get (w_saved w') (FALLBACK_ORACLE_ID ?m) = Some fallback" "obj_get (w_saved w') (ORACLE_ID ?m) = Some orc"
      using s(1,6) d1(2) d2(2) by (simp_all add: oracle_ids)
    fix symb a assume "(symb, a) \<in> set reserves" "symb \<noteq> ''ETH''" "symb \<noteq> ''USD''"
    then show "obj_get aggregators symb = Some (assetsSources (w_oracle w' orc) a)" using pairs(2) o(3) by force
  qed (use s(2,3) o(1) in simp_all)
qed

text \<open>
  C29: The two oracle scripts give the market its oracle. After they ran one after the other on a chain that
  has no such oracle yet, the price oracle that the addresses provider names is the stored one, its fallback
  is the stored fallback oracle, and the source of every reserve asset, but for reserves under the symbols ETH
  and USD, which the script leaves out, is the aggregator configured under the symbol of that asset. No
  two reserves of the market share an address.
\<close>

theorem market_oracle_is_configured:
  assumes "abind (deployOracles env poolConfig) (\<lambda>_. initOracles env) w = (Inr u, w')"
    "\<And>c. w_code w (de_addressOf env (ORACLE_ID (de_market_name env)) c) \<noteq> Some c"
    "\<And>reserves. getReserveAddresses (de_market env) poolConfig (networkName (de_market env)) (w_saved w) = Inr reserves \<Longrightarrow>
      distinct (map snd reserves)"
  shows "\<exists>provider orc fallback reserves aggregators.
    obj_get (w_saved w') (POOL_ADDRESSES_PROVIDER_ID (de_market_name env)) = Some provider \<and>
    obj_get (w_saved w') (ORACLE_ID (de_market_name env)) = Some orc \<and>
    isEqualAddress (addresses (de_market env)) orc (providerAddress provider ''PRICE_ORACLE'' w') = Inr True \<and>
    obj_get (w_saved w') (FALLBACK_ORACLE_ID (de_market_name env)) = Some fallback \<and>
    fallbackOracle (w_oracle w' orc) = fallback \<and>
    getReserveAddresses (de_market env) poolConfig (networkName (de_market env)) (w_saved w) = Inr reserves \<and>
    getChainlinkOracles (de_market env) poolConfig (networkName (de_market env)) (w_saved w) = Inr aggregators \<and>
    (\<forall>(symb, a) \<in> set reserves. symb \<noteq> ''ETH'' \<and> symb \<noteq> ''USD'' \<longrightarrow>
      obj_get aggregators symb = Some (assetsSources (w_oracle w' orc) a))"
proof -
  let ?m = "de_market_name env" and ?lib = "addresses (de_market env)"
  from assms(1) obtain u' v where run: "deployOracles env poolConfig w = (Inr u', v)" "initOracles env v = (Inr u, w')"
    by (auto simp: abind_eq_Inr)
  from deployOracles_Inr[OF run(1) assms(2,3)] obtain provider reserves aggregators fallback orc where d:
      "obj_get (w_saved v) (POOL_ADDRESSES_PROVIDER_ID ?m) = Some provider"
      "getReserveAddresses (de_market env) poolConfig (networkName (de_market env)) (w_saved w) = Inr reserves"
      "getChainlinkOracles (de_market env) poolConfig (networkName (de_market env)) (w_saved w) = Inr aggregators"
      "obj_get (w_saved v) (FALLBACK_ORACLE_ID ?m) = Some fallback" "obj_get (w_saved v) (ORACLE_ID ?m) = Some orc"
      "fallbackOracle (w_oracle v orc) = fallback"
      "\<And>symb a. (symb, a) \<in> set reserves \<Longrightarrow> symb \<noteq> ''ETH'' \<Longrightarrow> symb \<noteq> ''USD'' \<Longrightarrow>
        obj_get aggregators symb = Some (assetsSources (w_oracle v orc) a)"
    by metis
  from run(2) d(1,5) obtain eq where i:
      "isEqualAddress ?lib orc (providerAddress provider ''PRICE_ORACLE'' v) = Inr eq"
      "if eq then w' = v else setAddress (de_deployer env) provider ''PRICE_ORACLE'' orc v = Inr w'"
    by (auto simp: initOracles_def Let_def act_inv simp del: act_steps split: if_splits)
  have self: "isEqualAddress ?lib orc orc = Inr True" using i(1) by (auto simp: isEqualAddress_def rbind_eq_Inr)
  have "w_saved w' = w_saved v \<and> w_oracle w' = w_oracle v \<and>
      isEqualAddress ?lib orc (providerAddress provider ''PRICE_ORACLE'' w') = Inr True"
    using i self by (cases eq) (auto simp: setAddress_def onProvider_iff providerAddress_def)
  then show ?thesis using d by (intro exI[of _ provider] exI[of _ orc] exI[of _ fallback] exI[of _ reserves] exI[of _ aggregators]) auto
qed

end
