(* ===== verification/RoleView.thy ===== *)
theory RoleView
  imports DeployAcl HelperProps
begin

text \<open>
  \<open>tasks/misc/view-protocol-roles.ts\<close>: the table of who administers what, on the chain of the deployment,
  and how it agrees with the table at the end of the task that hands the protocol over. The deployment files
  of the legacy gateway are a parameter; calls of a contract that is not there fail.
\<close>

record role_row =
  rr_role :: string
  rr_address :: string
  rr_assert :: bool

definition new_row :: "string \<Rightarrow> string \<Rightarrow> bool \<Rightarrow> role_row" where
  "new_row r a b = \<lparr>rr_role = r, rr_address = a, rr_assert = b\<rparr>"

text \<open>The contracts that the task loads first, in its order.\<close>

record role_contracts =
  rc_provider :: string
  rc_rewards :: string
  rc_emission :: string
  rc_registry :: string
  rc_manager :: string
  rc_treasuryProxy :: string
  rc_treasuryController :: string
  rc_gateway :: string
  rc_swapAdapter :: string
  rc_repayAdapter :: string

text \<open>A gateway that is not stored is looked up in the file of an older deployment.\<close>

definition loadGateway :: "artifacts \<Rightarrow> (string \<Rightarrow> string \<Rightarrow> string result) \<Rightarrow> string \<Rightarrow> string obj \<Rightarrow> string result" where
  "loadGateway art getAddressFromJson networkId saved =
     (case getWrappedTokenGateway art saved None of
        Inr c \<Rightarrow> Inr (at_address c)
      | Inl _ \<Rightarrow> getAddressFromJson networkId ''WETHGateway'')"

definition loadRoleContracts ::
    "artifacts \<Rightarrow> (string \<Rightarrow> string \<Rightarrow> string result) \<Rightarrow> string \<Rightarrow> string \<Rightarrow> deploy_world \<Rightarrow> role_contracts result" where
  "loadRoleContracts art getAddressFromJson networkId market w =
     (let saved = w_saved w in
      rbind (getPoolAddressesProvider art saved market None) (\<lambda>provider.
      rbind (getIncentivesV2 saved None) (\<lambda>rewards.
      rbind (getEmissionManager art saved None) (\<lambda>emission.
      rbind (getPoolAddressesProviderRegistry art saved None) (\<lambda>registry.
      rbind (ContractGetters.getACLManager art saved market (Some (providerAddress (at_address provider) ''ACL_MANAGER'' w))) (\<lambda>manager.
      rbind (deployments_get saved TREASURY_PROXY_ID) (\<lambda>treasuryProxy.
      rbind (deployments_get saved TREASURY_CONTROLLER_ID) (\<lambda>treasuryController.
      rbind (loadGateway art getAddressFromJson networkId saved) (\<lambda>gateway.
      rbind (deployments_get saved ''ParaSwapLiquiditySwapAdapter'') (\<lambda>swap.
      rbind (deployments_get saved ''ParaSwapRepayAdapter'') (\<lambda>repay.
      Inr \<lparr>rc_provider = at_address provider, rc_rewards = at_address rewards, rc_emission = at_address emission,
        rc_registry = at_address registry, rc_manager = at_address manager, rc_treasuryProxy = treasuryProxy,
        rc_treasuryController = treasuryController, rc_gateway = gateway, rc_swapAdapter = swap, rc_repayAdapter = repay\<rparr>)))))))))))"

text \<open>The table, with the rights read from the ACL manager \<open>acl\<close>.\<close>

definition roleRows ::
    "deploy_env \<Rightarrow> string \<Rightarrow> string \<Rightarrow> role_contracts \<Rightarrow> acl \<Rightarrow> deploy_world \<Rightarrow> role_row list" where
  "roleRows env desiredAdmin desiredEmergencyAdmin c acl w =
     (let acc = de_accounts env;
          owned = (\<lambda>r a. new_row r a (a = desiredAdmin));
          provider = rc_provider c;
          isDefault = (\<lambda>a. hasRole DEFAULT_ADMIN_ROLE a acl);
          controller = providerAddress provider (keccak256 env ''INCENTIVES_CONTROLLER'') w
      in [owned ''PoolAddressesProvider owner'' (pv_owner (w_provider w provider)),
          owned ''PoolAddressesProviderRegistry owner'' (rg_owner (w_registry w (rc_registry c))),
          owned ''AddressesProvider ACL Admin'' (providerAddress provider ''ACL_ADMIN'' w),
          new_row ''ACL Manager Default Admin role granted Multisig''
            (if isDefault desiredAdmin then desiredAdmin else if isDefault (deployer acc) then deployer acc else ''UNKNOWN'')
            (isDefault desiredAdmin),
          new_row ''ACL Manager  Default Admin role revoked Deployer''
            (if isDefault (deployer acc) then ''NOT REVOKED'' else ''REVOKED'') (\<not> isDefault (deployer acc)),
          owned ''WrappedTokenGateway owner'' (w_owner w (rc_gateway c)),
          new_row ''PoolAdmin is multisig'' (if isPoolAdmin desiredAdmin acl then desiredAdmin else ZERO_ADDRESS)
            (isPoolAdmin desiredAdmin acl),
          new_row ''Deployer revoked PoolAdmin'' (if isPoolAdmin (deployer acc) acl then ''NOT REVOKED'' else ''REVOKED'')
            (\<not> isPoolAdmin (deployer acc) acl),
          new_row ''EmergencyAdmin''
            (if isEmergencyAdmin desiredEmergencyAdmin acl then desiredEmergencyAdmin else emergencyAdmin acc)
            (isEmergencyAdmin desiredEmergencyAdmin acl),
          new_row ''AssetListAdmin'' (if isAssetListingAdmin (poolAdmin acc) acl then poolAdmin acc else ''DISABLED'')
            (\<not> isAssetListingAdmin (poolAdmin acc) acl),
          owned ''EmissionManager controller contract Owner'' (w_owner w (rc_emission c)),
          owned ''Treasury Proxy Admin'' (w_proxyAdmin w (rc_treasuryProxy c)),
          owned ''Treasury Controller owner'' (w_owner w (rc_treasuryController c)),
          new_row ''PoolAddressesProvider.getAddress INCENTIVES_CONTROLLER'' controller (controller = rc_rewards c),
          owned ''ParaSwapRepayAdapter owner'' (w_owner w (rc_repayAdapter c)),
          owned ''ParaSwapSwapAdapter owner'' (w_owner w (rc_swapAdapter c))])"

text \<open>The last row is left out when the rewards controller does not know its emission manager.\<close>

definition emissionRow :: "role_contracts \<Rightarrow> deploy_world \<Rightarrow> role_row list" where
  "emissionRow c w =
     (case w_code w (w_implementation w (rc_rewards c)) of
        Some code \<Rightarrow>
          (case cc_args code of
             [Address emissionManagerAddress] \<Rightarrow>
               if cc_contract code = ''RewardsController''
               then [new_row ''Emission manager role at Rewards Controller'' emissionManagerAddress
                       (emissionManagerAddress = rc_emission c)]
               else []
           | _ \<Rightarrow> [])
      | None \<Rightarrow> [])"

definition viewProtocolRoles ::
    "artifacts \<Rightarrow> (string \<Rightarrow> string \<Rightarrow> string result) \<Rightarrow> deploy_env \<Rightarrow> string \<Rightarrow> deploy_world \<Rightarrow> role_row list result" where
  "viewProtocolRoles art getAddressFromJson env networkId w =
     (case (obj_get POOL_ADMIN networkId, obj_get EMERGENCY_ADMIN networkId) of
        (Some desiredAdmin, Some desiredEmergencyAdmin) \<Rightarrow>
          rbind (loadRoleContracts art getAddressFromJson networkId (de_market_name env) w) (\<lambda>c.
          rbind (getf (w_code w (rc_manager c))) (\<lambda>_.
          Inr (roleRows env desiredAdmin desiredEmergencyAdmin c (w_acl w (rc_manager c)) w @ emissionRow c w)))
      | _ \<Rightarrow> Inl (ProcessExit 403))"

section \<open>Two tables of the same roles\<close>

text \<open>What the table says of a row.\<close>

definition verdict :: "role_row list \<Rightarrow> string \<Rightarrow> bool" where
  "verdict rows r \<longleftrightarrow> list_all (\<lambda>row. rr_role row = r \<longrightarrow> rr_assert row) rows"

text \<open>
  The two tables of the roles agree. Whenever the task that views the roles prints its table, with the manager
  that the access-control script deploys for its provider, the task that hands the protocol over would report
  the same about the same chain: who is pool administrator and default administrator and who owns the
  addresses provider, the gateway and the emission manager.
\<close>

theorem role_tables_agree:
  assumes "viewProtocolRoles art json env networkId w = Inr rows" "obj_get POOL_ADMIN networkId = Some desiredAdmin"
    "loadRoleContracts art json networkId (de_market_name env) w = Inr c"
    "rc_manager c = the_manager env (rc_provider c)"
    "w_code w (rc_manager c) = Some (contract_of ''ACLManager'' [Address (rc_provider c)])"
  shows "handoverReport (de_accounts env) desiredAdmin
      (chainOf env (rc_provider c) (rc_registry c) (rc_gateway c) (rc_emission c) w) =
    Inr [(''PoolAdmin'', verdict rows ''PoolAdmin is multisig''),
      (''PoolAddressesProvider owner'', verdict rows ''PoolAddressesProvider owner''),
      (''WrappedTokenGateway owner'', verdict rows ''WrappedTokenGateway owner''),
      (''EmissionManager owner'', verdict rows ''EmissionManager controller contract Owner''),
      (''ACL Default Admin role revoked Deployer'', verdict rows ''ACL Manager  Default Admin role revoked Deployer''),
      (''ACL Default Admin role granted Multisig'', verdict rows ''ACL Manager Default Admin role granted Multisig'')]"
proof -
  from assms(1-3) obtain e where rows: "rows = roleRows env desiredAdmin e c (w_acl w (rc_manager c)) w @ emissionRow c w"
    by (auto simp: viewProtocolRoles_def rbind_eq_Inr split: option.splits)
  have "list_all (\<lambda>row. rr_role row = r \<longrightarrow> rr_assert row) (emissionRow c w)"
    if "r \<noteq> ''Emission manager role at Rewards Controller''" for r
    using that by (auto simp: emissionRow_def new_row_def split: option.splits list.splits arg.splits)
  then show ?thesis
    using assms(4,5)
    by (simp add: handoverReport_def readACL_def chainOf_def rows roleRows_def Let_def new_row_def verdict_def)
qed

end
