(* ===== verification/OtherTasks.thy ===== *)
theory OtherTasks
  imports ContractGetters ContractDeployments PeripheryDeploy OracleProps
begin

text \<open>
  The remaining tasks of \<open>src/tasks\<close>, on the chain of the deployment: owners, the fallback oracle, the
  registry, new reserves, the contracts for the user interface, the list of deployments and the verification
  of the tokens. Deployment files (\<open>getAddressFromJson\<close>), compiled artifacts, balances and the service
  that verifies a contract are parameters; messages are left out.
\<close>

section \<open>Owners\<close>

text \<open>
  \<open>transfer-ownership\<close>: without a valid \<open>--admin\<close> the owner is the multisig of the network, which may be
  undefined. The sender is the first signer.
\<close>

definition transferOwnershipTask :: "deploy_env \<Rightarrow> string \<Rightarrow> string option \<Rightarrow> string \<Rightarrow> unit script" where
  "transferOwnershipTask env address admin network =
     (let owner = (case admin of
            Some a \<Rightarrow> if isAddress (addresses (de_market env)) a then Some a else obj_get POOL_ADMIN network
          | None \<Rightarrow> obj_get POOL_ADMIN network)
      in abind (ask (\<lambda>w. Inr (w_owner w address))) (\<lambda>currentOwner.
         if Some currentOwner = owner then areturn (Inr ())
         else abind (areturn (getf owner)) (\<lambda>owner.
           transact (transferOwned (firstSigner env) address owner))))"

text \<open>\<open>transfer-faucet-ownership\<close>, again of the first signer.\<close>

definition transferFaucetOwnership :: "artifacts \<Rightarrow> deploy_env \<Rightarrow> string \<Rightarrow> unit script" where
  "transferFaucetOwnership art env owner =
     abind (ask (\<lambda>w. getFaucet art (w_saved w) (de_market_name env) None)) (\<lambda>faucet.
     transact (transferOwned (firstSigner env) (at_address faucet) owner))"

section \<open>The fallback oracle\<close>

text \<open>The result is what the task prints: the fallback oracle afterwards, and whether it is the wanted one.\<close>

definition setFallbackOracleTask ::
    "artifacts \<Rightarrow> (string \<Rightarrow> string result) \<Rightarrow> deploy_env \<Rightarrow> string option \<Rightarrow> (string \<times> bool) script" where
  "setFallbackOracleTask art getAddressFromJson env address =
     abind (areturn (if truthy address then getAddress (addresses (de_market env)) (the address) else Inr ZERO_ADDRESS))
       (\<lambda>newFallback.
     abind (areturn (getAddressFromJson (ORACLE_ID (de_market_name env)))) (\<lambda>oracleAddress.
     abind (ask (\<lambda>w. getRASAOracle art (w_saved w) (de_market_name env) (Some oracleAddress))) (\<lambda>orc.
     abind (transact (onOracle (poolAdmin (de_accounts env)) (at_address orc) (\<lambda>po. Inr (setFallbackOracle newFallback po)))) (\<lambda>_.
     abind (ask (\<lambda>w. Inr (fallbackOracle (w_oracle w (at_address orc))))) (\<lambda>updated.
     areturn (Inr (updated, updated = newFallback)))))))"

section \<open>The registry and new reserves\<close>

definition marketRegistryAdd :: "deploy_env \<Rightarrow> deploy_world deploy_api \<Rightarrow> market_configuration \<Rightarrow> market_configuration \<Rightarrow>
    string \<Rightarrow> string option \<Rightarrow> unit script" where
  "marketRegistryAdd env base ethereumMarket testMarket pool addressesProvider =
     abind (areturn (loadPoolConfig ethereumMarket testMarket pool)) (\<lambda>poolConfig.
     abind (ask (\<lambda>w. Inr (w_saved w))) (\<lambda>deployments.
     addMarketToRegistry (world_api base) (addresses (de_market env)) deployments (ProviderId poolConfig) addressesProvider))"

text \<open>
  \<open>add-reserves\<close>. An undefined treasury is the empty text, which is no address either. The oracle is set
  by the first signer.
\<close>

definition addReserves ::
    "artifacts \<Rightarrow> deploy_env \<Rightarrow> deploy_world deploy_api \<Rightarrow> (string \<Rightarrow> deploy_world \<Rightarrow> pool_tokens result) \<Rightarrow>
      market_configuration \<Rightarrow> unit script" where
  "addReserves art env base tokensOf poolConfig =
     (let menv = de_market env; market = de_market_name env; network = networkName menv;
          reserveAddresses = ask (\<lambda>w. getReserveAddresses menv poolConfig network (w_saved w)) in
      abind (ask (\<lambda>w. getIncentivesV2 (w_saved w) None)) (\<lambda>incentivesController.
      abind (ask (\<lambda>w. getProtocolDataProvider art (w_saved w) market None)) (\<lambda>dataProvider.
      abind (ask (\<lambda>w. getRASAOracle art (w_saved w) market None)) (\<lambda>rasaOracle.
      let treasuryAddress = (case getParamPerNetwork (ReserveFactorTreasuryAddress poolConfig) network of
            Some a \<Rightarrow> a | None \<Rightarrow> []) in
      abind reserveAddresses (\<lambda>reservesAddresses.
      abind (ask (\<lambda>w. Inr (w_saved w))) (\<lambda>deployments.
      abind (initReservesByHelper (world_api base) menv (\<lambda>_. Inr poolConfig) deployments
        (ReservesConfig poolConfig) reservesAddresses (poolAdmin (de_accounts env)) treasuryAddress
        (at_address incentivesController)) (\<lambda>_.
      abind (configureReservesByHelper (world_api base) market (de_deployer env) deployments
        (ReservesConfig poolConfig) reservesAddresses) (\<lambda>_.
      abind reserveAddresses (\<lambda>reserveAssets.
      abind (ask (\<lambda>w. getChainlinkOracles menv poolConfig network (w_saved w))) (\<lambda>oracleAggregators.
      abind (areturn (getPairsTokenAggregator reserveAssets oracleAggregators)) (\<lambda>(assets, sources).
      abind (transact (onOracle (firstSigner env) (at_address rasaOracle) (setAssetsSources assets sources))) (\<lambda>_.
      transact (\<lambda>w. rbind (savePoolTokens menv (\<lambda>asset. tokensOf asset w) reservesAddresses (w_saved w)) (\<lambda>s.
        Inr (w\<lparr>w_saved := s\<rparr>)))))))))))))))"

section \<open>The user interface\<close>

definition chainIdGuard :: "int option \<Rightarrow> unit script" where
  "chainIdGuard chainId =
     areturn (if chainId = None \<or> chainId = Some 0 then Inl (Thrown ''INVALID_CHAIN_ID'') else Inr ())"

definition deployUiIncentiveDataProviderTask :: "int option \<Rightarrow> deploy_env \<Rightarrow> unit script" where
  "deployUiIncentiveDataProviderTask chainId env =
     abind (chainIdGuard chainId) (\<lambda>_.
     abind (deploy env ''UiIncentiveDataProviderV3'' (contract_of ''UiIncentiveDataProviderV3'' [])) (\<lambda>_.
     areturn (Inr ())))"

definition deployUiPoolDataProviderTask :: "int option \<Rightarrow> string \<Rightarrow> deploy_env \<Rightarrow> market_configuration \<Rightarrow> unit script" where
  "deployUiPoolDataProviderTask chainId uuid env poolConfig =
     abind (chainIdGuard chainId) (\<lambda>_.
     abind (areturn (getOracleByAsset (de_market env) poolConfig (WrappedNativeTokenSymbol poolConfig))) (\<lambda>aggregator.
     abind (deployContract env uuid ''UiPoolDataProviderV3'' [Address aggregator] [] None) (\<lambda>_.
     areturn (Inr ()))))"

definition deployUiHelpersTask :: "int option \<Rightarrow> string \<Rightarrow> deploy_env \<Rightarrow> market_configuration \<Rightarrow> unit script" where
  "deployUiHelpersTask chainId uuid env poolConfig =
     abind (chainIdGuard chainId) (\<lambda>_.
     abind (deployUiIncentiveDataProviderTask chainId env) (\<lambda>_.
     deployUiPoolDataProviderTask chainId uuid env poolConfig))"

section \<open>Lists\<close>

text \<open>\<open>print-deployments\<close>: the two tables after the one of the balances.\<close>

definition getWalletBalances :: "(string \<Rightarrow> string result) \<Rightarrow> string obj \<Rightarrow> (string \<times> string \<times> string) list result" where
  "getWalletBalances balanceOf namedAccounts =
     mapM (\<lambda>(nam, account). rbind (balanceOf account) (\<lambda>b. Inr (nam, account, b))) namedAccounts"

definition printDeployments :: "string obj \<Rightarrow> string obj \<times> string obj" where
  "printDeployments allDeployments =
     (filter (\<lambda>(key, _). \<not> hasSubstring ''Mintable'' key) allDeployments,
      filter (\<lambda>(key, _). hasSubstring ''Mintable'' key) allDeployments)"

text \<open>\<open>verify-tokens\<close>: an exception of the verification is caught.\<close>

definition attempt :: "('w \<Rightarrow> 'w result) \<Rightarrow> ('w, unit) act" where
  "attempt f w = (case f w of Inl _ \<Rightarrow> (Inr (), w) | Inr w' \<Rightarrow> (Inr (), w'))"

definition verifyTokens ::
    "(string \<Rightarrow> string result) \<Rightarrow> string \<Rightarrow> ('w \<Rightarrow> (string \<times> string) list result) \<Rightarrow> (string \<Rightarrow> 'w \<Rightarrow> pool_tokens result) \<Rightarrow>
      (string \<Rightarrow> string list \<Rightarrow> 'w \<Rightarrow> 'w result) \<Rightarrow> ('w, unit) act" where
  "verifyTokens getAddressFromJson market getAllReservesTokens getReserveTokensAddresses verify =
     abind (areturn (getAddressFromJson (POOL_DATA_PROVIDER market))) (\<lambda>_.
     abind (areturn (getAddressFromJson (POOL_CONFIGURATOR_PROXY_ID market))) (\<lambda>poolConfigurator.
     abind (ask getAllReservesTokens) (\<lambda>reserves.
     forEach (\<lambda>(symb, tokenAddress).
       abind (ask (getReserveTokensAddresses tokenAddress)) (\<lambda>t.
       abind (attempt (verify (pt_RSTokenAddress t) [poolConfigurator])) (\<lambda>_.
       abind (attempt (verify (pt_stableDebtTokenAddress t) [poolConfigurator])) (\<lambda>_.
       attempt (verify (pt_variableDebtTokenAddress t) [poolConfigurator]))))) reserves)))"

section \<open>What the tasks achieve\<close>

text \<open>After \<open>transfer-ownership\<close> the contract has the wanted owner, whoever had it before.\<close>

theorem transfer_task_sets_owner:
  assumes "transferOwnershipTask env address admin network w = (Inr u, w')"
  shows "Some (w_owner w' address) =
    (if (\<exists>a. admin = Some a \<and> isAddress (addresses (de_market env)) a) then admin else obj_get POOL_ADMIN network)"
  using assms
  by (auto simp: transferOwnershipTask_def Let_def act_inv transferOwned_def rbind_eq_Inr transferOwnership_def
      simp del: act_steps split: if_splits option.splits)

lemma onOracle_setFallback:
  assumes "onOracle sender orc (\<lambda>po. Inr (setFallbackOracle fallback po)) w = Inr w'"
  shows "w_oracle w' orc = (w_oracle w orc)\<lparr>fallbackOracle := fallback\<rparr>"
  using assms by (auto simp: onOracle_def Let_def rbind_eq_Inr setFallbackOracle_def)

text \<open>
  After \<open>set-fallback-oracle\<close> the table says that the oracle is set, and it prices every asset that has no
  source of its own and is not the base currency.
\<close>

theorem fallback_task_prices_the_rest:
  assumes "setFallbackOracleTask art json env address w = (Inr (updated, same), w')"
  shows "same" "\<exists>orc. fallbackOracle (w_oracle w' orc) = updated \<and>
    (\<forall>asset. asset \<noteq> BASE_CURRENCY (w_oracle w orc) \<and> assetsSources (w_oracle w orc) asset = ZERO_ADDRESS \<longrightarrow>
      getAssetPrice latestAnswer priceAt (w_oracle w' orc) asset = priceAt updated asset)"
proof -
  from assms obtain new orc where c:
      "onOracle (poolAdmin (de_accounts env)) orc (\<lambda>po. Inr (setFallbackOracle new po)) w = Inr w'"
      "updated = fallbackOracle (w_oracle w' orc)" "same = (updated = new)"
    by (auto simp: setFallbackOracleTask_def act_inv simp del: act_steps)
  note po = onOracle_setFallback[OF c(1)]
  show "same" using c(2,3) po by simp
  have "w_oracle w' orc = (w_oracle w orc)\<lparr>fallbackOracle := updated\<rparr>" using po c(2) by simp
  then show "\<exists>orc. fallbackOracle (w_oracle w' orc) = updated \<and>
    (\<forall>asset. asset \<noteq> BASE_CURRENCY (w_oracle w orc) \<and> assetsSources (w_oracle w orc) asset = ZERO_ADDRESS \<longrightarrow>
      getAssetPrice latestAnswer priceAt (w_oracle w' orc) asset = priceAt updated asset)"
    by (intro exI[of _ orc]) (simp add: getAssetPrice_def Let_def)
qed

text \<open>Failures of the verification never stop the task.\<close>

lemma attempt_Inr [simp]: "fst (attempt f w) = Inr ()"
  by (simp add: attempt_def split: sum.split)

lemma abind_attempt [simp]: "abind (attempt f) g w = g () (snd (attempt f w))"
  by (simp add: abind_def attempt_def split: sum.split)

lemma forEach_Inr:
  assumes "\<And>x w. x \<in> set xs \<Longrightarrow> fst (body x w) = Inr ()"
  shows "fst (forEach body xs w) = Inr ()"
  using assms
proof (induction xs arbitrary: w)
  case (Cons x xs)
  have "body x w = (Inr (), snd (body x w))" using Cons.prems by (simp add: prod_eq_iff)
  then show ?case using Cons by (simp add: forEach_def abind_at)
qed (simp add: forEach_def areturn_def)

theorem verification_never_fails:
  assumes "\<And>nam. \<exists>a. json nam = Inr a" "\<And>w. \<exists>rs. reserves w = Inr rs" "\<And>asset w. \<exists>t. tokens asset w = Inr t"
  shows "fst (verifyTokens json market reserves tokens verify w) = Inr ()"
proof -
  obtain a b rs where s: "json (POOL_DATA_PROVIDER market) = Inr a" "json (POOL_CONFIGURATOR_PROXY_ID market) = Inr b"
      "reserves w = Inr rs"
    using assms(1,2) by metis
  have "fst (abind (ask (tokens asset)) (\<lambda>t. abind (attempt (verify (pt_RSTokenAddress t) [b])) (\<lambda>_.
      abind (attempt (verify (pt_stableDebtTokenAddress t) [b])) (\<lambda>_. attempt (verify (pt_variableDebtTokenAddress t) [b])))) v) =
      Inr ()" for asset v
    using assms(3)[of asset v] by (elim exE) simp
  then show ?thesis by (auto simp: verifyTokens_def s intro!: forEach_Inr)
qed

text \<open>
  C36: The task that adds reserves prices them. When it goes through on a market whose reserves and oracles
  are those of the configuration, the stored price oracle asks for every reserve asset, but for reserves under
  the symbols ETH and USD, which are left out, the aggregator that is configured for its symbol, and the first
  signer is pool administrator or lists assets. The reserves and aggregators are taken to be the same
  whatever deployments are saved, no two reserves share an address, and a price oracle is stored.
\<close>

theorem add_reserves_prices_market:
  assumes "addReserves art env base tokensOf poolConfig w = (Inr u, w')"
    "\<And>saved. getReserveAddresses (de_market env) poolConfig (networkName (de_market env)) saved = Inr reserves"
    "\<And>saved. getChainlinkOracles (de_market env) poolConfig (networkName (de_market env)) saved = Inr aggregators"
    "distinct (map snd reserves)" "obj_get (w_saved w) (ORACLE_ID (de_market_name env)) = Some orc" "orc \<noteq> []"
  shows "(\<forall>(symb, a) \<in> set reserves. symb \<noteq> ''ETH'' \<and> symb \<noteq> ''USD'' \<longrightarrow>
      obj_get aggregators symb = Some (assetsSources (w_oracle w' orc) a)) \<and>
    onlyAssetListingOrPoolAdmins (firstSigner env)
      (w_acl w' (providerAddress (po_provider (w_oracle w' orc)) ''ACL_MANAGER'' w')) = Inr ()"
proof -
  from assms(1) obtain c v assets sources v' s where run:
      "getRASAOracle art (w_saved w) (de_market_name env) None = Inr c"
      "getPairsTokenAggregator reserves aggregators = Inr (assets, sources)"
      "onOracle (firstSigner env) (at_address c) (setAssetsSources assets sources) v = Inr v'" "w' = v'\<lparr>w_saved := s\<rparr>"
    by (auto simp: addReserves_def Let_def act_inv assms(2,3) rbind_eq_Inr simp del: act_steps split: prod.splits)
  from run(1) have orc: "at_address c = orc"
    using assms(5,6)
    by (auto simp: getRASAOracle_def getStored_def getContract_def addressOr_def truthy_def rbind_eq_Inr deployments_get_def)
  note pairs = pairs_Inr[OF run(2) assms(4)]
  from run(3) obtain po where po: "setAssetsSources assets sources (w_oracle v (at_address c)) = Inr po"
      "v' = v\<lparr>w_oracle := (w_oracle v)(at_address c := po)\<rparr>"
      "onlyAssetListingOrPoolAdmins (firstSigner env)
        (w_acl v (providerAddress (po_provider (w_oracle v (at_address c))) ''ACL_MANAGER'' v)) = Inr ()"
    by (auto simp: onOracle_def Let_def rbind_eq_Inr)
  note set = setAssetsSources_Inr[OF po(1) pairs(1)]
  show ?thesis
    using pairs(2) set po by (fastforce simp: run(4) orc providerAddress_def)
qed

end
