(* ===== verification/TestSuite.thy ===== *)
theory TestSuite
  imports HelperProps
begin

text \<open>
  \<open>test-suites/helpers/make-suite.ts\<close>: the environment of the test suites, and the snapshots that give each
  suite the same chain. The node, the data provider and \<open>mocha\<close> are parameters or as documented: a suite
  runs its hook before, its tests and its hook after, the latter also when something failed.
\<close>

section \<open>The environment\<close>

record test_env =
  te_deployer :: string
  te_poolAdmin :: string
  te_emergencyAdmin :: "string option"
  te_riskAdmin :: "string option"
  te_users :: "string list"
  te_pool :: contract_at
  te_configurator :: contract_at
  te_addressesProvider :: contract_at
  te_registry :: contract_at
  te_aclManager :: contract_at
  te_oracle :: contract_at
  te_rasaOracle :: contract_at
  te_helpersContract :: contract_at
  te_RSRUSD :: contract_at
  te_variableDebtRUSD :: contract_at
  te_stableDebtRUSD :: contract_at
  te_RSEurs :: contract_at
  te_RSWETH :: contract_at
  te_RSCgo :: contract_at
  te_rusd :: contract_at
  te_cgo :: contract_at
  te_eurs :: contract_at
  te_weth :: contract_at

text \<open>What the data provider says: symbols with addresses, and the tokens of an asset.\<close>

record data_provider =
  dp_allRSTokens :: "string \<Rightarrow> deploy_world \<Rightarrow> (string \<times> string) list result"
  dp_allReservesTokens :: "string \<Rightarrow> deploy_world \<Rightarrow> (string \<times> string) list result"
  dp_reserveTokens :: "string \<Rightarrow> string \<Rightarrow> deploy_world \<Rightarrow> pool_tokens result"

definition findToken :: "(string \<Rightarrow> bool) \<Rightarrow> (string \<times> string) list \<Rightarrow> string option" where
  "findToken p tokens = map_option snd (find (p \<circ> fst) tokens)"

text \<open>The contracts of the market, in the order of the code.\<close>

record market_contracts =
  mc_pool :: contract_at
  mc_configurator :: contract_at
  mc_addressesProvider :: contract_at
  mc_registry :: contract_at
  mc_aclManager :: contract_at
  mc_oracle :: contract_at
  mc_rasaOracle :: contract_at
  mc_helpersContract :: contract_at

definition loadMarket :: "artifacts \<Rightarrow> string \<Rightarrow> string obj \<Rightarrow> market_contracts result" where
  "loadMarket art market saved =
     rbind (ContractGetters.getPool art saved market None) (\<lambda>pool.
     rbind (getPoolConfiguratorProxy art saved market None) (\<lambda>configurator.
     rbind (getPoolAddressesProvider art saved market None) (\<lambda>provider.
     rbind (getPoolAddressesProviderRegistry art saved None) (\<lambda>registry.
     rbind (ContractGetters.getACLManager art saved market None) (\<lambda>aclManager.
     rbind (getFallbackOracle art saved market None) (\<lambda>oracl.
     rbind (getRASAOracle art saved market None) (\<lambda>rasaOracle.
     rbind (getProtocolDataProvider art saved market None) (\<lambda>helpers.
     Inr \<lparr>mc_pool = pool, mc_configurator = configurator, mc_addressesProvider = provider, mc_registry = registry,
       mc_aclManager = aclManager, mc_oracle = oracl, mc_rasaOracle = rasaOracle, mc_helpersContract = helpers\<rparr>))))))))"

text \<open>The two administrators, who are undefined when the node has too few accounts.\<close>

definition setupAdmins :: "string \<Rightarrow> string \<Rightarrow> string option \<Rightarrow> string option \<Rightarrow> unit script" where
  "setupAdmins sender manager risk emergency =
     abind (areturn (getf risk)) (\<lambda>risk.
     abind (transact (onManager manager (AccessControl.addRiskAdmin sender risk))) (\<lambda>_.
     abind (areturn (getf emergency)) (\<lambda>emergency.
     transact (onManager manager (AccessControl.addEmergencyAdmin sender emergency)))))"

text \<open>
  \<open>signers\<close> are the accounts of the node, of which the first deploys, and \<open>users\<close> those that earlier calls
  pushed. An exception ends the run of the tests; what the environment holds then is left out.
\<close>

definition initializeMakeSuite ::
    "artifacts \<Rightarrow> data_provider \<Rightarrow> string \<Rightarrow> string list \<Rightarrow> string list \<Rightarrow> test_env script" where
  "initializeMakeSuite art dp market signers users =
     (case signers of
        [] \<Rightarrow> areturn (Inl TypeError)
      | first # rest \<Rightarrow>
        (let users = users @ rest;
             nth = (\<lambda>k. if k < length users then Some (users ! k) else None) in
        abind (ask (\<lambda>w. loadMarket art market (w_saved w))) (\<lambda>c.
        let helpers = at_address (mc_helpersContract c) in
        abind (ask (dp_allRSTokens dp helpers)) (\<lambda>allTokens.
        let rsOf = (\<lambda>symb. findToken (hasSubstring symb) allTokens) in
        abind (ask (dp_allReservesTokens dp helpers)) (\<lambda>reservesTokens.
        let assetOf = (\<lambda>symb. findToken (\<lambda>s. s = symb) reservesTokens) in
        abind (ask (dp_reserveTokens dp helpers (case assetOf ''RUSD'' of Some a \<Rightarrow> a | None \<Rightarrow> []))) (\<lambda>debtRUSD.
        if \<not> truthy (rsOf ''RUSD'') \<or> \<not> truthy (rsOf ''WETH'') then areturn (Inl (Thrown ''Missing mandatory RSTokens''))
        else if \<not> list_all (\<lambda>symb. truthy (assetOf symb)) [''RUSD'', ''EURS'', ''CGO'', ''WETH'']
        then areturn (Inl (Thrown ''Missing mandatory tokens''))
        else
          (let get = (\<lambda>contract a. ask (\<lambda>w. getContract art (w_saved w) contract a)) in
          abind (get ''RSToken'' (rsOf ''RUSD'')) (\<lambda>RSRUSD.
          abind (get ''VariableDebtToken'' (Some (pt_variableDebtTokenAddress debtRUSD))) (\<lambda>variableDebtRUSD.
          abind (get ''StableDebtToken'' (Some (pt_stableDebtTokenAddress debtRUSD))) (\<lambda>stableDebtRUSD.
          abind (get ''RSToken'' (rsOf ''EURS'')) (\<lambda>RSEurs.
          abind (get ''RSToken'' (rsOf ''WETH'')) (\<lambda>RSWETH.
          abind (get ''RSToken'' (rsOf ''CGO'')) (\<lambda>RSCgo.
          abind (get ''MintableERC20'' (assetOf ''RUSD'')) (\<lambda>rusd.
          abind (get ''MintableERC20'' (assetOf ''CGO'')) (\<lambda>cgo.
          abind (get ''MintableERC20'' (assetOf ''EURS'')) (\<lambda>eurs.
          abind (get ''WETH9Mocked'' (assetOf ''WETH'')) (\<lambda>weth.
          abind (setupAdmins first (at_address (mc_aclManager c)) (nth 2) (nth 1)) (\<lambda>_.
          areturn (Inr \<lparr>te_deployer = first, te_poolAdmin = first, te_emergencyAdmin = nth 1, te_riskAdmin = nth 2,
            te_users = users, te_pool = mc_pool c, te_configurator = mc_configurator c,
            te_addressesProvider = mc_addressesProvider c, te_registry = mc_registry c, te_aclManager = mc_aclManager c,
            te_oracle = mc_oracle c, te_rasaOracle = mc_rasaOracle c, te_helpersContract = mc_helpersContract c,
            te_RSRUSD = RSRUSD, te_variableDebtRUSD = variableDebtRUSD, te_stableDebtRUSD = stableDebtRUSD,
            te_RSEurs = RSEurs, te_RSWETH = RSWETH, te_RSCgo = RSCgo, te_rusd = rusd, te_cgo = cgo, te_eurs = eurs,
            te_weth = weth\<rparr>)))))))))))))))))))"

section \<open>Snapshots\<close>

record 'n test_node =
  usingTenderly :: bool
  evmSnapshot :: "('n, string) act"
  evmRevert :: "string \<Rightarrow> ('n, bool) act"
  tenderlyGetHead :: "('n, string option) act"
  tenderlySetHead :: "string \<Rightarrow> ('n, unit) act"

text \<open>The node and the variable of the module that holds the last snapshot.\<close>

record 'n suite_state =
  HardhatSnapshotId :: string
  node :: 'n

definition initialSnapshotId :: string where
  "initialSnapshotId = ''0x1''"

definition onNode :: "('n, 'a) act \<Rightarrow> ('n suite_state, 'a) act" where
  "onNode m s = (case m (node s) of (r, n) \<Rightarrow> (r, s\<lparr>node := n\<rparr>))"

definition setHardhatSnapshotId :: "string \<Rightarrow> ('n suite_state, unit) act" where
  "setHardhatSnapshotId i s = (Inr (), s\<lparr>HardhatSnapshotId := i\<rparr>)"

definition setSnapshot :: "'n test_node \<Rightarrow> ('n suite_state, unit) act" where
  "setSnapshot api =
     (if usingTenderly api then
        abind (onNode (tenderlyGetHead api)) (\<lambda>head.
        setHardhatSnapshotId (if truthy head then the head else ''0x1''))
      else abind (onNode (evmSnapshot api)) setHardhatSnapshotId)"

text \<open>What \<open>evm_revert\<close> answers is ignored.\<close>

definition revertHead :: "'n test_node \<Rightarrow> ('n suite_state, unit) act" where
  "revertHead api s =
     (if usingTenderly api then onNode (tenderlySetHead api (HardhatSnapshotId s)) s
      else abind (onNode (evmRevert api (HardhatSnapshotId s))) (\<lambda>_. areturn (Inr ())) s)"

section \<open>Suites\<close>

text \<open>A test works on the node; the variable with the snapshot is private to the module.\<close>

fun runTests :: "('n, unit) act list \<Rightarrow> 'n suite_state \<Rightarrow> unit result list \<times> 'n suite_state" where
  "runTests [] s = ([], s)"
| "runTests (t # ts) s = (case onNode t s of (r, s) \<Rightarrow> case runTests ts s of (rs, s) \<Rightarrow> (r # rs, s))"

definition makeSuite ::
    "'n test_node \<Rightarrow> ('n, unit) act list \<Rightarrow> 'n suite_state \<Rightarrow> unit result list \<times> 'n suite_state" where
  "makeSuite api tests s =
     (case setSnapshot api s of
        (Inl e, s) \<Rightarrow> ([Inl e], snd (revertHead api s))
      | (Inr _, s) \<Rightarrow> (case runTests tests s of (rs, s) \<Rightarrow> (rs, snd (revertHead api s))))"

definition runSuites :: "'n test_node \<Rightarrow> ('n, unit) act list list \<Rightarrow> 'n suite_state \<Rightarrow> 'n suite_state" where
  "runSuites api suites s = foldl (\<lambda>s tests. snd (makeSuite api tests s)) s suites"

section \<open>What the node promises\<close>

text \<open>
  The documented behaviour of snapshots: taking one does not change the chain, and going back to one that
  is still known gives the chain it was taken on. \<open>savedChain n i\<close> is the chain of a known snapshot.
\<close>

definition snapshot_laws :: "'n test_node \<Rightarrow> ('n \<Rightarrow> 'c) \<Rightarrow> ('n \<Rightarrow> string \<Rightarrow> 'c option) \<Rightarrow> bool" where
  "snapshot_laws api chain savedChain \<longleftrightarrow>
     (if usingTenderly api then
        (\<forall>n. \<exists>i n'. tenderlyGetHead api n = (Inr (Some i), n') \<and> i \<noteq> [] \<and> chain n' = chain n \<and>
          savedChain n' i = Some (chain n)) \<and>
        (\<forall>n i c. savedChain n i = Some c \<longrightarrow> chain (snd (tenderlySetHead api i n)) = c)
      else
        (\<forall>n. \<exists>i n'. evmSnapshot api n = (Inr i, n') \<and> chain n' = chain n \<and> savedChain n' i = Some (chain n)) \<and>
        (\<forall>n i c. savedChain n i = Some c \<longrightarrow> chain (snd (evmRevert api i n)) = c))"

text \<open>A test may take snapshots and go back to them, but keeps the ones that were there before.\<close>

definition keeps_snapshots :: "('n \<Rightarrow> string \<Rightarrow> 'c option) \<Rightarrow> ('n, unit) act \<Rightarrow> bool" where
  "keeps_snapshots savedChain t \<longleftrightarrow>
     (\<forall>n i c. savedChain n i = Some c \<longrightarrow> savedChain (snd (t n)) i = Some c)"

lemma setSnapshot_law:
  assumes "snapshot_laws api chain savedChain"
  shows "\<exists>s'. setSnapshot api s = (Inr (), s') \<and> chain (node s') = chain (node s) \<and>
    savedChain (node s') (HardhatSnapshotId s') = Some (chain (node s))"
  using assms
  by (cases "usingTenderly api"; fastforce simp: snapshot_laws_def setSnapshot_def abind_def onNode_def setHardhatSnapshotId_def
      truthy_def split: prod.splits sum.splits dest: spec[of _ "node s"])

lemma revertHead_law:
  assumes "snapshot_laws api chain savedChain" "savedChain (node s) (HardhatSnapshotId s) = Some c"
  shows "chain (node (snd (revertHead api s))) = c"
  using assms
  by (auto simp: snapshot_laws_def revertHead_def abind_def onNode_def areturn_def split: prod.splits sum.splits if_splits)
    (metis snd_conv)+

lemma runTests_keeps:
  assumes "list_all (keeps_snapshots savedChain) tests" "savedChain (node s) i = Some c"
  shows "savedChain (node (snd (runTests tests s))) i = Some c"
    "HardhatSnapshotId (snd (runTests tests s)) = HardhatSnapshotId s"
  using assms
  by (induction tests s rule: runTests.induct)
    (force simp: keeps_snapshots_def onNode_def split: prod.splits)+

lemma makeSuite_restores:
  assumes "snapshot_laws api chain savedChain" "list_all (keeps_snapshots savedChain) tests"
  shows "chain (node (snd (makeSuite api tests s))) = chain (node s)"
proof -
  obtain s' where s': "setSnapshot api s = (Inr (), s')" "savedChain (node s') (HardhatSnapshotId s') = Some (chain (node s))"
    using setSnapshot_law[OF assms(1)] by metis
  note k = runTests_keeps[OF assms(2) s'(2)]
  have "chain (node (snd (revertHead api (snd (runTests tests s'))))) = chain (node s)"
    by (rule revertHead_law[OF assms(1)]) (simp add: k)
  then show ?thesis by (cases "runTests tests s'") (simp add: makeSuite_def s'(1))
qed

lemma runSuites_restores:
  assumes "snapshot_laws api chain savedChain" "list_all (list_all (keeps_snapshots savedChain)) suites"
  shows "chain (node (runSuites api suites s)) = chain (node s)"
  using assms(2)
  by (induction suites arbitrary: s) (simp_all add: runSuites_def makeSuite_restores[OF assms(1)])

section \<open>The administrators of the tests\<close>

lemma setupAdmins_Inr:
  assumes "setupAdmins sender manager risk emergency w = (Inr u, w')"
  shows "\<exists>r. risk = Some r \<and> isRiskAdmin r (w_acl w' manager)"
    "\<exists>a. emergency = Some a \<and> isEmergencyAdmin a (w_acl w' manager)"
  using assms
  by (auto simp: setupAdmins_def act_inv onManager_def rbind_eq_Inr AccessControl.addRiskAdmin_def addEmergencyAdmin_def
      grantRole_def isRiskAdmin_def isEmergencyAdmin_def hasRole_def simp del: act_steps)

lemma initializeMakeSuite_Inr:
  assumes "initializeMakeSuite art dp market signers users w = (Inr e, w')"
  shows "te_users e = users @ tl signers" "te_deployer e = hd signers" "te_poolAdmin e = hd signers"
    "\<exists>r. te_riskAdmin e = Some r \<and> isRiskAdmin r (w_acl w' (at_address (te_aclManager e)))"
    "\<exists>a. te_emergencyAdmin e = Some a \<and> isEmergencyAdmin a (w_acl w' (at_address (te_aclManager e)))"
proof -
  let ?nth = "\<lambda>k. if k < length (users @ tl signers) then Some ((users @ tl signers) ! k) else None"
  have "\<exists>u v. te_users e = users @ tl signers \<and> te_deployer e = hd signers \<and> te_poolAdmin e = hd signers \<and>
      te_riskAdmin e = ?nth 2 \<and> te_emergencyAdmin e = ?nth 1 \<and>
      setupAdmins (hd signers) (at_address (te_aclManager e)) (te_riskAdmin e) (te_emergencyAdmin e) v = (Inr u, w')"
    using assms
    by (auto simp: initializeMakeSuite_def Let_def act_inv simp del: act_steps split: list.splits if_splits)
  then obtain u v where s: "te_users e = users @ tl signers" "te_deployer e = hd signers" "te_poolAdmin e = hd signers"
      "setupAdmins (hd signers) (at_address (te_aclManager e)) (te_riskAdmin e) (te_emergencyAdmin e) v = (Inr u, w')"
    by blast
  show "te_users e = users @ tl signers" "te_deployer e = hd signers" "te_poolAdmin e = hd signers" by (fact s)+
  show "\<exists>r. te_riskAdmin e = Some r \<and> isRiskAdmin r (w_acl w' (at_address (te_aclManager e)))"
    "\<exists>a. te_emergencyAdmin e = Some a \<and> isEmergencyAdmin a (w_acl w' (at_address (te_aclManager e)))"
    by (rule setupAdmins_Inr[OF s(4)])+
qed

text \<open>
  C34: Every suite of the tests starts on the chain that the setup left. On a node that keeps the promises of
  snapshots, with tests that keep the snapshots that were there before, the chain before each suite and after
  the last one is the one after \<open>initializeMakeSuite\<close>: the risk administrator and the emergency
  administrator of the environment have their roles there, whatever the tests before did.
\<close>

theorem suites_start_after_setup:
  assumes "initializeMakeSuite art dp market signers [] w = (Inr e, w')"
    "snapshot_laws api chain savedChain" "list_all (list_all (keeps_snapshots savedChain)) suites"
    "chain (node s) = w'" "k \<le> length suites"
  shows "chain (node (runSuites api (take k suites) s)) = w' \<and>
    (\<exists>r a. te_riskAdmin e = Some r \<and> te_emergencyAdmin e = Some a \<and>
      isRiskAdmin r (w_acl (chain (node (runSuites api (take k suites) s))) (at_address (te_aclManager e))) \<and>
      isEmergencyAdmin a (w_acl (chain (node (runSuites api (take k suites) s))) (at_address (te_aclManager e))))"
proof -
  have "list_all (list_all (keeps_snapshots savedChain)) (take k suites)"
    using assms(3) by (meson list_all_iff in_set_takeD)
  from runSuites_restores[OF assms(2) this, of s] have "chain (node (runSuites api (take k suites) s)) = w'"
    by (simp add: assms(4))
  with initializeMakeSuite_Inr(4,5)[OF assms(1)] show ?thesis by auto
qed

end
