(* ===== verification/NetworkConfig.thy ===== *)
theory NetworkConfig
  imports MarketDeploy EthereumMarket
begin

text \<open>
  The networks of \<open>hardhat.config.ts\<close> and \<open>helpers/hardhat-config-helpers.ts\<close>, and what their flags mean
  for the scripts. The variables of the environment and the files of a folder are parameters.
\<close>

section \<open>Networks\<close>

record process_env =
  pe_INFURA_KEY :: "string option"
  pe_FORK :: "string option"
  pe_FORK_BLOCK_NUMBER :: "int option"
  pe_MNEMONIC :: "string option"

text \<open>\<open>x || ''\<close> for a variable of the environment.\<close>

definition or_empty :: "string option \<Rightarrow> string" where
  "or_empty x = (case x of Some s \<Rightarrow> s | None \<Rightarrow> [])"

definition DEFAULT_BLOCK_GAS_LIMIT :: int where
  "DEFAULT_BLOCK_GAS_LIMIT = 12450000"

definition MNEMONIC_PATH :: string where
  "MNEMONIC_PATH = ''m/44'' @ [CHR 0x27] @ ''/60'' @ [CHR 0x27] @ ''/1'' @ [CHR 0x27] @ ''/0''"

definition NETWORKS_RPC_URL :: "process_env \<Rightarrow> string obj" where
  "NETWORKS_RPC_URL pe = [(''coverage'', ''http://localhost:8555''), (''hardhat'', ''http://localhost:8545''),
     (''sepolia'', ''https://sepolia.infura.io/v3/'' @ or_empty (pe_INFURA_KEY pe)), (''lisk'', ''https://rpc.api.lisk.com/'')]"

definition LIVE_NETWORKS :: "bool obj" where
  "LIVE_NETWORKS = [(''lisk'', True)]"

definition MNEMONICS :: "process_env \<Rightarrow> string option obj" where
  "MNEMONICS pe = [(''lisk'', pe_MNEMONIC pe)]"

text \<open>The fork of the local node: its source and, unless it is 0, its block.\<close>

definition buildForkConfig :: "process_env \<Rightarrow> (string \<times> int option) option" where
  "buildForkConfig pe =
     (let fork = or_empty (pe_FORK pe) in
      if fork = [] then None
      else case obj_get (NETWORKS_RPC_URL pe) fork of
        None \<Rightarrow> None
      | Some url \<Rightarrow> Some (url, if pe_FORK_BLOCK_NUMBER pe = Some 0 then None else pe_FORK_BLOCK_NUMBER pe))"

record network_accounts =
  na_mnemonic :: string
  na_path :: string
  na_initialIndex :: int
  na_count :: int

record network_config =
  nc_url :: string
  nc_blockGasLimit :: int
  nc_chainId :: "int option"
  nc_accounts :: "network_accounts option"
  nc_live :: bool

definition getCommonNetworkConfig :: "process_env \<Rightarrow> string \<Rightarrow> int option \<Rightarrow> network_config" where
  "getCommonNetworkConfig pe network chain =
     (let own = (case obj_get (MNEMONICS pe) network of Some (Some m) \<Rightarrow> m | _ \<Rightarrow> []);
          mnemonic = (if own \<noteq> [] then own else or_empty (pe_MNEMONIC pe))
      in \<lparr>nc_url = (case obj_get (NETWORKS_RPC_URL pe) network of Some url \<Rightarrow> url | None \<Rightarrow> []),
          nc_blockGasLimit = DEFAULT_BLOCK_GAS_LIMIT, nc_chainId = chain,
          nc_accounts = (if mnemonic \<noteq> [] then Some \<lparr>na_mnemonic = mnemonic, na_path = MNEMONIC_PATH,
            na_initialIndex = 0, na_count = 10\<rparr> else None),
          nc_live = (obj_get LIVE_NETWORKS ''lisk'' = Some True)\<rparr>)"

text \<open>Of the networks of \<open>hardhat.config.ts\<close> the flag that tells the live ones, which three do not set.\<close>

definition hardhatNetworks :: "process_env \<Rightarrow> bool obj" where
  "hardhatNetworks pe = [(''local'', False), (''hardhat'', False), (''ganache'', False),
     (''lisk'', nc_live (getCommonNetworkConfig pe ''lisk'' (Some 1135))),
     (''sepolia'', nc_live (getCommonNetworkConfig pe ''sepolia'' (Some 11155111)))]"

text \<open>\<open>loadTasks\<close>: the modules that are loaded from some folders.\<close>

definition loadTasks :: "(string \<Rightarrow> string) \<Rightarrow> (string \<Rightarrow> string list) \<Rightarrow> string list \<Rightarrow> string list" where
  "loadTasks tasksPath readdir taskFolders =
     concat (map (\<lambda>folder. map (\<lambda>task. tasksPath folder @ ''/'' @ task)
       (filter (\<lambda>pth. hasSubstring ''.ts'' pth \<or> hasSubstring ''.js'' pth) (readdir (tasksPath folder)))) taskFolders)"

section \<open>Deploying on a test network\<close>

text \<open>
  C35: The script that registers a market refuses to deploy the Ethereum market on Sepolia, the target of a
  script of the package: the configuration counts Sepolia as a live network, so that the reserves are looked
  up among the live addresses, where the market has none for Sepolia. It throws before anything is sent,
  whatever is on the chain; on Lisk the same check passes.
\<close>

theorem sepolia_deployment_always_fails:
  assumes "networks (de_market env) = hardhatNetworks pe"
  shows "(networkName (de_market env) = ''sepolia'' \<longrightarrow>
      setupAddressesProvider env base EthereumMarket w = (Inl (Thrown
        ''[Deployment][Error] Mismatch between Config.ReservesConfig and Config.ReserveAssets token symbols''), w)) \<and>
    (networkName (de_market env) = ''lisk'' \<longrightarrow>
      (\<exists>reserves. getReserveAddresses (de_market env) EthereumMarket ''lisk'' (w_saved w) = Inr reserves \<and>
        containsSameMembers (obj_keys (ReservesConfig EthereumMarket)) (obj_keys reserves)))"
proof (intro conjI impI)
  have live: "isLive (de_market env) ''sepolia'' = Inr True" "isLive (de_market env) ''lisk'' = Inr True"
    by (simp_all add: isLive_def assms hardhatNetworks_def getCommonNetworkConfig_def Let_def LIVE_NETWORKS_def obj_get_def)
  have market: "TestnetMarket EthereumMarket = False" "getParamPerNetwork (ReserveAssets EthereumMarket) ''sepolia'' = None"
    by code_simp+
  assume "networkName (de_market env) = ''sepolia''"
  moreover have "\<not> containsSameMembers (obj_keys (ReservesConfig EthereumMarket)) []" by code_simp
  moreover have "getReserveAddresses (de_market env) EthereumMarket ''sepolia'' saved = Inr []" for saved
    by (simp add: getReserveAddresses_def live market)
  ultimately show "setupAddressesProvider env base EthereumMarket w = (Inl (Thrown
      ''[Deployment][Error] Mismatch between Config.ReservesConfig and Config.ReserveAssets token symbols''), w)"
    by (simp add: setupAddressesProvider_def Let_def checkReserves_def obj_keys_def)
next
  have live: "isLive (de_market env) ''lisk'' = Inr True"
    by (simp add: isLive_def assms hardhatNetworks_def getCommonNetworkConfig_def Let_def LIVE_NETWORKS_def obj_get_def)
  have market: "TestnetMarket EthereumMarket = False" by code_simp
  have "case getParamPerNetwork (ReserveAssets EthereumMarket) ''lisk'' of
      Some reserves \<Rightarrow> containsSameMembers (obj_keys (ReservesConfig EthereumMarket)) (obj_keys reserves) | None \<Rightarrow> False"
    by code_simp
  then show "\<exists>reserves. getReserveAddresses (de_market env) EthereumMarket ''lisk'' (w_saved w) = Inr reserves \<and>
      containsSameMembers (obj_keys (ReservesConfig EthereumMarket)) (obj_keys reserves)"
    by (auto simp: getReserveAddresses_def live market split: option.splits)
qed

end
