(* ===== verification/HelperRun.thy ===== *)
theory HelperRun
  imports DeployRun HelperProps OracleProps RoleView OtherTasks TestSuite NetworkConfig
begin

text \<open>The properties of the helpers, of the price oracle and of the table of roles on concrete chains.\<close>

section \<open>Deployers and getters\<close>

lemma run_env_names_differ:
  "nam \<noteq> nam' \<Longrightarrow> de_addressOf run_env nam c \<noteq> de_addressOf run_env nam' c'"
  by (simp add: run_env_def)

theorem six_deployers_always_throw_witness:
  "deployPoolAddressesProvider run_env ''uuid'' ''market'' blank_world = (Inl TypeError, blank_world) \<and>
   deployWETHMocked run_env ''uuid'' blank_world = (Inl TypeError, blank_world)"
proof -
  have "w_code blank_world (de_addressOf run_env (contract @ ''-'' @ ''uuid'') c) = None" for contract c
    by (simp add: blank_world_def)
  then show ?thesis using six_deployers_always_throw[of blank_world run_env "''uuid''"] by blast
qed

theorem deployers_build_the_implementations_witness:
  "\<exists>a v impl. deployPoolConfigurator run_env ''uuid'' provider_world = (Inr a, v) \<and>
    obj_get (w_saved (snd (poolConfigurator run_env provider_world))) POOL_CONFIGURATOR_IMPL_ID = Some impl \<and>
    w_code v a = w_code (snd (poolConfigurator run_env provider_world)) impl"
proof -
  have "fst (deployPoolConfigurator run_env ''uuid'' provider_world) = Inr ''0xPoolConfigurator-uuid''" by code_simp
  then have 1: "deployPoolConfigurator run_env ''uuid'' provider_world =
      (Inr ''0xPoolConfigurator-uuid'', snd (deployPoolConfigurator run_env ''uuid'' provider_world))"
    by (metis prod.collapse)
  have "fst (poolConfigurator run_env provider_world) = Inr ()" by code_simp
  then have "poolConfigurator run_env provider_world = (Inr (), snd (poolConfigurator run_env provider_world))"
    by (metis prod.collapse)
  with deployers_build_the_implementations[of run_env, OF run_env_names_differ] 1 show ?thesis by blast
qed

theorem getters_find_the_market_witness:
  "getPoolAddressesProvider (\<lambda>_. Inr ()) (w_saved (snd (initPool run_env EthereumMarket administered))) (de_market_name run_env) None =
     Inr \<lparr>at_artifact = ''PoolAddressesProvider'', at_address = ''0xprovider''\<rparr>"
proof -
  let ?w = "snd (initPool run_env EthereumMarket administered)"
  have "fst (initPool run_env EthereumMarket administered) = Inr ()" by code_simp
  then have run: "initPool run_env EthereumMarket administered = (Inr (), ?w)" by (metis prod.collapse)
  have proxy: "de_proxyOf run_env provider i \<noteq> ZERO_ADDRESS" for provider i
    by (simp add: run_env_def ZERO_ADDRESS_def)
  have "list_all (\<lambda>(k, a). a \<noteq> []) (w_saved ?w)" by code_simp
  then have stored: "a \<noteq> []" if "obj_get (w_saved ?w) k = Some a" for k a
    using obj_get_Some_mem[OF that] by (auto simp: list_all_iff)
  have p: "obj_get (w_saved ?w) (POOL_ADDRESSES_PROVIDER_ID (de_market_name run_env)) = Some ''0xprovider''" by code_simp
  have "\<exists>provider. getPoolAddressesProvider (\<lambda>_. Inr ()) (w_saved ?w) (de_market_name run_env) None =
      Inr \<lparr>at_artifact = ''PoolAddressesProvider'', at_address = provider\<rparr> \<and>
    ContractGetters.getPool (\<lambda>_. Inr ()) (w_saved ?w) (de_market_name run_env) None =
      Inr \<lparr>at_artifact = ''Pool'', at_address = providerAddress provider ''POOL'' ?w\<rparr> \<and>
    getPoolConfiguratorProxy (\<lambda>_. Inr ()) (w_saved ?w) (de_market_name run_env) None =
      Inr \<lparr>at_artifact = ''PoolConfigurator'', at_address = providerAddress provider ''POOL_CONFIGURATOR'' ?w\<rparr>"
    by (rule getters_find_the_market[OF run proxy refl]) (erule stored)
  then show ?thesis using p
    by (simp add: getPoolAddressesProvider_def getStored_def getContract_def addressOr_def deployments_get_def truthy_def)
qed

section \<open>The price oracle\<close>

abbreviation oracle_run :: "unit result \<times> deploy_world" where
  "oracle_run \<equiv> abind (deployOracles run_env EthereumMarket) (\<lambda>_. initOracles run_env) provider_world"

theorem market_oracle_is_configured_witness:
  "fst oracle_run = Inr () \<and> (\<exists>orc fallback. obj_get (w_saved (snd oracle_run)) (ORACLE_ID (de_market_name run_env)) = Some orc \<and>
    fallbackOracle (w_oracle (snd oracle_run) orc) = fallback)"
proof -
  have ok: "fst oracle_run = Inr ()" by code_simp
  then have run: "oracle_run = (Inr (), snd oracle_run)" by (metis prod.collapse)
  have fresh: "w_code provider_world (de_addressOf run_env (ORACLE_ID (de_market_name run_env)) c) \<noteq> Some c" for c
    by (simp add: provider_world_def run_env_def ORACLE_ID_def)
  have "case getReserveAddresses (de_market run_env) EthereumMarket (networkName (de_market run_env)) (w_saved provider_world) of
      Inr reserves \<Rightarrow> distinct (map snd reserves) | Inl _ \<Rightarrow> False" by code_simp
  then have "distinct (map snd reserves)"
    if "getReserveAddresses (de_market run_env) EthereumMarket (networkName (de_market run_env)) (w_saved provider_world) = Inr reserves"
    for reserves using that by simp
  from market_oracle_is_configured[OF run fresh this] ok show ?thesis by blast
qed

text \<open>A market that is deployed, to which the reserves are added once more.\<close>

definition listed_world :: deploy_world where
  "listed_world = administered\<lparr>
     w_provider := (\<lambda>_. \<lparr>pv_owner = ''0xdeployer'', pv_marketId = [],
       pv_addresses = (\<lambda>_. ZERO_ADDRESS)(''ACL_MANAGER'' := ''0xmanager'', ''ACL_ADMIN'' := ''0xdeployer'')\<rparr>),
     w_saved := map (\<lambda>i. (i, ''0x'' @ i)) ([POOL_IMPL_ID, POOL_CONFIGURATOR_IMPL_ID, POOL_ADDRESSES_PROVIDER_ID (de_market_name run_env), INCENTIVES_PROXY_ID,
       INCENTIVES_V2_IMPL_ID, POOL_DATA_PROVIDER (de_market_name run_env), ORACLE_ID (de_market_name run_env),
       POOL_CONFIGURATOR_PROXY_ID (de_market_name run_env), ACL_MANAGER_ID (de_market_name run_env), RESERVES_SETUP_HELPER_ID,
       RSTOKEN_IMPL_ID (de_market_name run_env), DELEGATION_AWARE_RSTOKEN_IMPL_ID (de_market_name run_env), STABLE_DEBT_TOKEN_IMPL_ID (de_market_name run_env), VARIABLE_DEBT_TOKEN_IMPL_ID (de_market_name run_env)] @
       map (\<lambda>p. ''ReserveStrategy-'' @ strategy_name p) [rateStrategyVolatileOne, rateStrategyStableOne, rateStrategyStableTwo])\<rparr>"

abbreviation add_run :: "unit result \<times> deploy_world" where
  "add_run \<equiv> addReserves (\<lambda>_. Inr ()) run_env run_base (\<lambda>asset w. Inr \<lparr>pt_RSTokenAddress = ''0xrs'',
     pt_stableDebtTokenAddress = ''0xstable'', pt_variableDebtTokenAddress = ''0xvariable''\<rparr>) EthereumMarket listed_world"

theorem add_reserves_prices_market_witness:
  "\<exists>reserves aggregators. reserves \<noteq> [] \<and> (\<forall>(symb, a) \<in> set reserves. symb \<noteq> ''ETH'' \<and> symb \<noteq> ''USD'' \<longrightarrow>
    obj_get aggregators symb =
      Some (assetsSources (w_oracle (snd add_run) (''0x'' @ ORACLE_ID (de_market_name run_env))) a))"
proof -
  let ?reserves = "projr (getReserveAddresses (de_market run_env) EthereumMarket (networkName (de_market run_env)) [])"
  let ?aggregators = "projr (getChainlinkOracles (de_market run_env) EthereumMarket (networkName (de_market run_env)) [])"
  have ok: "fst add_run = Inr ()" by code_simp
  then have run: "add_run = (Inr (), snd add_run)" by (metis prod.collapse)
  have live: "isLive (de_market run_env) (networkName (de_market run_env)) = Inr True" "TestnetMarket EthereumMarket = False"
    by code_simp+
  have "getReserveAddresses (de_market run_env) EthereumMarket (networkName (de_market run_env)) saved = Inr ?reserves"
    "getChainlinkOracles (de_market run_env) EthereumMarket (networkName (de_market run_env)) saved = Inr ?aggregators" for saved
    by (simp_all add: getReserveAddresses_def getChainlinkOracles_def live)
  moreover have "distinct (map snd ?reserves)" "?reserves \<noteq> []" by code_simp+
  moreover have "obj_get (w_saved listed_world) (ORACLE_ID (de_market_name run_env)) = Some (''0x'' @ ORACLE_ID (de_market_name run_env))"
    by code_simp
  ultimately show ?thesis using add_reserves_prices_market[OF run, of ?reserves ?aggregators] by blast
qed

section \<open>The roles\<close>

text \<open>A chain on which everything that the table of roles reads is deployed.\<close>

definition roles_world :: deploy_world where
  "roles_world = blank_world\<lparr>
     w_saved := map (\<lambda>i. (i, ''0x'' @ i)) [POOL_ADDRESSES_PROVIDER_ID (de_market_name run_env), INCENTIVES_PROXY_ID,
       INCENTIVES_V2_IMPL_ID, EMISSION_MANAGER_ID, ''PoolAddressesProviderRegistry'', TREASURY_PROXY_ID, TREASURY_CONTROLLER_ID,
       ''WrappedTokenGatewayV3'', ''ParaSwapLiquiditySwapAdapter'', ''ParaSwapRepayAdapter''],
     w_provider := (\<lambda>_. \<lparr>pv_owner = ''0xdeployer'', pv_marketId = [],
       pv_addresses = (\<lambda>_. ZERO_ADDRESS)(''ACL_MANAGER'' := ''0x'' @ ACL_MANAGER_ID (de_market_name run_env))\<rparr>),
     w_code := [''0x'' @ ACL_MANAGER_ID (de_market_name run_env) \<mapsto>
       contract_of ''ACLManager'' [Address (''0x'' @ POOL_ADDRESSES_PROVIDER_ID (de_market_name run_env))]]\<rparr>"

lemma roles_manager:
  "w_code roles_world (''0x'' @ ACL_MANAGER_ID (de_market_name run_env)) =
    Some (contract_of ''ACLManager'' [Address (''0x'' @ POOL_ADDRESSES_PROVIDER_ID (de_market_name run_env))])"
  by (simp add: roles_world_def)

theorem role_tables_agree_witness:
  "\<exists>table. handoverReport (de_accounts run_env) (the (obj_get POOL_ADMIN ''lisk''))
      (chainOf run_env (''0x'' @ POOL_ADDRESSES_PROVIDER_ID (de_market_name run_env)) ''0xPoolAddressesProviderRegistry''
        ''0xWrappedTokenGatewayV3'' (''0x'' @ EMISSION_MANAGER_ID) roles_world) = Inr table \<and>
    map fst table = [''PoolAdmin'', ''PoolAddressesProvider owner'', ''WrappedTokenGateway owner'', ''EmissionManager owner'',
      ''ACL Default Admin role revoked Deployer'', ''ACL Default Admin role granted Multisig'']"
proof -
  let ?json = "\<lambda>_ _. Inl TypeError" and ?art = "\<lambda>_. Inr ()"
  let ?c = "projr (loadRoleContracts ?art ?json ''lisk'' (de_market_name run_env) roles_world)"
  let ?rows = "projr (viewProtocolRoles ?art ?json run_env ''lisk'' roles_world)"
  have "\<not> isl (viewProtocolRoles ?art ?json run_env ''lisk'' roles_world)" by code_simp
  then have 1: "viewProtocolRoles ?art ?json run_env ''lisk'' roles_world = Inr ?rows" by simp
  have "obj_get POOL_ADMIN ''lisk'' \<noteq> None" by code_simp
  then have 2: "obj_get POOL_ADMIN ''lisk'' = Some (the (obj_get POOL_ADMIN ''lisk''))" by simp
  have "\<not> isl (loadRoleContracts ?art ?json ''lisk'' (de_market_name run_env) roles_world)" by code_simp
  then have 3: "loadRoleContracts ?art ?json ''lisk'' (de_market_name run_env) roles_world = Inr ?c" by simp
  have c: "rc_provider ?c = ''0x'' @ POOL_ADDRESSES_PROVIDER_ID (de_market_name run_env)"
    "rc_registry ?c = ''0xPoolAddressesProviderRegistry''" "rc_gateway ?c = ''0xWrappedTokenGatewayV3''"
    "rc_emission ?c = ''0x'' @ EMISSION_MANAGER_ID" "rc_manager ?c = the_manager run_env (rc_provider ?c)"
    by code_simp+
  have m: "rc_manager ?c = ''0x'' @ ACL_MANAGER_ID (de_market_name run_env)" by code_simp
  have "w_code roles_world (rc_manager ?c) = Some (contract_of ''ACLManager'' [Address (rc_provider ?c)])"
    by (simp only: m c(1) roles_manager)
  from role_tables_agree[OF 1 2 3 c(5) this] show ?thesis by (simp add: c)
qed

section \<open>The test suites\<close>

text \<open>A node that remembers the worlds of its snapshots, and a market for the tests.\<close>

type_synonym remembering = "deploy_world \<times> (string \<times> deploy_world) list"

definition run_node :: "remembering test_node" where
  "run_node = \<lparr>usingTenderly = False,
     evmSnapshot = (\<lambda>(w, ss). let i = replicate (length ss) CHR ''1'' in (Inr i, (w, (i, w) # ss))),
     evmRevert = (\<lambda>i (w, ss). case map_of ss i of None \<Rightarrow> (Inr False, (w, ss)) | Some c \<Rightarrow> (Inr True, (c, ss))),
     tenderlyGetHead = (\<lambda>n. (Inr None, n)), tenderlySetHead = (\<lambda>_ n. (Inr (), n))\<rparr>"

lemma run_node_laws: "snapshot_laws run_node fst (\<lambda>n. map_of (snd n))"
  by (simp add: snapshot_laws_def run_node_def Let_def)

definition test_world :: deploy_world where
  "test_world = administered\<lparr>
     w_saved := map (\<lambda>i. (i, ''0x'' @ i)) [POOL_ADDRESSES_PROVIDER_ID (de_market_name run_env), POOL_PROXY_ID (de_market_name run_env),
       POOL_CONFIGURATOR_PROXY_ID (de_market_name run_env), ACL_MANAGER_ID (de_market_name run_env), ''PoolAddressesProviderRegistry'',
       FALLBACK_ORACLE_ID (de_market_name run_env), ORACLE_ID (de_market_name run_env), POOL_DATA_PROVIDER (de_market_name run_env)]\<rparr>"

definition run_provider :: data_provider where
  "run_provider = \<lparr>dp_allRSTokens = (\<lambda>_ _. Inr (map (\<lambda>s. (''RS'' @ s, ''0xRS'' @ s)) [''RUSD'', ''EURS'', ''WETH'', ''CGO''])),
     dp_allReservesTokens = (\<lambda>_ _. Inr (map (\<lambda>s. (s, ''0x'' @ s)) [''RUSD'', ''EURS'', ''WETH'', ''CGO''])),
     dp_reserveTokens = (\<lambda>_ a _. Inr \<lparr>pt_RSTokenAddress = a, pt_stableDebtTokenAddress = ''0xs'' @ a, pt_variableDebtTokenAddress = ''0xv'' @ a\<rparr>)\<rparr>"

abbreviation setup_run :: "test_env result \<times> deploy_world" where
  "setup_run \<equiv> initializeMakeSuite (\<lambda>_. Inr ()) run_provider (de_market_name run_env) [''0xdeployer'', ''0xa'', ''0xb'', ''0xc''] [] test_world"

text \<open>A suite whose only test destroys everything.\<close>

theorem suites_start_after_setup_witness:
  "let e = projr (fst setup_run); tests = [\<lambda>(_, ss). (Inr (), (blank_world, ss))];
       after = fst (node (runSuites run_node [tests, tests] \<lparr>HardhatSnapshotId = initialSnapshotId, node = (snd setup_run, [])\<rparr>))
   in after = snd setup_run \<and> (\<exists>r. te_riskAdmin e = Some r \<and> isRiskAdmin r (w_acl after (at_address (te_aclManager e))))"
proof -
  let ?e = "projr (fst setup_run)" and ?tests = "[\<lambda>(_ :: deploy_world, ss :: (string \<times> deploy_world) list). (Inr () :: unit result, (blank_world, ss))]"
  let ?s = "\<lparr>HardhatSnapshotId = initialSnapshotId, node = (snd setup_run, [] :: (string \<times> deploy_world) list)\<rparr>"
  have "\<not> isl (fst setup_run)" by code_simp
  then have run: "setup_run = (Inr ?e, snd setup_run)" by (simp add: prod_eq_iff)
  have keeps: "list_all (list_all (keeps_snapshots (\<lambda>n. map_of (snd n)))) [?tests, ?tests]"
    by (auto simp: keeps_snapshots_def)
  from suites_start_after_setup[OF run run_node_laws keeps, of ?s 2] show ?thesis by (auto simp: Let_def)
qed

section \<open>Networks\<close>

theorem sepolia_deployment_always_fails_witness:
  "fst (setupAddressesProvider (run_env\<lparr>de_market := lisk_env\<lparr>networkName := ''sepolia'', networks := hardhatNetworks
      \<lparr>pe_INFURA_KEY = None, pe_FORK = Some ''sepolia'', pe_FORK_BLOCK_NUMBER = None, pe_MNEMONIC = None\<rparr>\<rparr>\<rparr>) run_base
      EthereumMarket registry_world) =
    Inl (Thrown ''[Deployment][Error] Mismatch between Config.ReservesConfig and Config.ReserveAssets token symbols'')"
  using sepolia_deployment_always_fails[of "run_env\<lparr>de_market := lisk_env\<lparr>networkName := ''sepolia'', networks := hardhatNetworks
      \<lparr>pe_INFURA_KEY = None, pe_FORK = Some ''sepolia'', pe_FORK_BLOCK_NUMBER = None, pe_MNEMONIC = None\<rparr>\<rparr>\<rparr>"
      "\<lparr>pe_INFURA_KEY = None, pe_FORK = Some ''sepolia'', pe_FORK_BLOCK_NUMBER = None, pe_MNEMONIC = None\<rparr>" run_base registry_world]
  by simp

end
