(* ===== verification/TokenUpgrade.thy ===== *)
theory TokenUpgrade
  imports TaskProps
begin

text \<open>
  Upgrading the tokens of the reserves: \<open>tasks/misc/upgrade-rstokens.ts\<close>, \<open>review-rstokens.ts\<close> and
  \<open>upgrade-rstokens-and-review.ts\<close>, over the tokens behind their proxies (\<open>RSToken.sol\<close>,
  \<open>ConfiguratorLogic.sol\<close>). The deployment files of the network and the revision of the token that is
  compiled are parameters; messages are left out.
\<close>

section \<open>Tokens behind proxies\<close>

record token_logic =
  tl_revision :: nat
  tl_pool :: string

record rs_token =
  tk_implementation :: string
  tk_revision :: nat
  tk_name :: string
  tk_symbol :: string
  tk_decimals :: u256
  tk_treasury :: string
  tk_underlying :: string
  tk_incentives :: string

record token_world =
  tw_pool :: pool
  tw_poolAddress :: string
  tw_tokenOf :: "string \<Rightarrow> string"
  tw_token :: "string \<Rightarrow> rs_token option"
  tw_logic :: "string \<Rightarrow> token_logic option"

text \<open>The revision of the token in this repository.\<close>

definition RSTOKEN_REVISION :: nat where
  "RSTOKEN_REVISION = 1"

text \<open>\<open>initialize\<close> of a token, run by the logic on the storage of the proxy.\<close>

definition initializeRSToken ::
    "token_logic \<Rightarrow> string \<Rightarrow> string \<Rightarrow> string \<Rightarrow> string \<Rightarrow> u256 \<Rightarrow> string \<Rightarrow> string \<Rightarrow> rs_token \<Rightarrow> rs_token result" where
  "initializeRSToken logic initializingPool treasury asset incentivesController decimals nam symb t =
     rbind (ensure (tk_revision t < tl_revision logic) (Reverted ''Contract instance has already been initialized'')) (\<lambda>_.
     rbind (ensure (initializingPool = tl_pool logic) (Reverted ''87'')) (\<lambda>_.
     Inr (t\<lparr>tk_revision := tl_revision logic, tk_name := nam, tk_symbol := symb, tk_decimals := decimals,
       tk_treasury := treasury, tk_underlying := asset, tk_incentives := incentivesController\<rparr>)))"

text \<open>
  \<open>updateRSToken\<close> of the configurator: the proxy of the token gets the new implementation and
  initialises it; when that fails the transaction reverts without a reason.
\<close>

definition updateRSToken ::
    "string \<Rightarrow> string \<Rightarrow> string \<Rightarrow> string \<Rightarrow> string \<Rightarrow> string \<Rightarrow> string \<Rightarrow> token_world \<Rightarrow> token_world result" where
  "updateRSToken sender asset treasury incentivesController nam symb implementation w =
     rbind (onlyPoolAdmin sender (tw_pool w)) (\<lambda>_.
     case tw_token w (tw_tokenOf w asset) of
       None \<Rightarrow> Inl (Reverted [])
     | Some t \<Rightarrow>
       (case tw_logic w implementation of
          None \<Rightarrow> Inl (Reverted ''Cannot set a proxy implementation to a non-contract address'')
        | Some logic \<Rightarrow>
          (case initializeRSToken logic (tw_poolAddress w) treasury asset incentivesController
                  (getDecimals (po_configuration (tw_pool w) asset)) nam symb (t\<lparr>tk_implementation := implementation\<rparr>) of
             Inl _ \<Rightarrow> Inl (Reverted [])
           | Inr t' \<Rightarrow> Inr (w\<lparr>tw_token := (tw_token w)(tw_tokenOf w asset \<mapsto> t')\<rparr>))))"

section \<open>The tasks\<close>

text \<open>
  \<open>te_json\<close> is \<open>getAddressFromJson\<close> for the network; a new implementation gets the address
  \<open>te_newImpl\<close>, and one with the same code and arguments that is already there is kept.
\<close>

record token_env =
  te_market :: "string option"
  te_json :: "string \<Rightarrow> string result"
  te_newImpl :: string
  te_compiled :: nat
  te_sender :: string

definition deployTokenLogic :: "token_env \<Rightarrow> token_world \<Rightarrow> token_world result" where
  "deployTokenLogic env w =
     Inr (w\<lparr>tw_logic := (tw_logic w)(te_newImpl env \<mapsto> \<lparr>tl_revision = te_compiled env, tl_pool = tw_poolAddress w\<rparr>)\<rparr>)"

text \<open>
  The result is \<open>false\<close> when nothing was upgraded and \<open>undefined\<close>, here \<open>None\<close>, when the loop came to
  its end.
\<close>

definition upgradeRSTokens :: "token_env \<Rightarrow> nat \<Rightarrow> (token_world, bool option) act" where
  "upgradeRSTokens env revision =
     (case te_market env of
        None \<Rightarrow> areturn (Inr (Some False))
      | Some market \<Rightarrow>
        abind (areturn (te_json env (POOL_ADDRESSES_PROVIDER_ID market))) (\<lambda>_.
        abind (areturn (te_json env TREASURY_PROXY_ID)) (\<lambda>treasury.
        abind (areturn (te_json env INCENTIVES_PROXY_ID)) (\<lambda>incentivesController.
        abind (ask (\<lambda>w. Inr (getAllReservesTokens (tw_pool w)))) (\<lambda>reserves.
        abind (transact (deployTokenLogic env)) (\<lambda>_.
        abind (ask (\<lambda>w. getf (map_option tl_revision (tw_logic w (te_newImpl env))))) (\<lambda>deployedRevision.
        if deployedRevision \<noteq> revision then areturn (Inr (Some False))
        else
          abind (forEach (\<lambda>(symb, asset). transact (updateRSToken (te_sender env) asset treasury incentivesController
            (''RASA '' @ symb) (''a'' @ symb) (te_newImpl env))) reserves) (\<lambda>_.
          areturn (Inr None)))))))))"

record rstoken_config =
  cf_revision :: nat
  cf_name :: string
  cf_symbol :: string
  cf_decimals :: u256
  cf_treasury :: string
  cf_incentives :: string
  cf_pool :: string
  cf_underlying :: string

definition getAllRSTokens :: "token_world \<Rightarrow> (string \<times> string) list result" where
  "getAllRSTokens w =
     mapM (\<lambda>asset. rbind (getf (tw_token w (tw_tokenOf w asset))) (\<lambda>t. Inr (tk_symbol t, tw_tokenOf w asset)))
       (po_reservesList (tw_pool w))"

definition tokenConfig :: "token_world \<Rightarrow> string \<Rightarrow> rstoken_config result" where
  "tokenConfig w token =
     rbind (getf (tw_token w token)) (\<lambda>t.
     rbind (getf (tw_logic w (tk_implementation t))) (\<lambda>logic.
     Inr \<lparr>cf_revision = tl_revision logic, cf_name = tk_name t, cf_symbol = tk_symbol t, cf_decimals = tk_decimals t,
       cf_treasury = tk_treasury t, cf_incentives = tk_incentives t, cf_pool = tl_pool logic,
       cf_underlying = tk_underlying t\<rparr>))"

definition reviewRSTokens :: "token_env \<Rightarrow> string \<Rightarrow> token_world \<Rightarrow> rstoken_config obj result" where
  "reviewRSTokens env market w =
     rbind (te_json env (POOL_ADDRESSES_PROVIDER_ID market)) (\<lambda>_.
     rbind (getAllRSTokens w) (\<lambda>reserves.
     foldM (\<lambda>configs (symb, token). rbind (tokenConfig w token) (\<lambda>c. Inr (obj_set configs symb c))) [] reserves))"

text \<open>The configurations before and after; the task prints their difference if there is one.\<close>

definition upgradeAndReview :: "token_env \<Rightarrow> string \<Rightarrow> nat \<Rightarrow> (token_world, rstoken_config obj \<times> rstoken_config obj) act" where
  "upgradeAndReview env market revision =
     abind (ask (reviewRSTokens env market)) (\<lambda>previous.
     abind (upgradeRSTokens env revision) (\<lambda>_.
     abind (ask (reviewRSTokens env market)) (\<lambda>after.
     areturn (Inr (previous, after)))))"

section \<open>What an upgrade achieves\<close>

text \<open>The token of a reserve after the upgrade.\<close>

definition upgraded :: "token_env \<Rightarrow> string \<Rightarrow> string \<Rightarrow> token_world \<Rightarrow> string \<times> string \<Rightarrow> rs_token" where
  "upgraded env treasury incentives w = (\<lambda>(symb, asset).
     \<lparr>tk_implementation = te_newImpl env, tk_revision = te_compiled env, tk_name = ''RASA '' @ symb,
      tk_symbol = ''a'' @ symb, tk_decimals = getDecimals (po_configuration (tw_pool w) asset), tk_treasury = treasury,
      tk_underlying = asset, tk_incentives = incentives\<rparr>)"

lemma all_fields_set:
  "t\<lparr>tk_implementation := i, tk_revision := r, tk_name := n, tk_symbol := s, tk_decimals := d, tk_treasury := y,
     tk_underlying := a, tk_incentives := c\<rparr> =
   \<lparr>tk_implementation = i, tk_revision = r, tk_name = n, tk_symbol = s, tk_decimals = d, tk_treasury = y,
     tk_underlying = a, tk_incentives = c\<rparr>"
  by (cases t) simp

lemma updateRSToken_Inr:
  assumes "updateRSToken sender asset treasury incentives (''RASA '' @ symb) (''a'' @ symb) (te_newImpl env) w = Inr w'"
    "tw_logic w (te_newImpl env) = Some \<lparr>tl_revision = te_compiled env, tl_pool = tw_poolAddress w\<rparr>"
  shows "w' = w\<lparr>tw_token := (tw_token w)(tw_tokenOf w asset \<mapsto> upgraded env treasury incentives w (symb, asset))\<rparr>"
    "\<exists>t. tw_token w (tw_tokenOf w asset) = Some t \<and> tk_revision t < te_compiled env"
  using assms
  by (auto simp: updateRSToken_def initializeRSToken_def upgraded_def all_fields_set rbind_eq_Inr split: option.splits sum.splits)

lemma upgrade_loop:
  assumes "forEach (\<lambda>(symb, asset). transact (updateRSToken sender asset treasury incentives (''RASA '' @ symb) (''a'' @ symb)
      (te_newImpl env))) xs w = (Inr u, w')"
    "tw_logic w (te_newImpl env) = Some \<lparr>tl_revision = te_compiled env, tl_pool = tw_poolAddress w\<rparr>"
    "distinct (map (\<lambda>(symb, asset). tw_tokenOf w asset) xs)"
  shows "w' = w\<lparr>tw_token := tw_token w'\<rparr>"
    "\<forall>(symb, asset) \<in> set xs. tw_token w' (tw_tokenOf w asset) = Some (upgraded env treasury incentives w (symb, asset)) \<and>
       (\<exists>t. tw_token w (tw_tokenOf w asset) = Some t \<and> tk_revision t < te_compiled env)"
    "\<forall>t. t \<notin> tw_tokenOf w ` snd ` set xs \<longrightarrow> tw_token w' t = tw_token w t"
proof -
  have "w' = w\<lparr>tw_token := tw_token w'\<rparr> \<and>
    (\<forall>(symb, asset) \<in> set xs. tw_token w' (tw_tokenOf w asset) = Some (upgraded env treasury incentives w (symb, asset)) \<and>
       (\<exists>t. tw_token w (tw_tokenOf w asset) = Some t \<and> tk_revision t < te_compiled env)) \<and>
    (\<forall>t. t \<notin> tw_tokenOf w ` snd ` set xs \<longrightarrow> tw_token w' t = tw_token w t)"
    using assms
  proof (induction xs arbitrary: w)
    case Nil
    then show ?case by (simp add: areturn_eq)
  next
    case (Cons x xs)
    obtain symb asset where x: "x = (symb, asset)" by (cases x)
    from Cons.prems(1) obtain v where v:
        "updateRSToken sender asset treasury incentives (''RASA '' @ symb) (''a'' @ symb) (te_newImpl env) w = Inr v"
        "forEach (\<lambda>(symb, asset). transact (updateRSToken sender asset treasury incentives (''RASA '' @ symb) (''a'' @ symb)
          (te_newImpl env))) xs v = (Inr u, w')"
      by (auto simp: x split: sum.splits)
    note step = updateRSToken_Inr[OF v(1) Cons.prems(2)]
    have same: "tw_tokenOf v = tw_tokenOf w" "upgraded env treasury incentives v = upgraded env treasury incentives w"
      by (simp_all add: step(1) upgraded_def)
    have d: "distinct (map (\<lambda>(symb, asset). tw_tokenOf v asset) xs)" "tw_tokenOf w asset \<notin> tw_tokenOf w ` snd ` set xs"
      using Cons.prems(3) by (auto simp: x same(1) image_image case_prod_unfold)
    have logic: "tw_logic v (te_newImpl env) = Some \<lparr>tl_revision = te_compiled env, tl_pool = tw_poolAddress v\<rparr>"
      using Cons.prems(2) by (simp add: step(1))
    note ih = Cons.IH[OF v(2) logic d(1), unfolded same]
    have before: "tw_token v (tw_tokenOf w a) = tw_token w (tw_tokenOf w a)" if "(s, a) \<in> set xs" for s a
    proof -
      have "tw_tokenOf w a \<in> tw_tokenOf w ` snd ` set xs" using that by force
      then have "tw_tokenOf w a \<noteq> tw_tokenOf w asset" using d(2) by metis
      then show ?thesis by (simp add: step(1))
    qed
    have "tw_token w' (tw_tokenOf w asset) = Some (upgraded env treasury incentives w (symb, asset))"
      using ih d(2) by (simp add: step(1))
    moreover have "w' = w\<lparr>tw_token := tw_token w'\<rparr>" using ih by (simp add: step(1))
    moreover have "\<forall>(s, a) \<in> set xs. tw_token w' (tw_tokenOf w a) = Some (upgraded env treasury incentives w (s, a)) \<and>
       (\<exists>t. tw_token w (tw_tokenOf w a) = Some t \<and> tk_revision t < te_compiled env)"
      using ih before by fastforce
    moreover have "\<forall>t. t \<notin> tw_tokenOf w ` snd ` set (x # xs) \<longrightarrow> tw_token w' t = tw_token w t"
      using ih by (auto simp: x step(1))
    ultimately show ?case using step(2) by (simp add: x)
  qed
  then show "w' = w\<lparr>tw_token := tw_token w'\<rparr>"
    "\<forall>(symb, asset) \<in> set xs. tw_token w' (tw_tokenOf w asset) = Some (upgraded env treasury incentives w (symb, asset)) \<and>
       (\<exists>t. tw_token w (tw_tokenOf w asset) = Some t \<and> tk_revision t < te_compiled env)"
    "\<forall>t. t \<notin> tw_tokenOf w ` snd ` set xs \<longrightarrow> tw_token w' t = tw_token w t"
    by blast+
qed

lemma listed_assets: "map snd (getAllReservesTokens p) = po_reservesList p"
  by (simp add: getAllReservesTokens_def comp_def)

lemma upgradeRSTokens_Inr:
  assumes "upgradeRSTokens env revision w = (Inr None, w')" "distinct (map (tw_tokenOf w) (po_reservesList (tw_pool w)))"
  obtains treasury incentives where "te_json env TREASURY_PROXY_ID = Inr treasury" "te_json env INCENTIVES_PROXY_ID = Inr incentives"
    "revision = te_compiled env"
    "tw_logic w' (te_newImpl env) = Some \<lparr>tl_revision = te_compiled env, tl_pool = tw_poolAddress w\<rparr>"
    "tw_pool w' = tw_pool w" "tw_tokenOf w' = tw_tokenOf w" "tw_poolAddress w' = tw_poolAddress w"
    "\<forall>(symb, asset) \<in> set (getAllReservesTokens (tw_pool w)).
       tw_token w' (tw_tokenOf w asset) = Some (upgraded env treasury incentives w (symb, asset)) \<and>
       (\<exists>t. tw_token w (tw_tokenOf w asset) = Some t \<and> tk_revision t < te_compiled env)"
    "\<forall>t. t \<notin> tw_tokenOf w ` set (po_reservesList (tw_pool w)) \<longrightarrow> tw_token w' t = tw_token w t"
proof -
  let ?v = "w\<lparr>tw_logic := (tw_logic w)(te_newImpl env \<mapsto> \<lparr>tl_revision = te_compiled env, tl_pool = tw_poolAddress w\<rparr>)\<rparr>"
  from assms(1) obtain treasury incentives where s: "te_json env TREASURY_PROXY_ID = Inr treasury"
      "te_json env INCENTIVES_PROXY_ID = Inr incentives" "revision = te_compiled env"
      "forEach (\<lambda>(symb, asset). transact (updateRSToken (te_sender env) asset treasury incentives
         (''RASA '' @ symb) (''a'' @ symb) (te_newImpl env))) (getAllReservesTokens (tw_pool w)) ?v = (Inr (), w')"
    by (auto simp: upgradeRSTokens_def deployTokenLogic_def act_inv simp del: abind_ask abind_areturn abind_transact
        split: option.splits if_splits)
  have d: "distinct (map (\<lambda>(symb, asset). tw_tokenOf ?v asset) (getAllReservesTokens (tw_pool w)))"
  proof -
    have "map (\<lambda>(symb, asset). tw_tokenOf ?v asset) xs = map (tw_tokenOf w) (map snd xs)" for xs :: "(string \<times> string) list"
      by (induction xs) auto
    then show ?thesis using assms(2) by (simp only: listed_assets)
  qed
  have "snd ` set (getAllReservesTokens (tw_pool w)) = set (po_reservesList (tw_pool w))"
    by (metis list.set_map listed_assets)
  moreover have "upgraded env treasury incentives ?v = upgraded env treasury incentives w" by (simp add: upgraded_def)
  moreover note upgrade_loop[OF s(4) _ d]
  ultimately have loop: "w' = ?v\<lparr>tw_token := tw_token w'\<rparr>"
      "\<forall>(symb, asset) \<in> set (getAllReservesTokens (tw_pool w)).
         tw_token w' (tw_tokenOf w asset) = Some (upgraded env treasury incentives w (symb, asset)) \<and>
         (\<exists>t. tw_token w (tw_tokenOf w asset) = Some t \<and> tk_revision t < te_compiled env)"
      "\<forall>t. t \<notin> tw_tokenOf w ` set (po_reservesList (tw_pool w)) \<longrightarrow> tw_token w' t = tw_token w t"
    by simp_all
  have keeps: "tw_logic w' = tw_logic ?v" "tw_pool w' = tw_pool w" "tw_tokenOf w' = tw_tokenOf w" "tw_poolAddress w' = tw_poolAddress w"
    by (subst loop(1), simp)+
  show thesis by (rule that[OF s(1-3) _ keeps(2-4) loop(2,3)]) (simp add: keeps(1))
qed

text \<open>
  C33: When the task that upgrades the tokens comes to its end, every reserve of the pool has the new
  implementation with the revision asked for, the treasury and the rewards controller of the deployment
  files, the decimals of its configuration and itself as the underlying asset. Each token is renamed: its
  symbol is the one of the asset after an \<open>a\<close>, where the initialisation wrote \<open>RS\<close>. The configuration of
  the pool and all other tokens stay as they were, and no token had the revision before.
\<close>

theorem upgrade_renames_tokens:
  assumes "upgradeRSTokens env revision w = (Inr None, w')" "distinct (map (tw_tokenOf w) (po_reservesList (tw_pool w)))"
  shows "\<exists>treasury incentives. te_json env TREASURY_PROXY_ID = Inr treasury \<and> te_json env INCENTIVES_PROXY_ID = Inr incentives \<and>
    tw_pool w' = tw_pool w \<and>
    (\<forall>(symb, asset) \<in> set (getAllReservesTokens (tw_pool w)).
       tokenConfig w' (tw_tokenOf w asset) = Inr \<lparr>cf_revision = revision, cf_name = ''RASA '' @ symb, cf_symbol = ''a'' @ symb,
         cf_decimals = getDecimals (po_configuration (tw_pool w) asset), cf_treasury = treasury, cf_incentives = incentives,
         cf_pool = tw_poolAddress w, cf_underlying = asset\<rparr> \<and>
       (\<exists>t. tw_token w (tw_tokenOf w asset) = Some t \<and> tk_revision t < revision)) \<and>
    (\<forall>t. t \<notin> tw_tokenOf w ` set (po_reservesList (tw_pool w)) \<longrightarrow> tw_token w' t = tw_token w t)"
  by (rule upgradeRSTokens_Inr[OF assms], rule exI, rule exI)
     (auto simp: tokenConfig_def upgraded_def)

text \<open>
  With the token of this repository the task cannot upgrade a market: as soon as one reserve of the pool
  has an initialised token, it ends with \<open>false\<close> or an exception, for every revision that is asked for.
\<close>

theorem current_revision_upgrades_nothing:
  assumes "te_compiled env = RSTOKEN_REVISION" "asset \<in> set (po_reservesList (tw_pool w))"
    "tw_token w (tw_tokenOf w asset) = Some t" "0 < tk_revision t"
    "distinct (map (tw_tokenOf w) (po_reservesList (tw_pool w)))"
  shows "fst (upgradeRSTokens env revision w) \<noteq> Inr None"
proof
  assume "fst (upgradeRSTokens env revision w) = Inr None"
  then obtain w' where run: "upgradeRSTokens env revision w = (Inr None, w')" by (metis prod.collapse)
  obtain treasury incentives where "\<forall>(symb, asset) \<in> set (getAllReservesTokens (tw_pool w)).
       tw_token w' (tw_tokenOf w asset) = Some (upgraded env treasury incentives w (symb, asset)) \<and>
       (\<exists>t. tw_token w (tw_tokenOf w asset) = Some t \<and> tk_revision t < te_compiled env)"
    by (rule upgradeRSTokens_Inr[OF run assms(5)]) (rule that)
  moreover have "asset \<in> snd ` set (getAllReservesTokens (tw_pool w))"
    using assms(2) by (metis list.set_map listed_assets)
  ultimately show False using assms(1,3,4) by (fastforce simp: RSTOKEN_REVISION_def)
qed

section \<open>A market to upgrade\<close>

definition listed_tokens :: token_world where
  "listed_tokens = \<lparr>tw_pool = fresh_pool, tw_poolAddress = ''0xpool'', tw_tokenOf = (@) ''rs-'',
     tw_token = (\<lambda>t. Some \<lparr>tk_implementation = ''0xold'', tk_revision = 1, tk_name = [], tk_symbol = ''RS'' @ t, tk_decimals = 18,
       tk_treasury = ''0xt'', tk_underlying = t, tk_incentives = ''0xi''\<rparr>),
     tw_logic = [''0xold'' \<mapsto> \<lparr>tl_revision = 1, tl_pool = ''0xpool''\<rparr>]\<rparr>"

definition upgrade_env :: "nat \<Rightarrow> token_env" where
  "upgrade_env compiled = \<lparr>te_market = Some ''Ethereum'', te_json = (\<lambda>nam. Inr (''0x'' @ nam)), te_newImpl = ''0xnew'',
     te_compiled = compiled, te_sender = ''0xadmin''\<rparr>"

lemma listed_distinct: "distinct (map (tw_tokenOf listed_tokens) (po_reservesList (tw_pool listed_tokens)))"
  by code_simp

theorem upgrade_renames_tokens_witness:
  "\<exists>w'. upgradeRSTokens (upgrade_env 2) 2 listed_tokens = (Inr None, w') \<and> tw_pool w' = fresh_pool \<and>
    (\<exists>c. tokenConfig w' ''rs-0x4200000000000000000000000000000000000006'' = Inr c \<and> cf_symbol c = ''aWETH'')"
proof -
  have "fst (upgradeRSTokens (upgrade_env 2) 2 listed_tokens) = Inr None" by code_simp
  then obtain w' where run: "upgradeRSTokens (upgrade_env 2) 2 listed_tokens = (Inr None, w')" by (metis prod.collapse)
  have mem: "(''WETH'', ''0x4200000000000000000000000000000000000006'') \<in> set (getAllReservesTokens (tw_pool listed_tokens))"
    by code_simp
  from upgrade_renames_tokens[OF run listed_distinct] obtain treasury incentives where u: "tw_pool w' = tw_pool listed_tokens"
      "\<forall>(symb, asset) \<in> set (getAllReservesTokens (tw_pool listed_tokens)).
       tokenConfig w' (tw_tokenOf listed_tokens asset) = Inr \<lparr>cf_revision = 2, cf_name = ''RASA '' @ symb, cf_symbol = ''a'' @ symb,
         cf_decimals = getDecimals (po_configuration (tw_pool listed_tokens) asset), cf_treasury = treasury, cf_incentives = incentives,
         cf_pool = tw_poolAddress listed_tokens, cf_underlying = asset\<rparr>"
    by (elim exE conjE) (rule that, auto)
  have "tw_pool listed_tokens = fresh_pool" by (simp add: listed_tokens_def)
  moreover have "tw_tokenOf listed_tokens ''0x4200000000000000000000000000000000000006'' =
      ''rs-0x4200000000000000000000000000000000000006''" by (simp add: listed_tokens_def)
  ultimately show ?thesis using bspec[OF u(2) mem] u(1) run by auto
qed

theorem current_revision_upgrades_nothing_witness:
  "fst (upgradeRSTokens (upgrade_env 1) 1 listed_tokens) \<noteq> Inr None"
proof (rule current_revision_upgrades_nothing)
  show "te_compiled (upgrade_env 1) = RSTOKEN_REVISION" by (simp add: upgrade_env_def RSTOKEN_REVISION_def)
  show "''0x4200000000000000000000000000000000000006'' \<in> set (po_reservesList (tw_pool listed_tokens))" by code_simp
  show "tw_token listed_tokens (tw_tokenOf listed_tokens ''0x4200000000000000000000000000000000000006'') = Some
      (the (tw_token listed_tokens (tw_tokenOf listed_tokens ''0x4200000000000000000000000000000000000006'')))"
    "0 < tk_revision (the (tw_token listed_tokens (tw_tokenOf listed_tokens ''0x4200000000000000000000000000000000000006'')))"
    by (simp_all add: listed_tokens_def)
qed (rule listed_distinct)

end
