(* ===== verification/NodeHelpers.thy ===== *)
theory NodeHelpers
  imports HelperProps Chain
begin

text \<open>
  The helpers around the node: the rest of \<open>utilities/tx.ts\<close>, \<open>misc-utils.ts\<close>, \<open>utilities/fork.ts\<close>,
  \<open>utilities/signer.ts\<close>, \<open>utilities/defender.ts\<close>, \<open>tenderly-utils.ts\<close> and of \<open>contracts-helpers.ts\<close>. The
  node answers to the record \<open>rpc\<close>; the decoding of a storage slot, files and the services behind
  \<open>ethers\<close> are parameters.
\<close>

section \<open>Blocks and time\<close>

text \<open>\<open>None\<close> is the latest block.\<close>

record rpc_block =
  bl_number :: int
  bl_timestamp :: int

record 'n rpc =
  rpc_getBlock :: "int option \<Rightarrow> 'n \<Rightarrow> rpc_block option"
  rpc_increaseTime :: "int \<Rightarrow> ('n, unit) act"
  rpc_mine :: "int option \<Rightarrow> ('n, unit) act"
  rpc_setNextBlockTimestamp :: "int \<Rightarrow> ('n, unit) act"
  rpc_setAutomine :: "bool \<Rightarrow> ('n, unit) act"
  rpc_impersonate :: "string \<Rightarrow> ('n, unit) act"
  rpc_getStorageAt :: "string \<Rightarrow> string \<Rightarrow> 'n \<Rightarrow> string result"

definition getCurrentBlock :: "'n rpc \<Rightarrow> ('n, int) act" where
  "getCurrentBlock node = ask (\<lambda>n. rbind (getf (rpc_getBlock node None n)) (\<lambda>b. Inr (bl_number b)))"

definition advanceBlock :: "'n rpc \<Rightarrow> int \<Rightarrow> ('n, unit) act" where
  "advanceBlock node timestamp = rpc_mine node (Some timestamp)"

definition increaseTime :: "'n rpc \<Rightarrow> int \<Rightarrow> ('n, unit) act" where
  "increaseTime node secondsToIncrease = abind (rpc_increaseTime node secondsToIncrease) (\<lambda>_. rpc_mine node None)"

definition timeLatest :: "'n rpc \<Rightarrow> ('n, int) act" where
  "timeLatest node = ask (\<lambda>n. rbind (getf (rpc_getBlock node None n)) (\<lambda>b. Inr (bl_timestamp b)))"

definition setBlocktime :: "'n rpc \<Rightarrow> int \<Rightarrow> ('n, unit) act" where
  "setBlocktime node time = rpc_setNextBlockTimestamp node time"

definition setAutomine :: "'n rpc \<Rightarrow> bool \<Rightarrow> ('n, unit) act" where
  "setAutomine node activate =
     abind (rpc_setAutomine node activate) (\<lambda>_. if activate then rpc_mine node None else areturn (Inr ()))"

definition setAutomineEvm :: "'n rpc \<Rightarrow> bool \<Rightarrow> ('n, unit) act" where
  "setAutomineEvm node activate = rpc_setAutomine node activate"

text \<open>Block 0 is falsy, and so is read as the latest block. \<open>shown\<close> prints the argument.\<close>

definition getBlockTimestamp :: "'n rpc \<Rightarrow> (int option \<Rightarrow> string) \<Rightarrow> int option \<Rightarrow> ('n, int) act" where
  "getBlockTimestamp node shown blockNumber =
     (let missing = Thrown (''getBlockTimestamp: missing block number '' @ shown blockNumber) in
      if blockNumber = None \<or> blockNumber = Some 0
      then ask (\<lambda>n. case rpc_getBlock node None n of None \<Rightarrow> Inl missing | Some b \<Rightarrow> Inr (bl_timestamp b))
      else ask (\<lambda>n. case rpc_getBlock node blockNumber n of None \<Rightarrow> Inl missing | Some b \<Rightarrow> Inr (bl_timestamp b)))"

section \<open>Proxies\<close>

definition EIP1967_ADMIN_SLOT :: string where
  "EIP1967_ADMIN_SLOT = ''0xb53127684a568b3173ae13b9f8a6016e243e63b6e8ee1178d6a717850b5d6103''"

definition EIP1967_IMPLEMENTATION_SLOT :: string where
  "EIP1967_IMPLEMENTATION_SLOT = ''0x360894a13ba1a3210667c828492db98dca3e2076cc3735a920a3ca505d382bbc''"

text \<open>\<open>decode\<close> is \<open>defaultAbiCoder.decode(['address'], slot).toString()\<close>.\<close>

definition addressInSlot ::
    "'n rpc \<Rightarrow> address_lib \<Rightarrow> (string \<Rightarrow> string result) \<Rightarrow> string \<Rightarrow> string \<Rightarrow> ('n, string) act" where
  "addressInSlot node lib decode slot proxyAddress =
     abind (ask (rpc_getStorageAt node proxyAddress slot)) (\<lambda>stored.
     areturn (rbind (decode stored) (getAddress lib)))"

definition getProxyAdminBySlot ::
    "'n rpc \<Rightarrow> address_lib \<Rightarrow> (string \<Rightarrow> string result) \<Rightarrow> string \<Rightarrow> ('n, string) act" where
  "getProxyAdminBySlot node lib decode proxyAddress =
     addressInSlot node lib decode ''0xb53127684a568b3173ae13b9f8a6016e243e63b6e8ee1178d6a717850b5d6103'' proxyAddress"

definition getProxyImplementationBySlot ::
    "'n rpc \<Rightarrow> address_lib \<Rightarrow> (string \<Rightarrow> string result) \<Rightarrow> string \<Rightarrow> ('n, string) act" where
  "getProxyImplementationBySlot node lib decode proxyAddress =
     addressInSlot node lib decode EIP1967_IMPLEMENTATION_SLOT proxyAddress"

definition getProxyAdmin ::
    "'n rpc \<Rightarrow> address_lib \<Rightarrow> (string \<Rightarrow> string result) \<Rightarrow> string \<Rightarrow> ('n, string) act" where
  "getProxyAdmin node lib decode proxyAddress = addressInSlot node lib decode EIP1967_ADMIN_SLOT proxyAddress"

section \<open>Accounts\<close>

definition impersonateAccountsHardhat :: "'n rpc \<Rightarrow> string option \<Rightarrow> string list \<Rightarrow> ('n, unit) act" where
  "impersonateAccountsHardhat node TENDERLY accounts =
     (if TENDERLY = Some ''true'' then areturn (Inr ()) else forEach (rpc_impersonate node) accounts)"

text \<open>\<open>implementation\<close> of the proxy, called by its administrator.\<close>

definition getProxyImplementation ::
    "'n rpc \<Rightarrow> (string \<Rightarrow> string \<Rightarrow> 'n \<Rightarrow> string result) \<Rightarrow> string option \<Rightarrow> string \<Rightarrow> string \<Rightarrow> ('n, string) act" where
  "getProxyImplementation node implementation TENDERLY proxyAdminAddress proxyAddress =
     abind (impersonateAccountsHardhat node TENDERLY [proxyAdminAddress]) (\<lambda>_.
     ask (implementation proxyAdminAddress proxyAddress))"

definition usingTenderly_fork :: "string \<Rightarrow> string option \<Rightarrow> bool" where
  "usingTenderly_fork network TENDERLY \<longleftrightarrow> hasSubstring ''tenderly'' network \<or> TENDERLY = Some ''true''"

definition impersonateAddress :: "'n rpc \<Rightarrow> bool \<Rightarrow> string \<Rightarrow> ('n, string) act" where
  "impersonateAddress node tenderly address =
     abind (if tenderly then areturn (Inr ()) else rpc_impersonate node address) (\<lambda>_. areturn (Inr address))"

text \<open>
  \<open>Bluebird.map\<close> starts the calls in order, here one after the other: what the node gets from a call does
  not depend on the others.
\<close>

fun impersonateAddresses :: "'n rpc \<Rightarrow> bool \<Rightarrow> string list \<Rightarrow> ('n, string list) act" where
  "impersonateAddresses node tenderly [] = areturn (Inr [])"
| "impersonateAddresses node tenderly (a # as) =
     abind (impersonateAddress node tenderly a) (\<lambda>s.
     abind (impersonateAddresses node tenderly as) (\<lambda>ss. areturn (Inr (s # ss))))"

record defender_env =
  df_DEFENDER :: "string option"
  df_API_KEY :: "string option"
  df_SECRET_KEY :: "string option"
  df_FORK :: "string option"
  df_relayAddress :: "string \<Rightarrow> string \<Rightarrow> string result"

definition usingDefender :: "defender_env \<Rightarrow> bool" where
  "usingDefender env \<longleftrightarrow> df_DEFENDER env = Some ''true''"

text \<open>The signer is its address; on a fork of the main network it is impersonated.\<close>

definition getDefenderRelaySigner :: "'n rpc \<Rightarrow> defender_env \<Rightarrow> bool \<Rightarrow> ('n, string) act" where
  "getDefenderRelaySigner node env tenderly =
     (if \<not> truthy (df_API_KEY env) \<or> \<not> truthy (df_SECRET_KEY env)
      then areturn (Inl (Thrown ''Defender secrets required''))
      else abind (areturn (df_relayAddress env (the (df_API_KEY env)) (the (df_SECRET_KEY env)))) (\<lambda>defenderAddress.
        abind (if df_FORK env = Some ''main''
               then abind (impersonateAddresses node tenderly [defenderAddress]) (\<lambda>_. areturn (Inr ()))
               else areturn (Inr ())) (\<lambda>_.
        areturn (Inr defenderAddress))))"

definition getEthersSigners :: "'n rpc \<Rightarrow> defender_env \<Rightarrow> bool \<Rightarrow> string list \<Rightarrow> ('n, string list) act" where
  "getEthersSigners node env tenderly ethersSigners =
     (if usingDefender env
      then abind (getDefenderRelaySigner node env tenderly) (\<lambda>relay. areturn (Inr (relay # tl ethersSigners)))
      else areturn (Inr ethersSigners))"

definition getFirstSigner :: "'n rpc \<Rightarrow> defender_env \<Rightarrow> bool \<Rightarrow> string list \<Rightarrow> ('n, string option) act" where
  "getFirstSigner node env tenderly ethersSigners =
     abind (getEthersSigners node env tenderly ethersSigners) (\<lambda>signers.
     areturn (Inr (case signers of [] \<Rightarrow> None | s # _ \<Rightarrow> Some s)))"

section \<open>Files, amounts and signatures\<close>

text \<open>\<open>readJson network i\<close> is the member \<open>address\<close> of the deployment file, if the file can be read.\<close>

definition getAddressFromJson ::
    "(string \<Rightarrow> string \<Rightarrow> string option result) \<Rightarrow> (string \<Rightarrow> string \<Rightarrow> string) \<Rightarrow> string \<Rightarrow> string \<Rightarrow> string result" where
  "getAddressFromJson readJson artifactPath network i =
     rbind (readJson network i) (\<lambda>address.
     if truthy address then Inr (the address) else Inl (Thrown (''Missing artifact at '' @ artifactPath network i)))"

definition parseUnitsFromToken ::
    "artifacts \<Rightarrow> ('w, 'x) chain_scheme \<Rightarrow> 'w \<Rightarrow> string \<Rightarrow> string \<Rightarrow> int result" where
  "parseUnitsFromToken art ch w tokenAddress amount =
     rbind (art IERC20Detailed_artifact) (\<lambda>_.
     rbind (tokenDecimals ch w tokenAddress) (\<lambda>decimals. parseUnits ch amount decimals))"

record delegation_params =
  dg_name :: string
  dg_version :: string
  dg_chainId :: int
  dg_verifyingContract :: string
  dg_delegatee :: string
  dg_value :: int
  dg_nonce :: int
  dg_deadline :: int

definition buildDelegationWithSigParams ::
    "int \<Rightarrow> string \<Rightarrow> string \<Rightarrow> string \<Rightarrow> string \<Rightarrow> int \<Rightarrow> int \<Rightarrow> int \<Rightarrow> delegation_params" where
  "buildDelegationWithSigParams chain token revision tokenName delegatee nonce deadline val =
     \<lparr>dg_name = tokenName, dg_version = revision, dg_chainId = chain, dg_verifyingContract = token,
      dg_delegatee = delegatee, dg_value = val, dg_nonce = nonce, dg_deadline = deadline\<rparr>"

section \<open>Facts\<close>

text \<open>The two helpers that read the administrator of a proxy are the same.\<close>

theorem proxy_admin_helpers_agree: "getProxyAdmin = getProxyAdminBySlot"
  by (intro ext) (simp add: getProxyAdmin_def getProxyAdminBySlot_def EIP1967_ADMIN_SLOT_def)

text \<open>The timestamp of block 0 cannot be asked for: it is the one of the latest block.\<close>

theorem genesis_timestamp_is_latest:
  "rpc_getBlock node None n = Some b \<Longrightarrow> getBlockTimestamp node shown (Some 0) n = (Inr (bl_timestamp b), n)"
  by (simp add: getBlockTimestamp_def ask_def)

text \<open>\<open>impersonateAddresses\<close> returns a signer for every address, in their order.\<close>

lemma impersonateAddresses_Inr:
  "impersonateAddresses node tenderly as n = (Inr ss, n') \<Longrightarrow> ss = as"
  by (induction as arbitrary: n n' ss)
    (auto simp: impersonateAddress_def act_inv simp del: act_steps split: if_splits)

text \<open>With a relay the first signer of the node is replaced, and the others stay.\<close>

theorem relay_replaces_first_signer:
  assumes "getEthersSigners node env tenderly signers n = (Inr ss, n')"
  shows "tl ss = tl signers"
    "usingDefender env \<Longrightarrow> truthy (df_API_KEY env) \<and> truthy (df_SECRET_KEY env) \<and>
      df_relayAddress env (the (df_API_KEY env)) (the (df_SECRET_KEY env)) = Inr (hd ss)"
  using assms
  by (auto simp: getEthersSigners_def getDefenderRelaySigner_def act_inv simp del: act_steps split: if_splits)

end
