(* ===== verification/FlashLoanContract.thy ===== *)
theory FlashLoanContract
  imports ReserveContract Constants
begin

text \<open>
  Flash loans in the contracts: \<open>libraries/logic/FlashLoanLogic.sol\<close> behind \<open>flashLoan\<close>,
  \<open>flashLoanSimple\<close> and \<open>mintToTreasury\<close> of \<open>Pool.sol\<close>, over the reserves of \<open>ReserveContract\<close> and over
  tokens of \<open>ERC20.sol\<close>. A reverting call leaves no state behind. What the receiver of a loan does, and
  the opening of a debt instead of a repayment (\<open>BorrowLogic.executeBorrow\<close>), are arguments; the receiver
  of the tests is \<open>mockExecuteOperation\<close>. Of the events those are kept that the tests look for.
\<close>

section \<open>Tokens\<close>

record erc20 =
  tk_balances :: "string \<Rightarrow> u256"
  tk_allowances :: "string \<Rightarrow> string \<Rightarrow> u256"
  tk_totalSupply :: u256

definition erc20_sub :: "u256 \<Rightarrow> u256 \<Rightarrow> string \<Rightarrow> u256 result" where
  "erc20_sub a b message = (if b \<le> a then Inr (a - b) else Inl (Reverted message))"

definition erc20_add :: "u256 \<Rightarrow> u256 \<Rightarrow> u256 result" where
  "erc20_add a b = (if uint a + uint b < 2 ^ 256 then Inr (a + b) else Inl (Reverted []))"

definition erc20_transfer :: "string \<Rightarrow> string \<Rightarrow> u256 \<Rightarrow> erc20 \<Rightarrow> erc20 result" where
  "erc20_transfer sender recipient amount t =
     rbind (ensure (sender \<noteq> ZERO_ADDRESS) (Reverted ''ERC20: transfer from the zero address'')) (\<lambda>_.
     rbind (ensure (recipient \<noteq> ZERO_ADDRESS) (Reverted ''ERC20: transfer to the zero address'')) (\<lambda>_.
     rbind (erc20_sub (tk_balances t sender) amount ''ERC20: transfer amount exceeds balance'') (\<lambda>rest.
     let t = t\<lparr>tk_balances := (tk_balances t)(sender := rest)\<rparr> in
     rbind (erc20_add (tk_balances t recipient) amount) (\<lambda>got.
     Inr (t\<lparr>tk_balances := (tk_balances t)(recipient := got)\<rparr>)))))"

definition erc20_approve :: "string \<Rightarrow> string \<Rightarrow> u256 \<Rightarrow> erc20 \<Rightarrow> erc20 result" where
  "erc20_approve owner spender amount t =
     rbind (ensure (owner \<noteq> ZERO_ADDRESS) (Reverted ''ERC20: approve from the zero address'')) (\<lambda>_.
     rbind (ensure (spender \<noteq> ZERO_ADDRESS) (Reverted ''ERC20: approve to the zero address'')) (\<lambda>_.
     Inr (t\<lparr>tk_allowances := (tk_allowances t)(owner := (tk_allowances t owner)(spender := amount))\<rparr>)))"

definition erc20_transferFrom :: "string \<Rightarrow> string \<Rightarrow> string \<Rightarrow> u256 \<Rightarrow> erc20 \<Rightarrow> erc20 result" where
  "erc20_transferFrom msgSender sender recipient amount t =
     rbind (erc20_transfer sender recipient amount t) (\<lambda>t.
     rbind (erc20_sub (tk_allowances t sender msgSender) amount ''ERC20: transfer amount exceeds allowance'') (\<lambda>rest.
     erc20_approve sender msgSender rest t))"

definition erc20_mint :: "string \<Rightarrow> u256 \<Rightarrow> erc20 \<Rightarrow> erc20 result" where
  "erc20_mint account amount t =
     rbind (ensure (account \<noteq> ZERO_ADDRESS) (Reverted ''ERC20: mint to the zero address'')) (\<lambda>_.
     rbind (erc20_add (tk_totalSupply t) amount) (\<lambda>supply.
     rbind (erc20_add (tk_balances t account) amount) (\<lambda>got.
     Inr (t\<lparr>tk_totalSupply := supply, tk_balances := (tk_balances t)(account := got)\<rparr>))))"

section \<open>State\<close>

datatype flash_event =
    FlashLoan string string string u256 u256 u256 u256
  | ReserveDataUpdated string u256 u256 u256 u256 u256
  | ExecutedWithSuccess "string list" "u256 list" "u256 list"
  | ExecutedWithFail "string list" "u256 list" "u256 list"
  | MockRepayment string string u256
  | ReserveFlashLoaning string bool

text \<open>The three settings of \<open>MockFlashLoanReceiver\<close>.\<close>

record mock_receiver =
  mk_failExecution :: bool
  mk_amountToApprove :: u256
  mk_simulateEOA :: bool

text \<open>
  The pool, the underlying tokens and, for each asset, what the treasury holds of its token: the scaled
  balance and the index of the last change. \<open>fl_mocked\<close> are the assets whose token is
  \<open>MockRSTokenRepayment\<close>.
\<close>

record flash_world =
  fl_now :: u256
  fl_pool :: string
  fl_reserves :: "string \<Rightarrow> reserve_storage option"
  fl_tokens :: "string \<Rightarrow> erc20 option"
  fl_treasury :: "string \<Rightarrow> 128 word \<times> 128 word"
  fl_premiumTotal :: "128 word"
  fl_premiumToProtocol :: "128 word"
  fl_flashBorrowers :: "string list"
  fl_poolAdmins :: "string list"
  fl_riskAdmins :: "string list"
  fl_mocked :: "string list"
  fl_receiver :: mock_receiver
  fl_events :: "flash_event list"

text \<open>A call to an address without code reverts.\<close>

definition contractAt :: "'a option \<Rightarrow> 'a result" where
  "contractAt c = (case c of None \<Rightarrow> Inl (Reverted ''function call to a non-contract account'') | Some x \<Rightarrow> Inr x)"

definition emit :: "flash_event \<Rightarrow> flash_world \<Rightarrow> flash_world" where
  "emit e w = w\<lparr>fl_events := fl_events w @ [e]\<rparr>"

definition on_token :: "string \<Rightarrow> (erc20 \<Rightarrow> erc20 result) \<Rightarrow> flash_world \<Rightarrow> flash_world result" where
  "on_token asset f w =
     rbind (contractAt (fl_tokens w asset)) (\<lambda>t. rbind (f t) (\<lambda>t. Inr (w\<lparr>fl_tokens := (fl_tokens w)(asset := Some t)\<rparr>)))"

definition balance_of :: "string \<Rightarrow> string \<Rightarrow> flash_world \<Rightarrow> u256 result" where
  "balance_of asset holder w = rbind (contractAt (fl_tokens w asset)) (\<lambda>t. Inr (tk_balances t holder))"

definition put_reserve :: "string \<Rightarrow> reserve_storage \<Rightarrow> flash_world \<Rightarrow> flash_world" where
  "put_reserve asset s w = w\<lparr>fl_reserves := (fl_reserves w)(asset := Some s)\<rparr>"

section \<open>Validation\<close>

text \<open>An asset that is not listed has the configuration 0.\<close>

definition validateFlashloanSimple :: "string \<Rightarrow> flash_world \<Rightarrow> unit result" where
  "validateFlashloanSimple asset w =
     (let configuration = (case fl_reserves w asset of None \<Rightarrow> 0 | Some s \<Rightarrow> rv_configuration s) in
      rbind (ensure (\<not> getPaused configuration) (Reverted ''29'')) (\<lambda>_.
      rbind (ensure (getActive configuration) (Reverted ''27'')) (\<lambda>_.
      ensure (getFlashLoanEnabled configuration) (Reverted ''91''))))"

definition validateFlashloan :: "string list \<Rightarrow> u256 list \<Rightarrow> flash_world \<Rightarrow> unit result" where
  "validateFlashloan assets amounts w =
     rbind (ensure (length assets = length amounts) (Reverted ''49'')) (\<lambda>_.
     foldM (\<lambda>_ asset. validateFlashloanSimple asset w) () assets)"

section \<open>Repayment\<close>

text \<open>
  \<open>updateInterestRates\<close> with its event, on the balance that the token contract of the reserve holds.
\<close>

definition updateRatesAt :: "string \<Rightarrow> u256 \<Rightarrow> u256 \<Rightarrow> reserve_cache \<times> reserve_storage \<Rightarrow> flash_world \<Rightarrow> flash_world result" where
  "updateRatesAt asset liquidityAdded liquidityTaken = (\<lambda>(c, s) w.
     rbind (balance_of asset (rv_RSTokenAddress s) w) (\<lambda>balance.
     rbind (updateInterestRates balance liquidityAdded liquidityTaken (c, s)) (\<lambda>s.
     Inr (emit (ReserveDataUpdated asset (ucast (rv_currentLiquidityRate s)) (ucast (rv_currentStableBorrowRate s))
       (ucast (rv_currentVariableBorrowRate s)) (ch_nextLiquidityIndex c) (ch_nextVariableBorrowIndex c)) (put_reserve asset s w)))))"

definition handleRepayment :: "string \<Rightarrow> string \<Rightarrow> u256 \<Rightarrow> flash_world \<Rightarrow> flash_world" where
  "handleRepayment asset receiverAddress amount w =
     (if asset \<in> set (fl_mocked w) then emit (MockRepayment receiverAddress receiverAddress amount) w else w)"

text \<open>The premium of the suppliers goes to the index, that of the protocol to the treasury.\<close>

definition spreadPremium :: "u256 \<Rightarrow> u256 \<Rightarrow> u256 \<Rightarrow> reserve_storage \<Rightarrow> (reserve_cache \<times> reserve_storage) result" where
  "spreadPremium now premiumToProtocol premiumToLP s =
     rbind (cache now s) (\<lambda>c.
     rbind (updateState_u256 now (c, s)) (\<lambda>(c, s).
     rbind (totalSupply now s) (\<lambda>supply.
     rbind (rayMul_u256 (ucast (rv_accruedToTreasury s)) (ch_nextLiquidityIndex c)) (\<lambda>treasury.
     rbind (uadd supply treasury) (\<lambda>totalLiquidity.
     rbind (cumulateToLiquidityIndex_u256 totalLiquidity premiumToLP s) (\<lambda>(index, s).
     rbind (rayDiv_u256 premiumToProtocol index) (\<lambda>share.
     rbind (toUint128 share) (\<lambda>share.
     rbind (uadd128 (rv_accruedToTreasury s) share) (\<lambda>accrued.
     Inr (c\<lparr>ch_nextLiquidityIndex := index\<rparr>, s\<lparr>rv_accruedToTreasury := accrued\<rparr>))))))))))"

definition handleFlashLoanRepayment ::
    "string \<Rightarrow> string \<Rightarrow> string \<Rightarrow> u256 \<Rightarrow> u256 \<Rightarrow> u256 \<Rightarrow> u256 \<Rightarrow> flash_world \<Rightarrow> flash_world result" where
  "handleFlashLoanRepayment msgSender asset receiverAddress amount totalPremium flashLoanPremiumToProtocol referralCode w =
     rbind (percentMul_u256 totalPremium flashLoanPremiumToProtocol) (\<lambda>premiumToProtocol.
     rbind (usub totalPremium premiumToProtocol) (\<lambda>premiumToLP.
     rbind (uadd amount totalPremium) (\<lambda>amountPlusPremium.
     rbind (contractAt (fl_reserves w asset)) (\<lambda>s.
     rbind (spreadPremium (fl_now w) premiumToProtocol premiumToLP s) (\<lambda>(c, s).
     rbind (updateRatesAt asset amountPlusPremium 0 (c, s) w) (\<lambda>w.
     rbind (on_token asset (erc20_transferFrom (fl_pool w) receiverAddress (rv_RSTokenAddress s) amountPlusPremium) w) (\<lambda>w.
     Inr (emit (FlashLoan receiverAddress msgSender asset amount 0 totalPremium referralCode)
       (handleRepayment asset receiverAddress amountPlusPremium w)))))))))"

section \<open>Loans\<close>

definition transferUnderlyingTo :: "string \<Rightarrow> string \<Rightarrow> u256 \<Rightarrow> flash_world \<Rightarrow> flash_world result" where
  "transferUnderlyingTo asset target amount w =
     rbind (contractAt (fl_reserves w asset)) (\<lambda>s.
     on_token asset (erc20_transfer (rv_RSTokenAddress s) target amount) w)"

text \<open>What a receiver is called with, and the call itself: its answer, and the state it leaves.\<close>

record flash_call =
  fc_assets :: "string list"
  fc_amounts :: "u256 list"
  fc_premiums :: "u256 list"
  fc_initiator :: string
  fc_params :: string

type_synonym receiver = "flash_call \<Rightarrow> flash_world \<Rightarrow> (bool \<times> flash_world) result"

record borrow_call =
  bc_asset :: string
  bc_user :: string
  bc_onBehalfOf :: string
  bc_amount :: u256
  bc_interestRateMode :: u256
  bc_referralCode :: u256

type_synonym borrow = "borrow_call \<Rightarrow> flash_world \<Rightarrow> flash_world result"

definition executeFlashLoanSimple ::
    "(string \<Rightarrow> receiver option) \<Rightarrow> string \<Rightarrow> string \<Rightarrow> string \<Rightarrow> u256 \<Rightarrow> string \<Rightarrow> u256 \<Rightarrow> u256 \<Rightarrow> u256 \<Rightarrow>
       flash_world \<Rightarrow> flash_world result" where
  "executeFlashLoanSimple code msgSender receiverAddress asset amount params referralCode premiumToProtocol premiumTotal w =
     rbind (validateFlashloanSimple asset w) (\<lambda>_.
     rbind (percentMul_u256 amount premiumTotal) (\<lambda>totalPremium.
     rbind (transferUnderlyingTo asset receiverAddress amount w) (\<lambda>w.
     rbind (contractAt (code receiverAddress)) (\<lambda>receiver.
     rbind (receiver \<lparr>fc_assets = [asset], fc_amounts = [amount], fc_premiums = [totalPremium], fc_initiator = msgSender,
       fc_params = params\<rparr> w) (\<lambda>(accepted, w).
     rbind (ensure accepted (Reverted ''13'')) (\<lambda>_.
     handleFlashLoanRepayment msgSender asset receiverAddress amount totalPremium premiumToProtocol referralCode w))))))"

record flash_params =
  fp_receiverAddress :: string
  fp_assets :: "string list"
  fp_amounts :: "u256 list"
  fp_interestRateModes :: "u256 list"
  fp_onBehalfOf :: string
  fp_params :: string
  fp_referralCode :: u256
  fp_flashLoanPremiumToProtocol :: u256
  fp_flashLoanPremiumTotal :: u256
  fp_isAuthorizedFlashBorrower :: bool

text \<open>A mode that is no \<open>InterestRateMode\<close> panics; so does a missing one.\<close>

definition interestRateMode :: "u256 \<Rightarrow> u256 result" where
  "interestRateMode m = (if m \<le> 2 then Inr m else Inl (Reverted ''panic 0x21''))"

fun releaseFunds :: "u256 \<Rightarrow> string \<Rightarrow> (string \<times> u256) list \<Rightarrow> u256 list \<Rightarrow> flash_world \<Rightarrow> (u256 list \<times> flash_world) result" where
  "releaseFunds premiumTotal receiverAddress [] modes w = Inr ([], w)"
| "releaseFunds premiumTotal receiverAddress ((asset, amount) # loans) [] w = Inl (Reverted ''panic 0x32'')"
| "releaseFunds premiumTotal receiverAddress ((asset, amount) # loans) (m # modes) w =
     rbind (interestRateMode m) (\<lambda>mode.
     rbind (if mode = 0 then percentMul_u256 amount premiumTotal else Inr 0) (\<lambda>premium.
     rbind (transferUnderlyingTo asset receiverAddress amount w) (\<lambda>w.
     rbind (releaseFunds premiumTotal receiverAddress loans modes w) (\<lambda>(premiums, w).
     Inr (premium # premiums, w)))))"

definition settleLoan :: "borrow \<Rightarrow> string \<Rightarrow> flash_params \<Rightarrow> u256 \<Rightarrow> string \<times> u256 \<times> u256 \<times> u256 \<Rightarrow> flash_world \<Rightarrow> flash_world result" where
  "settleLoan executeBorrow msgSender params premiumToProtocol = (\<lambda>(asset, amount, mode, premium) w.
     if mode = 0 then
       handleFlashLoanRepayment msgSender asset (fp_receiverAddress params) amount premium premiumToProtocol (fp_referralCode params) w
     else
       rbind (executeBorrow \<lparr>bc_asset = asset, bc_user = msgSender, bc_onBehalfOf = fp_onBehalfOf params, bc_amount = amount,
         bc_interestRateMode = mode, bc_referralCode = fp_referralCode params\<rparr> w) (\<lambda>w.
       Inr (emit (FlashLoan (fp_receiverAddress params) msgSender asset amount mode 0 (fp_referralCode params)) w)))"

definition executeFlashLoan :: "(string \<Rightarrow> receiver option) \<Rightarrow> borrow \<Rightarrow> string \<Rightarrow> flash_params \<Rightarrow> flash_world \<Rightarrow> flash_world result" where
  "executeFlashLoan code executeBorrow msgSender params w =
     rbind (validateFlashloan (fp_assets params) (fp_amounts params) w) (\<lambda>_.
     let (premiumTotal, premiumToProtocol) =
       (if fp_isAuthorizedFlashBorrower params then (0, 0)
        else (fp_flashLoanPremiumTotal params, fp_flashLoanPremiumToProtocol params)) in
     rbind (releaseFunds premiumTotal (fp_receiverAddress params) (zip (fp_assets params) (fp_amounts params))
       (fp_interestRateModes params) w) (\<lambda>(premiums, w).
     rbind (contractAt (code (fp_receiverAddress params))) (\<lambda>receiver.
     rbind (receiver \<lparr>fc_assets = fp_assets params, fc_amounts = fp_amounts params, fc_premiums = premiums,
       fc_initiator = msgSender, fc_params = fp_params params\<rparr> w) (\<lambda>(accepted, w).
     rbind (ensure accepted (Reverted ''13'')) (\<lambda>_.
     foldM (\<lambda>w loan. settleLoan executeBorrow msgSender params premiumToProtocol loan w) w
       (zip (fp_assets params) (zip (fp_amounts params) (zip (fp_interestRateModes params) premiums))))))))"

section \<open>The pool\<close>

definition flashLoan ::
    "(string \<Rightarrow> receiver option) \<Rightarrow> borrow \<Rightarrow> string \<Rightarrow> string \<Rightarrow> string list \<Rightarrow> u256 list \<Rightarrow> u256 list \<Rightarrow> string \<Rightarrow> string \<Rightarrow>
       u256 \<Rightarrow> flash_world \<Rightarrow> flash_world result" where
  "flashLoan code executeBorrow msgSender receiverAddress assets amounts interestRateModes onBehalfOf params referralCode w =
     executeFlashLoan code executeBorrow msgSender
       \<lparr>fp_receiverAddress = receiverAddress, fp_assets = assets, fp_amounts = amounts, fp_interestRateModes = interestRateModes,
        fp_onBehalfOf = onBehalfOf, fp_params = params, fp_referralCode = referralCode,
        fp_flashLoanPremiumToProtocol = ucast (fl_premiumToProtocol w), fp_flashLoanPremiumTotal = ucast (fl_premiumTotal w),
        fp_isAuthorizedFlashBorrower = msgSender \<in> set (fl_flashBorrowers w)\<rparr> w"

definition flashLoanSimple ::
    "(string \<Rightarrow> receiver option) \<Rightarrow> string \<Rightarrow> string \<Rightarrow> string \<Rightarrow> u256 \<Rightarrow> string \<Rightarrow> u256 \<Rightarrow> flash_world \<Rightarrow> flash_world result" where
  "flashLoanSimple code msgSender receiverAddress asset amount params referralCode w =
     executeFlashLoanSimple code msgSender receiverAddress asset amount params referralCode
       (ucast (fl_premiumToProtocol w)) (ucast (fl_premiumTotal w)) w"

text \<open>
  \<open>mintToTreasury\<close> of the token: the treasury is minted the scaled amount. The interest since its last
  index is only reported, but the subtraction is checked.
\<close>

definition mintScaled :: "string \<Rightarrow> u256 \<Rightarrow> u256 \<Rightarrow> reserve_storage \<Rightarrow> flash_world \<Rightarrow> (reserve_storage \<times> flash_world) result" where
  "mintScaled asset amount index s w =
     (let (balance, last) = fl_treasury w asset in
      rbind (rayDiv_u256 amount index) (\<lambda>amountScaled.
      rbind (ensure (amountScaled \<noteq> 0) (Reverted ''24'')) (\<lambda>_.
      rbind (rayMul_u256 (ucast balance) index) (\<lambda>now.
      rbind (rayMul_u256 (ucast balance) (ucast last)) (\<lambda>earlier.
      rbind (usub now earlier) (\<lambda>balanceIncrease.
      rbind (toUint128 index) (\<lambda>index.
      rbind (toUint128 amountScaled) (\<lambda>scaled.
      rbind (uadd (rv_scaledSupply s) (ucast scaled)) (\<lambda>supply.
      rbind (uadd128 balance scaled) (\<lambda>balance.
      rbind (uadd amount balanceIncrease) (\<lambda>_.
      Inr (s\<lparr>rv_scaledSupply := supply\<rparr>, w\<lparr>fl_treasury := (fl_treasury w)(asset := (balance, index))\<rparr>))))))))))))"

definition mintToTreasuryOf :: "flash_world \<Rightarrow> string \<Rightarrow> flash_world result" where
  "mintToTreasuryOf w asset =
     (case fl_reserves w asset of None \<Rightarrow> Inr w
      | Some s \<Rightarrow>
          if \<not> getActive (rv_configuration s) \<or> rv_accruedToTreasury s = 0 then Inr w
          else
            (let accruedToTreasury = ucast (rv_accruedToTreasury s); s = s\<lparr>rv_accruedToTreasury := 0\<rparr> in
             rbind (getNormalizedIncome (fl_now w) s) (\<lambda>normalizedIncome.
             rbind (rayMul_u256 accruedToTreasury normalizedIncome) (\<lambda>amountToMint.
             if amountToMint = 0 then Inr (put_reserve asset s w)
             else rbind (mintScaled asset amountToMint normalizedIncome s w) (\<lambda>(s, w). Inr (put_reserve asset s w))))))"

definition mintToTreasury :: "string list \<Rightarrow> flash_world \<Rightarrow> flash_world result" where
  "mintToTreasury assets w = foldM mintToTreasuryOf w assets"

section \<open>The receiver of the tests\<close>

fun mockReturnFunds :: "string \<Rightarrow> string list \<Rightarrow> u256 list \<Rightarrow> u256 list \<Rightarrow> flash_world \<Rightarrow> flash_world result" where
  "mockReturnFunds self [] amounts premiums w = Inr w"
| "mockReturnFunds self (asset # assets) (amount # amounts) (premium # premiums) w =
     rbind (balance_of asset self w) (\<lambda>balance.
     rbind (ensure (amount \<le> balance) (Reverted ''Invalid balance for the contract'')) (\<lambda>_.
     rbind (if mk_amountToApprove (fl_receiver w) \<noteq> 0 then Inr (mk_amountToApprove (fl_receiver w)) else uadd amount premium)
       (\<lambda>amountToReturn.
     rbind (on_token asset (erc20_mint self premium) w) (\<lambda>w.
     rbind (on_token asset (erc20_approve self (fl_pool w) amountToReturn) w) (\<lambda>w.
     mockReturnFunds self assets amounts premiums w)))))"
| "mockReturnFunds self (asset # assets) amounts premiums w = Inl (Reverted ''panic 0x32'')"

definition mockExecuteOperation :: "string \<Rightarrow> receiver" where
  "mockExecuteOperation self call w =
     (if mk_failExecution (fl_receiver w) then
        Inr (\<not> mk_simulateEOA (fl_receiver w), emit (ExecutedWithFail (fc_assets call) (fc_amounts call) (fc_premiums call)) w)
      else
        rbind (mockReturnFunds self (fc_assets call) (fc_amounts call) (fc_premiums call) w) (\<lambda>w.
        Inr (True, emit (ExecutedWithSuccess (fc_assets call) (fc_amounts call) (fc_premiums call)) w)))"

end
