(* ===== verification/FlashLoanTests.thy ===== *)
theory FlashLoanTests
  imports FlashLoanContract WadRayMath ProtocolTypes
begin

text \<open>
  The flash-loan tests of \<open>test-suites/pool-flashloan.spec copy.ts\<close> that are repaid or revert, as scripts
  over the pool of \<open>FlashLoanContract\<close>: a failed expectation ends a test. The tests that first supply
  collateral, and those that open a debt, rest on lending operations that are not modelled.
\<close>

section \<open>Sending and expecting\<close>

text \<open>
  The environment: the assets, the receiver, the accounts, the code at an address, the opening of debts,
  and what mining a block does to the time.
\<close>

record flash_env =
  fe_weth :: string
  fe_rusd :: string
  fe_cgo :: string
  fe_eurs :: string
  fe_mockFlashLoanReceiver :: string
  fe_deployer :: string
  fe_users :: "string list"
  fe_code :: "string \<Rightarrow> receiver option"
  fe_executeBorrow :: borrow
  fe_mine :: "flash_world \<Rightarrow> flash_world"

definition send :: "flash_env \<Rightarrow> (flash_world \<Rightarrow> flash_world result) \<Rightarrow> flash_world \<Rightarrow> flash_world result" where
  "send env tx w = tx (fe_mine env w)"

definition expect :: "bool \<Rightarrow> unit result" where
  "expect c = ensure c (AssertionError ''expect'')"

definition closeTo :: "int \<Rightarrow> int \<Rightarrow> int \<Rightarrow> bool" where
  "closeTo a b delta \<longleftrightarrow> \<bar>a - b\<bar> \<le> delta"

text \<open>A transaction that reverts is refused when its gas is estimated: nothing is mined.\<close>

definition expectReverted :: "flash_env \<Rightarrow> (string \<Rightarrow> bool) \<Rightarrow> (flash_world \<Rightarrow> flash_world result) \<Rightarrow> flash_world \<Rightarrow> flash_world result" where
  "expectReverted env message tx w =
     (case send env tx w of
        Inl (Reverted m) \<Rightarrow> rbind (expect (message m)) (\<lambda>_. Inr w)
      | Inl e \<Rightarrow> Inl e
      | Inr _ \<Rightarrow> Inl (AssertionError ''expect''))"

definition protocolError :: "string \<Rightarrow> string \<Rightarrow> bool" where
  "protocolError name m \<longleftrightarrow> obj_get ProtocolErrors name = Some m"

text \<open>What a transaction emitted.\<close>

definition events_since :: "flash_world \<Rightarrow> flash_world \<Rightarrow> flash_event list" where
  "events_since earlier later = drop (length (fl_events earlier)) (fl_events later)"

definition testFlashLoan :: "flash_env \<Rightarrow> string \<Rightarrow> string \<Rightarrow> string list \<Rightarrow> u256 list \<Rightarrow> u256 list \<Rightarrow> string \<Rightarrow> flash_world \<Rightarrow> flash_world result" where
  "testFlashLoan env caller receiverAddress assets amounts modes onBehalfOf =
     flashLoan (fe_code env) (fe_executeBorrow env) caller receiverAddress assets amounts modes onBehalfOf ''0x10'' 0"

section \<open>Reading the pool\<close>

text \<open>Of \<open>getReserveData\<close> of the data provider, what the tests read.\<close>

record flash_reserve_data =
  fd_totalRSToken :: int
  fd_liquidityRate :: int
  fd_stableBorrowRate :: int
  fd_variableBorrowRate :: int
  fd_liquidityIndex :: int
  fd_variableBorrowIndex :: int

definition getReserveData_flash :: "string \<Rightarrow> flash_world \<Rightarrow> flash_reserve_data result" where
  "getReserveData_flash asset w =
     rbind (contractAt (fl_reserves w asset)) (\<lambda>s.
     rbind (totalSupply (fl_now w) s) (\<lambda>totalRSToken.
     Inr \<lparr>fd_totalRSToken = uint totalRSToken, fd_liquidityRate = uint (rv_currentLiquidityRate s),
       fd_stableBorrowRate = uint (rv_currentStableBorrowRate s), fd_variableBorrowRate = uint (rv_currentVariableBorrowRate s),
       fd_liquidityIndex = uint (rv_liquidityIndex s), fd_variableBorrowIndex = uint (rv_variableBorrowIndex s)\<rparr>))"

text \<open>\<open>balanceOf\<close> of the treasury at the token of an asset.\<close>

definition treasuryBalance :: "string \<Rightarrow> flash_world \<Rightarrow> int result" where
  "treasuryBalance asset w =
     rbind (contractAt (fl_reserves w asset)) (\<lambda>s.
     rbind (getNormalizedIncome (fl_now w) s) (\<lambda>income.
     rbind (rayMul_u256 (ucast (fst (fl_treasury w asset))) income) (\<lambda>balance.
     Inr (uint balance))))"

text \<open>\<open>const totalFees = ..., feesToProtocol = ..., feesToLp = ...\<close> of the tests.\<close>

definition TOTAL_PREMIUM :: int where "TOTAL_PREMIUM = 9"
definition PREMIUM_TO_PROTOCOL :: int where "PREMIUM_TO_PROTOCOL = 3000"

definition expectedFees :: "int \<Rightarrow> int \<times> int \<times> int" where
  "expectedFees amount =
     (let totalFees = (amount * TOTAL_PREMIUM) sdiv 10000; feesToProtocol = (totalFees * PREMIUM_TO_PROTOCOL) sdiv 10000
      in (totalFees, feesToProtocol, totalFees - feesToProtocol))"

definition liquidityIndexAdded :: "int \<Rightarrow> int \<Rightarrow> int result" where
  "liquidityIndexAdded feesToLp supply = bn_div (feesToLp * 10 ^ 27) supply"

section \<open>The tests\<close>

text \<open>\<open>updateFlashloanPremiumTotal\<close> and \<open>updateFlashloanPremiumToProtocol\<close> of the configurator.\<close>

definition updateFlashloanPremiumTotal_flash :: "string \<Rightarrow> 128 word \<Rightarrow> flash_world \<Rightarrow> flash_world result" where
  "updateFlashloanPremiumTotal_flash msgSender newTotal w =
     rbind (ensure (msgSender \<in> set (fl_poolAdmins w)) (Reverted ''1'')) (\<lambda>_.
     rbind (ensure (ucast newTotal \<le> PERCENTAGE_FACTOR_u256) (Reverted ''19'')) (\<lambda>_.
     Inr (w\<lparr>fl_premiumTotal := newTotal\<rparr>)))"

definition updateFlashloanPremiumToProtocol_flash :: "string \<Rightarrow> 128 word \<Rightarrow> flash_world \<Rightarrow> flash_world result" where
  "updateFlashloanPremiumToProtocol_flash msgSender newToProtocol w =
     rbind (ensure (msgSender \<in> set (fl_poolAdmins w)) (Reverted ''1'')) (\<lambda>_.
     rbind (ensure (ucast newToProtocol \<le> PERCENTAGE_FACTOR_u256) (Reverted ''19'')) (\<lambda>_.
     Inr (w\<lparr>fl_premiumToProtocol := newToProtocol\<rparr>)))"

definition setsPremiums :: "flash_env \<Rightarrow> flash_world \<Rightarrow> flash_world result" where
  "setsPremiums env w =
     rbind (send env (updateFlashloanPremiumTotal_flash (fe_deployer env) (word_of_int TOTAL_PREMIUM)) w) (\<lambda>w.
     rbind (send env (updateFlashloanPremiumToProtocol_flash (fe_deployer env) (word_of_int PREMIUM_TO_PROTOCOL)) w) (\<lambda>w.
     rbind (expect (uint (fl_premiumTotal w) = TOTAL_PREMIUM)) (\<lambda>_.
     rbind (expect (uint (fl_premiumToProtocol w) = PREMIUM_TO_PROTOCOL)) (\<lambda>_.
     Inr w))))"

text \<open>The expectations on one asset, and on the rates and indexes that the loan announced.\<close>

definition expectLoanEarned :: "int \<times> int \<times> int \<Rightarrow> int \<Rightarrow> flash_reserve_data \<Rightarrow> int \<Rightarrow> flash_reserve_data \<Rightarrow> int \<Rightarrow> unit result" where
  "expectLoanEarned = (\<lambda>(totalFees, feesToProtocol, feesToLp) indexAdded dataBefore reservesBefore after reservesAfter.
     rbind (expect (closeTo (fd_totalRSToken dataBefore + totalFees) (fd_totalRSToken after) 2)) (\<lambda>_.
     rbind (expect (fd_liquidityRate after = 0)) (\<lambda>_.
     rbind (expect (fd_liquidityIndex after = fd_liquidityIndex dataBefore + indexAdded)) (\<lambda>_.
     expect (reservesAfter = reservesBefore + feesToProtocol)))))"

definition expectAnnounced :: "flash_world \<Rightarrow> flash_event \<Rightarrow> unit result" where
  "expectAnnounced w e =
     (case e of ReserveDataUpdated reserve lr sr vr li vi \<Rightarrow>
        rbind (getReserveData_flash reserve w) (\<lambda>d.
        rbind (expect (fd_liquidityRate d = uint lr)) (\<lambda>_.
        rbind (expect (fd_stableBorrowRate d = uint sr)) (\<lambda>_.
        rbind (expect (fd_variableBorrowRate d = uint vr)) (\<lambda>_.
        rbind (expect (fd_liquidityIndex d = uint li)) (\<lambda>_.
        expect (fd_variableBorrowIndex d = uint vi))))))
      | _ \<Rightarrow> Inr ())"

definition takesTwoLoans :: "flash_env \<Rightarrow> flash_world \<Rightarrow> flash_world result" where
  "takesTwoLoans env w =
     (let weth = fe_weth env; rusd = fe_rusd env;
          wethAmount = 800000000000000000; rusdAmount = 300000000000000000;
          wethFees = expectedFees wethAmount; rusdFees = expectedFees rusdAmount in
      rbind (getReserveData_flash weth w) (\<lambda>wethBefore.
      rbind (getReserveData_flash rusd w) (\<lambda>rusdBefore.
      rbind (liquidityIndexAdded (snd (snd wethFees)) (fd_totalRSToken wethBefore)) (\<lambda>wethIndexAdded.
      rbind (liquidityIndexAdded (snd (snd rusdFees)) (fd_totalRSToken rusdBefore)) (\<lambda>rusdIndexAdded.
      rbind (treasuryBalance weth w) (\<lambda>wethReservesBefore.
      rbind (treasuryBalance rusd w) (\<lambda>rusdReservesBefore.
      rbind (send env (testFlashLoan env (fe_deployer env) (fe_mockFlashLoanReceiver env) [weth, rusd]
        [word_of_int wethAmount, word_of_int rusdAmount] [0, 0] (fe_mockFlashLoanReceiver env)) w) (\<lambda>w1.
      rbind (send env (mintToTreasury [weth, rusd]) w1) (\<lambda>w2.
      rbind (getReserveData_flash weth w2) (\<lambda>wethAfter.
      rbind (getReserveData_flash rusd w2) (\<lambda>rusdAfter.
      rbind (treasuryBalance weth w2) (\<lambda>wethReservesAfter.
      rbind (treasuryBalance rusd w2) (\<lambda>rusdReservesAfter.
      rbind (expectLoanEarned wethFees wethIndexAdded wethBefore wethReservesBefore wethAfter wethReservesAfter) (\<lambda>_.
      rbind (expectLoanEarned rusdFees rusdIndexAdded rusdBefore rusdReservesBefore rusdAfter rusdReservesAfter) (\<lambda>_.
      rbind (foldM (\<lambda>_ e. expectAnnounced w2 e) () (events_since w w1)) (\<lambda>_.
      Inr w2))))))))))))))))"

text \<open>\<open>addFlashBorrower\<close> is sent by the administrator of the roles.\<close>

definition takesAuthorizedLoan :: "flash_env \<Rightarrow> flash_world \<Rightarrow> flash_world result" where
  "takesAuthorizedLoan env w =
     rbind (send env (\<lambda>w. Inr (w\<lparr>fl_flashBorrowers := fe_users env ! 3 # fl_flashBorrowers w\<rparr>)) w) (\<lambda>w.
     let flashBorrowedAmount = 800000000000000000; totalFees = 0 in
     rbind (getReserveData_flash (fe_cgo env) w) (\<lambda>dataBefore.
     rbind (send env (testFlashLoan env (fe_users env ! 3) (fe_mockFlashLoanReceiver env) [fe_cgo env]
       [word_of_int flashBorrowedAmount] [0] (fe_mockFlashLoanReceiver env)) w) (\<lambda>w1.
     rbind (expect (ExecutedWithSuccess [fe_cgo env] [word_of_int flashBorrowedAmount] [0] \<in> set (events_since w w1))) (\<lambda>_.
     rbind (send env (mintToTreasury [fe_cgo env]) w1) (\<lambda>w2.
     rbind (getReserveData_flash (fe_cgo env) w2) (\<lambda>after.
     rbind (expect (closeTo (fd_totalRSToken dataBefore + totalFees) (fd_totalRSToken after) 2)) (\<lambda>_.
     Inr w2)))))))"

definition takesWholeLiquidity :: "flash_env \<Rightarrow> flash_world \<Rightarrow> flash_world result" where
  "takesWholeLiquidity env w =
     (let weth = fe_weth env in
      rbind (getReserveData_flash weth w) (\<lambda>dataBefore.
      let flashBorrowedAmount = fd_totalRSToken dataBefore; (totalFees, feesToProtocol, feesToLp) = expectedFees flashBorrowedAmount in
      rbind (liquidityIndexAdded feesToLp (fd_totalRSToken dataBefore)) (\<lambda>perToken.
      let indexAdded = (perToken * fd_liquidityIndex dataBefore) sdiv 10 ^ 27 in
      rbind (treasuryBalance weth w) (\<lambda>reservesBefore.
      rbind (send env (testFlashLoan env (fe_deployer env) (fe_mockFlashLoanReceiver env) [weth]
        [word_of_int flashBorrowedAmount] [0] (fe_mockFlashLoanReceiver env)) w) (\<lambda>w1.
      rbind (expect (FlashLoan (fe_mockFlashLoanReceiver env) (fe_deployer env) weth (word_of_int flashBorrowedAmount) 0
        (word_of_int ((flashBorrowedAmount * 9) sdiv 10000)) 0 \<in> set (events_since w w1))) (\<lambda>_.
      rbind (send env (mintToTreasury [weth]) w1) (\<lambda>w2.
      rbind (getReserveData_flash weth w2) (\<lambda>after.
      rbind (treasuryBalance weth w2) (\<lambda>reservesAfter.
      rbind (expect (closeTo (fd_totalRSToken dataBefore + totalFees) (fd_totalRSToken after) 2)) (\<lambda>_.
      rbind (expect (fd_liquidityRate after = 0)) (\<lambda>_.
      rbind (expect (fd_liquidityIndex after = fd_liquidityIndex dataBefore + indexAdded)) (\<lambda>_.
      rbind (bn_div ((reservesAfter - feesToProtocol) * fd_liquidityIndex dataBefore) (fd_liquidityIndex after)) (\<lambda>earlier.
      rbind (expect (closeTo earlier reservesBefore 2)) (\<lambda>_.
      Inr w2))))))))))))))"

text \<open>\<open>setReserveFlashLoaning\<close> of the configurator.\<close>

definition setFlashLoaning :: "string \<Rightarrow> string \<Rightarrow> bool \<Rightarrow> flash_world \<Rightarrow> flash_world result" where
  "setFlashLoaning msgSender asset enabled w =
     rbind (ensure (msgSender \<in> set (fl_riskAdmins w) \<union> set (fl_poolAdmins w)) (Reverted ''4'')) (\<lambda>_.
     rbind (case fl_reserves w asset of None \<Rightarrow> Inl (Reverted ''82'') | Some s \<Rightarrow> Inr s) (\<lambda>s.
     Inr (emit (ReserveFlashLoaning asset enabled)
       (put_reserve asset (s\<lparr>rv_configuration := setFlashLoanEnabled_bits (rv_configuration s) enabled\<rparr>) w))))"

definition flashLoanEnabled :: "string \<Rightarrow> flash_world \<Rightarrow> bool result" where
  "flashLoanEnabled asset w = rbind (contractAt (fl_reserves w asset)) (\<lambda>s. Inr (getFlashLoanEnabled (rv_configuration s)))"

definition disablesLoans :: "flash_env \<Rightarrow> flash_world \<Rightarrow> flash_world result" where
  "disablesLoans env w =
     (let weth = fe_weth env in
      rbind (send env (setFlashLoaning (fe_deployer env) weth False) w) (\<lambda>w.
      rbind (flashLoanEnabled weth w) (\<lambda>enabled.
      rbind (expect (enabled = False)) (\<lambda>_.
      rbind (getReserveData_flash weth w) (\<lambda>d.
      rbind (expectReverted env (protocolError ''FLASHLOAN_DISABLED'') (testFlashLoan env (fe_deployer env)
        (fe_mockFlashLoanReceiver env) [weth] [word_of_int (fd_totalRSToken d)] [0] (fe_mockFlashLoanReceiver env)) w) (\<lambda>w.
      rbind (send env (setFlashLoaning (fe_deployer env) weth True) w) (\<lambda>w1.
      rbind (expect (ReserveFlashLoaning weth True \<in> set (events_since w w1))) (\<lambda>_.
      rbind (flashLoanEnabled weth w1) (\<lambda>enabled.
      rbind (expect (enabled = True)) (\<lambda>_.
      Inr w1))))))))))"

definition setFailExecutionTransfer :: "bool \<Rightarrow> flash_world \<Rightarrow> flash_world result" where
  "setFailExecutionTransfer fail w = Inr (w\<lparr>fl_receiver := (fl_receiver w)\<lparr>mk_failExecution := fail\<rparr>\<rparr>)"

definition setSimulateEOA :: "bool \<Rightarrow> flash_world \<Rightarrow> flash_world result" where
  "setSimulateEOA flag w = Inr (w\<lparr>fl_receiver := (fl_receiver w)\<lparr>mk_simulateEOA := flag\<rparr>\<rparr>)"

definition wethLoanOf :: "flash_env \<Rightarrow> string \<Rightarrow> int \<Rightarrow> u256 \<Rightarrow> string \<Rightarrow> flash_world \<Rightarrow> flash_world result" where
  "wethLoanOf env receiverAddress amount mode caller =
     testFlashLoan env caller receiverAddress [fe_weth env] [word_of_int amount] [mode] caller"

definition keepsTheFunds :: "flash_env \<Rightarrow> flash_world \<Rightarrow> flash_world result" where
  "keepsTheFunds env w =
     rbind (send env (setFailExecutionTransfer True) w) (\<lambda>w.
     expectReverted env (\<lambda>_. True) (wethLoanOf env (fe_mockFlashLoanReceiver env) 800000000000000000 0 (fe_users env ! 1)) w)"

definition simulatesEOA :: "flash_env \<Rightarrow> flash_world \<Rightarrow> flash_world result" where
  "simulatesEOA env w =
     rbind (send env (setFailExecutionTransfer True) w) (\<lambda>w.
     rbind (send env (setSimulateEOA True) w) (\<lambda>w.
     expectReverted env (protocolError ''INVALID_FLASHLOAN_EXECUTOR_RETURN'')
       (wethLoanOf env (fe_mockFlashLoanReceiver env) 800000000000000000 0 (fe_users env ! 1)) w))"

definition asksForInvalidMode :: "flash_env \<Rightarrow> flash_world \<Rightarrow> flash_world result" where
  "asksForInvalidMode env w =
     rbind (send env (setSimulateEOA False) w) (\<lambda>w.
     rbind (send env (setFailExecutionTransfer True) w) (\<lambda>w.
     expectReverted env (\<lambda>_. True) (wethLoanOf env (fe_mockFlashLoanReceiver env) 800000000000000000 4 (fe_users env ! 1)) w))"

definition asksForTooMuch :: "flash_env \<Rightarrow> flash_world \<Rightarrow> flash_world result" where
  "asksForTooMuch env w =
     expectReverted env (\<lambda>_. True) (wethLoanOf env (fe_mockFlashLoanReceiver env) 1004415000000000000 2 (fe_users env ! 1)) w"

definition lendsToNoContract :: "flash_env \<Rightarrow> flash_world \<Rightarrow> flash_world result" where
  "lendsToNoContract env w =
     expectReverted env (\<lambda>_. True) (testFlashLoan env (fe_deployer env) (fe_deployer env) [fe_weth env]
       [word_of_int 1000000000000000000] [2] (fe_users env ! 1)) w"

text \<open>500 units of the asset, as \<open>convertToCurrencyDecimals\<close> counts them.\<close>

definition takesEurs :: "flash_env \<Rightarrow> int \<Rightarrow> flash_world \<Rightarrow> flash_world result" where
  "takesEurs env eursDecimals w =
     rbind (send env (setFailExecutionTransfer False) w) (\<lambda>w.
     let eurs = fe_eurs env; flashBorrowedAmount = 500 * 10 ^ nat eursDecimals; fees = expectedFees flashBorrowedAmount in
     rbind (getReserveData_flash eurs w) (\<lambda>dataBefore.
     rbind (liquidityIndexAdded (snd (snd fees)) (fd_totalRSToken dataBefore)) (\<lambda>indexAdded.
     rbind (treasuryBalance eurs w) (\<lambda>reservesBefore.
     rbind (send env (testFlashLoan env (fe_deployer env) (fe_mockFlashLoanReceiver env) [eurs]
       [word_of_int flashBorrowedAmount] [0] (fe_mockFlashLoanReceiver env)) w) (\<lambda>w1.
     rbind (send env (mintToTreasury [eurs]) w1) (\<lambda>w2.
     rbind (getReserveData_flash eurs w2) (\<lambda>after.
     rbind (treasuryBalance eurs w2) (\<lambda>reservesAfter.
     rbind (expectLoanEarned fees indexAdded dataBefore reservesBefore after reservesAfter) (\<lambda>_.
     rbind (expect (MockRepayment (fe_mockFlashLoanReceiver env) (fe_mockFlashLoanReceiver env)
       (word_of_int (flashBorrowedAmount + fst fees)) \<in> set (events_since w w1))) (\<lambda>_.
     Inr w2))))))))))"

end
