(* ===== verification/ReserveContractProps.thy ===== *)
theory ReserveContractProps
  imports ReserveContract ReserveUpdate RateBounds
begin

text \<open>
  The calculations that the tests expect are the accounting of the contract: every step of
  \<open>ReserveContract\<close> that does not revert is the step of \<open>calculations.ts\<close> on the numbers its words hold.
\<close>

section \<open>Interest\<close>

lemma uint_year: "uint SECONDS_PER_YEAR = ONE_YEAR" "uint (SECONDS_PER_YEAR * SECONDS_PER_YEAR) = ONE_YEAR * ONE_YEAR"
  by (simp_all add: SECONDS_PER_YEAR_def const_simps)

lemma word_zero: "(a :: u256) = 0 \<longleftrightarrow> uint a = 0"
  by (simp add: word_uint_eq_iff)

lemmas year_steps = word_steps umul_iff uint_div uint_year uint_RAY

lemma linear_interest_refines:
  assumes "calculateLinearInterest_u256 rate t now = Inr x"
  shows "calcLinearInterest (uint rate) (uint now) (uint t) = uint x"
proof -
  from assms obtain d m where w: "usub now (ucast t) = Inr d" "umul rate d = Inr m"
      "uadd RAY_u256 (m div SECONDS_PER_YEAR) = Inr x"
    by (auto simp: calculateLinearInterest_u256_def rbind_eq_Inr)
  have "0 \<le> uint rate * (uint now - uint t)" using w(1,2) by (metis umul_iff usub_iff uint_widen(2) uint_ge_0)
  then show ?thesis using w by (simp add: calcLinearInterest_def year_steps bn.quot_eq_div)
qed

lemma compounded_interest_refines:
  assumes "calculateCompoundedInterest_u256 rate t now = Inr x"
  shows "calcCompoundedInterest (uint rate) (uint now) (uint t) = uint x"
proof -
  from assms obtain e where e: "usub now (ucast t) = Inr e" by (auto simp: calculateCompoundedInterest_u256_def rbind_eq_Inr)
  then have d: "uint now - uint t = uint e" by (simp add: usub_iff)
  show ?thesis
  proof (cases "e = 0")
    case True
    then show ?thesis
      using assms e d by (simp add: calculateCompoundedInterest_u256_def calcCompoundedInterest_def uint_RAY)
  next
    case False
    let ?one = "e - 1" and ?two = "if 2 < e then e - 2 else 0"
    from assms e False obtain r2 r3 e2 st e3 tt f s1 s2 where w:
        "rayMul_u256 rate rate = Inr r2" "rayMul_u256 (r2 div (SECONDS_PER_YEAR * SECONDS_PER_YEAR)) rate = Inr r3"
        "umul e ?one = Inr e2" "umul e2 (r2 div (SECONDS_PER_YEAR * SECONDS_PER_YEAR)) = Inr st"
        "umul e2 ?two = Inr e3" "umul e3 (r3 div SECONDS_PER_YEAR) = Inr tt" "umul rate e = Inr f"
        "uadd RAY_u256 (f div SECONDS_PER_YEAR) = Inr s1" "uadd s1 (st div 2) = Inr s2" "uadd s2 (tt div 6) = Inr x"
      by (auto simp: calculateCompoundedInterest_u256_def Let_def rbind_eq_Inr)
    have pos: "0 < uint e" using False uint_ge_0[of e] by (simp add: word_zero le_less)
    then have one: "uint ?one = uint e - 1" by (simp add: uint_sub_if')
    have two: "uint ?two = (if 2 < uint e then uint e - 2 else 0)" by (simp add: uint_sub_if' word_less_def)
    have r2: "uint (r2 div (SECONDS_PER_YEAR * SECONDS_PER_YEAR)) = rayMul (uint rate) (uint rate) div (ONE_YEAR * ONE_YEAR)"
      using rayMul_refines[OF w(1)] by (simp add: uint_div uint_year)
    have r3: "uint (r3 div SECONDS_PER_YEAR) =
        rayMul (rayMul (uint rate) (uint rate) div (ONE_YEAR * ONE_YEAR)) (uint rate) div ONE_YEAR"
      using rayMul_refines[OF w(2)] r2 by (simp add: uint_div uint_year)
    have quot: "rayMul (uint rate) (uint rate) sdiv (ONE_YEAR * ONE_YEAR) = uint (r2 div (SECONDS_PER_YEAR * SECONDS_PER_YEAR))"
      using r2 by (simp add: bn.quot_eq_div ray.mul_nonneg)
    have quot': "rayMul (uint (r2 div (SECONDS_PER_YEAR * SECONDS_PER_YEAR))) (uint rate) sdiv ONE_YEAR = uint (r3 div SECONDS_PER_YEAR)"
      using r3[folded r2] by (simp add: bn.quot_eq_div ray.mul_nonneg)
    have terms: "uint st = uint e * (uint e - 1) * uint (r2 div (SECONDS_PER_YEAR * SECONDS_PER_YEAR))"
      "uint tt = uint e * (uint e - 1) * (if 2 < uint e then uint e - 2 else 0) * uint (r3 div SECONDS_PER_YEAR)"
      "uint f = uint rate * uint e"
      using w(3-7) one two by (simp_all add: umul_iff)
    have "uint x = RAY + uint f div ONE_YEAR + uint st div 2 + uint tt div 6"
      using w(8-10) by (simp add: year_steps)
    then show ?thesis
      using pos quot quot' by (simp add: calcCompoundedInterest_def Let_def d terms[symmetric] bn.quot_eq_div)
  qed
qed

section \<open>The state of a reserve\<close>

text \<open>
  What a test has read of a reserve, in the units of \<open>ReserveData\<close>: nothing is supplied on interest where
  the usage is zero, and the variable debt read is zero when no scaled debt is left.
\<close>

definition mirrors :: "reserve_storage \<Rightarrow> reserve_data \<Rightarrow> bool" where
  "mirrors s d \<longleftrightarrow>
     r_liquidityIndex d = Some (uint (rv_liquidityIndex s)) \<and>
     r_liquidityRate d = Some (uint (rv_currentLiquidityRate s)) \<and>
     r_variableBorrowIndex d = Some (uint (rv_variableBorrowIndex s)) \<and>
     r_variableBorrowRate d = Some (uint (rv_currentVariableBorrowRate s)) \<and>
     r_lastUpdateTimestamp d = Some (uint (rv_lastUpdateTimestamp s)) \<and>
     r_accruedToTreasuryScaled d = Some (uint (rv_accruedToTreasury s)) \<and>
     r_reserveFactor d = Some (uint (getReserveFactor (rv_configuration s))) \<and>
     r_scaledVariableDebt d = Some (uint (rv_scaledVariableDebt s)) \<and>
     r_principalStableDebt d = Some (uint (rv_principalStableDebt s)) \<and>
     r_averageStableBorrowRate d = Some (uint (rv_avgStableRate s)) \<and>
     r_totalStableDebtLastUpdated d = Some (uint (rv_stableTimestamp s)) \<and>
     (case r_supplyUsageRatio d of None \<Rightarrow> False | Some u \<Rightarrow> u = 0 \<longrightarrow> rv_currentLiquidityRate s = 0) \<and>
     (case r_totalVariableDebt d of None \<Rightarrow> False | Some v \<Rightarrow> v = 0 \<longleftrightarrow> rv_scaledVariableDebt s = 0)"

lemma linear_zero: "calcLinearInterest 0 now t = RAY"
  by (simp add: calcLinearInterest_def)

lemma same_time: "calcLinearInterest r t t = RAY" "calcCompoundedInterest r t t = RAY"
  by (simp_all add: calcLinearInterest_def calcCompoundedInterest_def)

lemma ray_times: "0 \<le> a \<Longrightarrow> rayMul RAY a = a"
  by (subst ray.mul_commute) (rule ray.mul_unit)

lemma rate_zero: "(r :: 128 word) = 0 \<longleftrightarrow> uint r = 0"
  by (simp add: word_uint_eq_iff)

lemmas cache_fields = cache_def rbind_eq_Inr

lemma mirrors_supply: "mirrors s d \<Longrightarrow> \<exists>u. r_supplyUsageRatio d = Some u \<and> (u = 0 \<longrightarrow> rv_currentLiquidityRate s = 0)"
  by (cases "r_supplyUsageRatio d") (simp_all add: mirrors_def)

lemma mirrors_debt: "mirrors s d \<Longrightarrow> \<exists>v. r_totalVariableDebt d = Some v \<and> (v = 0 \<longleftrightarrow> rv_scaledVariableDebt s = 0)"
  by (cases "r_totalVariableDebt d") (simp_all add: mirrors_def)

text \<open>The index that the contract writes, or keeps when nothing is earned, is the expected one.\<close>

lemma liquidity_index_refines:
  assumes "mirrors s d" "cache now s = Inr c" "updateLiquidityIndex now (c, s) = Inr (c', s')"
  shows "calcExpectedLiquidityIndex d (uint now) = Inr (uint (rv_liquidityIndex s')) \<and>
    uint (ch_nextLiquidityIndex c') = uint (rv_liquidityIndex s')"
proof -
  obtain u where u: "r_supplyUsageRatio d = Some u" "u = 0 \<longrightarrow> rv_currentLiquidityRate s = 0"
    using mirrors_supply[OF assms(1)] by blast
  have reads: "r_liquidityIndex d = Some (uint (rv_liquidityIndex s))" "r_liquidityRate d = Some (uint (rv_currentLiquidityRate s))"
    "r_lastUpdateTimestamp d = Some (uint (rv_lastUpdateTimestamp s))"
    using assms(1) by (simp_all add: mirrors_def)
  have c: "ch_currLiquidityRate c = ucast (rv_currentLiquidityRate s)" "ch_currLiquidityIndex c = ucast (rv_liquidityIndex s)"
    "ch_nextLiquidityIndex c = ucast (rv_liquidityIndex s)" "ch_reserveLastUpdateTimestamp c = rv_lastUpdateTimestamp s"
    using assms(2) by (auto simp: cache_fields)
  show ?thesis
  proof (cases "rv_currentLiquidityRate s = 0")
    case True
    then have "c' = c" "s' = s" using assms(3) c by (simp_all add: updateLiquidityIndex_def)
    then show ?thesis
      using True u reads c(3) by (simp add: calcExpectedLiquidityIndex_def linear_zero ray_times)
  next
    case False
    then have nz: "ucast (rv_currentLiquidityRate s) \<noteq> (0 :: u256)" "u \<noteq> 0"
      using u(2) by (auto simp: word_zero rate_zero)
    then obtain i n m where w: "calculateLinearInterest_u256 (ucast (rv_currentLiquidityRate s)) (rv_lastUpdateTimestamp s) now = Inr i"
        "rayMul_u256 i (ucast (rv_liquidityIndex s)) = Inr n" "toUint128 n = Inr m"
        "c' = c\<lparr>ch_nextLiquidityIndex := n\<rparr>" "s' = s\<lparr>rv_liquidityIndex := m\<rparr>"
      using assms(3) c by (auto simp: updateLiquidityIndex_def rbind_eq_Inr)
    show ?thesis
      using linear_interest_refines[OF w(1)] rayMul_refines[OF w(2)] w(3-5) nz u(1) reads
      by (simp add: calcExpectedLiquidityIndex_def toUint128_iff)
  qed
qed

lemma variable_index_refines:
  assumes "mirrors s d" "cache now s = Inr c" "updateVariableBorrowIndex now (c\<lparr>ch_nextLiquidityIndex := i\<rparr>, s\<lparr>rv_liquidityIndex := j\<rparr>) = Inr (c', s')"
  shows "calcExpectedVariableBorrowIndex d (uint now) = Inr (uint (rv_variableBorrowIndex s')) \<and>
    uint (ch_nextVariableBorrowIndex c') = uint (rv_variableBorrowIndex s')"
proof -
  obtain v where v: "r_totalVariableDebt d = Some v" "v = 0 \<longleftrightarrow> rv_scaledVariableDebt s = 0"
    using mirrors_debt[OF assms(1)] by blast
  have reads: "r_variableBorrowIndex d = Some (uint (rv_variableBorrowIndex s))"
    "r_variableBorrowRate d = Some (uint (rv_currentVariableBorrowRate s))"
    "r_lastUpdateTimestamp d = Some (uint (rv_lastUpdateTimestamp s))"
    using assms(1) by (simp_all add: mirrors_def)
  have c: "ch_currScaledVariableDebt c = rv_scaledVariableDebt s" "ch_currVariableBorrowRate c = ucast (rv_currentVariableBorrowRate s)"
    "ch_currVariableBorrowIndex c = ucast (rv_variableBorrowIndex s)" "ch_nextVariableBorrowIndex c = ucast (rv_variableBorrowIndex s)"
    "ch_reserveLastUpdateTimestamp c = rv_lastUpdateTimestamp s"
    using assms(2) by (auto simp: cache_fields)
  show ?thesis
  proof (cases "rv_scaledVariableDebt s = 0")
    case True
    then show ?thesis
      using assms(3) v reads c by (auto simp: calcExpectedVariableBorrowIndex_def updateVariableBorrowIndex_def)
  next
    case False
    then obtain k n m where w: "calculateCompoundedInterest_u256 (ucast (rv_currentVariableBorrowRate s)) (rv_lastUpdateTimestamp s) now = Inr k"
        "rayMul_u256 k (ucast (rv_variableBorrowIndex s)) = Inr n" "toUint128 n = Inr m"
        "c' = c\<lparr>ch_nextLiquidityIndex := i, ch_nextVariableBorrowIndex := n\<rparr>"
        "s' = s\<lparr>rv_liquidityIndex := j, rv_variableBorrowIndex := m\<rparr>"
      using assms(3) c by (auto simp: updateVariableBorrowIndex_def rbind_eq_Inr)
    show ?thesis
      using compounded_interest_refines[OF w(1)] rayMul_refines[OF w(2)] w(3-5) False v reads
      by (simp add: calcExpectedVariableBorrowIndex_def toUint128_iff)
  qed
qed

text \<open>The total of the stable debt, with the interest up to now.\<close>

lemma stable_debt_refines:
  assumes "mirrors s d" "calcTotalSupply now s = Inr t"
  shows "reserveStableDebt d (uint now) = Inr (uint t)"
proof -
  have reads: "r_principalStableDebt d = Some (uint (rv_principalStableDebt s))"
    "r_averageStableBorrowRate d = Some (uint (rv_avgStableRate s))" "r_totalStableDebtLastUpdated d = Some (uint (rv_stableTimestamp s))"
    using assms(1) by (simp_all add: mirrors_def)
  show ?thesis
  proof (cases "rv_principalStableDebt s = 0")
    case True
    then show ?thesis
      using assms(2) reads by (simp add: reserveStableDebt_def calcTotalSupply_def calcExpectedTotalStableDebt_def)
  next
    case False
    then obtain k where "calculateCompoundedInterest_u256 (ucast (rv_avgStableRate s)) (rv_stableTimestamp s) now = Inr k"
        "rayMul_u256 (rv_principalStableDebt s) k = Inr t"
      using assms(2) by (auto simp: calcTotalSupply_def rbind_eq_Inr)
    then show ?thesis
      using reads compounded_interest_refines rayMul_refines
      by (fastforce simp: reserveStableDebt_def calcExpectedTotalStableDebt_def ray.mul_commute)
  qed
qed

lemma treasury_refines:
  assumes m: "mirrors s d" and c: "cache now s = Inr c"
    and run: "accrueToTreasury (c\<lparr>ch_nextLiquidityIndex := li, ch_nextVariableBorrowIndex := vi\<rparr>, s') = Inr s''"
    and kept: "rv_accruedToTreasury s' = rv_accruedToTreasury s"
    and e: "r_scaledVariableDebt e = r_scaledVariableDebt d" "r_variableBorrowIndex e = Some (uint vi)"
      "r_totalStableDebt e = Some (uint (ch_currTotalStableDebt c))" "r_liquidityIndex e = Some (uint li)"
  shows "calcExpectedAccrueToTreasury d e = Inr (uint (rv_accruedToTreasury s''))"
proof -
  have reads: "r_reserveFactor d = Some (uint (getReserveFactor (rv_configuration s)))"
    "r_accruedToTreasuryScaled d = Some (uint (rv_accruedToTreasury s))"
    "r_scaledVariableDebt d = Some (uint (rv_scaledVariableDebt s))" "r_variableBorrowIndex d = Some (uint (rv_variableBorrowIndex s))"
    "r_averageStableBorrowRate d = Some (uint (rv_avgStableRate s))" "r_lastUpdateTimestamp d = Some (uint (rv_lastUpdateTimestamp s))"
    "r_totalStableDebtLastUpdated d = Some (uint (rv_stableTimestamp s))"
    "r_principalStableDebt d = Some (uint (rv_principalStableDebt s))"
    using m by (simp_all add: mirrors_def)
  have f: "ch_reserveFactor c = getReserveFactor (rv_configuration s)" "ch_currScaledVariableDebt c = rv_scaledVariableDebt s"
    "ch_currVariableBorrowIndex c = ucast (rv_variableBorrowIndex s)" "ch_currAvgStableBorrowRate c = ucast (rv_avgStableRate s)"
    "ch_stableDebtLastUpdateTimestamp c = rv_stableTimestamp s" "ch_reserveLastUpdateTimestamp c = rv_lastUpdateTimestamp s"
    "ch_currPrincipalStableDebt c = rv_principalStableDebt s"
    using c by (auto simp: cache_fields)
  show ?thesis
  proof (cases "getReserveFactor (rv_configuration s) = 0")
    case True
    then show ?thesis using run f kept reads by (simp add: accrueToTreasury_def calcExpectedAccrueToTreasury_def)
  next
    case False
    then obtain am where am': "amountToMint (c\<lparr>ch_nextLiquidityIndex := li, ch_nextVariableBorrowIndex := vi\<rparr>) = Inr am"
      and rest: "(if am \<noteq> 0 then rbind (rayDiv_u256 am li) (\<lambda>minted. rbind (toUint128 minted) (\<lambda>minted.
          rbind (uadd128 (rv_accruedToTreasury s') minted) (\<lambda>accrued. Inr (s'\<lparr>rv_accruedToTreasury := accrued\<rparr>))))
          else Inr s') = Inr s''"
      using run f(1) by (auto simp: accrueToTreasury_def rbind_eq_Inr split del: if_split cong: if_cong)
    from am' obtain pv cv k ps a b t where w:
        "rayMul_u256 (rv_scaledVariableDebt s) (ucast (rv_variableBorrowIndex s)) = Inr pv"
        "rayMul_u256 (rv_scaledVariableDebt s) vi = Inr cv"
        "calculateCompoundedInterest_u256 (ucast (rv_avgStableRate s)) (rv_stableTimestamp s) (ucast (rv_lastUpdateTimestamp s)) = Inr k"
        "rayMul_u256 (rv_principalStableDebt s) k = Inr ps" "uadd cv (ch_currTotalStableDebt c) = Inr a"
        "usub a pv = Inr b" "usub b ps = Inr t" "percentMul_u256 t (getReserveFactor (rv_configuration s)) = Inr am"
      by (auto simp: amountToMint_def rbind_eq_Inr f)
    have nz: "uint (getReserveFactor (rv_configuration s)) \<noteq> 0" using False by (simp add: word_zero)
    have am: "percentMul (uint cv + uint (ch_currTotalStableDebt c) - uint pv - uint ps)
        (uint (getReserveFactor (rv_configuration s))) = uint am"
      using percentMul_refines[OF w(8)] w(5-7) by (simp add: word_steps)
    have expected: "calcExpectedAccrueToTreasury d e = (if 0 < uint am then rbind (rayDiv (uint am) (uint li)) (\<lambda>minted.
        Inr (uint (rv_accruedToTreasury s) + minted)) else Inr (uint (rv_accruedToTreasury s)))"
      using rayMul_refines[OF w(1)] rayMul_refines[OF w(2)] compounded_interest_refines[OF w(3)] rayMul_refines[OF w(4)] nz am reads e
      by (simp add: calcExpectedAccrueToTreasury_def Let_def)
    show ?thesis
    proof (cases "am = 0")
      case True
      then show ?thesis using rest kept expected by simp
    next
      case False
      then obtain q n x where "rayDiv_u256 am li = Inr q" "toUint128 q = Inr n" "uadd128 (rv_accruedToTreasury s) n = Inr x"
          "s'' = s'\<lparr>rv_accruedToTreasury := x\<rparr>"
        using rest kept by (auto simp: rbind_eq_Inr)
      moreover have "0 < uint am" using False uint_ge_0[of am] by (simp add: word_zero le_less)
      ultimately show ?thesis
        using expected rayDiv_refines by (fastforce simp: toUint128_iff uadd128_iff)
    qed
  qed
qed

section \<open>Every step of the contract\<close>

lemma updateLiquidityIndex_shape:
  "updateLiquidityIndex now (c, s) = Inr (c', s') \<Longrightarrow>
     c' = c\<lparr>ch_nextLiquidityIndex := ch_nextLiquidityIndex c'\<rparr> \<and> s' = s\<lparr>rv_liquidityIndex := rv_liquidityIndex s'\<rparr>"
  by (auto simp: updateLiquidityIndex_def rbind_eq_Inr split: if_splits)

lemma updateVariableBorrowIndex_shape:
  "updateVariableBorrowIndex now (c, s) = Inr (c', s') \<Longrightarrow>
     c' = c\<lparr>ch_nextVariableBorrowIndex := ch_nextVariableBorrowIndex c'\<rparr> \<and>
     s' = s\<lparr>rv_variableBorrowIndex := rv_variableBorrowIndex s'\<rparr>"
  by (auto simp: updateVariableBorrowIndex_def rbind_eq_Inr split: if_splits)

lemma accrueToTreasury_shape: "accrueToTreasury (c, s) = Inr s' \<Longrightarrow> s' = s\<lparr>rv_accruedToTreasury := rv_accruedToTreasury s'\<rparr>"
  by (auto simp: accrueToTreasury_def rbind_eq_Inr split: if_splits)

lemma updateState_steps:
  assumes "updateState_u256 now (c, s) = Inr (c', s')" "rv_lastUpdateTimestamp s \<noteq> ucast now"
  obtains li l vi v s3 where "updateLiquidityIndex now (c, s) = Inr (c\<lparr>ch_nextLiquidityIndex := li\<rparr>, s\<lparr>rv_liquidityIndex := l\<rparr>)"
    "updateVariableBorrowIndex now (c\<lparr>ch_nextLiquidityIndex := li\<rparr>, s\<lparr>rv_liquidityIndex := l\<rparr>) =
       Inr (c\<lparr>ch_nextLiquidityIndex := li, ch_nextVariableBorrowIndex := vi\<rparr>, s\<lparr>rv_liquidityIndex := l, rv_variableBorrowIndex := v\<rparr>)"
    "accrueToTreasury (c\<lparr>ch_nextLiquidityIndex := li, ch_nextVariableBorrowIndex := vi\<rparr>,
       s\<lparr>rv_liquidityIndex := l, rv_variableBorrowIndex := v\<rparr>) = Inr s3"
    "c' = c\<lparr>ch_nextLiquidityIndex := li, ch_nextVariableBorrowIndex := vi\<rparr>" "s' = s3\<lparr>rv_lastUpdateTimestamp := ucast now\<rparr>"
proof -
  from assms obtain c1 s1 c2 s2 s3 where w: "updateLiquidityIndex now (c, s) = Inr (c1, s1)"
      "updateVariableBorrowIndex now (c1, s1) = Inr (c2, s2)" "accrueToTreasury (c2, s2) = Inr s3"
      "c' = c2" "s' = s3\<lparr>rv_lastUpdateTimestamp := ucast now\<rparr>"
    by (auto simp: updateState_u256_def updateIndexes_def rbind_eq_Inr)
  show thesis
    using that w updateLiquidityIndex_shape[OF w(1)] updateVariableBorrowIndex_shape[OF w(2)] by metis
qed

text \<open>At the time of the last update the tests expect no change either.\<close>

lemma indexes_at_last_update:
  assumes "mirrors s d"
  shows "calcExpectedLiquidityIndex d (uint (rv_lastUpdateTimestamp s)) = Inr (uint (rv_liquidityIndex s))"
    and "calcExpectedVariableBorrowIndex d (uint (rv_lastUpdateTimestamp s)) = Inr (uint (rv_variableBorrowIndex s))"
  using mirrors_supply[OF assms] mirrors_debt[OF assms] assms
  by (auto simp: mirrors_def calcExpectedLiquidityIndex_def calcExpectedVariableBorrowIndex_def same_time ray_times)

lemma treasury_at_last_update:
  assumes "mirrors s d" "reserveStableDebt d (uint (rv_lastUpdateTimestamp s)) = Inr t"
    "r_scaledVariableDebt e = r_scaledVariableDebt d" "r_variableBorrowIndex e = r_variableBorrowIndex d" "r_totalStableDebt e = Some t"
  shows "calcExpectedAccrueToTreasury d e = Inr (uint (rv_accruedToTreasury s))"
  using assms by (auto simp: mirrors_def calcExpectedAccrueToTreasury_def Let_def reserveStableDebt_def
      calcExpectedTotalStableDebt_def ray.mul_commute)

text \<open>C37: wherever the contract's \<open>updateState\<close> of a reserve does not revert, the expected indexes, total debts
  and accrued treasury share of \<open>updateState\<close> of the tests exist and are exactly the numbers in the words
  that the contract stores, whatever the time passed; nothing is assumed of the size of the words.\<close>

theorem expected_state_equals_contract:
  assumes "mirrors s d" "uint now < 2 ^ 40" "cache now s = Inr c" "updateState_u256 now (c, s) = Inr (c', s')"
  shows "\<exists>e'. updateState d e (uint now) = Inr e' \<and>
    r_liquidityIndex e' = Some (uint (rv_liquidityIndex s')) \<and>
    r_variableBorrowIndex e' = Some (uint (rv_variableBorrowIndex s')) \<and>
    r_accruedToTreasuryScaled e' = Some (uint (rv_accruedToTreasury s')) \<and>
    r_totalStableDebt e' = Some (uint (ch_nextTotalStableDebt c')) \<and>
    r_totalVariableDebt e' = Some (rayMul (uint (rv_scaledVariableDebt s')) (uint (ch_nextVariableBorrowIndex c')))"
proof -
  let ?e = "e\<lparr>r_liquidityIndex := Some (uint (rv_liquidityIndex s')), r_variableBorrowIndex := Some (uint (rv_variableBorrowIndex s')),
    r_totalStableDebt := Some (uint (ch_currTotalStableDebt c)),
    r_totalVariableDebt := Some (rayMul (uint (rv_scaledVariableDebt s)) (uint (rv_variableBorrowIndex s'))),
    r_scaledVariableDebt := r_scaledVariableDebt d, r_principalStableDebt := r_principalStableDebt d\<rparr>"
  have stable: "reserveStableDebt d (uint now) = Inr (uint (ch_currTotalStableDebt c))"
    using assms(1,3) by (auto simp: cache_fields intro: stable_debt_refines)
  have next_stable: "ch_nextTotalStableDebt c = ch_currTotalStableDebt c" "ch_nextVariableBorrowIndex c = ucast (rv_variableBorrowIndex s)"
    using assms(3) by (auto simp: cache_fields)
  have scaled: "r_scaledVariableDebt d = Some (uint (rv_scaledVariableDebt s))" using assms(1) by (simp add: mirrors_def)
  have all: ?thesis if "calcExpectedLiquidityIndex d (uint now) = Inr (uint (rv_liquidityIndex s'))"
      "calcExpectedVariableBorrowIndex d (uint now) = Inr (uint (rv_variableBorrowIndex s'))"
      "calcExpectedAccrueToTreasury d ?e = Inr (uint (rv_accruedToTreasury s'))"
      "ch_nextTotalStableDebt c' = ch_currTotalStableDebt c" "uint (ch_nextVariableBorrowIndex c') = uint (rv_variableBorrowIndex s')"
      "rv_scaledVariableDebt s' = rv_scaledVariableDebt s"
    using that stable scaled by (simp add: updateState_def calcExpectedTotalVariableDebt_def Let_def)
  show ?thesis
  proof (cases "rv_lastUpdateTimestamp s = ucast now")
    case True
    then have t: "uint now = uint (rv_lastUpdateTimestamp s)" "c' = c" "s' = s"
      using assms(2,4) by (simp_all add: uint_narrow updateState_u256_def)
    have "calcExpectedAccrueToTreasury d ?e = Inr (uint (rv_accruedToTreasury s))"
      using assms(1) stable t by (intro treasury_at_last_update) (simp_all add: mirrors_def)
    then show ?thesis
      using indexes_at_last_update[OF assms(1)] t next_stable by (intro all) simp_all
  next
    case False
    with assms(4) obtain li l vi v s3 where w:
        "updateLiquidityIndex now (c, s) = Inr (c\<lparr>ch_nextLiquidityIndex := li\<rparr>, s\<lparr>rv_liquidityIndex := l\<rparr>)"
        "updateVariableBorrowIndex now (c\<lparr>ch_nextLiquidityIndex := li\<rparr>, s\<lparr>rv_liquidityIndex := l\<rparr>) =
           Inr (c\<lparr>ch_nextLiquidityIndex := li, ch_nextVariableBorrowIndex := vi\<rparr>, s\<lparr>rv_liquidityIndex := l, rv_variableBorrowIndex := v\<rparr>)"
        "accrueToTreasury (c\<lparr>ch_nextLiquidityIndex := li, ch_nextVariableBorrowIndex := vi\<rparr>,
           s\<lparr>rv_liquidityIndex := l, rv_variableBorrowIndex := v\<rparr>) = Inr s3"
        "c' = c\<lparr>ch_nextLiquidityIndex := li, ch_nextVariableBorrowIndex := vi\<rparr>" "s' = s3\<lparr>rv_lastUpdateTimestamp := ucast now\<rparr>"
      by (rule updateState_steps)
    have s3: "rv_liquidityIndex s' = l" "rv_variableBorrowIndex s' = v" "rv_accruedToTreasury s' = rv_accruedToTreasury s3"
        "rv_scaledVariableDebt s' = rv_scaledVariableDebt s"
      using w(5) by (simp_all, subst accrueToTreasury_shape[OF w(3)], simp)+
    note index = liquidity_index_refines[OF assms(1,3) w(1)] variable_index_refines[OF assms(1,3) w(2)]
    have "calcExpectedAccrueToTreasury d ?e = Inr (uint (rv_accruedToTreasury s3))"
      using index s3 by (intro treasury_refines[OF assms(1,3) w(3)]) simp_all
    then show ?thesis
      using index s3 w(4) next_stable by (intro all) simp_all
  qed
qed

definition accruing_reserve :: reserve_storage where
  "accruing_reserve = \<lparr>rv_configuration = push_bit 64 1000, rv_liquidityIndex = 1020000000000000000000000000,
     rv_currentLiquidityRate = 50000000000000000000000000, rv_variableBorrowIndex = 1030000000000000000000000000,
     rv_currentVariableBorrowRate = 90000000000000000000000000, rv_currentStableBorrowRate = 100000000000000000000000000,
     rv_lastUpdateTimestamp = 1700000000, rv_accruedToTreasury = 7000000000000000, rv_unbacked = 0, rv_RSTokenAddress = ''0xrst'',
     rv_strategy = volatile_one, rv_scaledSupply = 500000000000000000000, rv_scaledVariableDebt = 300000000000000000000,
     rv_principalStableDebt = 40000000000000000000, rv_avgStableRate = 100000000000000000000000000,
     rv_stableTimestamp = 1690000000\<rparr>"

definition accruing_data :: reserve_data where
  "accruing_data = empty_reserve\<lparr>r_liquidityIndex := Some 1020000000000000000000000000,
     r_liquidityRate := Some 50000000000000000000000000, r_variableBorrowIndex := Some 1030000000000000000000000000,
     r_variableBorrowRate := Some 90000000000000000000000000, r_lastUpdateTimestamp := Some 1700000000,
     r_accruedToTreasuryScaled := Some 7000000000000000, r_reserveFactor := Some 1000,
     r_scaledVariableDebt := Some 300000000000000000000, r_principalStableDebt := Some 40000000000000000000,
     r_averageStableBorrowRate := Some 100000000000000000000000000, r_totalStableDebtLastUpdated := Some 1690000000,
     r_supplyUsageRatio := Some 600000000000000000000000000, r_totalVariableDebt := Some 309000000000000000000\<rparr>"

lemma accruing_mirrors: "mirrors accruing_reserve accruing_data"
  by code_simp

lemma accruing_run:
  "case cache 1700086400 accruing_reserve of Inl _ \<Rightarrow> False
   | Inr c \<Rightarrow> (case updateState_u256 1700086400 (c, accruing_reserve) of Inl _ \<Rightarrow> False
     | Inr (c', s') \<Rightarrow> uint (rv_liquidityIndex s') = 1020139726027397260273972603 \<and>
         uint (rv_variableBorrowIndex s') = 1030254003916614545282816636 \<and>
         uint (rv_accruedToTreasury s') = 15578676611463019 \<and>
         uint (ch_nextTotalStableDebt c') = 41300021875192819985)"
  by code_simp

theorem expected_state_equals_contract_witness:
  "\<exists>e'. updateState accruing_data empty_reserve 1700086400 = Inr e' \<and>
     r_liquidityIndex e' = Some 1020139726027397260273972603 \<and>
     r_variableBorrowIndex e' = Some 1030254003916614545282816636 \<and>
     r_accruedToTreasuryScaled e' = Some 15578676611463019 \<and>
     r_totalStableDebt e' = Some 41300021875192819985"
proof -
  obtain c c' s' where run: "cache 1700086400 accruing_reserve = Inr c"
      "updateState_u256 1700086400 (c, accruing_reserve) = Inr (c', s')"
    and v: "uint (rv_liquidityIndex s') = 1020139726027397260273972603"
      "uint (rv_variableBorrowIndex s') = 1030254003916614545282816636"
      "uint (rv_accruedToTreasury s') = 15578676611463019" "uint (ch_nextTotalStableDebt c') = 41300021875192819985"
    using accruing_run by (auto split: sum.splits prod.splits)
  have now: "uint (1700086400 :: u256) < 2 ^ 40" "uint (1700086400 :: u256) = 1700086400" by simp_all
  from expected_state_equals_contract[OF accruing_mirrors now(1) run, of empty_reserve] show ?thesis
    unfolding v now(2) by blast
qed

end
