(* ===== verification/FlashLoanProps.thy ===== *)
theory FlashLoanProps
  imports FlashLoanTests ReserveContractProps
begin

text \<open>
  What a flash loan does to the pool: whatever its receiver is, the cash of the pool changes by what the
  receiver did and by the premium, and how the index that the tests expect relates to the one of the contract.
\<close>

section \<open>The cash of the pool\<close>

definition tokenAt :: "flash_world \<Rightarrow> string \<Rightarrow> string option" where
  "tokenAt w asset = map_option rv_RSTokenAddress (fl_reserves w asset)"

definition cash :: "string \<Rightarrow> flash_world \<Rightarrow> int" where
  "cash asset w = (case (tokenAt w asset, fl_tokens w asset) of
     (Some token, Some t) \<Rightarrow> uint (tk_balances t token) | _ \<Rightarrow> 0)"

lemma cash_cong: "tokenAt w' a = tokenAt w a \<Longrightarrow> fl_tokens w' a = fl_tokens w a \<Longrightarrow> cash a w' = cash a w"
  by (simp add: cash_def)

lemma contractAt_eq_Inr [simp]: "contractAt c = Inr x \<longleftrightarrow> c = Some x"
  by (auto simp: contractAt_def split: option.splits)

lemma erc20_sub_iff: "erc20_sub a b m = Inr c \<longleftrightarrow> uint c = uint a - uint b"
  using usub_iff[of a b c] by (auto simp: erc20_sub_def usub_def)

lemma erc20_add_iff: "erc20_add a b = Inr c \<longleftrightarrow> uint c = uint a + uint b"
  using uint_below[of c] by (auto simp: erc20_add_def word_uint_eq_iff uint_word_ariths)

lemma erc20_transfer_moves:
  "erc20_transfer sender recipient x t = Inr t' \<Longrightarrow> sender \<noteq> recipient \<Longrightarrow>
     uint (tk_balances t' sender) = uint (tk_balances t sender) - uint x \<and>
     uint (tk_balances t' recipient) = uint (tk_balances t recipient) + uint x \<and>
     tk_allowances t' = tk_allowances t"
  by (auto simp: erc20_transfer_def Let_def rbind_eq_Inr erc20_sub_iff erc20_add_iff)

lemma erc20_approve_balances: "erc20_approve owner spender x t = Inr t' \<Longrightarrow> tk_balances t' = tk_balances t"
  by (auto simp: erc20_approve_def rbind_eq_Inr)

lemma erc20_transferFrom_moves:
  assumes "erc20_transferFrom caller sender recipient x t = Inr t'" "sender \<noteq> recipient"
  shows "uint (tk_balances t' recipient) = uint (tk_balances t recipient) + uint x"
proof -
  from assms(1) obtain t1 y where t: "erc20_transfer sender recipient x t = Inr t1" "erc20_approve sender caller y t1 = Inr t'"
    by (auto simp: erc20_transferFrom_def rbind_eq_Inr)
  show ?thesis using erc20_transfer_moves[OF t(1) assms(2)] erc20_approve_balances[OF t(2)] by simp
qed

lemma tokenAt_tokens [simp]: "tokenAt (w\<lparr>fl_tokens := f\<rparr>) = tokenAt w"
  by (simp add: tokenAt_def fun_eq_iff)

section \<open>One asset\<close>

lemma transferUnderlyingTo_takes:
  assumes "transferUnderlyingTo asset target x w = Inr w'" "tokenAt w asset \<noteq> Some target"
  shows "fl_reserves w' = fl_reserves w \<and> (\<forall>b. b \<noteq> asset \<longrightarrow> fl_tokens w' b = fl_tokens w b) \<and>
    cash asset w' = cash asset w - uint x"
  using assms erc20_transfer_moves
  by (fastforce simp: transferUnderlyingTo_def on_token_def rbind_eq_Inr cash_def tokenAt_def)

lemma updateState_keeps_token:
  assumes "updateState_u256 now (c, s) = Inr (c', s')"
  shows "rv_RSTokenAddress s' = rv_RSTokenAddress s"
proof (cases "rv_lastUpdateTimestamp s = ucast now")
  case True
  then show ?thesis using assms by (simp add: updateState_u256_def)
next
  case False
  with assms obtain li l vi v s3 where w: "accrueToTreasury (c\<lparr>ch_nextLiquidityIndex := li, ch_nextVariableBorrowIndex := vi\<rparr>,
      s\<lparr>rv_liquidityIndex := l, rv_variableBorrowIndex := v\<rparr>) = Inr s3" "s' = s3\<lparr>rv_lastUpdateTimestamp := ucast now\<rparr>"
    by (rule updateState_steps)
  have "rv_RSTokenAddress s3 = rv_RSTokenAddress s" by (subst accrueToTreasury_shape[OF w(1)]) simp
  then show ?thesis using w(2) by simp
qed

lemma spreadPremium_keeps_token:
  "spreadPremium now p q s = Inr (c, s') \<Longrightarrow> rv_RSTokenAddress s' = rv_RSTokenAddress s"
  by (auto simp: spreadPremium_def cumulateToLiquidityIndex_u256_def rbind_eq_Inr dest!: updateState_keeps_token)

lemma updateRatesAt_keeps:
  "updateRatesAt asset x y (c, s) w = Inr w' \<Longrightarrow> fl_tokens w' = fl_tokens w \<and> fl_pool w' = fl_pool w \<and>
     tokenAt w' = (tokenAt w)(asset := Some (rv_RSTokenAddress s))"
  by (auto simp: updateRatesAt_def updateInterestRates_def rbind_eq_Inr emit_def put_reserve_def tokenAt_def)

lemma handleRepayment_keeps:
  "fl_tokens (handleRepayment asset r x w) = fl_tokens w" "tokenAt (handleRepayment asset r x w) = tokenAt w"
  by (auto simp: handleRepayment_def emit_def tokenAt_def)

lemma emit_keeps: "fl_tokens (emit e w) = fl_tokens w" "tokenAt (emit e w) = tokenAt w"
  by (auto simp: emit_def tokenAt_def)

lemma repayment_returns:
  assumes "handleFlashLoanRepayment caller asset r x p toProtocol code w = Inr w'" "tokenAt w asset \<noteq> Some r"
  shows "tokenAt w' = tokenAt w \<and> (\<forall>b. b \<noteq> asset \<longrightarrow> fl_tokens w' b = fl_tokens w b) \<and>
    cash asset w' = cash asset w + uint x + uint p"
proof -
  from assms(1) obtain total s c s' w1 w2 where w: "uadd x p = Inr total" "fl_reserves w asset = Some s"
      "spreadPremium (fl_now w) (projr (percentMul_u256 p toProtocol)) (projr (usub p (projr (percentMul_u256 p toProtocol)))) s = Inr (c, s')"
      "updateRatesAt asset total 0 (c, s') w = Inr w1"
      "on_token asset (erc20_transferFrom (fl_pool w1) r (rv_RSTokenAddress s') total) w1 = Inr w2"
      "w' = emit (FlashLoan r caller asset x 0 p code) (handleRepayment asset r total w2)"
    by (auto simp: handleFlashLoanRepayment_def rbind_eq_Inr)
  have token: "rv_RSTokenAddress s' = rv_RSTokenAddress s" "tokenAt w asset = Some (rv_RSTokenAddress s)"
    using w(2) spreadPremium_keeps_token[OF w(3)] by (simp_all add: tokenAt_def)
  have w1: "fl_tokens w1 = fl_tokens w" "tokenAt w1 = tokenAt w"
    using updateRatesAt_keeps[OF w(4)] token by (auto simp: fun_eq_iff)
  from w(5) obtain t t' where t: "fl_tokens w1 asset = Some t"
      "erc20_transferFrom (fl_pool w1) r (rv_RSTokenAddress s') total t = Inr t'" "w2 = w1\<lparr>fl_tokens := (fl_tokens w1)(asset := Some t')\<rparr>"
    by (auto simp: on_token_def rbind_eq_Inr)
  have w2: "tokenAt w' = tokenAt w" "fl_tokens w' = (fl_tokens w)(asset := Some t')"
    using w(6) t(3) w1 by (simp_all add: emit_keeps handleRepayment_keeps)
  have "uint (tk_balances t' (rv_RSTokenAddress s)) = uint (tk_balances t (rv_RSTokenAddress s)) + uint total"
    using erc20_transferFrom_moves[OF t(2)] assms(2) token by auto
  then have "cash asset w' = cash asset w + uint total"
    using w2 t(1) w1(1) token(2) by (simp add: cash_def)
  then show ?thesis using w2 w(1) by (simp add: uadd_iff)
qed

section \<open>All assets of a loan\<close>

text \<open>An asset may be lent more than once in a loan: its cash moves by the sum of what is lent of it.\<close>

lemma release_takes:
  assumes "releaseFunds pt r loans modes w = Inr (ps, w')" "\<forall>m\<in>set modes. m = 0" "\<forall>(a, _)\<in>set loans. tokenAt w a \<noteq> Some r"
  shows "fl_reserves w' = fl_reserves w \<and> length loans \<le> length modes \<and> length ps = length loans \<and>
    (\<forall>b. cash b w' = cash b w - (\<Sum>(a, x)\<leftarrow>loans. if a = b then uint x else 0)) \<and>
    (\<forall>i<length loans. uint (ps ! i) = percentMul (uint (snd (loans ! i))) (uint pt))"
  using assms
proof (induction pt r loans modes w arbitrary: ps w' rule: releaseFunds.induct)
  case (1 pt r modes w)
  then show ?case by simp
next
  case (2 pt r asset x loans w)
  then show ?case by simp
next
  case (3 pt r asset x loans m modes w)
  from "3.prems"(1,2) obtain p v qs where s: "percentMul_u256 x pt = Inr p" "transferUnderlyingTo asset r x w = Inr v"
      "releaseFunds pt r loans modes v = Inr (qs, w')" "ps = p # qs"
    by (auto simp: rbind_eq_Inr interestRateMode_def)
  have v: "fl_reserves v = fl_reserves w" "\<And>b. b \<noteq> asset \<Longrightarrow> fl_tokens v b = fl_tokens w b" "cash asset v = cash asset w - uint x"
    using transferUnderlyingTo_takes[OF s(2)] "3.prems"(3) by auto
  have tv: "tokenAt v = tokenAt w" using v(1) by (simp add: tokenAt_def fun_eq_iff)
  have step: "cash b v = cash b w - (if asset = b then uint x else 0)" for b
    using v(2)[of b] v(3) by (auto simp: tv intro: cash_cong)
  have "fl_reserves w' = fl_reserves v \<and> length loans \<le> length modes \<and> length qs = length loans \<and>
      (\<forall>b. cash b w' = cash b v - (\<Sum>(a, x)\<leftarrow>loans. if a = b then uint x else 0)) \<and>
      (\<forall>i<length loans. uint (qs ! i) = percentMul (uint (snd (loans ! i))) (uint pt))"
    using "3.prems" s by (intro "3.IH"[of m p v, OF _ _ s(2,3)]) (auto simp: interestRateMode_def tv)
  then show ?case
    using v(1) step s(4) percentMul_refines[OF s(1)] by (auto simp: nth_Cons split: nat.split)
qed

lemma settle_returns:
  assumes "foldM (\<lambda>w loan. settleLoan executeBorrow caller params toProtocol loan w) w loans = Inr w'"
    "\<forall>(a, x, m, p)\<in>set loans. m = 0 \<and> tokenAt w a \<noteq> Some (fp_receiverAddress params)"
  shows "tokenAt w' = tokenAt w \<and>
    cash b w' = cash b w + (\<Sum>(a, x, m, p)\<leftarrow>loans. if a = b then uint x + uint p else 0)"
  using assms
proof (induction loans arbitrary: w)
  case Nil
  then show ?case by simp
next
  case (Cons l loans)
  obtain a x m p where l: "l = (a, x, m, p)" by (cases l) auto
  with Cons.prems obtain v where v: "handleFlashLoanRepayment caller a (fp_receiverAddress params) x p toProtocol (fp_referralCode params) w = Inr v"
      "foldM (\<lambda>w loan. settleLoan executeBorrow caller params toProtocol loan w) v loans = Inr w'"
    by (auto simp: settleLoan_def rbind_eq_Inr)
  have one: "tokenAt v = tokenAt w" "\<And>c. c \<noteq> a \<Longrightarrow> fl_tokens v c = fl_tokens w c" "cash a v = cash a w + uint x + uint p"
    using repayment_returns[OF v(1)] Cons.prems(2) l by auto
  have "cash b v = cash b w + (if a = b then uint x + uint p else 0)"
    using one(2)[of b] one(3) by (auto simp: one(1) intro: cash_cong)
  then show ?case using Cons.IH[OF v(2)] Cons.prems(2) l one(1) by auto
qed

lemma drop_modes:
  "length ps \<le> length ms \<Longrightarrow> map (\<lambda>(a, x, m, p). f a x p) (zip as (zip xs (zip ms ps))) = map (\<lambda>(a, x, p). f a x p) (zip as (zip xs ps))"
  by (rule nth_equalityI) auto

text \<open>C38: A flash loan of any assets, the same one listed twice included, all of them with mode 0 (to be repaid at
  once, not turned into a debt), that goes through at all has left the pool with the premiums and nothing else.
  The receiver, called with the amounts and premiums of the loan, has before its call exactly what it borrows, in
  sum over the entries that lend the same asset; after its call the pool takes back that amount and the premiums
  on it, and no other asset moves. Each premium is the percentage of the amount, and nothing for an authorised
  borrower. The receiver's code is an argument; supposed of it are that its address is not that of the token of
  a lent asset, to which the transfers would be no change, and that its call leaves the token address of each
  lent reserve as it was, which only the pool configurator may change.\<close>

theorem flash_loan_earns_premium:
  assumes "flashLoan code executeBorrow caller r assets amounts modes onBehalfOf params referralCode w = Inr w'"
    and "\<forall>m\<in>set modes. m = 0" "code r = Some receiver"
    and "\<forall>a\<in>set assets. tokenAt w a \<noteq> Some r"
    and "\<And>call v accepted v'. receiver call v = Inr (accepted, v') \<Longrightarrow> \<forall>a\<in>set assets. tokenAt v' a = tokenAt v a"
  shows "\<exists>premiums v v'. receiver \<lparr>fc_assets = assets, fc_amounts = amounts, fc_premiums = premiums, fc_initiator = caller,
      fc_params = params\<rparr> v = Inr (True, v') \<and>
    length amounts = length assets \<and> length premiums = length assets \<and>
    (\<forall>i<length assets. uint (premiums ! i) =
       percentMul (uint (amounts ! i)) (if caller \<in> set (fl_flashBorrowers w) then 0 else uint (fl_premiumTotal w))) \<and>
    (\<forall>b. cash b v = cash b w - (\<Sum>(a, x)\<leftarrow>zip assets amounts. if a = b then uint x else 0)) \<and>
    (\<forall>b. cash b w' = cash b v' + (\<Sum>(a, x, p)\<leftarrow>zip assets (zip amounts premiums). if a = b then uint x + uint p else 0))"
proof -
  let ?params = "\<lparr>fp_receiverAddress = r, fp_assets = assets, fp_amounts = amounts, fp_interestRateModes = modes,
        fp_onBehalfOf = onBehalfOf, fp_params = params, fp_referralCode = referralCode,
        fp_flashLoanPremiumToProtocol = ucast (fl_premiumToProtocol w), fp_flashLoanPremiumTotal = ucast (fl_premiumTotal w),
        fp_isAuthorizedFlashBorrower = caller \<in> set (fl_flashBorrowers w)\<rparr>"
  let ?pt = "if caller \<in> set (fl_flashBorrowers w) then 0 else ucast (fl_premiumTotal w) :: u256"
  let ?tp = "if caller \<in> set (fl_flashBorrowers w) then 0 else ucast (fl_premiumToProtocol w) :: u256"
  from assms(1,3) obtain ps v v' where w: "length assets = length amounts"
      "releaseFunds ?pt r (zip assets amounts) modes w = Inr (ps, v)"
      "receiver \<lparr>fc_assets = assets, fc_amounts = amounts, fc_premiums = ps, fc_initiator = caller, fc_params = params\<rparr> v = Inr (True, v')"
      "foldM (\<lambda>w loan. settleLoan executeBorrow caller ?params ?tp loan w) v' (zip assets (zip amounts (zip modes ps))) = Inr w'"
    by (auto simp: flashLoan_def executeFlashLoan_def validateFlashloan_def rbind_eq_Inr Let_def split: if_splits)
  have lent: "\<forall>(a, _)\<in>set (zip assets amounts). tokenAt w a \<noteq> Some r"
    using assms(4) by (auto dest: set_zip_leftD)
  have release: "fl_reserves v = fl_reserves w" "length assets \<le> length modes" "length ps = length assets"
      "\<forall>b. cash b v = cash b w - (\<Sum>(a, x)\<leftarrow>zip assets amounts. if a = b then uint x else 0)"
      "\<forall>i<length assets. uint (ps ! i) = percentMul (uint (amounts ! i)) (uint ?pt)"
    using release_takes[OF w(2) assms(2) lent] w(1) by simp_all
  have token: "\<forall>a\<in>set assets. tokenAt v' a \<noteq> Some r"
    using assms(4) assms(5)[OF w(3)] release(1) by (simp add: tokenAt_def)
  have mem: "\<forall>(a, x, m, p)\<in>set (zip assets (zip amounts (zip modes ps))). m = 0 \<and> tokenAt v' a \<noteq> Some (fp_receiverAddress ?params)"
    using token assms(2) by (auto simp: set_zip)
  have settle: "cash b w' = cash b v' + (\<Sum>(a, x, p)\<leftarrow>zip assets (zip amounts ps). if a = b then uint x + uint p else 0)" for b
    using settle_returns[OF w(4) mem, of b] release(2,3) by (simp only: drop_modes[where f = "\<lambda>a x p. if a = b then uint x + uint p else 0"])
  have "uint ?pt = (if caller \<in> set (fl_flashBorrowers w) then 0 else uint (fl_premiumTotal w))" by simp
  with w(1,3) release(3-5) settle show ?thesis
    by (intro exI[of _ ps] exI[of _ v] exI[of _ v'] conjI allI impI) (simp_all only:)
qed

section \<open>The index\<close>

text \<open>Nothing is earned while the rate is zero.\<close>

lemma income_at_zero_rate:
  assumes "getNormalizedIncome now s = Inr x" "rv_currentLiquidityRate s = 0"
  shows "uint x = uint (rv_liquidityIndex s)"
proof (cases "ucast (rv_lastUpdateTimestamp s) = now")
  case True
  then show ?thesis using assms(1) by (auto simp: getNormalizedIncome_def)
next
  case False
  then obtain i where "calculateLinearInterest_u256 0 (rv_lastUpdateTimestamp s) now = Inr i"
      "rayMul_u256 i (ucast (rv_liquidityIndex s)) = Inr x"
    using assms by (auto simp: getNormalizedIncome_def rbind_eq_Inr)
  then show ?thesis
    using linear_interest_refines[of 0 "rv_lastUpdateTimestamp s" now i] rayMul_refines[of i _ x]
    by (simp add: linear_zero ray_times)
qed

lemma idle_total_supply:
  assumes "totalSupply now s = Inr x" "rv_currentLiquidityRate s = 0" "uint (rv_liquidityIndex s) = RAY"
  shows "uint x = uint (rv_scaledSupply s)"
proof (cases "rv_scaledSupply s = 0")
  case True
  then show ?thesis using assms(1) by (simp add: totalSupply_def)
next
  case False
  then obtain i where "getNormalizedIncome now s = Inr i" "rayMul_u256 (rv_scaledSupply s) i = Inr x"
    using assms(1) by (auto simp: totalSupply_def rbind_eq_Inr)
  then show ?thesis using income_at_zero_rate[of now s i] assms(2,3) rayMul_refines by (auto simp: ray.mul_unit)
qed

lemma idle_update:
  assumes "cache now s = Inr c" "updateState_u256 now (c, s) = Inr (c', s')" "rv_currentLiquidityRate s = 0"
    "rv_scaledVariableDebt s = 0" "rv_principalStableDebt s = 0"
  shows "s' = s\<lparr>rv_lastUpdateTimestamp := rv_lastUpdateTimestamp s'\<rparr>"
proof (cases "rv_lastUpdateTimestamp s = ucast now")
  case True
  then show ?thesis using assms(2) by (simp add: updateState_u256_def)
next
  case False
  have f: "ch_currLiquidityRate c = 0" "ch_currScaledVariableDebt c = 0" "ch_currPrincipalStableDebt c = 0" "ch_currTotalStableDebt c = 0"
    using assms(1,3-5) by (auto simp: cache_fields calcTotalSupply_def)
  from False assms(2) obtain s3 where w: "accrueToTreasury (c, s) = Inr s3" "s' = s3\<lparr>rv_lastUpdateTimestamp := ucast now\<rparr>"
    using f by (auto simp: updateState_u256_def updateIndexes_def updateLiquidityIndex_def updateVariableBorrowIndex_def rbind_eq_Inr)
  have "s3 = s"
  proof (cases "ch_reserveFactor c = 0")
    case True
    then show ?thesis using w(1) by (simp add: accrueToTreasury_def)
  next
    case False
    with w(1) obtain am where am: "amountToMint c = Inr am" "am = 0 \<Longrightarrow> s3 = s"
      by (auto simp: accrueToTreasury_def rbind_eq_Inr split: if_splits)
    from am(1) have "uint am = 0"
      using f by (auto simp: amountToMint_def rbind_eq_Inr word_steps dest!: rayMul_refines percentMul_refines)
    then show ?thesis using am(2) by (simp add: word_zero)
  qed
  then show ?thesis using w(2) by simp
qed

lemma halves: "0 < s \<Longrightarrow> (2 * n + s) div (2 * s) = n div s + (if s \<le> 2 * (n mod s) then 1 else 0)" for n s :: int
proof -
  assume s: "0 < s"
  have "(2 * (n mod s) + s) + n div s * (2 * s) = 2 * (s * (n div s) + n mod s) + s" by (simp only: algebra_simps)
  then have e: "2 * n + s = (2 * (n mod s) + s) + n div s * (2 * s)" by (simp only: mult_div_mod_eq)
  have "(2 * n + s) div (2 * s) = n div s + (2 * (n mod s) + s) div (2 * s)"
    by (subst e, subst div_mult_self1) (use s in simp_all)
  also have "(2 * (n mod s) + s) div (2 * s) = (if s \<le> 2 * (n mod s) then 1 else 0)"
    using s pos_mod_bound[OF s, of n] pos_mod_sign[OF s, of n] by (auto intro: int_div_pos_eq[where r = "2 * (n mod s) - s"] div_pos_pos_trivial)
  finally show ?thesis .
qed

text \<open>C39: The index that the tests expect after a repaid loan, on a reserve that has stood idle as those of the
  first tests have: no debt of either kind, no liquidity rate, nothing accrued to the treasury, a liquidity index of
  exactly one ray and a supply. There the expectation, one plus the premium of the suppliers over the supply,
  rounded down, is the index of the contract exactly when the remainder is less than half of the supply, and
  is one less otherwise: the contract rounds half up. Away from such a reserve the expectation need not hold: it
  leaves out the product with the index before.\<close>

theorem expected_flash_index_rounds_down:
  assumes "spreadPremium now premiumToProtocol premiumToLP s = Inr (c, s')"
    and "rv_currentLiquidityRate s = 0" "rv_scaledVariableDebt s = 0" "rv_principalStableDebt s = 0"
    and "rv_accruedToTreasury s = 0" "uint (rv_liquidityIndex s) = RAY"
    and "totalSupply now s = Inr supplied" "liquidityIndexAdded (uint premiumToLP) (uint supplied) = Inr added"
  shows "uint (rv_liquidityIndex s') = uint (rv_liquidityIndex s) + added +
    (if uint supplied \<le> 2 * ((uint premiumToLP * RAY) mod uint supplied) then 1 else 0)"
proof -
  from assms(1) obtain c0 c1 s1 sup tr tot idx s2 where w: "cache now s = Inr c0" "updateState_u256 now (c0, s) = Inr (c1, s1)"
      "totalSupply now s1 = Inr sup" "rayMul_u256 (ucast (rv_accruedToTreasury s1)) (ch_nextLiquidityIndex c1) = Inr tr"
      "uadd sup tr = Inr tot" "cumulateToLiquidityIndex_u256 tot premiumToLP s1 = Inr (idx, s2)"
      "rv_liquidityIndex s' = rv_liquidityIndex s2"
    by (auto simp: spreadPremium_def rbind_eq_Inr)
  have s1: "s1 = s\<lparr>rv_lastUpdateTimestamp := rv_lastUpdateTimestamp s1\<rparr>" by (rule idle_update[OF w(1,2) assms(2-4)])
  have i1: "rv_currentLiquidityRate s1 = 0" "rv_liquidityIndex s1 = rv_liquidityIndex s" "rv_scaledSupply s1 = rv_scaledSupply s"
      "rv_accruedToTreasury s1 = 0"
    using assms(2,5) by (subst s1, simp)+
  have "uint tr = 0" using rayMul_refines[OF w(4)] i1(4) by simp
  then have tot: "uint tot = uint supplied"
    using w(5) idle_total_supply[OF w(3) i1(1)] idle_total_supply[OF assms(7,2,6)] i1(2,3) assms(6) by (simp add: uadd_iff)
  from w(6) obtain a t q f where q: "wadToRay_u256 premiumToLP = Inr a" "wadToRay_u256 tot = Inr t" "rayDiv_u256 a t = Inr q"
      "uadd q RAY_u256 = Inr f" "rayMul_u256 f (ucast (rv_liquidityIndex s)) = Inr idx" "uint (rv_liquidityIndex s2) = uint idx"
    using i1(2) by (auto simp: cumulateToLiquidityIndex_u256_def rbind_eq_Inr toUint128_iff)
  have "uint supplied \<noteq> 0" using assms(8) by (simp add: liquidityIndexAdded_def bn_div_def split: if_splits)
  then have pos: "0 < uint supplied" using uint_ge_0[of supplied] by linarith
  have "rayDiv (uint premiumToLP * 1000000000) (uint supplied * 1000000000) = Inr (uint q)"
    using rayDiv_refines[OF q(3)] q(1,2) tot by (simp add: wadToRay_iff wadToRay_def const_simps)
  then have "uint q = ((uint supplied * 1000000000) div 2 + uint premiumToLP * 1000000000 * RAY) div (uint supplied * 1000000000)"
    using pos by (simp add: ray.dv_div)
  also have "\<dots> = (500000000 * (2 * (uint premiumToLP * RAY) + uint supplied)) div (500000000 * (2 * uint supplied))"
    by (simp add: algebra_simps)
  also have "\<dots> = (2 * (uint premiumToLP * RAY) + uint supplied) div (2 * uint supplied)" by (rule div_mult_mult1) simp
  finally have uq: "uint q = (uint premiumToLP * RAY) div uint supplied +
      (if uint supplied \<le> 2 * ((uint premiumToLP * RAY) mod uint supplied) then 1 else 0)"
    by (simp only: halves[OF pos])
  have d: "added = (uint premiumToLP * RAY) div uint supplied"
    using assms(8) pos by (simp add: liquidityIndexAdded_def bn_div_def bn.quot_eq_div const_simps split: if_splits)
  have "uint idx = uint q + RAY"
    using rayMul_refines[OF q(5)] q(4) assms(6) by (simp add: uadd_iff uint_RAY ray.mul_unit)
  then show ?thesis using uq d q(6) w(7) assms(6) by simp
qed

section \<open>Disabled loans\<close>

lemma flash_flag_set:
  "getFlashLoanEnabled (setFlashLoanEnabled_bits d b) = b" "getPaused (setFlashLoanEnabled_bits d b) = getPaused d"
  "getActive (setFlashLoanEnabled_bits d b) = getActive d"
proof -
  have g: "getField f (setFlashLoanEnabled_bits d b) = (if f = InFlashLoanEnabled then of_bool b else getField f d)" for f
    by (rule getField_setField) simp
  have same: "of_bool p = (of_bool q :: u256) \<longleftrightarrow> p = q" for p q by (cases p; cases q) simp_all
  show "getFlashLoanEnabled (setFlashLoanEnabled_bits d b) = b" "getPaused (setFlashLoanEnabled_bits d b) = getPaused d"
    "getActive (setFlashLoanEnabled_bits d b) = getActive d"
    using g[of InFlashLoanEnabled] g[of InPaused] g[of InActive] by (simp_all add: same)
qed

lemma totalSupply_configured: "totalSupply now (s\<lparr>rv_configuration := d\<rparr>) = totalSupply now s"
  by (simp add: totalSupply_def getNormalizedIncome_def)

text \<open>C40: The test that disables and enables the flash loans of an asset passes on every pool on which its sender
  may configure the reserve, as a risk or a pool admin, and the reserve is active and not paused: while disabled
  the loan is refused with \<open>FLASHLOAN_DISABLED\<close>, whatever its receiver is, and afterwards the reserve is as before
  but for the flag, which is set. Mining a block is supposed to move nothing but the time, and the total supply
  of the token, which the test reads for the amount, to be returned (not to overflow) in the block after the
  first transaction.\<close>

theorem disabled_loans_are_refused:
  assumes "fl_reserves w (fe_weth env) = Some s" "getActive (rv_configuration s)" "\<not> getPaused (rv_configuration s)"
    and "fe_deployer env \<in> set (fl_riskAdmins w) \<union> set (fl_poolAdmins w)" and "\<And>w. \<exists>t. fe_mine env w = w\<lparr>fl_now := t\<rparr>"
    and "ok (totalSupply (fl_now (fe_mine env w)) s)"
  shows "\<exists>w'. disablesLoans env w = Inr w' \<and>
    fl_reserves w' = (fl_reserves w)(fe_weth env \<mapsto> s\<lparr>rv_configuration := setFlashLoanEnabled_bits
      (setFlashLoanEnabled_bits (rv_configuration s) False) True\<rparr>)"
proof -
  obtain t1 where t1: "fe_mine env w = w\<lparr>fl_now := t1\<rparr>" using assms(5) by blast
  let ?s1 = "s\<lparr>rv_configuration := setFlashLoanEnabled_bits (rv_configuration s) False\<rparr>"
  let ?w1 = "emit (ReserveFlashLoaning (fe_weth env) False) (put_reserve (fe_weth env) ?s1 (w\<lparr>fl_now := t1\<rparr>))"
  obtain t2 where t2: "fe_mine env ?w1 = ?w1\<lparr>fl_now := t2\<rparr>" using assms(5) by blast
  obtain x where x: "totalSupply t1 s = Inr x" using assms(6) t1 by (auto simp: ok_iff)
  have w1: "send env (setFlashLoaning (fe_deployer env) (fe_weth env) False) w = Inr ?w1"
    using assms(1,4) t1 by (simp add: send_def setFlashLoaning_def contractAt_def)
  have r1: "fl_reserves ?w1 (fe_weth env) = Some ?s1" "fl_now ?w1 = t1" by (simp_all add: emit_def put_reserve_def)
  have enabled: "flashLoanEnabled (fe_weth env) ?w1 = Inr False"
    using r1 by (simp add: flashLoanEnabled_def contractAt_def flash_flag_set)
  obtain d where d: "getReserveData_flash (fe_weth env) ?w1 = Inr d"
    using r1 x by (simp add: getReserveData_flash_def contractAt_def totalSupply_configured)
  have "testFlashLoan env c r [fe_weth env] [y] [0] b (?w1\<lparr>fl_now := t2\<rparr>) = Inl (Reverted ''91'')" for c r y b
    using r1(1) assms(2,3)
    by (simp add: testFlashLoan_def flashLoan_def executeFlashLoan_def validateFlashloan_def validateFlashloanSimple_def Let_def flash_flag_set)
  then have refused: "expectReverted env (protocolError ''FLASHLOAN_DISABLED'') (testFlashLoan env (fe_deployer env)
      (fe_mockFlashLoanReceiver env) [fe_weth env] [word_of_int (fd_totalRSToken d)] [0] (fe_mockFlashLoanReceiver env)) ?w1 = Inr ?w1"
    using t2 by (simp add: expectReverted_def send_def protocolError_def ProtocolErrors_def expect_def)
  let ?s2 = "s\<lparr>rv_configuration := setFlashLoanEnabled_bits (setFlashLoanEnabled_bits (rv_configuration s) False) True\<rparr>"
  let ?w2 = "emit (ReserveFlashLoaning (fe_weth env) True) (put_reserve (fe_weth env) ?s2 (?w1\<lparr>fl_now := t2\<rparr>))"
  have w2: "send env (setFlashLoaning (fe_deployer env) (fe_weth env) True) ?w1 = Inr ?w2"
    using r1(1) assms(4) t2 by (simp add: send_def setFlashLoaning_def contractAt_def) (simp add: emit_def put_reserve_def)
  have e2: "events_since ?w1 ?w2 = [ReserveFlashLoaning (fe_weth env) True]" by (simp add: events_since_def emit_def put_reserve_def)
  have f2: "flashLoanEnabled (fe_weth env) ?w2 = Inr True"
    by (simp add: flashLoanEnabled_def contractAt_def flash_flag_set emit_def put_reserve_def)
  have "disablesLoans env w = Inr ?w2"
    by (simp only: disablesLoans_def Let_def w1 enabled d refused w2 e2 f2 rbind_Inr expect_def ensure_eq_Inr) simp
  then show ?thesis by (intro exI[of _ ?w2]) (simp add: emit_def put_reserve_def)
qed

end
