(* ===== verification/FlashLoanRun.thy ===== *)
theory FlashLoanRun
  imports FlashLoanProps
begin

text \<open>A pool with one unit of one asset, none of it lent, for the witnesses of the flash loans.\<close>

definition flash_strategy :: rate_strategy where
  "flash_strategy = \<lparr>OPTIMAL_USAGE_RATIO = 450000000000000000000000000, MAX_EXCESS_USAGE_RATIO = 550000000000000000000000000,
     OPTIMAL_STABLE_TO_TOTAL_DEBT_RATIO = 200000000000000000000000000,
     MAX_EXCESS_STABLE_TO_TOTAL_DEBT_RATIO = 800000000000000000000000000, rs_baseVariableBorrowRate = 0,
     rs_variableRateSlope1 = 70000000000000000000000000, rs_variableRateSlope2 = 3000000000000000000000000000,
     rs_stableRateSlope1 = 70000000000000000000000000, rs_stableRateSlope2 = 3000000000000000000000000000,
     rs_baseStableRateOffset = 20000000000000000000000000, rs_stableRateExcessOffset = 50000000000000000000000000\<rparr>"

definition supplied_reserve :: "string \<Rightarrow> u256 \<Rightarrow> reserve_storage" where
  "supplied_reserve token amount = \<lparr>rv_configuration = push_bit 56 1 OR push_bit 63 1 OR push_bit 64 1000,
     rv_liquidityIndex = 1000000000000000000000000000, rv_currentLiquidityRate = 0,
     rv_variableBorrowIndex = 1000000000000000000000000000, rv_currentVariableBorrowRate = 0,
     rv_currentStableBorrowRate = 0, rv_lastUpdateTimestamp = 1700000000, rv_accruedToTreasury = 0, rv_unbacked = 0,
     rv_RSTokenAddress = token, rv_strategy = flash_strategy, rv_scaledSupply = amount, rv_scaledVariableDebt = 0,
     rv_principalStableDebt = 0, rv_avgStableRate = 0, rv_stableTimestamp = 0\<rparr>"

definition supplied_token :: "string \<Rightarrow> u256 \<Rightarrow> erc20" where
  "supplied_token token amount = \<lparr>tk_balances = (\<lambda>a. if a = token then amount else 0), tk_allowances = (\<lambda>_ _. 0),
     tk_totalSupply = amount\<rparr>"

definition flash_start :: flash_world where
  "flash_start = \<lparr>fl_now = 1700000100, fl_pool = ''p'',
     fl_reserves = [''w'' \<mapsto> supplied_reserve ''W'' 1000000000000000000],
     fl_tokens = [''w'' \<mapsto> supplied_token ''W'' 1000000000000000000],
     fl_treasury = (\<lambda>_. (0, 0)), fl_premiumTotal = 5, fl_premiumToProtocol = 0, fl_flashBorrowers = [],
     fl_poolAdmins = [''d''], fl_riskAdmins = [], fl_mocked = [''e''],
     fl_receiver = \<lparr>mk_failExecution = False, mk_amountToApprove = 0, mk_simulateEOA = False\<rparr>, fl_events = []\<rparr>"

definition flash_env :: flash_env where
  "flash_env = \<lparr>fe_weth = ''w'', fe_rusd = ''r'', fe_cgo = ''c'', fe_eurs = ''e'',
     fe_mockFlashLoanReceiver = ''m'', fe_deployer = ''d'',
     fe_users = [''0'', ''1'', ''2'', ''3''],
     fe_code = [''m'' \<mapsto> mockExecuteOperation ''m''],
     fe_executeBorrow = (\<lambda>_ _. Inl (Reverted ''34'')),
     fe_mine = (\<lambda>w. w\<lparr>fl_now := fl_now w + 1\<rparr>)\<rparr>"

text \<open>The receiver of the tests leaves the reserves alone.\<close>

lemma on_token_keeps: "on_token a f w = Inr w' \<Longrightarrow> tokenAt w' = tokenAt w"
  by (auto simp: on_token_def rbind_eq_Inr)

lemma mockReturnFunds_keeps: "mockReturnFunds self assets amounts premiums w = Inr w' \<Longrightarrow> tokenAt w' = tokenAt w"
proof (induction self assets amounts premiums w rule: mockReturnFunds.induct)
  case (2 self asset assets amount amounts premium premiums w)
  from "2.prems" obtain b x v1 v2 where v: "balance_of asset self w = Inr b" "amount \<le> b"
      "(if mk_amountToApprove (fl_receiver w) \<noteq> 0 then Inr (mk_amountToApprove (fl_receiver w)) else uadd amount premium) = Inr x"
      "on_token asset (erc20_mint self premium) w = Inr v1" "on_token asset (erc20_approve self (fl_pool v1) x) v1 = Inr v2"
      "mockReturnFunds self assets amounts premiums v2 = Inr w'"
    by (auto simp: rbind_eq_Inr split del: if_split)
  have "tokenAt w' = tokenAt v2" using v by (intro "2.IH") auto
  then show ?case using on_token_keeps[OF v(4)] on_token_keeps[OF v(5)] by simp
qed auto

lemma mock_keeps: "mockExecuteOperation self call v = Inr (accepted, v') \<Longrightarrow> tokenAt v' = tokenAt v"
  by (auto simp: mockExecuteOperation_def rbind_eq_Inr emit_keeps split: if_splits dest: mockReturnFunds_keeps)

abbreviation priced_start :: flash_world where
  "priced_start \<equiv> flash_start\<lparr>fl_premiumTotal := 9, fl_premiumToProtocol := 3000\<rparr>"

definition weth_loan :: "flash_world result" where
  "weth_loan = flashLoan (fe_code flash_env) (fe_executeBorrow flash_env) ''d'' ''m'' [''w''] [800000000000000000]
     [0] ''m'' ''0x10'' 0 priced_start"

lemma weth_loan_returns: "\<not> isl weth_loan"
  by code_simp

theorem flash_loan_earns_premium_witness:
  "\<exists>premiums v v'. mockExecuteOperation ''m'' \<lparr>fc_assets = [''w''], fc_amounts = [800000000000000000],
      fc_premiums = premiums, fc_initiator = ''d'', fc_params = ''0x10''\<rparr> v = Inr (True, v') \<and>
    uint (premiums ! 0) = 720000000000000 \<and> cash ''w'' v = 200000000000000000 \<and>
    cash ''w'' (projr weth_loan) = cash ''w'' v' + 800720000000000000"
proof -
  have run: "flashLoan (fe_code flash_env) (fe_executeBorrow flash_env) ''d'' ''m'' [''w''] [800000000000000000]
      [0] ''m'' ''0x10'' 0 priced_start = Inr (projr weth_loan)"
    using weth_loan_returns by (cases weth_loan) (simp_all add: weth_loan_def)
  have d: "\<forall>m\<in>set [0 :: u256]. m = 0" "fe_code flash_env ''m'' = Some (mockExecuteOperation ''m'')"
      "\<forall>a\<in>set [''w'']. tokenAt priced_start a \<noteq> Some ''m''"
    by (simp_all add: flash_env_def flash_start_def tokenAt_def supplied_reserve_def)
  have n: "percentMul 800000000000000000 9 = 720000000000000" "cash ''w'' priced_start = 1000000000000000000"
      "''d'' \<notin> set (fl_flashBorrowers priced_start)" "uint (fl_premiumTotal priced_start) = 9"
    by code_simp+
  have "\<exists>premiums v v'. mockExecuteOperation ''m'' \<lparr>fc_assets = [''w''], fc_amounts = [800000000000000000],
      fc_premiums = premiums, fc_initiator = ''d'', fc_params = ''0x10''\<rparr> v = Inr (True, v') \<and>
    length [800000000000000000 :: u256] = length [''w''] \<and> length premiums = length [''w''] \<and>
    (\<forall>i<length [''w'']. uint (premiums ! i) = percentMul (uint ([800000000000000000 :: u256] ! i))
         (if ''d'' \<in> set (fl_flashBorrowers priced_start) then 0 else uint (fl_premiumTotal priced_start))) \<and>
    (\<forall>b. cash b v = cash b priced_start - (\<Sum>(a, x)\<leftarrow>zip [''w''] [800000000000000000 :: u256]. if a = b then uint x else 0)) \<and>
    (\<forall>b. cash b (projr weth_loan) = cash b v' +
       (\<Sum>(a, x, p)\<leftarrow>zip [''w''] (zip [800000000000000000 :: u256] premiums). if a = b then uint x + uint p else 0))"
    by (rule flash_loan_earns_premium[OF run d]) (drule mock_keeps, simp)
  then obtain premiums v v' where
      p: "mockExecuteOperation ''m'' \<lparr>fc_assets = [''w''], fc_amounts = [800000000000000000],
         fc_premiums = premiums, fc_initiator = ''d'', fc_params = ''0x10''\<rparr> v = Inr (True, v')"
      "length premiums = length [''w'']"
      "\<forall>i<length [''w'']. uint (premiums ! i) = percentMul (uint ([800000000000000000 :: u256] ! i))
         (if ''d'' \<in> set (fl_flashBorrowers priced_start) then 0 else uint (fl_premiumTotal priced_start))"
      "\<forall>b. cash b v = cash b priced_start - (\<Sum>(a, x)\<leftarrow>zip [''w''] [800000000000000000 :: u256]. if a = b then uint x else 0)"
      "\<forall>b. cash b (projr weth_loan) = cash b v' +
         (\<Sum>(a, x, p)\<leftarrow>zip [''w''] (zip [800000000000000000 :: u256] premiums). if a = b then uint x + uint p else 0)"
    by (elim exE conjE) (rule that; assumption)
  from p(2) obtain q where q: "premiums = [q]" by (auto simp: length_Suc_conv)
  have "uint q = 720000000000000" using p(3) q n(1,3,4) by simp
  moreover have "cash ''w'' v = 200000000000000000" using p(4) n(2) by simp
  moreover have "cash ''w'' (projr weth_loan) = cash ''w'' v' + (800000000000000000 + uint q)" using p(5) q by simp
  ultimately show ?thesis using p(1) q by (intro exI[of _ premiums] exI[of _ v] exI[of _ v']) simp
qed

lemma idle_spread:
  "case spreadPremium 1700000200 216000000000000 504000000000001 (supplied_reserve ''W'' 700000000000000000) of
     Inl _ \<Rightarrow> False | Inr (c, s) \<Rightarrow> uint (rv_liquidityIndex s) = 1000720000000000001428571429"
  by code_simp

theorem expected_flash_index_rounds_down_witness:
  "\<exists>c s. spreadPremium 1700000200 216000000000000 504000000000001 (supplied_reserve ''W'' 700000000000000000) = Inr (c, s) \<and>
     liquidityIndexAdded 504000000000001 700000000000000000 = Inr 720000000000001428571428 \<and>
     uint (rv_liquidityIndex s) = 1000000000000000000000000000 + 720000000000001428571428 + 1"
proof -
  let ?s = "supplied_reserve ''W'' 700000000000000000"
  obtain c s where run: "spreadPremium 1700000200 216000000000000 504000000000001 ?s = Inr (c, s)"
    using idle_spread by (auto split: sum.splits)
  have a: "totalSupply 1700000200 ?s = Inr 700000000000000000"
    "liquidityIndexAdded (uint (504000000000001 :: u256)) (uint (700000000000000000 :: u256)) = Inr 720000000000001428571428"
    by code_simp+
  have i: "rv_currentLiquidityRate ?s = 0" "rv_scaledVariableDebt ?s = 0" "rv_principalStableDebt ?s = 0"
    "rv_accruedToTreasury ?s = 0" "uint (rv_liquidityIndex ?s) = RAY"
    by (simp_all add: supplied_reserve_def const_simps)
  from expected_flash_index_rounds_down[OF run i a] run a(2) i(5) show ?thesis by (simp add: const_simps)
qed

theorem disabled_loans_are_refused_witness: "\<exists>w'. disablesLoans flash_env flash_start = Inr w'"
proof -
  let ?s = "supplied_reserve ''W'' 1000000000000000000"
  have h: "fl_reserves flash_start (fe_weth flash_env) = Some ?s" "fe_deployer flash_env \<in> set (fl_riskAdmins flash_start) \<union> set (fl_poolAdmins flash_start)"
    by (simp_all add: flash_start_def flash_env_def)
  have a: "getActive (rv_configuration ?s)" "\<not> getPaused (rv_configuration ?s)"
    "ok (totalSupply (fl_now (fe_mine flash_env flash_start)) ?s)"
    by code_simp+
  have m: "\<And>w. \<exists>t. fe_mine flash_env w = w\<lparr>fl_now := t\<rparr>" by (auto simp: flash_env_def)
  from disabled_loans_are_refused[OF h(1) a(1,2) h(2) m a(3)] show ?thesis by blast
qed

end
