(* ===== verification/Spec2Isabelle.thy ===== *)
theory Spec2Isabelle
  imports BookkeepingSlips RateProps ScenarioProps TokenFlow EnumProps MarketProps InitProps ConfigureProps HandoverProps AfterDeploy RateBounds HelperRun TokenUpgrade NodeHelpers FlashLoanRun
begin

text \<open>
  A verification library for the TypeScript of the RASA lending platform, a fork of Aave v3. The
  contracts are Solidity; the TypeScript around them does four things. Its test suites replay the
  arithmetic of the protocol: for each action of a scenario they compute the reserve and the user
  position that should result, send the transaction and compare. Its helpers read the market
  configuration and initialise and configure the reserves of a pool. Its deployment scripts bring a market
  to a chain. Its tasks administer a deployed market. All four are modelled here, with the contracts that
  they rest on: the arithmetic and the accounting, the access control, the configuration of the reserves,
  the registries, the price oracle and the flash loans.

  The parts and where they are.

  \<^item> Shared layer. \<open>Prelude\<close>: errors as values (\<open>js_error + 'a\<close>), sequencing, loops that may throw,
    JavaScript objects as insertion-ordered dictionaries. \<open>Transactions\<close>: scripts whose earlier
    transactions stay on the chain when a later step throws. \<open>Words\<close>: the 256-bit words of the contracts,
    with the arithmetic that reverts instead of wrapping round.
  \<^item> Arithmetic, \<open>test-suites/helpers/utils/wadraymath.ts\<close> and \<open>helpers/constants.ts\<close>: \<open>Constants\<close>,
    \<open>WadRayMath\<close>. A \<open>BigNumber\<close> is an unbounded integer, as in the source, and its division
    truncates towards zero. The locale \<open>fixed_point\<close>, over \<open>truncating_division\<close>, states the laws of
    half-up multiplication and division once; it is interpreted for rays, wads and percentages.
  \<^item> Calculations, \<open>test-suites/helpers/utils/calculations.ts\<close>: \<open>ReserveTypes\<close> (objects as records of
    options, \<open>None\<close> is \<open>undefined\<close>), \<open>Interest\<close>, \<open>Rates\<close>, \<open>ReserveUpdate\<close>, \<open>ReserveCalc\<close>,
    \<open>UserCalc\<close>: one definition per function, every branch. \<open>ReserveFacts\<close> has what the reserve
    calculations share (the accrual, the frame, the settled totals), \<open>ReserveTotal\<close> that they return
    a value for every feasible input, the whole balance and the whole debt included, \<open>ReserveProps\<close> and \<open>UserProps\<close> the properties, \<open>RateProps\<close> those of the rates,
    \<open>BookkeepingSlips\<close> three places where the expected user data is not the balance it stands for.
    \<open>Demo\<close> holds the numbers of the witnesses.
  \<^item> The same calculations in the contracts. \<open>ContractMath\<close> is \<open>WadRayMath.sol\<close> and
    \<open>PercentageMath.sol\<close> on words; the locale \<open>fixed_point_words\<close> extends \<open>fixed_point\<close> by what a word
    can hold and says when each operation returns, and what. \<open>RateContract\<close> is
    \<open>DefaultReserveInterestRateStrategy.sol\<close>; \<open>RateBounds\<close> proves that its rates are the expected ones
    and that it returns for every realistic input. \<open>ReserveContract\<close> is \<open>MathUtils.sol\<close> and
    \<open>ReserveLogic.sol\<close>; \<open>ReserveContractProps\<close> proves that the state the tests expect after time has
    passed is the state that the contract stores. \<open>ScaledToken\<close> is minting, burning and transferring in
    \<open>ScaledBalanceTokenBase.sol\<close>, \<open>MintableIncentivizedERC20.sol\<close>, \<open>IncentivizedERC20.sol\<close> and
    \<open>RSToken.sol\<close>, with the events; its supply is the sum of its balances.
  \<^item> Flash loans. \<open>FlashLoanContract\<close> is \<open>FlashLoanLogic.sol\<close> behind \<open>Pool.sol\<close>, over these reserves and
    over tokens of \<open>ERC20.sol\<close>, for an arbitrary receiver; \<open>FlashLoanTests\<close> are the tests of
    \<open>pool-flashloan.spec copy.ts\<close> that are repaid or revert. \<open>FlashLoanProps\<close> follows the cash of the pool
    and relates the index that the tests expect to the one of the contract; \<open>FlashLoanRun\<close> has the witnesses.
  \<^item> Actions and scenarios, \<open>test-suites/helpers/actions.ts\<close>, \<open>scenario-engine.ts\<close>,
    \<open>utils/helpers.ts\<close>, \<open>utils/wallets.ts\<close>: \<open>Chain\<close> (the node and the contracts as a parameter with
    a world that transactions change), \<open>Compare\<close> (the tolerant comparison; the locale
    \<open>comparison\<close> is interpreted for reserves and for users), \<open>Actions\<close>, \<open>ScenarioEngine\<close>;
    \<open>ActionProps\<close> says what a passed action implies, \<open>ScenarioProps\<close> what a story sends, over the
    inductive relations \<open>runs\<close> and \<open>evolves\<close>. \<open>TestSuite\<close> is \<open>test-suites/helpers/make-suite.ts\<close>: the
    environment and the snapshots that let every suite start from the state after the setup.
  \<^item> Token events, \<open>utils/tokenization-events.ts\<close> and \<open>matchEvent\<close>: \<open>Events\<close>, \<open>TokenEvents\<close>;
    \<open>EventProps\<close> decides the lookup, \<open>TokenFlow\<close> sets the expected events against those that \<open>ScaledToken\<close>
    emits, and their transfers, as a flow of tokens, against the balances before and after.
  \<^item> Configuration, \<open>helpers/types.ts\<close>, \<open>deploy-ids.ts\<close>, \<open>env.ts\<close>, \<open>utilities/utils.ts\<close>,
    \<open>market-config-helpers.ts\<close> and \<open>markets/eth\<close>: \<open>ProtocolTypes\<close>, \<open>DeployIds\<close>, \<open>Utils\<close>,
    \<open>MarketConfig\<close>, \<open>EthereumMarket\<close>; \<open>EnumProps\<close> and \<open>MarketProps\<close> have their properties.
    \<open>NetworkConfig\<close> is \<open>hardhat.config.ts\<close> and \<open>hardhat-config-helpers.ts\<close>.
  \<^item> Reserve initialisation, \<open>helpers/init-helpers.ts\<close>: \<open>InitReserves\<close>; \<open>InitProps\<close> proves the
    script equal to one pass over the reserves and idempotent, \<open>ConfigureProps\<close> follows the
    temporary role of the setup helper. \<open>DeployDemo\<close> is the chain of the witnesses.
  \<^item> The configuration of a reserve on the chain. \<open>ReserveBits\<close> is the word of
    \<open>ReserveConfiguration.sol\<close>; the locales \<open>packed\<close> and \<open>packed_flag\<close> are interpreted for every field
    and give that no setter touches another field. \<open>Configurator\<close> has the setters of
    \<open>PoolConfigurator.sol\<close> behind their guards and the readers of \<open>ProtocolDataProvider.sol\<close>.
    \<open>SetupTasks\<close> and \<open>ReviewTasks\<close> are the tasks over it and \<open>AfterDeploy\<close> the hook
    \<open>deploy/01-after-deploy.ts\<close>; \<open>TaskProps\<close> has what they send and leave behind, with the locale
    \<open>asset_setting\<close> for a setting of each asset. \<open>PoolDemo\<close> is the pool of the witnesses.
  \<^item> Administration. \<open>AccessControl\<close> is \<open>AccessControl.sol\<close>, \<open>Ownable.sol\<close> and \<open>ACLManager.sol\<close>; the
    locale \<open>owned\<close> is interpreted for the contracts that have an owner. \<open>Handover\<close> has the script that
    sets the administrators up and the tasks that hand the protocol over and renounce; \<open>HandoverProps\<close>
    follows the roles through them; \<open>RoleView\<close> is the table of roles of \<open>view-protocol-roles.ts\<close>.
  \<^item> Deployment, everything under \<open>deploy\<close>. \<open>ProviderRegistry\<close> is \<open>PoolAddressesProvider.sol\<close> and
    \<open>PoolAddressesProviderRegistry.sol\<close>, \<open>OracleContract\<close> is \<open>RASAOracle.sol\<close>, \<open>DeployWorld\<close> the chain
    of deployed contracts with the saved deployments, \<open>MarketDeploy\<close> and \<open>PeripheryDeploy\<close> the scripts.
    \<open>DeployProps\<close>, \<open>DeployAcl\<close>, \<open>DeployOnce\<close> and \<open>OracleProps\<close> say what each script leaves behind and
    which can be run again. \<open>ContractGetters\<close> and \<open>ContractDeployments\<close> are
    \<open>helpers/contract-getters.ts\<close> and \<open>contract-deployments.ts\<close>; \<open>HelperProps\<close> relates them to the
    scripts. \<open>TokenUpgrade\<close> and \<open>OtherTasks\<close> are the tasks that run on this chain. \<open>DeployRun\<close> and
    \<open>HelperRun\<close> run them for the witnesses.
  \<^item> Helpers around the node, \<open>utilities/tx.ts\<close>, \<open>misc-utils.ts\<close>, \<open>utilities/fork.ts\<close>,
    \<open>utilities/signer.ts\<close>, \<open>utilities/defender.ts\<close>, \<open>contracts-helpers.ts\<close>: \<open>NodeHelpers\<close>.

  How the parts meet. An action reads the state through \<open>Chain\<close>, submits a transaction, reads again
  and hands both states to the calculations and to \<open>Compare\<close>; a story runs actions one after the
  other. The market's rate strategies are the parameters of the rate calculation: the bounds of
  \<open>Rates\<close> become numbers for the Ethereum market, and the same numbers deploy the rate strategy of the
  contracts. The initialisation takes its addresses, names and batches from \<open>MarketConfig\<close>, \<open>DeployIds\<close>
  and \<open>Utils\<close>; the deployment scripts take their names there, find earlier contracts in the saved
  deployments, and leave the registry, the oracle and the roles that the tasks and getters read.
  \<open>DeployAcl\<close> relates the chain of contracts to the smaller chain of administrators and says who holds
  which role after the script.

  Three abstract specifications are refined: an account of supply and debt by the reserve calculations,
  a numbering of providers by the registry, and the settings of each asset by the calls to the configurator.
  The calculations are in turn what the accounting of the contracts refines.

  Bounds. There is no fuel: every loop of the modelled code runs over a list and is structural
  recursion or a fold, and the one reference that is not (\<open>chunks\<close>) has a termination proof.
  In the TypeScript amounts, rates and indexes are not bounded; hypotheses say where they must not be
  negative. In the contracts they are words of their width, and what does not fit reverts: the rate
  calculation is proved to return for amounts below \<open>2^112\<close>, rates below \<open>2^96\<close> (about 79 rays) and a
  reserve factor of at most 100%, and the accounting agrees with the tests wherever it returns.

  Parameters. The node, ethers, the addresses that a deployment gets, the artifacts of hardhat-deploy,
  the deployment files, the hash function of the roles, the environment and the outside services are
  arguments of the definitions. Where a property depends on what one of them or a contract that is not
  modelled does, a named hypothesis states it: \<open>init_contract\<close> and \<open>role_contract\<close> for the
  initialisation of reserves on an unknown pool, \<open>snapshot_laws\<close> for the node under the test suites.

  Not modelled: the lending operations of the pool in Solidity (supply, borrow, repay, liquidation and
  bridging); of its tokens the stable debt, allowances and permits; the mocha
  suites, which are lists of calls and assertions against a node, apart from the flash-loan tests above; the
  interfaces of \<open>types.ts\<close> that only the type checker uses; the settings of the compiler, the gas reporter
  and the local node; waiting for receipts, random addresses, \<open>topUpNonPayableWithEther\<close> and
  \<open>deployMockInitializableFromConstructorImple\<close>; messages written to the console.
\<close>

end
